(* ===== verification/Prelude.thy ===== *)
theory Prelude
  imports Main "HOL-Library.AList" "HOL-Library.Sublist"
begin

text \<open>
  What every component of the development shares: the JavaScript string and array operations the
  TypeScript sources use, plain objects as association lists in insertion order, and the lemmas
  the component proofs rest on. The interfaces between components are the locales of the theory
  Interfaces.

  A JavaScript string is modelled by its UTF-8 bytes, a \<^typ>\<open>string\<close>. Case mapping, trimming and
  the character classes of regular expressions act on the ASCII range; every other operation used
  by the sources (concatenation, comparison, searching and cutting at an ASCII character) gives
  the same result on the bytes as on the UTF-16 code units.
\<close>

named_theorems js_simps \<open>evaluation rules of the modelled JavaScript library\<close>
named_theorems store_defs \<open>definitions of store actions\<close>


section \<open>Characters and strings\<close>

definition is_ws :: "char \<Rightarrow> bool" where
  "is_ws c \<longleftrightarrow> c \<in> {CHR 0x09, CHR 0x0A, CHR 0x0B, CHR 0x0C, CHR 0x0D, CHR '' ''}"

definition char_between :: "char \<Rightarrow> char \<Rightarrow> char \<Rightarrow> bool" where
  "char_between lo hi c \<longleftrightarrow> of_char lo \<le> (of_char c :: nat) \<and> (of_char c :: nat) \<le> of_char hi"

definition is_digit :: "char \<Rightarrow> bool" where
  "is_digit c \<longleftrightarrow> char_between (CHR ''0'') (CHR ''9'') c"

definition is_upper :: "char \<Rightarrow> bool" where
  "is_upper c \<longleftrightarrow> char_between (CHR ''A'') (CHR ''Z'') c"

definition is_alpha :: "char \<Rightarrow> bool" where
  "is_alpha c \<longleftrightarrow> is_upper c \<or> char_between (CHR ''a'') (CHR ''z'') c"

definition is_word :: "char \<Rightarrow> bool" where
  "is_word c \<longleftrightarrow> is_alpha c \<or> is_digit c \<or> c = CHR ''_''"

text \<open>Bit 5 tells an upper-case ASCII letter from its lower-case form.\<close>

definition lower_char :: "char \<Rightarrow> char" where
  "lower_char c = (if is_upper c
     then (case c of Char b0 b1 b2 b3 b4 b5 b6 b7 \<Rightarrow> Char b0 b1 b2 b3 b4 True b6 b7) else c)"

definition js_toLowerCase :: "string \<Rightarrow> string" where
  "js_toLowerCase s = map lower_char s"

definition upper_char :: "char \<Rightarrow> char" where
  "upper_char c = (if char_between (CHR ''a'') (CHR ''z'') c
     then (case c of Char b0 b1 b2 b3 b4 b5 b6 b7 \<Rightarrow> Char b0 b1 b2 b3 b4 False b6 b7) else c)"

definition js_toUpperCase :: "string \<Rightarrow> string" where
  "js_toUpperCase s = map upper_char s"

definition js_trim :: "string \<Rightarrow> string" where
  "js_trim s = rev (dropWhile is_ws (rev (dropWhile is_ws s)))"

text \<open>\<open>s.replace(/c/g, r)\<close> for a single character \<open>c\<close>.\<close>

definition js_replaceAll :: "char \<Rightarrow> string \<Rightarrow> string \<Rightarrow> string" where
  "js_replaceAll c r s = concat (map (\<lambda>d. if d = c then r else [d]) s)"

text \<open>\<open>s.split(c)\<close> for a single character \<open>c\<close>: never empty.\<close>

fun js_split :: "char \<Rightarrow> string \<Rightarrow> string list" where
  "js_split c [] = [[]]"
| "js_split c (d # ds) =
     (if d = c then [] # js_split c ds
      else (case js_split c ds of [] \<Rightarrow> [[d]] | w # ws \<Rightarrow> (d # w) # ws))"

text \<open>\<open>xs.join(sep)\<close>.\<close>

fun js_join :: "string \<Rightarrow> string list \<Rightarrow> string" where
  "js_join sep [] = []"
| "js_join sep [x] = x"
| "js_join sep (x # y # ys) = x @ sep @ js_join sep (y # ys)"

text \<open>The part of \<open>s\<close> before its first \<open>c\<close>, and, if there is one, the part after it
  (\<open>indexOf\<close> followed by two \<open>slice\<close>s).\<close>

definition before_char :: "char \<Rightarrow> string \<Rightarrow> string" where
  "before_char c s = takeWhile (\<lambda>d. d \<noteq> c) s"

definition after_char :: "char \<Rightarrow> string \<Rightarrow> string option" where
  "after_char c s =
     (case dropWhile (\<lambda>d. d \<noteq> c) s of [] \<Rightarrow> None | _ # rest \<Rightarrow> Some rest)"

text \<open>\<open>String(n)\<close> for a non-negative and for any integer.\<close>

definition digit_char :: "nat \<Rightarrow> char" where
  "digit_char n = ''0123456789'' ! (n mod 10)"

fun nat_to_string :: "nat \<Rightarrow> string" where
  "nat_to_string n =
     (if n < 10 then [digit_char n] else nat_to_string (n div 10) @ [digit_char (n mod 10)])"

declare nat_to_string.simps [simp del]

definition int_to_string :: "int \<Rightarrow> string" where
  "int_to_string i = (if i < 0 then ''-'' @ nat_to_string (nat (- i)) else nat_to_string (nat i))"

text \<open>A string is truthy when it is not empty.\<close>

abbreviation truthy :: "string \<Rightarrow> bool" where
  "truthy s \<equiv> s \<noteq> []"

text \<open>\<open>a || b\<close> on strings.\<close>

definition or_else :: "string \<Rightarrow> string \<Rightarrow> string" where
  "or_else a b = (if truthy a then a else b)"

text \<open>\<open>a ?? b\<close>.\<close>

definition nullish :: "'a option \<Rightarrow> 'a \<Rightarrow> 'a" where
  "nullish a b = (case a of None \<Rightarrow> b | Some x \<Rightarrow> x)"

text \<open>An absent or empty optional string is falsy.\<close>

fun truthy_opt :: "string option \<Rightarrow> bool" where
  "truthy_opt None = False"
| "truthy_opt (Some s) = truthy s"


section \<open>Arrays\<close>

text \<open>\<open>xs.findIndex(P)\<close>: \<open>None\<close> stands for -1.\<close>

fun findIndex :: "('a \<Rightarrow> bool) \<Rightarrow> 'a list \<Rightarrow> nat option" where
  "findIndex P [] = None"
| "findIndex P (x # xs) = (if P x then Some 0 else map_option Suc (findIndex P xs))"

text \<open>\<open>xs.some(P)\<close>, \<open>xs.splice(i, 0, x)\<close> and \<open>xs.splice(i, 1)\<close> for a non-negative \<open>i\<close>.\<close>

definition some_elem :: "('a \<Rightarrow> bool) \<Rightarrow> 'a list \<Rightarrow> bool" where
  "some_elem P xs \<longleftrightarrow> list_ex P xs"

definition splice_in :: "nat \<Rightarrow> 'a \<Rightarrow> 'a list \<Rightarrow> 'a list" where
  "splice_in i x xs = take i xs @ x # drop i xs"

definition splice_out :: "nat \<Rightarrow> 'a list \<Rightarrow> 'a list" where
  "splice_out i xs = take i xs @ drop (Suc i) xs"

text \<open>The element at the end of an array, \<open>xs[xs.length - 1]\<close>, which is \<open>undefined\<close> on an empty one.\<close>

definition last_opt :: "'a list \<Rightarrow> 'a option" where
  "last_opt xs = (if xs = [] then None else Some (last xs))"

text \<open>\<open>xs.map((x) => key(x) === k ? f(x) : x)\<close>, the update of every store that keeps its
  elements in an array.\<close>

definition map_where :: "('a \<Rightarrow> bool) \<Rightarrow> ('a \<Rightarrow> 'a) \<Rightarrow> 'a list \<Rightarrow> 'a list" where
  "map_where P f xs = map (\<lambda>x. if P x then f x else x) xs"

text \<open>Replace the first element that satisfies \<open>P\<close>, or append: the \<open>findIndex\<close> idiom.\<close>

definition replace_or_push :: "('a \<Rightarrow> bool) \<Rightarrow> ('a \<Rightarrow> 'a) \<Rightarrow> 'a \<Rightarrow> 'a list \<Rightarrow> 'a list" where
  "replace_or_push P upd new xs =
     (case findIndex P xs of Some i \<Rightarrow> xs[i := upd (xs ! i)] | None \<Rightarrow> xs @ [new])"


section \<open>Plain objects and maps\<close>

text \<open>A plain object (\<open>Record<string, V>\<close>) and a \<open>Map\<close> are association lists with distinct
  keys in insertion order. Writing an existing key keeps its position, as in JavaScript; keys that
  look like array indices, which a plain object enumerates first, are not reordered.\<close>

type_synonym 'v dict = "(string \<times> 'v) list"

text \<open>\<open>Object.fromEntries(ps)\<close> onto an existing object, and the spread \<open>{...a, ...b}\<close>.\<close>

definition assign_entries :: "('k \<times> 'v) list \<Rightarrow> ('k \<times> 'v) list \<Rightarrow> ('k \<times> 'v) list" where
  "assign_entries d ps = foldl (\<lambda>acc p. AList.update (fst p) (snd p) acc) d ps"

definition fromEntries :: "('k \<times> 'v) list \<Rightarrow> ('k \<times> 'v) list" where
  "fromEntries ps = assign_entries [] ps"

definition spread :: "('k \<times> 'v) list \<Rightarrow> ('k \<times> 'v) list \<Rightarrow> ('k \<times> 'v) list" where
  "spread a b = assign_entries a b"

definition has_key :: "('k \<times> 'v) list \<Rightarrow> 'k \<Rightarrow> bool" where
  "has_key d k \<longleftrightarrow> map_of d k \<noteq> None"

definition wf_dict :: "('k \<times> 'v) list \<Rightarrow> bool" where
  "wf_dict d \<longleftrightarrow> distinct (map fst d)"


section \<open>Lemmas on characters and strings\<close>

lemma is_ws_word_disjoint: "is_word c \<Longrightarrow> \<not> is_ws c"
  by (auto simp: is_ws_def is_word_def is_alpha_def is_upper_def is_digit_def char_between_def)

lemma dropWhile_idem: "dropWhile P (dropWhile P xs) = dropWhile P xs"
  by (induction xs) auto

lemma dropWhile_eq_self: "xs = [] \<or> \<not> P (hd xs) \<Longrightarrow> dropWhile P xs = xs"
  by (cases xs) auto

lemma dropWhile_rev_hd:
  assumes "dropWhile P xs = xs"
  shows "dropWhile P (rev (dropWhile P (rev xs))) = rev (dropWhile P (rev xs))"
proof -
  define ys where "ys = rev (dropWhile P (rev xs))"
  define zs where "zs = rev (takeWhile P (rev xs))"
  have zs: "xs = ys @ zs"
    unfolding ys_def zs_def by (metis rev_append rev_rev_ident takeWhile_dropWhile_id)
  have "ys = [] \<or> \<not> P (hd ys)"
  proof (cases "ys = []")
    case False
    then have "xs \<noteq> []" and "hd xs = hd ys" using zs by auto
    then show ?thesis using assms hd_dropWhile[of P xs] by metis
  qed simp
  then show ?thesis unfolding ys_def[symmetric] by (rule dropWhile_eq_self)
qed

lemma js_trim_idem [simp]: "js_trim (js_trim s) = js_trim s"
  unfolding js_trim_def
  by (simp add: dropWhile_rev_hd dropWhile_idem)

lemma js_trim_Nil [simp, js_simps]: "js_trim [] = []"
  by (simp add: js_trim_def)

lemma dropWhile_none: "\<forall>x \<in> set xs. \<not> P x \<Longrightarrow> dropWhile P xs = xs"
  by (cases xs) auto

lemma js_trim_no_ws: "\<forall>c \<in> set s. \<not> is_ws c \<Longrightarrow> js_trim s = s"
  by (simp add: js_trim_def dropWhile_none)

lemma lower_char_idem [simp]: "lower_char (lower_char c) = lower_char c"
  by (cases c) (auto simp: lower_char_def is_upper_def char_between_def split: if_splits)

lemma js_toLowerCase_idem [simp]: "js_toLowerCase (js_toLowerCase s) = js_toLowerCase s"
  by (simp add: js_toLowerCase_def)

lemma js_toLowerCase_simps [simp]:
  "js_toLowerCase [] = []"
  "js_toLowerCase (c # s) = lower_char c # js_toLowerCase s"
  "js_toLowerCase (s @ t) = js_toLowerCase s @ js_toLowerCase t"
  by (simp_all add: js_toLowerCase_def)

lemma js_toLowerCase_Nil_iff [simp]: "js_toLowerCase s = [] \<longleftrightarrow> s = []"
  by (simp add: js_toLowerCase_def)

lemma js_split_nonempty [simp]: "js_split c s \<noteq> []"
  by (induction s) (auto split: list.splits)

lemma js_split_no_sep: "c \<notin> set s \<Longrightarrow> js_split c s = [s]"
  by (induction s) auto

lemma js_split_append_sep:
  "c \<notin> set s \<Longrightarrow> js_split c (s @ c # t) = s # js_split c t"
  by (induction s) auto

lemma js_join_Cons: "ys \<noteq> [] \<Longrightarrow> js_join sep (x # ys) = x @ sep @ js_join sep ys"
  by (cases ys) auto

text \<open>Splitting undoes joining as long as no part holds the separator.\<close>

lemma js_split_join:
  "xs \<noteq> [] \<Longrightarrow> \<forall>x \<in> set xs. c \<notin> set x \<Longrightarrow> js_split c (js_join [c] xs) = xs"
proof (induction xs)
  case (Cons x xs)
  then show ?case
    by (cases "xs = []") (auto simp: js_split_no_sep js_split_append_sep js_join_Cons)
qed simp

lemma js_join_split: "js_join [c] (js_split c s) = s"
proof (induction s)
  case (Cons d s)
  show ?case
  proof (cases "js_split c s")
    case (Cons w ws)
    with Cons.IH show ?thesis by (cases ws) auto
  qed simp
qed simp

lemma before_char_no [simp]: "c \<notin> set (before_char c s)"
  by (auto simp: before_char_def dest: set_takeWhileD)

lemma before_char_append: "c \<notin> set s \<Longrightarrow> before_char c (s @ c # t) = s"
  by (induction s) (auto simp: before_char_def)

lemma after_char_append: "c \<notin> set s \<Longrightarrow> after_char c (s @ c # t) = Some t"
  by (induction s) (auto simp: after_char_def)

lemma before_char_id: "c \<notin> set s \<Longrightarrow> before_char c s = s"
  by (induction s) (auto simp: before_char_def)

lemma after_char_None: "c \<notin> set s \<Longrightarrow> after_char c s = None"
  by (induction s) (auto simp: after_char_def)

lemma nat_to_string_nonempty [simp]: "nat_to_string n \<noteq> []"
  by (subst nat_to_string.simps) simp


section \<open>Lemmas on arrays\<close>

lemma findIndex_None [simp]: "findIndex P xs = None \<longleftrightarrow> (\<forall>x \<in> set xs. \<not> P x)"
  by (induction xs) auto

lemma findIndex_SomeD:
  "findIndex P xs = Some i \<Longrightarrow> i < length xs \<and> P (xs ! i) \<and> (\<forall>j < i. \<not> P (xs ! j))"
proof (induction xs arbitrary: i)
  case (Cons x xs)
  then show ?case by (auto split: if_splits simp: less_Suc_eq_0_disj)
qed simp

lemma findIndex_split:
  "findIndex P xs = Some i \<Longrightarrow>
    \<exists>ys x zs. xs = ys @ x # zs \<and> length ys = i \<and> P x \<and> (\<forall>y \<in> set ys. \<not> P y)"
proof (induction xs arbitrary: i)
  case (Cons a xs)
  show ?case
  proof (cases "P a")
    case True
    with Cons.prems have "a # xs = [] @ a # xs \<and> length ([] :: 'a list) = i" by simp
    with True show ?thesis by (metis empty_iff empty_set)
  next
    case False
    with Cons.prems obtain j where j: "findIndex P xs = Some j" "i = Suc j" by auto
    from Cons.IH[OF j(1)] obtain ys x zs where
      "xs = ys @ x # zs" "length ys = j" "P x" "\<forall>y \<in> set ys. \<not> P y" by blast
    with False j(2) have "a # xs = (a # ys) @ x # zs \<and> length (a # ys) = i \<and> P x
      \<and> (\<forall>y \<in> set (a # ys). \<not> P y)" by simp
    then show ?thesis by blast
  qed
qed simp

lemma find_None_iff': "List.find P xs = None \<longleftrightarrow> (\<forall>x \<in> set xs. \<not> P x)"
  by (auto simp: find_None_iff)

lemma find_SomeD: "List.find P xs = Some x \<Longrightarrow> P x \<and> x \<in> set xs"
  by (auto simp: find_Some_iff)

lemma find_append:
  "List.find P (xs @ ys) = (case List.find P xs of None \<Rightarrow> List.find P ys | Some x \<Rightarrow> Some x)"
  by (induction xs) auto

lemma find_key_unique:
  "distinct (map key xs) \<Longrightarrow> x \<in> set xs \<Longrightarrow> List.find (\<lambda>y. key y = key x) xs = Some x"
  by (induction xs) (auto simp: image_iff)

lemma distinct_key_eq:
  "distinct (map key xs) \<Longrightarrow> x \<in> set xs \<Longrightarrow> y \<in> set xs \<Longrightarrow> key x = key y \<Longrightarrow> x = y"
  by (simp add: distinct_map inj_on_def)

lemma map_where_id [simp]: "\<forall>x \<in> set xs. \<not> P x \<Longrightarrow> map_where P f xs = xs"
  by (simp add: map_where_def map_idI)

lemma length_map_where [simp]: "length (map_where P f xs) = length xs"
  by (simp add: map_where_def)

lemma set_map_where: "set (map_where P f xs) = (\<lambda>x. if P x then f x else x) ` set xs"
  by (simp add: map_where_def)

lemma map_where_key [simp]:
  assumes "\<And>x. P x \<Longrightarrow> g (f x) = g x"
  shows "map g (map_where P f xs) = map g xs"
  using assms by (simp add: map_where_def)

lemma find_map_where:
  assumes "\<And>x. P x \<Longrightarrow> Q (f x) = Q x"
  shows "List.find Q (map_where P f xs)
    = map_option (\<lambda>x. if P x then f x else x) (List.find Q xs)"
  using assms by (induction xs) (auto simp: map_where_def)

lemma set_splice_in [simp]: "set (splice_in i x xs) = insert x (set xs)"
  by (simp add: splice_in_def) (metis append_take_drop_id set_append)

lemma length_splice_in [simp]: "length (splice_in i x xs) = Suc (length xs)"
  by (simp add: splice_in_def)

lemma length_splice_out: "i < length xs \<Longrightarrow> length (splice_out i xs) = length xs - 1"
  by (simp add: splice_out_def)

lemma map_splice_in [simp]: "map f (splice_in i x xs) = splice_in i (f x) (map f xs)"
  by (simp add: splice_in_def take_map drop_map)

lemma distinct_splice_in: "distinct (splice_in i x xs) \<longleftrightarrow> x \<notin> set xs \<and> distinct xs"
proof -
  have "distinct (splice_in i x xs) \<longleftrightarrow> distinct (x # take i xs @ drop i xs)"
    by (auto simp: splice_in_def simp del: append_take_drop_id)
  then show ?thesis by simp
qed

text \<open>Taking an element out and putting it back elsewhere permutes the array.\<close>

lemma splice_out_decomp:
  assumes "i < length xs"
  obtains as bs where "xs = as @ xs ! i # bs" and "splice_out i xs = as @ bs"
proof
  show "xs = take i xs @ xs ! i # drop (Suc i) xs" by (rule id_take_nth_drop[OF assms])
  show "splice_out i xs = take i xs @ drop (Suc i) xs" by (simp add: splice_out_def)
qed

lemma splice_move_set:
  assumes "i < length xs"
  shows "set (splice_in j (xs ! i) (splice_out i xs)) = set xs"
proof -
  obtain as bs where *: "xs = as @ xs ! i # bs" "splice_out i xs = as @ bs"
    using assms by (rule splice_out_decomp)
  show ?thesis unfolding *(2) by (subst (2) *(1)) simp
qed

lemma splice_move_distinct:
  assumes "i < length xs"
  shows "distinct (splice_in j (xs ! i) (splice_out i xs)) = distinct xs"
proof -
  obtain as bs where *: "xs = as @ xs ! i # bs" "splice_out i xs = as @ bs"
    using assms by (rule splice_out_decomp)
  show ?thesis unfolding *(2) distinct_splice_in by (subst (2) *(1)) auto
qed


lemma find_map: "List.find P (map h ys) = map_option h (List.find (P \<circ> h) ys)"
  by (induction ys) auto

lemma findIndex_distinct: "distinct L \<Longrightarrow> i < length L \<Longrightarrow> findIndex (\<lambda>k. k = L ! i) L = Some i"
proof (cases "findIndex (\<lambda>k. k = L ! i) L")
  case None
  assume "i < length L"
  then have "L ! i \<in> set L" by simp
  moreover have "\<forall>x \<in> set L. x \<noteq> L ! i" using None by simp
  ultimately have False by blast
  then show ?thesis ..
next
  case (Some j)
  assume "distinct L" "i < length L"
  with findIndex_SomeD[OF Some] show ?thesis using Some by (auto simp: nth_eq_iff_index_eq)
qed

text \<open>A list whose elements carry the position of their key in \<open>L\<close> is sorted into the order of \<open>L\<close>.\<close>

lemma sort_by_position:
  assumes "distinct (L :: string list)" and "distinct (map key ys)" and "set (map key ys) = set L"
    and pos: "\<forall>y \<in> set ys. findIndex (\<lambda>k. k = key y) L = Some (nat (f y)) \<and> 0 \<le> f y"
  shows "map key (sort_key f ys) = L"
proof -
  let ?zs = "sort_key f ys"
  define idx where "idx k = int (the (findIndex (\<lambda>k'. k' = k) L))" for k
  have f: "f y = idx (key y)" if "y \<in> set ys" for y using pos that by (simp add: idx_def)
  have idx: "idx (L ! i) = int i" if "i < length L" for i
    using findIndex_distinct[OF assms(1) that] by (simp add: idx_def)
  have inj: "inj_on idx (set L)"
    by (rule inj_onI) (auto simp: in_set_conv_nth idx)
  have L: "map idx L = map int [0..<length L]" by (rule nth_equalityI) (auto simp: idx)
  have zs: "map idx (map key ?zs) = map f ?zs" using f by simp
  have "sorted (map idx (map key ?zs))" unfolding zs by simp
  moreover have "distinct (map idx (map key ?zs))"
    using inj assms(2,3) by (simp add: distinct_map comp_inj_on)
  moreover have "sorted (map idx L)" "distinct (map idx L)" unfolding L
    by (auto simp: sorted_map distinct_map sorted_wrt_upt)
  moreover have "set (map idx (map key ?zs)) = set (map idx L)" using assms(3) by (simp add: image_image[symmetric])
  ultimately have "map idx (map key ?zs) = map idx L" by (intro sorted_distinct_set_unique)
  then show ?thesis using inj assms(3) by (intro map_inj_on[of idx]) auto
qed


lemma splice_in_end: "splice_in (length xs) x xs = xs @ [x]"
  by (simp add: splice_in_def)

lemma find_set: "distinct (map key xs) \<Longrightarrow>
  set_option (List.find (\<lambda>x. key x = k) xs) = {x \<in> set xs. key x = k}"
proof (cases "List.find (\<lambda>x. key x = k) xs")
  case None
  then have "\<forall>x \<in> set xs. key x \<noteq> k" by (simp add: find_None_iff')
  then show ?thesis unfolding None by auto
next
  case (Some y)
  assume "distinct (map key xs)"
  then show ?thesis using Some find_SomeD[OF Some] by (auto intro: distinct_key_eq)
qed

lemma nullish_simps [simp]: "nullish None d = d" "nullish (Some x) d = x"
  by (simp_all add: nullish_def)

lemma nat_mod_less: "0 < n \<Longrightarrow> nat (k mod int n) < n"
  by (simp add: nat_less_iff)

lemma keys_update: "fst ` set (AList.update k v d) = insert k (fst ` set d)"
  by (simp add: dom_update)

lemma distinct_concat_map:
  assumes "distinct ts" and "\<And>t. t \<in> set ts \<Longrightarrow> distinct (f t)"
    and "\<And>t t'. t \<in> set ts \<Longrightarrow> t' \<in> set ts \<Longrightarrow> t \<noteq> t' \<Longrightarrow> set (f t) \<inter> set (f t') = {}"
  shows "distinct (concat (map f ts))"
  using assms
proof (induction ts)
  case (Cons t ts)
  then have "distinct (concat (map f ts))" by simp
  moreover have "set (f t) \<inter> set (concat (map f ts)) = {}"
    using Cons.prems(1,3) by fastforce
  ultimately show ?case using Cons.prems(2) by simp
qed simp


lemma map_of_filter_find:
  "map_of (map (\<lambda>x. (key x, val x)) (filter P xs)) k = map_option val (List.find (\<lambda>x. P x \<and> key x = k) xs)"
  by (induction xs) auto

lemma find_cong': "(\<And>x. x \<in> set xs \<Longrightarrow> P x = Q x) \<Longrightarrow> List.find P xs = List.find Q xs"
  by (induction xs) auto

text \<open>A visited set bounds a walk over a finite set of keys.\<close>

lemma card_visit: "finite A \<Longrightarrow> p \<in> A \<Longrightarrow> p \<notin> V \<Longrightarrow> card (A - insert p V) < card (A - V)"
  by (rule psubset_card_mono) auto


section \<open>Lemmas on objects\<close>

lemma assign_entries_simps [simp]:
  "assign_entries d [] = d"
  "assign_entries d (p # ps) = assign_entries (AList.update (fst p) (snd p) d) ps"
  by (simp_all add: assign_entries_def)

lemma assign_entries_append: "assign_entries d (ps @ qs) = assign_entries (assign_entries d ps) qs"
  by (simp add: assign_entries_def)

lemma wf_dict_Nil [simp]: "wf_dict []"
  by (simp add: wf_dict_def)

lemma wf_dict_update [simp]: "wf_dict d \<Longrightarrow> wf_dict (AList.update k v d)"
  by (simp add: wf_dict_def distinct_update)

lemma wf_dict_delete [simp]: "wf_dict d \<Longrightarrow> wf_dict (AList.delete k d)"
  by (simp add: wf_dict_def distinct_delete)

lemma wf_dict_assign [simp]: "wf_dict d \<Longrightarrow> wf_dict (assign_entries d ps)"
  by (induction ps arbitrary: d) auto

lemma wf_dict_fromEntries [simp]: "wf_dict (fromEntries ps)"
  by (simp add: fromEntries_def)

lemma wf_dict_spread [simp]: "wf_dict a \<Longrightarrow> wf_dict (spread a b)"
  by (simp add: spread_def)

end
