(* ===== verification/Interfaces.thy ===== *)
theory Interfaces
  imports Prelude
begin

text \<open>
  The interfaces the components are written against, as locales whose assumptions are the laws a
  provider promises and whose lemmas are what every client may rely on:
  \<^item> \<open>dictionary\<close>: objects and maps (lookup after a write, a delete, a spread);
  \<^item> \<open>keyed_upsert\<close>: an array with at most one element per key, written by replace-or-push;
  \<^item> \<open>action_store\<close>: a store whose actions keep an invariant, run over any sequence of actions;
  \<^item> \<open>sized_log\<close>: a log, oldest entry first, cut down to its newest entries within a count and a
    byte budget.
  Each is interpreted on the model's own definitions, the first one here and the others in the
  theories of the components that provide them.
\<close>

section \<open>Dictionaries\<close>

locale dictionary =
  fixes empty :: "'d"
    and get :: "'d \<Rightarrow> 'k \<Rightarrow> 'v option"
    and put :: "'k \<Rightarrow> 'v \<Rightarrow> 'd \<Rightarrow> 'd"
    and del :: "'k \<Rightarrow> 'd \<Rightarrow> 'd"
  assumes get_empty: "get empty k = None"
    and get_put: "get (put k v d) k' = (if k' = k then Some v else get d k')"
    and get_del: "get (del k d) k' = (if k' = k then None else get d k')"
begin

text \<open>A later write of the same key wins; keys that are not written keep their value.\<close>

lemma get_puts:
  "get (foldl (\<lambda>acc p. put (fst p) (snd p) acc) d ps) k
    = (case map_of (rev ps) k of Some v \<Rightarrow> Some v | None \<Rightarrow> get d k)"
proof (induction ps arbitrary: d)
  case (Cons p ps)
  show ?case
    by (cases p) (auto simp: Cons.IH get_put map_of_append map_add_def split: option.splits)
qed simp

lemma get_puts_empty:
  "get (foldl (\<lambda>acc p. put (fst p) (snd p) acc) empty ps) k = map_of (rev ps) k"
  by (auto simp: get_puts get_empty split: option.splits)

lemma get_dels:
  "get (foldl (\<lambda>acc k. del k acc) d ks) k = (if k \<in> set ks then None else get d k)"
  by (induction ks arbitrary: d) (auto simp: get_del)

end

interpretation obj: dictionary "[]" map_of AList.update AList.delete
  by unfold_locales (auto simp: update_conv' delete_conv')

lemma map_of_assign_entries:
  "map_of (assign_entries d ps) k = (case map_of (rev ps) k of Some v \<Rightarrow> Some v | None \<Rightarrow> map_of d k)"
  unfolding assign_entries_def by (rule obj.get_puts)

lemma map_of_fromEntries [js_simps]: "map_of (fromEntries ps) k = map_of (rev ps) k"
  unfolding fromEntries_def assign_entries_def by (rule obj.get_puts_empty)

lemma map_of_rev_distinct: "wf_dict ps \<Longrightarrow> map_of (rev ps) = map_of ps"
proof
  fix k
  assume "wf_dict ps"
  then show "map_of (rev ps) k = map_of ps k"
  proof (induction ps)
    case (Cons p ps)
    then have "fst p \<notin> dom (map_of ps)" by (auto simp: wf_dict_def dom_map_of_conv_image_fst)
    with Cons show ?case
      by (cases p) (auto simp: wf_dict_def map_add_def domIff split: option.splits)
  qed simp
qed

lemma map_of_spread:
  "wf_dict b \<Longrightarrow> map_of (spread a b) k = (case map_of b k of Some v \<Rightarrow> Some v | None \<Rightarrow> map_of a k)"
  unfolding spread_def by (simp add: map_of_assign_entries map_of_rev_distinct)


section \<open>Arrays with one element per key\<close>

text \<open>\<open>mk k v\<close> is the element pushed for a new key, \<open>upd k v x\<close> the element that replaces \<open>x\<close>; what is
  written satisfies \<open>valid\<close> (the key is trimmed, or is the key of the new element).\<close>

locale keyed_upsert =
  fixes valid :: "'k \<Rightarrow> 'v \<Rightarrow> bool"
    and key :: "'a \<Rightarrow> 'k"
    and val :: "'a \<Rightarrow> 'v"
    and mk :: "'k \<Rightarrow> 'v \<Rightarrow> 'a"
    and upd :: "'k \<Rightarrow> 'v \<Rightarrow> 'a \<Rightarrow> 'a"
  assumes key_mk: "valid k v \<Longrightarrow> key (mk k v) = k"
    and key_upd: "valid k v \<Longrightarrow> key (upd k v x) = k"
    and val_mk: "val (mk k v) = v"
    and val_upd: "val (upd k v x) = v"
begin

lemma upsert_cases:
  obtains (push) "\<forall>x \<in> set xs. key x \<noteq> k"
      "replace_or_push (\<lambda>x. key x = k) (upd k v) (mk k v) xs = xs @ [mk k v]"
  | (replace) ys x zs where "xs = ys @ x # zs" "key x = k" "\<forall>y \<in> set ys. key y \<noteq> k"
      "replace_or_push (\<lambda>x. key x = k) (upd k v) (mk k v) xs = ys @ upd k v x # zs"
proof (cases "findIndex (\<lambda>x. key x = k) xs")
  case None
  show ?thesis
  proof (rule push)
    show "\<forall>x \<in> set xs. key x \<noteq> k" using None by simp
    show "replace_or_push (\<lambda>x. key x = k) (upd k v) (mk k v) xs = xs @ [mk k v]"
      unfolding replace_or_push_def None by simp
  qed
next
  case (Some i)
  obtain ys x zs where "xs = ys @ x # zs" "length ys = i" "key x = k" "\<forall>y \<in> set ys. key y \<noteq> k"
    using findIndex_split[OF Some] by blast
  then show ?thesis
    using Some by (intro replace[of ys x zs]) (auto simp: replace_or_push_def list_update_append)
qed

lemma upsert_keys:
  "valid k v \<Longrightarrow> map key (replace_or_push (\<lambda>x. key x = k) (upd k v) (mk k v) xs)
    = (if k \<in> key ` set xs then map key xs else map key xs @ [k])"
  by (cases rule: upsert_cases[of xs k v]) (auto simp: key_mk key_upd)

lemma upsert_distinct:
  "valid k v \<Longrightarrow> distinct (map key xs) \<Longrightarrow>
    distinct (map key (replace_or_push (\<lambda>x. key x = k) (upd k v) (mk k v) xs))"
  by (auto simp: upsert_keys)

text \<open>Reading back: the written key has the new value, the first match of any other key is as
  before.\<close>

lemma find_upsert_same:
  assumes "valid k v"
  shows "\<exists>x. List.find (\<lambda>x. key x = k) (replace_or_push (\<lambda>x. key x = k) (upd k v) (mk k v) xs) = Some x
     \<and> val x = v"
proof (cases rule: upsert_cases[of xs k v])
  case push
  then have "List.find (\<lambda>x. key x = k) xs = None" by (simp add: find_None_iff')
  with push show ?thesis by (simp add: find_append key_mk val_mk assms)
next
  case (replace ys x zs)
  then have "List.find (\<lambda>x. key x = k) ys = None" by (simp add: find_None_iff')
  with replace show ?thesis by (simp add: find_append key_upd val_upd assms)
qed

lemma find_upsert_other:
  "valid k v \<Longrightarrow> k' \<noteq> k \<Longrightarrow>
    List.find (\<lambda>x. key x = k') (replace_or_push (\<lambda>x. key x = k) (upd k v) (mk k v) xs)
      = List.find (\<lambda>x. key x = k') xs"
  by (cases rule: upsert_cases[of xs k v])
     (auto simp: find_append key_mk key_upd split: option.splits)

lemma set_upsert:
  "set (replace_or_push (\<lambda>x. key x = k) (upd k v) (mk k v) xs)
    \<subseteq> set xs \<union> {mk k v} \<union> upd k v ` {x \<in> set xs. key x = k}"
  by (cases rule: upsert_cases[of xs k v]) auto

end


text \<open>Elements that can be switched off: a written element is on, and only elements that are on are
  read.\<close>

locale switched_upsert = keyed_upsert valid key val mk upd
  for valid :: "'k \<Rightarrow> 'v \<Rightarrow> bool" and key :: "'a \<Rightarrow> 'k" and val :: "'a \<Rightarrow> 'v"
    and mk :: "'k \<Rightarrow> 'v \<Rightarrow> 'a" and upd :: "'k \<Rightarrow> 'v \<Rightarrow> 'a \<Rightarrow> 'a" +
  fixes on :: "'a \<Rightarrow> bool"
  assumes on_mk: "on (mk k v)"
    and on_upd: "on (upd k v x)"
begin

lemma value_upsert:
  assumes "valid k v"
  shows "map_option val (List.find (\<lambda>x. on x \<and> key x = k')
      (replace_or_push (\<lambda>x. key x = k) (upd k v) (mk k v) xs))
    = (if k' = k then Some v else map_option val (List.find (\<lambda>x. on x \<and> key x = k') xs))"
proof (cases rule: upsert_cases[of xs k v])
  case push
  then have "List.find (\<lambda>x. on x \<and> key x = k) xs = None" by (auto simp: find_None_iff')
  with push show ?thesis
    by (auto simp: find_append key_mk val_mk on_mk assms split: option.splits)
next
  case (replace ys x zs)
  then have "List.find (\<lambda>x. on x \<and> key x = k) ys = None" by (auto simp: find_None_iff')
  with replace show ?thesis
    by (auto simp: find_append key_upd val_upd on_upd assms split: option.splits)
qed

text \<open>Writing a list of updates in turn, skipping some: the last update of a key wins.\<close>

lemma value_upserts:
  assumes "\<forall>(k, v) \<in> set ups. valid k v"
  shows "map_option val (List.find (\<lambda>x. on x \<and> key x = k')
      (foldl (\<lambda>acc (k, v). replace_or_push (\<lambda>x. key x = k) (upd k v) (mk k v) acc) xs ups))
    = (case map_of (rev ups) k' of Some v \<Rightarrow> Some v
       | None \<Rightarrow> map_option val (List.find (\<lambda>x. on x \<and> key x = k') xs))"
  using assms
proof (induction ups arbitrary: xs)
  case (Cons p ups)
  then show ?case
    by (cases p) (auto simp: value_upsert map_of_append map_add_def split: option.splits)
qed simp

end


section \<open>Stores driven by actions\<close>

definition run :: "('s \<Rightarrow> 'e \<Rightarrow> 's) \<Rightarrow> 's \<Rightarrow> 'e list \<Rightarrow> 's" where
  "run step s es = foldl step s es"

fun admissible :: "('s \<Rightarrow> 'e \<Rightarrow> 's) \<Rightarrow> ('s \<Rightarrow> 'e \<Rightarrow> bool) \<Rightarrow> 's \<Rightarrow> 'e list \<Rightarrow> bool" where
  "admissible step ok s [] = True"
| "admissible step ok s (e # es) = (ok s e \<and> admissible step ok (step s e) es)"

lemma run_simps [simp]: "run step s [] = s" "run step s (e # es) = run step (step s e) es"
  by (simp_all add: run_def)

lemma run_append: "run step s (es @ fs) = run step (run step s es) fs"
  by (simp add: run_def)

lemma admissible_append:
  "admissible step ok s (es @ fs) \<longleftrightarrow> admissible step ok s es \<and> admissible step ok (run step s es) fs"
  by (induction es arbitrary: s) auto

locale action_store =
  fixes init :: "'s"
    and step :: "'s \<Rightarrow> 'e \<Rightarrow> 's"
    and ok :: "'s \<Rightarrow> 'e \<Rightarrow> bool"
    and inv :: "'s \<Rightarrow> bool"
  assumes inv_init: "inv init"
    and inv_step: "inv s \<Longrightarrow> ok s e \<Longrightarrow> inv (step s e)"
begin

lemma inv_run_from: "inv s \<Longrightarrow> admissible step ok s es \<Longrightarrow> inv (run step s es)"
  by (induction es arbitrary: s) (auto intro: inv_step)

lemma inv_run: "admissible step ok init es \<Longrightarrow> inv (run step init es)"
  by (rule inv_run_from[OF inv_init])

end


section \<open>Logs with a budget\<close>

definition fits :: "('a \<Rightarrow> nat) \<Rightarrow> nat \<Rightarrow> nat \<Rightarrow> 'a list \<Rightarrow> bool" where
  "fits sz cap budget xs \<longleftrightarrow> length xs \<le> cap \<and> sum_list (map sz xs) \<le> budget"

lemma fits_suffix: "fits sz cap budget xs \<Longrightarrow> suffix ys xs \<Longrightarrow> fits sz cap budget ys"
  by (auto simp: fits_def suffix_def)

lemma fits_butlast: "fits sz cap budget (xs @ [x]) \<Longrightarrow> fits sz cap budget xs"
  by (auto simp: fits_def)

text \<open>\<open>evict\<close> keeps the longest suffix of the log that fits.\<close>

locale sized_log =
  fixes sz :: "'a \<Rightarrow> nat"
    and cap :: nat
    and budget :: nat
    and evict :: "'a list \<Rightarrow> 'a list"
  assumes evict_suffix: "suffix (evict xs) xs"
    and evict_fits: "fits sz cap budget (evict xs)"
    and evict_longest: "suffix ys xs \<Longrightarrow> fits sz cap budget ys \<Longrightarrow> length ys \<le> length (evict xs)"
begin

lemma evict_unique:
  assumes "suffix ys xs" and "fits sz cap budget ys"
    and "\<And>zs. suffix zs xs \<Longrightarrow> fits sz cap budget zs \<Longrightarrow> length zs \<le> length ys"
  shows "evict xs = ys"
proof -
  have len: "length (evict xs) = length ys"
    using assms evict_suffix evict_fits evict_longest by (meson le_antisym)
  then show ?thesis using suffix_length_suffix[OF evict_suffix assms(1)] by (auto simp: suffix_def)
qed

lemma evict_id: "fits sz cap budget xs \<Longrightarrow> evict xs = xs"
  by (rule evict_unique) (auto dest: suffix_length_le)

text \<open>Cutting after every entry, as an event handler does, or once at the end, as a reload does, gives
  the same log.\<close>

lemma evict_snoc: "evict (evict xs @ [x]) = evict (xs @ [x])"
proof (rule evict_unique)
  let ?e = "evict (xs @ [x])"
  show "suffix ?e (evict xs @ [x])"
  proof (cases ?e rule: rev_cases)
    case (snoc ys y)
    have suf: "suffix (ys @ [y]) (xs @ [x])" using evict_suffix[of "xs @ [x]"] snoc by simp
    then have "y = x" "suffix ys xs" by (auto simp: suffix_def)
    moreover have "fits sz cap budget ys" using evict_fits[of "xs @ [x]"] snoc by (auto dest: fits_butlast)
    ultimately have "suffix ys (evict xs)"
      using evict_longest evict_suffix suffix_length_suffix by blast
    then show ?thesis using snoc \<open>y = x\<close> by (auto simp: suffix_def)
  qed simp
  show "fits sz cap budget ?e" by (rule evict_fits)
  fix zs
  assume "suffix zs (evict xs @ [x])" and "fits sz cap budget zs"
  moreover have "suffix (evict xs @ [x]) (xs @ [x])" using evict_suffix[of xs] by (auto simp: suffix_def)
  ultimately show "length zs \<le> length ?e" by (meson evict_longest suffix_order.trans)
qed

text \<open>What lies before the first entry that no longer fits is dropped.\<close>

lemma evict_stop:
  assumes "fits sz cap budget ys" and "\<not> fits sz cap budget (y # ys)"
  shows "evict (xs @ y # ys) = ys"
proof (rule evict_unique)
  show "suffix ys (xs @ y # ys)" unfolding suffix_def by (intro exI[of _ "xs @ [y]"]) simp
  fix zs
  assume zs: "suffix zs (xs @ y # ys)" "fits sz cap budget zs"
  show "length zs \<le> length ys"
  proof (rule ccontr)
    assume "\<not> length zs \<le> length ys"
    then have "length (y # ys) \<le> length zs" by simp
    moreover have "suffix (y # ys) (xs @ y # ys)" by (simp add: suffix_def)
    ultimately have "suffix (y # ys) zs" using suffix_length_suffix[OF _ zs(1)] by blast
    then show False using zs(2) assms(2) fits_suffix by blast
  qed
qed (rule assms(1))

lemma evict_Nil [simp]: "evict [] = []"
  using evict_suffix[of "[]"] by simp

lemma evict_pushes: "foldl (\<lambda>log x. evict (log @ [x])) (evict xs) ys = evict (xs @ ys)"
proof (induction ys arbitrary: xs)
  case (Cons y ys)
  show ?case using Cons.IH[of "xs @ [y]"] by (simp add: evict_snoc)
qed simp

lemma evict_pushes_from_fit:
  "fits sz cap budget xs \<Longrightarrow> foldl (\<lambda>log x. evict (log @ [x])) xs ys = evict (xs @ ys)"
  using evict_pushes[of xs ys] by (simp add: evict_id)

end

text \<open>The two ways the sources cut a log: dropping the oldest entries one by one, and \<open>slice\<close>.\<close>

fun drop_oldest :: "('a \<Rightarrow> nat) \<Rightarrow> nat \<Rightarrow> nat \<Rightarrow> 'a list \<Rightarrow> 'a list" where
  "drop_oldest sz cap budget [] = []"
| "drop_oldest sz cap budget (x # xs) =
     (if cap < length (x # xs) \<or> budget < sum_list (map sz (x # xs)) then drop_oldest sz cap budget xs
      else x # xs)"

lemma sized_log_drop_oldest: "sized_log sz cap budget (drop_oldest sz cap budget)"
proof
  show "suffix (drop_oldest sz cap budget xs) xs" for xs
    by (induction sz cap budget xs rule: drop_oldest.induct) (auto simp: suffix_Cons)
  show "fits sz cap budget (drop_oldest sz cap budget xs)" for xs
    by (induction sz cap budget xs rule: drop_oldest.induct) (auto simp: fits_def)
  show "suffix ys xs \<Longrightarrow> fits sz cap budget ys \<Longrightarrow> length ys \<le> length (drop_oldest sz cap budget xs)" for xs ys
    by (induction sz cap budget xs rule: drop_oldest.induct)
       (auto simp: suffix_Cons fits_def dest: suffix_length_le)
qed

text \<open>Collecting the newest entries from the end, passing over those that do not fit even alone.\<close>

fun retain_newest :: "('a \<Rightarrow> nat) \<Rightarrow> nat \<Rightarrow> nat \<Rightarrow> 'a list \<Rightarrow> 'a list \<Rightarrow> nat \<Rightarrow> 'a list \<times> nat" where
  "retain_newest sz cap budget [] retained bytes = (retained, bytes)"
| "retain_newest sz cap budget (x # xs) retained bytes =
     (if \<not> length retained < cap then (retained, bytes)
      else if budget < sz x then retain_newest sz cap budget xs retained bytes
      else if budget < bytes + sz x then (retained, bytes)
      else retain_newest sz cap budget xs (x # retained) (bytes + sz x))"

lemma retain_newest_eq:
  assumes "fits sz cap budget acc"
  shows "retain_newest sz cap budget (rev xs) acc (sum_list (map sz acc))
    = (let kept = drop_oldest sz cap budget (filter (\<lambda>x. sz x \<le> budget) xs @ acc) in (kept, sum_list (map sz kept)))"
  using assms
proof (induction xs arbitrary: acc rule: rev_induct)
  case Nil
  then show ?case by (simp add: sized_log.evict_id[OF sized_log_drop_oldest])
next
  case (snoc x xs)
  note stop = sized_log.evict_stop[OF sized_log_drop_oldest snoc.prems]
  consider (full) "\<not> length acc < cap" | (big) "length acc < cap" "budget < sz x"
    | (over) "length acc < cap" "sz x \<le> budget" "budget < sum_list (map sz acc) + sz x"
    | (fit) "length acc < cap" "sz x \<le> budget" "sum_list (map sz acc) + sz x \<le> budget"
    by linarith
  then show ?case
  proof cases
    case full
    have "drop_oldest sz cap budget (ys @ acc) = acc" for ys
    proof (cases ys rule: rev_cases)
      case (snoc zs z)
      then show ?thesis using stop[of z zs] full by (simp add: fits_def)
    qed (simp add: sized_log.evict_id[OF sized_log_drop_oldest] snoc.prems)
    from this[of "filter (\<lambda>x. sz x \<le> budget) xs @ [x]"] this[of "filter (\<lambda>x. sz x \<le> budget) xs"]
    show ?thesis using full by (simp add: Let_def)
  next
    case big
    then show ?thesis using snoc.IH[OF snoc.prems] by simp
  next
    case over
    then have "drop_oldest sz cap budget (filter (\<lambda>x. sz x \<le> budget) xs @ x # acc) = acc" by (intro stop) (simp add: fits_def)
    with over show ?thesis by (simp add: Let_def)
  next
    case fit
    then have "fits sz cap budget (x # acc)" using snoc.prems by (simp add: fits_def)
    from snoc.IH[OF this] fit show ?thesis by (simp add: add.commute)
  qed
qed

lemma suffix_rev_take: "suffix ys xs \<Longrightarrow> length ys \<le> n \<Longrightarrow> length ys \<le> length (rev (take n (rev xs)))"
  by (auto dest: suffix_length_le)

lemma sized_log_take: "sized_log (\<lambda>_. 0) cap 0 (\<lambda>xs. rev (take cap (rev xs)))"
proof
  show "suffix (rev (take cap (rev xs))) xs" for xs :: "'a list"
    by (metis append_take_drop_id rev_append rev_rev_ident suffix_def)
qed (auto simp: fits_def dest: suffix_length_le)

end
