(* ===== verification/Json.thy ===== *)
theory Json
  imports Interfaces
begin

text \<open>
  The parts of JavaScript's standard library that the stores use to keep structured data in string
  columns: JSON values, \<open>JSON.stringify\<close> without indentation, \<open>JSON.parse\<close> (\<open>None\<close> is the
  \<open>SyntaxError\<close> it throws) and \<open>String(v)\<close>. An integer literal is an \<^typ>\<open>int\<close>; a literal with
  a fraction or an exponent keeps its text. The main result is that parsing undoes printing for
  every value whose objects have distinct keys and whose numbers are integers.
\<close>

section \<open>Values\<close>

datatype jsnum = JInt int | JLit string

datatype json =
    JNull
  | JBool bool
  | JNum jsnum
  | JStr string
  | JArr "json list"
  | JObj "(string \<times> json) list"

abbreviation quote_char :: char where "quote_char \<equiv> CHR 0x22"
abbreviation backslash :: char where "backslash \<equiv> CHR 0x5C"

section \<open>JSON.stringify\<close>

definition hex_digit :: "nat \<Rightarrow> char" where
  "hex_digit n = ''0123456789abcdef'' ! (n mod 16)"

definition escape_char :: "char \<Rightarrow> string" where
  "escape_char c =
     (if c = quote_char then [backslash, quote_char]
      else if c = backslash then [backslash, backslash]
      else if c = CHR 0x08 then [backslash, CHR ''b'']
      else if c = CHR 0x0C then [backslash, CHR ''f'']
      else if c = CHR 0x0A then [backslash, CHR ''n'']
      else if c = CHR 0x0D then [backslash, CHR ''r'']
      else if c = CHR 0x09 then [backslash, CHR ''t'']
      else if of_char c < (32::nat)
        then backslash # ''u00'' @ [hex_digit (of_char c div 16), hex_digit (of_char c mod 16)]
      else [c])"

definition quote_string :: "string \<Rightarrow> string" where
  "quote_string s = [quote_char] @ concat (map escape_char s) @ [quote_char]"

fun stringify_num :: "jsnum \<Rightarrow> string" where
  "stringify_num (JInt i) = int_to_string i"
| "stringify_num (JLit l) = l"

fun JSON_stringify :: "json \<Rightarrow> string" where
  "JSON_stringify JNull = ''null''"
| "JSON_stringify (JBool b) = (if b then ''true'' else ''false'')"
| "JSON_stringify (JNum x) = stringify_num x"
| "JSON_stringify (JStr s) = quote_string s"
| "JSON_stringify (JArr vs) = ''['' @ js_join '','' (map JSON_stringify vs) @ '']''"
| "JSON_stringify (JObj kvs) =
     ''{'' @ js_join '','' (map (\<lambda>p. quote_string (fst p) @ '':'' @ JSON_stringify (snd p)) kvs) @ ''}''"

section \<open>String(v)\<close>

fun js_String :: "json \<Rightarrow> string" where
  "js_String JNull = ''null''"
| "js_String (JBool b) = (if b then ''true'' else ''false'')"
| "js_String (JNum x) = stringify_num x"
| "js_String (JStr s) = s"
| "js_String (JArr vs) = js_join '','' (map (\<lambda>v. if v = JNull then [] else js_String v) vs)"
| "js_String (JObj kvs) = ''[object Object]''"

section \<open>JSON.parse\<close>

definition is_json_ws :: "char \<Rightarrow> bool" where
  "is_json_ws c \<longleftrightarrow> c \<in> {CHR '' '', CHR 0x09, CHR 0x0A, CHR 0x0D}"

definition skip_ws :: "string \<Rightarrow> string" where
  "skip_ws s = dropWhile is_json_ws s"

definition hex_val :: "char \<Rightarrow> nat option" where
  "hex_val c =
     (if is_digit c then Some (of_char c - 48)
      else if char_between (CHR ''a'') (CHR ''f'') c then Some (of_char c - 87)
      else if char_between (CHR ''A'') (CHR ''F'') c then Some (of_char c - 55)
      else None)"

definition hex4 :: "char \<Rightarrow> char \<Rightarrow> char \<Rightarrow> char \<Rightarrow> nat option" where
  "hex4 a b c d =
     (case (hex_val a, hex_val b, hex_val c, hex_val d) of
        (Some w, Some x, Some y, Some z) \<Rightarrow> Some (((w * 16 + x) * 16 + y) * 16 + z)
      | _ \<Rightarrow> None)"

text \<open>The UTF-8 bytes of a code point.\<close>

definition utf8 :: "nat \<Rightarrow> string" where
  "utf8 n =
     (if n < 128 then [char_of n]
      else if n < 2048 then [char_of (192 + n div 64), char_of (128 + n mod 64)]
      else if n < 65536 then
        [char_of (224 + n div 4096), char_of (128 + n div 64 mod 64), char_of (128 + n mod 64)]
      else [char_of (240 + n div 262144), char_of (128 + n div 4096 mod 64),
            char_of (128 + n div 64 mod 64), char_of (128 + n mod 64)])"

text \<open>A high surrogate escape joins with a low surrogate escape that follows it.\<close>

definition is_high :: "nat \<Rightarrow> bool" where "is_high n \<longleftrightarrow> 55296 \<le> n \<and> n < 56320"
definition is_low :: "nat \<Rightarrow> bool" where "is_low n \<longleftrightarrow> 56320 \<le> n \<and> n < 57344"

definition low_escape :: "string \<Rightarrow> (nat \<times> string) option" where
  "low_escape s =
     (case s of b # u # a # c # d # e # rest \<Rightarrow>
        (if b = backslash \<and> u = CHR ''u''
         then (case hex4 a c d e of Some n \<Rightarrow> if is_low n then Some (n, rest) else None | None \<Rightarrow> None)
         else None)
      | _ \<Rightarrow> None)"

lemma low_escape_length: "low_escape s = Some (n, r) \<Longrightarrow> length r < length s"
  by (auto simp: low_escape_def split: list.splits if_splits option.splits)

definition simple_escape :: "char \<Rightarrow> char option" where
  "simple_escape e =
     (if e = quote_char \<or> e = backslash \<or> e = CHR ''/'' then Some e
      else if e = CHR ''b'' then Some (CHR 0x08)
      else if e = CHR ''f'' then Some (CHR 0x0C)
      else if e = CHR ''n'' then Some (CHR 0x0A)
      else if e = CHR ''r'' then Some (CHR 0x0D)
      else if e = CHR ''t'' then Some (CHR 0x09)
      else None)"

text \<open>One step of reading a string body: the bytes it contributes and what is left.\<close>

definition read_unit :: "string \<Rightarrow> (string \<times> string) option" where
  "read_unit s =
     (case s of
        [] \<Rightarrow> None
      | c # r \<Rightarrow>
          if c = backslash then
            (case r of
               [] \<Rightarrow> None
             | e # r' \<Rightarrow>
                 (case simple_escape e of
                    Some x \<Rightarrow> Some ([x], r')
                  | None \<Rightarrow>
                      if e = CHR ''u'' then
                        (case r' of
                           h1 # h2 # h3 # h4 # r'' \<Rightarrow>
                             (case hex4 h1 h2 h3 h4 of
                                None \<Rightarrow> None
                              | Some n \<Rightarrow>
                                  if is_high n then
                                    (case low_escape r'' of
                                       Some (m, rest) \<Rightarrow>
                                         Some (utf8 (65536 + (n - 55296) * 1024 + (m - 56320)), rest)
                                     | None \<Rightarrow> Some (utf8 n, r''))
                                  else Some (utf8 n, r''))
                         | _ \<Rightarrow> None)
                      else None))
          else if of_char c < (32::nat) then None
          else Some ([c], r))"

lemma read_unit_length: "read_unit s = Some (u, r) \<Longrightarrow> length r < length s"
  by (auto simp: read_unit_def split: list.splits if_splits option.splits prod.splits
      dest!: low_escape_length)

function read_string :: "string \<Rightarrow> (string \<times> string) option" where
  "read_string s =
     (case s of
        [] \<Rightarrow> None
      | c # r \<Rightarrow>
          if c = quote_char then Some ([], r)
          else (case read_unit s of
                  None \<Rightarrow> None
                | Some (u, rest) \<Rightarrow>
                    (case read_string rest of
                       None \<Rightarrow> None
                     | Some (t, rest') \<Rightarrow> Some (u @ t, rest'))))"
  by pat_completeness auto
termination
  by (relation "measure length") (auto dest: read_unit_length)

declare read_string.simps [simp del]

definition digits_val :: "string \<Rightarrow> nat" where
  "digits_val ds = foldl (\<lambda>n c. n * 10 + (of_char c - 48)) 0 ds"

text \<open>The optional fraction and exponent of a number: what they consume and what is left.\<close>

definition read_frac :: "string \<Rightarrow> (string \<times> string) option" where
  "read_frac s =
     (case s of
        c # r \<Rightarrow>
          if c = CHR ''.'' then
            (let ds = takeWhile is_digit r
             in if ds = [] then None else Some (c # ds, dropWhile is_digit r))
          else Some ([], s)
      | [] \<Rightarrow> Some ([], s))"

definition read_exp :: "string \<Rightarrow> (string \<times> string) option" where
  "read_exp s =
     (case s of
        c # r \<Rightarrow>
          if c = CHR ''e'' \<or> c = CHR ''E'' then
            (let sg = (case r of d # _ \<Rightarrow> if d = CHR ''+'' \<or> d = CHR ''-'' then [d] else [] | [] \<Rightarrow> []);
                 r' = drop (length sg) r;
                 ds = takeWhile is_digit r'
             in if ds = [] then None else Some (c # sg @ ds, dropWhile is_digit r'))
          else Some ([], s)
      | [] \<Rightarrow> Some ([], s))"

definition read_number :: "string \<Rightarrow> (jsnum \<times> string) option" where
  "read_number s =
     (let sg = (case s of c # _ \<Rightarrow> if c = CHR ''-'' then [c] else [] | [] \<Rightarrow> []);
          s1 = drop (length sg) s;
          ds = takeWhile is_digit s1;
          s2 = dropWhile is_digit s1
      in if ds = [] \<or> (length ds > 1 \<and> hd ds = CHR ''0'') then None
         else (case read_frac s2 of
                 None \<Rightarrow> None
               | Some (fr, s3) \<Rightarrow>
                   (case read_exp s3 of
                      None \<Rightarrow> None
                    | Some (ex, s4) \<Rightarrow>
                        Some (if fr = [] \<and> ex = []
                              then JInt (if sg = [] then int (digits_val ds) else - int (digits_val ds))
                              else JLit (sg @ ds @ fr @ ex), s4))))"

text \<open>The recursive descent. Every call spends one unit of fuel; \<open>JSON_parse\<close> gives twice the
  length of its input and two more.\<close>

fun read_value :: "nat \<Rightarrow> string \<Rightarrow> (json \<times> string) option"
  and read_elems :: "nat \<Rightarrow> string \<Rightarrow> (json list \<times> string) option"
  and read_members :: "nat \<Rightarrow> string \<Rightarrow> ((string \<times> json) list \<times> string) option"
where
  "read_value 0 s = None"
| "read_value (Suc n) s =
     (case skip_ws s of
        [] \<Rightarrow> None
      | c # r \<Rightarrow>
          if c = quote_char then map_option (\<lambda>(t, r'). (JStr t, r')) (read_string r)
          else if c = CHR ''['' then
            (case skip_ws r of
               d # r' \<Rightarrow> if d = CHR '']'' then Some (JArr [], r')
                         else map_option (\<lambda>(vs, r''). (JArr vs, r'')) (read_elems n r)
             | [] \<Rightarrow> None)
          else if c = CHR ''{'' then
            (case skip_ws r of
               d # r' \<Rightarrow> if d = CHR ''}'' then Some (JObj [], r')
                         else map_option (\<lambda>(kvs, r''). (JObj (fromEntries kvs), r'')) (read_members n r)
             | [] \<Rightarrow> None)
          else if prefix ''null'' (c # r) then Some (JNull, drop 4 (c # r))
          else if prefix ''true'' (c # r) then Some (JBool True, drop 4 (c # r))
          else if prefix ''false'' (c # r) then Some (JBool False, drop 5 (c # r))
          else map_option (\<lambda>(x, r'). (JNum x, r')) (read_number (c # r)))"
| "read_elems 0 s = None"
| "read_elems (Suc n) s =
     (case read_value n s of
        None \<Rightarrow> None
      | Some (v, r) \<Rightarrow>
          (case skip_ws r of
             d # r' \<Rightarrow> if d = CHR '']'' then Some ([v], r')
                       else if d = CHR '','' then map_option (\<lambda>(vs, r''). (v # vs, r'')) (read_elems n r')
                       else None
           | [] \<Rightarrow> None))"
| "read_members 0 s = None"
| "read_members (Suc n) s =
     (case skip_ws s of
        q # r \<Rightarrow>
          if q = quote_char then
            (case read_string r of
               None \<Rightarrow> None
             | Some (k, r1) \<Rightarrow>
                 (case skip_ws r1 of
                    d # r2 \<Rightarrow>
                      if d = CHR '':'' then
                        (case read_value n r2 of
                           None \<Rightarrow> None
                         | Some (v, r3) \<Rightarrow>
                             (case skip_ws r3 of
                                e # r4 \<Rightarrow>
                                  if e = CHR ''}'' then Some ([(k, v)], r4)
                                  else if e = CHR '','' then
                                    map_option (\<lambda>(kvs, r5). ((k, v) # kvs, r5)) (read_members n r4)
                                  else None
                              | [] \<Rightarrow> None))
                      else None
                  | [] \<Rightarrow> None))
          else None
      | [] \<Rightarrow> None)"

declare read_value.simps [simp del] read_elems.simps [simp del] read_members.simps [simp del]

definition JSON_parse :: "string \<Rightarrow> json option" where
  "JSON_parse s =
     (case read_value (2 * length s + 2) s of
        Some (v, r) \<Rightarrow> if skip_ws r = [] then Some v else None
      | None \<Rightarrow> None)"


section \<open>Parsing undoes printing\<close>

lemma nat_less_10_cases: "n < (10::nat) \<Longrightarrow> n \<in> {0,1,2,3,4,5,6,7,8,9}"
  by (simp only: insert_iff empty_iff simp_thms) arith

lemma nat_less_16_cases:
  "n < (16::nat) \<Longrightarrow> n < 10 \<or> n = 10 \<or> n = 11 \<or> n = 12 \<or> n = 13 \<or> n = 14 \<or> n = 15"
  by arith

lemma hex_val_hex_digit: "n < 16 \<Longrightarrow> hex_val (hex_digit n) = Some n"
  by (drule nat_less_16_cases)
     (auto simp: hex_digit_def hex_val_def is_digit_def char_between_def dest!: nat_less_10_cases)

lemma read_unit_escape: "read_unit (escape_char c @ t) = Some ([c], t)"
proof -
  have zero: "hex_val (CHR ''0'') = Some 0"
    by (simp add: hex_val_def is_digit_def char_between_def)
  have se: "simple_escape (CHR ''u'') = None" by (simp add: simple_escape_def)
  consider "c \<in> {quote_char, backslash, CHR 0x08, CHR 0x0C, CHR 0x0A, CHR 0x0D, CHR 0x09}"
    | "c \<notin> {quote_char, backslash, CHR 0x08, CHR 0x0C, CHR 0x0A, CHR 0x0D, CHR 0x09}" "of_char c < (32::nat)"
    | "c \<notin> {quote_char, backslash, CHR 0x08, CHR 0x0C, CHR 0x0A, CHR 0x0D, CHR 0x09}" "\<not> of_char c < (32::nat)"
    by blast
  then show ?thesis
  proof cases
    case 1
    then show ?thesis by (auto simp: escape_char_def read_unit_def simple_escape_def)
  next
    case 2
    let ?n = "of_char c :: nat"
    have "hex4 (CHR ''0'') (CHR ''0'') (hex_digit (?n div 16)) (hex_digit (?n mod 16)) = Some ?n"
      using 2 by (simp add: hex4_def zero hex_val_hex_digit)
    moreover have "\<not> is_high ?n" and "utf8 ?n = [c]"
      using 2 by (auto simp: is_high_def utf8_def)
    ultimately show ?thesis using 2
      by (simp add: escape_char_def read_unit_def se)
  next
    case 3
    then show ?thesis by (simp add: escape_char_def read_unit_def)
  qed
qed

lemma escape_char_hd: "\<exists>x xs. escape_char c = x # xs \<and> x \<noteq> quote_char"
  by (simp add: escape_char_def)

lemma read_string_escape:
  "read_string (concat (map escape_char s) @ quote_char # r) = Some (s, r)"
proof (induction s)
  case Nil
  show ?case by (subst read_string.simps) simp
next
  case (Cons c s)
  obtain x xs where x: "escape_char c = x # xs" "x \<noteq> quote_char" using escape_char_hd by blast
  have u: "read_unit (x # xs @ concat (map escape_char s) @ quote_char # r)
    = Some ([c], concat (map escape_char s) @ quote_char # r)"
    using read_unit_escape[of c "concat (map escape_char s) @ quote_char # r"] x by simp
  show ?case by (subst read_string.simps) (simp add: x u Cons.IH)
qed

lemma is_digit_digit_char: "is_digit (digit_char n)"
proof -
  have "n mod 10 \<in> {0,1,2,3,4,5,6,7,8,9}" by (rule nat_less_10_cases) simp
  then show ?thesis unfolding digit_char_def is_digit_def char_between_def by auto
qed

lemma digit_char_val: "n < 10 \<Longrightarrow> of_char (digit_char n) - 48 = n"
  by (drule nat_less_10_cases) (auto simp: digit_char_def)

lemma nat_to_string_digits: "\<forall>c \<in> set (nat_to_string n). is_digit c"
proof (induction n rule: nat_to_string.induct)
  case (1 n)
  then show ?case by (subst nat_to_string.simps) (auto simp: is_digit_digit_char)
qed

lemma digits_val_snoc: "digits_val (ds @ [c]) = digits_val ds * 10 + (of_char c - 48)"
  by (simp add: digits_val_def)

lemma digits_val_nat_to_string: "digits_val (nat_to_string n) = n"
proof (induction n rule: nat_to_string.induct)
  case (1 n)
  show ?case
  proof (cases "n < 10")
    case True
    then show ?thesis by (subst nat_to_string.simps) (simp add: digits_val_def digit_char_val)
  next
    case False
    with 1 show ?thesis
      by (subst nat_to_string.simps) (simp add: digits_val_snoc digit_char_val)
  qed
qed

lemma nat_to_string_no_lead0: "0 < n \<Longrightarrow> hd (nat_to_string n) \<noteq> CHR ''0''"
proof (induction n rule: nat_to_string.induct)
  case (1 n)
  show ?case
  proof (cases "n < 10")
    case True
    then have "n \<in> {0,1,2,3,4,5,6,7,8,9}" by (rule nat_less_10_cases)
    with True 1(2) show ?thesis by (subst nat_to_string.simps) (auto simp: digit_char_def)
  next
    case False
    then have "0 < n div 10" by simp
    with 1 False show ?thesis by (subst nat_to_string.simps) simp
  qed
qed

lemma nat_to_string_canonical: "length (nat_to_string n) > 1 \<Longrightarrow> hd (nat_to_string n) \<noteq> CHR ''0''"
proof (cases "n = 0")
  case True
  assume "length (nat_to_string n) > 1"
  with True show ?thesis by (subst (asm) nat_to_string.simps) simp
qed (simp add: nat_to_string_no_lead0)

text \<open>What may follow a number without being read as part of it.\<close>

definition num_end :: "string \<Rightarrow> bool" where
  "num_end r \<longleftrightarrow> (case r of [] \<Rightarrow> True | c # _ \<Rightarrow> \<not> is_digit c \<and> c \<notin> {CHR ''.'', CHR ''e'', CHR ''E''})"

lemma takeWhile_dropWhile_end:
  "\<forall>c \<in> set ds. P c \<Longrightarrow> (case r of [] \<Rightarrow> True | c # _ \<Rightarrow> \<not> P c) \<Longrightarrow>
    takeWhile P (ds @ r) = ds \<and> dropWhile P (ds @ r) = r"
  by (induction ds) (auto split: list.splits)

lemma read_number_digits:
  assumes "num_end r"
  shows "read_number (nat_to_string n @ r) = Some (JInt (int n), r)"
    and "read_number (CHR ''-'' # nat_to_string n @ r) = Some (JInt (- int n), r)"
proof -
  have nd: "(case r of [] \<Rightarrow> True | c # _ \<Rightarrow> \<not> is_digit c)"
    using assms by (auto simp: num_end_def split: list.splits)
  note td = takeWhile_dropWhile_end[OF nat_to_string_digits nd]
  have ex: "read_frac r = Some ([], r)" "read_exp r = Some ([], r)"
    using assms by (auto simp: num_end_def read_frac_def read_exp_def split: list.splits)
  have minus: "\<not> is_digit (CHR ''-'')" by (simp add: is_digit_def char_between_def)
  obtain d ds where d: "nat_to_string n = d # ds" by (cases "nat_to_string n") auto
  then have "d \<noteq> CHR ''-''" using nat_to_string_digits[of n] minus by auto
  note canon = nat_to_string_canonical[of n]
  have sg: "(case nat_to_string n @ r of [] \<Rightarrow> [] | c # _ \<Rightarrow> if c = CHR ''-'' then [c] else []) = []"
    using d \<open>d \<noteq> CHR ''-''\<close> by simp
  show "read_number (nat_to_string n @ r) = Some (JInt (int n), r)"
    unfolding read_number_def Let_def sg using canon
    by (simp add: td ex digits_val_nat_to_string)
  show "read_number (CHR ''-'' # nat_to_string n @ r) = Some (JInt (- int n), r)"
    unfolding read_number_def Let_def using canon
    by (simp add: td ex digits_val_nat_to_string)
qed

text \<open>Values that a program builds from strings, booleans, integers, arrays and objects.\<close>

fun json_ok :: "json \<Rightarrow> bool" where
  "json_ok (JNum (JLit l)) = False"
| "json_ok (JArr vs) = (\<forall>v \<in> set vs. json_ok v)"
| "json_ok (JObj kvs) = (wf_dict kvs \<and> (\<forall>p \<in> set kvs. json_ok (snd p)))"
| "json_ok _ = True"

definition value_start :: "char \<Rightarrow> bool" where
  "value_start c \<longleftrightarrow> \<not> is_json_ws c \<and> c \<noteq> CHR '']'' \<and> c \<noteq> CHR ''}''"

lemma digit_value_start: "is_digit c \<Longrightarrow> value_start c"
  by (auto simp: value_start_def is_json_ws_def is_digit_def char_between_def)

lemma int_to_string_hd:
  "\<exists>c cs. int_to_string i = c # cs \<and> (is_digit c \<or> c = CHR ''-'')"
proof (cases "i < 0")
  case False
  then show ?thesis using nat_to_string_digits[of "nat i"]
    by (cases "nat_to_string (nat i)") (auto simp: int_to_string_def)
qed (simp add: int_to_string_def)

lemma stringify_hd: "json_ok j \<Longrightarrow> \<exists>c cs. JSON_stringify j = c # cs \<and> value_start c"
proof (cases j)
  case (JNum x)
  assume "json_ok j"
  with JNum obtain i where "x = JInt i" by (cases x) auto
  moreover obtain c cs where "int_to_string i = c # cs" "is_digit c \<or> c = CHR ''-''"
    using int_to_string_hd by blast
  moreover have "value_start (CHR ''-'')" by (simp add: value_start_def is_json_ws_def)
  ultimately show ?thesis using JNum digit_value_start by auto
qed (auto simp: value_start_def is_json_ws_def quote_string_def)

lemma skip_ws_start [simp]: "value_start c \<Longrightarrow> skip_ws (c # s) = c # s"
  by (simp add: skip_ws_def value_start_def)

lemma skip_ws_punct [simp]:
  "skip_ws (CHR '','' # s) = CHR '','' # s" "skip_ws (CHR '']'' # s) = CHR '']'' # s"
  "skip_ws (CHR ''}'' # s) = CHR ''}'' # s" "skip_ws (CHR '':'' # s) = CHR '':'' # s"
  "skip_ws (quote_char # s) = quote_char # s" "skip_ws [] = []"
  by (simp_all add: skip_ws_def is_json_ws_def)

lemma num_end_punct [simp]:
  "num_end (CHR '','' # s)" "num_end (CHR '']'' # s)" "num_end (CHR ''}'' # s)" "num_end []"
  by (simp_all add: num_end_def is_digit_def char_between_def)

lemma length_stringify_pos: "json_ok j \<Longrightarrow> 1 \<le> length (JSON_stringify j)"
  using stringify_hd[of j] by auto

definition reads_back :: "json \<Rightarrow> bool" where
  "reads_back v \<longleftrightarrow> (\<forall>n r. num_end r \<longrightarrow> 2 * length (JSON_stringify v) \<le> n \<longrightarrow>
     read_value n (JSON_stringify v @ r) = Some (v, r))"

lemma reads_backD:
  "reads_back v \<Longrightarrow> num_end r \<Longrightarrow> 2 * length (JSON_stringify v) \<le> n \<Longrightarrow>
    read_value n (JSON_stringify v @ r) = Some (v, r)"
  by (simp add: reads_back_def)

lemma read_elems_back:
  assumes "vs \<noteq> []" and "\<forall>v \<in> set vs. reads_back v"
    and "2 * length (js_join '','' (map JSON_stringify vs)) + 1 \<le> n"
  shows "read_elems n (js_join '','' (map JSON_stringify vs) @ CHR '']'' # r) = Some (vs, r)"
  using assms
proof (induction vs arbitrary: n)
  case (Cons v vs)
  from Cons.prems(3) obtain m where n: "n = Suc m" by (cases n) auto
  show ?case
  proof (cases "vs = []")
    case True
    have "read_value m (JSON_stringify v @ CHR '']'' # r) = Some (v, CHR '']'' # r)"
      using Cons.prems True n by (intro reads_backD) auto
    with True n show ?thesis by (simp add: read_elems.simps)
  next
    case False
    let ?b = "js_join '','' (map JSON_stringify vs)"
    have len: "2 * length (JSON_stringify v) \<le> m" "2 * length ?b + 1 \<le> m"
      using Cons.prems(3) n False by (auto simp: js_join_Cons)
    have "read_value m (JSON_stringify v @ CHR '','' # ?b @ CHR '']'' # r)
      = Some (v, CHR '','' # ?b @ CHR '']'' # r)"
      using Cons.prems len by (intro reads_backD) auto
    moreover have "read_elems m (?b @ CHR '']'' # r) = Some (vs, r)"
      using Cons.IH[OF False] Cons.prems(2) len by simp
    ultimately show ?thesis using n False by (simp add: read_elems.simps js_join_Cons)
  qed
qed simp

lemma read_members_back:
  assumes "kvs \<noteq> []" and "\<forall>p \<in> set kvs. json_ok (snd p) \<and> reads_back (snd p)"
    and "2 * length (js_join '','' (map (\<lambda>p. quote_string (fst p) @ '':'' @ JSON_stringify (snd p)) kvs)) + 1 \<le> n"
  shows "read_members n (js_join '','' (map (\<lambda>p. quote_string (fst p) @ '':'' @ JSON_stringify (snd p)) kvs)
      @ CHR ''}'' # r) = Some (kvs, r)"
  using assms
proof (induction kvs arbitrary: n)
  case (Cons p kvs)
  let ?f = "\<lambda>p. quote_string (fst p) @ '':'' @ JSON_stringify (snd p)"
  from Cons.prems(3) obtain m where n: "n = Suc m" by (cases n) auto
  obtain k v where p: "p = (k, v)" by (cases p)
  have key: "read_string (concat (map escape_char k) @ quote_char # t) = Some (k, t)" for t
    by (rule read_string_escape)
  show ?case
  proof (cases "kvs = []")
    case True
    have "read_value m (JSON_stringify v @ CHR ''}'' # r) = Some (v, CHR ''}'' # r)"
      using Cons.prems True n p by (intro reads_backD) auto
    with True n p show ?thesis
      by (simp add: read_members.simps quote_string_def key)
  next
    case False
    let ?b = "js_join '','' (map ?f kvs)"
    have len: "2 * length (JSON_stringify v) \<le> m" "2 * length ?b + 1 \<le> m"
      using Cons.prems(3) n p False by (auto simp: js_join_Cons)
    have "read_value m (JSON_stringify v @ CHR '','' # ?b @ CHR ''}'' # r)
      = Some (v, CHR '','' # ?b @ CHR ''}'' # r)"
      using Cons.prems len p by (intro reads_backD) auto
    moreover have "read_members m (?b @ CHR ''}'' # r) = Some (kvs, r)"
      using Cons.IH[OF False] Cons.prems(2) len by simp
    ultimately show ?thesis using n p False
      by (simp add: read_members.simps quote_string_def key js_join_Cons)
  qed
qed simp

lemma update_new: "k \<notin> fst ` set d \<Longrightarrow> AList.update k v d = d @ [(k, v)]"
  by (induction d) auto

lemma assign_entries_fresh:
  "distinct (map fst (d @ ps)) \<Longrightarrow> assign_entries d ps = d @ ps"
proof (induction ps arbitrary: d)
  case (Cons p ps)
  have "AList.update (fst p) (snd p) d = d @ [p]"
    using Cons.prems by (simp add: update_new)
  with Cons show ?case by simp
qed simp

lemma fromEntries_id: "wf_dict ps \<Longrightarrow> fromEntries ps = ps"
  by (simp add: fromEntries_def wf_dict_def assign_entries_fresh)

lemma int_to_string_not_literal:
  "int_to_string i = c # cs \<Longrightarrow>
    c \<notin> {quote_char, CHR ''['', CHR ''{'', CHR ''n'', CHR ''t'', CHR ''f''}"
  using int_to_string_hd[of i] by (auto simp: is_digit_def char_between_def)

lemma read_value_int:
  assumes "num_end r" and "1 \<le> n"
  shows "read_value n (int_to_string i @ r) = Some (JNum (JInt i), r)"
proof -
  obtain c cs where c: "int_to_string i = c # cs" "is_digit c \<or> c = CHR ''-''"
    using int_to_string_hd by blast
  obtain m where n: "n = Suc m" using assms(2) by (cases n) auto
  have "value_start c" using c(2) digit_value_start by (auto simp: value_start_def is_json_ws_def)
  then have sk: "skip_ws (c # cs @ r) = c # cs @ r" by simp
  have num: "read_number (c # cs @ r) = Some (JInt i, r)"
  proof (cases "i < 0")
    case True
    then have "c # cs = CHR ''-'' # nat_to_string (nat (- i))" using c by (simp add: int_to_string_def)
    with True show ?thesis using read_number_digits(2)[OF assms(1), of "nat (- i)"] by simp
  next
    case False
    then have "c # cs = nat_to_string (nat i)" using c by (simp add: int_to_string_def)
    with False show ?thesis using read_number_digits(1)[OF assms(1), of "nat i"] by (metis append_Cons int_nat_eq not_less)
  qed
  show ?thesis using int_to_string_not_literal[OF c(1)]
    by (auto simp: c(1) n read_value.simps sk num)
qed

lemma read_value_literal:
  "1 \<le> n \<Longrightarrow> read_value n (''null'' @ r) = Some (JNull, r)"
  "1 \<le> n \<Longrightarrow> read_value n (''true'' @ r) = Some (JBool True, r)"
  "1 \<le> n \<Longrightarrow> read_value n (''false'' @ r) = Some (JBool False, r)"
  by (cases n; simp add: read_value.simps skip_ws_def is_json_ws_def)+

lemma read_value_string: "1 \<le> n \<Longrightarrow> read_value n (quote_string s @ r) = Some (JStr s, r)"
  using read_string_escape[of s r] by (cases n) (simp_all add: read_value.simps quote_string_def)

lemma stringify_reads_back: "json_ok j \<Longrightarrow> reads_back j"
proof (induction j rule: JSON_stringify.induct)
  case 1
  show ?case using read_value_literal(1) by (simp add: reads_back_def)
next
  case (2 b)
  show ?case using read_value_literal(2,3) by (cases b) (simp_all add: reads_back_def)
next
  case (3 x)
  then obtain i where x: "x = JInt i" by (cases x) auto
  have "1 \<le> length (int_to_string i)" using int_to_string_hd[of i] by auto
  then show ?case unfolding reads_back_def x
    by (auto intro!: read_value_int)
next
  case (4 s)
  show ?case using read_value_string[of _ s] by (auto simp: reads_back_def quote_string_def)
next
  case (5 vs)
  have vs: "\<forall>v \<in> set vs. reads_back v" using 5 by auto
  have sk: "skip_ws (CHR ''['' # s) = CHR ''['' # s" for s by (simp add: skip_ws_def is_json_ws_def)
  show ?case
    unfolding reads_back_def
  proof (intro allI impI)
    fix n r
    assume "2 * length (JSON_stringify (JArr vs)) \<le> n"
    then obtain m where n: "n = Suc m" "2 * length (js_join '','' (map JSON_stringify vs)) + 1 \<le> m"
      by (cases n) auto
    show "read_value n (JSON_stringify (JArr vs) @ r) = Some (JArr vs, r)"
    proof (cases vs)
      case Nil
      then show ?thesis by (simp add: n(1) read_value.simps sk)
    next
      case (Cons v vs')
      obtain c cs where c: "JSON_stringify v = c # cs" "value_start c"
        using stringify_hd[of v] 5 Cons by auto
      obtain b where b: "js_join '','' (map JSON_stringify vs) = c # b"
        using Cons c(1) by (cases vs') auto
      have "c \<noteq> CHR '']''" using c(2) by (simp add: value_start_def)
      moreover have "read_elems m (c # b @ CHR '']'' # r) = Some (vs, r)"
        using read_elems_back[of vs m r] vs n(2) Cons b by simp
      ultimately show ?thesis using c(2)
        by (simp add: n(1) b read_value.simps sk)
    qed
  qed
next
  case (6 kvs)
  let ?f = "\<lambda>p. quote_string (fst p) @ '':'' @ JSON_stringify (snd p)"
  have ok: "\<forall>p \<in> set kvs. json_ok (snd p) \<and> reads_back (snd p)" using 6 by auto
  have sk: "skip_ws (CHR ''{'' # s) = CHR ''{'' # s" for s by (simp add: skip_ws_def is_json_ws_def)
  show ?case
    unfolding reads_back_def
  proof (intro allI impI)
    fix n r
    assume "2 * length (JSON_stringify (JObj kvs)) \<le> n"
    then obtain m where n: "n = Suc m" "2 * length (js_join '','' (map ?f kvs)) + 1 \<le> m"
      by (cases n) auto
    show "read_value n (JSON_stringify (JObj kvs) @ r) = Some (JObj kvs, r)"
    proof (cases kvs)
      case Nil
      then show ?thesis by (simp add: n(1) read_value.simps sk)
    next
      case (Cons p kvs')
      obtain b where b: "js_join '','' (map ?f kvs) = quote_char # b"
        using Cons by (cases kvs') (auto simp: quote_string_def)
      have "read_members m (quote_char # b @ CHR ''}'' # r) = Some (kvs, r)"
        using read_members_back[of kvs m r] ok n(2) Cons b by simp
      then show ?thesis using "6.prems" b
        by (simp add: n(1) read_value.simps sk fromEntries_id)
    qed
  qed
qed

lemma JSON_roundtrip: "json_ok j \<Longrightarrow> JSON_parse (JSON_stringify j) = Some j"
  using reads_backD[OF stringify_reads_back, of j "[]" "2 * length (JSON_stringify j) + 2"]
  by (simp add: JSON_parse_def)

end
