(* ===== verification/HttpTypes.thy ===== *)
theory HttpTypes
  imports Json
begin

text \<open>
  The data of an HTTP request (\<open>src/src/types/http.ts\<close>): the request configuration a tab edits,
  the response and the script results the backend returns, the default configuration, the status
  colour bands and the default headers injected into old requests. An optional field \<open>f?: T\<close> is a
  \<open>T option\<close>, and so is a field of type \<open>T | null\<close>.
\<close>

section \<open>Request and response data\<close>

datatype HttpMethod = GET | POST | PUT | DELETE | PATCH | HEAD | OPTIONS

datatype BodyType = BodyNone | BodyRaw | BodyJson | BodyFormUrlencoded | BodyFormData | BodyBinary | BodyGraphql

datatype HttpRequestMode = ModeRest | ModeGraphql | ModeSse

datatype AuthType = AuthNone | AuthBearer | AuthBasic | AuthApiKey | AuthOauth2

datatype FieldType = FieldText | FieldFile

datatype GrantType = AuthorizationCode | ClientCredentials | GrantPassword

datatype ApiKeyAddTo = AddToHeader | AddToQuery

record KeyValue =
  kv_key :: string
  kv_value :: string
  kv_description :: "string option"
  kv_enabled :: bool
  kv_isAuto :: "bool option"

record FormDataField =
  fd_key :: string
  fd_value :: string
  fd_fieldType :: FieldType
  fd_fileName :: "string option"
  fd_filePaths :: "string list option"
  fd_fileNames :: "string list option"
  fd_description :: "string option"
  fd_contentType :: "string option"
  fd_enabled :: bool

record OAuth2Config =
  oa_grantType :: GrantType
  oa_accessTokenUrl :: string
  oa_clientId :: string
  oa_clientSecret :: string
  oa_scope :: string
  oa_authUrl :: string
  oa_redirectUri :: string
  oa_usePkce :: bool
  oa_username :: string
  oa_password :: string
  oa_accessToken :: string
  oa_refreshToken :: string
  oa_tokenExpiresAt :: int

record HttpRequestConfig =
  rq_id :: string
  rq_name :: string
  rq_requestMode :: HttpRequestMode
  rq_method :: HttpMethod
  rq_url :: string
  rq_headers :: "KeyValue list"
  rq_queryParams :: "KeyValue list"
  rq_bodyType :: BodyType
  rq_rawBody :: string
  rq_rawContentType :: string
  rq_jsonBody :: string
  rq_formFields :: "KeyValue list"
  rq_formDataFields :: "FormDataField list"
  rq_binaryFilePath :: string
  rq_binaryFileName :: string
  rq_graphqlQuery :: string
  rq_graphqlVariables :: string
  rq_authType :: AuthType
  rq_bearerToken :: string
  rq_basicUsername :: string
  rq_basicPassword :: string
  rq_apiKeyName :: string
  rq_apiKeyValue :: string
  rq_apiKeyAddTo :: ApiKeyAddTo
  rq_oauth2Config :: OAuth2Config
  rq_preScript :: string
  rq_postScript :: string
  rq_assertions :: string
  rq_timeoutMs :: int
  rq_followRedirects :: bool

record CookieInfo =
  ck_name :: string
  ck_value :: string
  ck_domain :: "string option"
  ck_path :: "string option"
  ck_expires :: "string option"
  ck_httpOnly :: bool
  ck_secure :: bool
  ck_sameSite :: "string option"

record ResponseTiming =
  tm_totalMs :: int
  tm_connectMs :: "int option"
  tm_ttfbMs :: "int option"
  tm_downloadMs :: "int option"

record HttpResponse =
  rs_status :: int
  rs_statusText :: string
  rs_headers :: "(string \<times> string) list"
  rs_body :: string
  rs_bodySize :: int
  rs_contentType :: "string option"
  rs_durationMs :: int
  rs_timing :: ResponseTiming
  rs_cookies :: "CookieInfo list"
  rs_isEventStream :: "bool option"
  rs_isBinary :: "bool option"

record ScriptRequestPatch =
  sp_headers :: "string dict"
  sp_removedHeaders :: "string list"
  sp_queryParams :: "string dict"
  sp_removedQueryParams :: "string list"

record TestResult =
  tr_name :: string
  tr_passed :: bool
  tr_error :: "string option"

record ScriptResult =
  sr_envUpdates :: "string dict"
  sr_folderUpdates :: "string dict"
  sr_collectionUpdates :: "string dict"
  sr_globalUpdates :: "string dict"
  sr_requestPatch :: "ScriptRequestPatch option"
  sr_testResults :: "TestResult list"
  sr_logs :: "string list"
  sr_success :: bool
  sr_error :: "string option"

record HttpResponseWithScripts =
  rws_response :: HttpResponse
  rws_preScriptResult :: "ScriptResult option"
  rws_postScriptResult :: "ScriptResult option"


section \<open>Defaults\<close>

definition emptyKeyValue :: KeyValue where
  "emptyKeyValue = \<lparr> kv_key = [], kv_value = [], kv_description = None, kv_enabled = True,
     kv_isAuto = None \<rparr>"

text \<open>\<open>createDefaultRequest()\<close>; the fresh \<open>crypto.randomUUID()\<close> is an argument.\<close>

definition createDefaultRequest :: "string \<Rightarrow> HttpRequestConfig" where
  "createDefaultRequest uuid = \<lparr>
     rq_id = uuid,
     rq_name = ''Untitled Request'',
     rq_requestMode = ModeRest,
     rq_method = GET,
     rq_url = [],
     rq_headers = [emptyKeyValue],
     rq_queryParams = [emptyKeyValue],
     rq_bodyType = BodyNone,
     rq_rawBody = [],
     rq_rawContentType = ''text/plain'',
     rq_jsonBody = ''{'' @ [CHR 0x0A] @ ''  '' @ [CHR 0x0A] @ ''}'',
     rq_formFields = [emptyKeyValue],
     rq_formDataFields = [\<lparr> fd_key = [], fd_value = [], fd_fieldType = FieldText, fd_fileName = None,
       fd_filePaths = None, fd_fileNames = None, fd_description = None, fd_contentType = None,
       fd_enabled = True \<rparr>],
     rq_binaryFilePath = [],
     rq_binaryFileName = [],
     rq_graphqlQuery = [],
     rq_graphqlVariables = ''{'' @ [CHR 0x0A] @ ''  '' @ [CHR 0x0A] @ ''}'',
     rq_authType = AuthNone,
     rq_bearerToken = [],
     rq_basicUsername = [],
     rq_basicPassword = [],
     rq_apiKeyName = [],
     rq_apiKeyValue = [],
     rq_apiKeyAddTo = AddToHeader,
     rq_oauth2Config = \<lparr>
       oa_grantType = ClientCredentials,
       oa_accessTokenUrl = [],
       oa_clientId = [],
       oa_clientSecret = [],
       oa_scope = [],
       oa_authUrl = [],
       oa_redirectUri = ''http://localhost:1420/callback'',
       oa_usePkce = True,
       oa_username = [],
       oa_password = [],
       oa_accessToken = [],
       oa_refreshToken = [],
       oa_tokenExpiresAt = 0 \<rparr>,
     rq_preScript = [],
     rq_postScript = [],
     rq_assertions = ''[]'',
     rq_timeoutMs = 30000,
     rq_followRedirects = True \<rparr>"


section \<open>Colours and default headers\<close>

fun getMethodColor :: "HttpMethod \<Rightarrow> string" where
  "getMethodColor GET = ''text-method-get''"
| "getMethodColor POST = ''text-method-post''"
| "getMethodColor PUT = ''text-method-put''"
| "getMethodColor DELETE = ''text-method-delete''"
| "getMethodColor PATCH = ''text-method-patch''"
| "getMethodColor HEAD = ''text-method-head''"
| "getMethodColor OPTIONS = ''text-method-options''"

definition getStatusColor :: "int \<Rightarrow> string" where
  "getStatusColor status =
     (if status < 200 then ''text-info''
      else if status < 300 then ''text-success''
      else if status < 400 then ''text-warning''
      else if status < 500 then ''text-method-post''
      else ''text-error'')"

definition autoHeader :: "string \<Rightarrow> string \<Rightarrow> KeyValue" where
  "autoHeader k v = \<lparr> kv_key = k, kv_value = v, kv_description = None, kv_enabled = True,
     kv_isAuto = Some True \<rparr>"

definition autoHeaderDefaults :: "KeyValue list" where
  "autoHeaderDefaults =
     [autoHeader ''User-Agent'' ''ProtoForge/0.1.0'',
      autoHeader ''Accept'' ''*/*'',
      autoHeader ''Accept-Encoding'' ''gzip, deflate, br'',
      autoHeader ''Connection'' ''keep-alive'']"

definition hasHeaderKey :: "KeyValue list \<Rightarrow> string \<Rightarrow> bool" where
  "hasHeaderKey arr k \<longleftrightarrow> some_elem (\<lambda>h. js_toLowerCase (js_trim (kv_key h)) = js_toLowerCase k) arr"

text \<open>The argument is \<open>None\<close> when the stored value is not an array.\<close>

definition ensureAutoHeaders :: "KeyValue list option \<Rightarrow> KeyValue list" where
  "ensureAutoHeaders headers =
     (let arr = nullish headers [];
          toUnshift = filter (\<lambda>d. \<not> hasHeaderKey arr (kv_key d)) autoHeaderDefaults
      in if 0 < length toUnshift then toUnshift @ arr else arr)"


section \<open>Lemmas\<close>

lemma hasHeaderKey_append [simp]:
  "hasHeaderKey (xs @ ys) k \<longleftrightarrow> hasHeaderKey xs k \<or> hasHeaderKey ys k"
  by (simp add: hasHeaderKey_def some_elem_def)

lemma ensureAutoHeaders_eq:
  "ensureAutoHeaders headers
    = filter (\<lambda>d. \<not> hasHeaderKey (nullish headers []) (kv_key d)) autoHeaderDefaults
        @ nullish headers []"
  by (simp add: ensureAutoHeaders_def Let_def)

lemma autoHeader_key [simp]: "kv_key (autoHeader k v) = k"
  by (simp add: autoHeader_def)

lemma autoHeader_keys_trimmed: "d \<in> set autoHeaderDefaults \<Longrightarrow> js_trim (kv_key d) = kv_key d"
  by (auto simp: autoHeaderDefaults_def js_trim_def is_ws_def)

lemma hasHeaderKey_mem: "d \<in> set xs \<Longrightarrow> js_trim (kv_key d) = kv_key d \<Longrightarrow> hasHeaderKey xs (kv_key d)"
  by (auto simp: hasHeaderKey_def some_elem_def list_ex_iff intro!: bexI[of _ d])

text \<open>Every default header is there afterwards, none is added twice, and the user's own headers
  stay as they are, in order, behind the added ones.\<close>

lemma ensureAutoHeaders_has_default:
  assumes "d \<in> set autoHeaderDefaults"
  shows "hasHeaderKey (ensureAutoHeaders headers) (kv_key d)"
  using assms by (auto simp: ensureAutoHeaders_eq intro: hasHeaderKey_mem autoHeader_keys_trimmed)

lemma ensureAutoHeaders_idem:
  "ensureAutoHeaders (Some (ensureAutoHeaders headers)) = ensureAutoHeaders headers"
  using ensureAutoHeaders_has_default[of _ headers]
  by (simp add: ensureAutoHeaders_eq[of "Some _"] nullish_def filter_empty_conv)


section \<open>Properties\<close>

text \<open>Injecting the default headers adds each of them at most once and only when no header of
  that name (ignoring case and surrounding space) is there, keeps the request's own headers in
  order at the end, and does nothing the second time.\<close>

theorem auto_headers_injected_once:
  "(\<exists>added. ensureAutoHeaders headers = added @ nullish headers []
      \<and> distinct added \<and> set added = {d \<in> set autoHeaderDefaults. \<not> hasHeaderKey (nullish headers []) (kv_key d)})
    \<and> ensureAutoHeaders (Some (ensureAutoHeaders headers)) = ensureAutoHeaders headers"
proof -
  have "distinct autoHeaderDefaults" by (simp add: autoHeaderDefaults_def autoHeader_def)
  then show ?thesis
    using ensureAutoHeaders_idem
    by (auto simp: ensureAutoHeaders_eq intro!: exI[of _ "filter (\<lambda>d. \<not> hasHeaderKey (nullish headers []) (kv_key d)) autoHeaderDefaults"])
qed

end
