(* ===== verification/AppStore.thy ===== *)
theory AppStore
  imports HttpTypes
begin

text \<open>
  The application store (\<open>src/src/stores/appStore.ts\<close>): request tabs, the sessions of the tool
  workbenches, which of them is in focus, and the life-cycle states shown as status dots. The
  backend connections that a handler releases are part of its result. This theory holds the data
  and the handlers; \<open>AppStoreProps\<close> has the theorems.

  An overlay \<open>{...x, ...updates}\<close> with a \<open>Partial\<close> record is the function on the record that it
  denotes. \<open>crypto.randomUUID()\<close> values are arguments.
\<close>

section \<open>Data\<close>

datatype RequestProtocol = Http | Ws | Mqtt | Grpc

datatype ToolWorkbench = TcpUdp | LoadTest | CaptureTool | VideoStream | MockServer | DbClient
  | Toolbox | WorkflowTool

datatype WorkbenchView = Home | Requests | Tool ToolWorkbench

datatype ContextState = Idle | Ok | Live | Run | Err

datatype ForgeDomainId = DomApi | DomRealtime | DomMock | DomWorkflow | DomDb | DomMedia | DomLoad
  | DomCapture | DomToolbox | DomPlugins

datatype ForgeGroupId = GroupWork | GroupData | GroupDiag | GroupExt

record ForgeDomain =
  dom_id :: ForgeDomainId
  dom_group :: ForgeGroupId
  dom_icon :: string
  dom_zh :: string
  dom_en :: string
  dom_subZh :: "string option"
  dom_subEn :: "string option"
  dom_modal :: bool
  dom_workbench :: "WorkbenchView option"

text \<open>A text given by its code points.\<close>

definition utf8_text :: "nat list \<Rightarrow> string" where
  "utf8_text ns = concat (map utf8 ns)"

text \<open>The Chinese and the English subtitle of a domain are the same text.\<close>

definition forge_domain ::
  "ForgeDomainId \<Rightarrow> ForgeGroupId \<Rightarrow> string \<Rightarrow> string \<Rightarrow> string \<Rightarrow> string option \<Rightarrow> bool
    \<Rightarrow> WorkbenchView option \<Rightarrow> ForgeDomain" where
  "forge_domain i g icon zh en sub modal wb = \<lparr> dom_id = i, dom_group = g, dom_icon = icon,
     dom_zh = zh, dom_en = en, dom_subZh = sub, dom_subEn = sub, dom_modal = modal,
     dom_workbench = wb \<rparr>"

definition FORGE_GROUPS :: "(ForgeGroupId \<times> string \<times> string) list" where
  "FORGE_GROUPS =
     [(GroupWork, utf8_text [24037, 20316], ''Work''),
      (GroupData, utf8_text [25968, 25454], ''Data''),
      (GroupDiag, utf8_text [35786, 26029], ''Diagnostics''),
      (GroupExt, utf8_text [25193, 23637], ''Extend'')]"

definition FORGE_DOMAINS :: "ForgeDomain list" where
  "FORGE_DOMAINS =
     [forge_domain DomApi GroupWork ''globe'' (utf8_text [65, 80, 73, 32, 25509, 21475]) ''API'' None False (Some Requests),
      forge_domain DomRealtime GroupWork ''radio'' (utf8_text [23454, 26102, 36830, 25509]) ''Realtime'' (Some ''WS / MQTT / gRPC / TCP'') False (Some Requests),
      forge_domain DomMock GroupWork ''server'' (utf8_text [77, 111, 99, 107, 32, 26381, 21153]) ''Mock'' None False (Some (Tool MockServer)),
      forge_domain DomWorkflow GroupWork ''zap'' (utf8_text [24037, 20316, 27969]) ''Workflow'' None False (Some (Tool WorkflowTool)),
      forge_domain DomDb GroupData ''database'' (utf8_text [25968, 25454, 24211]) ''Database'' (Some ''MySQL / PostgreSQL / Redis'') False (Some (Tool DbClient)),
      forge_domain DomMedia GroupData ''video'' (utf8_text [35270, 39057, 27969]) ''Media'' (Some ''RTSP / RTMP / HLS / WebRTC'') False (Some (Tool VideoStream)),
      forge_domain DomLoad GroupDiag ''gauge'' (utf8_text [21387, 27979]) ''Load Test'' None False (Some (Tool LoadTest)),
      forge_domain DomCapture GroupDiag ''waves'' (utf8_text [25235, 21253, 20195, 29702]) ''Capture'' (Some ''HTTP / HTTPS proxy'') False (Some (Tool CaptureTool)),
      forge_domain DomToolbox GroupExt ''wrench'' (utf8_text [24037, 20855, 31665]) ''Toolbox'' None False (Some (Tool Toolbox)),
      forge_domain DomPlugins GroupExt ''puzzle'' (utf8_text [25554, 20214, 24066, 22330]) ''Plugins'' None True None]"

fun TOOL_TO_DOMAIN :: "ToolWorkbench \<Rightarrow> ForgeDomainId" where
  "TOOL_TO_DOMAIN MockServer = DomMock"
| "TOOL_TO_DOMAIN WorkflowTool = DomWorkflow"
| "TOOL_TO_DOMAIN DbClient = DomDb"
| "TOOL_TO_DOMAIN VideoStream = DomMedia"
| "TOOL_TO_DOMAIN LoadTest = DomLoad"
| "TOOL_TO_DOMAIN CaptureTool = DomCapture"
| "TOOL_TO_DOMAIN Toolbox = DomToolbox"
| "TOOL_TO_DOMAIN TcpUdp = DomRealtime"

fun PROTOCOL_TO_DOMAIN :: "RequestProtocol \<Rightarrow> ForgeDomainId" where
  "PROTOCOL_TO_DOMAIN Http = DomApi"
| "PROTOCOL_TO_DOMAIN Ws = DomRealtime"
| "PROTOCOL_TO_DOMAIN Mqtt = DomRealtime"
| "PROTOCOL_TO_DOMAIN Grpc = DomRealtime"

fun PROTOCOL_ICON :: "RequestProtocol \<Rightarrow> string" where
  "PROTOCOL_ICON Http = ''globe''"
| "PROTOCOL_ICON Ws = ''wifi''"
| "PROTOCOL_ICON Mqtt = ''radio''"
| "PROTOCOL_ICON Grpc = ''network''"

fun TOOL_ICON :: "ToolWorkbench \<Rightarrow> string" where
  "TOOL_ICON TcpUdp = ''network''"
| "TOOL_ICON LoadTest = ''gauge''"
| "TOOL_ICON CaptureTool = ''waves''"
| "TOOL_ICON VideoStream = ''video''"
| "TOOL_ICON MockServer = ''server''"
| "TOOL_ICON DbClient = ''database''"
| "TOOL_ICON Toolbox = ''wrench''"
| "TOOL_ICON WorkflowTool = ''zap''"

text \<open>The literals of the union types, where they become part of a string.\<close>

fun protocol_name :: "RequestProtocol \<Rightarrow> string" where
  "protocol_name Http = ''http''"
| "protocol_name Ws = ''ws''"
| "protocol_name Mqtt = ''mqtt''"
| "protocol_name Grpc = ''grpc''"

fun tool_name :: "ToolWorkbench \<Rightarrow> string" where
  "tool_name TcpUdp = ''tcpudp''"
| "tool_name LoadTest = ''loadtest''"
| "tool_name CaptureTool = ''capture''"
| "tool_name VideoStream = ''videostream''"
| "tool_name MockServer = ''mockserver''"
| "tool_name DbClient = ''dbclient''"
| "tool_name Toolbox = ''toolbox''"
| "tool_name WorkflowTool = ''workflow''"

text \<open>\<open>SocketMode\<close> and \<open>VideoProtocol\<close> are unions of string literals; a mode is its literal.\<close>

type_synonym SocketMode = string
type_synonym VideoProtocol = string

definition DEFAULT_TCP_TOOL_MODE :: SocketMode where "DEFAULT_TCP_TOOL_MODE = ''tcp-client''"
definition DEFAULT_VIDEO_TOOL_MODE :: VideoProtocol where "DEFAULT_VIDEO_TOOL_MODE = ''rtsp''"

text \<open>\<open>customLabel\<close> may be absent (\<open>None\<close>), \<open>null\<close> (\<open>Some None\<close>) or a text.\<close>

record ToolSessionOptions =
  op_customLabel :: "string option option"
  op_tcpMode :: "SocketMode option"
  op_videoMode :: "VideoProtocol option"

record ToolSession =
  ts_id :: string
  ts_tool :: ToolWorkbench
  ts_customLabel :: "string option"
  ts_tcpMode :: "SocketMode option"
  ts_videoMode :: "VideoProtocol option"

record AppTab =
  tab_id :: string
  tab_protocol :: RequestProtocol
  tab_connectionEpoch :: string
  tab_label :: string
  tab_customLabel :: "string option"
  tab_linkedCollectionItemId :: "string option"
  tab_linkedCollectionId :: "string option"
  tab_linkedCollectionParentId :: "string option"
  tab_linkedCollectionSortOrder :: "int option"
  tab_linkedCollectionCreatedAt :: "string option"
  tab_savedRequestSignature :: "string option"
  tab_httpConfig :: "HttpRequestConfig option"
  tab_httpResponse :: "HttpResponse option"
  tab_loading :: bool
  tab_error :: "string option"
  tab_wsUrl :: "string option"

datatype TabKind = RequestTabKind | ToolTabKind

record UnifiedTab =
  ut_id :: string
  ut_kind :: TabKind
  ut_tabId :: "string option"
  ut_tool :: "ToolWorkbench option"
  ut_sessionId :: "string option"
  ut_protocol :: "RequestProtocol option"
  ut_domain :: ForgeDomainId
  ut_title :: string
  ut_detail :: "string option"
  ut_method :: "HttpMethod option"
  ut_icon :: string
  ut_state :: ContextState

record app_state =
  ap_tabs :: "AppTab list"
  ap_activeTabId :: "string option"
  ap_activeWorkbench :: WorkbenchView
  ap_activeCollectionId :: "string option"
  ap_toolSessions :: "ToolWorkbench \<Rightarrow> ToolSession list"
  ap_activeToolSessionIds :: "ToolWorkbench \<Rightarrow> string option"
  ap_contextStates :: "ContextState dict"

text \<open>The backend work a handler starts and does not wait for. \<open>Disconnect\<close> carries the protocol
  whose disconnect command is called and the connection id it is called with.\<close>

datatype release =
    Disconnect RequestProtocol string
  | DetachStore ToolWorkbench string
  | StopLoadTest string
  | DestroyProxySession string
  | DestroyMockServer string
  | ReleaseDbClient string
  | DisconnectStream string
  | ReleaseTcpSession string

section \<open>Helpers\<close>

definition toolContextId :: "ToolWorkbench \<Rightarrow> string \<Rightarrow> string" where
  "toolContextId tool sessionId = tool_name tool @ '':'' @ sessionId"

definition requestConnectionId :: "AppTab \<Rightarrow> RequestProtocol \<Rightarrow> string" where
  "requestConnectionId tab protocol =
     protocol_name protocol @ ''-'' @ tab_id tab @ ''-'' @ tab_connectionEpoch tab"

fun requestLabels :: "RequestProtocol \<Rightarrow> string" where
  "requestLabels Http = ''Untitled Request''"
| "requestLabels Ws = ''WebSocket''"
| "requestLabels Mqtt = ''MQTT Client''"
| "requestLabels Grpc = ''gRPC Client''"

definition no_options :: ToolSessionOptions where
  "no_options = \<lparr> op_customLabel = None, op_tcpMode = None, op_videoMode = None \<rparr>"

text \<open>The id is the given one, or else the fresh one.\<close>

definition createToolSession ::
  "string \<Rightarrow> ToolWorkbench \<Rightarrow> string option \<Rightarrow> ToolSessionOptions \<Rightarrow> ToolSession" where
  "createToolSession uuid tool i options = \<lparr>
     ts_id = nullish i uuid,
     ts_tool = tool,
     ts_customLabel = nullish (op_customLabel options) None,
     ts_tcpMode = (if tool = TcpUdp then Some (nullish (op_tcpMode options) DEFAULT_TCP_TOOL_MODE) else None),
     ts_videoMode = (if tool = VideoStream
       then Some (nullish (op_videoMode options) DEFAULT_VIDEO_TOOL_MODE) else None) \<rparr>"

definition withoutContextStates :: "ContextState dict \<Rightarrow> string list \<Rightarrow> ContextState dict" where
  "withoutContextStates states ids = foldl (\<lambda>acc i. AList.delete i acc) states ids"

definition releaseRequestResources :: "AppTab \<Rightarrow> release list" where
  "releaseRequestResources tab = [Disconnect (tab_protocol tab) (requestConnectionId tab (tab_protocol tab))]"

definition releaseToolSessionResources :: "ToolWorkbench \<Rightarrow> string \<Rightarrow> release list" where
  "releaseToolSessionResources tool sessionId =
     (if tool = CaptureTool \<or> tool = DbClient then [DetachStore tool sessionId] else [])
     @ (if tool = MockServer then [DetachStore tool sessionId] else [])
     @ (case tool of
          LoadTest \<Rightarrow> [StopLoadTest sessionId]
        | CaptureTool \<Rightarrow> [DestroyProxySession sessionId]
        | MockServer \<Rightarrow> [DestroyMockServer sessionId]
        | DbClient \<Rightarrow> [ReleaseDbClient sessionId]
        | VideoStream \<Rightarrow> [DisconnectStream sessionId]
        | TcpUdp \<Rightarrow> [ReleaseTcpSession sessionId]
        | Toolbox \<Rightarrow> []
        | WorkflowTool \<Rightarrow> [])"

section \<open>Handlers\<close>

definition app_init :: app_state where
  "app_init = \<lparr> ap_tabs = [], ap_activeTabId = None, ap_activeWorkbench = Home,
     ap_activeCollectionId = None, ap_toolSessions = (\<lambda>_. []), ap_activeToolSessionIds = (\<lambda>_. None),
     ap_contextStates = [] \<rparr>"

definition newTab :: "string \<Rightarrow> string \<Rightarrow> string \<Rightarrow> RequestProtocol \<Rightarrow> AppTab" where
  "newTab i epoch reqId protocol = \<lparr>
     tab_id = i, tab_protocol = protocol, tab_connectionEpoch = epoch,
     tab_label = requestLabels protocol, tab_customLabel = None,
     tab_linkedCollectionItemId = None, tab_linkedCollectionId = None,
     tab_linkedCollectionParentId = None, tab_linkedCollectionSortOrder = None,
     tab_linkedCollectionCreatedAt = None, tab_savedRequestSignature = None,
     tab_httpConfig = (if protocol = Http then Some (createDefaultRequest reqId) else None),
     tab_httpResponse = None, tab_loading = False, tab_error = None,
     tab_wsUrl = (if protocol = Ws then Some ''ws://localhost:8080'' else None) \<rparr>"

definition addTab :: "string \<Rightarrow> string \<Rightarrow> string \<Rightarrow> RequestProtocol \<Rightarrow> app_state \<Rightarrow> string \<times> app_state" where
  "addTab i epoch reqId protocol s =
     (i, s\<lparr>ap_tabs := ap_tabs s @ [newTab i epoch reqId protocol],
           ap_activeTabId := Some i,
           ap_activeWorkbench := Requests,
           ap_activeCollectionId := None\<rparr>)"

text \<open>The three shapes of \<open>set\<close> that focus a tool session, with and without adding it.\<close>

definition focus_session :: "ToolWorkbench \<Rightarrow> string option \<Rightarrow> app_state \<Rightarrow> app_state" where
  "focus_session tool i s =
     s\<lparr>ap_activeWorkbench := Tool tool, ap_activeCollectionId := None,
       ap_activeToolSessionIds := (ap_activeToolSessionIds s)(tool := i)\<rparr>"

definition push_session :: "ToolWorkbench \<Rightarrow> ToolSession \<Rightarrow> app_state \<Rightarrow> app_state" where
  "push_session tool session s =
     focus_session tool (Some (ts_id session))
       (s\<lparr>ap_toolSessions := (ap_toolSessions s)(tool := ap_toolSessions s tool @ [session])\<rparr>)"

definition openToolTab ::
  "string \<Rightarrow> ToolWorkbench \<Rightarrow> string option \<Rightarrow> ToolSessionOptions \<Rightarrow> app_state \<Rightarrow> string option \<times> app_state" where
  "openToolTab uuid tool sessionId options s =
     (let existingSessions = ap_toolSessions s tool;
          requestedSession =
            (if truthy_opt sessionId
             then Some (nullish (List.find (\<lambda>x. Some (ts_id x) = sessionId) existingSessions)
                         (createToolSession uuid tool sessionId options))
             else None)
      in case requestedSession of
           Some session \<Rightarrow>
             if some_elem (\<lambda>x. ts_id x = ts_id session) existingSessions
             then (Some (ts_id session), focus_session tool (Some (ts_id session)) s)
             else (Some (ts_id session), push_session tool session s)
         | None \<Rightarrow>
             if 0 < length existingSessions then
               let active = ap_activeToolSessionIds s tool;
                   nextActiveId =
                     (if truthy_opt active \<and> some_elem (\<lambda>x. Some (ts_id x) = active) existingSessions
                      then active else Some (ts_id (last existingSessions)))
               in (nextActiveId, focus_session tool nextActiveId s)
             else
               let session = createToolSession uuid tool None options
               in (Some (ts_id session), push_session tool session s))"

definition addToolSession ::
  "string \<Rightarrow> ToolWorkbench \<Rightarrow> ToolSessionOptions \<Rightarrow> app_state \<Rightarrow> string \<times> app_state" where
  "addToolSession uuid tool options s =
     (let session = createToolSession uuid tool None options
      in (ts_id session, push_session tool session s))"

definition setActiveToolSession :: "ToolWorkbench \<Rightarrow> string \<Rightarrow> app_state \<Rightarrow> app_state" where
  "setActiveToolSession tool sessionId s = focus_session tool (Some sessionId) s"

definition closeToolSession ::
  "string \<Rightarrow> ToolWorkbench \<Rightarrow> string \<Rightarrow> app_state \<Rightarrow> release list \<times> app_state" where
  "closeToolSession uuid tool sessionId s =
     (let sessions = ap_toolSessions s tool;
          released = (if some_elem (\<lambda>x. ts_id x = sessionId) sessions
                      then releaseToolSessionResources tool sessionId else [])
      in case findIndex (\<lambda>x. ts_id x = sessionId) sessions of
           None \<Rightarrow> (released, s)
         | Some index \<Rightarrow>
             let nextSessions = filter (\<lambda>x. ts_id x \<noteq> sessionId) sessions;
                 states = withoutContextStates (ap_contextStates s) [toolContextId tool sessionId]
             in if nextSessions = [] then
                  let replacement = createToolSession uuid tool None no_options
                  in (released,
                      s\<lparr>ap_toolSessions := (ap_toolSessions s)(tool := [replacement]),
                        ap_activeToolSessionIds := (ap_activeToolSessionIds s)(tool := Some (ts_id replacement)),
                        ap_contextStates := states,
                        ap_activeWorkbench := Tool tool,
                        ap_activeCollectionId := None\<rparr>)
                else
                  let fallbackSession = nextSessions ! min index (length nextSessions - 1);
                      nextActiveId = (if ap_activeToolSessionIds s tool = Some sessionId
                                      then Some (ts_id fallbackSession) else ap_activeToolSessionIds s tool)
                  in (released,
                      s\<lparr>ap_toolSessions := (ap_toolSessions s)(tool := nextSessions),
                        ap_activeToolSessionIds := (ap_activeToolSessionIds s)(tool := nextActiveId),
                        ap_contextStates := states\<rparr>))"

definition updateToolSession ::
  "ToolWorkbench \<Rightarrow> string \<Rightarrow> ToolSessionOptions \<Rightarrow> app_state \<Rightarrow> app_state" where
  "updateToolSession tool sessionId updates s =
     s\<lparr>ap_toolSessions := (ap_toolSessions s)(tool := map_where (\<lambda>x. ts_id x = sessionId)
       (\<lambda>session. session\<lparr>
          ts_customLabel := (case op_customLabel updates of None \<Rightarrow> ts_customLabel session | Some l \<Rightarrow> l),
          ts_tcpMode := (if tool = TcpUdp
            then Some (nullish (op_tcpMode updates) (nullish (ts_tcpMode session) DEFAULT_TCP_TOOL_MODE))
            else ts_tcpMode session),
          ts_videoMode := (if tool = VideoStream
            then Some (nullish (op_videoMode updates) (nullish (ts_videoMode session) DEFAULT_VIDEO_TOOL_MODE))
            else ts_videoMode session)\<rparr>)
       (ap_toolSessions s tool))\<rparr>"

definition openCollectionPanel :: "string \<Rightarrow> app_state \<Rightarrow> app_state" where
  "openCollectionPanel collectionId s =
     s\<lparr>ap_activeWorkbench := Requests, ap_activeCollectionId := Some collectionId, ap_activeTabId := None\<rparr>"

definition closeCollectionPanel :: "app_state \<Rightarrow> app_state" where
  "closeCollectionPanel s = s\<lparr>ap_activeCollectionId := None\<rparr>"

definition closeTab :: "string \<Rightarrow> app_state \<Rightarrow> release list \<times> app_state" where
  "closeTab i s =
     (let released = (case List.find (\<lambda>t. tab_id t = i) (ap_tabs s) of
            Some closingTab \<Rightarrow> releaseRequestResources closingTab | None \<Rightarrow> []);
          nextTabs = filter (\<lambda>t. tab_id t \<noteq> i) (ap_tabs s);
          nextActiveId = (if ap_activeTabId s = Some i
            then (if 0 < length nextTabs then Some (tab_id (last nextTabs)) else None)
            else ap_activeTabId s)
      in (released,
          s\<lparr>ap_tabs := nextTabs, ap_activeTabId := nextActiveId,
            ap_contextStates := withoutContextStates (ap_contextStates s) [i]\<rparr>))"

definition setActiveTab :: "string option \<Rightarrow> app_state \<Rightarrow> app_state" where
  "setActiveTab i s =
     s\<lparr>ap_activeTabId := i, ap_activeWorkbench := Requests, ap_activeCollectionId := None\<rparr>"

definition setActiveWorkbench :: "WorkbenchView \<Rightarrow> app_state \<Rightarrow> app_state" where
  "setActiveWorkbench workbench s = s\<lparr>ap_activeWorkbench := workbench\<rparr>"

definition map_tab :: "string \<Rightarrow> (AppTab \<Rightarrow> AppTab) \<Rightarrow> app_state \<Rightarrow> app_state" where
  "map_tab i f s = s\<lparr>ap_tabs := map_where (\<lambda>t. tab_id t = i) f (ap_tabs s)\<rparr>"

definition updateTab :: "string \<Rightarrow> (AppTab \<Rightarrow> AppTab) \<Rightarrow> app_state \<Rightarrow> app_state" where
  "updateTab i updates s = map_tab i updates s"

definition switchProtocol :: "string \<Rightarrow> string \<Rightarrow> RequestProtocol \<Rightarrow> AppTab \<Rightarrow> AppTab" where
  "switchProtocol epoch reqId protocol tab =
     (if tab_protocol tab = protocol then tab
      else tab\<lparr>
        tab_protocol := protocol,
        tab_connectionEpoch := epoch,
        tab_label := (if tab_label tab = requestLabels (tab_protocol tab)
                      then requestLabels protocol else tab_label tab),
        tab_httpConfig := (if protocol = Http \<and> tab_httpConfig tab = None
                           then Some (createDefaultRequest reqId) else tab_httpConfig tab),
        tab_wsUrl := (if protocol = Ws \<and> \<not> truthy_opt (tab_wsUrl tab)
                      then Some ''ws://localhost:8080'' else tab_wsUrl tab)\<rparr>)"

definition setTabProtocol ::
  "string \<Rightarrow> string \<Rightarrow> string \<Rightarrow> RequestProtocol \<Rightarrow> app_state \<Rightarrow> release list \<times> app_state" where
  "setTabProtocol epoch reqId i protocol s =
     ((case List.find (\<lambda>t. tab_id t = i) (ap_tabs s) of
         Some previousTab \<Rightarrow>
           if tab_protocol previousTab \<noteq> protocol then releaseRequestResources previousTab else []
       | None \<Rightarrow> []),
      map_tab i (switchProtocol epoch reqId protocol) s)"

definition renameTab :: "string \<Rightarrow> string \<Rightarrow> app_state \<Rightarrow> app_state" where
  "renameTab i label s = map_tab i (\<lambda>t. t\<lparr>tab_label := label, tab_customLabel := Some label\<rparr>) s"

definition closeOtherTabs :: "string \<Rightarrow> app_state \<Rightarrow> release list \<times> app_state" where
  "closeOtherTabs i s =
     (if \<not> some_elem (\<lambda>t. tab_id t = i) (ap_tabs s) then ([], s)
      else
        let removed = filter (\<lambda>t. tab_id t \<noteq> i) (ap_tabs s)
        in (concat (map releaseRequestResources removed),
            s\<lparr>ap_tabs := filter (\<lambda>t. tab_id t = i) (ap_tabs s), ap_activeTabId := Some i,
              ap_activeWorkbench := Requests, ap_activeCollectionId := None,
              ap_contextStates := withoutContextStates (ap_contextStates s) (map tab_id removed)\<rparr>))"

definition closeTabsToRight :: "string \<Rightarrow> app_state \<Rightarrow> release list \<times> app_state" where
  "closeTabsToRight i s =
     (case findIndex (\<lambda>t. tab_id t = i) (ap_tabs s) of
        None \<Rightarrow> ([], s)
      | Some currentIndex \<Rightarrow>
          let removed = drop (currentIndex + 1) (ap_tabs s);
              nextTabs = take (currentIndex + 1) (ap_tabs s);
              nextActiveId = (if some_elem (\<lambda>t. Some (tab_id t) = ap_activeTabId s) nextTabs
                              then ap_activeTabId s else Some i)
          in (concat (map releaseRequestResources removed),
              s\<lparr>ap_tabs := nextTabs, ap_activeTabId := nextActiveId,
                ap_activeWorkbench := Requests, ap_activeCollectionId := None,
                ap_contextStates := withoutContextStates (ap_contextStates s) (map tab_id removed)\<rparr>))"

definition duplicateOf :: "string \<Rightarrow> string \<Rightarrow> AppTab \<Rightarrow> AppTab" where
  "duplicateOf newId epoch source = source\<lparr>
     tab_id := newId,
     tab_connectionEpoch := epoch,
     tab_label := tab_label source @ utf8_text [32, 40, 21103, 26412, 41],
     tab_linkedCollectionItemId := None,
     tab_linkedCollectionId := None,
     tab_linkedCollectionParentId := None,
     tab_linkedCollectionSortOrder := None,
     tab_linkedCollectionCreatedAt := None,
     tab_savedRequestSignature := None\<rparr>"

definition duplicateTab :: "string \<Rightarrow> string \<Rightarrow> string \<Rightarrow> app_state \<Rightarrow> app_state" where
  "duplicateTab newId epoch i s =
     (case List.find (\<lambda>t. tab_id t = i) (ap_tabs s) of
        None \<Rightarrow> s
      | Some source \<Rightarrow>
          let insertAt = (case findIndex (\<lambda>t. tab_id t = i) (ap_tabs s) of
                Some sourceIndex \<Rightarrow> sourceIndex + 1 | None \<Rightarrow> 0)
          in s\<lparr>ap_tabs := splice_in insertAt (duplicateOf newId epoch source) (ap_tabs s),
               ap_activeTabId := Some newId,
               ap_activeWorkbench := Requests, ap_activeCollectionId := None\<rparr>)"

definition reorderTabs :: "int \<Rightarrow> int \<Rightarrow> app_state \<Rightarrow> app_state" where
  "reorderTabs fromIndex toIndex s =
     (let n = int (length (ap_tabs s))
      in if fromIndex < 0 \<or> fromIndex \<ge> n \<or> toIndex < 0 \<or> toIndex > n then s
         else
           let moved = ap_tabs s ! nat fromIndex
           in s\<lparr>ap_tabs := splice_in (nat toIndex) moved (splice_out (nat fromIndex) (ap_tabs s))\<rparr>)"

text \<open>\<open>findIndex\<close> gives -1 when the active tab is not open.\<close>

definition active_index :: "app_state \<Rightarrow> int" where
  "active_index s = (case findIndex (\<lambda>t. Some (tab_id t) = ap_activeTabId s) (ap_tabs s) of
     Some i \<Rightarrow> int i | None \<Rightarrow> -1)"

definition nextTab :: "app_state \<Rightarrow> app_state" where
  "nextTab s =
     (if length (ap_tabs s) \<le> 1 then s
      else
        let nextIndex = nat ((active_index s + 1) mod int (length (ap_tabs s)))
        in s\<lparr>ap_activeTabId := Some (tab_id (ap_tabs s ! nextIndex)),
             ap_activeWorkbench := Requests, ap_activeCollectionId := None\<rparr>)"

text \<open>The dividend \<open>currentIndex - 1 + length\<close> is not negative, so that the remainder of JavaScript is
  the mathematical one.\<close>

definition prevTab :: "app_state \<Rightarrow> app_state" where
  "prevTab s =
     (if length (ap_tabs s) \<le> 1 then s
      else
        let n = int (length (ap_tabs s)); prevIndex = nat ((active_index s - 1 + n) mod n)
        in s\<lparr>ap_activeTabId := Some (tab_id (ap_tabs s ! prevIndex)),
             ap_activeWorkbench := Requests, ap_activeCollectionId := None\<rparr>)"

definition updateHttpConfig ::
  "string \<Rightarrow> (HttpRequestConfig \<Rightarrow> HttpRequestConfig) \<Rightarrow> app_state \<Rightarrow> app_state" where
  "updateHttpConfig i updates s =
     map_tab i (\<lambda>t. t\<lparr>tab_httpConfig := map_option updates (tab_httpConfig t)\<rparr>) s"

definition setHttpResponse :: "string \<Rightarrow> HttpResponse option \<Rightarrow> app_state \<Rightarrow> app_state" where
  "setHttpResponse i response s = map_tab i (\<lambda>t. t\<lparr>tab_httpResponse := response\<rparr>) s"

definition setLoading :: "string \<Rightarrow> bool \<Rightarrow> app_state \<Rightarrow> app_state" where
  "setLoading i loading s = map_tab i (\<lambda>t. t\<lparr>tab_loading := loading\<rparr>) s"

definition setError :: "string \<Rightarrow> string option \<Rightarrow> app_state \<Rightarrow> app_state" where
  "setError i error s = map_tab i (\<lambda>t. t\<lparr>tab_error := error\<rparr>) s"

definition getActiveTab :: "app_state \<Rightarrow> AppTab option" where
  "getActiveTab s = List.find (\<lambda>t. Some (tab_id t) = ap_activeTabId s) (ap_tabs s)"

definition setContextState :: "string \<Rightarrow> ContextState \<Rightarrow> app_state \<Rightarrow> app_state" where
  "setContextState contextId st s =
     s\<lparr>ap_contextStates := AList.update contextId st (ap_contextStates s)\<rparr>"

section \<open>Selectors\<close>

text \<open>\<open>x?.trim()\<close>, with the absent text falsy.\<close>

definition trim_opt :: "string option \<Rightarrow> string" where
  "trim_opt x = (case x of None \<Rightarrow> [] | Some t \<Rightarrow> js_trim t)"

definition tab_title :: "AppTab \<Rightarrow> string" where
  "tab_title tab =
     (let http = (tab_protocol tab = Http);
          name = (case tab_httpConfig tab of None \<Rightarrow> [] | Some c \<Rightarrow> rq_name c);
          url = (case tab_httpConfig tab of None \<Rightarrow> [] | Some c \<Rightarrow> js_trim (rq_url c));
          title = or_else (trim_opt (tab_customLabel tab))
            (or_else (if http \<and> truthy (js_trim name) \<and> name \<noteq> ''Untitled Request'' then js_trim name else [])
              (or_else (if http then url else []) (tab_label tab)))
      in or_else title (tab_label tab))"

definition unified_request :: "ContextState dict \<Rightarrow> AppTab \<Rightarrow> UnifiedTab" where
  "unified_request states tab = \<lparr>
     ut_id = tab_id tab, ut_kind = RequestTabKind, ut_tabId = Some (tab_id tab), ut_tool = None,
     ut_sessionId = None, ut_protocol = Some (tab_protocol tab),
     ut_domain = PROTOCOL_TO_DOMAIN (tab_protocol tab),
     ut_title = tab_title tab,
     ut_detail = (case tab_protocol tab of
         Ws \<Rightarrow> tab_wsUrl tab
       | Http \<Rightarrow> (case tab_httpConfig tab of
             Some c \<Rightarrow> if truthy (rq_url c) then Some (rq_url c) else None | None \<Rightarrow> None)
       | _ \<Rightarrow> None),
     ut_method = (if tab_protocol tab = Http then map_option rq_method (tab_httpConfig tab) else None),
     ut_icon = PROTOCOL_ICON (tab_protocol tab),
     ut_state = nullish (map_of states (tab_id tab))
       (if tab_loading tab then Run else if truthy_opt (tab_error tab) then Err else Idle) \<rparr>"

text \<open>\<open>mock\<close> reads the mock server store of a session: its number of routes, whether it runs and its
  port.\<close>

definition unified_tool ::
  "(string \<Rightarrow> nat \<times> bool \<times> int) \<Rightarrow> ContextState dict \<Rightarrow> ToolWorkbench \<Rightarrow> ToolSession \<Rightarrow> UnifiedTab" where
  "unified_tool mock states tool session = \<lparr>
     ut_id = toolContextId tool (ts_id session), ut_kind = ToolTabKind, ut_tabId = None,
     ut_tool = Some tool, ut_sessionId = Some (ts_id session), ut_protocol = None,
     ut_domain = TOOL_TO_DOMAIN tool,
     ut_title = or_else (trim_opt (ts_customLabel session))
       (case List.find (\<lambda>d. dom_id d = TOOL_TO_DOMAIN tool) FORGE_DOMAINS of
          Some d \<Rightarrow> or_else (dom_en d) (tool_name tool) | None \<Rightarrow> tool_name tool),
     ut_detail = (case tool of
         MockServer \<Rightarrow> (case mock (ts_id session) of (routes, running, port) \<Rightarrow>
           Some (nat_to_string routes @ '' routes'' @ (if running then '':'' @ int_to_string port else [])))
       | TcpUdp \<Rightarrow> ts_tcpMode session
       | VideoStream \<Rightarrow> ts_videoMode session
       | _ \<Rightarrow> None),
     ut_method = None,
     ut_icon = TOOL_ICON tool,
     ut_state = nullish (map_of states (toolContextId tool (ts_id session))) Idle \<rparr>"

text \<open>The keys of \<open>toolSessions\<close> in the order of the initial state.\<close>

definition all_tools :: "ToolWorkbench list" where
  "all_tools = [TcpUdp, LoadTest, CaptureTool, VideoStream, MockServer, DbClient, Toolbox, WorkflowTool]"

definition getUnifiedTabs :: "(string \<Rightarrow> nat \<times> bool \<times> int) \<Rightarrow> app_state \<Rightarrow> UnifiedTab list" where
  "getUnifiedTabs mock s =
     map (unified_request (ap_contextStates s)) (ap_tabs s)
     @ concat (map (\<lambda>tool. map (unified_tool mock (ap_contextStates s) tool) (ap_toolSessions s tool)) all_tools)"

definition getActiveUnifiedTabId :: "app_state \<Rightarrow> string option" where
  "getActiveUnifiedTabId s =
     (case ap_activeWorkbench s of
        Home \<Rightarrow> None
      | Requests \<Rightarrow> ap_activeTabId s
      | Tool tool \<Rightarrow> (case ap_activeToolSessionIds s tool of
            Some sessionId \<Rightarrow> if truthy sessionId then Some (toolContextId tool sessionId) else None
          | None \<Rightarrow> None))"

definition getActiveDomain :: "app_state \<Rightarrow> ForgeDomainId option" where
  "getActiveDomain s =
     (case ap_activeWorkbench s of
        Home \<Rightarrow> None
      | Requests \<Rightarrow> Some (case List.find (\<lambda>t. Some (tab_id t) = ap_activeTabId s) (ap_tabs s) of
            Some tab \<Rightarrow> PROTOCOL_TO_DOMAIN (tab_protocol tab) | None \<Rightarrow> DomApi)
      | Tool tool \<Rightarrow> Some (TOOL_TO_DOMAIN tool))"

text \<open>The three fresh ids are those a new tab needs; a new session takes the first. The flag of the
  result says whether the plugin modal is opened.\<close>

definition openForgeDomain ::
  "string \<Rightarrow> string \<Rightarrow> string \<Rightarrow> ForgeDomainId \<Rightarrow> app_state \<Rightarrow> bool \<times> app_state" where
  "openForgeDomain u1 u2 u3 domainId s =
     (if domainId = DomPlugins then (True, s)
      else if domainId = DomApi then
        (case List.find (\<lambda>t. tab_protocol t = Http) (ap_tabs s) of
           Some existing \<Rightarrow> (False, setActiveTab (Some (tab_id existing)) s)
         | None \<Rightarrow> (False, snd (addTab u1 u2 u3 Http s)))
      else if domainId = DomRealtime then
        (case List.find (\<lambda>t. tab_protocol t = Ws \<or> tab_protocol t = Mqtt \<or> tab_protocol t = Grpc) (ap_tabs s) of
           Some existing \<Rightarrow> (False, setActiveTab (Some (tab_id existing)) s)
         | None \<Rightarrow>
             if 0 < length (ap_toolSessions s TcpUdp)
             then (False, snd (openToolTab u1 TcpUdp None no_options s))
             else (False, snd (addTab u1 u2 u3 Ws s)))
      else
        (case Option.bind (List.find (\<lambda>d. dom_id d = domainId) FORGE_DOMAINS) dom_workbench of
           Some (Tool tool) \<Rightarrow> (False, snd (openToolTab u1 tool None no_options s))
         | _ \<Rightarrow> (False, s)))"

end
