(* ===== verification/AppInvariant.thy ===== *)
theory AppInvariant
  imports AppStore
begin

text \<open>
  The invariant of the application store over every sequence of its actions: tabs and epochs are
  distinct, every disconnect that was sent is for an epoch no open tab has, each tool's sessions
  are distinct with the focus on one of them, the tab in focus is open, and status dots belong to
  open contexts. The history of used ids and of released connections is kept beside the store.
\<close>

section \<open>Actions\<close>

datatype app_action =
    AddTab string string string RequestProtocol
  | OpenToolTab string ToolWorkbench "string option" ToolSessionOptions
  | AddToolSession string ToolWorkbench ToolSessionOptions
  | SetActiveToolSession ToolWorkbench string
  | CloseToolSession string ToolWorkbench string
  | UpdateToolSession ToolWorkbench string ToolSessionOptions
  | OpenCollectionPanel string
  | CloseCollectionPanel
  | CloseTab string
  | SetActiveTab "string option"
  | SetActiveWorkbench WorkbenchView
  | UpdateTab string "AppTab \<Rightarrow> AppTab"
  | SetTabProtocol string string string RequestProtocol
  | RenameTab string string
  | CloseOtherTabs string
  | CloseTabsToRight string
  | DuplicateTab string string string
  | ReorderTabs int int
  | NextTab
  | PrevTab
  | UpdateHttpConfig string "HttpRequestConfig \<Rightarrow> HttpRequestConfig"
  | SetHttpResponse string "HttpResponse option"
  | SetLoading string bool
  | SetError string "string option"
  | SetContextState string ContextState
  | OpenForgeDomain string string string ForgeDomainId

fun app_step :: "app_state \<Rightarrow> app_action \<Rightarrow> release list \<times> app_state" where
  "app_step s (AddTab i e r p) = ([], snd (addTab i e r p s))"
| "app_step s (OpenToolTab u tool sid opts) = ([], snd (openToolTab u tool sid opts s))"
| "app_step s (AddToolSession u tool opts) = ([], snd (addToolSession u tool opts s))"
| "app_step s (SetActiveToolSession tool sid) = ([], setActiveToolSession tool sid s)"
| "app_step s (CloseToolSession u tool sid) = closeToolSession u tool sid s"
| "app_step s (UpdateToolSession tool sid opts) = ([], updateToolSession tool sid opts s)"
| "app_step s (OpenCollectionPanel c) = ([], openCollectionPanel c s)"
| "app_step s CloseCollectionPanel = ([], closeCollectionPanel s)"
| "app_step s (CloseTab i) = closeTab i s"
| "app_step s (SetActiveTab i) = ([], setActiveTab i s)"
| "app_step s (SetActiveWorkbench v) = ([], setActiveWorkbench v s)"
| "app_step s (UpdateTab i f) = ([], updateTab i f s)"
| "app_step s (SetTabProtocol e r i p) = setTabProtocol e r i p s"
| "app_step s (RenameTab i l) = ([], renameTab i l s)"
| "app_step s (CloseOtherTabs i) = closeOtherTabs i s"
| "app_step s (CloseTabsToRight i) = closeTabsToRight i s"
| "app_step s (DuplicateTab n e i) = ([], duplicateTab n e i s)"
| "app_step s (ReorderTabs a b) = ([], reorderTabs a b s)"
| "app_step s NextTab = ([], nextTab s)"
| "app_step s PrevTab = ([], prevTab s)"
| "app_step s (UpdateHttpConfig i f) = ([], updateHttpConfig i f s)"
| "app_step s (SetHttpResponse i r) = ([], setHttpResponse i r s)"
| "app_step s (SetLoading i b) = ([], setLoading i b s)"
| "app_step s (SetError i e) = ([], setError i e s)"
| "app_step s (SetContextState c st) = ([], setContextState c st s)"
| "app_step s (OpenForgeDomain u1 u2 u3 d) = ([], snd (openForgeDomain u1 u2 u3 d s))"

text \<open>The ids \<open>crypto.randomUUID()\<close> gave to a step, and all ids a step brings in.\<close>

fun uuids :: "app_action \<Rightarrow> string list" where
  "uuids (AddTab i e r p) = [i, e, r]"
| "uuids (OpenToolTab u tool sid opts) = [u]"
| "uuids (AddToolSession u tool opts) = [u]"
| "uuids (CloseToolSession u tool sid) = [u]"
| "uuids (SetTabProtocol e r i p) = [e, r]"
| "uuids (DuplicateTab n e i) = [n, e]"
| "uuids (OpenForgeDomain u1 u2 u3 d) = [u1, u2, u3]"
| "uuids _ = []"

fun brought_ids :: "app_action \<Rightarrow> string list" where
  "brought_ids (OpenToolTab u tool (Some sid) opts) = [u, sid]"
| "brought_ids a = uuids a"

text \<open>A UUID in text form.\<close>

definition is_uuid :: "string \<Rightarrow> bool" where
  "is_uuid u \<longleftrightarrow> length u = 36 \<and> CHR '':'' \<notin> set u"

definition tab_ids :: "app_state \<Rightarrow> string set" where "tab_ids s = tab_id ` set (ap_tabs s)"
definition session_ids :: "app_state \<Rightarrow> ToolWorkbench \<Rightarrow> string set" where
  "session_ids s tool = ts_id ` set (ap_toolSessions s tool)"
definition context_ids :: "app_state \<Rightarrow> string set" where
  "context_ids s = tab_ids s \<union> (\<Union>tool. toolContextId tool ` session_ids s tool)"

text \<open>The store with the history of the ids that were ever used and of what was released.\<close>

record app_sys =
  as_state :: app_state
  as_used :: "string list"
  as_released :: "release list"

definition sys_init :: app_sys where
  "sys_init = \<lparr> as_state = app_init, as_used = [], as_released = [] \<rparr>"

definition sys_step :: "app_sys \<Rightarrow> app_action \<Rightarrow> app_sys" where
  "sys_step x a = (case app_step (as_state x) a of (r, s) \<Rightarrow>
     \<lparr> as_state = s, as_used = as_used x @ brought_ids a, as_released = as_released x @ r \<rparr>)"

text \<open>What callers and the platform guarantee: fresh UUIDs are new, focus and status changes name
  something that is open, and \<open>updateTab\<close> does not touch the identity of a tab.\<close>

definition fresh_ids :: "string list \<Rightarrow> string list \<Rightarrow> bool" where
  "fresh_ids used us \<longleftrightarrow> distinct us \<and> (\<forall>u \<in> set us. is_uuid u \<and> u \<notin> set used)"

definition keeps_identity :: "(AppTab \<Rightarrow> AppTab) \<Rightarrow> bool" where
  "keeps_identity f \<longleftrightarrow> (\<forall>t. tab_id (f t) = tab_id t \<and> tab_protocol (f t) = tab_protocol t
     \<and> tab_connectionEpoch (f t) = tab_connectionEpoch t)"

fun action_ok :: "app_state \<Rightarrow> app_action \<Rightarrow> bool" where
  "action_ok s (SetActiveToolSession tool sid) = (sid \<in> session_ids s tool)"
| "action_ok s (SetActiveTab (Some i)) = (i \<in> tab_ids s)"
| "action_ok s (UpdateTab i f) = keeps_identity f"
| "action_ok s (SetContextState c st) = (c \<in> context_ids s)"
| "action_ok s _ = True"

definition sys_ok :: "app_sys \<Rightarrow> app_action \<Rightarrow> bool" where
  "sys_ok x a \<longleftrightarrow> fresh_ids (as_used x) (uuids a) \<and> action_ok (as_state x) a"


section \<open>Tabs\<close>

definition tabs_ok :: "string set \<Rightarrow> AppTab list \<Rightarrow> bool" where
  "tabs_ok U ts \<longleftrightarrow> distinct (map tab_id ts) \<and> distinct (map tab_connectionEpoch ts)
     \<and> (\<forall>t \<in> set ts. is_uuid (tab_id t) \<and> is_uuid (tab_connectionEpoch t)
          \<and> tab_id t \<in> U \<and> tab_connectionEpoch t \<in> U)"

lemma tabs_ok_mono: "tabs_ok U ts \<Longrightarrow> U \<subseteq> V \<Longrightarrow> tabs_ok V ts"
  by (auto simp: tabs_ok_def)

lemma tabs_ok_insert:
  assumes "tabs_ok U ts" and "is_uuid (tab_id t)" and "is_uuid (tab_connectionEpoch t)"
    and "tab_id t \<notin> U" and "tab_connectionEpoch t \<notin> U"
    and "U \<subseteq> V" and "tab_id t \<in> V" and "tab_connectionEpoch t \<in> V"
  shows "tabs_ok V (splice_in k t ts)"
  using assms by (auto simp: tabs_ok_def distinct_splice_in)

lemma tabs_ok_push:
  assumes "tabs_ok U ts" and "is_uuid (tab_id t)" and "is_uuid (tab_connectionEpoch t)"
    and "tab_id t \<notin> U" and "tab_connectionEpoch t \<notin> U"
    and "U \<subseteq> V" and "tab_id t \<in> V" and "tab_connectionEpoch t \<in> V"
  shows "tabs_ok V (ts @ [t])"
  using tabs_ok_insert[OF assms, of "length ts"] by (simp add: splice_in_end)

lemma tabs_ok_filter: "tabs_ok U ts \<Longrightarrow> tabs_ok U (filter P ts)"
  by (auto simp: tabs_ok_def distinct_map_filter)

lemma tabs_ok_take: "tabs_ok U ts \<Longrightarrow> tabs_ok U (take n ts)"
  by (auto simp: tabs_ok_def take_map[symmetric] dest: in_set_takeD)

lemma tabs_ok_move:
  assumes "tabs_ok U ts" and "i < length ts"
  shows "tabs_ok U (splice_in j (ts ! i) (splice_out i ts))"
proof -
  have map: "map f (splice_in j (ts ! i) (splice_out i ts))
      = splice_in j (map f ts ! i) (splice_out i (map f ts))" for f :: "AppTab \<Rightarrow> string"
    using assms(2) by (simp add: splice_out_def take_map drop_map)
  have dist: "distinct (map f (splice_in j (ts ! i) (splice_out i ts))) = distinct (map f ts)"
    for f :: "AppTab \<Rightarrow> string"
    unfolding map using assms(2) splice_move_distinct[of i "map f ts" j] by simp
  show ?thesis
    using assms unfolding tabs_ok_def dist by (simp only: splice_move_set) blast
qed

lemma tabs_ok_map_where:
  assumes "tabs_ok U ts" and "\<And>t. P t \<Longrightarrow> tab_id (f t) = tab_id t"
    and "\<And>t. P t \<Longrightarrow> tab_connectionEpoch (f t) = tab_connectionEpoch t"
  shows "tabs_ok U (map_where P f ts)"
proof -
  have "map tab_id (map_where P f ts) = map tab_id ts"
    "map tab_connectionEpoch (map_where P f ts) = map tab_connectionEpoch ts"
    using assms(2,3) by simp_all
  then show ?thesis using assms unfolding tabs_ok_def by (auto simp: set_map_where)
qed

text \<open>Giving one tab a fresh epoch.\<close>

lemma tabs_ok_rotate:
  assumes "tabs_ok U ts" and "e \<notin> U" and "is_uuid e" and "U \<subseteq> V" and "e \<in> V"
    and "\<And>t. tab_id (f t) = tab_id t"
    and "\<And>t. tab_connectionEpoch (f t) = e \<or> tab_connectionEpoch (f t) = tab_connectionEpoch t"
  shows "tabs_ok V (map_where (\<lambda>t. tab_id t = i) f ts)"
  using assms(1)
proof (induction ts)
  case (Cons t ts)
  have IH: "tabs_ok V (map_where (\<lambda>t. tab_id t = i) f ts)"
  proof (rule Cons.IH)
    show "tabs_ok U ts" using Cons.prems by (auto simp: tabs_ok_def)
  qed
  have hd: "tab_id t \<notin> tab_id ` set ts" "tab_connectionEpoch t \<notin> tab_connectionEpoch ` set ts"
    "is_uuid (tab_id t)" "is_uuid (tab_connectionEpoch t)" "tab_id t \<in> U" "tab_connectionEpoch t \<in> U"
    "\<forall>x \<in> set ts. tab_connectionEpoch x \<in> U"
    using Cons.prems by (auto simp: tabs_ok_def)
  show ?case
  proof (cases "tab_id t = i")
    case True
    then have "\<forall>x \<in> set ts. tab_id x \<noteq> i" using hd(1) by (metis image_eqI)
    then have ts: "map_where (\<lambda>t. tab_id t = i) f (t # ts) = f t # ts"
      using True by (simp add: map_where_def map_idI)
    have "tab_connectionEpoch (f t) \<notin> tab_connectionEpoch ` set ts"
      using assms(7)[of t] hd(2,7) assms(2) by auto
    then show ?thesis using Cons.prems hd assms(3-6) assms(7)[of t] unfolding ts
      by (auto simp: tabs_ok_def)
  next
    case False
    then have ts: "map_where (\<lambda>t. tab_id t = i) f (t # ts) = t # map_where (\<lambda>t. tab_id t = i) f ts"
      by (simp add: map_where_def)
    have "tab_id t \<notin> tab_id ` set (map_where (\<lambda>t. tab_id t = i) f ts)"
      using hd(1) assms(6) by (auto simp: set_map_where)
    moreover have "tab_connectionEpoch t \<notin> tab_connectionEpoch ` set (map_where (\<lambda>t. tab_id t = i) f ts)"
      using hd(2,6,7) assms(2,7) by (auto simp: set_map_where) (metis image_eqI)+
    ultimately show ?thesis using IH hd assms(4) unfolding ts by (auto simp: tabs_ok_def)
  qed
qed (simp add: tabs_ok_def map_where_def)


lemmas tab_handler_defs [store_defs] =
  addTab_def openCollectionPanel_def closeCollectionPanel_def closeTab_def setActiveTab_def
  setActiveWorkbench_def map_tab_def updateTab_def setTabProtocol_def renameTab_def
  closeOtherTabs_def closeTabsToRight_def reorderTabs_def nextTab_def prevTab_def
  updateHttpConfig_def setHttpResponse_def setLoading_def setError_def setContextState_def

lemmas session_handler_defs [store_defs] =
  addToolSession_def setActiveToolSession_def updateToolSession_def

text \<open>Focusing a tool session leaves the tabs alone, and so does everything about tool sessions.\<close>

lemma session_tabs [simp]:
  "ap_tabs (focus_session tool i s) = ap_tabs s"
  "ap_tabs (push_session tool x s) = ap_tabs s"
  "ap_tabs (snd (openToolTab u tool sid opts s)) = ap_tabs s"
  "ap_tabs (snd (closeToolSession u tool i' s)) = ap_tabs s"
  by (simp_all add: focus_session_def push_session_def openToolTab_def closeToolSession_def Let_def
      split: option.splits)

lemma forge_tabs:
  "ap_tabs (snd (openForgeDomain u1 u2 u3 d s)) = ap_tabs s
    \<or> (\<exists>p. ap_tabs (snd (openForgeDomain u1 u2 u3 d s)) = ap_tabs s @ [newTab u1 u2 u3 p])"
  by (auto simp: openForgeDomain_def addTab_def setActiveTab_def split: option.splits WorkbenchView.splits)

lemma newTab_simps [simp]: "tab_id (newTab i e r p) = i" "tab_connectionEpoch (newTab i e r p) = e"
  "tab_protocol (newTab i e r p) = p"
  by (simp_all add: newTab_def)

lemma switchProtocol_id [simp]: "tab_id (switchProtocol e r p t) = tab_id t"
  "tab_protocol (switchProtocol e r p t) = p"
  by (simp_all add: switchProtocol_def)

lemma switchProtocol_epoch:
  "tab_connectionEpoch (switchProtocol e r p t) = (if tab_protocol t = p then tab_connectionEpoch t else e)"
  by (simp add: switchProtocol_def)

text \<open>A step keeps the tabs well-formed.\<close>

lemma duplicateOf_simps [simp]: "tab_id (duplicateOf n e t) = n"
  "tab_connectionEpoch (duplicateOf n e t) = e" "tab_protocol (duplicateOf n e t) = tab_protocol t"
  by (simp_all add: duplicateOf_def)

lemma duplicate_tabs:
  obtains "ap_tabs (duplicateTab n e i s) = ap_tabs s"
  | k t where "ap_tabs (duplicateTab n e i s) = splice_in k (duplicateOf n e t) (ap_tabs s)"
  by (cases "List.find (\<lambda>t. tab_id t = i) (ap_tabs s)") (auto simp: duplicateTab_def Let_def)

lemma tabs_ok_step:
  assumes ok: "tabs_ok (set used) (ap_tabs s)" and fresh: "fresh_ids used (uuids a)"
    and act: "action_ok s a"
  shows "tabs_ok (set (used @ brought_ids a)) (ap_tabs (snd (app_step s a)))"
proof -
  let ?V = "set (used @ brought_ids a)"
  have okV: "tabs_ok ?V (ap_tabs s)" by (rule tabs_ok_mono[OF ok]) auto
  show ?thesis
  proof (cases a)
    case (AddTab i e r p)
    then show ?thesis using fresh
      by (auto simp: addTab_def fresh_ids_def intro!: tabs_ok_push[OF ok])
  next
    case (DuplicateTab n e i)
    then show ?thesis using fresh okV
      by (cases rule: duplicate_tabs[of n e i s])
         (auto simp: fresh_ids_def intro!: tabs_ok_insert[OF ok])
  next
    case (OpenForgeDomain u1 u2 u3 d)
    then show ?thesis using fresh okV forge_tabs[of u1 u2 u3 d s]
      by (auto simp: fresh_ids_def intro!: tabs_ok_push[OF ok])
  next
    case (SetTabProtocol e r i p)
    then show ?thesis using fresh
      by (auto simp: setTabProtocol_def map_tab_def fresh_ids_def switchProtocol_epoch
          intro!: tabs_ok_rotate[OF ok, of e])
  next
    case (ReorderTabs x y)
    then show ?thesis using okV by (auto simp: reorderTabs_def Let_def intro!: tabs_ok_move)
  next
    case (CloseTabsToRight i)
    then show ?thesis using okV
      by (auto simp: closeTabsToRight_def Let_def split: option.splits intro: tabs_ok_take)
  next
    case (UpdateTab i f)
    then show ?thesis using okV act
      by (auto simp: updateTab_def map_tab_def keeps_identity_def intro!: tabs_ok_map_where)
  qed (use okV in \<open>auto simp: tab_handler_defs session_handler_defs Let_def tabs_ok_filter intro!: tabs_ok_map_where\<close>)
qed



section \<open>Connections\<close>

definition epochs :: "AppTab list \<Rightarrow> string set" where
  "epochs ts = tab_connectionEpoch ` set ts"

definition disconnect_of :: "AppTab \<Rightarrow> release" where
  "disconnect_of t = Disconnect (tab_protocol t) (requestConnectionId t (tab_protocol t))"

definition is_disconnect :: "release \<Rightarrow> bool" where
  "is_disconnect r \<longleftrightarrow> (\<exists>p c. r = Disconnect p c)"

lemma disconnect_of_is [simp]: "is_disconnect (disconnect_of t)"
  by (simp add: disconnect_of_def is_disconnect_def)

lemma releaseRequestResources_eq: "releaseRequestResources t = [disconnect_of t]"
  by (simp add: releaseRequestResources_def disconnect_of_def)

lemma tool_release_no_disconnect [simp]: "r \<in> set (releaseToolSessionResources tool i) \<Longrightarrow> \<not> is_disconnect r"
  by (cases tool) (auto simp: releaseToolSessionResources_def is_disconnect_def)

lemma tabs_okD:
  "tabs_ok U ts \<Longrightarrow> distinct (map tab_id ts)" "tabs_ok U ts \<Longrightarrow> distinct (map tab_connectionEpoch ts)"
  "tabs_ok U ts \<Longrightarrow> t \<in> set ts \<Longrightarrow> tab_connectionEpoch t \<in> U"
  "tabs_ok U ts \<Longrightarrow> t \<in> set ts \<Longrightarrow> is_uuid (tab_id t) \<and> is_uuid (tab_connectionEpoch t)"
  by (auto simp: tabs_ok_def)

lemma epochs_map_where:
  "(\<And>t. tab_connectionEpoch (f t) = tab_connectionEpoch t) \<Longrightarrow> epochs (map_where P f ts) = epochs ts"
  unfolding epochs_def list.set_map[symmetric] by (subst map_where_key) auto

text \<open>The tabs whose connection a step ends: those whose epoch is gone afterwards.\<close>

definition ended :: "AppTab list \<Rightarrow> AppTab list \<Rightarrow> AppTab set" where
  "ended ts ts' = {t \<in> set ts. tab_connectionEpoch t \<notin> epochs ts'}"

lemma ended_same [simp]: "epochs ts \<subseteq> epochs ts' \<Longrightarrow> ended ts ts' = {}"
  by (auto simp: ended_def epochs_def)

lemma ended_subset:
  assumes "tabs_ok U ts" and "set ts' \<subseteq> set ts"
  shows "ended ts ts' = set ts - set ts'"
proof -
  have "tab_connectionEpoch t \<in> epochs ts' \<longleftrightarrow> t \<in> set ts'" if "t \<in> set ts" for t
    using that assms(2) distinct_key_eq[OF tabs_okD(2)[OF assms(1)], of t]
    by (auto simp: epochs_def)
  then show ?thesis by (auto simp: ended_def)
qed

lemma ended_switch:
  assumes ok: "tabs_ok U ts" and e: "e \<notin> U"
  shows "ended ts (map_where (\<lambda>t. tab_id t = i) (switchProtocol e r p) ts)
    = {t \<in> set ts. tab_id t = i \<and> tab_protocol t \<noteq> p}"
proof -
  let ?ts' = "map_where (\<lambda>t. tab_id t = i) (switchProtocol e r p) ts"
  have "tab_connectionEpoch t \<in> epochs ?ts' \<longleftrightarrow> \<not> (tab_id t = i \<and> tab_protocol t \<noteq> p)"
    if t: "t \<in> set ts" for t
  proof
    assume "tab_connectionEpoch t \<in> epochs ?ts'"
    then obtain x where x: "x \<in> set ts" "tab_connectionEpoch t
        = tab_connectionEpoch (if tab_id x = i then switchProtocol e r p x else x)"
      by (auto simp: epochs_def set_map_where)
    have "tab_connectionEpoch t \<noteq> e" using tabs_okD(3)[OF ok t] e by blast
    then have "tab_connectionEpoch t = tab_connectionEpoch x" "\<not> (tab_id x = i \<and> tab_protocol x \<noteq> p)"
      using x(2) by (auto simp: switchProtocol_epoch split: if_splits)
    then show "\<not> (tab_id t = i \<and> tab_protocol t \<noteq> p)"
      using distinct_key_eq[OF tabs_okD(2)[OF ok] t x(1)] by simp
  next
    assume "\<not> (tab_id t = i \<and> tab_protocol t \<noteq> p)"
    then have "tab_connectionEpoch t = tab_connectionEpoch (if tab_id t = i then switchProtocol e r p t else t)"
      by (auto simp: switchProtocol_epoch)
    then show "tab_connectionEpoch t \<in> epochs ?ts'" using t by (auto simp: epochs_def set_map_where)
  qed
  then show ?thesis by (auto simp: ended_def)
qed

text \<open>What a step disconnects is exactly the connections of the tabs whose epoch it ends.\<close>

lemma set_splice_in_epochs [simp]: "epochs (splice_in k t ts) = insert (tab_connectionEpoch t) (epochs ts)"
  by (simp add: epochs_def)

lemma epochs_move: "i < length ts \<Longrightarrow> epochs (splice_in j (ts ! i) (splice_out i ts)) = epochs ts"
  by (simp only: epochs_def splice_move_set)

lemma epochs_append [simp]: "epochs (ts @ us) = epochs ts \<union> epochs us"
  by (auto simp: epochs_def)

lemma close_disconnects:
  assumes "tabs_ok U (ap_tabs s)"
  shows "{r \<in> set (fst (closeTab i s)). is_disconnect r}
    = disconnect_of ` ended (ap_tabs s) (ap_tabs (snd (closeTab i s)))"
proof -
  have "ended (ap_tabs s) (ap_tabs (snd (closeTab i s))) = {t \<in> set (ap_tabs s). tab_id t = i}"
    unfolding closeTab_def Let_def by (auto simp: ended_subset[OF assms])
  also have "\<dots> = set_option (List.find (\<lambda>t. tab_id t = i) (ap_tabs s))"
    using find_set[OF tabs_okD(1)[OF assms], of i] by simp
  finally show ?thesis
    by (cases "List.find (\<lambda>t. tab_id t = i) (ap_tabs s)")
       (auto simp: closeTab_def Let_def releaseRequestResources_eq)
qed

lemma switch_disconnects:
  assumes "tabs_ok U (ap_tabs s)" and "e \<notin> U"
  shows "{x \<in> set (fst (setTabProtocol e r i p s)). is_disconnect x}
    = disconnect_of ` ended (ap_tabs s) (ap_tabs (snd (setTabProtocol e r i p s)))"
proof -
  have "ended (ap_tabs s) (ap_tabs (snd (setTabProtocol e r i p s)))
      = {t \<in> set_option (List.find (\<lambda>t. tab_id t = i) (ap_tabs s)). tab_protocol t \<noteq> p}"
    using ended_switch[OF assms] find_set[OF tabs_okD(1)[OF assms(1)], of i]
    by (auto simp: setTabProtocol_def map_tab_def)
  then show ?thesis
    by (cases "List.find (\<lambda>t. tab_id t = i) (ap_tabs s)")
       (auto simp: setTabProtocol_def releaseRequestResources_eq)
qed

lemma concat_releases: "set (concat (map releaseRequestResources ts)) = disconnect_of ` set ts"
  by (auto simp: releaseRequestResources_eq)

lemma others_disconnects:
  assumes "tabs_ok U (ap_tabs s)"
  shows "{r \<in> set (fst (closeOtherTabs i s)). is_disconnect r}
    = disconnect_of ` ended (ap_tabs s) (ap_tabs (snd (closeOtherTabs i s)))"
proof (cases "some_elem (\<lambda>t. tab_id t = i) (ap_tabs s)")
  case True
  have "ended (ap_tabs s) (filter (\<lambda>t. tab_id t = i) (ap_tabs s)) = {t \<in> set (ap_tabs s). tab_id t \<noteq> i}"
    by (auto simp: ended_subset[OF assms])
  then show ?thesis using True by (auto simp: closeOtherTabs_def Let_def releaseRequestResources_eq)
qed (simp add: closeOtherTabs_def)

lemma right_disconnects:
  assumes "tabs_ok U (ap_tabs s)"
  shows "{r \<in> set (fst (closeTabsToRight i s)). is_disconnect r}
    = disconnect_of ` ended (ap_tabs s) (ap_tabs (snd (closeTabsToRight i s)))"
proof (cases "findIndex (\<lambda>t. tab_id t = i) (ap_tabs s)")
  case None
  then show ?thesis unfolding closeTabsToRight_def None by simp
next
  case (Some k)
  have "distinct (ap_tabs s)" using tabs_okD(1)[OF assms] by (simp add: distinct_map)
  then have "distinct (take (k + 1) (ap_tabs s) @ drop (k + 1) (ap_tabs s))" by simp
  then have dis: "set (take (k + 1) (ap_tabs s)) \<inter> set (drop (k + 1) (ap_tabs s)) = {}"
    unfolding distinct_append by blast
  have all: "set (take (k + 1) (ap_tabs s)) \<union> set (drop (k + 1) (ap_tabs s)) = set (ap_tabs s)"
    by (metis append_take_drop_id set_append)
  have "ended (ap_tabs s) (take (k + 1) (ap_tabs s)) = set (drop (k + 1) (ap_tabs s))"
    using ended_subset[OF assms set_take_subset, of "k + 1"] dis all by blast
  then show ?thesis unfolding closeTabsToRight_def Some
    by (auto simp: Let_def releaseRequestResources_eq)
qed

lemma step_disconnects:
  assumes ok: "tabs_ok (set used) (ap_tabs s)" and fresh: "fresh_ids used (uuids a)"
    and act: "action_ok s a"
  shows "{r \<in> set (fst (app_step s a)). is_disconnect r}
    = disconnect_of ` ended (ap_tabs s) (ap_tabs (snd (app_step s a)))"
proof (cases a)
  case (CloseTab i) then show ?thesis using close_disconnects[OF ok] by simp
next
  case (CloseOtherTabs i) then show ?thesis using others_disconnects[OF ok] by simp
next
  case (CloseTabsToRight i) then show ?thesis using right_disconnects[OF ok] by simp
next
  case (SetTabProtocol e r i p)
  then show ?thesis using switch_disconnects[OF ok, of e] fresh by (simp add: fresh_ids_def)
next
  case (CloseToolSession u tool i)
  then show ?thesis by (auto simp: closeToolSession_def Let_def split: option.splits if_splits)
next
  case (DuplicateTab n e i)
  then show ?thesis by (cases rule: duplicate_tabs[of n e i s]) (auto simp: subset_insertI)
next
  case (OpenForgeDomain u1 u2 u3 d)
  then show ?thesis using forge_tabs[of u1 u2 u3 d s] by auto
next
  case (ReorderTabs x y)
  then show ?thesis 
    by (auto simp: reorderTabs_def Let_def epochs_move simp del: set_splice_in_epochs)
next
  case (UpdateTab i f)
  then show ?thesis using act by (simp add: updateTab_def map_tab_def keeps_identity_def epochs_map_where)
qed (simp_all add: tab_handler_defs session_handler_defs epochs_map_where Let_def)


text \<open>Connection ids of different epochs differ, since the epoch is their last 36 characters.\<close>

lemma requestConnectionId_epoch:
  assumes "is_uuid (tab_connectionEpoch t)" and "is_uuid (tab_connectionEpoch t')"
    and "requestConnectionId t p = requestConnectionId t' p'"
  shows "tab_connectionEpoch t = tab_connectionEpoch t'"
proof -
  have "(protocol_name p @ ''-'' @ tab_id t @ ''-'') @ tab_connectionEpoch t
      = (protocol_name p' @ ''-'' @ tab_id t' @ ''-'') @ tab_connectionEpoch t'"
    using assms(3) by (simp add: requestConnectionId_def)
  moreover have "length (tab_connectionEpoch t) = length (tab_connectionEpoch t')"
    using assms(1,2) by (simp add: is_uuid_def)
  ultimately show ?thesis using append_eq_append_conv by blast
qed

text \<open>Every disconnect that was ever sent is for an epoch that no open tab has.\<close>

definition released_ok :: "string set \<Rightarrow> AppTab list \<Rightarrow> release list \<Rightarrow> bool" where
  "released_ok U ts rs \<longleftrightarrow> (\<forall>r \<in> set rs. is_disconnect r \<longrightarrow>
     (\<exists>t. r = disconnect_of t \<and> is_uuid (tab_connectionEpoch t) \<and> tab_connectionEpoch t \<in> U
        \<and> tab_connectionEpoch t \<notin> epochs ts))"

lemma step_epochs:
  assumes "tabs_ok (set used) (ap_tabs s)" and "action_ok s a"
  shows "epochs (ap_tabs (snd (app_step s a))) \<subseteq> epochs (ap_tabs s) \<union> set (uuids a)"
proof (cases a)
  case (DuplicateTab n e i)
  then show ?thesis by (cases rule: duplicate_tabs[of n e i s]) auto
next
  case (OpenForgeDomain u1 u2 u3 d)
  then show ?thesis using forge_tabs[of u1 u2 u3 d s] by (auto simp: epochs_def)
next
  case (ReorderTabs x y)
  then show ?thesis by (auto simp: reorderTabs_def Let_def epochs_move simp del: set_splice_in_epochs)
next
  case (UpdateTab i f)
  then show ?thesis using assms(2) by (simp add: updateTab_def map_tab_def keeps_identity_def epochs_map_where)
next
  case (SetTabProtocol e r i p)
  then show ?thesis by (auto simp: setTabProtocol_def map_tab_def epochs_def set_map_where switchProtocol_epoch)
next
  case (CloseTabsToRight i)
  then show ?thesis
    by (auto simp: closeTabsToRight_def Let_def epochs_def split: option.splits dest: in_set_takeD)
next
  case (AddTab i e r p)
  then show ?thesis by (auto simp: addTab_def epochs_def)
qed (auto simp: tab_handler_defs session_handler_defs epochs_map_where Let_def epochs_def set_map_where)

lemma released_ok_step:
  assumes ok: "tabs_ok (set used) (ap_tabs s)" and fresh: "fresh_ids used (uuids a)"
    and act: "action_ok s a" and rel: "released_ok (set used) (ap_tabs s) rs"
  shows "released_ok (set (used @ brought_ids a)) (ap_tabs (snd (app_step s a)))
    (rs @ fst (app_step s a))"
  unfolding released_ok_def
proof (intro ballI impI)
  fix r
  assume "r \<in> set (rs @ fst (app_step s a))" and d: "is_disconnect r"
  then consider "r \<in> set rs" | "r \<in> set (fst (app_step s a))" by auto
  then show "\<exists>t. r = disconnect_of t \<and> is_uuid (tab_connectionEpoch t)
      \<and> tab_connectionEpoch t \<in> set (used @ brought_ids a)
      \<and> tab_connectionEpoch t \<notin> epochs (ap_tabs (snd (app_step s a)))"
  proof cases
    case 1
    then obtain t where t: "r = disconnect_of t" "is_uuid (tab_connectionEpoch t)"
      "tab_connectionEpoch t \<in> set used" "tab_connectionEpoch t \<notin> epochs (ap_tabs s)"
      using rel d unfolding released_ok_def by blast
    have "tab_connectionEpoch t \<notin> set (uuids a)" using t(3) fresh by (auto simp: fresh_ids_def)
    then show ?thesis using t step_epochs[OF ok act] by auto
  next
    case 2
    then obtain t where "t \<in> ended (ap_tabs s) (ap_tabs (snd (app_step s a)))" "r = disconnect_of t"
      using step_disconnects[OF ok fresh act] d by blast
    then show ?thesis using tabs_okD(3,4)[OF ok, of t] by (auto simp: ended_def)
  qed
qed


section \<open>Tool sessions\<close>

definition tool_ok :: "string set \<Rightarrow> ToolWorkbench \<Rightarrow> ToolSession list \<Rightarrow> string option \<Rightarrow> bool" where
  "tool_ok U tool xs active \<longleftrightarrow> distinct (map ts_id xs)
     \<and> (\<forall>x \<in> set xs. truthy (ts_id x) \<and> ts_id x \<in> U \<and> ts_tool x = tool)
     \<and> (case active of None \<Rightarrow> xs = [] | Some i \<Rightarrow> i \<in> ts_id ` set xs)"

definition sessions_ok :: "string set \<Rightarrow> app_state \<Rightarrow> bool" where
  "sessions_ok U s \<longleftrightarrow> (\<forall>tool. tool_ok U tool (ap_toolSessions s tool) (ap_activeToolSessionIds s tool))"

lemma tool_ok_mono: "tool_ok U tool xs a \<Longrightarrow> U \<subseteq> V \<Longrightarrow> tool_ok V tool xs a"
  by (auto simp: tool_ok_def split: option.splits)

lemma sessions_ok_mono: "sessions_ok U s \<Longrightarrow> U \<subseteq> V \<Longrightarrow> sessions_ok V s"
  unfolding sessions_ok_def using tool_ok_mono by blast

lemma sessions_ok_cong:
  "ap_toolSessions s' = ap_toolSessions s \<Longrightarrow> ap_activeToolSessionIds s' = ap_activeToolSessionIds s
    \<Longrightarrow> sessions_ok U s' = sessions_ok U s"
  by (simp add: sessions_ok_def)

lemma sessions_ok_focus:
  "sessions_ok U s \<Longrightarrow> i \<in> session_ids s tool \<Longrightarrow> sessions_ok U (focus_session tool (Some i) s)"
  by (auto simp: sessions_ok_def tool_ok_def focus_session_def session_ids_def)

lemma sessions_ok_push:
  assumes "sessions_ok U s" and "U \<subseteq> V" and "ts_id x \<in> V" and "truthy (ts_id x)" and "ts_tool x = tool"
    and "ts_id x \<notin> session_ids s tool"
  shows "sessions_ok V (push_session tool x s)"
  unfolding sessions_ok_def
proof
  fix t
  have "tool_ok V t (ap_toolSessions s t) (ap_activeToolSessionIds s t)"
    using sessions_ok_mono[OF assms(1,2)] by (simp add: sessions_ok_def)
  then show "tool_ok V t (ap_toolSessions (push_session tool x s) t)
      (ap_activeToolSessionIds (push_session tool x s) t)"
    using assms(3-6)
    by (cases "t = tool") (auto simp: tool_ok_def push_session_def focus_session_def session_ids_def)
qed

lemma createToolSession_simps [simp]: "ts_id (createToolSession u tool i opts) = nullish i u"
  "ts_tool (createToolSession u tool i opts) = tool"
  by (simp_all add: createToolSession_def)

lemma session_ids_used: "sessions_ok U s \<Longrightarrow> session_ids s tool \<subseteq> U"
  by (auto simp: sessions_ok_def tool_ok_def session_ids_def)

lemma is_uuid_truthy: "is_uuid u \<Longrightarrow> truthy u"
  by (auto simp: is_uuid_def)

lemma openToolTab_cases [consumes 1, case_names focus given fresh]:
  assumes "sessions_ok U s"
  obtains (focus) i where "i \<in> session_ids s tool" "openToolTab u tool sid opts s = (Some i, focus_session tool (Some i) s)"
    "truthy_opt sid \<Longrightarrow> sid = Some i"
  | (given) i where "sid = Some i" "truthy i" "i \<notin> session_ids s tool"
      "openToolTab u tool sid opts s = (Some i, push_session tool (createToolSession u tool (Some i) opts) s)"
  | (fresh) "session_ids s tool = {}" "\<not> truthy_opt sid"
      "openToolTab u tool sid opts s = (Some u, push_session tool (createToolSession u tool None opts) s)"
proof (cases "truthy_opt sid")
  case True
  then obtain i where i: "sid = Some i" "truthy i" by (cases sid) auto
  show ?thesis
  proof (cases "List.find (\<lambda>x. ts_id x = i) (ap_toolSessions s tool)")
    case None
    then have "\<forall>x \<in> set (ap_toolSessions s tool). ts_id x \<noteq> i" by (simp add: find_None_iff')
    then show ?thesis using i None
      by (intro given[of i]) (auto simp: openToolTab_def Let_def session_ids_def some_elem_def list_ex_iff)
  next
    case (Some x)
    then have "ts_id x = i" "x \<in> set (ap_toolSessions s tool)" by (auto dest: find_SomeD)
    then show ?thesis using i Some
      by (intro focus[of i]) (auto simp: openToolTab_def Let_def session_ids_def some_elem_def list_ex_iff)
  qed
next
  case no: False
  show ?thesis
  proof (cases "ap_toolSessions s tool = []")
    case True
    then show ?thesis using no by (intro fresh) (auto simp: openToolTab_def Let_def session_ids_def)
  next
    case False
    have "tool_ok U tool (ap_toolSessions s tool) (ap_activeToolSessionIds s tool)"
      using assms by (simp add: sessions_ok_def)
    with False obtain i where i: "ap_activeToolSessionIds s tool = Some i" "i \<in> session_ids s tool" "truthy i"
      by (auto simp: tool_ok_def session_ids_def split: option.splits)
    then have "some_elem (\<lambda>x. ts_id x = i) (ap_toolSessions s tool)"
      by (auto simp: session_ids_def some_elem_def list_ex_iff)
    then show ?thesis using no i False
      by (intro focus[of i]) (auto simp: openToolTab_def Let_def)
  qed
qed

lemma sessions_ok_open:
  assumes ok: "sessions_ok U s" and "U \<subseteq> V" and "is_uuid u" and "u \<in> V"
    and "\<And>i. sid = Some i \<Longrightarrow> i \<in> V"
  shows "sessions_ok V (snd (openToolTab u tool sid opts s))"
  using ok
proof (cases rule: openToolTab_cases[where tool = tool and u = u and sid = sid and opts = opts])
  case (focus i)
  then show ?thesis using sessions_ok_focus[OF ok] sessions_ok_mono assms(2) by force
next
  case (given i)
  then show ?thesis using assms(5) by (auto intro!: sessions_ok_push[OF ok assms(2)])
next
  case fresh
  then show ?thesis using assms(3,4) is_uuid_truthy by (auto intro!: sessions_ok_push[OF ok assms(2)])
qed

text \<open>Closing a session: the tool keeps at least one, and a neighbour takes over the focus.\<close>

lemma sessions_ok_close:
  assumes ok: "sessions_ok U s" and "U \<subseteq> V" and "is_uuid u" and "u \<in> V" and "u \<notin> U"
  shows "sessions_ok V (snd (closeToolSession u tool i s))"
proof -
  let ?xs = "ap_toolSessions s tool"
  let ?ys = "filter (\<lambda>x. ts_id x \<noteq> i) ?xs"
  have okV: "sessions_ok V s" by (rule sessions_ok_mono[OF ok assms(2)])
  show ?thesis
  proof (cases "findIndex (\<lambda>x. ts_id x = i) ?xs")
    case None
    then have "snd (closeToolSession u tool i s) = s" unfolding closeToolSession_def Let_def None by simp
    then show ?thesis using okV by simp
  next
    case (Some k)
    have t: "tool_ok V tool ?xs (ap_activeToolSessionIds s tool)"
      and others: "\<And>t'. tool_ok V t' (ap_toolSessions s t') (ap_activeToolSessionIds s t')"
      using okV by (auto simp: sessions_ok_def)
    show ?thesis
    proof (cases "?ys = []")
      case True
      then show ?thesis using others assms(3,4) is_uuid_truthy[OF assms(3)]
        unfolding closeToolSession_def Let_def Some by (auto simp: sessions_ok_def tool_ok_def)
    next
      case False
      define fb where "fb = ?ys ! min k (length ?ys - 1)"
      have "min k (length ?ys - 1) < length ?ys" using False by (cases ?ys) auto
      then have "fb \<in> set ?ys" unfolding fb_def by (rule nth_mem)
      then have "tool_ok V tool ?ys (if ap_activeToolSessionIds s tool = Some i then Some (ts_id fb)
          else ap_activeToolSessionIds s tool)"
        using t False by (auto simp: tool_ok_def distinct_map_filter split: option.splits)
      then show ?thesis using False others
        unfolding closeToolSession_def Let_def Some by (auto simp: sessions_ok_def fb_def split: if_splits)
    qed
  qed
qed

lemma sessions_ok_update:
  assumes "sessions_ok U s"
  shows "sessions_ok U (updateToolSession tool i opts s)"
proof -
  let ?f = "\<lambda>session. session\<lparr>
          ts_customLabel := (case op_customLabel opts of None \<Rightarrow> ts_customLabel session | Some l \<Rightarrow> l),
          ts_tcpMode := (if tool = TcpUdp
            then Some (nullish (op_tcpMode opts) (nullish (ts_tcpMode session) DEFAULT_TCP_TOOL_MODE))
            else ts_tcpMode session),
          ts_videoMode := (if tool = VideoStream
            then Some (nullish (op_videoMode opts) (nullish (ts_videoMode session) DEFAULT_VIDEO_TOOL_MODE))
            else ts_videoMode session)\<rparr>"
  let ?ys = "map_where (\<lambda>x. ts_id x = i) ?f (ap_toolSessions s tool)"
  have ids: "map ts_id ?ys = map ts_id (ap_toolSessions s tool)" by (rule map_where_key) simp
  then have "ts_id ` set ?ys = ts_id ` set (ap_toolSessions s tool)" by (metis list.set_map)
  moreover have "?ys = [] \<longleftrightarrow> ap_toolSessions s tool = []" by (simp add: map_where_def)
  moreover have "tool_ok U tool (ap_toolSessions s tool) (ap_activeToolSessionIds s tool)"
    using assms by (simp add: sessions_ok_def)
  ultimately have "tool_ok U tool ?ys (ap_activeToolSessionIds s tool)"
    unfolding tool_ok_def ids by (auto simp: set_map_where split: option.splits)
  then show ?thesis using assms unfolding updateToolSession_def sessions_ok_def by simp
qed


text \<open>The handlers of request tabs leave the tool sessions alone.\<close>

lemma tabs_sessions [simp]:
  "ap_toolSessions (snd (closeTab i s)) = ap_toolSessions s"
  "ap_activeToolSessionIds (snd (closeTab i s)) = ap_activeToolSessionIds s"
  "ap_toolSessions (snd (closeOtherTabs i s)) = ap_toolSessions s"
  "ap_activeToolSessionIds (snd (closeOtherTabs i s)) = ap_activeToolSessionIds s"
  "ap_toolSessions (snd (closeTabsToRight i s)) = ap_toolSessions s"
  "ap_activeToolSessionIds (snd (closeTabsToRight i s)) = ap_activeToolSessionIds s"
  "ap_toolSessions (duplicateTab n e i s) = ap_toolSessions s"
  "ap_activeToolSessionIds (duplicateTab n e i s) = ap_activeToolSessionIds s"
  by (simp_all add: closeTab_def closeOtherTabs_def closeTabsToRight_def duplicateTab_def Let_def
      split: option.splits)

lemma sessions_ok_forge:
  assumes "sessions_ok U s" and "U \<subseteq> V" and "is_uuid u1" and "u1 \<in> V"
  shows "sessions_ok V (snd (openForgeDomain u1 u2 u3 d s))"
proof -
  have "sessions_ok V s" by (rule sessions_ok_mono[OF assms(1,2)])
  moreover have "sessions_ok V (snd (openToolTab u1 tool None no_options s))" for tool
    by (rule sessions_ok_open[OF assms]) simp
  ultimately show ?thesis
    by (auto simp: openForgeDomain_def addTab_def setActiveTab_def sessions_ok_def
        split: option.splits WorkbenchView.splits)
qed

lemma sessions_ok_step:
  assumes ok: "sessions_ok (set used) s" and fresh: "fresh_ids used (uuids a)" and act: "action_ok s a"
  shows "sessions_ok (set (used @ brought_ids a)) (snd (app_step s a))"
proof -
  let ?V = "set (used @ brought_ids a)"
  have sub: "set used \<subseteq> ?V" by auto
  have okV: "sessions_ok ?V s" by (rule sessions_ok_mono[OF ok sub])
  show ?thesis
  proof (cases a)
    case (OpenToolTab u tool sid opts)
    then have "is_uuid u" "u \<in> ?V" "\<And>i. sid = Some i \<Longrightarrow> i \<in> ?V"
      using fresh by (cases sid; auto simp: fresh_ids_def)+
    then have "sessions_ok ?V (snd (openToolTab u tool sid opts s))"
      by (rule sessions_ok_open[OF ok sub])
    then show ?thesis using OpenToolTab by simp
  next
    case (AddToolSession u tool opts)
    have "u \<notin> session_ids s tool"
      using fresh AddToolSession session_ids_used[OF ok, of tool] by (auto simp: fresh_ids_def)
    then show ?thesis using AddToolSession fresh is_uuid_truthy
      by (auto simp: addToolSession_def Let_def fresh_ids_def intro!: sessions_ok_push[OF ok])
  next
    case (CloseToolSession u tool i)
    have "sessions_ok ?V (snd (closeToolSession u tool i s))"
      by (rule sessions_ok_close[OF ok sub]) (use fresh CloseToolSession in \<open>auto simp: fresh_ids_def\<close>)
    then show ?thesis using CloseToolSession by simp
  next
    case (UpdateToolSession tool i opts)
    then show ?thesis using sessions_ok_update[OF okV] by simp
  next
    case (SetActiveToolSession tool i)
    then show ?thesis using act sessions_ok_focus[OF okV] by (simp add: setActiveToolSession_def)
  next
    case (OpenForgeDomain u1 u2 u3 d)
    then have "is_uuid u1" "u1 \<in> ?V" using fresh by (auto simp: fresh_ids_def)
    then have "sessions_ok ?V (snd (openForgeDomain u1 u2 u3 d s))"
      by (rule sessions_ok_forge[OF ok sub])
    then show ?thesis using OpenForgeDomain by simp
  next
    case (CloseTabsToRight i)
    then show ?thesis using okV by (simp add: sessions_ok_def)
  qed (use okV in \<open>auto simp: tab_handler_defs Let_def sessions_ok_def\<close>)
qed


section \<open>Focus\<close>

definition focus_ok :: "app_state \<Rightarrow> bool" where
  "focus_ok s \<longleftrightarrow> (\<forall>i. ap_activeTabId s = Some i \<longrightarrow> i \<in> tab_ids s)"

lemma session_focus [simp]:
  "ap_activeTabId (focus_session tool i s) = ap_activeTabId s"
  "ap_activeTabId (push_session tool x s) = ap_activeTabId s"
  "ap_activeTabId (snd (openToolTab u tool sid opts s)) = ap_activeTabId s"
  "ap_activeTabId (snd (closeToolSession u tool i' s)) = ap_activeTabId s"
  by (simp_all add: focus_session_def push_session_def openToolTab_def closeToolSession_def Let_def
      split: option.splits)

lemma tab_ids_map_where:
  assumes "\<And>t. tab_id (f t) = tab_id t"
  shows "tab_id ` set (map_where P f ts) = tab_id ` set ts"
  unfolding list.set_map[symmetric] by (subst map_where_key) (use assms in auto)

lemma focus_ok_right: "focus_ok s \<Longrightarrow> focus_ok (snd (closeTabsToRight i s))"
proof (cases "findIndex (\<lambda>t. tab_id t = i) (ap_tabs s)")
  case None
  assume "focus_ok s"
  then show ?thesis unfolding closeTabsToRight_def None by simp
next
  case (Some k)
  then have k: "k < length (ap_tabs s)" "tab_id (ap_tabs s ! k) = i" using findIndex_SomeD[OF Some] by auto
  then have "ap_tabs s ! k \<in> set (take (k + 1) (ap_tabs s))" by (auto simp: take_Suc_conv_app_nth)
  then show ?thesis unfolding closeTabsToRight_def Some using k(2)
    by (auto simp: Let_def focus_ok_def tab_ids_def some_elem_def list_ex_iff)
qed

lemma tab_ids_move:
  "i < length ts \<Longrightarrow> tab_id ` set (splice_in j (ts ! i) (splice_out i ts)) = tab_id ` set ts"
  by (simp only: splice_move_set)

lemma active_index_bounds: "ap_tabs s \<noteq> [] \<Longrightarrow> -1 \<le> active_index s \<and> active_index s < int (length (ap_tabs s))"
  by (auto simp: active_index_def split: option.splits dest: findIndex_SomeD)

lemma nth_tab_id:
  "\<not> length (ap_tabs s) \<le> Suc 0 \<Longrightarrow> tab_id (ap_tabs s ! nat (k mod int (length (ap_tabs s)))) \<in> tab_ids s"
  by (auto simp: tab_ids_def intro!: imageI nth_mem nat_mod_less)

lemma focus_ok_step:
  assumes ok: "focus_ok s" and act: "action_ok s a"
  shows "focus_ok (snd (app_step s a))"
proof (cases a)
  case (CloseTabsToRight i)
  then show ?thesis using focus_ok_right[OF ok] by simp
next
  case (CloseTab i)
  then show ?thesis using ok last_in_set[of "filter (\<lambda>t. tab_id t \<noteq> i) (ap_tabs s)"]
    by (auto simp: closeTab_def Let_def focus_ok_def tab_ids_def)
next
  case (DuplicateTab n e i)
  then show ?thesis using ok by (auto simp: duplicateTab_def Let_def focus_ok_def tab_ids_def split: option.splits)
next
  case (SetActiveTab i)
  then show ?thesis using act by (cases i) (auto simp: setActiveTab_def focus_ok_def tab_ids_def)
next
  case NextTab
  then show ?thesis using ok nth_tab_id[of s] by (auto simp: nextTab_def Let_def focus_ok_def tab_ids_def)
next
  case PrevTab
  then show ?thesis using ok nth_tab_id[of s] by (auto simp: prevTab_def Let_def focus_ok_def tab_ids_def)
next
  case (ReorderTabs x y)
  then show ?thesis using ok
    by (auto simp: reorderTabs_def Let_def focus_ok_def tab_ids_def tab_ids_move simp del: set_splice_in)
next
  case (OpenForgeDomain u1 u2 u3 d)
  then show ?thesis using ok
    by (auto simp: openForgeDomain_def addTab_def setActiveTab_def focus_ok_def tab_ids_def
        split: option.splits WorkbenchView.splits dest: find_SomeD)
next
  case (UpdateTab i f)
  then show ?thesis using ok act
    by (auto simp: updateTab_def map_tab_def focus_ok_def tab_ids_def tab_ids_map_where keeps_identity_def)
next
  case (CloseOtherTabs i)
  then show ?thesis using ok
    by (auto simp: closeOtherTabs_def Let_def focus_ok_def tab_ids_def some_elem_def list_ex_iff)
qed (use ok in \<open>auto simp: tab_handler_defs session_handler_defs Let_def focus_ok_def tab_ids_def
      tab_ids_map_where\<close>)



section \<open>Status dots\<close>

definition contexts_ok :: "app_state \<Rightarrow> bool" where
  "contexts_ok s \<longleftrightarrow> fst ` set (ap_contextStates s) \<subseteq> context_ids s"

lemma keys_withoutContextStates:
  "fst ` set (withoutContextStates d is) = fst ` set d - set is"
  unfolding withoutContextStates_def
proof (induction "is" arbitrary: d)
  case (Cons i "is")
  have "fst ` set (AList.delete i d) = fst ` set d - {i}" by (metis delete_keys list.set_map set_removeAll)
  with Cons show ?case by auto
qed simp

lemma context_ids_mono:
  "tab_ids s \<subseteq> tab_ids s' \<Longrightarrow> (\<And>tool. session_ids s tool \<subseteq> session_ids s' tool)
    \<Longrightarrow> context_ids s \<subseteq> context_ids s'"
  unfolding context_ids_def by blast

lemma contexts_ok_grow:
  assumes "contexts_ok s" and "ap_contextStates s' = ap_contextStates s"
    and "tab_ids s \<subseteq> tab_ids s'" and "\<And>tool. session_ids s tool \<subseteq> session_ids s' tool"
  shows "contexts_ok s'"
  using assms context_ids_mono[OF assms(3,4)] by (auto simp: contexts_ok_def)

lemma contexts_ok_close_tabs:
  assumes "contexts_ok s" and "ap_contextStates s' = withoutContextStates (ap_contextStates s) is"
    and "tab_ids s - set is \<subseteq> tab_ids s'" and "ap_toolSessions s' = ap_toolSessions s"
  shows "contexts_ok s'"
  using assms unfolding contexts_ok_def assms(2) keys_withoutContextStates
  by (auto simp: context_ids_def session_ids_def)

lemma contexts_ok_close_session:
  assumes "contexts_ok s"
  shows "contexts_ok (snd (closeToolSession u tool i s))"
proof (cases "findIndex (\<lambda>x. ts_id x = i) (ap_toolSessions s tool)")
  case None
  then show ?thesis using assms unfolding closeToolSession_def Let_def None by simp
next
  case (Some k)
  let ?s' = "snd (closeToolSession u tool i s)"
  have st: "ap_contextStates ?s' = withoutContextStates (ap_contextStates s) [toolContextId tool i]"
    unfolding closeToolSession_def Let_def Some by simp
  have ids: "session_ids s t - (if t = tool then {i} else {}) \<subseteq> session_ids ?s' t" for t
    unfolding closeToolSession_def Let_def Some
    by (auto simp: session_ids_def filter_empty_conv)
  have "tab_ids ?s' = tab_ids s" by (simp add: tab_ids_def)
  have "context_ids s - {toolContextId tool i} \<subseteq> context_ids ?s'"
  proof
    fix c assume c: "c \<in> context_ids s - {toolContextId tool i}"
    then consider "c \<in> tab_ids s" | t j where "c = toolContextId t j" "j \<in> session_ids s t" "\<not> (t = tool \<and> j = i)"
      unfolding context_ids_def by auto
    then show "c \<in> context_ids ?s'"
    proof cases
      case 1
      then show ?thesis by (simp add: context_ids_def tab_ids_def)
    next
      case 2
      then have "j \<in> session_ids ?s' t" using ids[of t] by (auto split: if_splits)
      then show ?thesis using 2(1) by (auto simp: context_ids_def)
    qed
  qed
  then show ?thesis using assms unfolding contexts_ok_def st keys_withoutContextStates by auto
qed


lemma session_states [simp]:
  "ap_contextStates (focus_session tool i s) = ap_contextStates s"
  "ap_contextStates (push_session tool x s) = ap_contextStates s"
  "ap_contextStates (snd (openToolTab u tool sid opts s)) = ap_contextStates s"
  by (simp_all add: focus_session_def push_session_def openToolTab_def Let_def split: option.splits)

lemma session_ids_grow [simp]:
  "session_ids (focus_session tool i s) t = session_ids s t"
  "session_ids s t \<subseteq> session_ids (push_session tool x s) t"
  "session_ids s t \<subseteq> session_ids (snd (openToolTab u tool sid opts s)) t"
  by (auto simp: focus_session_def push_session_def openToolTab_def Let_def session_ids_def split: option.splits)

lemma session_ids_update [simp]: "session_ids (updateToolSession tool i opts s) t = session_ids s t"
proof -
  have "ts_id ` set (map_where (\<lambda>x. ts_id x = i) f xs) = ts_id ` set xs"
    if "\<And>x. ts_id (f x) = ts_id x" for f and xs :: "ToolSession list"
    unfolding list.set_map[symmetric] by (subst map_where_key) (use that in auto)
  then show ?thesis by (simp add: updateToolSession_def session_ids_def)
qed

lemma forge_grow:
  "ap_contextStates (snd (openForgeDomain u1 u2 u3 d s)) = ap_contextStates s"
  "tab_ids s \<subseteq> tab_ids (snd (openForgeDomain u1 u2 u3 d s))"
  "session_ids s tool \<subseteq> session_ids (snd (openForgeDomain u1 u2 u3 d s)) tool"
proof -
  show "ap_contextStates (snd (openForgeDomain u1 u2 u3 d s)) = ap_contextStates s"
    by (simp add: openForgeDomain_def addTab_def setActiveTab_def split: option.splits WorkbenchView.splits)
  show "tab_ids s \<subseteq> tab_ids (snd (openForgeDomain u1 u2 u3 d s))"
    using forge_tabs[of u1 u2 u3 d s] by (auto simp: tab_ids_def)
  show "session_ids s tool \<subseteq> session_ids (snd (openForgeDomain u1 u2 u3 d s)) tool"
    using session_ids_grow(3)
    by (auto simp: openForgeDomain_def addTab_def setActiveTab_def session_ids_def
        split: option.splits WorkbenchView.splits)
qed

lemma contexts_ok_step:
  assumes ok: "contexts_ok s" and act: "action_ok s a"
  shows "contexts_ok (snd (app_step s a))"
proof (cases a)
  case (CloseToolSession u tool i)
  then show ?thesis using contexts_ok_close_session[OF ok] by simp
next
  case (CloseTab i)
  then show ?thesis
    by (auto simp: closeTab_def Let_def tab_ids_def filter_empty_conv intro!: contexts_ok_close_tabs[OF ok])
next
  case (CloseOtherTabs i)
  let ?gone = "filter (\<lambda>t. tab_id t \<noteq> i) (ap_tabs s)"
  have "tab_ids s - set (map tab_id ?gone) \<subseteq> tab_id ` set (filter (\<lambda>t. tab_id t = i) (ap_tabs s))"
    unfolding tab_ids_def list.set_map set_filter by blast
  then show ?thesis using ok CloseOtherTabs
    by (cases "some_elem (\<lambda>t. tab_id t = i) (ap_tabs s)")
       (simp_all add: closeOtherTabs_def Let_def contexts_ok_close_tabs[OF ok, of _ "map tab_id ?gone"] tab_ids_def)
next
  case (CloseTabsToRight i)
  show ?thesis
  proof (cases "findIndex (\<lambda>t. tab_id t = i) (ap_tabs s)")
    case None
    then have "snd (app_step s a) = s" using CloseTabsToRight by (simp only: app_step.simps closeTabsToRight_def None) simp
    then show ?thesis using ok by simp
  next
    case (Some k)
    let ?gone = "drop (Suc k) (ap_tabs s)"
    have "set (ap_tabs s) \<subseteq> set (take (Suc k) (ap_tabs s)) \<union> set ?gone"
      by (metis append_take_drop_id set_append subset_refl)
    then have "tab_ids s - set (map tab_id ?gone) \<subseteq> tab_id ` set (take (Suc k) (ap_tabs s))"
      unfolding tab_ids_def list.set_map by blast
    then show ?thesis using CloseTabsToRight Some
      by (simp add: closeTabsToRight_def Let_def contexts_ok_close_tabs[OF ok, of _ "map tab_id ?gone"] tab_ids_def)
  qed
next
  case (SetContextState c st)
  have "context_ids (setContextState c st s) = context_ids s"
    by (simp add: setContextState_def context_ids_def tab_ids_def session_ids_def)
  then show ?thesis using SetContextState ok act
    by (auto simp: setContextState_def contexts_ok_def keys_update)
next
  case (UpdateToolSession tool i opts)
  then show ?thesis using session_ids_update
    by (auto simp: tab_ids_def intro!: contexts_ok_grow[OF ok] simp: updateToolSession_def)
next
  case (OpenForgeDomain u1 u2 u3 d)
  then show ?thesis using contexts_ok_grow[OF ok forge_grow] by simp
next
  case (OpenToolTab u tool sid opts)
  then show ?thesis by (simp add: contexts_ok_grow[OF ok] tab_ids_def)
next
  case (AddToolSession u tool opts)
  then show ?thesis by (simp add: addToolSession_def Let_def contexts_ok_grow[OF ok] tab_ids_def)
next
  case (SetActiveToolSession tool i)
  then show ?thesis by (simp add: setActiveToolSession_def contexts_ok_grow[OF ok] tab_ids_def)
next
  case (ReorderTabs x y)
  then show ?thesis
    by (auto simp: reorderTabs_def Let_def tab_ids_def session_ids_def tab_ids_move ok simp del: set_splice_in
        intro!: contexts_ok_grow[OF ok])
next
  case (DuplicateTab n e i)
  then show ?thesis
    by (auto simp: duplicateTab_def Let_def tab_ids_def session_ids_def ok split: option.splits
        intro!: contexts_ok_grow[OF ok])
next
  case (UpdateTab i f)
  then show ?thesis using act
    by (auto simp: updateTab_def map_tab_def tab_ids_def session_ids_def tab_ids_map_where keeps_identity_def
        intro!: contexts_ok_grow[OF ok])
qed (auto simp: tab_handler_defs session_handler_defs Let_def tab_ids_def tab_ids_map_where
      intro!: contexts_ok_grow[OF ok] simp: session_ids_def)



section \<open>The invariant of the store\<close>

definition sys_inv :: "app_sys \<Rightarrow> bool" where
  "sys_inv x \<longleftrightarrow> tabs_ok (set (as_used x)) (ap_tabs (as_state x))
     \<and> released_ok (set (as_used x)) (ap_tabs (as_state x)) (as_released x)
     \<and> sessions_ok (set (as_used x)) (as_state x)
     \<and> focus_ok (as_state x) \<and> contexts_ok (as_state x)"

lemma sys_step_simps:
  "as_state (sys_step x a) = snd (app_step (as_state x) a)"
  "as_used (sys_step x a) = as_used x @ brought_ids a"
  "as_released (sys_step x a) = as_released x @ fst (app_step (as_state x) a)"
  by (simp_all add: sys_step_def split: prod.splits)

lemma sys_inv_step:
  assumes "sys_inv x" and "sys_ok x a"
  shows "sys_inv (sys_step x a)"
proof -
  let ?s = "as_state x"
  have ok: "fresh_ids (as_used x) (uuids a)" "action_ok ?s a" using assms(2) by (auto simp: sys_ok_def)
  show ?thesis
    using assms(1) tabs_ok_step[OF _ ok] released_ok_step[OF _ ok] sessions_ok_step[OF _ ok]
      focus_ok_step[OF _ ok(2)] contexts_ok_step[OF _ ok(2)]
    unfolding sys_inv_def sys_step_simps by blast
qed

interpretation app: action_store sys_init sys_step sys_ok sys_inv
proof unfold_locales
  show "sys_inv sys_init"
    by (simp add: sys_inv_def sys_init_def app_init_def tabs_ok_def released_ok_def sessions_ok_def
        tool_ok_def focus_ok_def contexts_ok_def)
qed (rule sys_inv_step)

end
