(* ===== verification/AppStoreProps.thy ===== *)
theory AppStoreProps
  imports AppInvariant
begin

text \<open>
  What the application store promises: the unified tab strip has distinct ids and a valid focus, the
  activity rail reaches every domain, tab navigation and reordering, and the safety of releasing
  backend connections.
\<close>

section \<open>Unified ids\<close>

lemma tool_name_no_colon: "CHR '':'' \<notin> set (tool_name tool)"
  by (cases tool) auto

lemma tool_name_inj: "tool_name t = tool_name t' \<Longrightarrow> t = t'"
  by (cases t; cases t') auto

lemma toolContextId_inj: "toolContextId t i = toolContextId t' i' \<Longrightarrow> t = t' \<and> i = i'"
proof -
  assume eq: "toolContextId t i = toolContextId t' i'"
  have "before_char CHR '':'' (toolContextId t i) = tool_name t" for t i
    by (simp add: toolContextId_def before_char_append[OF tool_name_no_colon])
  then have "tool_name t = tool_name t'" using eq by metis
  then show ?thesis using eq tool_name_inj by (auto simp: toolContextId_def)
qed

lemma unified_ids:
  "map ut_id (getUnifiedTabs mock s) = map tab_id (ap_tabs s)
    @ concat (map (\<lambda>tool. map (toolContextId tool) (map ts_id (ap_toolSessions s tool))) all_tools)"
  by (simp add: getUnifiedTabs_def unified_request_def unified_tool_def comp_def map_concat)

lemma all_tools_all: "tool \<in> set all_tools" "distinct all_tools"
  by (cases tool) (auto simp: all_tools_def)

lemma set_unified_ids: "set (map ut_id (getUnifiedTabs mock s)) = context_ids s"
proof -
  have "set all_tools = UNIV" using all_tools_all(1) by auto
  then show ?thesis unfolding unified_ids
    by (simp add: context_ids_def tab_ids_def session_ids_def image_image)
qed

lemma distinct_unified_ids:
  assumes "tabs_ok U (ap_tabs s)" and "sessions_ok U s"
  shows "distinct (map ut_id (getUnifiedTabs mock s))"
proof -
  let ?f = "\<lambda>tool. map (toolContextId tool) (map ts_id (ap_toolSessions s tool))"
  have "distinct (map ts_id (ap_toolSessions s tool))" for tool
    using assms(2) by (simp add: sessions_ok_def tool_ok_def)
  moreover have inj: "inj_on (toolContextId tool) A" for tool A
    using toolContextId_inj by (auto intro: inj_onI)
  ultimately have "distinct (?f tool)" for tool by (simp only: distinct_map inj simp_thms)
  moreover have "set (?f t) \<inter> set (?f t') = {}" if "t \<noteq> t'" for t t'
    using that toolContextId_inj by auto
  ultimately have "distinct (concat (map ?f all_tools))"
    using all_tools_all(2) by (intro distinct_concat_map) auto
  moreover have "CHR '':'' \<in> set c" if "c \<in> set (concat (map ?f all_tools))" for c
    using that by (auto simp: toolContextId_def)
  moreover have "CHR '':'' \<notin> set c" if "c \<in> set (map tab_id (ap_tabs s))" for c
    using that tabs_okD(4)[OF assms(1)] by (auto simp: is_uuid_def)
  ultimately show ?thesis
    unfolding unified_ids distinct_append using tabs_okD(1)[OF assms(1)] by blast
qed

lemma active_unified_open:
  assumes "sessions_ok U s" and "focus_ok s" and "getActiveUnifiedTabId s = Some i"
  shows "i \<in> context_ids s"
proof (cases "ap_activeWorkbench s")
  case (Tool tool)
  then obtain j where j: "ap_activeToolSessionIds s tool = Some j" "i = toolContextId tool j"
    using assms(3) by (auto simp: getActiveUnifiedTabId_def split: option.splits if_splits)
  have "tool_ok U tool (ap_toolSessions s tool) (Some j)" using assms(1) j(1) by (metis sessions_ok_def)
  then show ?thesis using j(2) by (auto simp: context_ids_def session_ids_def tool_ok_def)
qed (use assms in \<open>auto simp: getActiveUnifiedTabId_def focus_ok_def context_ids_def\<close>)


section \<open>Rail domains\<close>

lemma openToolTab_workbench [simp]: "ap_activeWorkbench (snd (openToolTab u tool sid opts s)) = Tool tool"
  by (simp add: openToolTab_def focus_session_def push_session_def Let_def split: option.splits)

lemma domain_workbench:
  "d \<notin> {DomApi, DomRealtime, DomPlugins} \<Longrightarrow>
    \<exists>tool. Option.bind (List.find (\<lambda>x. dom_id x = d) FORGE_DOMAINS) dom_workbench = Some (Tool tool)
      \<and> TOOL_TO_DOMAIN tool = d"
  by (cases d) (auto simp: FORGE_DOMAINS_def forge_domain_def)

lemma getActiveDomain_setActiveTab:
  assumes "distinct (map tab_id (ap_tabs s))" and "t \<in> set (ap_tabs s)"
  shows "getActiveDomain (setActiveTab (Some (tab_id t)) s) = Some (PROTOCOL_TO_DOMAIN (tab_protocol t))"
  using find_key_unique[OF assms] by (simp add: getActiveDomain_def setActiveTab_def)

lemma getActiveDomain_addTab:
  assumes "i \<notin> tab_ids s"
  shows "getActiveDomain (snd (addTab i e r p s)) = Some (PROTOCOL_TO_DOMAIN p)"
proof -
  have "List.find (\<lambda>t. tab_id t = i) (ap_tabs s) = None"
    using assms by (auto simp: find_None_iff' tab_ids_def)
  then show ?thesis by (simp add: getActiveDomain_def addTab_def find_append)
qed

lemma realtime_protocol: "p = Ws \<or> p = Mqtt \<or> p = Grpc \<Longrightarrow> PROTOCOL_TO_DOMAIN p = DomRealtime"
  by auto

lemma forge_focus:
  assumes dist: "distinct (map tab_id (ap_tabs s))" and "u1 \<notin> tab_ids s" and "d \<noteq> DomPlugins"
  shows "getActiveDomain (snd (openForgeDomain u1 u2 u3 d s)) = Some d"
proof -
  consider "d = DomApi" | "d = DomRealtime" | "d \<notin> {DomApi, DomRealtime, DomPlugins}" using assms(3) by auto
  then show ?thesis
  proof cases
    case 1
    show ?thesis
    proof (cases "List.find (\<lambda>t. tab_protocol t = Http) (ap_tabs s)")
      case None
      then show ?thesis using 1 getActiveDomain_addTab[OF assms(2)] by (simp add: openForgeDomain_def)
    next
      case (Some t)
      then show ?thesis using 1 getActiveDomain_setActiveTab[OF dist, of t] find_SomeD[OF Some]
        by (simp add: openForgeDomain_def)
    qed
  next
    case 2
    show ?thesis
    proof (cases "List.find (\<lambda>t. tab_protocol t = Ws \<or> tab_protocol t = Mqtt \<or> tab_protocol t = Grpc) (ap_tabs s)")
      case None
      then show ?thesis using 2 getActiveDomain_addTab[OF assms(2), of u2 u3 Ws]
        by (simp add: openForgeDomain_def) (simp add: getActiveDomain_def)
    next
      case (Some t)
      then show ?thesis using 2 getActiveDomain_setActiveTab[OF dist, of t] find_SomeD[OF Some]
          realtime_protocol[of "tab_protocol t"] by (simp add: openForgeDomain_def)
    qed
  next
    case 3
    then obtain tool where "Option.bind (List.find (\<lambda>x. dom_id x = d) FORGE_DOMAINS) dom_workbench
        = Some (Tool tool)" "TOOL_TO_DOMAIN tool = d" using domain_workbench by blast
    then show ?thesis using 3 by (simp add: openForgeDomain_def getActiveDomain_def)
  qed
qed


section \<open>Moving between tabs\<close>

lemma active_index_at:
  assumes "distinct (map tab_id (ap_tabs s))" and "k < length (ap_tabs s)"
    and "ap_activeTabId s = Some (tab_id (ap_tabs s ! k))"
  shows "active_index s = int k"
proof -
  have map: "findIndex (\<lambda>t. tab_id t = i) ts = findIndex (\<lambda>x. x = i) (map tab_id ts)" for i ts
    by (induction ts) auto
  have "findIndex (\<lambda>x. x = map tab_id (ap_tabs s) ! k) (map tab_id (ap_tabs s)) = Some k"
    using assms(1,2) by (intro findIndex_distinct) auto
  then show ?thesis using assms(2,3) by (simp add: active_index_def map)
qed

lemma next_prev:
  assumes dist: "distinct (map tab_id (ap_tabs s))" and act: "ap_activeTabId s \<in> Some ` tab_ids s"
  shows "ap_activeTabId (prevTab (nextTab s)) = ap_activeTabId s
    \<and> ap_activeTabId (nextTab (prevTab s)) = ap_activeTabId s"
proof (cases "length (ap_tabs s) \<le> 1")
  case True
  then show ?thesis by (simp add: nextTab_def prevTab_def)
next
  case False
  let ?n = "int (length (ap_tabs s))"
  obtain k where k: "k < length (ap_tabs s)" "ap_activeTabId s = Some (tab_id (ap_tabs s ! k))"
    using act by (auto simp: tab_ids_def in_set_conv_nth)
  have at: "active_index s = int k" by (rule active_index_at[OF dist k])
  have step: "active_index (s\<lparr>ap_activeTabId := Some (tab_id (ap_tabs s ! nat (m mod ?n))),
      ap_activeWorkbench := v, ap_activeCollectionId := c\<rparr>) = m mod ?n" for m v c
  proof -
    have "0 < length (ap_tabs s)" using False by linarith
    then show ?thesis
      by (subst active_index_at[where k = "nat (m mod ?n)"]) (simp_all add: dist nat_mod_less)
  qed
  have "((int k + 1) mod ?n - 1 + ?n) mod ?n = int k" "((int k - 1 + ?n) mod ?n + 1) mod ?n = int k"
    using k(1) False by (simp_all add: mod_simps)
  then show ?thesis using False k(2) by (simp add: nextTab_def prevTab_def Let_def at step)
qed


section \<open>Properties\<close>

text \<open>\<^bold>\<open>C1\<close>. Whatever sequence of actions the user and the windows perform, with fresh UUIDs, no
  disconnect that was ever sent to the backend names a connection id that an open tab has, for any
  protocol: a late clean-up cannot tear down a later connection.\<close>

theorem app_disconnects_never_live:
  assumes "admissible sys_step sys_ok sys_init actions"
    and "Disconnect p c \<in> set (as_released (run sys_step sys_init actions))"
    and "t \<in> set (ap_tabs (as_state (run sys_step sys_init actions)))"
  shows "requestConnectionId t q \<noteq> c"
proof
  let ?x = "run sys_step sys_init actions"
  assume c: "requestConnectionId t q = c"
  have inv: "sys_inv ?x" by (rule app.inv_run[OF assms(1)])
  then obtain t' where t': "Disconnect p c = disconnect_of t'" "is_uuid (tab_connectionEpoch t')"
    "tab_connectionEpoch t' \<notin> epochs (ap_tabs (as_state ?x))"
    using assms(2) unfolding sys_inv_def released_ok_def is_disconnect_def by blast
  have "is_uuid (tab_connectionEpoch t)"
    using inv assms(3) tabs_okD(4) unfolding sys_inv_def by blast
  then have "tab_connectionEpoch t = tab_connectionEpoch t'"
    using requestConnectionId_epoch[of t t' q "tab_protocol t'"] t' c by (simp add: disconnect_of_def)
  then show False using t'(3) assms(3) by (metis epochs_def image_eqI)
qed

definition sample_uuid :: "nat \<Rightarrow> string" where
  "sample_uuid n = replicate 35 CHR ''a'' @ [digit_char n]"

lemma sample_uuid_ok: "is_uuid (sample_uuid n)"
proof -
  have "n mod 10 < length ''0123456789''" by simp
  then have "digit_char n \<in> set ''0123456789''" unfolding digit_char_def by (rule nth_mem)
  then have "digit_char n \<noteq> CHR '':''" by auto
  then show ?thesis by (simp add: is_uuid_def sample_uuid_def)
qed

lemma sample_uuid_eq: "m < 10 \<Longrightarrow> n < 10 \<Longrightarrow> sample_uuid m = sample_uuid n \<longleftrightarrow> m = n"
proof -
  have "distinct ''0123456789''" by simp
  then show "m < 10 \<Longrightarrow> n < 10 \<Longrightarrow> sample_uuid m = sample_uuid n \<longleftrightarrow> m = n"
    by (simp add: sample_uuid_def digit_char_def nth_eq_iff_index_eq)
qed

definition sample_actions :: "app_action list" where
  "sample_actions = [AddTab (sample_uuid 1) (sample_uuid 2) (sample_uuid 3) Ws,
     SetTabProtocol (sample_uuid 4) (sample_uuid 5) (sample_uuid 1) Mqtt]"

lemma sample_actions_ok: "admissible sys_step sys_ok sys_init sample_actions"
  by (simp add: sample_actions_def sys_ok_def fresh_ids_def sample_uuid_ok sample_uuid_eq sys_step_simps
      sys_init_def)

lemma sample_actions_run:
  "as_state (run sys_step sys_init sample_actions)
     = map_tab (sample_uuid 1) (switchProtocol (sample_uuid 4) (sample_uuid 5) Mqtt)
         (snd (addTab (sample_uuid 1) (sample_uuid 2) (sample_uuid 3) Ws app_init))"
  "as_released (run sys_step sys_init sample_actions)
     = [Disconnect Ws (''ws-'' @ sample_uuid 1 @ ''-'' @ sample_uuid 2)]"
  by (simp_all add: sample_actions_def sys_step_simps sys_init_def setTabProtocol_def addTab_def app_init_def
      releaseRequestResources_def requestConnectionId_def newTab_def)

theorem app_disconnects_never_live_witness:
  "requestConnectionId (switchProtocol (sample_uuid 4) (sample_uuid 5) Mqtt
      (newTab (sample_uuid 1) (sample_uuid 2) (sample_uuid 3) Ws)) Ws
    \<noteq> ''ws-'' @ sample_uuid 1 @ ''-'' @ sample_uuid 2"
proof -
  have "switchProtocol (sample_uuid 4) (sample_uuid 5) Mqtt
      (newTab (sample_uuid 1) (sample_uuid 2) (sample_uuid 3) Ws)
    \<in> set (ap_tabs (as_state (run sys_step sys_init sample_actions)))"
    by (simp add: sample_actions_run addTab_def map_tab_def app_init_def map_where_def)
  then show ?thesis
    using app_disconnects_never_live[OF sample_actions_ok, of Ws] by (simp add: sample_actions_run)
qed

text \<open>\<^bold>\<open>C2\<close>. In every reachable state, what an action disconnects is exactly the connections of the
  tabs it closes or whose protocol it changes: nothing leaks and nothing else is torn down.\<close>

theorem app_releases_exactly:
  assumes "admissible sys_step sys_ok sys_init (actions @ [a])"
    and "s = as_state (run sys_step sys_init actions)"
  shows "{r \<in> set (fst (app_step s a)). is_disconnect r}
    = (\<lambda>t. Disconnect (tab_protocol t) (requestConnectionId t (tab_protocol t)))
        ` {t \<in> set (ap_tabs s). tab_connectionEpoch t
             \<notin> tab_connectionEpoch ` set (ap_tabs (snd (app_step s a)))}"
proof -
  have "admissible sys_step sys_ok sys_init actions" "sys_ok (run sys_step sys_init actions) a"
    using assms(1) by (auto simp: admissible_append)
  then have "tabs_ok (set (as_used (run sys_step sys_init actions))) (ap_tabs s)"
    "fresh_ids (as_used (run sys_step sys_init actions)) (uuids a)" "action_ok s a"
    using app.inv_run assms(2) by (auto simp: sys_inv_def sys_ok_def)
  from step_disconnects[OF this] show ?thesis
    by (simp add: ended_def epochs_def disconnect_of_def image_def)
qed

theorem app_releases_exactly_witness:
  "{r \<in> set (fst (app_step (as_state (run sys_step sys_init sample_actions)) (CloseTab (sample_uuid 1)))).
      is_disconnect r}
    = {Disconnect Mqtt (''mqtt-'' @ sample_uuid 1 @ ''-'' @ sample_uuid 4)}"
proof -
  have "admissible sys_step sys_ok sys_init (sample_actions @ [CloseTab (sample_uuid 1)])"
    using sample_actions_ok by (simp add: admissible_append sys_ok_def fresh_ids_def)
  from app_releases_exactly[OF this refl] show ?thesis
    by (simp add: sample_actions_run addTab_def map_tab_def app_init_def map_where_def closeTab_def
        switchProtocol_def newTab_def requestConnectionId_def image_def Let_def cong: conj_cong)
qed

text \<open>\<^bold>\<open>C11\<close>. In every reachable state the contexts of the unified tab strip have distinct ids, the
  context in focus is one of them, and every status dot belongs to one of them.\<close>

theorem app_unified_strip:
  assumes "admissible sys_step sys_ok sys_init actions"
    and "s = as_state (run sys_step sys_init actions)"
  shows "distinct (map ut_id (getUnifiedTabs mock s))
    \<and> (\<forall>i. getActiveUnifiedTabId s = Some i \<longrightarrow> i \<in> ut_id ` set (getUnifiedTabs mock s))
    \<and> fst ` set (ap_contextStates s) \<subseteq> ut_id ` set (getUnifiedTabs mock s)"
proof -
  have inv: "sys_inv (run sys_step sys_init actions)" by (rule app.inv_run[OF assms(1)])
  have ids: "ut_id ` set (getUnifiedTabs mock s) = context_ids s"
    using set_unified_ids[of mock s] by (simp only: list.set_map)
  show ?thesis unfolding ids
    using inv distinct_unified_ids active_unified_open assms(2)
    unfolding sys_inv_def contexts_ok_def by blast
qed

theorem app_unified_strip_witness:
  "distinct (map ut_id (getUnifiedTabs (\<lambda>_. (0, False, 0)) (as_state (run sys_step sys_init sample_actions))))"
  using app_unified_strip[OF sample_actions_ok refl] by blast

text \<open>In every reachable state, closing an open tool session removes it, leaves the tool with at
  least one session (a fresh one when it was the last) and with the focus on a session that is
  open; sessions of other tools are not touched.\<close>

theorem closeToolSession_keeps_one:
  assumes "admissible sys_step sys_ok sys_init (actions @ [CloseToolSession u tool i])"
    and "s = as_state (run sys_step sys_init actions)"
    and "i \<in> ts_id ` set (ap_toolSessions s tool)"
    and "s' = snd (closeToolSession u tool i s)"
  shows "i \<notin> ts_id ` set (ap_toolSessions s' tool) \<and> ap_toolSessions s' tool \<noteq> []
    \<and> ap_activeToolSessionIds s' tool \<in> (\<lambda>x. Some (ts_id x)) ` set (ap_toolSessions s' tool)
    \<and> (\<forall>other. other \<noteq> tool \<longrightarrow> ap_toolSessions s' other = ap_toolSessions s other)"
proof -
  let ?x = "run sys_step sys_init actions"
  have adm: "admissible sys_step sys_ok sys_init actions" "sys_ok ?x (CloseToolSession u tool i)"
    using assms(1) by (auto simp: admissible_append)
  have ok: "sessions_ok (set (as_used ?x)) s" using app.inv_run[OF adm(1)] assms(2) by (simp add: sys_inv_def)
  have u: "is_uuid u" "u \<notin> set (as_used ?x)" using adm(2) by (auto simp: sys_ok_def fresh_ids_def)
  have "i \<in> set (as_used ?x)" using session_ids_used[OF ok, of tool] assms(3) by (auto simp: session_ids_def)
  then have ne: "u \<noteq> i" using u(2) by blast
  obtain k where k: "findIndex (\<lambda>x. ts_id x = i) (ap_toolSessions s tool) = Some k"
    using assms(3) by (cases "findIndex (\<lambda>x. ts_id x = i) (ap_toolSessions s tool)") auto
  have "sessions_ok (insert u (set (as_used ?x))) s'"
    unfolding assms(4) by (rule sessions_ok_close[OF ok]) (use u in auto)
  then have t: "tool_ok (insert u (set (as_used ?x))) tool (ap_toolSessions s' tool) (ap_activeToolSessionIds s' tool)"
    by (simp add: sessions_ok_def)
  have gone: "i \<notin> ts_id ` set (ap_toolSessions s' tool)" and nonempty: "ap_toolSessions s' tool \<noteq> []"
    and rest: "\<forall>other. other \<noteq> tool \<longrightarrow> ap_toolSessions s' other = ap_toolSessions s other"
    unfolding assms(4) closeToolSession_def Let_def k using ne by auto
  show ?thesis using t gone nonempty rest by (auto simp: tool_ok_def split: option.splits)
qed

definition sample_tool_actions :: "app_action list" where
  "sample_tool_actions = [AddToolSession (sample_uuid 1) DbClient no_options]"

theorem closeToolSession_keeps_one_witness:
  "ap_toolSessions (snd (closeToolSession (sample_uuid 2) DbClient (sample_uuid 1)
      (as_state (run sys_step sys_init sample_tool_actions)))) DbClient \<noteq> []"
proof -
  have "admissible sys_step sys_ok sys_init
      (sample_tool_actions @ [CloseToolSession (sample_uuid 2) DbClient (sample_uuid 1)])"
    by (simp add: sample_tool_actions_def sys_ok_def fresh_ids_def sample_uuid_ok sample_uuid_eq sys_step_simps
        sys_init_def)
  moreover have "sample_uuid 1 \<in> ts_id ` set (ap_toolSessions (as_state (run sys_step sys_init sample_tool_actions)) DbClient)"
    by (simp add: sample_tool_actions_def sys_step_simps sys_init_def addToolSession_def push_session_def
        focus_session_def Let_def)
  ultimately show ?thesis using closeToolSession_keeps_one[OF _ refl _ refl] by blast
qed

text \<open>Choosing a domain in the activity rail, other than the plugin market, puts that domain in
  focus, whether a context of it was open or had to be created.\<close>

theorem openForgeDomain_focuses:
  assumes "distinct (map tab_id (ap_tabs s))" and "u1 \<notin> tab_id ` set (ap_tabs s)" and "d \<noteq> DomPlugins"
  shows "getActiveDomain (snd (openForgeDomain u1 u2 u3 d s)) = Some d"
  using forge_focus[OF assms(1) _ assms(3)] assms(2) by (simp add: tab_ids_def)

theorem openForgeDomain_focuses_witness:
  "getActiveDomain (snd (openForgeDomain ''u1'' ''u2'' ''u3'' DomRealtime app_init)) = Some DomRealtime"
  by (rule openForgeDomain_focuses) (auto simp: app_init_def)

text \<open>Stepping to the next tab and back, or back and forth, returns to the tab in focus.\<close>

theorem next_prev_tab_inverse:
  assumes "distinct (map tab_id (ap_tabs s))"
    and "ap_activeTabId s \<in> (\<lambda>t. Some (tab_id t)) ` set (ap_tabs s)"
  shows "ap_activeTabId (prevTab (nextTab s)) = ap_activeTabId s
    \<and> ap_activeTabId (nextTab (prevTab s)) = ap_activeTabId s"
  using next_prev[OF assms(1)] assms(2) by (auto simp: tab_ids_def)

theorem next_prev_tab_inverse_witness:
  "ap_activeTabId (prevTab (nextTab (snd (addTab ''b'' ''e2'' ''r2'' Mqtt (snd (addTab ''a'' ''e1'' ''r1'' Ws app_init))))))
    = Some ''b''"
  using next_prev_tab_inverse[of "snd (addTab ''b'' ''e2'' ''r2'' Mqtt (snd (addTab ''a'' ''e1'' ''r1'' Ws app_init)))"]
  by (simp add: addTab_def app_init_def newTab_def)

text \<open>\<open>reorderTabs\<close> never loses, adds or duplicates a tab: with valid indices the moved tab is
  where it was dropped and the others keep their order; with any other index nothing changes.\<close>

theorem reorderTabs_moves_one:
  "(if 0 \<le> fromIndex \<and> fromIndex < int (length (ap_tabs s)) \<and> 0 \<le> toIndex \<and> toIndex \<le> int (length (ap_tabs s))
    then \<exists>as t bs. ap_tabs s = as @ t # bs \<and> int (length as) = fromIndex
      \<and> ap_tabs (reorderTabs fromIndex toIndex s) = splice_in (nat toIndex) t (as @ bs)
    else reorderTabs fromIndex toIndex s = s)"
proof -
  have "\<exists>as t bs. ap_tabs s = as @ t # bs \<and> length as = nat fromIndex
      \<and> ap_tabs (reorderTabs fromIndex toIndex s) = splice_in (nat toIndex) t (as @ bs)"
    if v: "0 \<le> fromIndex" "fromIndex < int (length (ap_tabs s))" "0 \<le> toIndex" "toIndex \<le> int (length (ap_tabs s))"
  proof -
    have "nat fromIndex < length (ap_tabs s)" using v by linarith
    then have "ap_tabs s = take (nat fromIndex) (ap_tabs s) @ ap_tabs s ! nat fromIndex # drop (Suc (nat fromIndex)) (ap_tabs s)"
      "length (take (nat fromIndex) (ap_tabs s)) = nat fromIndex"
      by (auto intro: id_take_nth_drop)
    moreover have "ap_tabs (reorderTabs fromIndex toIndex s)
        = splice_in (nat toIndex) (ap_tabs s ! nat fromIndex)
            (take (nat fromIndex) (ap_tabs s) @ drop (Suc (nat fromIndex)) (ap_tabs s))"
      using v by (simp add: reorderTabs_def Let_def splice_out_def)
    ultimately show ?thesis by blast
  qed
  note valid = this
  show ?thesis
  proof (cases "0 \<le> fromIndex \<and> fromIndex < int (length (ap_tabs s)) \<and> 0 \<le> toIndex \<and> toIndex \<le> int (length (ap_tabs s))")
    case True
    then show ?thesis using valid by (metis int_nat_eq)
  next
    case False
    then have "reorderTabs fromIndex toIndex s = s" by (auto simp: reorderTabs_def Let_def)
    then show ?thesis using False by argo
  qed
qed

end
