(* ===== verification/Templates.thy ===== *)
theory Templates
  imports Json
begin

text \<open>
  The template language of the request editor (\<open>src/src/lib/requestVariables.ts\<close>, lines 34 to 98):
  the regular expression of a variable reference as a matcher, \<open>replace\<close> and \<open>matchAll\<close> with it,
  the distinct keys of a text, and the two JSON forms in which variable entries are stored. The
  matcher is shown equivalent to the declarative meaning of the expression, and writing entries
  then reading them back gives the entries.
\<close>

section \<open>References\<close>

text \<open>The class of the key in the expression: word characters, dot, dollar and minus. It is
  disjoint from white space and from the closing brace, so greedy matching never backtracks.\<close>

definition key_char :: "char \<Rightarrow> bool" where
  "key_char c \<longleftrightarrow> is_word c \<or> c = CHR ''.'' \<or> c = CHR ''$'' \<or> c = CHR ''-''"

text \<open>The expression matched at the start of \<open>s\<close>: the match, the key and what follows.\<close>

definition match_ref :: "string \<Rightarrow> (string \<times> string \<times> string) option" where
  "match_ref s =
     (case s of
        a # b # s1 \<Rightarrow>
          if a = CHR ''{'' \<and> b = CHR ''{'' then
            let s2 = dropWhile is_ws s1;
                key = takeWhile key_char s2;
                s4 = dropWhile is_ws (dropWhile key_char s2)
            in (case s4 of
                  c # d # rest \<Rightarrow>
                    if key \<noteq> [] \<and> c = CHR ''}'' \<and> d = CHR ''}''
                    then Some (take (length s - length rest) s, key, rest) else None
                | _ \<Rightarrow> None)
          else None
      | _ \<Rightarrow> None)"

text \<open>A text cut into literal characters and references, from left to right.\<close>

datatype segment = Lit char | Ref string string

lemma match_ref_shorter: "match_ref s = Some (m, k, r) \<Longrightarrow> length r < length s"
proof -
  assume "match_ref s = Some (m, k, r)"
  then obtain s1 where s: "s = CHR ''{'' # CHR ''{'' # s1"
    and r: "dropWhile is_ws (dropWhile key_char (dropWhile is_ws s1)) = CHR ''}'' # CHR ''}'' # r"
    by (auto simp: match_ref_def Let_def split: list.splits if_splits)
  have "length (CHR ''}'' # CHR ''}'' # r) \<le> length s1"
    unfolding r[symmetric] by (meson length_dropWhile_le order_trans)
  then show ?thesis using s by simp
qed

function segments :: "string \<Rightarrow> segment list" where
  "segments s =
     (case match_ref s of
        Some (m, k, rest) \<Rightarrow> Ref m k # segments rest
      | None \<Rightarrow> (case s of [] \<Rightarrow> [] | c # cs \<Rightarrow> Lit c # segments cs))"
  by pat_completeness auto
termination
  by (relation "measure length") (auto dest: match_ref_shorter)

declare segments.simps [simp del]

fun seg_text :: "segment \<Rightarrow> string" where
  "seg_text (Lit c) = [c]"
| "seg_text (Ref m k) = m"

fun seg_refs :: "segment list \<Rightarrow> string list" where
  "seg_refs [] = []"
| "seg_refs (Lit c # xs) = seg_refs xs"
| "seg_refs (Ref m k # xs) = k # seg_refs xs"

text \<open>\<open>text.replace(VARIABLE_PATTERN, f)\<close>.\<close>

fun seg_subst :: "(string \<Rightarrow> string \<Rightarrow> string) \<Rightarrow> segment \<Rightarrow> string" where
  "seg_subst f (Lit c) = [c]"
| "seg_subst f (Ref m k) = f m k"

definition replace_pattern :: "(string \<Rightarrow> string \<Rightarrow> string) \<Rightarrow> string \<Rightarrow> string" where
  "replace_pattern f s = concat (map (seg_subst f) (segments s))"

text \<open>\<open>extractVariableKeys\<close>: the loop over \<open>matchAll\<close> with its \<open>seen\<close> set.\<close>

fun collect_keys :: "string list \<Rightarrow> string list \<Rightarrow> string list" where
  "collect_keys keys [] = keys"
| "collect_keys keys (m # ms) =
     (let key = js_trim m
      in if key = [] \<or> key \<in> set keys then collect_keys keys ms
         else collect_keys (keys @ [key]) ms)"

definition extractVariableKeys :: "string option \<Rightarrow> string list" where
  "extractVariableKeys input = collect_keys [] (seg_refs (segments (nullish input [])))"


section \<open>Stored variable entries\<close>

record CollectionVariableEntry =
  cv_key :: string
  cv_value :: string
  cv_enabled :: bool
  cv_isSecret :: "bool option"

text \<open>\<open>Boolean(v)\<close> of a parsed value; a number literal is zero when no digit of its mantissa is
  other than 0.\<close>

definition lit_is_zero :: "string \<Rightarrow> bool" where
  "lit_is_zero l =
     (\<forall>c \<in> set (takeWhile (\<lambda>c. c \<noteq> CHR ''e'' \<and> c \<noteq> CHR ''E'') l). is_digit c \<longrightarrow> c = CHR ''0'')"

fun js_Boolean :: "json \<Rightarrow> bool" where
  "js_Boolean JNull = False"
| "js_Boolean (JBool b) = b"
| "js_Boolean (JNum (JInt i)) = (i \<noteq> 0)"
| "js_Boolean (JNum (JLit l)) = (\<not> lit_is_zero l)"
| "js_Boolean (JStr s) = truthy s"
| "js_Boolean (JArr vs) = True"
| "js_Boolean (JObj kvs) = True"

text \<open>\<open>typeof v === "string" ? v : String(v ?? "")\<close>, where an absent property is \<open>undefined\<close>.\<close>

fun stringOr :: "json option \<Rightarrow> string" where
  "stringOr None = []"
| "stringOr (Some JNull) = []"
| "stringOr (Some v) = js_String v"

fun entry_of_json :: "json \<Rightarrow> CollectionVariableEntry option" where
  "entry_of_json (JObj kvs) =
     (case map_of kvs ''key'' of
        Some (JStr k) \<Rightarrow> Some \<lparr>
          cv_key = k,
          cv_value = stringOr (map_of kvs ''value''),
          cv_enabled = (map_of kvs ''enabled'' \<noteq> Some (JBool False)),
          cv_isSecret = Some (case map_of kvs ''isSecret'' of None \<Rightarrow> False | Some v \<Rightarrow> js_Boolean v) \<rparr>
      | _ \<Rightarrow> None)"
| "entry_of_json _ = None"

definition parseCollectionVariableEntries :: "string option \<Rightarrow> CollectionVariableEntry list" where
  "parseCollectionVariableEntries raw =
     (case raw of
        None \<Rightarrow> []
      | Some t \<Rightarrow>
          if js_trim t = [] then []
          else (case JSON_parse t of
              None \<Rightarrow> []
            | Some (JArr vs) \<Rightarrow> List.map_filter entry_of_json vs
            | Some (JObj kvs) \<Rightarrow>
                map (\<lambda>(key, value). \<lparr> cv_key = key, cv_value = stringOr (Some value),
                  cv_enabled = True, cv_isSecret = Some False \<rparr>) kvs
            | Some _ \<Rightarrow> []))"

text \<open>\<open>JSON.stringify\<close> of an entry leaves out a property that is \<open>undefined\<close>.\<close>

definition json_of_entry :: "CollectionVariableEntry \<Rightarrow> json" where
  "json_of_entry e = JObj
     ([(''key'', JStr (cv_key e)), (''value'', JStr (cv_value e)), (''enabled'', JBool (cv_enabled e))]
      @ (case cv_isSecret e of None \<Rightarrow> [] | Some b \<Rightarrow> [(''isSecret'', JBool b)]))"

definition serializeCollectionVariableEntries :: "CollectionVariableEntry list \<Rightarrow> string" where
  "serializeCollectionVariableEntries entries = JSON_stringify (JArr (map json_of_entry entries))"


section \<open>The matcher and the expression\<close>

lemma key_char_not_ws: "key_char c \<Longrightarrow> \<not> is_ws c"
  unfolding key_char_def using is_ws_word_disjoint by (auto simp: is_ws_def)

lemma brace_classes [simp]: "\<not> key_char (CHR ''}'')" "\<not> is_ws (CHR ''}'')"
  "\<not> key_char (CHR ''{'')" "\<not> is_ws (CHR ''{'')"
  by (auto simp: key_char_def is_ws_def is_word_def is_alpha_def is_upper_def is_digit_def
      char_between_def)

lemma takeWhile_exact:
  "\<forall>x \<in> set xs. P x \<Longrightarrow> ys = [] \<or> \<not> P (hd ys) \<Longrightarrow>
    takeWhile P (xs @ ys) = xs \<and> dropWhile P (xs @ ys) = ys"
  by (induction xs) (cases ys; auto)+

text \<open>What the expression means: two braces, white space, a key, white space, two braces.\<close>

definition is_reference :: "string \<Rightarrow> string \<Rightarrow> bool" where
  "is_reference m k \<longleftrightarrow>
     (\<exists>ws1 ws2. m = ''{{'' @ ws1 @ k @ ws2 @ ''}}''
        \<and> (\<forall>c \<in> set ws1. is_ws c) \<and> (\<forall>c \<in> set ws2. is_ws c)
        \<and> k \<noteq> [] \<and> (\<forall>c \<in> set k. key_char c))"

lemma match_ref_complete:
  assumes "is_reference m k"
  shows "match_ref (m @ r) = Some (m, k, r)"
proof -
  obtain ws1 ws2 where m: "m = ''{{'' @ ws1 @ k @ ws2 @ ''}}''"
    and ws1: "\<forall>c \<in> set ws1. is_ws c" and ws2: "\<forall>c \<in> set ws2. is_ws c"
    and k: "k \<noteq> []" "\<forall>c \<in> set k. key_char c"
    using assms by (auto simp: is_reference_def)
  let ?t3 = "ws2 @ ''}}'' @ r"
  have hdk: "\<not> is_ws (hd (k @ ?t3))" using k key_char_not_ws by (cases k) auto
  have hd3: "\<not> key_char (hd ?t3)" using ws2 key_char_not_ws by (cases ws2) auto
  have 1: "dropWhile is_ws (ws1 @ k @ ?t3) = k @ ?t3"
    using takeWhile_exact[OF ws1, of "k @ ?t3"] hdk by blast
  have 2: "takeWhile key_char (k @ ?t3) = k" "dropWhile key_char (k @ ?t3) = ?t3"
    using takeWhile_exact[OF k(2), of ?t3] hd3 by blast+
  have 3: "dropWhile is_ws ?t3 = ''}}'' @ r"
    using takeWhile_exact[OF ws2, of "''}}'' @ r"] by simp
  have mr: "m @ r = CHR ''{'' # CHR ''{'' # (ws1 @ k @ ?t3)" using m by simp
  have len: "take (length (m @ r) - length r) (m @ r) = m" by simp
  show ?thesis
    unfolding match_ref_def mr using 1 2 3 k(1) len[unfolded mr] by (simp add: Let_def)
qed

lemma match_ref_sound:
  assumes "match_ref s = Some (m, k, r)"
  shows "s = m @ r \<and> is_reference m k"
proof -
  from assms obtain s1 where s: "s = CHR ''{'' # CHR ''{'' # s1"
    and k: "k = takeWhile key_char (dropWhile is_ws s1)" "k \<noteq> []"
    and r: "dropWhile is_ws (dropWhile key_char (dropWhile is_ws s1)) = ''}}'' @ r"
    and m: "m = take (length s - length r) s"
    by (auto simp: match_ref_def Let_def split: list.splits if_splits)
  define ws1 where "ws1 = takeWhile is_ws s1"
  define ws2 where "ws2 = takeWhile is_ws (dropWhile key_char (dropWhile is_ws s1))"
  have "s1 = ws1 @ k @ ws2 @ ''}}'' @ r"
    unfolding ws1_def ws2_def k r[symmetric] by simp
  then have s': "s = (''{{'' @ ws1 @ k @ ws2 @ ''}}'') @ r" using s by simp
  have cut: "take (length (x @ r) - length r) (x @ r) = x" for x :: string by simp
  have "m = ''{{'' @ ws1 @ k @ ws2 @ ''}}''" unfolding m s' by (rule cut)
  moreover have "\<forall>c \<in> set ws1. is_ws c" "\<forall>c \<in> set ws2. is_ws c" "\<forall>c \<in> set k. key_char c"
    unfolding ws1_def ws2_def k by (auto dest: set_takeWhileD)
  ultimately show ?thesis using s' k(2) unfolding is_reference_def by blast
qed

lemma match_ref_iff: "match_ref s = Some (m, k, r) \<longleftrightarrow> s = m @ r \<and> is_reference m k"
  using match_ref_sound match_ref_complete by blast

lemma is_reference_length: "is_reference m k \<Longrightarrow> m \<noteq> []"
  by (auto simp: is_reference_def)

lemma is_reference_trim: "is_reference m k \<Longrightarrow> js_trim k = k \<and> k \<noteq> []"
  using key_char_not_ws by (auto simp: is_reference_def intro!: js_trim_no_ws)


section \<open>Segments\<close>

lemma segments_Nil [simp]: "segments [] = []"
  by (subst segments.simps) (simp add: match_ref_def)

lemma segments_ref: "is_reference m k \<Longrightarrow> segments (m @ r) = Ref m k # segments r"
  by (subst segments.simps) (simp add: match_ref_complete)

lemma segments_lit: "match_ref (c # s) = None \<Longrightarrow> segments (c # s) = Lit c # segments s"
  by (subst segments.simps) simp

lemma segments_cases [consumes 0, case_names Nil ref lit]:
  obtains "s = []" | m k r where "s = m @ r" "is_reference m k" "segments s = Ref m k # segments r"
  | c r where "s = c # r" "match_ref s = None" "segments s = Lit c # segments r"
proof (cases "match_ref s")
  case None
  then show ?thesis using that segments_lit by (cases s) auto
next
  case (Some t)
  obtain m k r where "t = (m, k, r)" by (cases t)
  with Some have "s = m @ r" "is_reference m k" using match_ref_sound by blast+
  then show ?thesis using that(2) segments_ref by blast
qed

lemma segments_induct [case_names Nil ref lit]:
  assumes "P []"
    and "\<And>m k r. is_reference m k \<Longrightarrow> P r \<Longrightarrow> P (m @ r)"
    and "\<And>c r. match_ref (c # r) = None \<Longrightarrow> P r \<Longrightarrow> P (c # r)"
  shows "P s"
proof (induction "length s" arbitrary: s rule: less_induct)
  case less
  show ?case
  proof (cases s rule: segments_cases)
    case Nil then show ?thesis using assms(1) by simp
  next
    case (ref m k r)
    then have "length r < length s" using is_reference_length by (cases m) auto
    then show ?thesis using less assms(2) ref by blast
  next
    case (lit c r)
    then have "length r < length s" by simp
    then show ?thesis using less assms(3) lit by blast
  qed
qed

text \<open>The segments spell the text, and each reference among them is one.\<close>

lemma segments_text: "concat (map seg_text (segments s)) = s"
  by (induction s rule: segments_induct) (simp_all add: segments_ref segments_lit)

lemma segments_refs_valid: "Ref m k \<in> set (segments s) \<Longrightarrow> is_reference m k"
  by (induction s rule: segments_induct) (auto simp: segments_ref segments_lit)

lemma set_seg_refs: "k \<in> set (seg_refs xs) \<longleftrightarrow> (\<exists>m. Ref m k \<in> set xs)"
  by (induction xs rule: seg_refs.induct) auto

lemma replace_pattern_cong [fundef_cong]:
  assumes "s = s'" and "\<And>m k. Ref m k \<in> set (segments s') \<Longrightarrow> f m k = g m k"
  shows "replace_pattern f s = replace_pattern g s'"
proof -
  have "seg_subst f x = seg_subst g x" if "x \<in> set (segments s')" for x
    by (cases x) (use that assms(2) in auto)
  then show ?thesis unfolding replace_pattern_def assms(1) by (metis (no_types, lifting) map_cong)
qed

lemma replace_pattern_match: "replace_pattern (\<lambda>m k. m) s = s"
proof -
  have "seg_subst (\<lambda>m k. m) = seg_text" by (rule ext) (case_tac x, auto)
  then show ?thesis by (simp add: replace_pattern_def segments_text)
qed

lemma replace_pattern_no_refs: "seg_refs (segments s) = [] \<Longrightarrow> replace_pattern f s = s"
  by (metis (no_types, lifting) empty_iff empty_set replace_pattern_cong replace_pattern_match
      set_seg_refs)

lemma replace_pattern_Nil [simp]: "replace_pattern f [] = []"
  by (simp add: replace_pattern_def)

lemma replace_pattern_ref:
  "is_reference m k \<Longrightarrow> replace_pattern f (m @ r) = f m k @ replace_pattern f r"
  by (simp add: replace_pattern_def segments_ref)


section \<open>Extracted keys\<close>

lemma collect_keys_spec:
  assumes "distinct keys" and "\<forall>m \<in> set ms. js_trim m = m \<and> m \<noteq> []"
  shows "distinct (collect_keys keys ms) \<and> set (collect_keys keys ms) = set keys \<union> set ms
    \<and> prefix keys (collect_keys keys ms)"
  using assms
proof (induction keys ms rule: collect_keys.induct)
  case (2 keys m ms)
  show ?case
  proof (cases "m \<in> set keys")
    case True
    with 2 show ?thesis by (auto simp: Let_def)
  next
    case False
    with 2 have "distinct (collect_keys (keys @ [m]) ms)
      \<and> set (collect_keys (keys @ [m]) ms) = set (keys @ [m]) \<union> set ms
      \<and> prefix (keys @ [m]) (collect_keys (keys @ [m]) ms)"
      by (simp add: Let_def)
    with 2 False show ?thesis by (auto simp: Let_def intro: append_prefixD)
  qed
qed simp

lemma seg_refs_trimmed: "\<forall>k \<in> set (seg_refs (segments s)). js_trim k = k \<and> k \<noteq> []"
  using segments_refs_valid is_reference_trim by (metis set_seg_refs)

lemma extractVariableKeys_set:
  "set (extractVariableKeys input) = set (seg_refs (segments (nullish input [])))"
  unfolding extractVariableKeys_def using collect_keys_spec[of "[]"] seg_refs_trimmed by simp

lemma extractVariableKeys_distinct: "distinct (extractVariableKeys input)"
  unfolding extractVariableKeys_def using collect_keys_spec[of "[]"] seg_refs_trimmed by simp


section \<open>Reading back stored entries\<close>

lemma entry_of_json_of_entry:
  "entry_of_json (json_of_entry e) = Some (e\<lparr>cv_isSecret := Some (cv_isSecret e = Some True)\<rparr>)"
  by (cases e) (auto simp: json_of_entry_def split: option.splits)

lemma json_ok_entry: "json_ok (json_of_entry e)"
  by (auto simp: json_of_entry_def wf_dict_def split: option.splits)

lemma map_filter_Some: "(\<And>x. f x = Some (g x)) \<Longrightarrow> List.map_filter f xs = map g xs"
  by (induction xs) (auto simp: map_filter_simps)

lemma dropWhile_stop: "\<not> P x \<Longrightarrow> dropWhile P (ys @ [x]) \<noteq> []"
  by (induction ys) auto

lemma hd_bracket_trim: "js_trim (CHR ''['' # s) \<noteq> []"
  using dropWhile_stop[of is_ws "CHR ''[''" "rev s"] by (simp add: js_trim_def is_ws_def)

lemma parse_serialize_entries:
  "parseCollectionVariableEntries (Some (serializeCollectionVariableEntries es))
    = map (\<lambda>e. e\<lparr>cv_isSecret := Some (cv_isSecret e = Some True)\<rparr>) es"
proof -
  have "json_ok (JArr (map json_of_entry es))" by (simp add: json_ok_entry)
  then have "JSON_parse (serializeCollectionVariableEntries es) = Some (JArr (map json_of_entry es))"
    unfolding serializeCollectionVariableEntries_def by (rule JSON_roundtrip)
  moreover have "js_trim (serializeCollectionVariableEntries es) \<noteq> []"
    using hd_bracket_trim by (simp add: serializeCollectionVariableEntries_def)
  moreover have "List.map_filter entry_of_json (map json_of_entry es)
    = map (\<lambda>e. e\<lparr>cv_isSecret := Some (cv_isSecret e = Some True)\<rparr>) es"
    by (induction es) (simp_all add: map_filter_simps entry_of_json_of_entry)
  ultimately show ?thesis by (simp add: parseCollectionVariableEntries_def)
qed

lemma set_map_filterD: "x \<in> set (List.map_filter f xs) \<Longrightarrow> \<exists>y \<in> set xs. f y = Some x"
  by (induction xs) (auto simp: map_filter_simps split: option.splits)

lemma entry_of_json_isSecret:
  assumes "entry_of_json j = Some e"
  shows "\<exists>b. cv_isSecret e = Some b"
proof -
  obtain kvs k where "j = JObj kvs" "map_of kvs ''key'' = Some (JStr k)"
    using assms by (auto elim!: entry_of_json.elims split: option.splits json.splits)
  then show ?thesis using assms by auto
qed

lemma parsed_isSecret:
  assumes "e \<in> set (parseCollectionVariableEntries raw)"
  shows "\<exists>b. cv_isSecret e = Some b"
proof -
  obtain t j where t: "raw = Some t" "js_trim t \<noteq> []" "JSON_parse t = Some j"
    using assms by (auto simp: parseCollectionVariableEntries_def split: option.splits if_splits)
  show ?thesis
  proof (cases j)
    case (JArr vs)
    then show ?thesis using assms t
      by (auto simp: parseCollectionVariableEntries_def dest!: set_map_filterD entry_of_json_isSecret)
  qed (use assms t in \<open>auto simp: parseCollectionVariableEntries_def\<close>)
qed


section \<open>Properties\<close>

text \<open>The matcher finds a reference at the start of a text exactly when the text starts with two
  braces, white space, a key of word characters, dots, dollars and minuses, white space and two
  braces, and what it returns is that match, its key and the rest.\<close>

theorem variable_pattern_exact:
  "match_ref s = Some (m, k, r) \<longleftrightarrow>
    s = m @ r \<and> k \<noteq> [] \<and> (\<forall>c \<in> set k. key_char c)
    \<and> (\<exists>ws1 ws2. m = ''{{'' @ ws1 @ k @ ws2 @ ''}}'' \<and> (\<forall>c \<in> set ws1 \<union> set ws2. is_ws c))"
  unfolding match_ref_iff is_reference_def by blast

theorem variable_pattern_exact_witness:
  "match_ref ''{{ a.b }}/x'' = Some (''{{ a.b }}'', ''a.b'', ''/x'')"
proof (rule variable_pattern_exact[THEN iffD2], intro conjI)
  show "\<forall>c \<in> set ''a.b''. key_char c" by code_simp
  have "''{{ a.b }}'' = ''{{'' @ '' '' @ ''a.b'' @ '' '' @ ''}}'' \<and> (\<forall>c \<in> set '' '' \<union> set '' ''. is_ws c)"
    by (simp add: is_ws_def)
  then show "\<exists>ws1 ws2. ''{{ a.b }}'' = ''{{'' @ ws1 @ ''a.b'' @ ws2 @ ''}}'' \<and> (\<forall>c \<in> set ws1 \<union> set ws2. is_ws c)"
    by blast
qed simp_all

text \<open>\<open>extractVariableKeys\<close> lists each key that a reference of the text has, once, and nothing
  else; an absent text has none.\<close>

theorem extract_keys_exact:
  "distinct (extractVariableKeys input)
    \<and> set (extractVariableKeys input) = {k. \<exists>m. Ref m k \<in> set (segments (nullish input []))}
    \<and> concat (map seg_text (segments (nullish input []))) = nullish input []"
proof (intro conjI)
  show "set (extractVariableKeys input) = {k. \<exists>m. Ref m k \<in> set (segments (nullish input []))}"
    unfolding extractVariableKeys_set set_eq_iff mem_Collect_eq set_seg_refs by blast
qed (rule extractVariableKeys_distinct segments_text)+

text \<open>Variable entries written as JSON and read back are the same entries, with an absent secret
  flag read as false.\<close>

theorem entries_roundtrip:
  "parseCollectionVariableEntries (Some (serializeCollectionVariableEntries es))
    = map (\<lambda>e. e\<lparr>cv_isSecret := Some (cv_isSecret e = Some True)\<rparr>) es"
  by (rule parse_serialize_entries)

end
