(* ===== verification/CollectionTypes.thy ===== *)
theory CollectionTypes
  imports Templates
begin

text \<open>
  The persistent records of \<open>src/src/types/collections.ts\<close>, and the shape of a store handler: an
  asynchronous handler is one definition that takes the backend's reply to each call it awaits
  (\<open>Inl\<close> the text of the error, \<open>Inr\<close> the value) and, for each \<open>await\<close>, a function \<open>w\<close> on the
  store: what other handlers did to it in the meantime. It returns the result of the promise
  (\<open>Inl\<close> when it is rejected) and the new state.
\<close>

type_synonym 'a reply = "string + 'a"
type_synonym ('s, 'a) outcome = "(string + 'a) \<times> 's"

record Collection =
  col_id :: string
  col_name :: string
  col_description :: string
  col_auth :: "string option"
  col_preScript :: string
  col_postScript :: string
  col_variables :: string
  col_sortOrder :: int
  col_createdAt :: string
  col_updatedAt :: string

datatype ItemType = ItemRequest | ItemFolder

record CollectionItem =
  it_id :: string
  it_collectionId :: string
  it_parentId :: "string option"
  it_itemType :: ItemType
  it_variables :: string
  it_name :: string
  it_sortOrder :: int
  it_method :: "string option"
  it_url :: "string option"
  it_headers :: string
  it_queryParams :: string
  it_bodyType :: string
  it_bodyContent :: string
  it_authType :: string
  it_authConfig :: string
  it_preScript :: string
  it_postScript :: string
  it_responseExample :: string
  it_createdAt :: string
  it_updatedAt :: string

record Environment =
  env_id :: string
  env_name :: string
  env_isActive :: int
  env_sortOrder :: int
  env_createdAt :: string
  env_updatedAt :: string

record EnvVariable =
  ev_id :: string
  ev_environmentId :: string
  ev_key :: string
  ev_value :: string
  ev_enabled :: int
  ev_isSecret :: int
  ev_sortOrder :: int

record GlobalVariable =
  gv_id :: string
  gv_key :: string
  gv_value :: string
  gv_enabled :: int

record HistoryEntry =
  he_id :: string
  he_method :: string
  he_url :: string
  he_status :: "int option"
  he_durationMs :: "int option"
  he_bodySize :: "int option"
  he_requestConfig :: "string option"
  he_responseSummary :: "string option"
  he_createdAt :: string

record HistoryEntrySummary =
  hs_id :: string
  hs_method :: string
  hs_url :: string
  hs_status :: "int option"
  hs_durationMs :: "int option"
  hs_bodySize :: "int option"
  hs_createdAt :: string

text \<open>\<open>d[k] || []\<close>.\<close>

definition get_list :: "'a list dict \<Rightarrow> string \<Rightarrow> 'a list" where
  "get_list d k = nullish (map_of d k) []"

text \<open>\<open>Object.fromEntries(Object.entries(d).filter(([k]) => k !== id))\<close>.\<close>

definition without_key :: "string \<Rightarrow> 'v dict \<Rightarrow> 'v dict" where
  "without_key i d = fromEntries (filter (\<lambda>(k, v). k \<noteq> i) d)"

lemma get_list_Nil [simp]: "get_list [] k = []"
  by (simp add: get_list_def nullish_def)

lemma get_list_update [simp]:
  "get_list (AList.update k v d) k' = (if k' = k then v else get_list d k')"
  by (simp add: get_list_def update_conv' nullish_def)

lemma wf_dict_without_key [simp]: "wf_dict (without_key i d)"
  by (simp add: without_key_def)

lemma map_of_without_key:
  assumes "wf_dict d"
  shows "map_of (without_key i d) k = (if k = i then None else map_of d k)"
proof -
  have *: "wf_dict (filter (\<lambda>(k, v). k \<noteq> i) d)"
    using assms by (auto simp: wf_dict_def distinct_map intro: inj_on_subset)
  have "map_of (filter (\<lambda>(k, v). k \<noteq> i) d) k = (if k = i then None else map_of d k)"
    by (induction d) auto
  then show ?thesis
    by (simp add: without_key_def map_of_fromEntries map_of_rev_distinct[OF *])
qed

end
