(* ===== verification/CollectionStore.thy ===== *)
theory CollectionStore
  imports CollectionTypes
begin

text \<open>
  The collection store (\<open>src/src/stores/collectionStore.ts\<close>): collections, the items of each one as
  a flat list linked by parent ids, and the handlers of the sidebar. Shown: the ancestor walk of
  \<open>moveItem\<close> ends and decides descent on every forest of items, \<open>moveItem\<close> keeps the forest, while
  \<open>reorderItems\<close> can tie a folder to itself; \<open>reorderItems\<close> puts the dragged item where it was dropped
  and undoes itself when the backend fails; copying a request to another collection brings the
  variables it uses.
\<close>

section \<open>State and handlers\<close>

record coll_state =
  cs_collections :: "Collection list"
  cs_items :: "CollectionItem list dict"
  cs_loading :: bool
  cs_error :: "string option"

definition coll_init :: coll_state where
  "coll_init = \<lparr> cs_collections = [], cs_items = [], cs_loading = False, cs_error = None \<rparr>"

definition items_of :: "coll_state \<Rightarrow> string \<Rightarrow> CollectionItem list" where
  "items_of s cid = get_list (cs_items s) cid"

definition set_items :: "string \<Rightarrow> CollectionItem list \<Rightarrow> coll_state \<Rightarrow> coll_state" where
  "set_items cid xs s = s\<lparr>cs_items := AList.update cid xs (cs_items s)\<rparr>"

definition fetchCollections ::
  "(coll_state \<Rightarrow> coll_state) \<Rightarrow> Collection list reply \<Rightarrow> coll_state \<Rightarrow> coll_state" where
  "fetchCollections w reply s =
     (let s' = w (s\<lparr>cs_loading := True, cs_error := None\<rparr>)
      in case reply of
           Inr collections \<Rightarrow> s'\<lparr>cs_collections := collections, cs_loading := False\<rparr>
         | Inl e \<Rightarrow> s'\<lparr>cs_error := Some e, cs_loading := False\<rparr>)"

definition fetchItems ::
  "(coll_state \<Rightarrow> coll_state) \<Rightarrow> CollectionItem list reply \<Rightarrow> string \<Rightarrow> coll_state \<Rightarrow> coll_state" where
  "fetchItems w reply cid s =
     (let s' = w s
      in case reply of Inr xs \<Rightarrow> set_items cid xs s' | Inl e \<Rightarrow> s'\<lparr>cs_error := Some e\<rparr>)"

definition newCollection :: "string \<Rightarrow> string \<Rightarrow> string \<Rightarrow> coll_state \<Rightarrow> Collection" where
  "newCollection uuid now name s = \<lparr> col_id = uuid, col_name = name, col_description = [],
     col_auth = None, col_preScript = [], col_postScript = [], col_variables = ''{}'',
     col_sortOrder = int (length (cs_collections s)), col_createdAt = now, col_updatedAt = now \<rparr>"

definition createCollection ::
  "(coll_state \<Rightarrow> coll_state) \<Rightarrow> (Collection \<Rightarrow> Collection reply) \<Rightarrow> string \<Rightarrow> string \<Rightarrow> string
    \<Rightarrow> coll_state \<Rightarrow> (coll_state, Collection) outcome" where
  "createCollection w svc uuid now name s =
     (let s' = w s
      in case svc (newCollection uuid now name s) of
           Inl e \<Rightarrow> (Inl e, s')
         | Inr created \<Rightarrow> (Inr created, s'\<lparr>cs_collections := cs_collections s' @ [created]\<rparr>))"

definition put_collection :: "string \<Rightarrow> Collection \<Rightarrow> coll_state \<Rightarrow> coll_state" where
  "put_collection i updated s =
     s\<lparr>cs_collections := map_where (\<lambda>c. col_id c = i) (\<lambda>_. updated) (cs_collections s)\<rparr>"

definition renameCollection ::
  "(coll_state \<Rightarrow> coll_state) \<Rightarrow> unit reply \<Rightarrow> string \<Rightarrow> string \<Rightarrow> string \<Rightarrow> coll_state
    \<Rightarrow> (coll_state, unit) outcome" where
  "renameCollection w reply now i name s =
     (case List.find (\<lambda>c. col_id c = i) (cs_collections s) of
        None \<Rightarrow> (Inr (), s)
      | Some col \<Rightarrow>
          let updated = col\<lparr>col_name := name, col_updatedAt := now\<rparr>; s' = w s
          in (case reply of Inl e \<Rightarrow> (Inl e, s') | Inr _ \<Rightarrow> (Inr (), put_collection i updated s')))"

definition deleteCollection ::
  "(coll_state \<Rightarrow> coll_state) \<Rightarrow> unit reply \<Rightarrow> string \<Rightarrow> coll_state \<Rightarrow> (coll_state, unit) outcome" where
  "deleteCollection w reply i s =
     (let s' = w s
      in case reply of
           Inl e \<Rightarrow> (Inl e, s')
         | Inr _ \<Rightarrow> (Inr (),
             s'\<lparr>cs_collections := filter (\<lambda>c. col_id c \<noteq> i) (cs_collections s'),
                cs_items := without_key i (cs_items s')\<rparr>))"

definition newItem ::
  "string \<Rightarrow> string \<Rightarrow> string \<Rightarrow> string option \<Rightarrow> ItemType \<Rightarrow> string \<Rightarrow> string option \<Rightarrow> CollectionItem" where
  "newItem uuid now cid parentId itemType name method = \<lparr>
     it_id = uuid, it_collectionId = cid, it_parentId = parentId, it_itemType = itemType,
     it_variables = ''[]'', it_name = name, it_sortOrder = 0,
     it_method = (if truthy_opt method then method
                  else if itemType = ItemRequest then Some ''GET'' else None),
     it_url = (if itemType = ItemRequest then Some [] else None),
     it_headers = ''{}'', it_queryParams = ''{}'', it_bodyType = ''none'', it_bodyContent = [],
     it_authType = ''none'', it_authConfig = ''{}'', it_preScript = [], it_postScript = [],
     it_responseExample = [], it_createdAt = now, it_updatedAt = now \<rparr>"

definition push_item :: "string \<Rightarrow> CollectionItem \<Rightarrow> coll_state \<Rightarrow> coll_state" where
  "push_item cid created s = set_items cid (items_of s cid @ [created]) s"

definition createItem ::
  "(coll_state \<Rightarrow> coll_state) \<Rightarrow> (CollectionItem \<Rightarrow> CollectionItem reply) \<Rightarrow> string \<Rightarrow> string \<Rightarrow> string
    \<Rightarrow> string option \<Rightarrow> ItemType \<Rightarrow> string \<Rightarrow> string option \<Rightarrow> coll_state
    \<Rightarrow> (coll_state, CollectionItem) outcome" where
  "createItem w svc uuid now cid parentId itemType name method s =
     (let s' = w s
      in case svc (newItem uuid now cid parentId itemType name method) of
           Inl e \<Rightarrow> (Inl e, s')
         | Inr created \<Rightarrow> (Inr created, push_item cid created s'))"

definition put_item :: "string \<Rightarrow> string \<Rightarrow> CollectionItem \<Rightarrow> coll_state \<Rightarrow> coll_state" where
  "put_item cid i updated s =
     set_items cid (map_where (\<lambda>x. it_id x = i) (\<lambda>_. updated) (items_of s cid)) s"

definition updateItem ::
  "(coll_state \<Rightarrow> coll_state) \<Rightarrow> unit reply \<Rightarrow> CollectionItem \<Rightarrow> coll_state \<Rightarrow> (coll_state, unit) outcome" where
  "updateItem w reply item s =
     (let s' = w s
      in case reply of
           Inl e \<Rightarrow> (Inl e, s')
         | Inr _ \<Rightarrow> (Inr (), put_item (it_collectionId item) (it_id item) item s'))"

definition deleteItem ::
  "(coll_state \<Rightarrow> coll_state) \<Rightarrow> unit reply \<Rightarrow> string \<Rightarrow> string \<Rightarrow> coll_state \<Rightarrow> (coll_state, unit) outcome" where
  "deleteItem w reply i cid s =
     (let s' = w s
      in case reply of
           Inl e \<Rightarrow> (Inl e, s')
         | Inr _ \<Rightarrow> (Inr (), set_items cid (filter (\<lambda>x. it_id x \<noteq> i) (items_of s' cid)) s'))"

definition exportCollection ::
  "(coll_state \<Rightarrow> coll_state) \<Rightarrow> string reply \<Rightarrow> coll_state \<Rightarrow> (coll_state, string) outcome" where
  "exportCollection w reply s = (reply, w s)"

definition importCollection ::
  "(coll_state \<Rightarrow> coll_state) \<Rightarrow> (coll_state \<Rightarrow> coll_state) \<Rightarrow> unit reply \<Rightarrow> Collection list reply
    \<Rightarrow> coll_state \<Rightarrow> (coll_state, unit) outcome" where
  "importCollection w w' reply listed s =
     (case reply of Inl e \<Rightarrow> (Inl e, w s) | Inr _ \<Rightarrow> (Inr (), fetchCollections w' listed (w s)))"

definition renameItem ::
  "(coll_state \<Rightarrow> coll_state) \<Rightarrow> unit reply \<Rightarrow> string \<Rightarrow> string \<Rightarrow> string \<Rightarrow> string \<Rightarrow> coll_state
    \<Rightarrow> (coll_state, unit) outcome" where
  "renameItem w reply now i cid name s =
     (case List.find (\<lambda>x. it_id x = i) (items_of s cid) of
        None \<Rightarrow> (Inr (), s)
      | Some item \<Rightarrow>
          let updated = item\<lparr>it_name := name, it_updatedAt := now\<rparr>; s' = w s
          in (case reply of Inl e \<Rightarrow> (Inl e, s') | Inr _ \<Rightarrow> (Inr (), put_item cid i updated s')))"

text \<open>\<open>items.find((x) => x.id === checkId)?.parentId ?? null\<close>.\<close>

definition parentId_of :: "CollectionItem list \<Rightarrow> string \<Rightarrow> string option" where
  "parentId_of xs c = Option.bind (List.find (\<lambda>x. it_id x = c) xs) it_parentId"

text \<open>The walk of \<open>moveItem\<close> up the parents, \<open>Some True\<close> when it meets \<open>i\<close>. On a cycle of parents
  that does not hold \<open>i\<close> it never ends, which is \<open>None\<close>.\<close>

partial_function (option) circular :: "CollectionItem list \<Rightarrow> string \<Rightarrow> string option \<Rightarrow> bool option" where
  "circular xs i checkId =
     (case checkId of
        None \<Rightarrow> Some False
      | Some c \<Rightarrow> if c = [] then Some False
                  else if c = i then Some True
                  else circular xs i (parentId_of xs c))"

text \<open>\<open>None\<close> when the handler never returns.\<close>

definition moveItem ::
  "(coll_state \<Rightarrow> coll_state) \<Rightarrow> unit reply \<Rightarrow> string \<Rightarrow> string \<Rightarrow> string \<Rightarrow> string option \<Rightarrow> coll_state
    \<Rightarrow> (coll_state, unit) outcome option" where
  "moveItem w reply now i cid newParentId s =
     (let xs = items_of s cid
      in case List.find (\<lambda>x. it_id x = i) xs of
           None \<Rightarrow> Some (Inr (), s)
         | Some item \<Rightarrow>
             if newParentId = Some i then Some (Inr (), s)
             else (case (if it_itemType item = ItemFolder then circular xs i newParentId else Some False) of
                 None \<Rightarrow> None
               | Some True \<Rightarrow> Some (Inr (), s)
               | Some False \<Rightarrow>
                   let updated = item\<lparr>it_parentId := newParentId, it_updatedAt := now\<rparr>; s' = w s
                   in Some (case reply of
                        Inl e \<Rightarrow> (Inl e, s')
                      | Inr _ \<Rightarrow> (Inr (), put_item cid i updated s'))))"

datatype DropPosition = Before | After

text \<open>\<open>xs.splice(k, 0, x)\<close> for an index that may be negative, which counts from the end.\<close>

definition js_splice_insert :: "int \<Rightarrow> 'a \<Rightarrow> 'a list \<Rightarrow> 'a list" where
  "js_splice_insert k x xs =
     (if k < 0 then splice_in (nat (max 0 (int (length xs) + k))) x xs else splice_in (nat k) x xs)"

definition findIndex_int :: "('a \<Rightarrow> bool) \<Rightarrow> 'a list \<Rightarrow> int" where
  "findIndex_int P xs = (case findIndex P xs of None \<Rightarrow> -1 | Some i \<Rightarrow> int i)"

definition reordered_siblings ::
  "CollectionItem list \<Rightarrow> CollectionItem \<Rightarrow> CollectionItem \<Rightarrow> DropPosition \<Rightarrow> CollectionItem list" where
  "reordered_siblings allItems dragItem targetItem position =
     (let siblings = sort_key it_sortOrder
            (filter (\<lambda>x. it_parentId x = it_parentId targetItem \<and> it_id x \<noteq> it_id dragItem) allItems);
          targetIndex = findIndex_int (\<lambda>x. it_id x = it_id targetItem) siblings;
          insertAt = (if position = Before then targetIndex else targetIndex + 1)
      in js_splice_insert insertAt dragItem siblings)"

definition reordered_item ::
  "string \<Rightarrow> string option \<Rightarrow> string list \<Rightarrow> CollectionItem \<Rightarrow> CollectionItem" where
  "reordered_item dragId parentId orderedIds item =
     (case findIndex (\<lambda>k. k = it_id item) orderedIds of
         Some newIndex \<Rightarrow> item\<lparr>it_parentId := (if it_id item = dragId then parentId else it_parentId item),
                               it_sortOrder := int newIndex\<rparr>
       | None \<Rightarrow> item)"

definition reordered_items ::
  "CollectionItem list \<Rightarrow> string \<Rightarrow> string option \<Rightarrow> string list \<Rightarrow> CollectionItem list" where
  "reordered_items allItems dragId parentId orderedIds =
     map (reordered_item dragId parentId orderedIds) allItems"

text \<open>The optimistic update, then up to two backend calls, then the rollback if one of them fails.\<close>

definition reorderItems ::
  "(coll_state \<Rightarrow> coll_state) \<Rightarrow> (coll_state \<Rightarrow> coll_state) \<Rightarrow> unit reply \<Rightarrow> unit reply
    \<Rightarrow> string \<Rightarrow> string \<Rightarrow> string \<Rightarrow> DropPosition \<Rightarrow> coll_state \<Rightarrow> coll_state" where
  "reorderItems w w' reordered updated dragId targetId cid position s =
     (let allItems = items_of s cid
      in case (List.find (\<lambda>x. it_id x = dragId) allItems, List.find (\<lambda>x. it_id x = targetId) allItems) of
           (Some dragItem, Some targetItem) \<Rightarrow>
             let parentId = it_parentId targetItem;
                 orderedIds = map it_id (reordered_siblings allItems dragItem targetItem position);
                 updatedItems = reordered_items allItems dragId parentId orderedIds;
                 s1 = w (set_items cid updatedItems s);
                 rollback = (\<lambda>e t. (set_items cid allItems t)\<lparr>cs_error := Some e\<rparr>)
             in (case reordered of
                   Inl e \<Rightarrow> rollback e s1
                 | Inr _ \<Rightarrow>
                     if it_parentId dragItem \<noteq> parentId
                     then (case updated of Inl e \<Rightarrow> rollback e (w' s1) | Inr _ \<Rightarrow> w' s1)
                     else s1)
         | _ \<Rightarrow> s)"

definition saveRequest ::
  "(coll_state \<Rightarrow> coll_state) \<Rightarrow> (coll_state \<Rightarrow> coll_state) \<Rightarrow> CollectionItem reply
    \<Rightarrow> CollectionItem list reply \<Rightarrow> CollectionItem \<Rightarrow> coll_state \<Rightarrow> (coll_state, CollectionItem) outcome" where
  "saveRequest w w' reply listed item s =
     (case reply of
        Inl e \<Rightarrow> (Inl e, w s)
      | Inr saved \<Rightarrow> (Inr saved, fetchItems w' listed (it_collectionId item) (w s)))"

definition deduplicateItems ::
  "(coll_state \<Rightarrow> coll_state) \<Rightarrow> (coll_state \<Rightarrow> coll_state) \<Rightarrow> nat reply \<Rightarrow> CollectionItem list reply
    \<Rightarrow> string \<Rightarrow> coll_state \<Rightarrow> (coll_state, nat) outcome" where
  "deduplicateItems w w' reply listed cid s =
     (case reply of
        Inl e \<Rightarrow> (Inl e, w s)
      | Inr removed \<Rightarrow> (Inr removed, fetchItems w' listed cid (w s)))"

definition duplicateItem ::
  "(coll_state \<Rightarrow> coll_state) \<Rightarrow> (CollectionItem \<Rightarrow> CollectionItem reply) \<Rightarrow> string \<Rightarrow> string \<Rightarrow> string
    \<Rightarrow> string \<Rightarrow> coll_state \<Rightarrow> (coll_state, CollectionItem option) outcome" where
  "duplicateItem w svc uuid now i cid s =
     (case List.find (\<lambda>x. it_id x = i) (items_of s cid) of
        None \<Rightarrow> (Inr None, s)
      | Some item \<Rightarrow>
          let copy = item\<lparr>it_id := uuid, it_name := it_name item @ '' (copy)'',
                it_sortOrder := it_sortOrder item + 1, it_createdAt := now, it_updatedAt := now\<rparr>;
              s' = w s
          in (case svc copy of
                Inl e \<Rightarrow> (Inl e, s')
              | Inr created \<Rightarrow> (Inr (Some created), push_item cid created s')))"

text \<open>The texts of a request in which variables are looked for; \<open>join\<close> prints \<open>null\<close> as nothing.\<close>

definition item_text :: "CollectionItem \<Rightarrow> string" where
  "item_text item = js_join '' '' [nullish (it_url item) [], it_headers item, it_queryParams item,
     it_bodyContent item, it_authConfig item]"

fun missing_vars ::
  "string list \<Rightarrow> CollectionVariableEntry list \<Rightarrow> string list \<Rightarrow> CollectionVariableEntry list" where
  "missing_vars targetKeys sourceVars [] = []"
| "missing_vars targetKeys sourceVars (key # keys) =
     (if key \<in> set targetKeys then missing_vars targetKeys sourceVars keys
      else (case List.find (\<lambda>v. cv_key v = key) sourceVars of
          Some v \<Rightarrow> v # missing_vars targetKeys sourceVars keys
        | None \<Rightarrow> missing_vars targetKeys sourceVars keys))"

text \<open>The target collection with the variables it lacks, when there are any.\<close>

definition migrated_target ::
  "string \<Rightarrow> CollectionItem \<Rightarrow> string \<Rightarrow> string \<Rightarrow> coll_state \<Rightarrow> Collection option" where
  "migrated_target now item sourceId targetId s =
     (let referencedKeys = extractVariableKeys (Some (item_text item))
      in if referencedKeys = [] then None
         else (case (List.find (\<lambda>c. col_id c = sourceId) (cs_collections s),
                     List.find (\<lambda>c. col_id c = targetId) (cs_collections s)) of
             (Some sourceCollection, Some targetCollection) \<Rightarrow>
               let sourceVars = parseCollectionVariableEntries (Some (col_variables sourceCollection));
                   targetVars = parseCollectionVariableEntries (Some (col_variables targetCollection));
                   missing = missing_vars (map cv_key targetVars) sourceVars referencedKeys
               in if missing = [] then None
                  else Some (targetCollection\<lparr>
                    col_variables := serializeCollectionVariableEntries (targetVars @ missing),
                    col_updatedAt := now\<rparr>)
           | _ \<Rightarrow> None))"

definition copyItemToCollection ::
  "(coll_state \<Rightarrow> coll_state) \<Rightarrow> (coll_state \<Rightarrow> coll_state) \<Rightarrow> unit reply
    \<Rightarrow> (CollectionItem \<Rightarrow> CollectionItem reply) \<Rightarrow> string \<Rightarrow> string \<Rightarrow> string \<Rightarrow> string \<Rightarrow> string
    \<Rightarrow> string option \<Rightarrow> bool \<Rightarrow> coll_state \<Rightarrow> (coll_state, CollectionItem option) outcome" where
  "copyItemToCollection w w' saved svc uuid now i sourceId targetId targetParentId migrateVariables s =
     (case List.find (\<lambda>x. it_id x = i) (items_of s sourceId) of
        None \<Rightarrow> (Inr None, s)
      | Some item \<Rightarrow>
          let finish = (\<lambda>t.
                let copy = item\<lparr>it_id := uuid, it_collectionId := targetId,
                      it_parentId := targetParentId, it_sortOrder := 0, it_createdAt := now,
                      it_updatedAt := now\<rparr>;
                    t' = w' t
                in (case svc copy of
                      Inl e \<Rightarrow> (Inl e, t')
                    | Inr created \<Rightarrow> (Inr (Some created), push_item targetId created t')))
          in (case (if migrateVariables then migrated_target now item sourceId targetId s else None) of
                None \<Rightarrow> finish s
              | Some updated \<Rightarrow>
                  (case saved of
                     Inl e \<Rightarrow> (Inl e, w s)
                   | Inr _ \<Rightarrow> finish (put_collection targetId updated (w s)))))"


section \<open>The forest of items\<close>

text \<open>\<open>(p, c)\<close> is a link when \<open>p\<close> is the (non-empty) parent id of the item \<open>c\<close>.\<close>

definition links :: "CollectionItem list \<Rightarrow> (string \<times> string) set" where
  "links xs = {(p, c). parentId_of xs c = Some p \<and> truthy p}"

definition items_forest :: "CollectionItem list \<Rightarrow> bool" where
  "items_forest xs \<longleftrightarrow> distinct (map it_id xs) \<and> acyclic (links xs)
     \<and> (\<forall>x \<in> set xs. \<forall>p \<in> set xs. it_parentId x = Some (it_id p) \<longrightarrow> it_itemType p = ItemFolder)"

lemma links_finite: "finite (links xs)"
proof -
  have "links xs \<subseteq> (\<lambda>x. (the (it_parentId x), it_id x)) ` set xs"
    by (force simp: links_def parentId_of_def bind_eq_Some_conv dest: find_SomeD)
  then show ?thesis using finite_surj by blast
qed

lemma links_wf: "acyclic (links xs) \<Longrightarrow> wf (links xs)"
  by (simp add: finite_acyclic_wf links_finite)

lemma circular_None [simp]: "circular xs i None = Some False"
  by (simp add: circular.simps)

text \<open>On a forest the walk ends, and its result says whether \<open>i\<close> is the start or above it.\<close>

lemma circular_spec:
  assumes "acyclic (links xs)" and "truthy c" and "truthy i"
  shows "circular xs i (Some c) = Some ((i, c) \<in> (links xs)\<^sup>*)"
  using links_wf[OF assms(1)] assms(2)
proof (induction c rule: wf_induct_rule)
  case (less c)
  show ?case
  proof (cases "c = i")
    case True
    then show ?thesis using less.prems by (subst circular.simps) simp
  next
    case False
    show ?thesis
    proof (cases "(\<exists>p. (p, c) \<in> links xs)")
      case True
      then obtain p where p: "parentId_of xs c = Some p" "truthy p" "(p, c) \<in> links xs"
        by (auto simp: links_def)
      have "(i, c) \<in> (links xs)\<^sup>* \<longleftrightarrow> (i, p) \<in> (links xs)\<^sup>*"
      proof
        assume "(i, c) \<in> (links xs)\<^sup>*"
        with False obtain q where "(i, q) \<in> (links xs)\<^sup>*" "(q, c) \<in> links xs"
          by (metis rtranclE)
        then show "(i, p) \<in> (links xs)\<^sup>*" using p by (simp add: links_def)
      qed (use p in auto)
      with less p False show ?thesis by (subst circular.simps) simp
    next
      case no: False
      then have "(i, c) \<notin> (links xs)\<^sup>*" using False by (metis rtranclE)
      moreover have "circular xs i (parentId_of xs c) = Some False"
        using no by (subst circular.simps) (auto simp: links_def split: option.splits)
      ultimately show ?thesis using less.prems False by (subst circular.simps) simp
    qed
  qed
qed

lemma circular_ends: "acyclic (links xs) \<Longrightarrow> \<exists>b. circular xs i q = Some b"
proof (cases q)
  case (Some c)
  assume ac: "acyclic (links xs)"
  show ?thesis
  proof (cases "truthy c \<and> truthy i")
    case True then show ?thesis using Some circular_spec[OF ac] by blast
  next
    case False
    have "truthy c \<Longrightarrow> \<exists>b. circular xs [] (Some c) = Some b" for c
      using links_wf[OF ac]
    proof (induction c rule: wf_induct_rule)
      case (less c)
      show ?case
      proof (cases "parentId_of xs c")
        case None then show ?thesis using less.prems by (subst circular.simps) auto
      next
        case (Some p)
        show ?thesis
        proof (cases "p = []")
          case True
          then have "circular xs [] (Some p) = Some False" by (subst circular.simps) simp
          then show ?thesis using less.prems Some by (subst circular.simps) auto
        next
          case False
          then have "(p, c) \<in> links xs" using Some by (simp add: links_def)
          from less.IH[OF this] False obtain b where "circular xs [] (Some p) = Some b" by blast
          then show ?thesis using less.prems Some by (subst circular.simps) simp
        qed
      qed
    qed
    moreover have "circular xs i (Some []) = Some False" by (subst circular.simps) simp
    ultimately show ?thesis using False Some by (metis)
  qed
qed auto

lemma parentId_of_put:
  assumes "it_id updated = i" and "i \<in> it_id ` set xs"
  shows "parentId_of (map_where (\<lambda>x. it_id x = i) (\<lambda>_. updated) xs) c
    = (if c = i then it_parentId updated else parentId_of xs c)"
proof -
  have *: "List.find (\<lambda>x. it_id x = c) (map_where (\<lambda>x. it_id x = i) (\<lambda>_. updated) xs)
    = map_option (\<lambda>x. if it_id x = i then updated else x) (List.find (\<lambda>x. it_id x = c) xs)"
    by (rule find_map_where) (use assms(1) in auto)
  show ?thesis
  proof (cases "c = i")
    case True
    obtain x where "List.find (\<lambda>x. it_id x = i) xs = Some x"
      using assms(2) by (metis (mono_tags, lifting) find_None_iff' imageE not_None_eq)
    with True * show ?thesis using find_SomeD[of "\<lambda>x. it_id x = i" xs x] by (simp add: parentId_of_def)
  next
    case False
    have "map_option (\<lambda>x. if it_id x = i then updated else x) (List.find (\<lambda>x. it_id x = c) xs)
      = List.find (\<lambda>x. it_id x = c) xs"
      using False by (cases "List.find (\<lambda>x. it_id x = c) xs") (auto dest: find_SomeD)
    with False show ?thesis by (simp add: parentId_of_def *)
  qed
qed

text \<open>Re-parenting one item keeps the forest as long as the new parent is not below it.\<close>

lemma links_reparent:
  assumes "it_id updated = i" and "i \<in> it_id ` set xs"
  shows "links (map_where (\<lambda>x. it_id x = i) (\<lambda>_. updated) xs)
    = {(p, c) \<in> links xs. c \<noteq> i} \<union> {(p, c). c = i \<and> it_parentId updated = Some p \<and> truthy p}"
  unfolding links_def parentId_of_put[OF assms] by auto

lemma acyclic_reparent:
  assumes "acyclic (links xs)" and "it_id updated = i" and "i \<in> it_id ` set xs"
    and "\<And>p. it_parentId updated = Some p \<Longrightarrow> truthy p \<Longrightarrow> (i, p) \<notin> (links xs)\<^sup>*"
  shows "acyclic (links (map_where (\<lambda>x. it_id x = i) (\<lambda>_. updated) xs))"
proof -
  let ?L = "{(p, c) \<in> links xs. c \<noteq> i}"
  have sub: "?L \<subseteq> links xs" by auto
  have L: "acyclic ?L" using acyclic_subset[OF assms(1) sub] .
  show ?thesis
  proof (cases "\<exists>p. it_parentId updated = Some p \<and> truthy p")
    case True
    then obtain p where p: "it_parentId updated = Some p" "truthy p" by blast
    then have "links (map_where (\<lambda>x. it_id x = i) (\<lambda>_. updated) xs) = insert (p, i) ?L"
      unfolding links_reparent[OF assms(2,3)] by auto
    moreover have "(i, p) \<notin> ?L\<^sup>*" using assms(4)[OF p] rtrancl_mono[OF sub] by blast
    ultimately show ?thesis using L by (simp add: acyclic_insert)
  next
    case False
    then have "links (map_where (\<lambda>x. it_id x = i) (\<lambda>_. updated) xs) = ?L"
      unfolding links_reparent[OF assms(2,3)] by auto
    then show ?thesis using L by simp
  qed
qed

lemma request_no_children:
  assumes "items_forest xs" and "x \<in> set xs" and "it_itemType x = ItemRequest"
  shows "(it_id x, c) \<notin> links xs"
proof
  assume "(it_id x, c) \<in> links xs"
  then obtain y where y: "y \<in> set xs" "it_parentId y = Some (it_id x)"
    by (auto simp: links_def parentId_of_def bind_eq_Some_conv dest: find_SomeD)
  then have "it_itemType x = ItemFolder" using assms(1,2) by (auto simp: items_forest_def)
  then show False using assms(3) by simp
qed

lemma request_not_above:
  assumes "items_forest xs" and "x \<in> set xs" and "it_itemType x = ItemRequest" and "p \<noteq> it_id x"
  shows "(it_id x, p) \<notin> (links xs)\<^sup>*"
  using request_no_children[OF assms(1-3)] assms(4) by (metis converse_rtranclE)


lemma circular_False_not_above:
  assumes "acyclic (links xs)" and "circular xs i (Some p) = Some False" and "truthy p"
  shows "(i, p) \<notin> (links xs)\<^sup>*"
proof (cases "i = []")
  case True
  have "([], c) \<notin> links xs" for c by (simp add: links_def)
  with True assms(3) show ?thesis by (metis converse_rtranclE)
next
  case False
  then show ?thesis using circular_spec[OF assms(1,3)] assms(2) by auto
qed

lemma items_of_set_items [simp]:
  "items_of (set_items cid xs s) c = (if c = cid then xs else items_of s c)"
  by (simp add: items_of_def set_items_def)

lemma items_of_error [simp]: "items_of (s\<lparr>cs_error := e\<rparr>) c = items_of s c"
  by (simp add: items_of_def)

lemma forest_reparent:
  assumes "items_forest xs" and "item \<in> set xs" and "it_id item = i" and "np \<noteq> Some i"
    and "\<forall>p \<in> set xs. np = Some (it_id p) \<longrightarrow> it_itemType p = ItemFolder"
    and "it_itemType item = ItemFolder \<Longrightarrow> circular xs i np = Some False"
  shows "items_forest (map_where (\<lambda>x. it_id x = i)
    (\<lambda>_. item\<lparr>it_parentId := np, it_updatedAt := now\<rparr>) xs)"
proof -
  let ?u = "item\<lparr>it_parentId := np, it_updatedAt := now\<rparr>"
  let ?ys = "map_where (\<lambda>x. it_id x = i) (\<lambda>_. ?u) xs"
  have mem: "i \<in> it_id ` set xs" using assms by auto
  have dist: "distinct (map it_id xs)" and ac: "acyclic (links xs)"
    using assms(1) by (auto simp: items_forest_def)
  have only: "x = item" if "x \<in> set xs" "it_id x = i" for x
    using that assms(2,3) by (intro distinct_key_eq[OF dist]) auto
  have "acyclic (links ?ys)"
  proof (rule acyclic_reparent[OF ac _ mem])
    fix p assume p: "it_parentId ?u = Some p" "truthy p"
    show "(i, p) \<notin> (links xs)\<^sup>*"
    proof (cases "it_itemType item")
      case ItemRequest
      then show ?thesis using request_not_above[OF assms(1,2)] assms(3,4) p by auto
    next
      case ItemFolder
      then show ?thesis using circular_False_not_above[OF ac] assms(6) p by simp
    qed
  qed (use assms in simp)
  moreover have "distinct (map it_id ?ys)" using dist assms(3) by (simp add: map_where_key)
  moreover have "it_itemType p = ItemFolder"
    if xp: "x \<in> set ?ys" "p \<in> set ?ys" "it_parentId x = Some (it_id p)" for x p
  proof -
    obtain p' where p': "p' \<in> set xs" "it_id p = it_id p'" "it_itemType p = it_itemType p'"
      using xp(2) assms(2,3) by (auto simp: set_map_where split: if_splits)
    obtain x' where x': "x' \<in> set xs" "it_parentId x = it_parentId x' \<or> it_parentId x = np"
      using xp(1) by (auto simp: set_map_where split: if_splits)
    then show ?thesis using p' xp(3) assms(1,5) by (metis items_forest_def)
  qed
  ultimately show ?thesis by (simp add: items_forest_def)
qed

text \<open>\<open>moveItem\<close> returns and keeps the forest, whatever it is asked to move, as long as the
  collection's items are not changed while the backend is written to.\<close>

lemma moveItem_forest:
  assumes forest: "items_forest (items_of s cid)"
    and folder: "\<forall>p \<in> set (items_of s cid). newParentId = Some (it_id p) \<longrightarrow> it_itemType p = ItemFolder"
    and quiet: "items_of (w s) cid = items_of s cid"
  shows "\<exists>r t. moveItem w reply now i cid newParentId s = Some (r, t) \<and> items_forest (items_of t cid)"
proof -
  let ?xs = "items_of s cid"
  have ac: "acyclic (links ?xs)" using forest by (simp add: items_forest_def)
  obtain b where b: "circular ?xs i newParentId = Some b" using circular_ends[OF ac] by blast
  show ?thesis
  proof (cases "List.find (\<lambda>x. it_id x = i) ?xs")
    case None
    then show ?thesis using forest by (simp add: moveItem_def)
  next
    case (Some item)
    then have item: "item \<in> set ?xs" "it_id item = i" by (auto dest: find_SomeD)
    show ?thesis
    proof (cases "newParentId = Some i \<or> it_itemType item = ItemFolder \<and> b")
      case True
      then show ?thesis using Some b forest by (auto simp: moveItem_def)
    next
      case False
      then have "items_forest (map_where (\<lambda>x. it_id x = i)
          (\<lambda>_. item\<lparr>it_parentId := newParentId, it_updatedAt := now\<rparr>) ?xs)"
        using b by (intro forest_reparent[OF forest item _ folder]) auto
      then show ?thesis using False Some b forest quiet
        by (auto simp: moveItem_def Let_def put_item_def split: sum.splits)
    qed
  qed
qed


section \<open>Reordering\<close>

lemma js_splice_insert_at:
  "js_splice_insert (int (length as)) x (as @ bs) = as @ x # bs"
  "js_splice_insert (int (length as) + 1) x (as @ b # bs) = as @ b # x # bs"
  by (simp_all add: js_splice_insert_def splice_in_def nat_add_distrib)

text \<open>The siblings with the dragged item right before or right after the target.\<close>

lemma reordered_siblings_shape:
  assumes "target \<in> set xs" and "it_id drag \<noteq> it_id target" and "distinct (map it_id xs)"
  obtains as bs where
    "sort_key it_sortOrder (filter (\<lambda>x. it_parentId x = it_parentId target \<and> it_id x \<noteq> it_id drag) xs)
       = as @ target # bs"
    "reordered_siblings xs drag target position
       = (if position = Before then as @ drag # target # bs else as @ target # drag # bs)"
proof -
  let ?S = "sort_key it_sortOrder
    (filter (\<lambda>x. it_parentId x = it_parentId target \<and> it_id x \<noteq> it_id drag) xs)"
  have "target \<in> set ?S" using assms(1,2) by simp
  then obtain i where i: "findIndex (\<lambda>x. it_id x = it_id target) ?S = Some i"
    by (cases "findIndex (\<lambda>x. it_id x = it_id target) ?S") auto
  then obtain as x bs where S: "?S = as @ x # bs" "length as = i" "it_id x = it_id target"
    by (auto dest: findIndex_split)
  have "x \<in> set ?S" using S(1) by simp
  then have "x \<in> set xs" by simp
  then have x: "x = target" using distinct_key_eq[OF assms(3)] assms(1) S(3) by blast
  show ?thesis
  proof
    show "?S = as @ target # bs" using S x by simp
    show "reordered_siblings xs drag target position
       = (if position = Before then as @ drag # target # bs else as @ target # drag # bs)"
      unfolding reordered_siblings_def Let_def findIndex_int_def S(1) i[unfolded S(1)]
      using S(2) x by (auto simp: js_splice_insert_at)
  qed
qed

lemma reordered_siblings_set:
  assumes "target \<in> set xs" and "it_id drag \<noteq> it_id target" and "distinct (map it_id xs)"
  shows "set (reordered_siblings xs drag target position)
    = insert drag {x \<in> set xs. it_parentId x = it_parentId target \<and> it_id x \<noteq> it_id drag}"
proof -
  obtain as bs where ab:
    "sort_key it_sortOrder (filter (\<lambda>x. it_parentId x = it_parentId target \<and> it_id x \<noteq> it_id drag) xs)
       = as @ target # bs"
    "reordered_siblings xs drag target position
       = (if position = Before then as @ drag # target # bs else as @ target # drag # bs)"
    using reordered_siblings_shape[OF assms, of position] by blast
  have "set (as @ target # bs) = {x \<in> set xs. it_parentId x = it_parentId target \<and> it_id x \<noteq> it_id drag}"
    unfolding ab(1)[symmetric] by auto
  then show ?thesis unfolding ab(2) by auto
qed

lemma reordered_siblings_distinct:
  assumes "target \<in> set xs" and "it_id drag \<noteq> it_id target" and "distinct (map it_id xs)"
  shows "distinct (map it_id (reordered_siblings xs drag target position))"
proof -
  let ?F = "filter (\<lambda>x. it_parentId x = it_parentId target \<and> it_id x \<noteq> it_id drag) xs"
  obtain as bs where ab: "sort_key it_sortOrder ?F = as @ target # bs"
    "reordered_siblings xs drag target position
       = (if position = Before then as @ drag # target # bs else as @ target # drag # bs)"
    using reordered_siblings_shape[OF assms, of position] by blast
  have "distinct (map it_id ?F)" using assms(3) by (simp add: distinct_map_filter)
  then have "distinct (map it_id (as @ target # bs))"
    unfolding ab(1)[symmetric] by (simp add: distinct_map)
  moreover have "it_id drag \<notin> it_id ` set (as @ target # bs)" unfolding ab(1)[symmetric] by auto
  ultimately show ?thesis unfolding ab(2) by auto
qed

text \<open>The updated items, seen in the order the sidebar sorts them, are the reordered siblings.\<close>

lemma reordered_item_simps [simp]: "it_id (reordered_item d p L x) = it_id x"
  "it_itemType (reordered_item d p L x) = it_itemType x"
  by (simp_all add: reordered_item_def split: option.splits)

lemma reordered_items_order:
  fixes position :: DropPosition
  assumes drag: "drag \<in> set xs" and target: "target \<in> set xs" and ne: "it_id drag \<noteq> it_id target"
    and dist: "distinct (map it_id xs)"
  defines "L \<equiv> map it_id (reordered_siblings xs drag target position)"
  shows "map it_id (sort_key it_sortOrder (filter (\<lambda>x. it_parentId x = it_parentId target)
           (reordered_items xs (it_id drag) (it_parentId target) L))) = L"
proof (rule sort_by_position)
  let ?p = "it_parentId target"
  define g where "g = reordered_item (it_id drag) ?p L"
  let ?ys = "filter (\<lambda>x. it_parentId x = ?p) (reordered_items xs (it_id drag) ?p L)"
  have ys: "reordered_items xs (it_id drag) ?p L = map g xs" by (simp add: reordered_items_def g_def)
  have g_id: "it_id (g x) = it_id x" for x by (simp add: g_def)
  show "distinct L" unfolding L_def by (rule reordered_siblings_distinct[OF target ne dist])
  have "distinct (map it_id (map g xs))" using dist g_id by (simp add: comp_def)
  then show "distinct (map it_id ?ys)" unfolding ys by (rule distinct_map_filter)
  have setL: "set L = insert (it_id drag) (it_id ` {x \<in> set xs. it_parentId x = ?p})"
    unfolding L_def using reordered_siblings_set[OF target ne dist] distinct_key_eq[OF dist] drag by auto
  have g_par: "it_parentId (g x) = ?p \<longleftrightarrow> it_id x \<in> set L" if "x \<in> set xs" for x
    using that drag distinct_key_eq[OF dist] unfolding setL
    by (auto simp: g_def reordered_item_def setL split: option.splits)
  show "set (map it_id ?ys) = set L"
  proof
    show "set (map it_id ?ys) \<subseteq> set L" unfolding ys using g_par g_id by auto
    show "set L \<subseteq> set (map it_id ?ys)"
    proof
      fix k assume k: "k \<in> set L"
      then obtain x where x: "x \<in> set xs" "it_id x = k" using setL drag by auto
      then have "g x \<in> set ?ys" unfolding ys using g_par[OF x(1)] k by simp
      then show "k \<in> set (map it_id ?ys)" using x(2) g_id[of x] by (metis image_eqI image_set)
    qed
  qed
  show "\<forall>y \<in> set ?ys. findIndex (\<lambda>k. k = it_id y) L = Some (nat (it_sortOrder y)) \<and> 0 \<le> it_sortOrder y"
    unfolding ys using g_par by (auto simp: g_def reordered_item_def split: option.splits)
qed


text \<open>The handler, when nothing else touches the collection while it runs and the backend agrees.\<close>

lemma reorderItems_items:
  assumes "List.find (\<lambda>x. it_id x = dragId) (items_of s cid) = Some drag"
    and "List.find (\<lambda>x. it_id x = targetId) (items_of s cid) = Some target"
  shows "items_of (reorderItems id id (Inr ()) (Inr ()) dragId targetId cid position s) cid
    = reordered_items (items_of s cid) dragId (it_parentId target)
        (map it_id (reordered_siblings (items_of s cid) drag target position))"
  using assms by (simp add: reorderItems_def Let_def items_of_def set_items_def)

text \<open>A folder dropped next to one of its own children becomes its own parent.\<close>

lemma reordered_items_parent:
  assumes "drag \<in> set xs" and "target \<in> set xs" and "it_id drag \<noteq> it_id target" and "distinct (map it_id xs)"
  shows "parentId_of (reordered_items xs (it_id drag) (it_parentId target)
      (map it_id (reordered_siblings xs drag target position))) (it_id drag) = it_parentId target"
proof -
  let ?L = "map it_id (reordered_siblings xs drag target position)"
  have "it_id drag \<in> set ?L" using reordered_siblings_set[OF assms(2-4)] by simp
  then obtain j where j: "findIndex (\<lambda>k. k = it_id drag) ?L = Some j"
    by (cases "findIndex (\<lambda>k. k = it_id drag) ?L") auto
  have "List.find (\<lambda>x. it_id x = it_id drag) xs = Some drag"
    using find_key_unique[OF assms(4,1)] .
  then have "List.find (\<lambda>x. it_id x = it_id drag) (reordered_items xs (it_id drag) (it_parentId target) ?L)
      = Some (reordered_item (it_id drag) (it_parentId target) ?L drag)"
    by (simp add: reordered_items_def find_map comp_def)
  then show ?thesis using j by (simp add: parentId_of_def reordered_item_def)
qed


section \<open>A cycle of parents\<close>

lemma circular_self_parent:
  assumes "circular xs i q = Some b"
  shows "\<not> (q = Some c \<and> parentId_of xs c = Some c \<and> c \<noteq> i \<and> truthy c)"
  by (rule circular.raw_induct[where P = "\<lambda>xs i q b.
        \<not> (q = Some c \<and> parentId_of xs c = Some c \<and> c \<noteq> i \<and> truthy c)", OF _ assms])
     (auto split: option.splits if_splits)

lemma circular_diverges:
  "parentId_of xs c = Some c \<Longrightarrow> c \<noteq> i \<Longrightarrow> truthy c \<Longrightarrow> circular xs i (Some c) = None"
  using circular_self_parent[of xs i "Some c" _ c] by (cases "circular xs i (Some c)") auto

section \<open>Variables travel with a copied request\<close>

lemma missing_vars_find:
  assumes "distinct keys"
  shows "List.find (\<lambda>v. cv_key v = k) (missing_vars tk src keys)
    = (if k \<in> set keys \<and> k \<notin> set tk then List.find (\<lambda>v. cv_key v = k) src else None)"
  using assms
proof (induction keys)
  case (Cons key keys)
  show ?case
  proof (cases "key \<in> set tk")
    case False
    show ?thesis
    proof (cases "List.find (\<lambda>v. cv_key v = key) src")
      case None
      with Cons False show ?thesis by auto
    next
      case (Some v)
      then have "cv_key v = key" by (auto dest: find_SomeD)
      with Cons False Some show ?thesis by auto
    qed
  qed (use Cons in auto)
qed simp

lemma missing_vars_subset: "set (missing_vars tk src keys) \<subseteq> set src"
  by (induction keys) (auto split: option.splits dest: find_SomeD)

lemma reparse_merged:
  "parseCollectionVariableEntries (Some (serializeCollectionVariableEntries
      (parseCollectionVariableEntries t
        @ missing_vars tk (parseCollectionVariableEntries s) keys)))
    = parseCollectionVariableEntries t @ missing_vars tk (parseCollectionVariableEntries s) keys"
proof -
  have secret: "\<exists>b. cv_isSecret e = Some b"
    if "e \<in> set (parseCollectionVariableEntries t
        @ missing_vars tk (parseCollectionVariableEntries s) keys)" for e
    using that parsed_isSecret missing_vars_subset by fastforce
  have "e\<lparr>cv_isSecret := Some (cv_isSecret e = Some True)\<rparr> = e" if "\<exists>b. cv_isSecret e = Some b"
    for e :: CollectionVariableEntry
    using that by (cases e) auto
  then show ?thesis unfolding parse_serialize_entries using secret by (intro map_idI) auto
qed

definition entries_of :: "coll_state \<Rightarrow> string \<Rightarrow> CollectionVariableEntry list" where
  "entries_of s cid =
     parseCollectionVariableEntries (map_option col_variables (List.find (\<lambda>c. col_id c = cid) (cs_collections s)))"

lemma find_put_collection:
  assumes "List.find (\<lambda>c. col_id c = i) (cs_collections s) = Some col" and "col_id u = i"
  shows "List.find (\<lambda>c. col_id c = i) (cs_collections (put_collection i u s)) = Some u"
proof -
  have "List.find (\<lambda>c. col_id c = i) (map_where (\<lambda>c. col_id c = i) (\<lambda>_. u) (cs_collections s))
    = map_option (\<lambda>x. if col_id x = i then u else x) (List.find (\<lambda>c. col_id c = i) (cs_collections s))"
    by (rule find_map_where) (use assms(2) in simp)
  then show ?thesis using assms find_SomeD[OF assms(1)] by (simp add: put_collection_def)
qed

lemma entries_of_push_item [simp]: "entries_of (push_item cid x s) c = entries_of s c"
  by (simp add: entries_of_def push_item_def set_items_def)

lemma copyItemToCollection_entries:
  assumes item: "List.find (\<lambda>x. it_id x = i) (items_of s sourceId) = Some item"
    and source: "List.find (\<lambda>c. col_id c = sourceId) (cs_collections s) = Some sc"
    and target: "List.find (\<lambda>c. col_id c = targetId) (cs_collections s) = Some tc"
    and created: "svc (item\<lparr>it_id := uuid, it_collectionId := targetId,
                      it_parentId := targetParentId, it_sortOrder := 0, it_createdAt := now,
                      it_updatedAt := now\<rparr>) = Inr created"
  defines "t \<equiv> snd (copyItemToCollection id id (Inr ()) svc uuid now i sourceId targetId targetParentId True s)"
  shows "entries_of t targetId = entries_of s targetId
    @ missing_vars (map cv_key (entries_of s targetId)) (entries_of s sourceId)
        (extractVariableKeys (Some (item_text item)))"
proof -
  let ?m = "missing_vars (map cv_key (entries_of s targetId)) (entries_of s sourceId)
        (extractVariableKeys (Some (item_text item)))"
  have src: "entries_of s sourceId = parseCollectionVariableEntries (Some (col_variables sc))"
    and tgt: "entries_of s targetId = parseCollectionVariableEntries (Some (col_variables tc))"
    using source target by (simp_all add: entries_of_def)
  show ?thesis
  proof (cases "?m = []")
    case True
    then have "migrated_target now item sourceId targetId s = None"
      using source target by (simp add: migrated_target_def Let_def src tgt)
    then show ?thesis using True item created by (simp add: t_def copyItemToCollection_def Let_def)
  next
    case False
    let ?u = "tc\<lparr>col_variables := serializeCollectionVariableEntries (entries_of s targetId @ ?m),
      col_updatedAt := now\<rparr>"
    have "extractVariableKeys (Some (item_text item)) \<noteq> []" using False by auto
    then have "migrated_target now item sourceId targetId s = Some ?u"
      using False source target by (simp add: migrated_target_def Let_def src tgt)
    then have t: "t = push_item targetId created (put_collection targetId ?u s)"
      using item created by (simp add: t_def copyItemToCollection_def Let_def)
    have "col_id ?u = targetId" using target by (auto dest: find_SomeD)
    then have "entries_of t targetId
      = parseCollectionVariableEntries (Some (serializeCollectionVariableEntries (entries_of s targetId @ ?m)))"
      unfolding t entries_of_push_item using find_put_collection[OF target, of ?u]
      by (simp add: entries_of_def)
    then show ?thesis unfolding src tgt reparse_merged .
  qed
qed


section \<open>Properties\<close>


definition sample_item :: "string \<Rightarrow> string option \<Rightarrow> ItemType \<Rightarrow> int \<Rightarrow> CollectionItem" where
  "sample_item i p k n = (newItem i ''now'' ''c'' p k i None)\<lparr>it_sortOrder := n\<rparr>"

definition sample_state :: "CollectionItem list \<Rightarrow> coll_state" where
  "sample_state xs = coll_init\<lparr>cs_items := [(''c'', xs)]\<rparr>"

lemma items_of_sample [simp]: "items_of (sample_state xs) ''c'' = xs"
  by (simp add: items_of_def sample_state_def get_list_def nullish_def)

lemma sample_item_simps [simp]: "it_id (sample_item i p k n) = i"
  "it_parentId (sample_item i p k n) = p" "it_itemType (sample_item i p k n) = k"
  "it_sortOrder (sample_item i p k n) = n"
  by (simp_all add: sample_item_def newItem_def)

lemma sample_forest:
  "items_forest [sample_item ''f'' None ItemFolder 0, sample_item ''g'' (Some ''f'') ItemFolder 0]"
proof -
  have "links [sample_item ''f'' None ItemFolder 0, sample_item ''g'' (Some ''f'') ItemFolder 0]
    = {(''f'', ''g'')}"
    by (auto simp: links_def parentId_of_def)
  then show ?thesis by (simp add: items_forest_def acyclic_insert) (simp add: acyclic_def)
qed


text \<open>\<^bold>\<open>C4\<close>. Dropping an item before or after another one: when the dragged item and the target
  are different items of the collection and the backend accepts the change, the siblings, sorted
  as the sidebar sorts them, are the previous siblings in their previous order with the dragged
  item immediately before or after the target, and the dragged item has the target's parent.\<close>

theorem reorderItems_places_item:
  assumes "distinct (map it_id (items_of s cid))" and "dragId \<noteq> targetId"
    and "List.find (\<lambda>x. it_id x = dragId) (items_of s cid) = Some drag"
    and "List.find (\<lambda>x. it_id x = targetId) (items_of s cid) = Some target"
  shows "\<exists>as bs.
    map it_id (sort_key it_sortOrder
      (filter (\<lambda>x. it_parentId x = it_parentId target \<and> it_id x \<noteq> dragId) (items_of s cid)))
      = as @ targetId # bs
    \<and> map it_id (sort_key it_sortOrder (filter (\<lambda>x. it_parentId x = it_parentId target)
        (items_of (reorderItems id id (Inr ()) (Inr ()) dragId targetId cid position s) cid)))
      = (if position = Before then as @ dragId # targetId # bs else as @ targetId # dragId # bs)
    \<and> parentId_of (items_of (reorderItems id id (Inr ()) (Inr ()) dragId targetId cid position s) cid) dragId
      = it_parentId target"
proof -
  have d: "drag \<in> set (items_of s cid)" "it_id drag = dragId"
    and t: "target \<in> set (items_of s cid)" "it_id target = targetId"
    using assms(3,4) by (auto dest: find_SomeD)
  have ne: "it_id drag \<noteq> it_id target" using assms(2) d t by simp
  obtain as bs where ab:
    "sort_key it_sortOrder (filter (\<lambda>x. it_parentId x = it_parentId target \<and> it_id x \<noteq> it_id drag)
      (items_of s cid)) = as @ target # bs"
    "reordered_siblings (items_of s cid) drag target position
       = (if position = Before then as @ drag # target # bs else as @ target # drag # bs)"
    using reordered_siblings_shape[OF t(1) ne assms(1)] by blast
  show ?thesis
    unfolding reorderItems_items[OF assms(3,4)]
    using ab reordered_items_order[OF d(1) t(1) ne assms(1), of position]
      reordered_items_parent[OF d(1) t(1) ne assms(1), of position] d t
    by (intro exI[of _ "map it_id as"] exI[of _ "map it_id bs"]) auto
qed

theorem reorderItems_places_item_witness:
  "\<exists>as bs.
    map it_id (sort_key it_sortOrder
      (filter (\<lambda>x. it_parentId x = None \<and> it_id x \<noteq> ''a'') (items_of (sample_state
        [sample_item ''a'' None ItemRequest 0, sample_item ''b'' None ItemRequest 1]) ''c'')))
      = as @ ''b'' # bs
    \<and> map it_id (sort_key it_sortOrder (filter (\<lambda>x. it_parentId x = None)
        (items_of (reorderItems id id (Inr ()) (Inr ()) ''a'' ''b'' ''c'' After (sample_state
          [sample_item ''a'' None ItemRequest 0, sample_item ''b'' None ItemRequest 1])) ''c'')))
      = as @ ''b'' # ''a'' # bs"
  using reorderItems_places_item[of
      "sample_state [sample_item ''a'' None ItemRequest 0, sample_item ''b'' None ItemRequest 1]"
      "''c''" "''a''" "''b''" "sample_item ''a'' None ItemRequest 0" "sample_item ''b'' None ItemRequest 1" After]
  by simp blast

text \<open>When the backend refuses a reordering, at its first or at its second call and whatever
  other handlers did meanwhile, the collection has the items it had before the drop and the store
  shows the error.\<close>

theorem reorderItems_rolls_back:
  assumes "List.find (\<lambda>x. it_id x = dragId) (items_of s cid) = Some drag"
    and "List.find (\<lambda>x. it_id x = targetId) (items_of s cid) = Some target"
    and "reordered = Inl e \<or> (\<exists>u. reordered = Inr u) \<and> updated = Inl e \<and> it_parentId drag \<noteq> it_parentId target"
  shows "items_of (reorderItems w w' reordered updated dragId targetId cid position s) cid = items_of s cid
    \<and> cs_error (reorderItems w w' reordered updated dragId targetId cid position s) = Some e"
  using assms by (auto simp: reorderItems_def Let_def)

theorem reorderItems_rolls_back_witness:
  "items_of (reorderItems id id (Inr ()) (Inl ''disk full'') ''a'' ''b'' ''c'' After (sample_state
      [sample_item ''a'' None ItemRequest 0, sample_item ''b'' (Some ''f'') ItemRequest 1])) ''c''
    = [sample_item ''a'' None ItemRequest 0, sample_item ''b'' (Some ''f'') ItemRequest 1]"
  using reorderItems_rolls_back[of "''a''"
      "sample_state [sample_item ''a'' None ItemRequest 0, sample_item ''b'' (Some ''f'') ItemRequest 1]"
      "''c''" "sample_item ''a'' None ItemRequest 0" "''b''" "sample_item ''b'' (Some ''f'') ItemRequest 1"
      "Inr ()" "''disk full''" "Inl ''disk full''" id id After]
  by simp

text \<open>\<open>reorderItems\<close> has no circularity check: dropping a folder next to one of its own
  children makes the folder its own parent, and moving another folder into it then never returns.\<close>

theorem reorderItems_ties_folder_to_itself:
  assumes "distinct (map it_id (items_of s cid))"
    and "List.find (\<lambda>x. it_id x = f) (items_of s cid) = Some folder" and "truthy f"
    and "List.find (\<lambda>x. it_id x = c) (items_of s cid) = Some child" and "c \<noteq> f"
    and "it_parentId child = Some f"
    and "List.find (\<lambda>x. it_id x = g) (items_of s cid) = Some other" and "g \<noteq> f"
    and "it_itemType other = ItemFolder"
  shows "parentId_of (items_of (reorderItems id id (Inr ()) (Inr ()) f c cid position s) cid) f = Some f
    \<and> moveItem w reply now g cid (Some f)
        (reorderItems id id (Inr ()) (Inr ()) f c cid position s) = None"
proof -
  let ?t = "reorderItems id id (Inr ()) (Inr ()) f c cid position s"
  have f: "folder \<in> set (items_of s cid)" "it_id folder = f"
    and c: "child \<in> set (items_of s cid)" "it_id child = c"
    using assms(2,4) by (auto dest: find_SomeD)
  have par: "parentId_of (items_of ?t cid) f = Some f"
    unfolding reorderItems_items[OF assms(2,4)]
    using reordered_items_parent[OF f(1) c(1) _ assms(1), of position] f c assms(5,6) by simp
  have "\<exists>x. List.find (\<lambda>x. it_id x = g) (items_of ?t cid) = Some x \<and> it_itemType x = it_itemType other"
    unfolding reorderItems_items[OF assms(2,4)] reordered_items_def find_map using assms(7)
    by (simp add: comp_def)
  then obtain x where x: "List.find (\<lambda>x. it_id x = g) (items_of ?t cid) = Some x"
    "it_itemType x = ItemFolder" using assms(9) by auto
  have "circular (items_of ?t cid) g (Some f) = None"
    by (rule circular_diverges[OF par]) (use assms in auto)
  then show ?thesis using par x assms(8) by (simp add: moveItem_def)
qed

theorem reorderItems_ties_folder_to_itself_witness:
  "moveItem id (Inr ()) ''now'' ''g'' ''c'' (Some ''f'')
     (reorderItems id id (Inr ()) (Inr ()) ''f'' ''r'' ''c'' Before (sample_state
       [sample_item ''f'' None ItemFolder 0, sample_item ''g'' None ItemFolder 1,
        sample_item ''r'' (Some ''f'') ItemRequest 0])) = None"
  using reorderItems_ties_folder_to_itself[of "sample_state
       [sample_item ''f'' None ItemFolder 0, sample_item ''g'' None ItemFolder 1,
        sample_item ''r'' (Some ''f'') ItemRequest 0]" "''c''" "''f''" "sample_item ''f'' None ItemFolder 0"
      "''r''" "sample_item ''r'' (Some ''f'') ItemRequest 0" "''g''" "sample_item ''g'' None ItemFolder 1"
      Before id "Inr ()" "''now''"]
  by simp

text \<open>Copying a request into another collection with \<open>migrateVariables\<close>: the target keeps its
  own variables, and every variable that the request's texts refer to and the target lacks is found
  there with the entry it has in the source collection.\<close>

theorem copyItem_migrates_variables:
  assumes "List.find (\<lambda>x. it_id x = i) (items_of s sourceId) = Some item"
    and "List.find (\<lambda>c. col_id c = sourceId) (cs_collections s) = Some sc"
    and "List.find (\<lambda>c. col_id c = targetId) (cs_collections s) = Some tc"
    and "svc (item\<lparr>it_id := uuid, it_collectionId := targetId,
                      it_parentId := targetParentId, it_sortOrder := 0, it_createdAt := now,
                      it_updatedAt := now\<rparr>) = Inr created"
    and "t = snd (copyItemToCollection id id (Inr ()) svc uuid now i sourceId targetId targetParentId True s)"
    and "k \<in> set (extractVariableKeys (Some (item_text item)))"
  shows "List.find (\<lambda>v. cv_key v = k) (entries_of t targetId)
      = (case List.find (\<lambda>v. cv_key v = k) (entries_of s targetId) of
           Some v \<Rightarrow> Some v
         | None \<Rightarrow> List.find (\<lambda>v. cv_key v = k) (entries_of s sourceId))
    \<and> prefix (entries_of s targetId) (entries_of t targetId)"
proof -
  have "k \<notin> set (map cv_key (entries_of s targetId))"
    if "List.find (\<lambda>v. cv_key v = k) (entries_of s targetId) = None"
    using that by (auto simp: find_None_iff')
  then show ?thesis
    unfolding assms(5)
      copyItemToCollection_entries[where svc = svc and uuid = uuid and now = now
        and targetParentId = targetParentId, OF assms(1-4)]
    using assms(6) missing_vars_find[OF extractVariableKeys_distinct]
    by (auto simp: find_append split: option.splits)
qed


definition sample_entry :: CollectionVariableEntry where
  "sample_entry = \<lparr> cv_key = ''host'', cv_value = ''h'', cv_enabled = True, cv_isSecret = Some False \<rparr>"

definition sample_collection :: "string \<Rightarrow> CollectionVariableEntry list \<Rightarrow> Collection" where
  "sample_collection i es = (newCollection i ''now'' i coll_init)\<lparr>
     col_variables := serializeCollectionVariableEntries es\<rparr>"

definition sample_request :: CollectionItem where
  "sample_request = (sample_item ''r'' None ItemRequest 0)\<lparr>it_url := Some ''{{ host }}/x''\<rparr>"

definition sample_copy_state :: coll_state where
  "sample_copy_state = (sample_state [sample_request])\<lparr>
     cs_collections := [sample_collection ''c'' [sample_entry], sample_collection ''d'' []]\<rparr>"

lemma sample_request_keys: "''host'' \<in> set (extractVariableKeys (Some (item_text sample_request)))"
  by code_simp

theorem copyItem_migrates_variables_witness:
  "List.find (\<lambda>v. cv_key v = ''host'') (entries_of (snd (copyItemToCollection id id (Inr ()) Inr
      ''u'' ''later'' ''r'' ''c'' ''d'' None True sample_copy_state)) ''d'') = Some sample_entry"
proof -
  have "entries_of sample_copy_state ''d'' = []" "entries_of sample_copy_state ''c'' = [sample_entry]"
    by (simp_all add: entries_of_def sample_copy_state_def sample_collection_def newCollection_def
        parse_serialize_entries sample_entry_def)
  moreover have "List.find (\<lambda>x. it_id x = ''r'') (items_of sample_copy_state ''c'') = Some sample_request"
    by (simp add: sample_copy_state_def items_of_def sample_state_def get_list_def nullish_def sample_request_def)
  moreover have "List.find (\<lambda>c. col_id c = ''c'') (cs_collections sample_copy_state) = Some (sample_collection ''c'' [sample_entry])"
    "List.find (\<lambda>c. col_id c = ''d'') (cs_collections sample_copy_state) = Some (sample_collection ''d'' [])"
    by (simp_all add: sample_copy_state_def sample_collection_def newCollection_def)
  moreover have "cv_key sample_entry = ''host''" by (simp add: sample_entry_def)
  ultimately show ?thesis
    using copyItem_migrates_variables[of "''r''" sample_copy_state "''c''" sample_request
        "sample_collection ''c'' [sample_entry]" "''d''" "sample_collection ''d'' []" Inr "''later''" None
        "''u''" "_" "_" "''host''", OF _ _ _ refl refl sample_request_keys]
    by simp
qed

end
