(* ===== verification/EnvStore.thy ===== *)
theory EnvStore
  imports CollectionTypes
begin

text \<open>
  The environment store (\<open>src/src/stores/envStore.ts\<close>): environments, the active one, the
  variables of each environment and the global variables. Shown: in every interleaving of handlers
  exactly the active environment carries the active flag, and the resolved variables give the
  environment's value before the global one.
\<close>

section \<open>State and handlers\<close>

record env_state =
  es_environments :: "Environment list"
  es_activeEnvId :: "string option"
  es_variables :: "EnvVariable list dict"
  es_globalVariables :: "GlobalVariable list"
  es_loading :: bool
  es_error :: "string option"

definition env_init :: env_state where
  "env_init = \<lparr> es_environments = [], es_activeEnvId = None, es_variables = [],
     es_globalVariables = [], es_loading = False, es_error = None \<rparr>"

text \<open>\<open>x?.id || null\<close>.\<close>

definition id_or_null :: "Environment option \<Rightarrow> string option" where
  "id_or_null e = (case e of None \<Rightarrow> None | Some x \<Rightarrow> if truthy (env_id x) then Some (env_id x) else None)"

definition fetchEnvironments_begin :: "env_state \<Rightarrow> env_state" where
  "fetchEnvironments_begin s = s\<lparr>es_loading := True, es_error := None\<rparr>"

definition fetchEnvironments_done :: "Environment list reply \<Rightarrow> env_state \<Rightarrow> env_state" where
  "fetchEnvironments_done reply s =
     (case reply of
        Inr environments \<Rightarrow>
          s\<lparr>es_environments := environments,
            es_activeEnvId := id_or_null (List.find (\<lambda>e. env_isActive e = 1) environments),
            es_loading := False\<rparr>
      | Inl e \<Rightarrow> s\<lparr>es_error := Some e, es_loading := False\<rparr>)"

definition fetchEnvironments ::
  "(env_state \<Rightarrow> env_state) \<Rightarrow> Environment list reply \<Rightarrow> env_state \<Rightarrow> env_state" where
  "fetchEnvironments w reply s = fetchEnvironments_done reply (w (fetchEnvironments_begin s))"

definition set_env_variables :: "string \<Rightarrow> EnvVariable list \<Rightarrow> env_state \<Rightarrow> env_state" where
  "set_env_variables envId vars s = s\<lparr>es_variables := AList.update envId vars (es_variables s)\<rparr>"

definition set_error :: "string \<Rightarrow> env_state \<Rightarrow> env_state" where
  "set_error e s = s\<lparr>es_error := Some e\<rparr>"

definition fetchVariables ::
  "(env_state \<Rightarrow> env_state) \<Rightarrow> EnvVariable list reply \<Rightarrow> string \<Rightarrow> env_state \<Rightarrow> env_state" where
  "fetchVariables w reply envId s =
     (let s' = w s
      in case reply of
           Inr vars \<Rightarrow> set_env_variables envId vars s'
         | Inl e \<Rightarrow> set_error e s')"

definition set_global_variables :: "GlobalVariable list \<Rightarrow> env_state \<Rightarrow> env_state" where
  "set_global_variables vars s = s\<lparr>es_globalVariables := vars\<rparr>"

definition fetchGlobalVariables ::
  "(env_state \<Rightarrow> env_state) \<Rightarrow> GlobalVariable list reply \<Rightarrow> env_state \<Rightarrow> env_state" where
  "fetchGlobalVariables w reply s =
     (let s' = w s
      in case reply of Inr vars \<Rightarrow> set_global_variables vars s' | Inl e \<Rightarrow> set_error e s')"

definition newEnvironment :: "string \<Rightarrow> string \<Rightarrow> string \<Rightarrow> env_state \<Rightarrow> Environment" where
  "newEnvironment uuid now name s = \<lparr> env_id = uuid, env_name = name, env_isActive = 0,
     env_sortOrder = int (length (es_environments s)), env_createdAt = now, env_updatedAt = now \<rparr>"

definition push_environment :: "Environment \<Rightarrow> env_state \<Rightarrow> env_state" where
  "push_environment created s = s\<lparr>es_environments := es_environments s @ [created]\<rparr>"

text \<open>The backend's \<open>createEnvironment\<close> is applied to the record the handler builds.\<close>

definition createEnvironment ::
  "(env_state \<Rightarrow> env_state) \<Rightarrow> (Environment \<Rightarrow> Environment reply) \<Rightarrow> string \<Rightarrow> string \<Rightarrow> string
    \<Rightarrow> env_state \<Rightarrow> (env_state, Environment) outcome" where
  "createEnvironment w svc uuid now name s =
     (let s' = w s
      in case svc (newEnvironment uuid now name s) of
           Inl e \<Rightarrow> (Inl e, s')
         | Inr created \<Rightarrow> (Inr created, push_environment created s'))"

definition set_active :: "string option \<Rightarrow> env_state \<Rightarrow> env_state" where
  "set_active i s =
     s\<lparr>es_activeEnvId := i,
       es_environments :=
         map (\<lambda>e. e\<lparr>env_isActive := (if Some (env_id e) = i then 1 else 0)\<rparr>) (es_environments s)\<rparr>"

definition setActive ::
  "(env_state \<Rightarrow> env_state) \<Rightarrow> unit reply \<Rightarrow> string option \<Rightarrow> env_state \<Rightarrow> (env_state, unit) outcome"
where
  "setActive w reply i s =
     (let s' = w s in case reply of Inl e \<Rightarrow> (Inl e, s') | Inr _ \<Rightarrow> (Inr (), set_active i s'))"

definition drop_environment :: "string \<Rightarrow> env_state \<Rightarrow> env_state" where
  "drop_environment i s =
     s\<lparr>es_environments := filter (\<lambda>e. env_id e \<noteq> i) (es_environments s),
       es_activeEnvId := (if es_activeEnvId s = Some i then None else es_activeEnvId s),
       es_variables := without_key i (es_variables s)\<rparr>"

definition deleteEnvironment ::
  "(env_state \<Rightarrow> env_state) \<Rightarrow> unit reply \<Rightarrow> string \<Rightarrow> env_state \<Rightarrow> (env_state, unit) outcome" where
  "deleteEnvironment w reply i s =
     (let s' = w s in case reply of Inl e \<Rightarrow> (Inl e, s') | Inr _ \<Rightarrow> (Inr (), drop_environment i s'))"

definition saveVariables ::
  "(env_state \<Rightarrow> env_state) \<Rightarrow> unit reply \<Rightarrow> string \<Rightarrow> EnvVariable list \<Rightarrow> env_state
    \<Rightarrow> (env_state, unit) outcome" where
  "saveVariables w reply envId vars s =
     (let s' = w s
      in case reply of Inl e \<Rightarrow> (Inl e, s') | Inr _ \<Rightarrow> (Inr (), set_env_variables envId vars s'))"

definition saveGlobalVars ::
  "(env_state \<Rightarrow> env_state) \<Rightarrow> unit reply \<Rightarrow> GlobalVariable list \<Rightarrow> env_state
    \<Rightarrow> (env_state, unit) outcome" where
  "saveGlobalVars w reply vars s =
     (let s' = w s
      in case reply of Inl e \<Rightarrow> (Inl e, s') | Inr _ \<Rightarrow> (Inr (), set_global_variables vars s'))"

text \<open>The two loops of \<open>getResolvedVariables\<close> over the result object.\<close>

definition getResolvedVariables :: "env_state \<Rightarrow> string dict" where
  "getResolvedVariables s =
     (let result = foldl (\<lambda>acc gv. if gv_enabled gv \<noteq> 0
                                  then AList.update (gv_key gv) (gv_value gv) acc else acc)
                         [] (es_globalVariables s)
      in case es_activeEnvId s of
           Some envId \<Rightarrow>
             if truthy envId then
               foldl (\<lambda>acc ev. if ev_enabled ev \<noteq> 0
                              then AList.update (ev_key ev) (ev_value ev) acc else acc)
                     result (get_list (es_variables s) envId)
             else result
         | None \<Rightarrow> result)"

lemmas env_segments [store_defs] =
  fetchEnvironments_begin_def fetchEnvironments_done_def set_env_variables_def set_error_def
  set_global_variables_def push_environment_def set_active_def drop_environment_def


section \<open>The active environment\<close>

text \<open>The atomic steps between which handlers interleave.\<close>

datatype env_event =
    FetchBegin
  | FetchDone "Environment list reply"
  | VariablesSet string "EnvVariable list"
  | GlobalsSet "GlobalVariable list"
  | Failed string
  | Created Environment
  | Activated "string option"
  | Deleted string

fun env_step :: "env_state \<Rightarrow> env_event \<Rightarrow> env_state" where
  "env_step s FetchBegin = fetchEnvironments_begin s"
| "env_step s (FetchDone reply) = fetchEnvironments_done reply s"
| "env_step s (VariablesSet i vs) = set_env_variables i vs s"
| "env_step s (GlobalsSet vs) = set_global_variables vs s"
| "env_step s (Failed e) = set_error e s"
| "env_step s (Created e) = push_environment e s"
| "env_step s (Activated i) = set_active i s"
| "env_step s (Deleted i) = drop_environment i s"

text \<open>What the backend answers: a listing has distinct, non-empty ids and at most one active
  environment; a created environment is inactive and its id is new.\<close>

fun env_ok :: "env_state \<Rightarrow> env_event \<Rightarrow> bool" where
  "env_ok s (FetchDone (Inr es)) =
     (distinct (map env_id es) \<and> (\<forall>e \<in> set es. truthy (env_id e))
      \<and> length (filter (\<lambda>e. env_isActive e = 1) es) \<le> 1)"
| "env_ok s (Created e) =
     (env_isActive e = 0 \<and> env_id e \<notin> env_id ` set (es_environments s)
      \<and> es_activeEnvId s \<noteq> Some (env_id e))"
| "env_ok s _ = True"

definition env_inv :: "env_state \<Rightarrow> bool" where
  "env_inv s \<longleftrightarrow> distinct (map env_id (es_environments s)) \<and> wf_dict (es_variables s)
     \<and> (\<forall>e \<in> set (es_environments s). env_isActive e = 1 \<longleftrightarrow> es_activeEnvId s = Some (env_id e))"

lemma find_only_active:
  assumes "distinct (map env_id es)" and "length (filter (\<lambda>e. env_isActive e = 1) es) \<le> 1"
    and "e \<in> set es" and "\<forall>e \<in> set es. truthy (env_id e)"
  shows "env_isActive e = 1 \<longleftrightarrow>
    id_or_null (List.find (\<lambda>e. env_isActive e = 1) es) = Some (env_id e)"
  using assms
proof (induction es)
  case (Cons x es)
  show ?case
  proof (cases "env_isActive x = 1")
    case True
    with Cons.prems have "\<forall>y \<in> set es. env_isActive y \<noteq> 1" by (auto simp: filter_empty_conv)
    with True Cons.prems show ?thesis by (auto simp: id_or_null_def image_iff)
  next
    case False
    show ?thesis
    proof (cases "e = x")
      case True
      have "List.find (\<lambda>e. env_isActive e = 1) es = Some y \<Longrightarrow> env_id y \<noteq> env_id x" for y
        using Cons.prems(1) find_SomeD[of "\<lambda>e. env_isActive e = 1" es y] by (auto intro: rev_image_eqI)
      with True False show ?thesis
        by (auto simp: id_or_null_def split: option.splits)
    next
      case False
      with Cons \<open>env_isActive x \<noteq> 1\<close> show ?thesis by simp
    qed
  qed
qed simp

lemma env_inv_step:
  assumes "env_inv s" and "env_ok s e"
  shows "env_inv (env_step s e)"
proof (cases e)
  case (FetchDone reply)
  then show ?thesis using assms find_only_active
    by (cases reply) (auto simp: env_inv_def fetchEnvironments_done_def)
next
  case (Deleted i)
  then show ?thesis using assms by (auto simp: env_inv_def drop_environment_def distinct_map_filter)
next
  case (Activated i)
  then show ?thesis using assms by (auto simp: env_inv_def set_active_def comp_def)
qed (use assms in \<open>auto simp: env_inv_def env_segments\<close>)

interpretation envs: action_store env_init env_step env_ok env_inv
  by unfold_locales (simp add: env_inv_def env_init_def, rule env_inv_step)

lemma env_active_unique:
  assumes "env_inv s" and "e \<in> set (es_environments s)" and "e' \<in> set (es_environments s)"
    and "env_isActive e = 1" and "env_isActive e' = 1"
  shows "e = e'"
  using assms by (auto simp: env_inv_def intro: distinct_key_eq)


section \<open>Resolved variables\<close>

text \<open>Writing the enabled entries of a list one after the other: the last one of a key wins.\<close>

lemma foldl_if_filter:
  "foldl (\<lambda>acc x. if P x then AList.update (key x) (val x) acc else acc) d xs
    = assign_entries d (map (\<lambda>x. (key x, val x)) (filter P xs))"
  by (induction xs arbitrary: d) auto

lemma getResolvedVariables_lookup:
  "map_of (getResolvedVariables s) k =
     (case es_activeEnvId s of
        Some envId \<Rightarrow>
          (case map_of (rev (map (\<lambda>x. (ev_key x, ev_value x))
                   (filter (\<lambda>x. ev_enabled x \<noteq> 0)
                     (if truthy envId then get_list (es_variables s) envId else [])))) k of
             Some v \<Rightarrow> Some v
           | None \<Rightarrow> map_of (rev (map (\<lambda>x. (gv_key x, gv_value x))
                       (filter (\<lambda>x. gv_enabled x \<noteq> 0) (es_globalVariables s)))) k)
      | None \<Rightarrow> map_of (rev (map (\<lambda>x. (gv_key x, gv_value x))
                       (filter (\<lambda>x. gv_enabled x \<noteq> 0) (es_globalVariables s)))) k)"
  unfolding getResolvedVariables_def foldl_if_filter Let_def
  by (auto simp: map_of_assign_entries split: option.splits)


section \<open>Properties\<close>

text \<open>In every interleaving of the handlers of the environment store, as long as the backend
  lists at most one active environment and creates inactive ones under new ids, the environments
  have distinct ids and an environment carries the active flag exactly when it is the active one;
  in particular at most one does.\<close>

theorem env_active_flag:
  assumes "admissible env_step env_ok env_init events"
    and "s = run env_step env_init events"
  shows "distinct (map env_id (es_environments s))
    \<and> (\<forall>e \<in> set (es_environments s). env_isActive e = 1 \<longleftrightarrow> es_activeEnvId s = Some (env_id e))
    \<and> (\<forall>e \<in> set (es_environments s). \<forall>e' \<in> set (es_environments s).
         env_isActive e = 1 \<longrightarrow> env_isActive e' = 1 \<longrightarrow> e = e')"
  using envs.inv_run[OF assms(1)] env_active_unique assms(2) unfolding env_inv_def by blast

definition sample_environment :: "string \<Rightarrow> Environment" where
  "sample_environment i = newEnvironment i ''t'' ''n'' env_init"

theorem env_active_flag_witness:
  "let s = run env_step env_init [Created (sample_environment ''a''), Created (sample_environment ''b''),
      Activated (Some ''a''), Deleted ''b'']
   in es_activeEnvId s = Some ''a'' \<and> (\<forall>e \<in> set (es_environments s). env_isActive e = 1 \<longleftrightarrow> es_activeEnvId s = Some (env_id e))"
proof -
  have "admissible env_step env_ok env_init [Created (sample_environment ''a''), Created (sample_environment ''b''),
      Activated (Some ''a''), Deleted ''b'']"
    by (simp add: env_segments env_init_def sample_environment_def newEnvironment_def)
  moreover have "es_activeEnvId (run env_step env_init [Created (sample_environment ''a''),
      Created (sample_environment ''b''), Activated (Some ''a''), Deleted ''b'']) = Some ''a''"
    by (simp add: env_segments env_init_def)
  ultimately show ?thesis using env_active_flag[OF _ refl] unfolding Let_def by blast
qed

text \<open>The resolved variables of the active environment override the globals: a key has the value
  of the last enabled variable of that name in the active environment, or else of the last enabled
  global of that name.\<close>

theorem resolved_variables_precedence:
  "map_of (getResolvedVariables s) k =
     (let env = filter (\<lambda>x. ev_enabled x \<noteq> 0 \<and> ev_key x = k)
            (case es_activeEnvId s of Some i \<Rightarrow> if truthy i then get_list (es_variables s) i else [] | None \<Rightarrow> []);
          glob = filter (\<lambda>x. gv_enabled x \<noteq> 0 \<and> gv_key x = k) (es_globalVariables s)
      in if env \<noteq> [] then Some (ev_value (last env))
         else if glob \<noteq> [] then Some (gv_value (last glob)) else None)"
proof -
  have last: "map_of (rev (map (\<lambda>x. (key x, val x)) (filter P xs))) k
    = (let ys = filter (\<lambda>x. P x \<and> key x = k) xs in if ys \<noteq> [] then Some (val (last ys)) else None)"
    for key :: "'x \<Rightarrow> string" and val :: "'x \<Rightarrow> string" and P and xs
    by (induction xs rule: rev_induct) (auto simp: Let_def)
  show ?thesis unfolding getResolvedVariables_lookup last
    by (auto simp: Let_def split: option.splits if_splits)
qed

end
