(* ===== verification/RequestVariables.thy ===== *)
theory RequestVariables
  imports CollectionStore EnvStore AppStore
begin

text \<open>
  Scoped variables (\<open>src/src/lib/requestVariables.ts\<close>): the four scopes a request sees
  (environment, folder chain, collection, globals) and the dynamic variables, the two ways of
  looking a variable up (a snapshot of all scopes, and a search through the stores), the recursive
  resolution of templates, and saving variables back. This theory holds the definitions and the
  termination arguments; \<open>VariableProps\<close> has the theorems.

  The stores are arguments. The value of a dynamic variable may differ at every evaluation; it is
  given by a function \<open>dyn\<close> of the place of the evaluation, a path of positions in the texts being
  resolved, and the variable.
\<close>

section \<open>Scopes\<close>

datatype VariableSource = SrcCollection | SrcFolder | SrcEnvironment | SrcGlobal | SrcDynamic | SrcMissing

record VariablePreview =
  vp_key :: string
  vp_rawValue :: string
  vp_value :: string
  vp_source :: VariableSource
  vp_enabled :: bool
  vp_isSecret :: bool
  vp_editable :: bool

record ScopedVariableMaps =
  sm_globalVars :: "string dict option"
  sm_collectionVars :: "string dict option"
  sm_folderVars :: "string dict option"
  sm_envVars :: "string dict option"

text \<open>The names of the dynamic variables, in the order of the object that holds their resolvers.\<close>

definition dynamic_names :: "string list" where
  "dynamic_names = [''$timestamp'', ''$isoTimestamp'', ''$randomInt'', ''$randomInt1000'', ''$guid'',
     ''$randomUUID'', ''$randomEmail'', ''$randomColor'']"

definition findCollection :: "coll_state \<Rightarrow> string option \<Rightarrow> Collection option" where
  "findCollection cs collectionId =
     (if \<not> truthy_opt collectionId then None
      else List.find (\<lambda>c. Some (col_id c) = collectionId) (cs_collections cs))"

definition findCollectionItem :: "coll_state \<Rightarrow> string option \<Rightarrow> string option \<Rightarrow> CollectionItem option" where
  "findCollectionItem cs collectionId itemId =
     (if \<not> truthy_opt collectionId \<or> \<not> truthy_opt itemId then None
      else List.find (\<lambda>x. Some (it_id x) = itemId) (items_of cs (the collectionId)))"

definition getCollectionVariableEntries :: "coll_state \<Rightarrow> string option \<Rightarrow> CollectionVariableEntry list" where
  "getCollectionVariableEntries cs collectionId =
     parseCollectionVariableEntries (map_option col_variables (findCollection cs collectionId))"

text \<open>The entries that count: enabled, with a key that is not blank; as pairs of key and value.\<close>

definition usable_entries :: "CollectionVariableEntry list \<Rightarrow> (string \<times> string) list" where
  "usable_entries es = map (\<lambda>e. (js_trim (cv_key e), cv_value e))
     (filter (\<lambda>e. cv_enabled e \<and> truthy (js_trim (cv_key e))) es)"

definition getCollectionVariableMap :: "coll_state \<Rightarrow> string option \<Rightarrow> string dict" where
  "getCollectionVariableMap cs collectionId =
     fromEntries (usable_entries (getCollectionVariableEntries cs collectionId))"

definition getCollectionItemVariableEntries ::
  "coll_state \<Rightarrow> string option \<Rightarrow> string option \<Rightarrow> CollectionVariableEntry list" where
  "getCollectionItemVariableEntries cs collectionId itemId =
     parseCollectionVariableEntries (map_option it_variables (findCollectionItem cs collectionId itemId))"

text \<open>The loop of \<open>getFolderAncestorItems\<close>, nearest ancestor first. It ends because an id is visited
  once.\<close>

function folder_walk ::
  "(string \<times> CollectionItem) list \<Rightarrow> string option \<Rightarrow> string list \<Rightarrow> CollectionItem list" where
  "folder_walk itemMap parentId visited =
     (case parentId of
        None \<Rightarrow> []
      | Some p \<Rightarrow>
          if p = [] \<or> p \<in> set visited then []
          else (case map_of itemMap p of
              None \<Rightarrow> []
            | Some parent \<Rightarrow>
                (if it_itemType parent = ItemFolder then [parent] else [])
                @ folder_walk itemMap (it_parentId parent) (p # visited)))"
  by pat_completeness auto
termination
proof (relation "measure (\<lambda>(m, q, visited). card (fst ` set m - set visited))", goal_cases)
  case (2 m q visited p parent)
  then have "p \<in> fst ` set m" "p \<notin> set visited" by (auto dest: map_of_SomeD intro: rev_image_eqI)
  then show ?case by (simp add: card_visit del: card_Diff_insert)
qed simp

declare folder_walk.simps [simp del]

definition getFolderAncestorItems :: "coll_state \<Rightarrow> string option \<Rightarrow> string option \<Rightarrow> CollectionItem list" where
  "getFolderAncestorItems cs collectionId itemId =
     (if \<not> truthy_opt collectionId \<or> \<not> truthy_opt itemId then []
      else
        let itemMap = fromEntries (map (\<lambda>x. (it_id x, x)) (items_of cs (the collectionId)))
        in case map_of itemMap (the itemId) of
             None \<Rightarrow> []
           | Some currentItem \<Rightarrow> rev (folder_walk itemMap (it_parentId currentItem) []))"

definition getFolderVariableMap :: "coll_state \<Rightarrow> string option \<Rightarrow> string option \<Rightarrow> string dict" where
  "getFolderVariableMap cs collectionId itemId =
     foldl (\<lambda>acc folder. assign_entries acc
         (usable_entries (getCollectionItemVariableEntries cs collectionId (Some (it_id folder)))))
       [] (getFolderAncestorItems cs collectionId itemId)"

definition getImmediateParentFolderItem ::
  "coll_state \<Rightarrow> string option \<Rightarrow> string option \<Rightarrow> CollectionItem option" where
  "getImmediateParentFolderItem cs collectionId itemId =
     (case findCollectionItem cs collectionId itemId of
        None \<Rightarrow> None
      | Some currentItem \<Rightarrow>
          if \<not> truthy_opt (it_parentId currentItem) then None
          else (case findCollectionItem cs collectionId (it_parentId currentItem) of
              None \<Rightarrow> None
            | Some parentItem \<Rightarrow> if it_itemType parentItem \<noteq> ItemFolder then None else Some parentItem))"

definition usable_globals :: "GlobalVariable list \<Rightarrow> (string \<times> string) list" where
  "usable_globals vs = map (\<lambda>v. (js_trim (gv_key v), gv_value v))
     (filter (\<lambda>v. gv_enabled v = 1 \<and> truthy (js_trim (gv_key v))) vs)"

definition getGlobalVariableMap :: "env_state \<Rightarrow> string dict" where
  "getGlobalVariableMap es = fromEntries (usable_globals (es_globalVariables es))"

definition usable_env :: "EnvVariable list \<Rightarrow> (string \<times> string) list" where
  "usable_env vs = map (\<lambda>v. (js_trim (ev_key v), ev_value v))
     (filter (\<lambda>v. ev_enabled v = 1 \<and> truthy (js_trim (ev_key v))) vs)"

text \<open>The variables of the active environment, none when no environment is active.\<close>

definition active_env_variables :: "env_state \<Rightarrow> EnvVariable list" where
  "active_env_variables es =
     (if \<not> truthy_opt (es_activeEnvId es) then [] else get_list (es_variables es) (the (es_activeEnvId es)))"

definition getActiveEnvironmentVariableMap :: "env_state \<Rightarrow> string dict" where
  "getActiveEnvironmentVariableMap es = fromEntries (usable_env (active_env_variables es))"

text \<open>\<open>tab.httpConfig === config\<close> compares object identities: \<open>owner\<close> is the id of the tab that holds
  the very object, if one does.\<close>

definition linked_for_config ::
  "(AppTab \<Rightarrow> string option) \<Rightarrow> AppTab list \<Rightarrow> string option \<Rightarrow> HttpRequestConfig \<Rightarrow> string option" where
  "linked_for_config field tabs owner config =
     (let exactMatch = List.find (\<lambda>t. Some (tab_id t) = owner) tabs;
          exactLink = Option.bind exactMatch field
      in if truthy_opt exactLink then exactLink
         else Option.bind (List.find (\<lambda>t. map_option rq_id (tab_httpConfig t) = Some (rq_id config)) tabs) field)"

definition getLinkedCollectionIdForRequestConfig ::
  "AppTab list \<Rightarrow> string option \<Rightarrow> HttpRequestConfig \<Rightarrow> string option" where
  "getLinkedCollectionIdForRequestConfig = linked_for_config tab_linkedCollectionId"

definition getLinkedCollectionItemIdForRequestConfig ::
  "AppTab list \<Rightarrow> string option \<Rightarrow> HttpRequestConfig \<Rightarrow> string option" where
  "getLinkedCollectionItemIdForRequestConfig = linked_for_config tab_linkedCollectionItemId"

text \<open>\<open>dyn0\<close> gives the values of the dynamic variables at the moment the snapshot is taken.\<close>

definition buildScopedVariableSnapshotFromMaps ::
  "(string \<Rightarrow> string) \<Rightarrow> ScopedVariableMaps \<Rightarrow> bool \<Rightarrow> string dict" where
  "buildScopedVariableSnapshotFromMaps dyn0 maps includeDynamic =
     (let scoped = spread (spread (spread (spread [] (nullish (sm_globalVars maps) []))
                     (nullish (sm_collectionVars maps) [])) (nullish (sm_folderVars maps) []))
                     (nullish (sm_envVars maps) [])
      in if \<not> includeDynamic then scoped
         else spread scoped (fromEntries (map (\<lambda>k. (k, dyn0 k)) dynamic_names)))"

definition buildScopedVariableSnapshot ::
  "(string \<Rightarrow> string) \<Rightarrow> coll_state \<Rightarrow> env_state \<Rightarrow> string option \<Rightarrow> string option \<Rightarrow> bool \<Rightarrow> string dict" where
  "buildScopedVariableSnapshot dyn0 cs es collectionId itemId includeDynamic =
     buildScopedVariableSnapshotFromMaps dyn0 \<lparr>
       sm_globalVars = Some (getGlobalVariableMap es),
       sm_collectionVars = Some (getCollectionVariableMap cs collectionId),
       sm_folderVars = Some (getFolderVariableMap cs collectionId itemId),
       sm_envVars = Some (getActiveEnvironmentVariableMap es) \<rparr> includeDynamic"


section \<open>Looking a variable up\<close>

record VariableLookupResult =
  lk_source :: VariableSource
  lk_rawValue :: string
  lk_isSecret :: bool
  lk_enabled :: bool

definition find_entry :: "string \<Rightarrow> CollectionVariableEntry list \<Rightarrow> CollectionVariableEntry option" where
  "find_entry key es = List.find (\<lambda>e. cv_enabled e \<and> js_trim (cv_key e) = key) es"

text \<open>The loop over the folders, nearest first.\<close>

fun find_in_folders ::
  "coll_state \<Rightarrow> string option \<Rightarrow> string \<Rightarrow> CollectionItem list \<Rightarrow> CollectionVariableEntry option" where
  "find_in_folders cs collectionId key [] = None"
| "find_in_folders cs collectionId key (folder # folders) =
     (case find_entry key (getCollectionItemVariableEntries cs collectionId (Some (it_id folder))) of
        Some e \<Rightarrow> Some e
      | None \<Rightarrow> find_in_folders cs collectionId key folders)"

definition lookupVariable ::
  "(string \<Rightarrow> string) \<Rightarrow> coll_state \<Rightarrow> env_state \<Rightarrow> string \<Rightarrow> string option \<Rightarrow> string option
    \<Rightarrow> VariableLookupResult" where
  "lookupVariable dyn0 cs es key collectionId itemId =
     (case List.find (\<lambda>v. ev_enabled v = 1 \<and> js_trim (ev_key v) = key) (active_env_variables es) of
        Some v \<Rightarrow> \<lparr> lk_source = SrcEnvironment, lk_rawValue = ev_value v,
                    lk_isSecret = (ev_isSecret v = 1), lk_enabled = True \<rparr>
      | None \<Rightarrow>
     (case find_in_folders cs collectionId key (rev (getFolderAncestorItems cs collectionId itemId)) of
        Some e \<Rightarrow> \<lparr> lk_source = SrcFolder, lk_rawValue = cv_value e,
                    lk_isSecret = (cv_isSecret e = Some True), lk_enabled = True \<rparr>
      | None \<Rightarrow>
     (case find_entry key (getCollectionVariableEntries cs collectionId) of
        Some e \<Rightarrow> \<lparr> lk_source = SrcCollection, lk_rawValue = cv_value e,
                    lk_isSecret = (cv_isSecret e = Some True), lk_enabled = True \<rparr>
      | None \<Rightarrow>
     (case List.find (\<lambda>v. gv_enabled v = 1 \<and> js_trim (gv_key v) = key) (es_globalVariables es) of
        Some v \<Rightarrow> \<lparr> lk_source = SrcGlobal, lk_rawValue = gv_value v,
                    lk_isSecret = False, lk_enabled = True \<rparr>
      | None \<Rightarrow>
          if key \<in> set dynamic_names
          then \<lparr> lk_source = SrcDynamic, lk_rawValue = dyn0 key, lk_isSecret = False, lk_enabled = True \<rparr>
          else \<lparr> lk_source = SrcMissing, lk_rawValue = [], lk_isSecret = False, lk_enabled = False \<rparr>))))"


section \<open>Resolution\<close>

text \<open>\<open>resolved ?? match\<close> for the reference \<open>nestedKey\<close>, where a blank key is left alone.\<close>

definition subst_ref :: "(string \<Rightarrow> string option) \<Rightarrow> string \<Rightarrow> string \<Rightarrow> string" where
  "subst_ref resolve match nestedKey =
     (let nested = js_trim nestedKey
      in if nested = [] then match else nullish (resolve nested) match)"

function resolveVariableValueFromSnapshot :: "string \<Rightarrow> string dict \<Rightarrow> string list \<Rightarrow> string option" where
  "resolveVariableValueFromSnapshot key snapshot visited =
     (if key \<in> set visited then None
      else (case map_of snapshot key of
          None \<Rightarrow> None
        | Some current \<Rightarrow>
            Some (replace_pattern
              (\<lambda>match nestedKey.
                 let nested = js_trim nestedKey
                 in if nested = [] then match
                    else nullish (resolveVariableValueFromSnapshot nested snapshot (key # visited)) match)
              current)))"
  by pat_completeness auto
termination
proof (relation "measure (\<lambda>(key, snapshot, visited). card (fst ` set snapshot - set visited))", goal_cases)
  case (2 key snapshot visited current match nestedKey nested)
  then have "key \<in> fst ` set snapshot" "key \<notin> set visited"
    by (auto dest: map_of_SomeD intro: rev_image_eqI)
  then show ?case by (simp add: card_visit del: card_Diff_insert)
qed simp

declare resolveVariableValueFromSnapshot.simps [simp del]

text \<open>The keys that some scope of the stores may define: only these are expanded further.\<close>

definition user_keys :: "coll_state \<Rightarrow> env_state \<Rightarrow> string option \<Rightarrow> string option \<Rightarrow> string list" where
  "user_keys cs es collectionId itemId =
     map (\<lambda>v. js_trim (ev_key v)) (active_env_variables es)
     @ concat (map (\<lambda>folder. map (\<lambda>e. js_trim (cv_key e))
           (getCollectionItemVariableEntries cs collectionId (Some (it_id folder))))
         (getFolderAncestorItems cs collectionId itemId))
     @ map (\<lambda>e. js_trim (cv_key e)) (getCollectionVariableEntries cs collectionId)
     @ map (\<lambda>v. js_trim (gv_key v)) (es_globalVariables es)"

lemma find_entry_key: "find_entry key es = Some e \<Longrightarrow> key \<in> (\<lambda>e. js_trim (cv_key e)) ` set es"
  by (auto simp: find_entry_def dest: find_SomeD)

lemma find_in_folders_key:
  "find_in_folders cs cid key fs = Some e \<Longrightarrow>
    \<exists>f \<in> set fs. key \<in> (\<lambda>e. js_trim (cv_key e)) ` set (getCollectionItemVariableEntries cs cid (Some (it_id f)))"
  by (induction fs) (auto split: option.splits dest: find_entry_key)

lemma lookupVariable_user_key:
  assumes "lk_source (lookupVariable dyn0 cs es key cid iid) \<noteq> SrcMissing"
    and "lk_source (lookupVariable dyn0 cs es key cid iid) \<noteq> SrcDynamic"
  shows "key \<in> set (user_keys cs es cid iid)"
proof -
  consider (env) v where "List.find (\<lambda>v. ev_enabled v = 1 \<and> js_trim (ev_key v) = key) (active_env_variables es) = Some v"
    | (folder) e where "find_in_folders cs cid key (rev (getFolderAncestorItems cs cid iid)) = Some e"
    | (coll) e where "find_entry key (getCollectionVariableEntries cs cid) = Some e"
    | (global) v where "List.find (\<lambda>v. gv_enabled v = 1 \<and> js_trim (gv_key v) = key) (es_globalVariables es) = Some v"
    using assms by (auto simp: lookupVariable_def split: option.splits if_splits)
  then show ?thesis
  proof cases
    case env then show ?thesis by (auto simp: user_keys_def dest!: find_SomeD)
  next
    case folder then show ?thesis using find_in_folders_key[OF folder] by (auto simp: user_keys_def)
  next
    case coll then show ?thesis using find_entry_key[OF coll] by (auto simp: user_keys_def)
  next
    case global then show ?thesis by (auto simp: user_keys_def dest!: find_SomeD)
  qed
qed

text \<open>\<open>text.replace(VARIABLE_PATTERN, f)\<close> where \<open>f\<close> also gets the position of the reference.\<close>

definition replace_pattern_at :: "(nat \<Rightarrow> string \<Rightarrow> string \<Rightarrow> string) \<Rightarrow> string \<Rightarrow> string" where
  "replace_pattern_at f s = concat (map (\<lambda>(i, seg). seg_subst (f i) seg) (enumerate 0 (segments s)))"

lemma replace_pattern_at_cong [fundef_cong]:
  assumes "s = s'" and "\<And>i m k. Ref m k \<in> set (segments s') \<Longrightarrow> f i m k = g i m k"
  shows "replace_pattern_at f s = replace_pattern_at g s'"
proof -
  have "seg_subst (f i) x = seg_subst (g i) x" if "(i, x) \<in> set (enumerate 0 (segments s'))" for i x
  proof -
    have "x \<in> set (segments s')" using that by (auto simp: in_set_enumerate_eq)
    with assms(2) show ?thesis by - (cases x, auto)
  qed
  then have "map (\<lambda>(i, seg). seg_subst (f i) seg) (enumerate 0 (segments s'))
      = map (\<lambda>(i, seg). seg_subst (g i) seg) (enumerate 0 (segments s'))"
    by (intro map_cong) auto
  then show ?thesis unfolding replace_pattern_at_def assms(1) by (rule arg_cong)
qed

function resolveVariableValue ::
  "(nat list \<Rightarrow> string \<Rightarrow> string) \<Rightarrow> coll_state \<Rightarrow> env_state \<Rightarrow> nat list \<Rightarrow> string \<Rightarrow> string option
    \<Rightarrow> string option \<Rightarrow> string list \<Rightarrow> string option" where
  "resolveVariableValue dyn cs es path key collectionId itemId visited =
     (if key \<in> set visited then None
      else
        let lookup = lookupVariable (dyn path) cs es key collectionId itemId
        in if lk_source lookup = SrcMissing then None
           else if lk_source lookup = SrcDynamic then Some (lk_rawValue lookup)
           else Some (replace_pattern_at
             (\<lambda>i match nestedKey.
                let nested = js_trim nestedKey
                in if nested = [] then match
                   else nullish (resolveVariableValue dyn cs es (path @ [i]) nested collectionId itemId
                          (key # visited)) match)
             (lk_rawValue lookup)))"
  by pat_completeness auto
termination
proof (relation "measure (\<lambda>(dyn, cs, es, path, key, cid, iid, visited).
    card (set (user_keys cs es cid iid) - set visited))", goal_cases)
  case (2 dyn cs es path key cid iid visited lookup i match nestedKey nested)
  then have "key \<in> set (user_keys cs es cid iid)" "key \<notin> set visited"
    using lookupVariable_user_key by blast+
  then show ?case by (simp add: card_visit del: card_Diff_insert)
qed simp

declare resolveVariableValue.simps [simp del]

definition resolveVariableTemplate ::
  "(nat list \<Rightarrow> string \<Rightarrow> string) \<Rightarrow> coll_state \<Rightarrow> env_state \<Rightarrow> nat list \<Rightarrow> string \<Rightarrow> string option
    \<Rightarrow> string option \<Rightarrow> string dict option \<Rightarrow> string" where
  "resolveVariableTemplate dyn cs es path input collectionId itemId scopeSnapshot =
     replace_pattern_at
       (\<lambda>i match key. subst_ref
          (\<lambda>normalizedKey. case scopeSnapshot of
              Some snapshot \<Rightarrow> resolveVariableValueFromSnapshot normalizedKey snapshot []
            | None \<Rightarrow> resolveVariableValue dyn cs es (path @ [i]) normalizedKey collectionId itemId [])
          match key)
       input"

definition getVariablePreview ::
  "(nat list \<Rightarrow> string \<Rightarrow> string) \<Rightarrow> coll_state \<Rightarrow> env_state \<Rightarrow> string \<Rightarrow> string option \<Rightarrow> string option
    \<Rightarrow> VariablePreview" where
  "getVariablePreview dyn cs es key collectionId itemId =
     (let lookup = lookupVariable (dyn [0]) cs es key collectionId itemId;
          value = (if lk_source lookup = SrcMissing then []
                   else nullish (resolveVariableValue dyn cs es [1] key collectionId itemId []) (lk_rawValue lookup))
      in \<lparr> vp_key = key, vp_rawValue = lk_rawValue lookup, vp_value = value, vp_source = lk_source lookup,
           vp_enabled = lk_enabled lookup, vp_isSecret = lk_isSecret lookup,
           vp_editable = (truthy_opt collectionId \<and> lk_source lookup \<noteq> SrcDynamic) \<rparr>)"


text \<open>The fields of a request are resolved one after the other; each has its own path.\<close>

definition resolve_kv ::
  "(nat list \<Rightarrow> string \<Rightarrow> string) \<Rightarrow> nat list \<Rightarrow> KeyValue list \<Rightarrow> KeyValue list" where
  "resolve_kv resolve path kvs =
     map (\<lambda>(i, kv). kv\<lparr>kv_key := resolve (path @ [i, 0]) (kv_key kv), kv_value := resolve (path @ [i, 1]) (kv_value kv)\<rparr>)
       (enumerate 0 kvs)"

definition resolve_form_data ::
  "(nat list \<Rightarrow> string \<Rightarrow> string) \<Rightarrow> nat list \<Rightarrow> FormDataField list \<Rightarrow> FormDataField list" where
  "resolve_form_data resolve path formData =
     map (\<lambda>(i, f). f\<lparr>fd_key := resolve (path @ [i, 0]) (fd_key f),
          fd_value := (if fd_fieldType f = FieldText then resolve (path @ [i, 1]) (fd_value f) else fd_value f),
          fd_filePaths := fd_filePaths f,
          fd_fileNames := fd_fileNames f\<rparr>)
       (enumerate 0 formData)"

definition resolve_config :: "(nat list \<Rightarrow> string \<Rightarrow> string) \<Rightarrow> HttpRequestConfig \<Rightarrow> HttpRequestConfig" where
  "resolve_config resolve config = config\<lparr>
     rq_url := resolve [0] (rq_url config),
     rq_rawBody := resolve [1] (rq_rawBody config),
     rq_jsonBody := resolve [2] (rq_jsonBody config),
     rq_graphqlQuery := resolve [3] (rq_graphqlQuery config),
     rq_graphqlVariables := resolve [4] (rq_graphqlVariables config),
     rq_bearerToken := resolve [5] (rq_bearerToken config),
     rq_basicUsername := resolve [6] (rq_basicUsername config),
     rq_basicPassword := resolve [7] (rq_basicPassword config),
     rq_apiKeyName := resolve [8] (rq_apiKeyName config),
     rq_apiKeyValue := resolve [9] (rq_apiKeyValue config),
     rq_oauth2Config := (rq_oauth2Config config)\<lparr>
       oa_accessToken := resolve [10] (oa_accessToken (rq_oauth2Config config))\<rparr>,
     rq_headers := resolve_kv resolve [11] (rq_headers config),
     rq_queryParams := resolve_kv resolve [12] (rq_queryParams config),
     rq_formFields := resolve_kv resolve [13] (rq_formFields config),
     rq_formDataFields := resolve_form_data resolve [14] (rq_formDataFields config)\<rparr>"

definition resolveRequestConfigVariables ::
  "(nat list \<Rightarrow> string \<Rightarrow> string) \<Rightarrow> coll_state \<Rightarrow> env_state \<Rightarrow> HttpRequestConfig \<Rightarrow> string option
    \<Rightarrow> string option \<Rightarrow> string dict option \<Rightarrow> HttpRequestConfig" where
  "resolveRequestConfigVariables dyn cs es config collectionId itemId scopeSnapshot =
     resolve_config (\<lambda>path text. resolveVariableTemplate dyn cs es path text collectionId itemId scopeSnapshot) config"


section \<open>Saving variables\<close>

text \<open>The entries as they are stored: trimmed keys, blank ones dropped.\<close>

definition normalize_entries :: "CollectionVariableEntry list \<Rightarrow> CollectionVariableEntry list" where
  "normalize_entries entries =
     filter (\<lambda>e. truthy (cv_key e))
       (map (\<lambda>e. \<lparr> cv_key = js_trim (cv_key e), cv_value = cv_value e, cv_enabled = cv_enabled e,
                   cv_isSecret = Some (cv_isSecret e = Some True) \<rparr>) entries)"

definition saveCollectionVariables ::
  "(coll_state \<Rightarrow> coll_state) \<Rightarrow> unit reply \<Rightarrow> string \<Rightarrow> string \<Rightarrow> CollectionVariableEntry list \<Rightarrow> coll_state
    \<Rightarrow> (coll_state, unit) outcome" where
  "saveCollectionVariables w reply now collectionId entries cs =
     (case findCollection cs (Some collectionId) of
        None \<Rightarrow> (Inr (), cs)
      | Some collection \<Rightarrow>
          let updated = collection\<lparr>
                col_variables := serializeCollectionVariableEntries (normalize_entries entries),
                col_updatedAt := now\<rparr>;
              cs' = w cs
          in (case reply of Inl e \<Rightarrow> (Inl e, cs') | Inr _ \<Rightarrow> (Inr (), put_collection collectionId updated cs')))"

definition saveCollectionItemVariables ::
  "(coll_state \<Rightarrow> coll_state) \<Rightarrow> unit reply \<Rightarrow> string \<Rightarrow> string \<Rightarrow> string \<Rightarrow> CollectionVariableEntry list
    \<Rightarrow> coll_state \<Rightarrow> (coll_state, unit) outcome" where
  "saveCollectionItemVariables w reply now collectionId itemId entries cs =
     (case findCollectionItem cs (Some collectionId) (Some itemId) of
        None \<Rightarrow> (Inr (), cs)
      | Some item \<Rightarrow>
          let updated = item\<lparr>
                it_variables := serializeCollectionVariableEntries (normalize_entries entries),
                it_updatedAt := now\<rparr>;
              cs' = w cs
          in (case reply of Inl e \<Rightarrow> (Inl e, cs') | Inr _ \<Rightarrow> (Inr (), put_item collectionId itemId updated cs')))"

text \<open>Writing one entry: the element that replaces the first one of the key, and the one pushed.\<close>

definition entry_upd :: "string \<Rightarrow> string \<Rightarrow> CollectionVariableEntry \<Rightarrow> CollectionVariableEntry" where
  "entry_upd k v e = e\<lparr>cv_key := k, cv_value := v, cv_enabled := True\<rparr>"

definition entry_new :: "string \<Rightarrow> string \<Rightarrow> CollectionVariableEntry" where
  "entry_new k v = \<lparr> cv_key = k, cv_value = v, cv_enabled = True, cv_isSecret = Some False \<rparr>"

definition put_entry :: "string \<Rightarrow> string \<Rightarrow> CollectionVariableEntry list \<Rightarrow> CollectionVariableEntry list" where
  "put_entry k v es = replace_or_push (\<lambda>e. js_trim (cv_key e) = k) (entry_upd k v) (entry_new k v) es"

definition upsertCollectionVariable ::
  "(coll_state \<Rightarrow> coll_state) \<Rightarrow> unit reply \<Rightarrow> string \<Rightarrow> string \<Rightarrow> string \<Rightarrow> string \<Rightarrow> coll_state
    \<Rightarrow> (coll_state, unit) outcome" where
  "upsertCollectionVariable w reply now collectionId key value cs =
     saveCollectionVariables w reply now collectionId
       (put_entry (js_trim key) value (getCollectionVariableEntries cs (Some collectionId))) cs"

fun mergeCollectionVariableEntries ::
  "CollectionVariableEntry list \<Rightarrow> string dict \<Rightarrow> CollectionVariableEntry list" where
  "mergeCollectionVariableEntries es [] = es"
| "mergeCollectionVariableEntries es ((key, value) # updates) =
     mergeCollectionVariableEntries
       (if js_trim key = [] then es else put_entry (js_trim key) value es) updates"

definition env_upd :: "string \<Rightarrow> string \<Rightarrow> EnvVariable \<Rightarrow> EnvVariable" where
  "env_upd k v e = e\<lparr>ev_key := k, ev_value := v, ev_enabled := 1\<rparr>"

definition env_new :: "string \<Rightarrow> string \<Rightarrow> int \<Rightarrow> string \<Rightarrow> string \<Rightarrow> EnvVariable" where
  "env_new uuid envId sortOrder k v = \<lparr> ev_id = uuid, ev_environmentId = envId, ev_key = k, ev_value = v,
     ev_enabled = 1, ev_isSecret = 0, ev_sortOrder = sortOrder \<rparr>"

text \<open>The loop over the updates: \<open>n\<close> counts the entries pushed so far, for the UUIDs and the sort
  orders they get.\<close>

fun merge_env ::
  "(nat \<Rightarrow> string) \<Rightarrow> string \<Rightarrow> int \<Rightarrow> nat \<Rightarrow> EnvVariable list \<Rightarrow> string dict \<Rightarrow> EnvVariable list" where
  "merge_env uuid envId base n es [] = es"
| "merge_env uuid envId base n es ((key, value) # updates) =
     (let k = js_trim key
      in if k = [] then merge_env uuid envId base n es updates
         else (case findIndex (\<lambda>e. js_trim (ev_key e) = k) es of
             Some i \<Rightarrow> merge_env uuid envId base n (es[i := env_upd k value (es ! i)]) updates
           | None \<Rightarrow> merge_env uuid envId base (Suc n)
               (es @ [env_new (uuid n) envId (base + int n) k value]) updates))"

definition mergeEnvironmentVariableEntries ::
  "(nat \<Rightarrow> string) \<Rightarrow> EnvVariable list \<Rightarrow> string dict \<Rightarrow> string \<Rightarrow> EnvVariable list" where
  "mergeEnvironmentVariableEntries uuid entries updates environmentId =
     merge_env uuid environmentId (foldl (\<lambda>mx e. max mx (ev_sortOrder e)) (-1) entries + 1) 0 entries updates"

definition global_upd :: "string \<Rightarrow> string \<Rightarrow> GlobalVariable \<Rightarrow> GlobalVariable" where
  "global_upd k v e = e\<lparr>gv_key := k, gv_value := v, gv_enabled := 1\<rparr>"

definition global_new :: "string \<Rightarrow> string \<Rightarrow> string \<Rightarrow> GlobalVariable" where
  "global_new uuid k v = \<lparr> gv_id = uuid, gv_key = k, gv_value = v, gv_enabled = 1 \<rparr>"

fun merge_global ::
  "(nat \<Rightarrow> string) \<Rightarrow> nat \<Rightarrow> GlobalVariable list \<Rightarrow> string dict \<Rightarrow> GlobalVariable list" where
  "merge_global uuid n es [] = es"
| "merge_global uuid n es ((key, value) # updates) =
     (let k = js_trim key
      in if k = [] then merge_global uuid n es updates
         else (case findIndex (\<lambda>e. js_trim (gv_key e) = k) es of
             Some i \<Rightarrow> merge_global uuid n (es[i := global_upd k value (es ! i)]) updates
           | None \<Rightarrow> merge_global uuid (Suc n) (es @ [global_new (uuid n) k value]) updates))"

definition mergeGlobalVariableEntries ::
  "(nat \<Rightarrow> string) \<Rightarrow> GlobalVariable list \<Rightarrow> string dict \<Rightarrow> GlobalVariable list" where
  "mergeGlobalVariableEntries uuid entries updates = merge_global uuid 0 entries updates"

record ScriptVariableScopeUpdates =
  su_envUpdates :: "string dict option"
  su_folderUpdates :: "string dict option"
  su_collectionUpdates :: "string dict option"
  su_globalUpdates :: "string dict option"

text \<open>The two stores that hold variables, and the backend's replies to the calls of
  \<open>persistScriptVariableUpdates\<close> in their order.\<close>

record var_stores =
  vs_coll :: coll_state
  vs_env :: env_state

record persist_replies =
  pr_collection :: "unit reply"
  pr_folder :: "unit reply"
  pr_envList :: "EnvVariable list reply"
  pr_envSave :: "unit reply"
  pr_globalList :: "GlobalVariable list reply"
  pr_globalSave :: "unit reply"

text \<open>The four parts of the handler. Each awaits the backend; a rejected call ends the handler. Other
  handlers that run meanwhile are not part of these definitions.\<close>

definition persist_collection ::
  "unit reply \<Rightarrow> string \<Rightarrow> string option \<Rightarrow> string dict \<Rightarrow> var_stores \<Rightarrow> (var_stores, unit) outcome" where
  "persist_collection reply now collectionId updates st =
     (if truthy_opt collectionId \<and> updates \<noteq> [] then
        let entries = getCollectionVariableEntries (vs_coll st) collectionId;
            (r, cs) = saveCollectionVariables id reply now (the collectionId)
              (mergeCollectionVariableEntries entries updates) (vs_coll st)
        in (r, st\<lparr>vs_coll := cs\<rparr>)
      else (Inr (), st))"

definition persist_folder ::
  "unit reply \<Rightarrow> string \<Rightarrow> string option \<Rightarrow> string option \<Rightarrow> string dict \<Rightarrow> var_stores
    \<Rightarrow> (var_stores, unit) outcome" where
  "persist_folder reply now collectionId itemId updates st =
     (if truthy_opt collectionId \<and> truthy_opt itemId \<and> updates \<noteq> [] then
        (case getImmediateParentFolderItem (vs_coll st) collectionId itemId of
           None \<Rightarrow> (Inr (), st)
         | Some parentFolder \<Rightarrow>
             let entries = getCollectionItemVariableEntries (vs_coll st) collectionId (Some (it_id parentFolder));
                 (r, cs) = saveCollectionItemVariables id reply now (the collectionId) (it_id parentFolder)
                   (mergeCollectionVariableEntries entries updates) (vs_coll st)
             in (r, st\<lparr>vs_coll := cs\<rparr>))
      else (Inr (), st))"

definition persist_env ::
  "EnvVariable list reply \<Rightarrow> unit reply \<Rightarrow> (nat \<Rightarrow> string) \<Rightarrow> string dict \<Rightarrow> var_stores
    \<Rightarrow> (var_stores, unit) outcome" where
  "persist_env listed saved uuid updates st =
     (let envStore = vs_env st
      in if truthy_opt (es_activeEnvId envStore) \<and> updates \<noteq> [] then
           let envId = the (es_activeEnvId envStore);
               es1 = (if map_of (es_variables envStore) envId = None
                      then fetchVariables id listed envId envStore else envStore);
               nextEntries = mergeEnvironmentVariableEntries uuid (get_list (es_variables es1) envId) updates envId;
               (r, es2) = saveVariables id saved envId nextEntries es1
           in (r, st\<lparr>vs_env := es2\<rparr>)
         else (Inr (), st))"

definition persist_global ::
  "GlobalVariable list reply \<Rightarrow> unit reply \<Rightarrow> (nat \<Rightarrow> string) \<Rightarrow> string dict \<Rightarrow> var_stores
    \<Rightarrow> (var_stores, unit) outcome" where
  "persist_global listed saved uuid updates st =
     (if updates \<noteq> [] then
        let es1 = fetchGlobalVariables id listed (vs_env st);
            nextEntries = mergeGlobalVariableEntries uuid (es_globalVariables es1) updates;
            (r, es2) = saveGlobalVars id saved nextEntries es1
        in (r, st\<lparr>vs_env := es2\<rparr>)
      else (Inr (), st))"

text \<open>One step after another, stopping at the first rejection.\<close>

definition then_run :: "('s, unit) outcome \<Rightarrow> ('s \<Rightarrow> ('s, unit) outcome) \<Rightarrow> ('s, unit) outcome" where
  "then_run o1 f = (case o1 of (Inl e, s) \<Rightarrow> (Inl e, s) | (Inr _, s) \<Rightarrow> f s)"

definition persistScriptVariableUpdates ::
  "persist_replies \<Rightarrow> string \<Rightarrow> (nat \<Rightarrow> string) \<Rightarrow> (nat \<Rightarrow> string) \<Rightarrow> string option \<Rightarrow> string option
    \<Rightarrow> ScriptVariableScopeUpdates \<Rightarrow> var_stores \<Rightarrow> (var_stores, unit) outcome" where
  "persistScriptVariableUpdates rs now uuid uuid' collectionId itemId updates st =
     then_run (persist_collection (pr_collection rs) now collectionId (nullish (su_collectionUpdates updates) []) st)
       (\<lambda>st. then_run (persist_folder (pr_folder rs) now collectionId itemId (nullish (su_folderUpdates updates) []) st)
         (\<lambda>st. then_run (persist_env (pr_envList rs) (pr_envSave rs) uuid (nullish (su_envUpdates updates) []) st)
           (persist_global (pr_globalList rs) (pr_globalSave rs) uuid' (nullish (su_globalUpdates updates) []))))"

end
