(* ===== verification/VariableProps.thy ===== *)
theory VariableProps
  imports RequestVariables
begin

text \<open>
  What scoped variables promise: the search through the stores and the snapshot agree, resolution
  ends on every cyclic definition, what is saved is read back through its JSON text, and what a
  script writes is what the next request reads. The three kinds of variable arrays are instances
  of the interface \<open>switched_upsert\<close>.
\<close>

section \<open>The two lookups agree\<close>

text \<open>For a key that is not blank, the usable entries hold the value of the first enabled entry with
  that trimmed key.\<close>

lemma map_of_usable_entries:
  assumes "truthy k"
  shows "map_of (usable_entries es) k = map_option cv_value (find_entry k es)"
  unfolding usable_entries_def find_entry_def map_of_filter_find
  using assms by (intro arg_cong[where f = "map_option cv_value"] find_cong') auto

lemma map_of_usable_env:
  assumes "truthy k"
  shows "map_of (usable_env vs) k
    = map_option ev_value (List.find (\<lambda>v. ev_enabled v = 1 \<and> js_trim (ev_key v) = k) vs)"
  unfolding usable_env_def map_of_filter_find
  using assms by (intro arg_cong[where f = "map_option ev_value"] find_cong') auto

lemma map_of_usable_globals:
  assumes "truthy k"
  shows "map_of (usable_globals vs) k
    = map_option gv_value (List.find (\<lambda>v. gv_enabled v = 1 \<and> js_trim (gv_key v) = k) vs)"
  unfolding usable_globals_def map_of_filter_find
  using assms by (intro arg_cong[where f = "map_option gv_value"] find_cong') auto

text \<open>No scope defines a key twice.\<close>

definition scopes_distinct :: "coll_state \<Rightarrow> env_state \<Rightarrow> string option \<Rightarrow> string option \<Rightarrow> bool" where
  "scopes_distinct cs es cid iid \<longleftrightarrow>
     wf_dict (usable_env (active_env_variables es))
     \<and> (\<forall>f \<in> set (getFolderAncestorItems cs cid iid).
          wf_dict (usable_entries (getCollectionItemVariableEntries cs cid (Some (it_id f)))))
     \<and> wf_dict (usable_entries (getCollectionVariableEntries cs cid))
     \<and> wf_dict (usable_globals (es_globalVariables es))"

lemma folders_lookup:
  assumes "\<forall>f \<in> set fs. wf_dict (usable_entries (getCollectionItemVariableEntries cs cid (Some (it_id f))))"
    and "truthy k"
  shows "map_of (foldl (\<lambda>acc folder. assign_entries acc
         (usable_entries (getCollectionItemVariableEntries cs cid (Some (it_id folder))))) [] fs) k
    = map_option cv_value (find_in_folders cs cid k (rev fs))"
  using assms(1)
proof (induction fs rule: rev_induct)
  case (snoc f fs)
  then show ?case
    by (auto simp: map_of_assign_entries map_of_rev_distinct map_of_usable_entries[OF assms(2)] split: option.splits)
qed simp

lemma wf_dict_folder_map [simp]: "wf_dict (getFolderVariableMap cs cid iid)"
proof -
  have "wf_dict d \<Longrightarrow> wf_dict (foldl (\<lambda>acc folder. assign_entries acc
         (usable_entries (getCollectionItemVariableEntries cs cid (Some (it_id folder))))) d fs)" for d and fs :: "CollectionItem list"
    by (induction fs arbitrary: d) auto
  then show ?thesis by (simp add: getFolderVariableMap_def)
qed

lemma snapshot_lookup:
  "map_of (buildScopedVariableSnapshot dyn0 cs es cid iid False) k =
     (case map_of (getActiveEnvironmentVariableMap es) k of Some v \<Rightarrow> Some v | None \<Rightarrow>
     (case map_of (getFolderVariableMap cs cid iid) k of Some v \<Rightarrow> Some v | None \<Rightarrow>
     (case map_of (getCollectionVariableMap cs cid) k of Some v \<Rightarrow> Some v | None \<Rightarrow>
       map_of (getGlobalVariableMap es) k)))"
  by (simp add: buildScopedVariableSnapshot_def buildScopedVariableSnapshotFromMaps_def Let_def map_of_spread
      getActiveEnvironmentVariableMap_def getCollectionVariableMap_def getGlobalVariableMap_def
      split: option.splits)

definition user_value :: "VariableLookupResult \<Rightarrow> string option" where
  "user_value r = (if lk_source r = SrcMissing \<or> lk_source r = SrcDynamic then None else Some (lk_rawValue r))"

lemma lookup_agrees:
  assumes "scopes_distinct cs es cid iid" and "truthy k"
  shows "user_value (lookupVariable dyn1 cs es k cid iid)
    = map_of (buildScopedVariableSnapshot dyn0 cs es cid iid False) k"
proof -
  have env: "map_of (getActiveEnvironmentVariableMap es) k
    = map_option ev_value (List.find (\<lambda>v. ev_enabled v = 1 \<and> js_trim (ev_key v) = k) (active_env_variables es))"
    using assms by (simp add: getActiveEnvironmentVariableMap_def map_of_fromEntries map_of_rev_distinct
        map_of_usable_env scopes_distinct_def)
  have fold: "map_of (getFolderVariableMap cs cid iid) k
    = map_option cv_value (find_in_folders cs cid k (rev (getFolderAncestorItems cs cid iid)))"
    unfolding getFolderVariableMap_def using assms by (intro folders_lookup) (auto simp: scopes_distinct_def)
  have coll: "map_of (getCollectionVariableMap cs cid) k
    = map_option cv_value (find_entry k (getCollectionVariableEntries cs cid))"
    using assms by (simp add: getCollectionVariableMap_def map_of_fromEntries map_of_rev_distinct
        map_of_usable_entries scopes_distinct_def)
  have glob: "map_of (getGlobalVariableMap es) k
    = map_option gv_value (List.find (\<lambda>v. gv_enabled v = 1 \<and> js_trim (gv_key v) = k) (es_globalVariables es))"
    using assms by (simp add: getGlobalVariableMap_def map_of_fromEntries map_of_rev_distinct
        map_of_usable_globals scopes_distinct_def)
  show ?thesis unfolding snapshot_lookup env fold coll glob
    by (auto simp: user_value_def lookupVariable_def split: option.splits)
qed


section \<open>Live resolution and snapshot resolution\<close>

definition no_dynamic :: "string \<Rightarrow> bool" where
  "no_dynamic s \<longleftrightarrow> (\<forall>k \<in> set (seg_refs (segments s)). k \<notin> set dynamic_names)"

lemma replace_pattern_at_const: "replace_pattern_at (\<lambda>i. f) s = replace_pattern f s"
proof -
  have "map (\<lambda>(i, seg). seg_subst f seg) (enumerate n xs) = map (seg_subst f) xs" for n xs
    by (induction xs arbitrary: n) auto
  then show ?thesis by (simp add: replace_pattern_at_def replace_pattern_def)
qed

lemma ref_trim: "Ref m k \<in> set (segments s) \<Longrightarrow> js_trim k = k \<and> k \<noteq> []"
  using segments_refs_valid is_reference_trim by blast

lemma lookup_source_cases:
  assumes "k \<notin> set dynamic_names"
  shows "lk_source (lookupVariable dyn1 cs es k cid iid) \<noteq> SrcDynamic"
  using assms by (auto simp: lookupVariable_def split: option.splits)

lemma resolve_agrees:
  assumes dist: "scopes_distinct cs es cid iid"
    and vals: "\<forall>v \<in> ran (map_of (buildScopedVariableSnapshot dyn0 cs es cid iid False)). no_dynamic v"
    and "truthy k" and "k \<notin> set dynamic_names"
  shows "resolveVariableValue dyn cs es path k cid iid visited
    = resolveVariableValueFromSnapshot k (buildScopedVariableSnapshot dyn0 cs es cid iid False) visited"
  using assms
proof (induction dyn cs es path k cid iid visited rule: resolveVariableValue.induct)
  case (1 dyn cs es path k cid iid visited)
  let ?S = "buildScopedVariableSnapshot dyn0 cs es cid iid False"
  let ?l = "lookupVariable (dyn path) cs es k cid iid"
  have agree: "user_value ?l = map_of ?S k" using lookup_agrees "1.prems" by blast
  have nd: "lk_source ?l \<noteq> SrcDynamic" using lookup_source_cases "1.prems"(4) by blast
  show ?case
  proof (cases "k \<in> set visited \<or> lk_source ?l = SrcMissing")
    case True
    then show ?thesis using agree
      by (subst resolveVariableValue.simps, subst resolveVariableValueFromSnapshot.simps)
         (auto simp: user_value_def Let_def)
  next
    case False
    then have val: "map_of ?S k = Some (lk_rawValue ?l)" using agree nd by (simp add: user_value_def)
    then have raw: "no_dynamic (lk_rawValue ?l)" using "1.prems"(2) by (auto simp: ran_def)
    have "replace_pattern_at (\<lambda>i match nestedKey.
          let nested = js_trim nestedKey in if nested = [] then match
          else nullish (resolveVariableValue dyn cs es (path @ [i]) nested cid iid (k # visited)) match)
        (lk_rawValue ?l)
      = replace_pattern_at (\<lambda>i match nestedKey.
          let nested = js_trim nestedKey in if nested = [] then match
          else nullish (resolveVariableValueFromSnapshot nested ?S (k # visited)) match) (lk_rawValue ?l)"
    proof (rule replace_pattern_at_cong[OF refl])
      fix i m n
      assume r: "Ref m n \<in> set (segments (lk_rawValue ?l))"
      then have n: "js_trim n = n" "truthy n" using ref_trim by blast+
      have "n \<notin> set dynamic_names" using raw r by (auto simp: no_dynamic_def set_seg_refs)
      then have "resolveVariableValue dyn cs es (path @ [i]) n cid iid (k # visited)
        = resolveVariableValueFromSnapshot n ?S (k # visited)"
        using "1.IH"[of ?l m n n i] False nd n r "1.prems" by auto
      then show "(let nested = js_trim n in if nested = [] then m
          else nullish (resolveVariableValue dyn cs es (path @ [i]) nested cid iid (k # visited)) m)
        = (let nested = js_trim n in if nested = [] then m
          else nullish (resolveVariableValueFromSnapshot nested ?S (k # visited)) m)"
        using n by simp
    qed
    then show ?thesis using False nd val
      by (subst resolveVariableValue.simps, subst resolveVariableValueFromSnapshot.simps)
         (simp add: Let_def replace_pattern_at_const)
  qed
qed

lemma template_agrees:
  assumes "scopes_distinct cs es cid iid"
    and "\<forall>v \<in> ran (map_of (buildScopedVariableSnapshot dyn0 cs es cid iid False)). no_dynamic v"
    and "no_dynamic input"
  shows "resolveVariableTemplate dyn cs es path input cid iid None
    = resolveVariableTemplate dyn cs es path input cid iid
        (Some (buildScopedVariableSnapshot dyn0 cs es cid iid False))"
  unfolding resolveVariableTemplate_def
proof (rule replace_pattern_at_cong[OF refl])
  fix i m k
  assume r: "Ref m k \<in> set (segments input)"
  then have "js_trim k = k" "truthy k" using ref_trim by blast+
  moreover have "k \<notin> set dynamic_names" using assms(3) r by (auto simp: no_dynamic_def set_seg_refs)
  ultimately show "subst_ref (\<lambda>normalizedKey. case None of
              Some snapshot \<Rightarrow> resolveVariableValueFromSnapshot normalizedKey snapshot []
            | None \<Rightarrow> resolveVariableValue dyn cs es (path @ [i]) normalizedKey cid iid []) m k
    = subst_ref (\<lambda>normalizedKey. case Some (buildScopedVariableSnapshot dyn0 cs es cid iid False) of
              Some snapshot \<Rightarrow> resolveVariableValueFromSnapshot normalizedKey snapshot []
            | None \<Rightarrow> resolveVariableValue dyn cs es (path @ [i]) normalizedKey cid iid []) m k"
    using resolve_agrees[OF assms(1,2)] by (simp add: subst_ref_def)
qed


section \<open>Writing entries\<close>

abbreviation trimmed :: "string \<Rightarrow> bool" where
  "trimmed k \<equiv> js_trim k = k"

interpretation entry_put: switched_upsert "\<lambda>k _. trimmed k" "\<lambda>e. js_trim (cv_key e)" cv_value entry_new entry_upd cv_enabled
  by unfold_locales (auto simp: entry_new_def entry_upd_def)

interpretation env_put: switched_upsert "\<lambda>k _. trimmed k" "\<lambda>e. js_trim (ev_key e)" ev_value "env_new uuid envId sortOrder"
  env_upd "\<lambda>e. ev_enabled e = 1" for uuid envId sortOrder
  by unfold_locales (auto simp: env_new_def env_upd_def)

interpretation global_put: switched_upsert "\<lambda>k _. trimmed k" "\<lambda>e. js_trim (gv_key e)" gv_value "global_new uuid"
  global_upd "\<lambda>e. gv_enabled e = 1" for uuid
  by unfold_locales (auto simp: global_new_def global_upd_def)

text \<open>The updates that count, with trimmed keys.\<close>

definition effective :: "string dict \<Rightarrow> (string \<times> string) list" where
  "effective ups = filter (\<lambda>(k, v). truthy k) (map (\<lambda>(k, v). (js_trim k, v)) ups)"

lemma effective_simps [simp]: "effective [] = []"
  "effective ((k, v) # ups) = (if js_trim k = [] then [] else [(js_trim k, v)]) @ effective ups"
  by (simp_all add: effective_def)

lemma find_entry_put:
  "trimmed k \<Longrightarrow> map_option cv_value (find_entry k' (put_entry k v es))
    = (if k' = k then Some v else map_option cv_value (find_entry k' es))"
  unfolding find_entry_def put_entry_def by (rule entry_put.value_upsert)

lemma merge_entries_value:
  "map_option cv_value (find_entry k (mergeCollectionVariableEntries es ups))
    = (case map_of (rev (effective ups)) k of Some v \<Rightarrow> Some v | None \<Rightarrow> map_option cv_value (find_entry k es))"
  by (induction es ups rule: mergeCollectionVariableEntries.induct)
     (auto simp: find_entry_put map_add_def split: option.splits)

lemma put_entry_distinct:
  "trimmed k \<Longrightarrow> distinct (map (\<lambda>e. js_trim (cv_key e)) es) \<Longrightarrow>
    distinct (map (\<lambda>e. js_trim (cv_key e)) (put_entry k v es))"
  unfolding put_entry_def by (rule entry_put.upsert_distinct)

lemma merge_entries_distinct:
  "distinct (map (\<lambda>e. js_trim (cv_key e)) es) \<Longrightarrow>
    distinct (map (\<lambda>e. js_trim (cv_key e)) (mergeCollectionVariableEntries es ups))"
  by (induction es ups rule: mergeCollectionVariableEntries.induct) (auto simp: put_entry_distinct)

lemma merge_env_step:
  "js_trim key \<noteq> [] \<Longrightarrow> \<exists>n'. merge_env uuid envId base n es ((key, value) # ups)
    = merge_env uuid envId base n'
        (replace_or_push (\<lambda>e. js_trim (ev_key e) = js_trim key) (env_upd (js_trim key) value)
          (env_new (uuid n) envId (base + int n) (js_trim key) value) es) ups"
  by (cases "findIndex (\<lambda>e. js_trim (ev_key e) = js_trim key) es")
     (auto simp: replace_or_push_def simp del: findIndex_None)

lemma merge_env_value:
  "map_option ev_value (List.find (\<lambda>e. ev_enabled e = 1 \<and> js_trim (ev_key e) = k) (merge_env uuid envId base n es ups))
    = (case map_of (rev (effective ups)) k of Some v \<Rightarrow> Some v
       | None \<Rightarrow> map_option ev_value (List.find (\<lambda>e. ev_enabled e = 1 \<and> js_trim (ev_key e) = k) es))"
proof (induction ups arbitrary: es n)
  case (Cons p ups)
  obtain key x where p: "p = (key, x)" by (cases p)
  show ?case
  proof (cases "js_trim key = []")
    case True
    then show ?thesis using Cons by (simp add: p)
  next
    case False
    obtain n' where n': "merge_env uuid envId base n es ((key, x) # ups)
      = merge_env uuid envId base n' (replace_or_push (\<lambda>e. js_trim (ev_key e) = js_trim key)
          (env_upd (js_trim key) x) (env_new (uuid n) envId (base + int n) (js_trim key) x) es) ups"
      using merge_env_step[OF False] by blast
    show ?thesis unfolding p n' Cons env_put.value_upsert[OF js_trim_idem]
      using False by (auto simp: map_add_def split: option.splits)
  qed
qed simp

lemma merge_env_distinct:
  "distinct (map (\<lambda>e. js_trim (ev_key e)) es) \<Longrightarrow>
    distinct (map (\<lambda>e. js_trim (ev_key e)) (merge_env uuid envId base n es ups))"
proof (induction ups arbitrary: es n)
  case (Cons p ups)
  obtain key x where p: "p = (key, x)" by (cases p)
  show ?case
  proof (cases "js_trim key = []")
    case True
    then show ?thesis using Cons by (simp add: p)
  next
    case False
    obtain n' where n': "merge_env uuid envId base n es ((key, x) # ups)
      = merge_env uuid envId base n' (replace_or_push (\<lambda>e. js_trim (ev_key e) = js_trim key)
          (env_upd (js_trim key) x) (env_new (uuid n) envId (base + int n) (js_trim key) x) es) ups"
      using merge_env_step[OF False] by blast
    show ?thesis unfolding p n'
      by (rule Cons.IH[OF env_put.upsert_distinct[OF js_trim_idem Cons.prems]])
  qed
qed simp


lemma merge_global_step:
  "js_trim key \<noteq> [] \<Longrightarrow> \<exists>n'. merge_global uuid n es ((key, x) # ups)
    = merge_global uuid n'
        (replace_or_push (\<lambda>e. js_trim (gv_key e) = js_trim key) (global_upd (js_trim key) x)
          (global_new (uuid n) (js_trim key) x) es) ups"
  by (cases "findIndex (\<lambda>e. js_trim (gv_key e) = js_trim key) es")
     (auto simp: replace_or_push_def simp del: findIndex_None)

lemma merge_global_value:
  "map_option gv_value (List.find (\<lambda>e. gv_enabled e = 1 \<and> js_trim (gv_key e) = k) (merge_global uuid n es ups))
    = (case map_of (rev (effective ups)) k of Some v \<Rightarrow> Some v
       | None \<Rightarrow> map_option gv_value (List.find (\<lambda>e. gv_enabled e = 1 \<and> js_trim (gv_key e) = k) es))"
proof (induction ups arbitrary: es n)
  case (Cons p ups)
  obtain key x where p: "p = (key, x)" by (cases p)
  show ?case
  proof (cases "js_trim key = []")
    case True
    then show ?thesis using Cons by (simp add: p)
  next
    case False
    obtain n' where n': "merge_global uuid n es ((key, x) # ups)
      = merge_global uuid n' (replace_or_push (\<lambda>e. js_trim (gv_key e) = js_trim key)
          (global_upd (js_trim key) x) (global_new (uuid n) (js_trim key) x) es) ups"
      using merge_global_step[OF False] by blast
    show ?thesis unfolding p n' Cons global_put.value_upsert[OF js_trim_idem]
      using False by (auto simp: map_add_def split: option.splits)
  qed
qed simp

lemma merge_global_distinct:
  "distinct (map (\<lambda>e. js_trim (gv_key e)) es) \<Longrightarrow>
    distinct (map (\<lambda>e. js_trim (gv_key e)) (merge_global uuid n es ups))"
proof (induction ups arbitrary: es n)
  case (Cons p ups)
  obtain key x where p: "p = (key, x)" by (cases p)
  show ?case
  proof (cases "js_trim key = []")
    case True
    then show ?thesis using Cons by (simp add: p)
  next
    case False
    obtain n' where n': "merge_global uuid n es ((key, x) # ups)
      = merge_global uuid n' (replace_or_push (\<lambda>e. js_trim (gv_key e) = js_trim key)
          (global_upd (js_trim key) x) (global_new (uuid n) (js_trim key) x) es) ups"
      using merge_global_step[OF False] by blast
    show ?thesis unfolding p n'
      by (rule Cons.IH[OF global_put.upsert_distinct[OF js_trim_idem Cons.prems]])
  qed
qed simp


section \<open>Maps of distinct entries\<close>

lemma wf_usable:
  "distinct (map (\<lambda>e. js_trim (cv_key e)) es) \<Longrightarrow> wf_dict (usable_entries es)"
  "distinct (map (\<lambda>e. js_trim (ev_key e)) vs) \<Longrightarrow> wf_dict (usable_env vs)"
  "distinct (map (\<lambda>e. js_trim (gv_key e)) gs) \<Longrightarrow> wf_dict (usable_globals gs)"
  by (simp_all add: wf_dict_def usable_entries_def usable_env_def usable_globals_def comp_def distinct_map_filter)

lemma effective_truthy: "map_of (rev (effective ups)) [] = None"
  by (auto simp: effective_def map_of_eq_None_iff)

text \<open>Blank keys are in none of the maps.\<close>

lemma usable_no_blank:
  "map_of (usable_entries es) [] = None" "map_of (usable_env vs) [] = None" "map_of (usable_globals gs) [] = None"
  by (auto simp: usable_entries_def usable_env_def usable_globals_def map_of_eq_None_iff)


lemma usable_merge_entries:
  "map_of (usable_entries (mergeCollectionVariableEntries es ups)) k
    = (case map_of (rev (effective ups)) k of Some v \<Rightarrow> Some v | None \<Rightarrow> map_of (usable_entries es) k)"
  by (cases "k = []") (auto simp: usable_no_blank effective_truthy map_of_usable_entries merge_entries_value split: option.splits)

lemma usable_merge_env:
  "map_of (usable_env (merge_env uuid envId base n vs ups)) k
    = (case map_of (rev (effective ups)) k of Some v \<Rightarrow> Some v | None \<Rightarrow> map_of (usable_env vs) k)"
  by (cases "k = []") (auto simp: usable_no_blank effective_truthy map_of_usable_env merge_env_value split: option.splits)

lemma usable_merge_global:
  "map_of (usable_globals (merge_global uuid n gs ups)) k
    = (case map_of (rev (effective ups)) k of Some v \<Rightarrow> Some v | None \<Rightarrow> map_of (usable_globals gs) k)"
  by (cases "k = []") (auto simp: usable_no_blank effective_truthy map_of_usable_globals merge_global_value split: option.splits)

lemma usable_put_entry:
  "trimmed k \<Longrightarrow> truthy k \<Longrightarrow> map_of (usable_entries (put_entry k v es)) k'
    = (if k' = k then Some v else map_of (usable_entries es) k')"
  by (cases "k' = []") (auto simp: usable_no_blank map_of_usable_entries find_entry_put)

lemma usable_normalize: "usable_entries (normalize_entries es) = usable_entries es"
  by (induction es) (auto simp: usable_entries_def normalize_entries_def)

lemma normalize_secret: "e \<in> set (normalize_entries es) \<Longrightarrow> \<exists>b. cv_isSecret e = Some b"
  by (auto simp: normalize_entries_def)

lemma reparse_normalized:
  "parseCollectionVariableEntries (Some (serializeCollectionVariableEntries (normalize_entries es)))
    = normalize_entries es"
proof -
  have "e\<lparr>cv_isSecret := Some (cv_isSecret e = Some True)\<rparr> = e" if "e \<in> set (normalize_entries es)" for e
    using normalize_secret[OF that] by (cases e) auto
  then show ?thesis unfolding parse_serialize_entries by (intro map_idI) auto
qed

section \<open>Reading back what was saved\<close>

lemma findCollection_put:
  assumes "findCollection cs (Some cid) = Some col" and "col_id u = cid"
  shows "findCollection (put_collection cid u cs) (Some cid) = Some u"
  using assms find_put_collection[of cid cs col u] by (auto simp: findCollection_def split: if_splits)

lemma saveCollectionVariables_reads_back:
  assumes "findCollection cs (Some cid) = Some col"
  shows "getCollectionVariableEntries (snd (saveCollectionVariables id (Inr ()) now cid es cs)) (Some cid)
    = normalize_entries es"
proof -
  have "col_id col = cid" using assms by (auto simp: findCollection_def split: if_splits dest: find_SomeD)
  then show ?thesis using assms
    by (simp add: saveCollectionVariables_def Let_def getCollectionVariableEntries_def findCollection_put[OF assms]
        reparse_normalized)
qed

lemma findCollectionItem_put:
  assumes "findCollectionItem cs (Some cid) (Some i) = Some item" and "it_id u = i"
  shows "findCollectionItem (put_item cid i u cs) (Some cid) (Some i) = Some u"
proof -
  have f: "List.find (\<lambda>x. it_id x = i) (items_of cs cid) = Some item" and t: "truthy cid" "truthy i"
    using assms by (auto simp: findCollectionItem_def split: if_splits)
  have "List.find (\<lambda>x. it_id x = i) (map_where (\<lambda>x. it_id x = i) (\<lambda>_. u) (items_of cs cid))
    = map_option (\<lambda>x. if it_id x = i then u else x) (List.find (\<lambda>x. it_id x = i) (items_of cs cid))"
    by (rule find_map_where) (use assms(2) in simp)
  then show ?thesis using f t find_SomeD[OF f] by (simp add: findCollectionItem_def put_item_def)
qed

lemma saveCollectionItemVariables_reads_back:
  assumes "findCollectionItem cs (Some cid) (Some i) = Some item"
  shows "getCollectionItemVariableEntries (snd (saveCollectionItemVariables id (Inr ()) now cid i es cs)) (Some cid) (Some i)
    = normalize_entries es"
proof -
  have "it_id item = i" using assms by (auto simp: findCollectionItem_def split: if_splits dest: find_SomeD)
  then show ?thesis using assms
    by (simp add: saveCollectionItemVariables_def Let_def getCollectionItemVariableEntries_def
        findCollectionItem_put[OF assms] reparse_normalized)
qed

lemma wf_usable_normalize: "wf_dict (usable_entries es) \<Longrightarrow> wf_dict (usable_entries (normalize_entries es))"
  by (simp add: usable_normalize)

lemma collection_map_after_save:
  assumes "findCollection cs (Some cid) = Some col" and "distinct (map (\<lambda>e. js_trim (cv_key e)) es)"
  shows "map_of (getCollectionVariableMap (snd (saveCollectionVariables id (Inr ()) now cid es cs)) (Some cid)) k
    = map_of (usable_entries es) k"
  by (simp add: getCollectionVariableMap_def saveCollectionVariables_reads_back[OF assms(1)] usable_normalize
      map_of_fromEntries map_of_rev_distinct[OF wf_usable(1)[OF assms(2)]])

lemma collection_map_distinct:
  assumes "distinct (map (\<lambda>e. js_trim (cv_key e)) (getCollectionVariableEntries cs cid))"
  shows "map_of (getCollectionVariableMap cs cid) k = map_of (usable_entries (getCollectionVariableEntries cs cid)) k"
  by (simp add: getCollectionVariableMap_def map_of_fromEntries map_of_rev_distinct[OF wf_usable(1)[OF assms]])

lemma env_map_distinct:
  assumes "distinct (map (\<lambda>e. js_trim (ev_key e)) (active_env_variables es))"
  shows "map_of (getActiveEnvironmentVariableMap es) k = map_of (usable_env (active_env_variables es)) k"
  by (simp add: getActiveEnvironmentVariableMap_def map_of_fromEntries map_of_rev_distinct[OF wf_usable(2)[OF assms]])

lemma global_map_distinct:
  assumes "distinct (map (\<lambda>e. js_trim (gv_key e)) (es_globalVariables es))"
  shows "map_of (getGlobalVariableMap es) k = map_of (usable_globals (es_globalVariables es)) k"
  by (simp add: getGlobalVariableMap_def map_of_fromEntries map_of_rev_distinct[OF wf_usable(3)[OF assms]])

section \<open>Script updates\<close>

lemma persist_collection_ok:
  assumes "truthy_opt cid" and "findCollection (vs_coll st) cid = Some col"
    and "distinct (map (\<lambda>e. js_trim (cv_key e)) (getCollectionVariableEntries (vs_coll st) cid))"
  obtains cs where "persist_collection (Inr ()) now cid ups st = (Inr (), st\<lparr>vs_coll := cs\<rparr>)"
    "\<And>k. map_of (getCollectionVariableMap cs cid) k
      = (case map_of (rev (effective ups)) k of Some v \<Rightarrow> Some v | None \<Rightarrow> map_of (getCollectionVariableMap (vs_coll st) cid) k)"
proof (cases "ups = []")
  case True
  then show ?thesis using that[of "vs_coll st"] by (simp add: persist_collection_def)
next
  case False
  obtain i where i: "cid = Some i" using assms(1) by (cases cid) auto
  let ?es = "mergeCollectionVariableEntries (getCollectionVariableEntries (vs_coll st) cid) ups"
  let ?r = "saveCollectionVariables id (Inr ()) now i ?es (vs_coll st)"
  have "persist_collection (Inr ()) now cid ups st = (Inr (), st\<lparr>vs_coll := snd ?r\<rparr>)"
    using assms(1,2) False i
    by (simp add: persist_collection_def saveCollectionVariables_def Let_def)
  moreover have "map_of (getCollectionVariableMap (snd ?r) cid) k
      = (case map_of (rev (effective ups)) k of Some v \<Rightarrow> Some v | None \<Rightarrow> map_of (getCollectionVariableMap (vs_coll st) cid) k)" for k
    unfolding i collection_map_after_save[OF assms(2)[unfolded i] merge_entries_distinct[OF assms(3)], unfolded i]
      usable_merge_entries collection_map_distinct[OF assms(3), unfolded i] ..
  ultimately show ?thesis using that by blast
qed

lemma persist_env_ok:
  assumes act: "es_activeEnvId (vs_env st) = Some e" "truthy e"
    and loaded: "map_of (es_variables (vs_env st)) e = Some vs"
    and "distinct (map (\<lambda>e. js_trim (ev_key e)) vs)"
  obtains es where "persist_env listed (Inr ()) uuid ups st = (Inr (), st\<lparr>vs_env := es\<rparr>)"
    "es_globalVariables es = es_globalVariables (vs_env st)"
    "\<And>k. map_of (getActiveEnvironmentVariableMap es) k
      = (case map_of (rev (effective ups)) k of Some v \<Rightarrow> Some v
         | None \<Rightarrow> map_of (getActiveEnvironmentVariableMap (vs_env st)) k)"
    "es_activeEnvId es = Some e"
proof (cases "ups = []")
  case True
  then show ?thesis using that[of "vs_env st"] act by (simp add: persist_env_def Let_def)
next
  case False
  define ws where "ws = mergeEnvironmentVariableEntries uuid vs ups e"
  let ?es = "set_env_variables e ws (vs_env st)"
  have vs: "get_list (es_variables (vs_env st)) e = vs" using loaded by (simp add: get_list_def)
  have "persist_env listed (Inr ()) uuid ups st = (Inr (), st\<lparr>vs_env := ?es\<rparr>)"
    using act loaded False vs by (simp add: persist_env_def Let_def saveVariables_def ws_def)
  moreover have av: "active_env_variables ?es = ws" "active_env_variables (vs_env st) = vs"
    using act vs by (simp_all add: active_env_variables_def set_env_variables_def)
  moreover have "distinct (map (\<lambda>e. js_trim (ev_key e)) ws)"
    unfolding ws_def mergeEnvironmentVariableEntries_def by (rule merge_env_distinct[OF assms(4)])
  ultimately have "map_of (getActiveEnvironmentVariableMap ?es) k
      = (case map_of (rev (effective ups)) k of Some v \<Rightarrow> Some v
         | None \<Rightarrow> map_of (getActiveEnvironmentVariableMap (vs_env st)) k)" for k
    using assms(4)
    by (simp add: env_map_distinct ws_def mergeEnvironmentVariableEntries_def usable_merge_env cong: option.case_cong)
  then show ?thesis using that[of ?es] \<open>persist_env _ _ _ _ _ = _\<close> act by (simp add: set_env_variables_def)
qed

lemma persist_global_ok:
  assumes "distinct (map (\<lambda>e. js_trim (gv_key e)) gs)" and "ups \<noteq> []"
  obtains es where "persist_global (Inr gs) (Inr ()) uuid ups st = (Inr (), st\<lparr>vs_env := es\<rparr>)"
    "es_variables es = es_variables (vs_env st)" "es_activeEnvId es = es_activeEnvId (vs_env st)"
    "\<And>k. map_of (getGlobalVariableMap es) k
      = (case map_of (rev (effective ups)) k of Some v \<Rightarrow> Some v | None \<Rightarrow> map_of (usable_globals gs) k)"
proof -
  define ws where "ws = mergeGlobalVariableEntries uuid gs ups"
  let ?es = "set_global_variables ws (set_global_variables gs (vs_env st))"
  have "persist_global (Inr gs) (Inr ()) uuid ups st = (Inr (), st\<lparr>vs_env := ?es\<rparr>)"
    using assms(2) by (simp add: persist_global_def Let_def fetchGlobalVariables_def saveGlobalVars_def ws_def set_global_variables_def)
  moreover have "distinct (map (\<lambda>e. js_trim (gv_key e)) (es_globalVariables ?es))"
    using merge_global_distinct[OF assms(1)] by (simp add: set_global_variables_def ws_def mergeGlobalVariableEntries_def)
  then have "map_of (getGlobalVariableMap ?es) k
      = (case map_of (rev (effective ups)) k of Some v \<Rightarrow> Some v | None \<Rightarrow> map_of (usable_globals gs) k)" for k
    by (simp add: global_map_distinct) (simp add: set_global_variables_def ws_def mergeGlobalVariableEntries_def usable_merge_global)
  ultimately show ?thesis using that[of ?es] by (simp add: set_global_variables_def)
qed


section \<open>Properties\<close>

text \<open>Looking a variable up in the stores (environment, then the folders from the inside out,
  then the collection, then the globals) and looking it up in the snapshot that is sent with a
  request give the same value, for every key that is not blank, when no scope defines a key twice.\<close>

theorem lookup_snapshot_agree:
  assumes "scopes_distinct cs es cid iid" and "truthy k"
  shows "(let r = lookupVariable dyn1 cs es k cid iid
          in if lk_source r = SrcMissing \<or> lk_source r = SrcDynamic then None else Some (lk_rawValue r))
    = map_of (buildScopedVariableSnapshot dyn0 cs es cid iid False) k"
  using lookup_agrees[OF assms] by (simp add: user_value_def Let_def)

definition sample_env_var :: "string \<Rightarrow> string \<Rightarrow> EnvVariable" where
  "sample_env_var k v = env_new ''i'' ''e'' 0 k v"

definition sample_env :: "EnvVariable list \<Rightarrow> env_state" where
  "sample_env vs = env_init\<lparr>es_activeEnvId := Some ''e'', es_variables := [(''e'', vs)],
     es_globalVariables := [global_new ''g'' ''host'' ''global'']\<rparr>"

lemma sample_env_simps [simp]: "active_env_variables (sample_env vs) = vs"
  "es_globalVariables (sample_env vs) = [global_new ''g'' ''host'' ''global'']"
  by (simp_all add: active_env_variables_def sample_env_def get_list_def)

lemma sample_scopes:
  "scopes_distinct coll_init (sample_env [sample_env_var '' host '' ''local'', sample_env_var ''port'' ''{{host}}'']) None None"
  by (simp add: scopes_distinct_def usable_env_def usable_globals_def usable_entries_def getFolderAncestorItems_def
      getCollectionVariableEntries_def findCollection_def parseCollectionVariableEntries_def wf_dict_def
      sample_env_var_def env_new_def global_new_def js_trim_def is_ws_def)

theorem lookup_snapshot_agree_witness:
  "map_of (buildScopedVariableSnapshot (\<lambda>_. [])
      coll_init (sample_env [sample_env_var '' host '' ''local'', sample_env_var ''port'' ''{{host}}'']) None None False) ''host''
    = Some ''local''"
  using lookup_snapshot_agree[OF sample_scopes, of "''host''" "\<lambda>_. []" "\<lambda>_. []"]
  by (simp add: lookupVariable_def sample_env_var_def env_new_def js_trim_def is_ws_def Let_def)


lemma no_dynamic_samples: "no_dynamic ''{{port}}''" "no_dynamic ''{{host}}''" "no_dynamic ''local''" "no_dynamic ''global''"
  by code_simp+



text \<open>Saving the variables of a collection and reading them back gives the entries with trimmed
  keys, blank keys dropped and the secret flag made explicit, through the JSON text they are
  stored as.\<close>

theorem save_collection_variables_roundtrip:
  assumes "findCollection cs (Some cid) = Some col"
  shows "getCollectionVariableEntries (snd (saveCollectionVariables id (Inr ()) now cid entries cs)) (Some cid)
    = normalize_entries entries"
  using assms by (rule saveCollectionVariables_reads_back)

definition sample_cs :: coll_state where
  "sample_cs = coll_init\<lparr>cs_collections := [newCollection ''c'' ''t'' ''n'' coll_init]\<rparr>"

lemma sample_cs_find: "findCollection sample_cs (Some ''c'') = Some (newCollection ''c'' ''t'' ''n'' coll_init)"
  by (simp add: findCollection_def sample_cs_def newCollection_def)

theorem save_collection_variables_roundtrip_witness:
  "getCollectionVariableEntries (snd (saveCollectionVariables id (Inr ()) ''now'' ''c''
      [entry_new '' a '' ''1'', entry_new '' '' ''2''] sample_cs)) (Some ''c'')
    = [\<lparr> cv_key = ''a'', cv_value = ''1'', cv_enabled = True, cv_isSecret = Some False \<rparr>]"
  using save_collection_variables_roundtrip[OF sample_cs_find]
  by (simp add: normalize_entries_def entry_new_def js_trim_def is_ws_def)

text \<open>After \<open>upsertCollectionVariable\<close> the written key has the written value in the collection's
  map and every other key keeps its value, when the collection defines no key twice.\<close>

theorem upsert_collection_variable_visible:
  assumes "findCollection cs (Some cid) = Some col" and "truthy (js_trim key)"
    and "distinct (map (\<lambda>e. js_trim (cv_key e)) (getCollectionVariableEntries cs (Some cid)))"
  shows "map_of (getCollectionVariableMap (snd (upsertCollectionVariable id (Inr ()) now cid key x cs)) (Some cid)) k
    = (if k = js_trim key then Some x else map_of (getCollectionVariableMap cs (Some cid)) k)"
  unfolding upsertCollectionVariable_def
    collection_map_after_save[OF assms(1) put_entry_distinct[OF js_trim_idem assms(3)]]
  using usable_put_entry[OF js_trim_idem assms(2)] collection_map_distinct[OF assms(3)] by simp

lemma sample_cs_entries: "getCollectionVariableEntries sample_cs (Some ''c'') = []"
  unfolding getCollectionVariableEntries_def sample_cs_find by code_simp

theorem upsert_collection_variable_visible_witness:
  "map_of (getCollectionVariableMap (snd (upsertCollectionVariable id (Inr ()) ''now'' ''c'' '' a '' ''1'' sample_cs)) (Some ''c'')) ''a''
    = Some ''1''"
  using upsert_collection_variable_visible[OF sample_cs_find, of "'' a ''" "''now''" "''1''" "''a''"]
  by (simp add: sample_cs_entries js_trim_def is_ws_def)



definition sample_replies :: persist_replies where
  "sample_replies = \<lparr> pr_collection = Inr (), pr_folder = Inr (), pr_envList = Inr [], pr_envSave = Inr (),
     pr_globalList = Inr [], pr_globalSave = Inr () \<rparr>"


text \<open>The editor's preview and the request that is sent can differ: when the active environment
  defines a key twice the preview takes the first entry and the snapshot the last, and a variable
  of the environment that has the name of a dynamic variable is previewed with its own value but
  sent with the dynamic one.\<close>

theorem preview_differs_from_sent:
  "lk_rawValue (lookupVariable dyn1 coll_init (sample_env [sample_env_var ''a'' ''1'', sample_env_var ''a'' ''2'']) ''a'' None None) = ''1''
    \<and> map_of (buildScopedVariableSnapshot dyn0 coll_init
        (sample_env [sample_env_var ''a'' ''1'', sample_env_var ''a'' ''2'']) None None True) ''a'' = Some ''2''
    \<and> lk_rawValue (lookupVariable dyn1 coll_init (sample_env [sample_env_var ''$guid'' ''mine'']) ''$guid'' None None) = ''mine''
    \<and> map_of (buildScopedVariableSnapshot dyn0 coll_init
        (sample_env [sample_env_var ''$guid'' ''mine'']) None None True) ''$guid'' = Some (dyn0 ''$guid'')"
proof -
  have spreads: "map_of (buildScopedVariableSnapshot dyn0 coll_init es None None True) k
      = (case map_of (rev (map (\<lambda>k. (k, dyn0 k)) dynamic_names)) k of Some v \<Rightarrow> Some v
         | None \<Rightarrow> map_of (buildScopedVariableSnapshot dyn0 coll_init es None None False) k)" for es k
    unfolding buildScopedVariableSnapshot_def buildScopedVariableSnapshotFromMaps_def Let_def
    by (simp add: map_of_spread map_of_fromEntries cong: option.case_cong)
  show ?thesis
    unfolding spreads snapshot_lookup
    by (simp add: lookupVariable_def sample_env_var_def env_new_def js_trim_def is_ws_def dynamic_names_def
        getActiveEnvironmentVariableMap_def map_of_fromEntries usable_env_def)
qed

end
