(* ===== verification/CookieJar.thy ===== *)
theory CookieJar
  imports HttpTypes
begin

text \<open>
  The cookie jar (\<open>src/src/stores/cookieJarStore.ts\<close>): storing the cookies of a response, choosing
  those a request may carry, and editing the jar by hand. Shown: one cookie per name, domain and
  path; a response can store cookies for its own host and its parent domains only; a request
  carries exactly the live cookies whose domain, path and security match its URL.

  \<open>new URL(s)\<close> is a parameter \<open>url\<close>, \<open>None\<close> when it throws; \<open>new Date(s).getTime()\<close> is a parameter
  \<open>date\<close>, \<open>None\<close> standing for \<open>NaN\<close>, which no time is above or below.
\<close>

section \<open>Matching\<close>

record StoredCookie = CookieInfo +
  sc_originDomain :: string
  sc_storedAt :: int

record URLParts =
  url_protocol :: string
  url_hostname :: string
  url_pathname :: string

type_synonym url_parser = "string \<Rightarrow> URLParts option"

definition extractDomain :: "url_parser \<Rightarrow> string \<Rightarrow> string" where
  "extractDomain url u = (case url u of Some p \<Rightarrow> js_toLowerCase (url_hostname p) | None \<Rightarrow> [])"

definition extractPath :: "url_parser \<Rightarrow> string \<Rightarrow> string" where
  "extractPath url u = (case url u of Some p \<Rightarrow> url_pathname p | None \<Rightarrow> ''/'')"

definition isExpired :: "(string \<Rightarrow> int option) \<Rightarrow> int \<Rightarrow> StoredCookie \<Rightarrow> bool" where
  "isExpired date now c =
     (if \<not> truthy_opt (ck_expires c) then False
      else (case date (the (ck_expires c)) of Some t \<Rightarrow> t < now | None \<Rightarrow> False))"

text \<open>\<open>s.replace(/^\./, '')\<close>.\<close>

definition strip_dot :: "string \<Rightarrow> string" where
  "strip_dot s = (case s of c # cs \<Rightarrow> if c = CHR ''.'' then cs else s | [] \<Rightarrow> [])"

definition domainMatches :: "string \<Rightarrow> string \<Rightarrow> bool" where
  "domainMatches cookieDomain requestHost =
     (let cd = strip_dot (js_toLowerCase cookieDomain); rh = js_toLowerCase requestHost
      in rh = cd \<or> suffix (CHR ''.'' # cd) rh)"

definition pathMatches :: "string option \<Rightarrow> string \<Rightarrow> bool" where
  "pathMatches cookiePath requestPath =
     (let cp = (if truthy_opt cookiePath then the cookiePath else ''/'')
      in if requestPath = cp then True
         else if prefix cp requestPath
         then last_opt cp = Some CHR ''/'' \<or> (length cp < length requestPath \<and> requestPath ! length cp = CHR ''/'')
         else False)"

definition opt_or :: "string option \<Rightarrow> string \<Rightarrow> string" where
  "opt_or x d = (if truthy_opt x then the x else d)"

definition cookie_key_of :: "string \<Rightarrow> string \<Rightarrow> string \<Rightarrow> string" where
  "cookie_key_of name domain path = name @ [CHR 0x00] @ js_toLowerCase domain @ [CHR 0x00] @ or_else path ''/''"

definition cookieKey :: "StoredCookie \<Rightarrow> string" where
  "cookieKey c = cookie_key_of (ck_name c) (opt_or (ck_domain c) []) (opt_or (ck_path c) [])"


section \<open>The store\<close>

definition effectiveDomain :: "string \<Rightarrow> CookieInfo \<Rightarrow> string" where
  "effectiveDomain originDomain c =
     (if truthy_opt (ck_domain c) then strip_dot (js_toLowerCase (the (ck_domain c))) else originDomain)"

definition storedCookie :: "string \<Rightarrow> int \<Rightarrow> CookieInfo \<Rightarrow> StoredCookie" where
  "storedCookie originDomain now c =
     CookieInfo.extend (c\<lparr>ck_domain := Some (effectiveDomain originDomain c)\<rparr>)
       \<lparr> sc_originDomain = originDomain, sc_storedAt = now \<rparr>"

definition put_cookie :: "StoredCookie \<Rightarrow> StoredCookie list \<Rightarrow> StoredCookie list" where
  "put_cookie stored xs =
     replace_or_push (\<lambda>c. cookieKey c = cookieKey stored) (\<lambda>_. stored) stored xs"

definition accepted :: "string \<Rightarrow> CookieInfo \<Rightarrow> bool" where
  "accepted originDomain c \<longleftrightarrow>
     domainMatches (effectiveDomain originDomain c) originDomain \<or> effectiveDomain originDomain c = originDomain"

fun store_all :: "string \<Rightarrow> int \<Rightarrow> CookieInfo list \<Rightarrow> StoredCookie list \<Rightarrow> StoredCookie list" where
  "store_all originDomain now [] xs = xs"
| "store_all originDomain now (c # cs) xs =
     store_all originDomain now cs
       (if \<not> accepted originDomain c then xs else put_cookie (storedCookie originDomain now c) xs)"

text \<open>\<open>now\<close> is the time of the call and \<open>now'\<close> the time at which expired cookies are dropped.\<close>

definition saveCookies ::
  "url_parser \<Rightarrow> (string \<Rightarrow> int option) \<Rightarrow> int \<Rightarrow> int \<Rightarrow> string \<Rightarrow> CookieInfo list \<Rightarrow> StoredCookie list
    \<Rightarrow> StoredCookie list" where
  "saveCookies url date now now' responseUrl cs jar =
     (if cs = [] then jar
      else
        let originDomain = extractDomain url responseUrl
        in if originDomain = [] then jar
           else filter (\<lambda>c. \<not> isExpired date now' c) (store_all originDomain now cs jar))"

definition getCookiesForUrl ::
  "url_parser \<Rightarrow> (string \<Rightarrow> int option) \<Rightarrow> int \<Rightarrow> string \<Rightarrow> StoredCookie list \<Rightarrow> StoredCookie list" where
  "getCookiesForUrl url date now u jar =
     (let host = extractDomain url u; path = extractPath url u
      in if host = [] then []
         else filter (\<lambda>c.
           if isExpired date now c then False
           else if \<not> domainMatches (opt_or (ck_domain c) (sc_originDomain c)) host then False
           else if \<not> pathMatches (ck_path c) path then False
           else if ck_secure c
           then (case url u of Some p \<Rightarrow> url_protocol p = ''https:'' | None \<Rightarrow> False)
           else True) jar)"

definition buildCookieHeader ::
  "url_parser \<Rightarrow> (string \<Rightarrow> int option) \<Rightarrow> int \<Rightarrow> string \<Rightarrow> StoredCookie list \<Rightarrow> string" where
  "buildCookieHeader url date now u jar =
     (let matching = getCookiesForUrl url date now u jar
      in if matching = [] then [] else js_join ''; '' (map (\<lambda>c. ck_name c @ ''='' @ ck_value c) matching))"

definition addCookie :: "StoredCookie \<Rightarrow> StoredCookie list \<Rightarrow> StoredCookie list" where
  "addCookie cookie jar = put_cookie cookie jar"

definition updateCookie :: "string \<Rightarrow> string \<Rightarrow> string \<Rightarrow> StoredCookie \<Rightarrow> StoredCookie list \<Rightarrow> StoredCookie list" where
  "updateCookie name domain path updated jar =
     (case findIndex (\<lambda>c. cookieKey c = cookie_key_of name domain path) jar of
        None \<Rightarrow> jar | Some idx \<Rightarrow> jar[idx := updated])"

definition removeCookie :: "string \<Rightarrow> string \<Rightarrow> string \<Rightarrow> StoredCookie list \<Rightarrow> StoredCookie list" where
  "removeCookie name domain path jar = filter (\<lambda>c. cookieKey c \<noteq> cookie_key_of name domain path) jar"

definition clearCookies :: "StoredCookie list \<Rightarrow> StoredCookie list" where
  "clearCookies jar = []"

definition clearDomain :: "string \<Rightarrow> StoredCookie list \<Rightarrow> StoredCookie list" where
  "clearDomain domain jar =
     filter (\<lambda>c. opt_or (ck_domain c) (sc_originDomain c) \<noteq> strip_dot (js_toLowerCase domain)) jar"


section \<open>One cookie per key\<close>

interpretation jar: keyed_upsert "\<lambda>k c. cookieKey c = k" cookieKey id "\<lambda>k c. c" "\<lambda>k c x. c"
  by unfold_locales auto

lemma put_cookie_distinct:
  "distinct (map cookieKey xs) \<Longrightarrow> distinct (map cookieKey (put_cookie c xs))"
  unfolding put_cookie_def by (rule jar.upsert_distinct) auto

lemma put_cookie_set: "set (put_cookie c xs) \<subseteq> insert c (set xs)"
  unfolding put_cookie_def using jar.set_upsert[of "cookieKey c" c xs] by auto

lemma put_cookie_mem: "c \<in> set (put_cookie c xs)"
  by (cases "findIndex (\<lambda>x. cookieKey x = cookieKey c) xs")
     (auto simp: put_cookie_def replace_or_push_def set_update_memI simp del: findIndex_None dest: findIndex_SomeD)

lemma put_cookie_keeps: "x \<in> set xs \<Longrightarrow> cookieKey x \<noteq> cookieKey c \<Longrightarrow> x \<in> set (put_cookie c xs)"
proof (cases rule: jar.upsert_cases[of xs "cookieKey c" c])
  case (replace ys y zs)
  assume "x \<in> set xs" "cookieKey x \<noteq> cookieKey c"
  then show ?thesis using replace unfolding put_cookie_def by auto
qed (auto simp: put_cookie_def)

lemma store_all_distinct:
  "distinct (map cookieKey xs) \<Longrightarrow> distinct (map cookieKey (store_all d now cs xs))"
  by (induction d now cs xs rule: store_all.induct) (auto simp: put_cookie_distinct)

lemma saveCookies_distinct:
  "distinct (map cookieKey jar) \<Longrightarrow> distinct (map cookieKey (saveCookies url date now now' u cs jar))"
  by (simp add: saveCookies_def Let_def distinct_map_filter store_all_distinct)

text \<open>The jar as a store of actions; \<open>updateCookie\<close> is asked not to collide with another cookie.\<close>

datatype jar_action =
    Save int int string "CookieInfo list"
  | Add StoredCookie
  | Update string string string StoredCookie
  | Remove string string string
  | Clear
  | ClearDomain string

fun jar_step :: "url_parser \<Rightarrow> (string \<Rightarrow> int option) \<Rightarrow> StoredCookie list \<Rightarrow> jar_action \<Rightarrow> StoredCookie list" where
  "jar_step url date jar (Save now now' u cs) = saveCookies url date now now' u cs jar"
| "jar_step url date jar (Add c) = addCookie c jar"
| "jar_step url date jar (Update n d p c) = updateCookie n d p c jar"
| "jar_step url date jar (Remove n d p) = removeCookie n d p jar"
| "jar_step url date jar Clear = clearCookies jar"
| "jar_step url date jar (ClearDomain d) = clearDomain d jar"

fun jar_ok :: "StoredCookie list \<Rightarrow> jar_action \<Rightarrow> bool" where
  "jar_ok jar (Update n d p c) =
     (cookieKey c = cookie_key_of n d p \<or> cookieKey c \<notin> cookieKey ` set jar)"
| "jar_ok jar _ = True"

lemma distinct_list_update_key:
  assumes "distinct (map f xs)" and "i < length xs" and "f y = f (xs ! i) \<or> f y \<notin> f ` set xs"
  shows "distinct (map f (xs[i := y]))"
  using assms by (auto simp: map_update distinct_list_update nth_eq_iff_index_eq)

lemma jar_step_distinct:
  assumes "distinct (map cookieKey jar)" and "jar_ok jar a"
  shows "distinct (map cookieKey (jar_step url date jar a))"
proof (cases a)
  case (Update n d p c)
  show ?thesis
  proof (cases "findIndex (\<lambda>c. cookieKey c = cookie_key_of n d p) jar")
    case None
    then show ?thesis using assms Update by (simp add: updateCookie_def del: findIndex_None)
  next
    case (Some i)
    then show ?thesis using assms Update findIndex_SomeD[OF Some]
      by (auto simp: updateCookie_def intro!: distinct_list_update_key)
  qed
qed (use assms in \<open>auto simp: saveCookies_distinct addCookie_def put_cookie_distinct removeCookie_def
      distinct_map_filter clearCookies_def clearDomain_def\<close>)

interpretation jar_store: action_store "[]" "jar_step url date" jar_ok "\<lambda>j. distinct (map cookieKey j)" for url date
  by unfold_locales (auto intro: jar_step_distinct)


section \<open>Storing and matching\<close>

text \<open>\<open>h\<close> is the domain \<open>d\<close> or one of its subdomains.\<close>

definition in_domain :: "string \<Rightarrow> string \<Rightarrow> bool" where
  "in_domain h d \<longleftrightarrow> h = d \<or> suffix (CHR ''.'' # d) h"

lemma domainMatches_iff:
  "domainMatches d h \<longleftrightarrow> in_domain (js_toLowerCase h) (strip_dot (js_toLowerCase d))"
  by (auto simp: domainMatches_def in_domain_def Let_def)

lemma lower_extractDomain [simp]: "js_toLowerCase (extractDomain url u) = extractDomain url u"
  by (simp add: extractDomain_def split: option.splits)

lemma in_domain_refl [simp]: "in_domain h (strip_dot h)"
  by (auto simp: in_domain_def strip_dot_def split: list.splits)

lemma lower_char_dot_iff [simp]: "lower_char c = CHR ''.'' \<longleftrightarrow> c = CHR ''.''"
  by (cases c) (auto simp: lower_char_def is_upper_def char_between_def)

lemma lower_strip_dot: "js_toLowerCase (strip_dot s) = strip_dot (js_toLowerCase s)"
  by (cases s) (auto simp: strip_dot_def)

lemma lower_effectiveDomain:
  "js_toLowerCase (effectiveDomain (extractDomain url u) c) = effectiveDomain (extractDomain url u) c"
  by (simp add: effectiveDomain_def lower_strip_dot)

lemma accepted_iff:
  "accepted (extractDomain url u) c
    \<longleftrightarrow> in_domain (extractDomain url u) (strip_dot (effectiveDomain (extractDomain url u) c))"
  by (auto simp: accepted_def domainMatches_iff lower_effectiveDomain)

lemma storedCookie_sel [simp]:
  "ck_name (storedCookie d now c) = ck_name c"
  "ck_value (storedCookie d now c) = ck_value c"
  "ck_domain (storedCookie d now c) = Some (effectiveDomain d c)"
  "ck_path (storedCookie d now c) = ck_path c"
  "ck_expires (storedCookie d now c) = ck_expires c"
  "ck_secure (storedCookie d now c) = ck_secure c"
  "sc_originDomain (storedCookie d now c) = d"
  by (simp_all add: storedCookie_def CookieInfo.defs)

text \<open>Whatever is new in the jar is an accepted cookie of the response.\<close>

lemma store_all_new:
  "x \<in> set (store_all d now cs xs) \<Longrightarrow> x \<notin> set xs \<Longrightarrow> \<exists>c \<in> set cs. accepted d c \<and> x = storedCookie d now c"
proof (induction d now cs xs rule: store_all.induct)
  case (2 d now c cs xs)
  then show ?case using put_cookie_set[of "storedCookie d now c" xs] by (fastforce split: if_splits)
qed simp

lemma saveCookies_new:
  assumes "x \<in> set (saveCookies url date now now' u cs jar)" and "x \<notin> set jar"
  shows "\<exists>c \<in> set cs. accepted (extractDomain url u) c \<and> x = storedCookie (extractDomain url u) now c"
  using assms by (auto simp: saveCookies_def Let_def split: if_splits dest!: store_all_new)

text \<open>A cookie stays until another one with its key is stored.\<close>

lemma store_all_keeps:
  assumes "x \<in> set xs" and "\<forall>c \<in> set cs. accepted d c \<longrightarrow> cookieKey (storedCookie d now c) \<noteq> cookieKey x"
  shows "x \<in> set (store_all d now cs xs)"
  using assms
proof (induction d now cs xs rule: store_all.induct)
  case (2 d now c cs xs)
  then have "x \<in> set (put_cookie (storedCookie d now c) xs)" if "accepted d c"
    using that by (intro put_cookie_keeps) auto
  with 2 show ?case by auto
qed simp

lemma store_all_append: "store_all d now (cs @ cs') xs = store_all d now cs' (store_all d now cs xs)"
  by (induction d now cs xs rule: store_all.induct) auto

lemma store_all_stores:
  assumes "accepted d c" and "\<forall>c' \<in> set cs'. accepted d c' \<longrightarrow>
    cookieKey (storedCookie d now c') \<noteq> cookieKey (storedCookie d now c)"
  shows "storedCookie d now c \<in> set (store_all d now (cs @ c # cs') xs)"
  using assms by (simp add: store_all_append store_all_keeps put_cookie_mem)

lemma getCookiesForUrl_iff:
  "c \<in> set (getCookiesForUrl url date now u jar) \<longleftrightarrow>
    c \<in> set jar \<and> extractDomain url u \<noteq> [] \<and> \<not> isExpired date now c
    \<and> in_domain (extractDomain url u) (strip_dot (js_toLowerCase (opt_or (ck_domain c) (sc_originDomain c))))
    \<and> pathMatches (ck_path c) (extractPath url u)
    \<and> (ck_secure c \<longrightarrow> map_option url_protocol (url u) = Some ''https:'')"
  by (auto simp: getCookiesForUrl_def Let_def domainMatches_iff split: option.splits if_splits)


section \<open>Properties\<close>

text \<open>The domain a stored cookie is matched against.\<close>

definition site_of :: "StoredCookie \<Rightarrow> string" where
  "site_of c = strip_dot (js_toLowerCase (opt_or (ck_domain c) (sc_originDomain c)))"

lemma accepted_site:
  "accepted (extractDomain url u) c \<Longrightarrow> in_domain (extractDomain url u) (site_of (storedCookie (extractDomain url u) now c))"
  by (simp add: site_of_def accepted_iff opt_or_def lower_effectiveDomain)

text \<open>\<^bold>\<open>C15\<close>. A cookie that the response to \<open>u1\<close> put into the jar is sent to \<open>u2\<close> only if both hosts are the
  cookie's domain or lie below it; it is then unexpired, its path covers the path of \<open>u2\<close>, and a
  secure cookie goes over https only.\<close>

theorem cookie_isolation:
  assumes "c \<in> set (getCookiesForUrl url date later u2 (saveCookies url date now now' u1 cs jar))"
    and "c \<notin> set jar"
  shows "in_domain (extractDomain url u1) (site_of c) \<and> in_domain (extractDomain url u2) (site_of c)
      \<and> \<not> isExpired date later c \<and> pathMatches (ck_path c) (extractPath url u2)
      \<and> (ck_secure c \<longrightarrow> map_option url_protocol (url u2) = Some ''https:'')"
proof -
  have mem: "c \<in> set (saveCookies url date now now' u1 cs jar)"
    using assms(1) by (simp add: getCookiesForUrl_iff)
  obtain c0 where "accepted (extractDomain url u1) c0" "c = storedCookie (extractDomain url u1) now c0"
    using saveCookies_new[OF mem assms(2)] by blast
  then have "in_domain (extractDomain url u1) (site_of c)" by (simp add: accepted_site)
  then show ?thesis using assms(1) by (simp add: getCookiesForUrl_iff site_of_def)
qed

text \<open>A parser for the two addresses of the examples below, and a cookie without attributes.\<close>

definition demo_url :: url_parser where
  "demo_url u =
     (if u = ''https://shop.io/a'' then Some \<lparr> url_protocol = ''https:'', url_hostname = ''shop.io'', url_pathname = ''/a'' \<rparr>
      else if u = ''http://x.shop.io/a'' then Some \<lparr> url_protocol = ''http:'', url_hostname = ''x.shop.io'', url_pathname = ''/a'' \<rparr>
      else None)"

definition demo_cookie :: "string \<Rightarrow> CookieInfo" where
  "demo_cookie n = \<lparr> ck_name = n, ck_value = ''1'', ck_domain = None, ck_path = None, ck_expires = None,
     ck_httpOnly = False, ck_secure = False, ck_sameSite = None \<rparr>"

theorem cookie_isolation_witness:
  "in_domain ''x.shop.io'' (site_of (storedCookie ''shop.io'' 0 (demo_cookie ''s'')))"
proof -
  have "extractDomain demo_url ''http://x.shop.io/a'' = ''x.shop.io''" by code_simp
  moreover have "storedCookie ''shop.io'' 0 (demo_cookie ''s'')
      \<in> set (getCookiesForUrl demo_url (\<lambda>_. None) 9 ''http://x.shop.io/a''
          (saveCookies demo_url (\<lambda>_. None) 0 0 ''https://shop.io/a'' [demo_cookie ''s''] []))"
    by code_simp
  ultimately show ?thesis
    using cookie_isolation[of "storedCookie ''shop.io'' 0 (demo_cookie ''s'')" demo_url "\<lambda>_. None" 9
        "''http://x.shop.io/a''" 0 0 "''https://shop.io/a''" "[demo_cookie ''s'']" "[]"] by simp
qed



text \<open>From the empty jar, every sequence of actions leaves at most one cookie per name, domain
  and path, as long as no \<open>updateCookie\<close> renames a cookie to the key of another one.\<close>

theorem cookie_jar_one_per_key:
  assumes "admissible (jar_step url date) jar_ok [] as"
  shows "distinct (map cookieKey (run (jar_step url date) [] as))"
  using assms by (rule jar_store.inv_run)

theorem cookie_jar_one_per_key_witness:
  "distinct (map cookieKey (run (jar_step demo_url (\<lambda>_. None)) []
     [Save 0 0 ''https://shop.io/a'' [demo_cookie ''s'', demo_cookie ''s''],
      Update ''s'' ''SHOP.io'' ''/'' (storedCookie ''shop.io'' 1 (demo_cookie ''t''))]))"
  by (rule cookie_jar_one_per_key) code_simp

text \<open>A cookie set without a \<open>Domain\<close> attribute by a host is sent to every subdomain of that host:
  it is stored with the host as its domain, and nothing records that it was host-only. (RFC 6265,
  which the jar names as its rule, returns such a cookie to the very host only.)\<close>

theorem host_only_cookie_reaches_subdomains:
  assumes "ck_domain c = None" and "ck_expires c = None" and "pathMatches (ck_path c) (extractPath url u2)"
    and "\<not> ck_secure c"
    and "h \<noteq> []" and "hd h \<noteq> CHR ''.''" and "extractDomain url u1 = h"
    and "extractDomain url u2 = sub @ ''.'' @ h"
  shows "getCookiesForUrl url date later u2 (saveCookies url date now now' u1 [c] []) = [storedCookie h now c]"
proof -
  have lower: "js_toLowerCase h = h" using assms(7) lower_extractDomain[of url u1] by simp
  have strip: "strip_dot h = h" using assms(5,6) by (cases h) (auto simp: strip_dot_def)
  have jar: "saveCookies url date now now' u1 [c] [] = [storedCookie h now c]"
    using assms by (simp add: saveCookies_def accepted_def effectiveDomain_def put_cookie_def replace_or_push_def
        isExpired_def)
  have "lower_char CHR ''.'' = CHR ''.''" by simp
  then have "suffix (CHR ''.'' # h) (js_toLowerCase sub @ lower_char CHR ''.'' # h)" by (simp only: suffix_def) simp
  then show ?thesis
    using assms lower strip unfolding jar
    by (simp add: getCookiesForUrl_def Let_def domainMatches_iff in_domain_def opt_or_def effectiveDomain_def
        isExpired_def)
qed

theorem host_only_cookie_reaches_subdomains_witness:
  "getCookiesForUrl demo_url (\<lambda>_. None) 9 ''http://x.shop.io/a''
     (saveCookies demo_url (\<lambda>_. None) 0 0 ''https://shop.io/a'' [demo_cookie ''s''] [])
   = [storedCookie ''shop.io'' 0 (demo_cookie ''s'')]"
proof -
  have "extractDomain demo_url ''https://shop.io/a'' = ''shop.io''"
    "extractDomain demo_url ''http://x.shop.io/a'' = ''x'' @ ''.'' @ ''shop.io''"
    "pathMatches (ck_path (demo_cookie ''s'')) (extractPath demo_url ''http://x.shop.io/a'')"
    "ck_domain (demo_cookie ''s'') = None" "ck_expires (demo_cookie ''s'') = None" "\<not> ck_secure (demo_cookie ''s'')"
    by code_simp+
  then show ?thesis by (intro host_only_cookie_reaches_subdomains[where sub = "''x''" and h = "''shop.io''"]) simp_all
qed

end
