(* ===== verification/SettingsStore.thy ===== *)
theory SettingsStore
  imports Interfaces Templates
begin

text \<open>
  The settings (\<open>src/src/stores/settingsStore.ts\<close>). The settings object is what JSON text was read
  into, so it is an object of JSON values; \<open>migrate\<close> and \<open>merge\<close> are the hooks the persistence layer
  calls on the stored object, the first on a change of version and the second always. Shown: after
  both, every setting has a value, stored values win over defaults, and theme and font are valid.
\<close>

type_synonym settings_object = "json dict"

text \<open>The type of every setting. Numbers that may have a fraction (percentages, pixels) are any number.\<close>

definition is_num :: "json \<Rightarrow> bool" where
  "is_num v = (case v of JNum _ \<Rightarrow> True | _ \<Rightarrow> False)"

definition is_bool :: "json \<Rightarrow> bool" where
  "is_bool v = (case v of JBool _ \<Rightarrow> True | _ \<Rightarrow> False)"

definition is_str :: "json \<Rightarrow> bool" where
  "is_str v = (case v of JStr _ \<Rightarrow> True | _ \<Rightarrow> False)"

definition AppSettings :: "(string \<times> (json \<Rightarrow> bool)) list" where
  "AppSettings =
     [(''theme'', \<lambda>v. v \<in> {JStr ''light'', JStr ''dark'', JStr ''system''}),
      (''language'', \<lambda>v. v \<in> {JStr ''zh-CN'', JStr ''en''}),
      (''fontSize'', \<lambda>v. v \<in> (\<lambda>n. JNum (JInt n)) ` {12, 13, 14, 15, 16}),
      (''fontFamily'', is_str),
      (''accentColor'', \<lambda>v. v \<in> JStr ` {''indigo'', ''cyan'', ''emerald'', ''violet''}),
      (''defaultTimeoutMs'', is_num), (''followRedirects'', is_bool), (''maxRedirects'', is_num),
      (''sslVerify'', is_bool), (''autoSaveCookies'', is_bool),
      (''proxyEnabled'', is_bool), (''proxyType'', \<lambda>v. v \<in> {JStr ''http'', JStr ''socks5''}),
      (''proxyHost'', is_str), (''proxyPort'', is_num), (''proxyAuth'', is_bool),
      (''proxyUsername'', is_str), (''proxyPassword'', is_str),
      (''maxHistoryCount'', is_num), (''autoSaveInterval'', is_num),
      (''sidebarWidth'', is_num), (''rightSidebarWidth'', is_num), (''windowWidth'', is_num), (''windowHeight'', is_num),
      (''defaultNewProtocol'', is_str)]"

definition settings_typed :: "settings_object \<Rightarrow> bool" where
  "settings_typed s = (\<forall>(k, ok) \<in> set AppSettings. case map_of s k of Some v \<Rightarrow> ok v | None \<Rightarrow> False)"

definition defaultSettings :: settings_object where
  "defaultSettings =
     [(''theme'', JStr ''dark''), (''language'', JStr ''zh-CN''), (''fontSize'', JNum (JInt 13)),
      (''fontFamily'', JStr ''ibm-plex''), (''accentColor'', JStr ''indigo''),
      (''defaultTimeoutMs'', JNum (JInt 30000)), (''followRedirects'', JBool True),
      (''maxRedirects'', JNum (JInt 5)), (''sslVerify'', JBool True), (''autoSaveCookies'', JBool False),
      (''proxyEnabled'', JBool False), (''proxyType'', JStr ''http''), (''proxyHost'', JStr []),
      (''proxyPort'', JNum (JInt 8080)), (''proxyAuth'', JBool False), (''proxyUsername'', JStr []),
      (''proxyPassword'', JStr []), (''maxHistoryCount'', JNum (JInt 200)),
      (''autoSaveInterval'', JNum (JInt 0)), (''sidebarWidth'', JNum (JInt 44)),
      (''rightSidebarWidth'', JNum (JInt 22)), (''windowWidth'', JNum (JInt 1280)),
      (''windowHeight'', JNum (JInt 800)), (''defaultNewProtocol'', JStr ''http'')]"

definition updateSetting :: "string \<Rightarrow> json \<Rightarrow> settings_object \<Rightarrow> settings_object" where
  "updateSetting key v settings = AList.update key v settings"

definition resetSettings :: "settings_object \<Rightarrow> settings_object" where
  "resetSettings settings = defaultSettings"

text \<open>The stored state is absent (\<open>None\<close>), or an object with or without \<open>settings\<close>.\<close>

definition mergeSettings :: "settings_object option option \<Rightarrow> settings_object \<Rightarrow> settings_object" where
  "mergeSettings persistedState current = spread current (nullish (nullish persistedState None) [])"

definition bad_font :: "json option \<Rightarrow> bool" where
  "bad_font ff \<longleftrightarrow> ff = Some (JStr ''mono'') \<or> ff = Some (JStr ''inter'')
     \<or> (case ff of Some (JStr s) \<Rightarrow> s = [] | _ \<Rightarrow> True)"

definition good_theme :: "json option \<Rightarrow> bool" where
  "good_theme t \<longleftrightarrow> t = Some (JStr ''light'') \<or> t = Some (JStr ''dark'') \<or> t = Some (JStr ''system'')"

definition migrate_object :: "settings_object \<Rightarrow> settings_object" where
  "migrate_object settings =
     (let s1 = (if bad_font (map_of settings ''fontFamily'')
                then AList.update ''fontFamily'' (JStr ''ibm-plex'') settings else settings)
      in if \<not> good_theme (map_of s1 ''theme'') then AList.update ''theme'' (JStr ''dark'') s1 else s1)"

definition migrateSettings :: "settings_object option option \<Rightarrow> settings_object option option" where
  "migrateSettings persistedState = map_option (map_option migrate_object) persistedState"


section \<open>Lemmas\<close>

lemma wf_defaultSettings [simp]: "wf_dict defaultSettings"
  by (simp add: defaultSettings_def wf_dict_def)

lemma good_default: "good_theme (map_of defaultSettings ''theme'')" "\<not> bad_font (map_of defaultSettings ''fontFamily'')"
  by (simp_all add: defaultSettings_def good_theme_def bad_font_def)

lemma settings_typed_iff:
  "settings_typed s \<longleftrightarrow> (\<forall>k ok. (k, ok) \<in> set AppSettings \<longrightarrow> (\<exists>v. map_of s k = Some v \<and> ok v))"
  by (fastforce simp: settings_typed_def split: option.splits)

lemma AppSettings_keys: "map fst AppSettings = map fst defaultSettings" "distinct (map fst AppSettings)"
  by (simp_all add: AppSettings_def defaultSettings_def)

lemma default_typed: "settings_typed defaultSettings"
  by (simp add: settings_typed_def AppSettings_def defaultSettings_def is_num_def is_bool_def is_str_def)

lemma update_typed:
  assumes "settings_typed s" and "map_of AppSettings k = Some ok" and "ok v"
  shows "settings_typed (updateSetting k v s)"
proof -
  have "ok' = ok" if "(k, ok') \<in> set AppSettings" for ok'
    using that assms(2) AppSettings_keys(2) by (simp add: map_of_eq_Some_iff)
  then show ?thesis using assms(1,3) by (auto simp: settings_typed_iff updateSetting_def update_conv')
qed

datatype settings_action = SetOne string json | ResetAll

fun settings_step :: "settings_object \<Rightarrow> settings_action \<Rightarrow> settings_object" where
  "settings_step s (SetOne k v) = updateSetting k v s"
| "settings_step s ResetAll = resetSettings s"

fun settings_ok :: "settings_object \<Rightarrow> settings_action \<Rightarrow> bool" where
  "settings_ok s (SetOne k v) = (case map_of AppSettings k of Some ok \<Rightarrow> ok v | None \<Rightarrow> False)"
| "settings_ok s ResetAll = True"

interpretation settings_store: action_store defaultSettings settings_step settings_ok settings_typed
proof
  show "settings_typed (settings_step s a)" if "settings_typed s" "settings_ok s a" for s a
    using that by (cases a) (auto simp: update_typed resetSettings_def default_typed split: option.splits)
qed (rule default_typed)

lemma wf_migrate: "wf_dict s \<Longrightarrow> wf_dict (migrate_object s)"
  by (simp add: migrate_object_def Let_def)

lemma migrate_good:
  "good_theme (map_of (migrate_object s) ''theme'')" "\<not> bad_font (map_of (migrate_object s) ''fontFamily'')"
  by (auto simp: migrate_object_def Let_def update_conv' good_theme_def bad_font_def)

lemma migrate_other:
  "k \<noteq> ''theme'' \<Longrightarrow> k \<noteq> ''fontFamily'' \<Longrightarrow> map_of (migrate_object s) k = map_of s k"
  by (simp add: migrate_object_def Let_def update_conv')


section \<open>Properties\<close>

text \<open>\<^bold>\<open>C17\<close>. Whatever settings object an earlier version stored, migrating it and merging it onto the
  defaults gives an object in which every setting has a value, the theme is one of the three themes
  and the font is not one of the retired ones; every other stored setting keeps its stored value, and
  every setting that was not stored has its default.\<close>

theorem settings_rehydrate:
  assumes "\<forall>d. p = Some (Some d) \<longrightarrow> wf_dict d"
  shows "let s = mergeSettings (migrateSettings p) defaultSettings in
      fst ` set defaultSettings \<subseteq> dom (map_of s)
      \<and> good_theme (map_of s ''theme'') \<and> \<not> bad_font (map_of s ''fontFamily'')
      \<and> (\<forall>k. k \<noteq> ''theme'' \<and> k \<noteq> ''fontFamily'' \<longrightarrow>
           map_of s k = (case map_of (nullish (nullish p None) []) k of Some v \<Rightarrow> Some v | None \<Rightarrow> map_of defaultSettings k))"
proof (cases "nullish p None")
  case None
  then have s: "mergeSettings (migrateSettings p) defaultSettings = defaultSettings"
    by (cases p) (auto simp: mergeSettings_def migrateSettings_def spread_def)
  show ?thesis unfolding s using None good_default by (auto simp: Let_def dom_map_of_conv_image_fst)
next
  case (Some d)
  then have p: "p = Some (Some d)" by (cases p) auto
  with assms have wf: "wf_dict (migrate_object d)" by (simp add: wf_migrate)
  have s: "map_of (mergeSettings (migrateSettings p) defaultSettings) k
      = (case map_of (migrate_object d) k of Some v \<Rightarrow> Some v | None \<Rightarrow> map_of defaultSettings k)" for k
    unfolding p mergeSettings_def migrateSettings_def by (simp add: map_of_spread[OF wf])
  have "fst ` set defaultSettings \<subseteq> dom (map_of (mergeSettings (migrateSettings p) defaultSettings))"
    unfolding dom_map_of_conv_image_fst[of defaultSettings, symmetric] by (auto simp: s dom_def split: option.splits)
  then show ?thesis
    using migrate_good[of d] Some
    by (auto simp: Let_def s migrate_other good_theme_def bad_font_def split: option.splits)
qed

theorem settings_rehydrate_witness:
  "let s = mergeSettings (migrateSettings (Some (Some [(''fontFamily'', JStr ''mono''), (''maxRedirects'', JNum (JInt 2))]))) defaultSettings
   in good_theme (map_of s ''theme'') \<and> map_of s ''maxRedirects'' = Some (JNum (JInt 2))
     \<and> map_of s ''proxyEnabled'' = Some (JBool False)"
  using settings_rehydrate[of "Some (Some [(''fontFamily'', JStr ''mono''), (''maxRedirects'', JNum (JInt 2))])"]
  by (simp add: Let_def wf_dict_def defaultSettings_def)

text \<open>From the defaults, every sequence of updates that write values of their setting's type, with
  resets in between, keeps the whole settings object well typed.\<close>

theorem settings_stay_typed:
  assumes "admissible settings_step settings_ok defaultSettings ups"
  shows "settings_typed (run settings_step defaultSettings ups)"
  using assms by (rule settings_store.inv_run)

theorem settings_stay_typed_witness:
  "settings_typed (run settings_step defaultSettings
     [SetOne ''fontSize'' (JNum (JInt 15)), ResetAll, SetOne ''language'' (JStr ''en'')])"
  by (rule settings_stay_typed) (simp add: AppSettings_def)

end
