(* ===== verification/ActivityLog.thy ===== *)
theory ActivityLog
  imports Json
begin

text \<open>
  The activity log (\<open>src/src/stores/activityLogStore.ts\<close>): every protocol module reports what it
  sends and receives here, newest entry first. Shown: the log holds the newest 2000 reports in order
  and no two entries share an id.

  The id counter of the module is part of the state. The two readings of the clock in one
  \<open>addEntry\<close> are given by \<open>clk\<close> at the number of the entry.
\<close>

datatype LogSource = LogHttp | LogTcp | LogUdp | LogWs | LogMqtt | LogSerial | LogModbus | LogSystem

datatype LogDirection = Sent | Received | Info

record LogReport =
  lr_source :: LogSource
  lr_direction :: LogDirection
  lr_summary :: string
  lr_rawData :: "string option"
  lr_protocol :: "string option"
  lr_meta :: "json dict option"

record ActivityLogEntry = LogReport +
  al_id :: string
  al_timestamp :: int

definition MAX_ENTRIES :: nat where "MAX_ENTRIES = 2000"

record log_state =
  lg_entries :: "ActivityLogEntry list"
  lg_filterRegex :: string
  lg_idCounter :: nat

definition log_init :: log_state where
  "log_init = \<lparr> lg_entries = [], lg_filterRegex = [], lg_idCounter = 0 \<rparr>"

definition log_id :: "int \<Rightarrow> nat \<Rightarrow> string" where
  "log_id now n = ''log_'' @ int_to_string now @ ''_'' @ nat_to_string n"

definition log_entry :: "(nat \<Rightarrow> int \<times> int) \<Rightarrow> nat \<Rightarrow> LogReport \<Rightarrow> ActivityLogEntry" where
  "log_entry clk n r = LogReport.extend r \<lparr> al_id = log_id (fst (clk n)) n, al_timestamp = snd (clk n) \<rparr>"

definition addLogEntry :: "(nat \<Rightarrow> int \<times> int) \<Rightarrow> LogReport \<Rightarrow> log_state \<Rightarrow> log_state" where
  "addLogEntry clk r s =
     (let n = lg_idCounter s + 1
      in s\<lparr>lg_entries := take MAX_ENTRIES (log_entry clk n r # lg_entries s), lg_idCounter := n\<rparr>)"

definition clearLog :: "log_state \<Rightarrow> log_state" where
  "clearLog s = s\<lparr>lg_entries := []\<rparr>"

definition setFilterRegex :: "string \<Rightarrow> log_state \<Rightarrow> log_state" where
  "setFilterRegex regex s = s\<lparr>lg_filterRegex := regex\<rparr>"


section \<open>Lemmas\<close>

lemma nat_to_string_no_underscore: "CHR ''_'' \<notin> set (nat_to_string n)"
proof
  assume "CHR ''_'' \<in> set (nat_to_string n)"
  then have "is_digit (CHR ''_'')" using nat_to_string_digits by blast
  then show False by (simp add: is_digit_def char_between_def)
qed

lemma after_last:
  assumes "a @ c # x = b @ c # y" and "c \<notin> set x" and "c \<notin> set y"
  shows "x = y"
proof -
  have "takeWhile (\<lambda>d. d \<noteq> c) (rev (a @ c # x)) = rev x" "takeWhile (\<lambda>d. d \<noteq> c) (rev (b @ c # y)) = rev y"
    using assms(2,3) by (auto simp: takeWhile_append2 intro!: takeWhile_append2[THEN trans])
  then show ?thesis unfolding assms(1) by simp
qed

lemma log_id_inj: "log_id s m = log_id t n \<Longrightarrow> m = n"
proof -
  assume "log_id s m = log_id t n"
  then have "(''log_'' @ int_to_string s) @ CHR ''_'' # nat_to_string m
      = (''log_'' @ int_to_string t) @ CHR ''_'' # nat_to_string n" by (simp add: log_id_def)
  then have "nat_to_string m = nat_to_string n"
    by (rule after_last) (rule nat_to_string_no_underscore)+
  then show ?thesis by (metis digits_val_nat_to_string)
qed

lemma log_entry_id [simp]: "al_id (log_entry clk n r) = log_id (fst (clk n)) n"
  by (simp add: log_entry_def LogReport.defs)

text \<open>The log oldest first is cut by the law of \<open>sized_log\<close>.\<close>

interpretation act: sized_log "\<lambda>_. 0" MAX_ENTRIES 0 "\<lambda>xs :: ActivityLogEntry list. rev (take MAX_ENTRIES (rev xs))"
  by (rule sized_log_take)

fun numbered :: "(nat \<Rightarrow> int \<times> int) \<Rightarrow> nat \<Rightarrow> LogReport list \<Rightarrow> ActivityLogEntry list" where
  "numbered clk n [] = []"
| "numbered clk n (r # rs) = log_entry clk (Suc n) r # numbered clk (Suc n) rs"

lemma add_as_push:
  "rev (lg_entries (foldl (\<lambda>s r. addLogEntry clk r s) s rs))
    = foldl (\<lambda>log x. rev (take MAX_ENTRIES (rev (log @ [x])))) (rev (lg_entries s)) (numbered clk (lg_idCounter s) rs)"
  by (induction rs arbitrary: s) (simp_all add: addLogEntry_def Let_def)

lemma numbered_ids: "x \<in> set (numbered clk n rs) \<Longrightarrow> \<exists>t m. n < m \<and> al_id x = log_id t m"
proof (induction rs arbitrary: n)
  case (Cons r rs)
  show ?case
  proof (cases "x \<in> set (numbered clk (Suc n) rs)")
    case True
    then show ?thesis using Cons.IH by (meson Suc_lessD)
  next
    case False
    with Cons.prems show ?thesis by auto
  qed
qed simp

lemma distinct_numbered: "distinct (map al_id (numbered clk n rs))"
proof (induction rs arbitrary: n)
  case (Cons r rs)
  have "al_id x \<noteq> log_id t (Suc n)" if "x \<in> set (numbered clk (Suc n) rs)" for x t
    using numbered_ids[OF that] log_id_inj by (metis less_irrefl)
  then have "log_id (fst (clk (Suc n))) (Suc n) \<notin> al_id ` set (numbered clk (Suc n) rs)" by (metis imageE)
  then show ?case using Cons.IH by simp
qed simp


section \<open>Properties\<close>

text \<open>Starting from an empty log, reporting any sequence of events leaves exactly the newest 2000 of
  them, newest first, each stamped with its own number, and all ids are distinct.\<close>

theorem activity_log_newest:
  "let s = foldl (\<lambda>s r. addLogEntry clk r s) log_init rs
   in lg_entries s = take MAX_ENTRIES (rev (numbered clk 0 rs)) \<and> distinct (map al_id (lg_entries s))"
proof -
  have "lg_entries (foldl (\<lambda>s r. addLogEntry clk r s) log_init rs) = take MAX_ENTRIES (rev (numbered clk 0 rs))"
    using add_as_push[of clk log_init rs] act.evict_pushes_from_fit[of "[]" "numbered clk 0 rs"]
    by (simp add: log_init_def fits_def rev_swap)
  moreover have "distinct (map al_id (take MAX_ENTRIES (rev (numbered clk 0 rs))))"
    using distinct_numbered[of clk 0 rs] by (simp add: take_map[symmetric] rev_map[symmetric])
  ultimately show ?thesis by (simp add: Let_def)
qed

end
