(* ===== verification/HttpService.thy ===== *)
theory HttpService
  imports RequestVariables CookieJar SettingsStore ActivityLog
begin

text \<open>
  Sending a request (\<open>src/src/services/httpService.ts\<close>): refreshing an OAuth2 token, building the
  payload from a resolved configuration, the changes a pre-request script and the plugin hooks make
  to it, the cookie jar, the settings, and the two send operations. This theory holds the
  definitions; \<open>HttpProps\<close> has the theorems.

  The backend commands (\<open>invoke\<close>) are functions from their arguments to a reply, \<open>Inl\<close> being a
  rejected promise; the operations return the list of the invocations they make. Between two awaits
  other code may run: the stores are then changed by an arbitrary function, \<open>w0\<close>, \<open>w1\<close> and so on.
\<close>

section \<open>Building the payload\<close>

datatype PayloadBody =
    PayloadNone
  | PayloadRaw string string
  | PayloadJson string
  | PayloadUrlencoded "string dict"
  | PayloadFormData "(string \<times> string \<times> FieldType) list"
  | PayloadBinary string

datatype PayloadAuth =
    PayloadBearer string
  | PayloadBasic string string
  | PayloadApiKey string string ApiKeyAddTo

record RequestPayload =
  pl_method :: HttpMethod
  pl_url :: string
  pl_headers :: "string dict"
  pl_queryParams :: "string dict"
  pl_body :: PayloadBody
  pl_auth :: "PayloadAuth option"
  pl_timeoutMs :: int
  pl_followRedirects :: bool

definition scheme_char :: "char \<Rightarrow> bool" where
  "scheme_char c \<longleftrightarrow> is_alpha c \<or> is_digit c \<or> c \<in> {CHR ''+'', CHR ''-'', CHR ''.''}"

text \<open>\<open>/^[a-zA-Z][a-zA-Z0-9+\-.]*:\/\//\<close>. A colon is not in the class, so the class is matched as far as
  it goes.\<close>

definition has_scheme :: "string \<Rightarrow> bool" where
  "has_scheme s \<longleftrightarrow> (case s of [] \<Rightarrow> False | c # cs \<Rightarrow> is_alpha c \<and> prefix ''://'' (dropWhile scheme_char cs))"

definition normalizeUrl :: "string \<Rightarrow> string" where
  "normalizeUrl url =
     (let trimmed = js_trim url
      in if trimmed = [] then trimmed
         else if has_scheme trimmed then trimmed
         else ''http://'' @ trimmed)"

text \<open>The loop that fills an object from the enabled rows with a key.\<close>

definition enabled_pairs :: "KeyValue list \<Rightarrow> (string \<times> string) list" where
  "enabled_pairs kvs = map (\<lambda>h. (js_trim (kv_key h), kv_value h))
     (filter (\<lambda>h. kv_enabled h \<and> truthy (js_trim (kv_key h))) kvs)"

definition object_of_rows :: "KeyValue list \<Rightarrow> string dict" where
  "object_of_rows kvs = fromEntries (enabled_pairs kvs)"

definition file_paths :: "FormDataField \<Rightarrow> string list" where
  "file_paths f =
     (case fd_filePaths f of
        Some (p # ps) \<Rightarrow> p # ps
      | _ \<Rightarrow> if truthy (fd_value f) then filter truthy (map js_trim (js_split (CHR '','') (fd_value f))) else [])"

definition form_data_payload :: "FormDataField list \<Rightarrow> (string \<times> string \<times> FieldType) list" where
  "form_data_payload fs = concat (map (\<lambda>f.
     if fd_enabled f \<and> truthy (js_trim (fd_key f))
     then (if fd_fieldType f = FieldFile
           then map (\<lambda>p. (js_trim (fd_key f), p, FieldFile)) (file_paths f)
           else [(js_trim (fd_key f), fd_value f, fd_fieldType f)])
     else []) fs)"

definition graphql_payload :: "string \<Rightarrow> string \<Rightarrow> json" where
  "graphql_payload query vars =
     JObj ([(''query'', JStr query)]
       @ (case JSON_parse (or_else vars ''{}'') of
            Some (JObj kvs) \<Rightarrow> [(''variables'', JObj kvs)]
          | Some (JArr vs) \<Rightarrow> [(''variables'', JArr vs)]
          | _ \<Rightarrow> []))"

definition payload_body :: "HttpRequestConfig \<Rightarrow> PayloadBody" where
  "payload_body config =
     (case (if rq_requestMode config = ModeGraphql then BodyGraphql else rq_bodyType config) of
        BodyRaw \<Rightarrow> PayloadRaw (rq_rawBody config) (or_else (rq_rawContentType config) ''text/plain'')
      | BodyJson \<Rightarrow> PayloadJson (rq_jsonBody config)
      | BodyGraphql \<Rightarrow>
          PayloadJson (JSON_stringify (graphql_payload (rq_graphqlQuery config) (rq_graphqlVariables config)))
      | BodyFormUrlencoded \<Rightarrow> PayloadUrlencoded (object_of_rows (rq_formFields config))
      | BodyFormData \<Rightarrow> PayloadFormData (form_data_payload (rq_formDataFields config))
      | BodyBinary \<Rightarrow>
          if truthy (rq_binaryFilePath config) then PayloadBinary (rq_binaryFilePath config) else PayloadNone
      | BodyNone \<Rightarrow> PayloadNone)"

definition payload_auth :: "HttpRequestConfig \<Rightarrow> PayloadAuth option" where
  "payload_auth config =
     (case rq_authType config of
        AuthBearer \<Rightarrow> Some (PayloadBearer (rq_bearerToken config))
      | AuthBasic \<Rightarrow> Some (PayloadBasic (rq_basicUsername config) (rq_basicPassword config))
      | AuthApiKey \<Rightarrow> Some (PayloadApiKey (rq_apiKeyName config) (rq_apiKeyValue config) (rq_apiKeyAddTo config))
      | AuthOauth2 \<Rightarrow>
          if truthy (oa_accessToken (rq_oauth2Config config))
          then Some (PayloadBearer (oa_accessToken (rq_oauth2Config config))) else None
      | AuthNone \<Rightarrow> None)"

definition buildRequestPayload :: "HttpRequestConfig \<Rightarrow> RequestPayload" where
  "buildRequestPayload config = \<lparr>
     pl_method = rq_method config,
     pl_url = before_char (CHR ''?'') (normalizeUrl (rq_url config)),
     pl_headers = object_of_rows (rq_headers config),
     pl_queryParams = object_of_rows (rq_queryParams config),
     pl_body = payload_body config,
     pl_auth = payload_auth config,
     pl_timeoutMs = rq_timeoutMs config,
     pl_followRedirects = rq_followRedirects config \<rparr>"


section \<open>OAuth2 token refresh\<close>

definition TOKEN_REFRESH_BUFFER_MS :: int where "TOKEN_REFRESH_BUFFER_MS = 30000"

record TokenReply =
  tk_accessToken :: string
  tk_expiresIn :: "int option"
  tk_refreshToken :: "string option"

record TokenUpdates =
  tu_accessToken :: string
  tu_tokenExpiresAt :: int
  tu_refreshToken :: "string option"

record TokenRequest =
  tq_accessTokenUrl :: string
  tq_clientId :: string
  tq_clientSecret :: string
  tq_scope :: "string option"
  tq_refreshToken :: string

text \<open>What a call does before its first await: it returns at once, waits for the refresh in progress, or
  takes the lock and asks for a token.\<close>

datatype refresh_start = RefreshNotNeeded | RefreshWait | RefreshFetch TokenRequest

definition token_request :: "OAuth2Config \<Rightarrow> TokenRequest" where
  "token_request oc = \<lparr>
     tq_accessTokenUrl = oa_accessTokenUrl oc, tq_clientId = oa_clientId oc, tq_clientSecret = oa_clientSecret oc,
     tq_scope = (if truthy (oa_scope oc) then Some (oa_scope oc) else None), tq_refreshToken = oa_refreshToken oc \<rparr>"

definition maybeRefreshOAuth2Token :: "int \<Rightarrow> bool \<Rightarrow> HttpRequestConfig \<Rightarrow> refresh_start" where
  "maybeRefreshOAuth2Token now locked config =
     (let oc = rq_oauth2Config config
      in if rq_authType config \<noteq> AuthOauth2 then RefreshNotNeeded
         else if \<not> truthy (oa_refreshToken oc) \<or> \<not> truthy (oa_accessTokenUrl oc) then RefreshNotNeeded
         else if oa_tokenExpiresAt oc = 0 then RefreshNotNeeded
         else if TOKEN_REFRESH_BUFFER_MS < oa_tokenExpiresAt oc - now then RefreshNotNeeded
         else if locked then RefreshWait
         else RefreshFetch (token_request oc))"

definition token_updates :: "int \<Rightarrow> TokenReply \<Rightarrow> TokenUpdates" where
  "token_updates now r = \<lparr>
     tu_accessToken = tk_accessToken r,
     tu_tokenExpiresAt = (case tk_expiresIn r of Some n \<Rightarrow> if n \<noteq> 0 then now + n * 1000 else 0 | None \<Rightarrow> 0),
     tu_refreshToken = (if truthy_opt (tk_refreshToken r) then tk_refreshToken r else None) \<rparr>"

definition apply_token :: "TokenUpdates \<Rightarrow> HttpRequestConfig \<Rightarrow> HttpRequestConfig" where
  "apply_token u config = config\<lparr>rq_oauth2Config := (rq_oauth2Config config)\<lparr>
     oa_accessToken := tu_accessToken u, oa_tokenExpiresAt := tu_tokenExpiresAt u,
     oa_refreshToken := (case tu_refreshToken u of Some t \<Rightarrow> t | None \<Rightarrow> oa_refreshToken (rq_oauth2Config config))\<rparr>\<rparr>"

text \<open>The rest of the call after the reply: the configuration it returns and what it reports to
  \<open>onTokenUpdated\<close> (an exception of that callback is caught like a failed refresh and is not
  modelled). The lock is then free.\<close>

definition finish_refresh ::
  "int \<Rightarrow> string + TokenReply \<Rightarrow> HttpRequestConfig \<Rightarrow> HttpRequestConfig \<times> TokenUpdates option" where
  "finish_refresh now reply config =
     (case reply of
        Inl _ \<Rightarrow> (config, None)
      | Inr r \<Rightarrow> (apply_token (token_updates now r) config, Some (token_updates now r)))"


section \<open>Scripts and settings\<close>

text \<open>\<open>new URLSearchParams(fields).toString()\<close>: bytes of the UTF-8 text outside the safe set are written as
  two upper-case hexadecimal digits, a space as a plus sign.\<close>

definition upper_hex :: "nat \<Rightarrow> char" where
  "upper_hex n = ''0123456789ABCDEF'' ! (n mod 16)"

definition form_char :: "char \<Rightarrow> string" where
  "form_char c =
     (if c = CHR '' '' then ''+''
      else if is_alpha c \<or> is_digit c \<or> c \<in> {CHR ''*'', CHR ''-'', CHR ''.'', CHR ''_''} then [c]
      else [CHR ''%'', upper_hex (of_char c div 16), upper_hex (of_char c)])"

definition urlSearchParams :: "string dict \<Rightarrow> string" where
  "urlSearchParams d =
     js_join ''&'' (map (\<lambda>(k, v). concat (map form_char k) @ ''='' @ concat (map form_char v)) d)"

fun field_type_name :: "FieldType \<Rightarrow> string" where
  "field_type_name FieldText = ''text''"
| "field_type_name FieldFile = ''file''"

definition json_of_form_data :: "(string \<times> string \<times> FieldType) list \<Rightarrow> json" where
  "json_of_form_data fs = JArr (map (\<lambda>(k, v, t).
     JObj [(''key'', JStr k), (''value'', JStr v), (''fieldType'', JStr (field_type_name t))]) fs)"

record ScriptRequestContext =
  sx_method :: HttpMethod
  sx_url :: string
  sx_headers :: "string dict"
  sx_queryParams :: "string dict"
  sx_body :: "string option"

definition buildScriptRequestContext :: "RequestPayload \<Rightarrow> ScriptRequestContext" where
  "buildScriptRequestContext p = \<lparr>
     sx_method = pl_method p, sx_url = pl_url p, sx_headers = pl_headers p, sx_queryParams = pl_queryParams p,
     sx_body = (case pl_body p of
        PayloadRaw content _ \<Rightarrow> Some content
      | PayloadJson data \<Rightarrow> Some data
      | PayloadUrlencoded fs \<Rightarrow> Some (urlSearchParams fs)
      | PayloadFormData fs \<Rightarrow> Some (JSON_stringify (json_of_form_data fs))
      | PayloadBinary path \<Rightarrow> Some path
      | PayloadNone \<Rightarrow> None) \<rparr>"

definition removeHeaderCaseInsensitive :: "string dict \<Rightarrow> string \<Rightarrow> string dict" where
  "removeHeaderCaseInsensitive headers key =
     filter (\<lambda>(existing, _). js_toLowerCase existing \<noteq> js_toLowerCase key) headers"

definition set_header :: "string dict \<Rightarrow> string \<times> string \<Rightarrow> string dict" where
  "set_header headers kv = AList.update (fst kv) (snd kv) (removeHeaderCaseInsensitive headers (fst kv))"

definition applyScriptRequestPatch :: "RequestPayload \<Rightarrow> ScriptRequestPatch option \<Rightarrow> RequestPayload" where
  "applyScriptRequestPatch payload patch =
     (case patch of
        None \<Rightarrow> payload
      | Some pt \<Rightarrow> payload\<lparr>
          pl_headers := foldl set_header
            (foldl removeHeaderCaseInsensitive (pl_headers payload) (sp_removedHeaders pt)) (sp_headers pt),
          pl_queryParams := assign_entries
            (foldl (\<lambda>q k. AList.delete k q) (pl_queryParams payload) (sp_removedQueryParams pt)) (sp_queryParams pt)\<rparr>)"

definition mergeScriptScopeMap :: "string dict \<Rightarrow> string dict option \<Rightarrow> string dict" where
  "mergeScriptScopeMap base updates =
     (case updates of None \<Rightarrow> base | Some u \<Rightarrow> if u = [] then base else spread base u)"

text \<open>The payload with what the settings add. A setting that is absent is \<open>None\<close>.\<close>

record ProxyPayload =
  px_type :: "json option"
  px_host :: "json option"
  px_port :: "json option"
  px_auth :: "(json option \<times> json option) option"

record FinalPayload = RequestPayload +
  fp_timeoutMs :: "json option"
  fp_followRedirects :: bool
  fp_maxRedirects :: "json option"
  fp_sslVerify :: "json option"
  fp_proxy :: "ProxyPayload option"

definition setting_on :: "settings_object \<Rightarrow> string \<Rightarrow> bool" where
  "setting_on s k = (case map_of s k of Some v \<Rightarrow> js_Boolean v | None \<Rightarrow> False)"

definition buildFinalPayload :: "settings_object \<Rightarrow> RequestPayload \<Rightarrow> FinalPayload" where
  "buildFinalPayload settings p = RequestPayload.extend p \<lparr>
     fp_timeoutMs = (if pl_timeoutMs p \<noteq> 0 then Some (JNum (JInt (pl_timeoutMs p))) else map_of settings ''defaultTimeoutMs''),
     fp_followRedirects = pl_followRedirects p,
     fp_maxRedirects = map_of settings ''maxRedirects'',
     fp_sslVerify = map_of settings ''sslVerify'',
     fp_proxy = (if setting_on settings ''proxyEnabled'' then Some \<lparr>
         px_type = map_of settings ''proxyType'',
         px_host = map_of settings ''proxyHost'',
         px_port = map_of settings ''proxyPort'',
         px_auth = (if setting_on settings ''proxyAuth''
           then Some (map_of settings ''proxyUsername'', map_of settings ''proxyPassword'') else None) \<rparr>
       else None) \<rparr>"


section \<open>Cookies\<close>

definition octet :: "string \<Rightarrow> bool" where
  "octet s \<longleftrightarrow> 1 \<le> length s \<and> length s \<le> 3 \<and> list_all is_digit s"

text \<open>\<open>/^(\d{1,3}\.){3}\d{1,3}$/\<close>, or a colon and no dot.\<close>

definition is_ip :: "string \<Rightarrow> bool" where
  "is_ip h \<longleftrightarrow> (length (js_split (CHR ''.'') h) = 4 \<and> list_all octet (js_split (CHR ''.'') h))
     \<or> (CHR '':'' \<in> set h \<and> CHR ''.'' \<notin> set h)"

definition filter_cookie :: "string \<Rightarrow> CookieInfo \<Rightarrow> CookieInfo option" where
  "filter_cookie requestHost c =
     (if \<not> truthy_opt (ck_domain c) then Some (c\<lparr>ck_domain := Some requestHost\<rparr>)
      else
        let cookieDomain = strip_dot (js_toLowerCase (the (ck_domain c)))
        in if (if is_ip requestHost then requestHost = cookieDomain
               else requestHost = cookieDomain \<or> suffix (CHR ''.'' # cookieDomain) requestHost)
           then Some c else None)"

definition processAndFilterCookies :: "url_parser \<Rightarrow> string \<Rightarrow> CookieInfo list \<Rightarrow> CookieInfo list" where
  "processAndFilterCookies url urlStr cookies =
     (case url urlStr of
        None \<Rightarrow> cookies
      | Some u \<Rightarrow> List.map_filter (filter_cookie (js_toLowerCase (url_hostname u))) cookies)"


section \<open>Plugin hooks\<close>

record HookPlugin =
  hp_id :: string
  hp_name :: string

record HookResult =
  hr_headers :: "string dict option"
  hr_queryParams :: "string dict option"
  hr_error :: "string option"

fun method_name :: "HttpMethod \<Rightarrow> string" where
  "method_name GET = ''GET''"
| "method_name POST = ''POST''"
| "method_name PUT = ''PUT''"
| "method_name DELETE = ''DELETE''"
| "method_name PATCH = ''PATCH''"
| "method_name HEAD = ''HEAD''"
| "method_name OPTIONS = ''OPTIONS''"

definition json_of_dict :: "string dict \<Rightarrow> json" where
  "json_of_dict d = JObj (map (\<lambda>(k, v). (k, JStr v)) d)"

fun json_of_body :: "PayloadBody \<Rightarrow> json" where
  "json_of_body PayloadNone = JObj [(''type'', JStr ''none'')]"
| "json_of_body (PayloadRaw c t) = JObj [(''type'', JStr ''raw''), (''content'', JStr c), (''contentType'', JStr t)]"
| "json_of_body (PayloadJson d) = JObj [(''type'', JStr ''json''), (''data'', JStr d)]"
| "json_of_body (PayloadUrlencoded fs) = JObj [(''type'', JStr ''formUrlencoded''), (''fields'', json_of_dict fs)]"
| "json_of_body (PayloadFormData fs) = JObj [(''type'', JStr ''formData''), (''fields'', json_of_form_data fs)]"
| "json_of_body (PayloadBinary p) = JObj [(''type'', JStr ''binary''), (''filePath'', JStr p)]"

definition hook_request :: "RequestPayload \<Rightarrow> string" where
  "hook_request p = JSON_stringify (JObj
     [(''method'', JStr (method_name (pl_method p))), (''url'', JStr (pl_url p)),
      (''headers'', json_of_dict (pl_headers p)), (''queryParams'', json_of_dict (pl_queryParams p)),
      (''body'', json_of_body (pl_body p))])"

definition apply_hook :: "string + HookResult \<Rightarrow> RequestPayload \<Rightarrow> RequestPayload" where
  "apply_hook reply p =
     (case reply of
        Inl _ \<Rightarrow> p
      | Inr r \<Rightarrow>
          if truthy_opt (hr_error r) then p
          else p\<lparr>pl_headers := (case hr_headers r of Some h \<Rightarrow> spread (pl_headers p) h | None \<Rightarrow> pl_headers p),
                 pl_queryParams := (case hr_queryParams r of Some q \<Rightarrow> spread (pl_queryParams p) q | None \<Rightarrow> pl_queryParams p)\<rparr>)"

text \<open>The loop over the plugins; \<open>runHook\<close> also gets the number of the call.\<close>

fun run_hooks ::
  "(nat \<Rightarrow> string \<Rightarrow> string \<Rightarrow> string + HookResult) \<Rightarrow> nat \<Rightarrow> HookPlugin list \<Rightarrow> RequestPayload \<Rightarrow> RequestPayload" where
  "run_hooks runHook n [] p = p"
| "run_hooks runHook n (plugin # plugins) p =
     run_hooks runHook (Suc n) plugins (apply_hook (runHook n (hp_id plugin) (hook_request p)) p)"


text \<open>The calls the loop makes.\<close>

fun hook_calls ::
  "(nat \<Rightarrow> string \<Rightarrow> string \<Rightarrow> string + HookResult) \<Rightarrow> nat \<Rightarrow> HookPlugin list \<Rightarrow> RequestPayload \<Rightarrow> (string \<times> string) list" where
  "hook_calls runHook n [] p = []"
| "hook_calls runHook n (plugin # plugins) p =
     (hp_id plugin, hook_request p)
       # hook_calls runHook (Suc n) plugins (apply_hook (runHook n (hp_id plugin) (hook_request p)) p)"


section \<open>The stores and the backend\<close>

record http_world =
  hw_coll :: coll_state
  hw_env :: env_state
  hw_tabs :: "AppTab list"
  hw_settings :: settings_object
  hw_jar :: "StoredCookie list"
  hw_log :: log_state
  hw_hooks :: "HookPlugin list"

text \<open>The clocks, the dynamic variables and the platform's parsers. \<open>io_dyn\<close> is the source of dynamic
  values of the first and of the second resolution, \<open>io_dyn0\<close> that of the snapshot.\<close>

record http_io =
  io_url :: url_parser
  io_date :: "string \<Rightarrow> int option"
  io_clk :: "nat \<Rightarrow> int \<times> int"
  io_matchedAt :: int
  io_savedAt :: int
  io_evictedAt :: int
  io_dyn :: "nat \<Rightarrow> nat list \<Rightarrow> string \<Rightarrow> string"
  io_dyn0 :: "string \<Rightarrow> string"

record script_args =
  sa_script :: string
  sa_envVars :: "string dict option"
  sa_folderVars :: "string dict option"
  sa_collectionVars :: "string dict option"
  sa_globalVars :: "string dict option"

record script_response =
  sv_status :: int
  sv_statusText :: string
  sv_body :: string
  sv_headers :: "(string \<times> string) list"
  sv_durationMs :: int

record http_backend =
  be_runPre :: "script_args \<Rightarrow> ScriptRequestContext \<Rightarrow> string + ScriptResult"
  be_runHook :: "nat \<Rightarrow> string \<Rightarrow> string \<Rightarrow> string + HookResult"
  be_send :: "FinalPayload \<Rightarrow> string + HttpResponse"
  be_runPost :: "script_args \<Rightarrow> script_response \<Rightarrow> string + ScriptResult"

datatype invocation =
    RunPreRequestScript script_args ScriptRequestContext
  | RunHook string string
  | SendRequest FinalPayload
  | RunPostResponseScript script_args script_response

definition applyCookieJar :: "http_io \<Rightarrow> http_world \<Rightarrow> RequestPayload \<Rightarrow> RequestPayload" where
  "applyCookieJar io w p =
     (if \<not> setting_on (hw_settings w) ''autoSaveCookies'' then p
      else
        let cookieHeader = buildCookieHeader (io_url io) (io_date io) (io_matchedAt io) (pl_url p) (hw_jar w)
        in if cookieHeader = [] then p
           else if List.find (\<lambda>(k, _). js_toLowerCase k = ''cookie'') (pl_headers p) \<noteq> None then p
           else p\<lparr>pl_headers := AList.update ''Cookie'' cookieHeader (pl_headers p)\<rparr>)"

definition saveResponseCookies :: "http_io \<Rightarrow> string \<Rightarrow> HttpResponse \<Rightarrow> http_world \<Rightarrow> http_world" where
  "saveResponseCookies io u resp w =
     (if \<not> setting_on (hw_settings w) ''autoSaveCookies'' then w
      else if rs_cookies resp \<noteq> []
      then w\<lparr>hw_jar := saveCookies (io_url io) (io_date io) (io_savedAt io) (io_evictedAt io) u (rs_cookies resp) (hw_jar w)\<rparr>
      else w)"

definition trace :: "http_io \<Rightarrow> string \<Rightarrow> LogDirection \<Rightarrow> json dict option \<Rightarrow> http_world \<Rightarrow> http_world" where
  "trace io summary direction meta w = w\<lparr>hw_log := addLogEntry (io_clk io)
     \<lparr> lr_source = LogHttp, lr_direction = direction, lr_summary = summary, lr_rawData = None,
       lr_protocol = Some ''HTTP'', lr_meta = meta \<rparr> (hw_log w)\<rparr>"

definition json_of_opt :: "('a \<Rightarrow> json) \<Rightarrow> 'a option \<Rightarrow> json" where
  "json_of_opt f x = (case x of Some y \<Rightarrow> f y | None \<Rightarrow> JNull)"

definition json_int :: "int \<Rightarrow> json" where
  "json_int n = JNum (JInt n)"

definition json_of_timing :: "ResponseTiming \<Rightarrow> json" where
  "json_of_timing t = JObj [(''totalMs'', json_int (tm_totalMs t)), (''connectMs'', json_of_opt json_int (tm_connectMs t)),
     (''ttfbMs'', json_of_opt json_int (tm_ttfbMs t)), (''downloadMs'', json_of_opt json_int (tm_downloadMs t))]"

definition json_of_test :: "TestResult \<Rightarrow> json" where
  "json_of_test t = JObj [(''name'', JStr (tr_name t)), (''passed'', JBool (tr_passed t)),
     (''error'', json_of_opt JStr (tr_error t))]"

definition trace_sent :: "http_io \<Rightarrow> json dict \<Rightarrow> FinalPayload \<Rightarrow> http_world \<Rightarrow> http_world" where
  "trace_sent io extra p = trace io
     (utf8_text [8594] @ '' '' @ method_name (pl_method p) @ '' '' @ pl_url p) Sent
     (Some ([(''method'', JStr (method_name (pl_method p))), (''url'', JStr (pl_url p)),
             (''headerCount'', json_int (int (length (pl_headers p))))] @ extra))"

definition trace_received :: "http_io \<Rightarrow> HttpResponse \<Rightarrow> http_world \<Rightarrow> http_world" where
  "trace_received io r = trace io
     (utf8_text [8592] @ '' '' @ int_to_string (rs_status r) @ '' '' @ rs_statusText r @ '' ('' @ int_to_string (rs_durationMs r)
       @ ''ms, '' @ int_to_string (rs_bodySize r) @ ''B)'') Received
     (Some [(''status'', json_int (rs_status r)), (''durationMs'', json_int (rs_durationMs r)),
            (''bodySize'', json_int (rs_bodySize r)), (''timing'', json_of_timing (rs_timing r))])"


section \<open>Sending\<close>

text \<open>\<open>owner\<close> is the tab that holds the very configuration object, see \<open>linked_for_config\<close>.\<close>

definition resolveConfigVariables ::
  "(nat list \<Rightarrow> string \<Rightarrow> string) \<Rightarrow> http_world \<Rightarrow> string option \<Rightarrow> HttpRequestConfig \<Rightarrow> string dict option
    \<Rightarrow> HttpRequestConfig" where
  "resolveConfigVariables dyn w owner config scopeSnapshot =
     (let collectionId = getLinkedCollectionIdForRequestConfig (hw_tabs w) owner config;
          itemId = getLinkedCollectionItemIdForRequestConfig (hw_tabs w) owner config;
          resolved = resolveRequestConfigVariables dyn (hw_coll w) (hw_env w) config collectionId itemId scopeSnapshot
      in resolved\<lparr>rq_headers := ensureAutoHeaders (Some (rq_headers resolved))\<rparr>)"

text \<open>From the payload to the reply: hooks, cookie jar, settings, the request, and the reports. The stores
  may change while the hooks run (\<open>w1\<close>) and while the request is under way (\<open>w2\<close>).\<close>

definition transmit ::
  "http_io \<Rightarrow> http_backend \<Rightarrow> (http_world \<Rightarrow> http_world) \<Rightarrow> (http_world \<Rightarrow> http_world) \<Rightarrow> json dict \<Rightarrow> RequestPayload
    \<Rightarrow> http_world \<Rightarrow> (string + HttpResponse) \<times> http_world \<times> invocation list" where
  "transmit io be w1 w2 extra payload w =
     (let hooked = run_hooks (be_runHook be) 0 (hw_hooks w) payload;
          calls = map (\<lambda>(i, j). RunHook i j) (hook_calls (be_runHook be) 0 (hw_hooks w) payload);
          wa = w1 w;
          final = buildFinalPayload (hw_settings wa) (applyCookieJar io wa hooked);
          wb = w2 (trace_sent io extra final wa)
      in case be_send be final of
           Inl e \<Rightarrow> (Inl e, wb, calls @ [SendRequest final])
         | Inr resp \<Rightarrow> (Inr resp, trace_received io resp wb, calls @ [SendRequest final]))"

text \<open>What is done with the cookies of the response at the end.\<close>

definition finish_response :: "http_io \<Rightarrow> string \<Rightarrow> HttpResponse \<Rightarrow> http_world \<Rightarrow> HttpResponse \<times> http_world" where
  "finish_response io u resp w =
     (let resp' = resp\<lparr>rs_cookies := processAndFilterCookies (io_url io) u (rs_cookies resp)\<rparr>
      in (resp', saveResponseCookies io u resp' w))"

definition sendHttpRequest ::
  "http_io \<Rightarrow> http_backend \<Rightarrow> (http_world \<Rightarrow> http_world) \<Rightarrow> (http_world \<Rightarrow> http_world) \<Rightarrow> string option
    \<Rightarrow> HttpRequestConfig \<Rightarrow> http_world \<Rightarrow> (string + HttpResponse) \<times> http_world \<times> invocation list" where
  "sendHttpRequest io be w1 w2 owner config w =
     (let resolved = resolveConfigVariables (io_dyn io 0) w owner config None
      in case transmit io be w1 w2 [] (buildRequestPayload resolved) w of
           (Inl e, w', calls) \<Rightarrow> (Inl e, w', calls)
         | (Inr resp, w', calls) \<Rightarrow>
             let (resp', w'') = finish_response io (rq_url resolved) resp w' in (Inr resp', w'', calls))"

text \<open>The variables of the scopes at the start of a scripted send.\<close>

definition script_scopes :: "http_world \<Rightarrow> string option \<Rightarrow> HttpRequestConfig \<Rightarrow> ScopedVariableMaps" where
  "script_scopes w owner config =
     (let collectionId = getLinkedCollectionIdForRequestConfig (hw_tabs w) owner config;
          itemId = getLinkedCollectionItemIdForRequestConfig (hw_tabs w) owner config
      in \<lparr> sm_globalVars = Some (getGlobalVariableMap (hw_env w)),
           sm_collectionVars = Some (getCollectionVariableMap (hw_coll w) collectionId),
           sm_folderVars = Some (getFolderVariableMap (hw_coll w) collectionId itemId),
           sm_envVars = Some (getActiveEnvironmentVariableMap (hw_env w)) \<rparr>)"

definition non_empty :: "string dict option \<Rightarrow> string dict option" where
  "non_empty d = (if nullish d [] = [] then None else d)"

definition script_arguments :: "string \<Rightarrow> ScopedVariableMaps \<Rightarrow> script_args" where
  "script_arguments script m = \<lparr> sa_script = script, sa_envVars = non_empty (sm_envVars m),
     sa_folderVars = non_empty (sm_folderVars m), sa_collectionVars = non_empty (sm_collectionVars m),
     sa_globalVars = non_empty (sm_globalVars m) \<rparr>"

definition error_text :: "string option \<Rightarrow> string" where
  "error_text e = (case e of Some t \<Rightarrow> t | None \<Rightarrow> ''null'')"

definition trace_pre :: "http_io \<Rightarrow> ScriptResult \<Rightarrow> http_world \<Rightarrow> http_world" where
  "trace_pre io r = trace io
     (if sr_success r then utf8_text [10003] @ '' Pre-script completed''
      else utf8_text [10007] @ '' Pre-script failed: '' @ error_text (sr_error r)) Info
     (Some [(''success'', JBool (sr_success r)), (''logs'', JArr (map JStr (sr_logs r))),
            (''envUpdates'', json_of_dict (sr_envUpdates r))])"

definition pre_failed_text :: string where
  "pre_failed_text = utf8_text [21069, 32622, 33050, 26412, 25191, 34892, 22833, 36133]"

definition run_pre ::
  "http_io \<Rightarrow> http_backend \<Rightarrow> (http_world \<Rightarrow> http_world) \<Rightarrow> string option \<Rightarrow> HttpRequestConfig \<Rightarrow> http_world
    \<Rightarrow> (string + ScriptResult option) \<times> http_world \<times> invocation list" where
  "run_pre io be w0 owner config w =
     (if js_trim (rq_preScript config) = [] then (Inr None, w, [])
      else
        let args = script_arguments (rq_preScript config) (script_scopes w owner config);
            ctx = buildScriptRequestContext (buildRequestPayload (resolveConfigVariables (io_dyn io 0) w owner config None));
            wa = w0 (trace io (utf8_text [9881] @ '' Pre-request script executing...'') Info None w)
        in case be_runPre be args ctx of
             Inl e \<Rightarrow> (Inl e, wa, [RunPreRequestScript args ctx])
           | Inr r \<Rightarrow>
               if \<not> sr_success r
               then (Inl (opt_or (sr_error r) pre_failed_text), trace_pre io r wa, [RunPreRequestScript args ctx])
               else (Inr (Some r), trace_pre io r wa, [RunPreRequestScript args ctx]))"

definition merged_scopes :: "ScopedVariableMaps \<Rightarrow> ScriptResult option \<Rightarrow> ScopedVariableMaps" where
  "merged_scopes m r = \<lparr>
     sm_globalVars = Some (mergeScriptScopeMap (nullish (sm_globalVars m) []) (map_option sr_globalUpdates r)),
     sm_collectionVars = Some (mergeScriptScopeMap (nullish (sm_collectionVars m) []) (map_option sr_collectionUpdates r)),
     sm_folderVars = Some (mergeScriptScopeMap (nullish (sm_folderVars m) []) (map_option sr_folderUpdates r)),
     sm_envVars = Some (mergeScriptScopeMap (nullish (sm_envVars m) []) (map_option sr_envUpdates r)) \<rparr>"

definition test_summary :: "TestResult list \<Rightarrow> string" where
  "test_summary ts =
     (if ts = [] then []
      else '' | Tests: '' @ nat_to_string (length (filter tr_passed ts)) @ utf8_text [10003] @ '' ''
        @ nat_to_string (length (filter (\<lambda>t. \<not> tr_passed t) ts)) @ utf8_text [10007])"

definition trace_post :: "http_io \<Rightarrow> ScriptResult \<Rightarrow> http_world \<Rightarrow> http_world" where
  "trace_post io r = trace io
     (if sr_success r then utf8_text [10003] @ '' Post-script completed'' @ test_summary (sr_testResults r)
      else utf8_text [10007] @ '' Post-script failed: '' @ error_text (sr_error r)) Info
     (Some [(''success'', JBool (sr_success r)), (''logs'', JArr (map JStr (sr_logs r))),
            (''testResults'', JArr (map json_of_test (sr_testResults r)))])"

definition run_post ::
  "http_io \<Rightarrow> http_backend \<Rightarrow> (http_world \<Rightarrow> http_world) \<Rightarrow> ScopedVariableMaps \<Rightarrow> HttpRequestConfig \<Rightarrow> HttpResponse
    \<Rightarrow> http_world \<Rightarrow> (string + ScriptResult option) \<times> http_world \<times> invocation list" where
  "run_post io be w3 scopes config resp w =
     (if js_trim (rq_postScript config) = [] then (Inr None, w, [])
      else
        let args = script_arguments (rq_postScript config) scopes;
            r = \<lparr> sv_status = rs_status resp, sv_statusText = rs_statusText resp, sv_body = rs_body resp,
                  sv_headers = rs_headers resp, sv_durationMs = rs_durationMs resp \<rparr>;
            wa = w3 (trace io (utf8_text [9881] @ '' Post-response script executing...'') Info None w)
        in case be_runPost be args r of
             Inl e \<Rightarrow> (Inl e, wa, [RunPostResponseScript args r])
           | Inr res \<Rightarrow> (Inr (Some res), trace_post io res wa, [RunPostResponseScript args r]))"

text \<open>The payload after the pre-request script: resolved with the scopes as the script left them, then
  patched.\<close>

definition scripted_config ::
  "http_io \<Rightarrow> http_world \<Rightarrow> string option \<Rightarrow> HttpRequestConfig \<Rightarrow> ScopedVariableMaps \<Rightarrow> HttpRequestConfig" where
  "scripted_config io w owner config scopes =
     resolveConfigVariables (io_dyn io 1) w owner config (Some (buildScopedVariableSnapshotFromMaps (io_dyn0 io) scopes True))"

definition scripted_payload :: "HttpRequestConfig \<Rightarrow> ScriptResult option \<Rightarrow> RequestPayload" where
  "scripted_payload resolved pre =
     applyScriptRequestPatch (buildRequestPayload resolved) (Option.bind pre sr_requestPatch)"

definition sendRequestWithScripts ::
  "http_io \<Rightarrow> http_backend \<Rightarrow> (http_world \<Rightarrow> http_world) \<Rightarrow> (http_world \<Rightarrow> http_world) \<Rightarrow> (http_world \<Rightarrow> http_world)
    \<Rightarrow> (http_world \<Rightarrow> http_world) \<Rightarrow> string option \<Rightarrow> HttpRequestConfig \<Rightarrow> http_world
    \<Rightarrow> (string + HttpResponseWithScripts) \<times> http_world \<times> invocation list" where
  "sendRequestWithScripts io be w0 w1 w2 w3 owner config w =
     (case run_pre io be w0 owner config w of
        (Inl e, wa, calls) \<Rightarrow> (Inl e, wa, calls)
      | (Inr pre, wa, calls) \<Rightarrow>
          let scopes = merged_scopes (script_scopes w owner config) pre;
              resolved = scripted_config io wa owner config scopes;
              extra = [(''hasPreScript'', JBool (js_trim (rq_preScript config) \<noteq> [])),
                      (''hasPostScript'', JBool (js_trim (rq_postScript config) \<noteq> []))]
          in case transmit io be w1 w2 extra (scripted_payload resolved pre) wa of
               (Inl e, wb, calls') \<Rightarrow> (Inl e, wb, calls @ calls')
             | (Inr resp, wb, calls') \<Rightarrow>
                 (case run_post io be w3 scopes config resp wb of
                    (Inl e, wc, calls'') \<Rightarrow> (Inl e, wc, calls @ calls' @ calls'')
                  | (Inr post, wc, calls'') \<Rightarrow>
                      let (resp', wd) = finish_response io (rq_url resolved) resp wc
                      in (Inr \<lparr> rws_response = resp', rws_preScriptResult = pre, rws_postScriptResult = post \<rparr>,
                          wd, calls @ calls' @ calls'')))"

end
