(* ===== verification/HttpProps.thy ===== *)
theory HttpProps
  imports HttpService VariableProps
begin

text \<open>
  Theorems about sending a request: the URL and the headers of the payload, what scripts, hooks and
  the cookie jar may change, the order of the backend calls, the cookies of the response, and the
  lock of the token refresh as a state machine.
\<close>

section \<open>The URL\<close>

lemma last_js_trim: "js_trim u \<noteq> [] \<Longrightarrow> \<not> is_ws (last (js_trim u))"
  by (simp add: js_trim_def last_rev hd_dropWhile)

lemma js_trim_ends: "s \<noteq> [] \<Longrightarrow> \<not> is_ws (hd s) \<Longrightarrow> \<not> is_ws (last s) \<Longrightarrow> js_trim s = s"
  by (simp add: js_trim_def dropWhile_eq_self hd_rev)

lemma has_scheme_http: "has_scheme (''http://'' @ s)"
  by (simp add: has_scheme_def is_alpha_def is_upper_def char_between_def scheme_char_def is_digit_def)

lemma normalizeUrl_nonempty: "js_trim u \<noteq> [] \<Longrightarrow> has_scheme (normalizeUrl u)"
  using has_scheme_http by (simp add: normalizeUrl_def Let_def)

lemma normalizeUrl_idem: "normalizeUrl (normalizeUrl u) = normalizeUrl u"
proof (cases "js_trim u = []")
  case True
  then show ?thesis by (simp add: normalizeUrl_def)
next
  case False
  have "\<not> is_ws (last (js_trim u))" using last_js_trim False by blast
  then have "js_trim (''http://'' @ js_trim u) = ''http://'' @ js_trim u"
    using False by (intro js_trim_ends) (simp_all add: is_ws_def)
  then show ?thesis using False has_scheme_http by (simp add: normalizeUrl_def Let_def)
qed

lemma has_scheme_before_query: "has_scheme s \<Longrightarrow> has_scheme (before_char (CHR ''?'') s)"
proof -
  assume "has_scheme s"
  then obtain c cs r where s: "s = c # takeWhile scheme_char cs @ ''://'' @ r" "is_alpha c"
    by (cases s) (auto simp: has_scheme_def prefix_def, metis takeWhile_dropWhile_id)
  define t where "t = takeWhile scheme_char cs"
  have sc: "\<forall>d \<in> set t. scheme_char d" by (auto simp: t_def dest: set_takeWhileD)
  have noq: "\<not> scheme_char (CHR ''?'')" "c \<noteq> CHR ''?''" using s(2)
    by (auto simp: scheme_char_def is_alpha_def is_upper_def is_digit_def char_between_def)
  then have "before_char (CHR ''?'') s = c # t @ ''://'' @ before_char (CHR ''?'') r"
    using sc unfolding s(1) t_def[symmetric] before_char_def by (subst takeWhile.simps) (auto simp: takeWhile_append)
  moreover have "dropWhile scheme_char (t @ ''://'' @ x) = ''://'' @ x" for x
    using sc by (simp add: dropWhile_append scheme_char_def is_alpha_def is_upper_def is_digit_def char_between_def)
  ultimately show ?thesis using s(2) by (simp add: has_scheme_def)
qed


section \<open>Script patches\<close>

text \<open>The headers of a name, whatever its case.\<close>

definition named :: "string \<Rightarrow> string dict \<Rightarrow> string dict" where
  "named n headers = filter (\<lambda>(k, _). js_toLowerCase k = js_toLowerCase n) headers"

lemma named_remove: "named n (removeHeaderCaseInsensitive h k)
    = (if js_toLowerCase k = js_toLowerCase n then [] else named n h)"
  by (auto simp: named_def removeHeaderCaseInsensitive_def filter_empty_conv split_def intro!: filter_cong)

lemma named_removes: "named n (foldl removeHeaderCaseInsensitive h ks)
    = (if js_toLowerCase n \<in> js_toLowerCase ` set ks then [] else named n h)"
  by (induction ks arbitrary: h) (auto simp: named_remove)

lemma update_absent: "k \<notin> fst ` set d \<Longrightarrow> AList.update k v d = d @ [(k, v)]"
  by (induction d) auto

lemma set_header_append: "set_header h (k, v) = removeHeaderCaseInsensitive h k @ [(k, v)]"
  unfolding set_header_def by (simp, rule update_absent) (auto simp: removeHeaderCaseInsensitive_def)

lemma named_set_header: "named n (set_header h (k, v))
    = (if js_toLowerCase k = js_toLowerCase n then [(k, v)] else named n h)"
  using named_remove[of n h k] by (auto simp: set_header_append named_def)

lemma named_set_headers: "named n (foldl set_header h kvs)
    = (case List.find (\<lambda>(k, _). js_toLowerCase k = js_toLowerCase n) (rev kvs) of
         Some kv \<Rightarrow> [kv] | None \<Rightarrow> named n h)"
proof (induction kvs arbitrary: h)
  case (Cons kv kvs)
  obtain k v where "kv = (k, v)" by (cases kv)
  then show ?case using Cons.IH[of "set_header h kv"]
    by (auto simp: named_set_header find_append split: option.splits)
qed simp


section \<open>Hooks and the cookie jar\<close>

text \<open>The parts of a payload that neither hooks nor the jar touch.\<close>

definition fixed_part :: "('a) RequestPayload_scheme \<Rightarrow> HttpMethod \<times> string \<times> PayloadBody \<times> PayloadAuth option" where
  "fixed_part p = (pl_method p, pl_url p, pl_body p, pl_auth p)"

lemma fixed_apply_hook: "fixed_part (apply_hook r p) = fixed_part p"
  by (simp add: apply_hook_def fixed_part_def split: sum.splits)

lemma fixed_run_hooks: "fixed_part (run_hooks f n ps p) = fixed_part p"
  by (induction f n ps p rule: run_hooks.induct) (simp_all add: fixed_apply_hook)

lemma fixed_applyCookieJar: "fixed_part (applyCookieJar io w p) = fixed_part p"
  by (simp add: applyCookieJar_def fixed_part_def Let_def)

lemma final_sel [simp]:
  "pl_method (buildFinalPayload s p) = pl_method p" "pl_url (buildFinalPayload s p) = pl_url p"
  "pl_headers (buildFinalPayload s p) = pl_headers p" "pl_queryParams (buildFinalPayload s p) = pl_queryParams p"
  "pl_body (buildFinalPayload s p) = pl_body p" "pl_auth (buildFinalPayload s p) = pl_auth p"
  by (simp_all add: buildFinalPayload_def RequestPayload.defs)

lemma fixed_buildFinalPayload: "fixed_part (buildFinalPayload s p) = fixed_part p"
  by (simp add: fixed_part_def)

lemmas fixed_simps = fixed_run_hooks fixed_applyCookieJar fixed_buildFinalPayload

lemma find_cookie_None:
  "List.find (\<lambda>(k, _). js_toLowerCase k = ''cookie'') h = None \<longleftrightarrow> named ''cookie'' h = []"
  by (auto simp: find_None_iff' named_def filter_empty_conv js_toLowerCase_def lower_char_def is_upper_def char_between_def)

definition is_send :: "invocation \<Rightarrow> bool" where
  "is_send c = (case c of SendRequest _ \<Rightarrow> True | _ \<Rightarrow> False)"

lemma transmit_calls:
  "\<exists>hooks final. snd (snd (transmit io be w1 w2 extra p w)) = hooks @ [SendRequest final]
     \<and> (\<forall>c \<in> set hooks. \<exists>i j. c = RunHook i j) \<and> fixed_part final = fixed_part p"
proof -
  let ?f = "buildFinalPayload (hw_settings (w1 w)) (applyCookieJar io (w1 w) (run_hooks (be_runHook be) 0 (hw_hooks w) p))"
  have "fixed_part ?f = fixed_part p" by (simp only: fixed_simps)
  then show ?thesis
    by (intro exI[of _ "map (\<lambda>(i, j). RunHook i j) (hook_calls (be_runHook be) 0 (hw_hooks w) p)"] exI[of _ ?f])
       (auto simp: transmit_def Let_def split: sum.splits)
qed


section \<open>Cookies of the response\<close>

lemma map_filter_mem: "x \<in> set (List.map_filter f xs) \<longleftrightarrow> (\<exists>y \<in> set xs. f y = Some x)"
  by (induction xs) (auto simp: List.map_filter_simps split: option.splits)

lemma in_domain_strip: "in_domain h d \<Longrightarrow> in_domain h (strip_dot d)"
  by (cases d) (auto simp: in_domain_def strip_dot_def dest: suffix_ConsD)

lemma filter_cookie_domain:
  assumes "filter_cookie h c = Some c'" and "js_toLowerCase h = h"
  shows "in_domain h (effectiveDomain h c')"
  using assms
  by (auto simp: filter_cookie_def effectiveDomain_def in_domain_def Let_def strip_dot_def split: if_splits list.splits)

lemma filter_cookie_accepted:
  assumes "filter_cookie h c = Some c'" and "js_toLowerCase h = h"
  shows "accepted h c'"
proof -
  have "js_toLowerCase (effectiveDomain h c') = effectiveDomain h c'"
    using assms(2) by (simp add: effectiveDomain_def lower_strip_dot)
  then show ?thesis
    using in_domain_strip[OF filter_cookie_domain[OF assms]] assms(2) by (simp add: accepted_def domainMatches_iff)
qed


section \<open>The token refresh as a state machine\<close>

text \<open>Every call is an instance of \<open>maybeRefreshOAuth2Token\<close>. A waiting call remembers which refresh it
  waits for; that one is over when another has started or the lock is free.\<close>

record refresh_state =
  rf_locked :: bool
  rf_started :: nat
  rf_fetching :: "HttpRequestConfig list"
  rf_waiting :: "(nat \<times> HttpRequestConfig) list"
  rf_returned :: "(HttpRequestConfig \<times> HttpRequestConfig) list"

definition refresh_init :: refresh_state where
  "refresh_init = \<lparr> rf_locked = False, rf_started = 0, rf_fetching = [], rf_waiting = [], rf_returned = [] \<rparr>"

inductive refresh_step :: "refresh_state \<Rightarrow> refresh_state \<Rightarrow> bool" where
  not_needed: "maybeRefreshOAuth2Token now (rf_locked s) c = RefreshNotNeeded \<Longrightarrow>
    refresh_step s (s\<lparr>rf_returned := (c, c) # rf_returned s\<rparr>)"
| wait: "maybeRefreshOAuth2Token now (rf_locked s) c = RefreshWait \<Longrightarrow>
    refresh_step s (s\<lparr>rf_waiting := (rf_started s, c) # rf_waiting s\<rparr>)"
| fetch: "maybeRefreshOAuth2Token now (rf_locked s) c = RefreshFetch q \<Longrightarrow>
    refresh_step s (s\<lparr>rf_locked := True, rf_started := rf_started s + 1, rf_fetching := c # rf_fetching s\<rparr>)"
| reply: "c \<in> set (rf_fetching s) \<Longrightarrow>
    refresh_step s (s\<lparr>rf_locked := False, rf_fetching := remove1 c (rf_fetching s),
      rf_returned := (c, fst (finish_refresh now r c)) # rf_returned s\<rparr>)"
| resume: "(n, c) \<in> set (rf_waiting s) \<Longrightarrow> \<not> (rf_locked s \<and> rf_started s = n) \<Longrightarrow>
    refresh_step s (s\<lparr>rf_waiting := remove1 (n, c) (rf_waiting s), rf_returned := (c, c) # rf_returned s\<rparr>)"

inductive refresh_reach :: "refresh_state \<Rightarrow> bool" where
  init: "refresh_reach refresh_init"
| step: "refresh_reach s \<Longrightarrow> refresh_step s s' \<Longrightarrow> refresh_reach s'"

lemma fetch_unlocked: "maybeRefreshOAuth2Token now locked c = RefreshFetch q \<Longrightarrow> \<not> locked"
  by (auto simp: maybeRefreshOAuth2Token_def Let_def split: if_splits)

definition refresh_inv :: "refresh_state \<Rightarrow> bool" where
  "refresh_inv s \<longleftrightarrow> length (rf_fetching s) = (if rf_locked s then 1 else 0)
     \<and> (\<forall>(n, c) \<in> set (rf_waiting s). n \<le> rf_started s)"

lemma refresh_inv_step: "refresh_step s s' \<Longrightarrow> refresh_inv s \<Longrightarrow> refresh_inv s'"
proof (induction rule: refresh_step.induct)
  case (fetch now s c q)
  then show ?case using fetch_unlocked[OF fetch.hyps] by (auto simp: refresh_inv_def)
next
  case (reply c s now r)
  then show ?case by (cases "rf_fetching s") (auto simp: refresh_inv_def split: if_splits)
next
  case (resume n c s)
  then show ?case by (auto simp: refresh_inv_def dest: notin_set_remove1 set_remove1_subset[THEN subsetD])
qed (auto simp: refresh_inv_def)

lemma refresh_inv_reach: "refresh_reach s \<Longrightarrow> refresh_inv s"
  by (induction rule: refresh_reach.induct) (auto intro: refresh_inv_step, simp add: refresh_inv_def refresh_init_def)


lemma wait_if_locked: "maybeRefreshOAuth2Token now False c = RefreshFetch q \<Longrightarrow> maybeRefreshOAuth2Token now True c = RefreshWait"
  by (auto simp: maybeRefreshOAuth2Token_def Let_def split: if_splits)


section \<open>Properties\<close>

text \<open>The payload's URL is the configured one up to its query: it has no question mark, it has a
  scheme unless the configured URL is blank, what was cut off starts with a question mark, and
  completing a URL twice is the same as once.\<close>

theorem payload_url_clean:
  "let u = pl_url (buildRequestPayload config); full = normalizeUrl (rq_url config)
   in CHR ''?'' \<notin> set u \<and> (js_trim (rq_url config) = [] \<or> has_scheme u)
     \<and> (full = u \<or> (\<exists>query. full = u @ ''?'' @ query)) \<and> normalizeUrl full = full"
proof -
  let ?full = "normalizeUrl (rq_url config)"
  have "?full = before_char (CHR ''?'') ?full @ dropWhile (\<lambda>d. d \<noteq> CHR ''?'') ?full" by (simp add: before_char_def)
  moreover have "dropWhile (\<lambda>d. d \<noteq> CHR ''?'') ?full = [] \<or> (\<exists>q. dropWhile (\<lambda>d. d \<noteq> CHR ''?'') ?full = ''?'' @ q)"
    using hd_dropWhile[of "\<lambda>d. d \<noteq> CHR ''?''" ?full] by (cases "dropWhile (\<lambda>d. d \<noteq> CHR ''?'') ?full") auto
  ultimately have "?full = before_char (CHR ''?'') ?full \<or> (\<exists>query. ?full = before_char (CHR ''?'') ?full @ ''?'' @ query)"
    by (metis append_Nil2)
  then show ?thesis
    using has_scheme_before_query[OF normalizeUrl_nonempty] normalizeUrl_idem
    by (auto simp: buildRequestPayload_def Let_def)
qed

text \<open>A script's patch decides, for every header name regardless of case: the last value the script
  set is the only header of that name; a removed name has none; any other name keeps its headers. For
  query parameters the script's values win over removal, and removal over the request's values.\<close>

theorem script_patch_semantics:
  assumes "wf_dict (sp_queryParams pt)"
  shows "named n (pl_headers (applyScriptRequestPatch p (Some pt)))
      = (case List.find (\<lambda>(k, _). js_toLowerCase k = js_toLowerCase n) (rev (sp_headers pt)) of
           Some kv \<Rightarrow> [kv]
         | None \<Rightarrow> if js_toLowerCase n \<in> js_toLowerCase ` set (sp_removedHeaders pt) then [] else named n (pl_headers p))
    \<and> map_of (pl_queryParams (applyScriptRequestPatch p (Some pt))) k
      = (case map_of (sp_queryParams pt) k of
           Some v \<Rightarrow> Some v
         | None \<Rightarrow> if k \<in> set (sp_removedQueryParams pt) then None else map_of (pl_queryParams p) k)
    \<and> fixed_part (applyScriptRequestPatch p (Some pt)) = fixed_part p"
  using assms
  by (simp add: applyScriptRequestPatch_def named_set_headers named_removes map_of_assign_entries
      map_of_rev_distinct obj.get_dels fixed_part_def cong: option.case_cong)

definition demo_payload :: RequestPayload where
  "demo_payload = \<lparr> pl_method = GET, pl_url = ''http://x'', pl_headers = [(''ACCEPT'', ''*''), (''X-A'', ''1'')],
     pl_queryParams = [(''q'', ''1'')], pl_body = PayloadNone, pl_auth = None, pl_timeoutMs = 0, pl_followRedirects = True \<rparr>"

theorem script_patch_semantics_witness:
  "named ''accept'' (pl_headers (applyScriptRequestPatch demo_payload (Some
      \<lparr> sp_headers = [(''Accept'', ''json'')], sp_removedHeaders = [], sp_queryParams = [(''q'', ''2'')], sp_removedQueryParams = [] \<rparr>)))
    = [(''Accept'', ''json'')]"
proof -
  let ?pt = "\<lparr> sp_headers = [(''Accept'', ''json'')], sp_removedHeaders = [], sp_queryParams = [(''q'', ''2'')], sp_removedQueryParams = [] \<rparr>"
  have wf: "wf_dict (sp_queryParams ?pt)" by (simp add: wf_dict_def)
  have "js_toLowerCase ''Accept'' = js_toLowerCase ''accept''" by code_simp
  then show ?thesis using script_patch_semantics[OF wf, of "''accept''" demo_payload "''q''"] by simp
qed

text \<open>The cookie jar only adds a Cookie header, and only when automatic cookies are on, the jar has
  cookies for the URL and the request has no Cookie header of its own in any spelling; every other
  header and the rest of the payload stay as they are.\<close>

theorem cookie_jar_adds_only_cookie:
  "(let header = buildCookieHeader (io_url io) (io_date io) (io_matchedAt io) (pl_url p) (hw_jar w);
        p' = applyCookieJar io w p
    in named ''cookie'' (pl_headers p')
         = (if named ''cookie'' (pl_headers p) \<noteq> [] then named ''cookie'' (pl_headers p)
            else if setting_on (hw_settings w) ''autoSaveCookies'' \<and> header \<noteq> [] then [(''Cookie'', header)] else [])
       \<and> filter (\<lambda>(k, _). js_toLowerCase k \<noteq> ''cookie'') (pl_headers p')
         = filter (\<lambda>(k, _). js_toLowerCase k \<noteq> ''cookie'') (pl_headers p)
       \<and> p'\<lparr>pl_headers := pl_headers p\<rparr> = p)"
proof -
  have lower: "js_toLowerCase ''Cookie'' = ''cookie''" "js_toLowerCase ''cookie'' = ''cookie''" by code_simp+
  have upd: "AList.update ''Cookie'' v h = h @ [(''Cookie'', v)]" if "named ''cookie'' h = []" for v h
  proof (rule update_absent)
    have "js_toLowerCase (fst x) \<noteq> ''cookie''" if "x \<in> set h" for x
      using \<open>named ''cookie'' h = []\<close> that lower(2) by (auto simp: named_def filter_empty_conv)
    then have "js_toLowerCase k \<noteq> ''cookie''" if "k \<in> fst ` set h" for k using that by blast
    from this[of "''Cookie''"] show "''Cookie'' \<notin> fst ` set h" unfolding lower(1) by blast
  qed
  have chars: "lower_char CHR ''C'' = CHR ''c''" "lower_char CHR ''c'' = CHR ''c''" "lower_char CHR ''o'' = CHR ''o''"
    "lower_char CHR ''k'' = CHR ''k''" "lower_char CHR ''i'' = CHR ''i''" "lower_char CHR ''e'' = CHR ''e''"
    by code_simp+
  show ?thesis
    unfolding applyCookieJar_def find_cookie_None Let_def
    by (auto simp: upd named_def chars)
qed



text \<open>Every cookie that survives the filter on a response is one the cookie jar accepts for that URL,
  belongs to the host or a parent domain of it, and on an IP address to the very address; a cookie of
  a foreign domain is dropped.\<close>

theorem filtered_cookies_accepted:
  assumes "url u = Some parts" and "c \<in> set (processAndFilterCookies url u cs)"
  shows "accepted (extractDomain url u) c \<and> in_domain (extractDomain url u) (effectiveDomain (extractDomain url u) c)
    \<and> (is_ip (extractDomain url u) \<longrightarrow> effectiveDomain (extractDomain url u) c \<in> {extractDomain url u, strip_dot (extractDomain url u)})"
proof -
  have h: "extractDomain url u = js_toLowerCase (url_hostname parts)" using assms(1) by (simp add: extractDomain_def)
  obtain c0 where c0: "filter_cookie (extractDomain url u) c0 = Some c"
    using assms by (auto simp: processAndFilterCookies_def map_filter_mem h)
  have "is_ip (extractDomain url u) \<longrightarrow> effectiveDomain (extractDomain url u) c \<in> {extractDomain url u, strip_dot (extractDomain url u)}"
    using c0 by (auto simp: filter_cookie_def effectiveDomain_def Let_def split: if_splits)
  then show ?thesis
    using filter_cookie_accepted[OF c0] filter_cookie_domain[OF c0] by simp
qed

theorem filtered_cookies_accepted_witness:
  "accepted ''x.shop.io'' ((demo_cookie ''s'')\<lparr>ck_domain := Some ''.shop.io''\<rparr>)"
proof -
  let ?u = "''http://x.shop.io/a''"
  have "demo_url ?u = Some \<lparr> url_protocol = ''http:'', url_hostname = ''x.shop.io'', url_pathname = ''/a'' \<rparr>" by code_simp
  moreover have "(demo_cookie ''s'')\<lparr>ck_domain := Some ''.shop.io''\<rparr> \<in> set (processAndFilterCookies demo_url ?u
      [(demo_cookie ''s'')\<lparr>ck_domain := Some ''.shop.io''\<rparr>, (demo_cookie ''t'')\<lparr>ck_domain := Some ''evil.io''\<rparr>])"
    by code_simp
  ultimately have "accepted (extractDomain demo_url ?u) ((demo_cookie ''s'')\<lparr>ck_domain := Some ''.shop.io''\<rparr>)"
    using filtered_cookies_accepted by blast
  moreover have "extractDomain demo_url ?u = ''x.shop.io''" by code_simp
  ultimately show ?thesis by simp
qed

text \<open>A request whose URL is written without a scheme goes out to the completed URL, but the cookies of
  its response are looked at with the URL as written, which does not parse: they are neither filtered
  nor stored, whatever the settings.\<close>

theorem schemeless_cookies_lost:
  assumes "resolveConfigVariables (io_dyn io 0) w owner config None = resolved"
    and "js_trim (rq_url resolved) = rq_url resolved" and "rq_url resolved \<noteq> []" and "\<not> has_scheme (rq_url resolved)"
    and "io_url io (rq_url resolved) = None"
    and "\<forall>p. be_send be p = Inr resp"
    and "sendHttpRequest io be id id owner config w = (result, w', calls)"
  shows "(\<exists>final. last calls = SendRequest final
        \<and> pl_url final = before_char (CHR ''?'') (''http://'' @ rq_url resolved))
    \<and> result = Inr resp \<and> hw_jar w' = hw_jar w"
proof -
  let ?p = "buildRequestPayload resolved"
  obtain hooks final where tr: "snd (snd (transmit io be id id [] ?p w)) = hooks @ [SendRequest final]"
    "fixed_part final = fixed_part ?p" using transmit_calls by blast
  obtain r wa cs where t: "transmit io be id id [] ?p w = (r, wa, cs)" by (cases "transmit io be id id [] ?p w")
  have r: "r = Inr resp" and jar: "hw_jar wa = hw_jar w"
    using t assms(6) by (auto simp: transmit_def Let_def trace_sent_def trace_received_def trace_def)
  have fin: "finish_response io (rq_url resolved) resp wa = (resp, wa)"
    using assms(5) by (simp add: finish_response_def saveResponseCookies_def processAndFilterCookies_def saveCookies_def
        extractDomain_def)
  have "result = Inr resp" "w' = wa" "calls = cs"
    using assms(7) t r fin by (simp_all add: sendHttpRequest_def assms(1))
  moreover have "pl_url final = before_char (CHR ''?'') (''http://'' @ rq_url resolved)"
    using tr(2) assms(2-4) by (simp add: fixed_part_def buildRequestPayload_def normalizeUrl_def)
  ultimately show ?thesis using jar tr t by simp
qed

definition demo_io :: http_io where
  "demo_io = \<lparr> io_url = demo_url, io_date = (\<lambda>_. None), io_clk = (\<lambda>_. (0, 0)), io_matchedAt = 0, io_savedAt = 0,
     io_evictedAt = 0, io_dyn = (\<lambda>_ _ _. []), io_dyn0 = (\<lambda>_. []) \<rparr>"

definition demo_world :: http_world where
  "demo_world = \<lparr> hw_coll = coll_init, hw_env = env_init, hw_tabs = [],
     hw_settings = updateSetting ''autoSaveCookies'' (JBool True) defaultSettings, hw_jar = [], hw_log = log_init, hw_hooks = [] \<rparr>"

definition demo_response :: HttpResponse where
  "demo_response = \<lparr> rs_status = 200, rs_statusText = ''OK'', rs_headers = [], rs_body = [], rs_bodySize = 0,
     rs_contentType = None, rs_durationMs = 1, rs_timing = \<lparr> tm_totalMs = 1, tm_connectMs = None, tm_ttfbMs = None,
     tm_downloadMs = None \<rparr>, rs_cookies = [demo_cookie ''s''], rs_isEventStream = None, rs_isBinary = None \<rparr>"

definition demo_backend :: http_backend where
  "demo_backend = \<lparr> be_runPre = (\<lambda>_ _. Inl []), be_runHook = (\<lambda>_ _ _. Inl []), be_send = (\<lambda>_. Inr demo_response),
     be_runPost = (\<lambda>_ _. Inl []) \<rparr>"

theorem schemeless_cookies_lost_witness:
  "\<exists>w' calls. sendHttpRequest demo_io demo_backend id id None ((createDefaultRequest ''id'')\<lparr>rq_url := ''shop.io/a''\<rparr>) demo_world
      = (Inr demo_response, w', calls) \<and> hw_jar w' = [] \<and> (\<exists>final. last calls = SendRequest final)"
proof -
  let ?c = "(createDefaultRequest ''id'')\<lparr>rq_url := ''shop.io/a''\<rparr>"
  define resolved where "resolved = resolveConfigVariables (io_dyn demo_io 0) demo_world None ?c None"
  obtain result w' calls where send: "sendHttpRequest demo_io demo_backend id id None ?c demo_world = (result, w', calls)"
    by (cases "sendHttpRequest demo_io demo_backend id id None ?c demo_world")
  have "rq_url (resolveConfigVariables (\<lambda>_ _. []) demo_world None ?c None) = ''shop.io/a''" by code_simp
  then have url: "rq_url resolved = ''shop.io/a''" by (simp add: resolved_def demo_io_def)
  have "js_trim ''shop.io/a'' = ''shop.io/a''" "\<not> has_scheme ''shop.io/a''" "demo_url ''shop.io/a'' = None" by code_simp+
  then have "(\<exists>final. last calls = SendRequest final
        \<and> pl_url final = before_char (CHR ''?'') (''http://'' @ rq_url resolved))
    \<and> result = Inr demo_response \<and> hw_jar w' = hw_jar demo_world"
    using url resolved_def send
    by (intro schemeless_cookies_lost[where io = demo_io and owner = None and config = ?c and be = demo_backend])
       (simp_all add: demo_io_def demo_backend_def)
  then show ?thesis using send by (auto simp: demo_world_def)
qed

text \<open>\<^bold>\<open>C19\<close>. In every interleaving of concurrent calls at most one token refresh is in flight, the lock is held
  exactly while one is, and a call that waits is never stuck: the refresh it waits for is in flight or
  the call can go on.\<close>

theorem refresh_single_flight:
  assumes "refresh_reach s"
  shows "length (rf_fetching s) \<le> 1 \<and> (rf_locked s \<longleftrightarrow> rf_fetching s \<noteq> [])
    \<and> (\<forall>(n, c) \<in> set (rf_waiting s). rf_fetching s \<noteq> [] \<or>
         refresh_step s (s\<lparr>rf_waiting := remove1 (n, c) (rf_waiting s), rf_returned := (c, c) # rf_returned s\<rparr>))"
proof -
  have inv: "refresh_inv s" using assms by (rule refresh_inv_reach)
  then have lock: "length (rf_fetching s) \<le> 1" "rf_locked s \<longleftrightarrow> rf_fetching s \<noteq> []"
    by (auto simp: refresh_inv_def split: if_splits)
  show ?thesis using lock by (auto intro: refresh_step.resume)
qed

definition demo_oauth :: HttpRequestConfig where
  "demo_oauth = (createDefaultRequest ''id'')\<lparr>rq_authType := AuthOauth2,
     rq_oauth2Config := (rq_oauth2Config (createDefaultRequest ''id''))\<lparr>oa_accessTokenUrl := ''https://a/token'',
       oa_refreshToken := ''r'', oa_accessToken := ''old'', oa_tokenExpiresAt := 5\<rparr>\<rparr>"

lemma demo_oauth_fetch: "maybeRefreshOAuth2Token 10 False demo_oauth = RefreshFetch (token_request (rq_oauth2Config demo_oauth))"
  by (simp add: maybeRefreshOAuth2Token_def demo_oauth_def TOKEN_REFRESH_BUFFER_MS_def)

theorem refresh_single_flight_witness:
  "let s = refresh_init\<lparr>rf_locked := True, rf_started := 1, rf_fetching := [demo_oauth]\<rparr>
   in length (rf_fetching s) \<le> 1 \<and> (rf_locked s \<longleftrightarrow> rf_fetching s \<noteq> [])"
proof -
  have "refresh_step refresh_init (refresh_init\<lparr>rf_locked := True, rf_started := 1, rf_fetching := [demo_oauth]\<rparr>)"
    using refresh_step.fetch[of 10 refresh_init demo_oauth] demo_oauth_fetch by (simp add: refresh_init_def)
  then have "refresh_reach (refresh_init\<lparr>rf_locked := True, rf_started := 1, rf_fetching := [demo_oauth]\<rparr>)"
    using refresh_reach.init refresh_reach.step by blast
  from refresh_single_flight[OF this] show ?thesis unfolding Let_def by blast
qed

text \<open>Two calls for the same expired token, the second while the first is refreshing: the first goes on
  with the new token and the second with the old one, since a call that waited returns the
  configuration it was given.\<close>

theorem waiter_keeps_stale_token:
  assumes "maybeRefreshOAuth2Token now False c = RefreshFetch q"
  shows "\<exists>s. refresh_reach s \<and> rf_returned s = [(c, c), (c, apply_token (token_updates now' r) c)]"
proof -
  let ?s1 = "refresh_init\<lparr>rf_locked := True, rf_started := 1, rf_fetching := [c]\<rparr>"
  let ?s2 = "?s1\<lparr>rf_waiting := [(1, c)]\<rparr>"
  let ?s3 = "?s2\<lparr>rf_locked := False, rf_fetching := [], rf_returned := [(c, apply_token (token_updates now' r) c)]\<rparr>"
  let ?s4 = "?s3\<lparr>rf_waiting := [], rf_returned := [(c, c), (c, apply_token (token_updates now' r) c)]\<rparr>"
  have "refresh_step refresh_init ?s1" using refresh_step.fetch[of now refresh_init c q] assms by (simp add: refresh_init_def)
  moreover have "refresh_step ?s1 ?s2" using refresh_step.wait[of now ?s1 c] wait_if_locked[OF assms] by (simp add: refresh_init_def)
  moreover have "refresh_step ?s2 ?s3" using refresh_step.reply[of c ?s2 now' "Inr r"] by (simp add: refresh_init_def finish_refresh_def)
  moreover have "refresh_step ?s3 ?s4" using refresh_step.resume[of 1 c ?s3] by (simp add: refresh_init_def)
  ultimately have "refresh_reach ?s4" by (meson refresh_reach.init refresh_reach.step)
  then show ?thesis by (intro exI[of _ ?s4]) simp
qed

theorem waiter_keeps_stale_token_witness:
  "\<exists>s. refresh_reach s \<and> (\<exists>fresh. rf_returned s = [(demo_oauth, demo_oauth), (demo_oauth, fresh)]
     \<and> oa_accessToken (rq_oauth2Config fresh) = ''new'')"
proof -
  let ?r = "\<lparr> tk_accessToken = ''new'', tk_expiresIn = None, tk_refreshToken = None \<rparr>"
  obtain s where "refresh_reach s" "rf_returned s = [(demo_oauth, demo_oauth), (demo_oauth, apply_token (token_updates 0 ?r) demo_oauth)]"
    using waiter_keeps_stale_token[OF demo_oauth_fetch] by blast
  moreover have "oa_accessToken (rq_oauth2Config (apply_token (token_updates 0 ?r) demo_oauth)) = ''new''"
    by (simp add: apply_token_def token_updates_def)
  ultimately show ?thesis by blast
qed

end
