(* ===== verification/JsonFields.thy ===== *)
theory JsonFields
  imports Json
begin

text \<open>
  Typed data as JSON values and back: how a value of a TypeScript type is printed by
  \<open>JSON.stringify\<close>, and what a parsed value is at the type the source casts it to.
\<close>

section \<open>Writing and reading\<close>

text \<open>\<open>JSON.stringify\<close> leaves out a property that is \<open>undefined\<close>.\<close>

definition opt_field :: "string \<Rightarrow> ('a \<Rightarrow> json) \<Rightarrow> 'a option \<Rightarrow> (string \<times> json) list" where
  "opt_field k f x = (case x of Some v \<Rightarrow> [(k, f v)] | None \<Rightarrow> [])"

definition json_number :: "int \<Rightarrow> json" where "json_number n = JNum (JInt n)"

definition json_strings :: "string dict \<Rightarrow> json" where
  "json_strings d = JObj (map (\<lambda>(k, v). (k, JStr v)) d)"

text \<open>What a parsed value is as a typed object; \<open>None\<close> when it does not have the type the source gives it.\<close>

definition get_string :: "json option \<Rightarrow> string option" where
  "get_string j = (case j of Some (JStr s) \<Rightarrow> Some s | _ \<Rightarrow> None)"

definition get_int :: "json option \<Rightarrow> int option" where
  "get_int j = (case j of Some (JNum (JInt n)) \<Rightarrow> Some n | _ \<Rightarrow> None)"

definition get_bool :: "json option \<Rightarrow> bool option" where
  "get_bool j = (case j of Some (JBool b) \<Rightarrow> Some b | _ \<Rightarrow> None)"

definition get_strings :: "json option \<Rightarrow> string dict option" where
  "get_strings j = (case j of
     Some (JObj kvs) \<Rightarrow> those (map (\<lambda>(k, v). map_option (Pair k) (get_string (Some v))) kvs) | _ \<Rightarrow> None)"

definition get_array :: "(json \<Rightarrow> 'a option) \<Rightarrow> json option \<Rightarrow> 'a list option" where
  "get_array f j = (case j of Some (JArr vs) \<Rightarrow> those (map f vs) | _ \<Rightarrow> None)"

definition get_optional :: "(json option \<Rightarrow> 'a option) \<Rightarrow> json option \<Rightarrow> 'a option option" where
  "get_optional f j = (case j of None \<Rightarrow> Some None | Some v \<Rightarrow> map_option Some (f (Some v)))"


section \<open>Reading undoes writing\<close>

lemma those_map_Some: "(\<And>x. x \<in> set xs \<Longrightarrow> f (g x) = Some x) \<Longrightarrow> those (map f (map g xs)) = Some xs"
  by (induction xs) auto

lemma get_simps [simp]:
  "get_string (Some (JStr t)) = Some t" "get_int (Some (json_number n)) = Some n" "get_bool (Some (JBool b)) = Some b"
  "get_optional f None = Some None"
  by (simp_all add: get_string_def get_int_def get_bool_def json_number_def get_optional_def)

lemma get_optional_Some: "f (Some v) = Some x \<Longrightarrow> get_optional f (Some v) = Some (Some x)"
  by (simp add: get_optional_def)

lemma get_strings_json [simp]: "get_strings (Some (json_strings d)) = Some d"
proof -
  have "those (map (\<lambda>(k, v). map_option (Pair k) (get_string (Some v))) (map (\<lambda>(k, v). (k, JStr v)) d)) = Some d"
    by (induction d) auto
  then show ?thesis by (simp add: get_strings_def json_strings_def)
qed

lemma get_array_json: "(\<And>x. f (g x) = Some x) \<Longrightarrow> get_array f (Some (JArr (map g xs))) = Some xs"
  by (simp only: get_array_def option.case json.case those_map_Some)

lemma json_ok_strings [simp]: "json_ok (json_strings d) = wf_dict d"
  by (auto simp: json_strings_def wf_dict_def comp_def split_def)

lemma json_ok_number [simp]: "json_ok (json_number n)"
  by (simp add: json_number_def)

end
