(* ===== verification/MockServer.thy ===== *)
theory MockServer
  imports JsonFields
begin

text \<open>
  One session of the mock server (\<open>src/src/stores/mockServerStore.ts\<close>, \<open>src/src/types/mockserver.ts\<close>):
  its routes, the life cycle of the server, the stored configuration, and the request log with its
  budget of entries and bytes. Shown: the byte counter is exact and the log stays within the budget
  and belongs to the running instance, over every order of events; the log built event by event is
  the one a reload builds; a saved configuration is read back.

  An asynchronous action is split at its await: the part after it gets the reply (\<open>Inl\<close> a rejected
  promise) and the state as it is then.
\<close>

section \<open>Routes and log entries\<close>

datatype MatchCondition =
    MatchHeader string string
  | MatchBodyContains string
  | MatchBodyJsonPath string string
  | MatchBodyRegex string
  | MatchDefault

record MockExample =
  me_id :: string
  me_name :: string
  me_matchCondition :: MatchCondition
  me_statusCode :: int
  me_headers :: "string dict"
  me_bodyTemplate :: string
  me_delayMs :: "int option"

record SequenceItem =
  sq_id :: string
  sq_statusCode :: int
  sq_headers :: "string dict"
  sq_bodyTemplate :: string
  sq_delayMs :: "int option"

record MockRoute =
  mr_id :: string
  mr_method :: "string option"
  mr_pattern :: string
  mr_statusCode :: int
  mr_headers :: "string dict"
  mr_bodyTemplate :: string
  mr_delayMs :: "int option"
  mr_priority :: int
  mr_enabled :: bool
  mr_description :: string
  mr_examples :: "MockExample list"
  mr_script :: "string option"
  mr_sequence :: "SequenceItem list"
  mr_sequenceLoop :: bool

record MockRequestLog =
  ml_id :: string
  ml_sessionId :: string
  ml_instanceGeneration :: int
  ml_timestamp :: string
  ml_method :: string
  ml_path :: string
  ml_query :: string
  ml_requestHeaders :: "(string \<times> string) list"
  ml_requestBody :: "string option"
  ml_matchedRouteId :: "string option"
  ml_matchedPattern :: "string option"
  ml_responseStatus :: int
  ml_responseBody :: string
  ml_delayMs :: int
  ml_durationMs :: int

record MockServerStatusInfo =
  si_sessionId :: string
  si_instanceGeneration :: int
  si_running :: bool
  si_port :: int
  si_routeCount :: int
  si_logCount :: int
  si_totalHits :: int

record MockServerConfig =
  mc_id :: string
  mc_sessionLabel :: string
  mc_port :: int
  mc_routesJson :: string
  mc_proxyTarget :: "string option"
  mc_createdAt :: string
  mc_updatedAt :: string

abbreviation newline :: string where "newline \<equiv> [CHR 0x0A]"

definition createEmptyRoute :: "string \<Rightarrow> MockRoute" where
  "createEmptyRoute uuid = \<lparr> mr_id = uuid, mr_method = Some ''GET'', mr_pattern = ''/'', mr_statusCode = 200,
     mr_headers = [],
     mr_bodyTemplate = ''{'' @ newline @ ''  '' @ quote_string ''message'' @ '': '' @ quote_string ''Hello from Mock Server'' @ newline @ ''}'',
     mr_delayMs = None, mr_priority = 0, mr_enabled = True, mr_description = [], mr_examples = [], mr_script = None,
     mr_sequence = [], mr_sequenceLoop = True \<rparr>"

definition createEmptyExample :: "string \<Rightarrow> MockExample" where
  "createEmptyExample uuid = \<lparr> me_id = uuid, me_name = [], me_matchCondition = MatchDefault, me_statusCode = 200,
     me_headers = [],
     me_bodyTemplate = ''{'' @ newline @ ''  '' @ quote_string ''message'' @ '': '' @ quote_string ''example'' @ newline @ ''}'',
     me_delayMs = None \<rparr>"

definition createEmptySequenceItem :: "string \<Rightarrow> SequenceItem" where
  "createEmptySequenceItem uuid = \<lparr> sq_id = uuid, sq_statusCode = 200, sq_headers = [],
     sq_bodyTemplate = ''{'' @ newline @ ''  '' @ quote_string ''step'' @ '': 1'' @ newline @ ''}'', sq_delayMs = None \<rparr>"


section \<open>The log budget\<close>

definition MAX_RENDERER_LOG_ENTRIES :: nat where "MAX_RENDERER_LOG_ENTRIES = 2000"

definition MAX_RENDERER_LOG_BYTES :: nat where "MAX_RENDERER_LOG_BYTES = 32 * 1024 * 1024"

definition opt_length :: "string option \<Rightarrow> nat" where
  "opt_length x = (case x of Some s \<Rightarrow> length s | None \<Rightarrow> 0)"

text \<open>The model's strings are UTF-8 bytes, so a length is what \<open>TextEncoder\<close> counts.\<close>

definition mockLogSize :: "MockRequestLog \<Rightarrow> nat" where
  "mockLogSize l = 32
     + sum_list (map length [ml_id l, ml_sessionId l, ml_timestamp l, ml_method l, ml_path l, ml_query l, ml_responseBody l])
     + sum_list (map opt_length [ml_requestBody l, ml_matchedRouteId l, ml_matchedPattern l])
     + sum_list (map (\<lambda>(n, v). length n + length v) (ml_requestHeaders l))"

text \<open>The loop of \<open>retainNewestLogs\<close> over the logs, newest first.\<close>

fun retain_loop :: "MockRequestLog list \<Rightarrow> MockRequestLog list \<Rightarrow> nat \<Rightarrow> MockRequestLog list \<times> nat" where
  "retain_loop [] retained bytes = (retained, bytes)"
| "retain_loop (l # ls) retained bytes =
     (if \<not> length retained < MAX_RENDERER_LOG_ENTRIES then (retained, bytes)
      else if MAX_RENDERER_LOG_BYTES < mockLogSize l then retain_loop ls retained bytes
      else if MAX_RENDERER_LOG_BYTES < bytes + mockLogSize l then (retained, bytes)
      else retain_loop ls (l # retained) (bytes + mockLogSize l))"

definition retainNewestLogs :: "MockRequestLog list \<Rightarrow> MockRequestLog list \<times> nat" where
  "retainNewestLogs logs = retain_loop (rev logs) [] 0"

definition isMockLogForInstance :: "MockRequestLog \<Rightarrow> string \<Rightarrow> int option \<Rightarrow> bool" where
  "isMockLogForInstance l sessionId instanceGeneration \<longleftrightarrow>
     instanceGeneration \<noteq> None \<and> ml_sessionId l = sessionId \<and> Some (ml_instanceGeneration l) = instanceGeneration"

text \<open>The eviction loop of the event handler, with its counter.\<close>

fun evict_loop :: "MockRequestLog list \<Rightarrow> int \<Rightarrow> MockRequestLog list \<times> int" where
  "evict_loop [] bytes = ([], bytes)"
| "evict_loop (l # ls) bytes =
     (if MAX_RENDERER_LOG_ENTRIES < length (l # ls) \<or> int MAX_RENDERER_LOG_BYTES < bytes
      then evict_loop ls (bytes - int (mockLogSize l)) else (l # ls, bytes))"


section \<open>The store\<close>

record mock_state =
  ms_sessionId :: string
  ms_instanceGeneration :: "int option"
  ms_running :: bool
  ms_port :: int
  ms_routes :: "MockRoute list"
  ms_selectedRouteId :: "string option"
  ms_logs :: "MockRequestLog list"
  ms_totalHits :: int
  ms_error :: "string option"
  ms_proxyTarget :: string
  ms_configId :: "string option"
  ms_retainedLogBytes :: int
  ms_autoSaveTimer :: bool

definition createMockServerSessionStore :: "string \<Rightarrow> mock_state" where
  "createMockServerSessionStore sessionId = \<lparr> ms_sessionId = sessionId, ms_instanceGeneration = None,
     ms_running = False, ms_port = 3100, ms_routes = [], ms_selectedRouteId = None, ms_logs = [], ms_totalHits = 0,
     ms_error = None, ms_proxyTarget = [], ms_configId = None, ms_retainedLogBytes = 0, ms_autoSaveTimer = False \<rparr>"

definition applyServerStatus :: "MockServerStatusInfo \<Rightarrow> mock_state \<Rightarrow> mock_state" where
  "applyServerStatus status s =
     (let instanceGeneration = (if 0 < si_instanceGeneration status then Some (si_instanceGeneration status) else None);
          generationChanged = (ms_instanceGeneration s \<noteq> instanceGeneration)
      in s\<lparr>ms_retainedLogBytes := (if generationChanged then 0 else ms_retainedLogBytes s),
           ms_instanceGeneration := instanceGeneration, ms_running := si_running status, ms_port := si_port status,
           ms_totalHits := si_totalHits status,
           ms_logs := (if generationChanged then [] else ms_logs s)\<rparr>)"

definition scheduleAutoSave :: "mock_state \<Rightarrow> mock_state" where
  "scheduleAutoSave s = s\<lparr>ms_autoSaveTimer := True\<rparr>"

definition addRoute :: "string \<Rightarrow> mock_state \<Rightarrow> mock_state" where
  "addRoute uuid s = scheduleAutoSave (s\<lparr>ms_routes := ms_routes s @ [createEmptyRoute uuid], ms_selectedRouteId := Some uuid\<rparr>)"

text \<open>\<open>template\<close> writes the fields of the partial route over those of an empty one; the id is always
  fresh.\<close>

definition addRouteFromTemplate :: "string \<Rightarrow> string \<Rightarrow> (MockRoute \<Rightarrow> MockRoute) \<Rightarrow> mock_state \<Rightarrow> mock_state" where
  "addRouteFromTemplate uuid0 uuid template s =
     (let newRoute = (template (createEmptyRoute uuid0))\<lparr>mr_id := uuid\<rparr>
      in scheduleAutoSave (s\<lparr>ms_routes := ms_routes s @ [newRoute], ms_selectedRouteId := Some uuid\<rparr>))"

definition updateRoute :: "string \<Rightarrow> (MockRoute \<Rightarrow> MockRoute) \<Rightarrow> mock_state \<Rightarrow> mock_state" where
  "updateRoute i patch s = scheduleAutoSave (s\<lparr>ms_routes := map_where (\<lambda>r. mr_id r = i) patch (ms_routes s)\<rparr>)"

definition removeRoute :: "string \<Rightarrow> mock_state \<Rightarrow> mock_state" where
  "removeRoute i s = scheduleAutoSave (s\<lparr>ms_routes := filter (\<lambda>r. mr_id r \<noteq> i) (ms_routes s),
     ms_selectedRouteId := (if ms_selectedRouteId s = Some i then None else ms_selectedRouteId s)\<rparr>)"

definition copyOfRoute :: "string \<Rightarrow> MockRoute \<Rightarrow> MockRoute" where
  "copyOfRoute uuid source = source\<lparr>mr_id := uuid,
     mr_description := (if truthy (mr_description source) then mr_description source @ '' (copy)'' else ''(copy)'')\<rparr>"

definition duplicateRoute :: "string \<Rightarrow> string \<Rightarrow> mock_state \<Rightarrow> mock_state" where
  "duplicateRoute uuid i s =
     (case findIndex (\<lambda>r. mr_id r = i) (ms_routes s) of
        None \<Rightarrow> s
      | Some idx \<Rightarrow> scheduleAutoSave (s\<lparr>
          ms_routes := splice_in (idx + 1) (copyOfRoute uuid (ms_routes s ! idx)) (ms_routes s),
          ms_selectedRouteId := Some uuid\<rparr>))"

text \<open>Where \<open>splice\<close> starts for an index: negative ones count from the end, and both ends are clamped.\<close>

definition splice_start :: "int \<Rightarrow> nat \<Rightarrow> nat" where
  "splice_start i n = (if i < 0 then nat (int n + i) else min (nat i) n)"

text \<open>\<open>None\<close> when \<open>fromIndex\<close> is past the end: then \<open>moved\<close> is \<open>undefined\<close>, which is inserted into the
  array of routes.\<close>

definition reorderRoutes :: "int \<Rightarrow> int \<Rightarrow> mock_state \<Rightarrow> mock_state option" where
  "reorderRoutes fromIndex toIndex s =
     (let i = splice_start fromIndex (length (ms_routes s))
      in if i < length (ms_routes s)
         then let rest = splice_out i (ms_routes s)
              in Some (scheduleAutoSave (s\<lparr>ms_routes := splice_in (splice_start toIndex (length rest)) (ms_routes s ! i) rest\<rparr>))
         else None)"

definition setSelectedRoute :: "string option \<Rightarrow> mock_state \<Rightarrow> mock_state" where
  "setSelectedRoute i s = s\<lparr>ms_selectedRouteId := i\<rparr>"

definition setPort :: "int \<Rightarrow> mock_state \<Rightarrow> mock_state" where
  "setPort p s = scheduleAutoSave (s\<lparr>ms_port := p\<rparr>)"

definition importRoutes :: "MockRoute list \<Rightarrow> mock_state \<Rightarrow> mock_state" where
  "importRoutes routes s = scheduleAutoSave (s\<lparr>ms_routes := routes,
     ms_selectedRouteId := (case routes of r # _ \<Rightarrow> Some (mr_id r) | [] \<Rightarrow> None)\<rparr>)"

definition exportRoutes :: "mock_state \<Rightarrow> MockRoute list" where
  "exportRoutes s = ms_routes s"



section \<open>The stored configuration\<close>

fun json_of_condition :: "MatchCondition \<Rightarrow> json" where
  "json_of_condition (MatchHeader n v) = JObj [(''type'', JStr ''header''), (''name'', JStr n), (''value'', JStr v)]"
| "json_of_condition (MatchBodyContains v) = JObj [(''type'', JStr ''bodyContains''), (''value'', JStr v)]"
| "json_of_condition (MatchBodyJsonPath p v) = JObj [(''type'', JStr ''bodyJsonPath''), (''path'', JStr p), (''value'', JStr v)]"
| "json_of_condition (MatchBodyRegex p) = JObj [(''type'', JStr ''bodyRegex''), (''pattern'', JStr p)]"
| "json_of_condition MatchDefault = JObj [(''type'', JStr ''default'')]"

definition json_of_example :: "MockExample \<Rightarrow> json" where
  "json_of_example e = JObj ([(''id'', JStr (me_id e)), (''name'', JStr (me_name e)),
     (''matchCondition'', json_of_condition (me_matchCondition e)), (''statusCode'', json_number (me_statusCode e)),
     (''headers'', json_strings (me_headers e)), (''bodyTemplate'', JStr (me_bodyTemplate e))]
     @ opt_field ''delayMs'' json_number (me_delayMs e))"

definition json_of_item :: "SequenceItem \<Rightarrow> json" where
  "json_of_item q = JObj ([(''id'', JStr (sq_id q)), (''statusCode'', json_number (sq_statusCode q)),
     (''headers'', json_strings (sq_headers q)), (''bodyTemplate'', JStr (sq_bodyTemplate q))]
     @ opt_field ''delayMs'' json_number (sq_delayMs q))"

definition json_of_route :: "MockRoute \<Rightarrow> json" where
  "json_of_route r = JObj ([(''id'', JStr (mr_id r))] @ opt_field ''method'' JStr (mr_method r)
     @ [(''pattern'', JStr (mr_pattern r)), (''statusCode'', json_number (mr_statusCode r)),
        (''headers'', json_strings (mr_headers r)), (''bodyTemplate'', JStr (mr_bodyTemplate r))]
     @ opt_field ''delayMs'' json_number (mr_delayMs r)
     @ [(''priority'', json_number (mr_priority r)), (''enabled'', JBool (mr_enabled r)),
        (''description'', JStr (mr_description r)), (''examples'', JArr (map json_of_example (mr_examples r)))]
     @ opt_field ''script'' JStr (mr_script r)
     @ [(''sequence'', JArr (map json_of_item (mr_sequence r))), (''sequenceLoop'', JBool (mr_sequenceLoop r))])"

definition condition_of_json :: "json \<Rightarrow> MatchCondition option" where
  "condition_of_json j = (case j of
     JObj d \<Rightarrow>
       (case (get_string (map_of d ''type''), get_string (map_of d ''name''), get_string (map_of d ''value''),
              get_string (map_of d ''path''), get_string (map_of d ''pattern'')) of
          (Some t, n, v, p, q) \<Rightarrow>
            if t = ''header'' then (case (n, v) of (Some n, Some v) \<Rightarrow> Some (MatchHeader n v) | _ \<Rightarrow> None)
            else if t = ''bodyContains'' then map_option MatchBodyContains v
            else if t = ''bodyJsonPath'' then (case (p, v) of (Some p, Some v) \<Rightarrow> Some (MatchBodyJsonPath p v) | _ \<Rightarrow> None)
            else if t = ''bodyRegex'' then map_option MatchBodyRegex q
            else if t = ''default'' then Some MatchDefault else None
        | _ \<Rightarrow> None)
   | _ \<Rightarrow> None)"

definition example_of_json :: "json \<Rightarrow> MockExample option" where
  "example_of_json j = (case j of
     JObj d \<Rightarrow>
       (case (get_string (map_of d ''id''), get_string (map_of d ''name''),
              Option.bind (map_of d ''matchCondition'') condition_of_json, get_int (map_of d ''statusCode''),
              get_strings (map_of d ''headers''), get_string (map_of d ''bodyTemplate''),
              get_optional get_int (map_of d ''delayMs'')) of
          (Some i, Some n, Some m, Some c, Some h, Some b, Some dl) \<Rightarrow>
            Some \<lparr> me_id = i, me_name = n, me_matchCondition = m, me_statusCode = c, me_headers = h, me_bodyTemplate = b,
                   me_delayMs = dl \<rparr>
        | _ \<Rightarrow> None)
   | _ \<Rightarrow> None)"

definition item_of_json :: "json \<Rightarrow> SequenceItem option" where
  "item_of_json j = (case j of
     JObj d \<Rightarrow>
       (case (get_string (map_of d ''id''), get_int (map_of d ''statusCode''), get_strings (map_of d ''headers''),
              get_string (map_of d ''bodyTemplate''), get_optional get_int (map_of d ''delayMs'')) of
          (Some i, Some c, Some h, Some b, Some dl) \<Rightarrow>
            Some \<lparr> sq_id = i, sq_statusCode = c, sq_headers = h, sq_bodyTemplate = b, sq_delayMs = dl \<rparr>
        | _ \<Rightarrow> None)
   | _ \<Rightarrow> None)"

definition route_of_json :: "json \<Rightarrow> MockRoute option" where
  "route_of_json j = (case j of
     JObj d \<Rightarrow>
       (case (get_string (map_of d ''id''), get_optional get_string (map_of d ''method''), get_string (map_of d ''pattern''),
              get_int (map_of d ''statusCode''), get_strings (map_of d ''headers''), get_string (map_of d ''bodyTemplate''),
              get_optional get_int (map_of d ''delayMs'')) of
          (Some i, Some m, Some pt, Some c, Some h, Some b, Some dl) \<Rightarrow>
       (case (get_int (map_of d ''priority''), get_bool (map_of d ''enabled''), get_string (map_of d ''description''),
              get_array example_of_json (map_of d ''examples''), get_optional get_string (map_of d ''script''),
              get_array item_of_json (map_of d ''sequence''), get_bool (map_of d ''sequenceLoop'')) of
          (Some pr, Some en, Some ds, Some ex, Some sc, Some sq, Some lp) \<Rightarrow>
            Some \<lparr> mr_id = i, mr_method = m, mr_pattern = pt, mr_statusCode = c, mr_headers = h, mr_bodyTemplate = b,
                   mr_delayMs = dl, mr_priority = pr, mr_enabled = en, mr_description = ds, mr_examples = ex, mr_script = sc,
                   mr_sequence = sq, mr_sequenceLoop = lp \<rparr>
        | _ \<Rightarrow> None)
        | _ \<Rightarrow> None)
   | _ \<Rightarrow> None)"

definition routes_to_text :: "MockRoute list \<Rightarrow> string" where
  "routes_to_text rs = JSON_stringify (JArr (map json_of_route rs))"

definition routes_of_text :: "string \<Rightarrow> MockRoute list option" where
  "routes_of_text t = get_array route_of_json (JSON_parse (or_else t ''[]''))"

text \<open>\<open>saveConfig\<close>: the configuration that is handed to the backend, and what follows its reply. The
  comparison with \<open>configId\<close> is against the state at the start of the call.\<close>

definition config_to_save :: "string \<Rightarrow> mock_state \<Rightarrow> MockServerConfig" where
  "config_to_save now s = \<lparr> mc_id = (if truthy_opt (ms_configId s) then the (ms_configId s) else ms_sessionId s),
     mc_sessionLabel = [], mc_port = ms_port s, mc_routesJson = routes_to_text (ms_routes s),
     mc_proxyTarget = (if truthy (ms_proxyTarget s) then Some (ms_proxyTarget s) else None),
     mc_createdAt = now, mc_updatedAt = now \<rparr>"

definition saveConfig_done :: "string + unit \<Rightarrow> string \<Rightarrow> mock_state \<Rightarrow> mock_state \<Rightarrow> mock_state" where
  "saveConfig_done reply now started s =
     (case reply of
        Inl _ \<Rightarrow> s
      | Inr _ \<Rightarrow> if \<not> truthy_opt (ms_configId started) then s\<lparr>ms_configId := Some (mc_id (config_to_save now started))\<rparr> else s)"

definition autoSave_fires :: "mock_state \<Rightarrow> bool" where
  "autoSave_fires s \<longleftrightarrow> ms_autoSaveTimer s \<and> truthy_opt (ms_configId s)"

text \<open>\<open>loadConfig\<close>; a reply whose routes do not have the type of routes is left out of the model.\<close>

definition loadConfig_done :: "string + MockServerConfig option \<Rightarrow> mock_state \<Rightarrow> mock_state" where
  "loadConfig_done reply s =
     (case reply of
        Inr (Some config) \<Rightarrow>
          (case routes_of_text (mc_routesJson config) of
             None \<Rightarrow> s
           | Some routes \<Rightarrow> s\<lparr>ms_configId := Some (mc_id config), ms_port := mc_port config, ms_routes := routes,
               ms_proxyTarget := nullish (mc_proxyTarget config) [],
               ms_selectedRouteId := (case routes of r # _ \<Rightarrow> Some (mr_id r) | [] \<Rightarrow> None)\<rparr>)
      | _ \<Rightarrow> s)"


section \<open>The server\<close>

definition start_request :: "int option \<Rightarrow> mock_state \<Rightarrow> int \<times> MockRoute list" where
  "start_request port s = (nullish port (ms_port s), ms_routes s)"

text \<open>After the reply of \<open>startServer\<close>: the new state, and whether a configuration is saved at once. A
  rejected start is also thrown to the caller.\<close>

definition startServer_done :: "string + MockServerStatusInfo \<Rightarrow> mock_state \<Rightarrow> mock_state \<times> bool" where
  "startServer_done reply s =
     (case reply of
        Inl e \<Rightarrow> (s\<lparr>ms_error := Some e\<rparr>, False)
      | Inr status \<Rightarrow>
          let s' = (applyServerStatus status s)\<lparr>ms_error := None\<rparr>
          in if \<not> truthy_opt (ms_configId s') then (s'\<lparr>ms_configId := Some (ms_sessionId s)\<rparr>, True) else (s', False))"

definition stopServer_done :: "string + unit \<Rightarrow> mock_state \<Rightarrow> mock_state" where
  "stopServer_done reply s =
     (case reply of Inl e \<Rightarrow> s\<lparr>ms_error := Some e\<rparr> | Inr _ \<Rightarrow> s\<lparr>ms_running := False, ms_error := None\<rparr>)"

definition syncRoutesToServer :: "mock_state \<Rightarrow> MockRoute list option" where
  "syncRoutesToServer s = (if \<not> ms_running s then None else Some (ms_routes s))"

definition syncRoutes_done :: "string + unit \<Rightarrow> mock_state \<Rightarrow> mock_state" where
  "syncRoutes_done reply s = (case reply of Inl e \<Rightarrow> s\<lparr>ms_error := Some e\<rparr> | Inr _ \<Rightarrow> s)"

text \<open>\<open>setProxyTarget\<close>: the state, and the target sent to a running server; a rejection skips the
  automatic save.\<close>

definition setProxyTarget :: "string \<Rightarrow> mock_state \<Rightarrow> mock_state \<times> string option option" where
  "setProxyTarget target s =
     (s\<lparr>ms_proxyTarget := target\<rparr>,
      if ms_running s then Some (if truthy target then Some target else None) else None)"

definition setProxyTarget_done :: "(string + unit) option \<Rightarrow> mock_state \<Rightarrow> mock_state" where
  "setProxyTarget_done reply s = (case reply of Some (Inl _) \<Rightarrow> s | _ \<Rightarrow> scheduleAutoSave s)"

definition refreshStatus_done :: "string + MockServerStatusInfo \<Rightarrow> mock_state \<Rightarrow> mock_state" where
  "refreshStatus_done reply s = (case reply of Inl _ \<Rightarrow> s | Inr status \<Rightarrow> applyServerStatus status s)"

definition clearLogs_done :: "string + unit \<Rightarrow> mock_state \<Rightarrow> mock_state" where
  "clearLogs_done reply s =
     (case reply of Inl _ \<Rightarrow> s | Inr _ \<Rightarrow> s\<lparr>ms_retainedLogBytes := 0, ms_logs := [], ms_totalHits := 0\<rparr>)"

definition loadLogs_done :: "string + MockRequestLog list \<Rightarrow> mock_state \<Rightarrow> mock_state" where
  "loadLogs_done reply s =
     (case reply of
        Inl _ \<Rightarrow> s
      | Inr logs \<Rightarrow>
          let (kept, bytes) = retainNewestLogs (filter (\<lambda>l. isMockLogForInstance l (ms_sessionId s) (ms_instanceGeneration s)) logs)
          in s\<lparr>ms_retainedLogBytes := int bytes, ms_logs := kept\<rparr>)"

text \<open>The listener of the event \<open>mock-server-hit\<close>.\<close>

definition onHit :: "MockRequestLog \<Rightarrow> mock_state \<Rightarrow> mock_state" where
  "onHit l s =
     (if \<not> isMockLogForInstance l (ms_sessionId s) (ms_instanceGeneration s) then s
      else
        let (logs, bytes) = evict_loop (ms_logs s @ [l]) (ms_retainedLogBytes s + int (mockLogSize l))
        in s\<lparr>ms_logs := logs, ms_retainedLogBytes := bytes, ms_totalHits := ms_totalHits s + 1\<rparr>)"



section \<open>The log follows its budget\<close>

interpretation mock_log: sized_log mockLogSize MAX_RENDERER_LOG_ENTRIES MAX_RENDERER_LOG_BYTES
  "drop_oldest mockLogSize MAX_RENDERER_LOG_ENTRIES MAX_RENDERER_LOG_BYTES"
  by (rule sized_log_drop_oldest)

abbreviation mock_evict :: "MockRequestLog list \<Rightarrow> MockRequestLog list" where
  "mock_evict \<equiv> drop_oldest mockLogSize MAX_RENDERER_LOG_ENTRIES MAX_RENDERER_LOG_BYTES"

abbreviation mock_fits :: "MockRequestLog list \<Rightarrow> bool" where
  "mock_fits \<equiv> fits mockLogSize MAX_RENDERER_LOG_ENTRIES MAX_RENDERER_LOG_BYTES"

abbreviation mock_bytes :: "MockRequestLog list \<Rightarrow> nat" where
  "mock_bytes ls \<equiv> sum_list (map mockLogSize ls)"

lemma evict_loop_eq: "evict_loop ls (int (mock_bytes ls)) = (mock_evict ls, int (mock_bytes (mock_evict ls)))"
  by (induction ls) auto

text \<open>A log that does not fit even alone is passed over by the reload.\<close>

definition small :: "MockRequestLog \<Rightarrow> bool" where
  "small l \<longleftrightarrow> mockLogSize l \<le> MAX_RENDERER_LOG_BYTES"

lemma retain_loop_generic: "retain_loop xs acc bytes
    = retain_newest mockLogSize MAX_RENDERER_LOG_ENTRIES MAX_RENDERER_LOG_BYTES xs acc bytes"
  by (induction xs acc bytes rule: retain_loop.induct) simp_all

lemma retainNewestLogs_eq:
  "retainNewestLogs ls = (mock_evict (filter small ls), mock_bytes (mock_evict (filter small ls)))"
  using retain_newest_eq[of mockLogSize MAX_RENDERER_LOG_ENTRIES MAX_RENDERER_LOG_BYTES "[]" ls]
  by (simp add: retainNewestLogs_def retain_loop_generic fits_def small_def[abs_def] Let_def)

definition mock_inv :: "mock_state \<Rightarrow> bool" where
  "mock_inv s \<longleftrightarrow> ms_retainedLogBytes s = int (mock_bytes (ms_logs s)) \<and> mock_fits (ms_logs s)
     \<and> (\<forall>l \<in> set (ms_logs s). isMockLogForInstance l (ms_sessionId s) (ms_instanceGeneration s))"

lemma set_mock_evict: "l \<in> set (mock_evict ls) \<Longrightarrow> l \<in> set ls"
  using mock_log.evict_suffix[of ls] set_mono_suffix by blast

lemma onHit_eq:
  assumes "mock_inv s" and "isMockLogForInstance l (ms_sessionId s) (ms_instanceGeneration s)"
  shows "onHit l s = s\<lparr>ms_logs := mock_evict (ms_logs s @ [l]),
    ms_retainedLogBytes := int (mock_bytes (mock_evict (ms_logs s @ [l]))), ms_totalHits := ms_totalHits s + 1\<rparr>"
proof -
  have "ms_retainedLogBytes s + int (mockLogSize l) = int (mock_bytes (ms_logs s @ [l]))" using assms(1) by (simp add: mock_inv_def)
  then show ?thesis using assms(2) unfolding onHit_def by (simp only: evict_loop_eq) simp
qed

lemma onHit_inv: "mock_inv s \<Longrightarrow> mock_inv (onHit l s)"
proof (cases "isMockLogForInstance l (ms_sessionId s) (ms_instanceGeneration s)")
  case True
  assume inv: "mock_inv s"
  then show ?thesis unfolding onHit_eq[OF inv True]
    using True by (auto simp: mock_inv_def mock_log.evict_fits dest!: set_mock_evict)
qed (simp add: onHit_def)

lemma loadLogs_inv: "mock_inv s \<Longrightarrow> mock_inv (loadLogs_done reply s)"
  by (cases reply) (auto simp: loadLogs_done_def retainNewestLogs_eq mock_inv_def mock_log.evict_fits dest!: set_mock_evict)

lemma applyServerStatus_inv: "mock_inv s \<Longrightarrow> mock_inv (applyServerStatus status s)"
  by (auto simp: applyServerStatus_def mock_inv_def Let_def fits_def)

datatype mock_action =
    Hit MockRequestLog
  | StartReply "string + MockServerStatusInfo"
  | StopReply "string + unit"
  | StatusReply "string + MockServerStatusInfo"
  | ClearReply "string + unit"
  | LoadLogsReply "string + MockRequestLog list"
  | LoadConfigReply "string + MockServerConfig option"
  | SaveConfigReply "string + unit" string mock_state
  | SyncReply "string + unit"
  | ProxySet string
  | ProxyReply "(string + unit) option"
  | AddRoute string
  | AddTemplate string string "MockRoute \<Rightarrow> MockRoute"
  | UpdateRoute string "MockRoute \<Rightarrow> MockRoute"
  | RemoveRoute string
  | DuplicateRoute string string
  | ReorderRoutes int int
  | SelectRoute "string option"
  | SetPort int
  | ImportRoutes "MockRoute list"

text \<open>An ill-indexed reordering has no successor state in the model and is skipped.\<close>

fun mock_step :: "mock_state \<Rightarrow> mock_action \<Rightarrow> mock_state" where
  "mock_step s (Hit l) = onHit l s"
| "mock_step s (StartReply r) = fst (startServer_done r s)"
| "mock_step s (StopReply r) = stopServer_done r s"
| "mock_step s (StatusReply r) = refreshStatus_done r s"
| "mock_step s (ClearReply r) = clearLogs_done r s"
| "mock_step s (LoadLogsReply r) = loadLogs_done r s"
| "mock_step s (LoadConfigReply r) = loadConfig_done r s"
| "mock_step s (SaveConfigReply r now s0) = saveConfig_done r now s0 s"
| "mock_step s (SyncReply r) = syncRoutes_done r s"
| "mock_step s (ProxySet t) = fst (setProxyTarget t s)"
| "mock_step s (ProxyReply r) = setProxyTarget_done r s"
| "mock_step s (AddRoute u) = addRoute u s"
| "mock_step s (AddTemplate u v f) = addRouteFromTemplate u v f s"
| "mock_step s (UpdateRoute i f) = updateRoute i f s"
| "mock_step s (RemoveRoute i) = removeRoute i s"
| "mock_step s (DuplicateRoute u i) = duplicateRoute u i s"
| "mock_step s (ReorderRoutes i j) = nullish (reorderRoutes i j s) s"
| "mock_step s (SelectRoute i) = setSelectedRoute i s"
| "mock_step s (SetPort p) = setPort p s"
| "mock_step s (ImportRoutes rs) = importRoutes rs s"

lemmas route_edits = addRoute_def addRouteFromTemplate_def updateRoute_def removeRoute_def duplicateRoute_def
  reorderRoutes_def setSelectedRoute_def setPort_def importRoutes_def scheduleAutoSave_def
  loadConfig_done_def saveConfig_done_def syncRoutes_done_def setProxyTarget_def setProxyTarget_done_def stopServer_done_def

lemma mock_inv_cong:
  "ms_logs s' = ms_logs s \<Longrightarrow> ms_retainedLogBytes s' = ms_retainedLogBytes s \<Longrightarrow> ms_sessionId s' = ms_sessionId s \<Longrightarrow>
    ms_instanceGeneration s' = ms_instanceGeneration s \<Longrightarrow> mock_inv s' = mock_inv s"
  by (simp add: mock_inv_def)

lemma startServer_inv: "mock_inv s \<Longrightarrow> mock_inv (fst (startServer_done r s))"
proof (cases r)
  case (Inr status)
  assume "mock_inv s"
  then have "mock_inv (applyServerStatus status s)" by (rule applyServerStatus_inv)
  moreover have "mock_inv (fst (startServer_done r s)) = mock_inv (applyServerStatus status s)"
    by (rule mock_inv_cong) (simp_all add: startServer_done_def Inr Let_def)
  ultimately show ?thesis by simp
qed (simp add: startServer_done_def mock_inv_def)

lemma mock_step_inv: "mock_inv s \<Longrightarrow> mock_inv (mock_step s a)"
proof (cases a)
  case (StatusReply r)
  assume "mock_inv s"
  then show ?thesis using StatusReply by (cases r) (auto simp: refreshStatus_done_def applyServerStatus_inv)
next
  case (ClearReply r)
  assume "mock_inv s"
  then show ?thesis using ClearReply by (cases r) (auto simp: clearLogs_done_def mock_inv_def fits_def)
qed (auto simp: onHit_inv startServer_inv loadLogs_inv,
     auto simp: mock_inv_def route_edits Let_def nullish_def split: option.splits sum.splits)

interpretation mock_store: action_store "createMockServerSessionStore sid" mock_step "\<lambda>s a. True" mock_inv for sid
  by unfold_locales (auto simp: mock_step_inv, simp add: mock_inv_def createMockServerSessionStore_def fits_def)



section \<open>Configurations read back\<close>

lemma condition_roundtrip: "condition_of_json (json_of_condition c) = Some c"
  by (cases c) (simp_all add: condition_of_json_def get_string_def)

lemma example_roundtrip: "example_of_json (json_of_example e) = Some e"
  by (cases "me_delayMs e")
     (simp_all add: example_of_json_def json_of_example_def opt_field_def condition_roundtrip get_optional_Some)

lemma item_roundtrip: "item_of_json (json_of_item q) = Some q"
  by (cases "sq_delayMs q") (simp_all add: item_of_json_def json_of_item_def opt_field_def get_optional_Some)

lemma route_roundtrip: "route_of_json (json_of_route r) = Some r"
  by (cases "mr_method r"; cases "mr_delayMs r"; cases "mr_script r")
     (simp_all add: route_of_json_def json_of_route_def opt_field_def get_optional_Some
        get_array_json[OF example_roundtrip] get_array_json[OF item_roundtrip])

definition route_ok :: "MockRoute \<Rightarrow> bool" where
  "route_ok r \<longleftrightarrow> wf_dict (mr_headers r) \<and> (\<forall>e \<in> set (mr_examples r). wf_dict (me_headers e))
     \<and> (\<forall>q \<in> set (mr_sequence r). wf_dict (sq_headers q))"

lemma json_ok_condition: "json_ok (json_of_condition c)"
  by (cases c) (simp_all add: wf_dict_def)

lemma json_ok_route: "route_ok r \<Longrightarrow> json_ok (json_of_route r)"
  by (cases "mr_method r"; cases "mr_delayMs r"; cases "mr_script r")
     (auto simp: route_ok_def json_of_route_def opt_field_def wf_dict_def json_of_example_def json_of_item_def
        json_ok_condition split: option.splits)

lemma routes_roundtrip: "\<forall>r \<in> set rs. route_ok r \<Longrightarrow> routes_of_text (routes_to_text rs) = Some rs"
proof -
  assume "\<forall>r \<in> set rs. route_ok r"
  then have "JSON_parse (JSON_stringify (JArr (map json_of_route rs))) = Some (JArr (map json_of_route rs))"
    by (intro JSON_roundtrip) (auto simp: json_ok_route)
  then show ?thesis by (simp add: routes_of_text_def routes_to_text_def or_else_def get_array_json[OF route_roundtrip])
qed


section \<open>Properties\<close>

text \<open>\<^bold>\<open>C20\<close>. Over every sequence of events and replies, in any order: the byte counter is the exact size of
  the log, the log stays within 2000 entries and 32 MB, and every entry belongs to this session and to
  the running instance of its server.\<close>

theorem mock_log_accounted:
  "let s = run mock_step (createMockServerSessionStore sid) es in
     ms_retainedLogBytes s = int (sum_list (map mockLogSize (ms_logs s)))
     \<and> length (ms_logs s) \<le> 2000 \<and> sum_list (map mockLogSize (ms_logs s)) \<le> 32 * 1024 * 1024
     \<and> list_all (\<lambda>l. isMockLogForInstance l (ms_sessionId s) (ms_instanceGeneration s)) (ms_logs s)"
proof -
  have "admissible mock_step (\<lambda>s a. True) (createMockServerSessionStore sid) es" for es
    by (induction es rule: rev_induct) (simp_all add: admissible_append)
  then have "mock_inv (run mock_step (createMockServerSessionStore sid) es)" by (rule mock_store.inv_run)
  then show ?thesis
    by (simp add: Let_def mock_inv_def fits_def MAX_RENDERER_LOG_ENTRIES_def MAX_RENDERER_LOG_BYTES_def list_all_iff)
qed

text \<open>Entries that arrive one by one leave the same log, and the same byte count, as loading all of
  them at once, as long as none is larger than the whole budget.\<close>

theorem mock_live_log_is_reload:
  assumes "ms_logs s = []" and "ms_retainedLogBytes s = 0" and "\<forall>l \<in> set ls. mockLogSize l \<le> MAX_RENDERER_LOG_BYTES"
    and "\<forall>l \<in> set ls. isMockLogForInstance l (ms_sessionId s) (ms_instanceGeneration s)"
  shows "let live = foldl (\<lambda>s l. onHit l s) s ls; loaded = loadLogs_done (Inr ls) s
    in ms_logs live = ms_logs loaded \<and> ms_retainedLogBytes live = ms_retainedLogBytes loaded"
proof -
  have live: "mock_inv s' \<Longrightarrow> ms_sessionId s' = ms_sessionId s \<Longrightarrow> ms_instanceGeneration s' = ms_instanceGeneration s \<Longrightarrow>
      mock_inv (foldl (\<lambda>s l. onHit l s) s' ls)
      \<and> ms_logs (foldl (\<lambda>s l. onHit l s) s' ls) = foldl (\<lambda>log l. mock_evict (log @ [l])) (ms_logs s') ls" for s'
    using assms(4)
  proof (induction ls arbitrary: s')
    case (Cons l ls)
    have hit: "onHit l s' = s'\<lparr>ms_logs := mock_evict (ms_logs s' @ [l]),
        ms_retainedLogBytes := int (mock_bytes (mock_evict (ms_logs s' @ [l]))), ms_totalHits := ms_totalHits s' + 1\<rparr>"
      using Cons.prems by (intro onHit_eq) auto
    then show ?case using Cons.IH[of "onHit l s'"] Cons.prems onHit_inv[OF Cons.prems(1), of l] by simp
  qed simp
  have inv: "mock_inv s" using assms(1,2) by (simp add: mock_inv_def fits_def)
  have small: "filter small ls = ls" using assms(3) by (simp add: small_def)
  have inst: "filter (\<lambda>l. isMockLogForInstance l (ms_sessionId s) (ms_instanceGeneration s)) ls = ls" using assms(4) by simp
  have logs: "ms_logs (foldl (\<lambda>s l. onHit l s) s ls) = mock_evict ls"
    using live[OF inv refl refl] mock_log.evict_pushes_from_fit[of "[]" ls] assms(1) by (simp add: fits_def)
  then show ?thesis
    using live[OF inv refl refl] by (simp add: Let_def loadLogs_done_def inst retainNewestLogs_eq small mock_inv_def)
qed

definition demo_log :: "string \<Rightarrow> MockRequestLog" where
  "demo_log i = \<lparr> ml_id = i, ml_sessionId = ''s'', ml_instanceGeneration = 1, ml_timestamp = [], ml_method = ''GET'',
     ml_path = ''/'', ml_query = [], ml_requestHeaders = [], ml_requestBody = None, ml_matchedRouteId = None,
     ml_matchedPattern = None, ml_responseStatus = 200, ml_responseBody = [], ml_delayMs = 0, ml_durationMs = 0 \<rparr>"

theorem mock_live_log_is_reload_witness:
  "let s = (createMockServerSessionStore ''s'')\<lparr>ms_instanceGeneration := Some 1\<rparr>; ls = [demo_log ''a'', demo_log ''b'']
   in ms_logs (foldl (\<lambda>s l. onHit l s) s ls) = ms_logs (loadLogs_done (Inr ls) s)"
  using mock_live_log_is_reload[of "(createMockServerSessionStore ''s'')\<lparr>ms_instanceGeneration := Some 1\<rparr>"
      "[demo_log ''a'', demo_log ''b'']"]
  by (simp add: Let_def createMockServerSessionStore_def demo_log_def isMockLogForInstance_def mockLogSize_def opt_length_def
      MAX_RENDERER_LOG_BYTES_def)

text \<open>One entry larger than the whole budget that arrives as an event empties the log and is not kept
  itself, while a reload passes over such an entry and keeps the others.\<close>

theorem oversized_hit_empties_log:
  assumes "mock_inv s" and "MAX_RENDERER_LOG_BYTES < mockLogSize l"
    and "isMockLogForInstance l (ms_sessionId s) (ms_instanceGeneration s)"
  shows "ms_logs (onHit l s) = [] \<and> ms_logs (loadLogs_done (Inr (ms_logs s @ [l])) s) = ms_logs s"
proof -
  have fit: "mock_fits (ms_logs s)" and inst: "\<forall>x \<in> set (ms_logs s). isMockLogForInstance x (ms_sessionId s) (ms_instanceGeneration s)"
    using assms(1) by (auto simp: mock_inv_def)
  have "mock_evict (ms_logs s @ [l]) = []"
    using mock_log.evict_stop[of "[]" l "ms_logs s"] assms(2) by (simp add: fits_def)
  moreover have "x \<in> set (ms_logs s) \<Longrightarrow> small x" for x
    using fit member_le_sum_list[of "mockLogSize x" "map mockLogSize (ms_logs s)"] by (simp add: fits_def small_def)
  then have "filter small (ms_logs s @ [l]) = ms_logs s" using assms(2) by (simp add: small_def[of l])
  moreover have "filter (\<lambda>l. isMockLogForInstance l (ms_sessionId s) (ms_instanceGeneration s)) (ms_logs s @ [l]) = ms_logs s @ [l]"
    using inst assms(3) by simp
  ultimately show ?thesis
    unfolding onHit_eq[OF assms(1,3)] loadLogs_done_def retainNewestLogs_eq by (simp add: mock_log.evict_id[OF fit])
qed

theorem oversized_hit_empties_log_witness:
  "\<exists>s l. ms_logs s \<noteq> [] \<and> ms_logs (onHit l s) = []"
proof -
  let ?s = "(createMockServerSessionStore ''s'')\<lparr>ms_instanceGeneration := Some 1, ms_logs := [demo_log ''a''],
    ms_retainedLogBytes := int (mockLogSize (demo_log ''a''))\<rparr>"
  let ?l = "(demo_log ''b'')\<lparr>ml_responseBody := replicate (32 * 1024 * 1024) (CHR ''x'')\<rparr>"
  have "mock_inv ?s"
    by (simp add: mock_inv_def fits_def isMockLogForInstance_def demo_log_def createMockServerSessionStore_def mockLogSize_def
        opt_length_def MAX_RENDERER_LOG_BYTES_def MAX_RENDERER_LOG_ENTRIES_def)
  moreover have "MAX_RENDERER_LOG_BYTES < mockLogSize ?l"
    by (simp add: mockLogSize_def demo_log_def MAX_RENDERER_LOG_BYTES_def)
  moreover have "isMockLogForInstance ?l (ms_sessionId ?s) (ms_instanceGeneration ?s)"
    by (simp add: isMockLogForInstance_def demo_log_def createMockServerSessionStore_def)
  ultimately have "ms_logs (onHit ?l ?s) = []" using oversized_hit_empties_log by blast
  then show ?thesis by (intro exI[of _ ?s] exI[of _ ?l]) simp
qed

text \<open>Loading the configuration that a session saved restores its routes, all their examples and
  sequences included, its port, its proxy target and its configuration id, in any other state of the
  store.\<close>

theorem mock_config_roundtrip:
  assumes "\<forall>r \<in> set (ms_routes s). route_ok r"
  shows "let s' = loadConfig_done (Inr (Some (config_to_save now s))) t in
      ms_routes s' = ms_routes s \<and> ms_port s' = ms_port s \<and> ms_proxyTarget s' = ms_proxyTarget s
      \<and> ms_configId s' = Some (mc_id (config_to_save now s))
      \<and> ms_selectedRouteId s' = map_option mr_id (List.find (\<lambda>_. True) (ms_routes s))
      \<and> ms_logs s' = ms_logs t"
  using routes_roundtrip[OF assms]
  by (auto simp: Let_def loadConfig_done_def config_to_save_def split: list.splits)

theorem mock_config_roundtrip_witness:
  "ms_routes (loadConfig_done (Inr (Some (config_to_save ''now''
       (addRoute ''r'' (createMockServerSessionStore ''s''))))) (createMockServerSessionStore ''t''))
   = [createEmptyRoute ''r'']"
proof -
  have "ms_routes (addRoute ''r'' (createMockServerSessionStore ''s'')) = [createEmptyRoute ''r'']"
    by (simp add: addRoute_def scheduleAutoSave_def createMockServerSessionStore_def)
  then show ?thesis
    using mock_config_roundtrip[of "addRoute ''r'' (createMockServerSessionStore ''s'')" "''now''" "createMockServerSessionStore ''t''"]
    by (simp add: Let_def route_ok_def createEmptyRoute_def)
qed

end
