(* ===== verification/CaptureStore.thy ===== *)
theory CaptureStore
  imports Json
begin

text \<open>
  One session of the capture proxy (\<open>src/src/stores/captureStore.ts\<close>, \<open>src/src/types/capture.ts\<close>):
  the captured entries with their budget, the paused requests with their tombstones, and the life
  cycle of the proxy. The store reconciles three sources that arrive in any order: events, replies to
  requests that were started earlier, and the user's actions; counters (epochs) and fences tell a
  stale reply from a current one.

  The variables of the closure are fields of the state. An asynchronous action is split at its
  awaits; what it remembers across an await is a ticket, and the part after the await takes the
  ticket and the reply.
\<close>

section \<open>Data\<close>

record CapturedEntry =
  ce_sessionId :: string
  ce_captureSeq :: int
  ce_id :: string
  ce_method :: string
  ce_url :: string
  ce_host :: string
  ce_path :: string
  ce_status :: "int option"
  ce_statusText :: "string option"
  ce_requestHeaders :: "(string \<times> string) list"
  ce_responseHeaders :: "(string \<times> string) list"
  ce_requestBody :: "string option"
  ce_responseBody :: "string option"
  ce_requestBodyRaw :: "string option"
  ce_responseBodyRaw :: "string option"
  ce_contentType :: "string option"
  ce_requestContentType :: "string option"
  ce_requestSize :: int
  ce_responseSize :: int
  ce_durationMs :: int
  ce_timestamp :: string
  ce_completed :: bool
  ce_httpVersion :: "string option"

record ProxyStatusInfo =
  ps_sessionId :: string
  ps_running :: bool
  ps_port :: int
  ps_entryCount :: int

record BreakpointRule =
  bp_id :: string
  bp_method :: "string option"
  bp_host :: "string option"
  bp_path :: "string option"
  bp_enabled :: bool

record PausedRequest =
  pr_sessionId :: string
  pr_id :: string
  pr_method :: string
  pr_url :: string
  pr_host :: string
  pr_path :: string
  pr_requestHeaders :: "(string \<times> string) list"
  pr_requestBody :: "string option"
  pr_timestamp :: string

datatype PausedRequestRemovalReason = RemTimeout | RemStopped | RemDisconnected | RemDestroyed | RemResumed

record PausedRequestRemoved =
  rm_sessionId :: string
  rm_requestId :: string
  rm_reason :: PausedRequestRemovalReason

datatype DetailTab = TabHeaders | TabBody | TabPreview

definition MAX_RENDERER_CAPTURE_ENTRIES :: nat where "MAX_RENDERER_CAPTURE_ENTRIES = 5000"

definition MAX_RENDERER_CAPTURE_BYTES :: nat where "MAX_RENDERER_CAPTURE_BYTES = 64 * 1024 * 1024"

definition MAX_TOMBSTONES :: nat where "MAX_TOMBSTONES = 4096"

definition opt_bytes :: "string option \<Rightarrow> nat" where
  "opt_bytes x = (case x of Some s \<Rightarrow> length s | None \<Rightarrow> 0)"

definition capturedEntrySize :: "CapturedEntry \<Rightarrow> nat" where
  "capturedEntrySize e = 64
     + sum_list (map length [ce_sessionId e, ce_id e, ce_method e, ce_url e, ce_host e, ce_path e, ce_timestamp e])
     + sum_list (map opt_bytes [ce_statusText e, ce_requestBody e, ce_responseBody e, ce_requestBodyRaw e,
         ce_responseBodyRaw e, ce_contentType e, ce_requestContentType e, ce_httpVersion e])
     + sum_list (map (\<lambda>(n, v). length n + length v) (ce_requestHeaders e @ ce_responseHeaders e))"

record capture_state =
  cp_sessionId :: string
  cp_running :: bool
  cp_port :: int
  cp_entries :: "CapturedEntry list"
  cp_selectedEntryId :: "string option"
  cp_filter :: string
  cp_detailTab :: DetailTab
  cp_error :: "string option"
  cp_breakpoints :: "BreakpointRule list"
  cp_pausedRequests :: "PausedRequest list"
  cp_listenerPromise :: "nat option"
  cp_listenerSubscribers :: nat
  cp_entriesDestructiveEpoch :: nat
  cp_entriesLiveEpoch :: nat
  cp_entriesRequestSequence :: nat
  cp_entriesReloadScheduled :: bool
  cp_clearedThroughCaptureSeq :: int
  cp_pausedDestructiveEpoch :: nat
  cp_pausedLiveEpoch :: nat
  cp_pausedRequestSequence :: nat
  cp_pausedReloadScheduled :: bool
  cp_statusOperationEpoch :: nat
  cp_statusRequestSequence :: nat
  cp_pendingLifecycleActionEpoch :: "nat option"
  cp_retainedEntryBytes :: int
  cp_retainedEntrySizes :: "nat dict"
  cp_pausedTombstones :: "string list"

definition createCaptureSessionStore :: "string \<Rightarrow> capture_state" where
  "createCaptureSessionStore sessionId = \<lparr>
     cp_sessionId = sessionId, cp_running = False, cp_port = 9090, cp_entries = [], cp_selectedEntryId = None,
     cp_filter = [], cp_detailTab = TabHeaders, cp_error = None, cp_breakpoints = [], cp_pausedRequests = [],
     cp_listenerPromise = None, cp_listenerSubscribers = 0, cp_entriesDestructiveEpoch = 0, cp_entriesLiveEpoch = 0,
     cp_entriesRequestSequence = 0, cp_entriesReloadScheduled = False, cp_clearedThroughCaptureSeq = 0,
     cp_pausedDestructiveEpoch = 0, cp_pausedLiveEpoch = 0, cp_pausedRequestSequence = 0,
     cp_pausedReloadScheduled = False, cp_statusOperationEpoch = 0, cp_statusRequestSequence = 0,
     cp_pendingLifecycleActionEpoch = None, cp_retainedEntryBytes = 0, cp_retainedEntrySizes = [],
     cp_pausedTombstones = [] \<rparr>"


section \<open>Entries\<close>

text \<open>The loop of \<open>retainNewestEntries\<close>, newest entry first; it also notes the sizes.\<close>

fun capture_retain ::
  "CapturedEntry list \<Rightarrow> CapturedEntry list \<Rightarrow> nat dict \<Rightarrow> nat \<Rightarrow> CapturedEntry list \<times> nat dict \<times> nat" where
  "capture_retain [] retained sizes bytes = (retained, sizes, bytes)"
| "capture_retain (e # es) retained sizes bytes =
     (if \<not> length retained < MAX_RENDERER_CAPTURE_ENTRIES then (retained, sizes, bytes)
      else if MAX_RENDERER_CAPTURE_BYTES < capturedEntrySize e then capture_retain es retained sizes bytes
      else if MAX_RENDERER_CAPTURE_BYTES < bytes + capturedEntrySize e then (retained, sizes, bytes)
      else capture_retain es (e # retained) (AList.update (ce_id e) (capturedEntrySize e) sizes)
             (bytes + capturedEntrySize e))"

definition retainNewestEntries :: "CapturedEntry list \<Rightarrow> capture_state \<Rightarrow> capture_state" where
  "retainNewestEntries entries s =
     (let (retained, sizes, bytes) = capture_retain (rev entries) [] [] 0
      in s\<lparr>cp_entries := retained, cp_retainedEntrySizes := sizes, cp_retainedEntryBytes := int bytes\<rparr>)"

definition entrySurvivesClearFence :: "int \<Rightarrow> CapturedEntry \<Rightarrow> bool" where
  "entrySurvivesClearFence clearedThrough e =
     (if clearedThrough = 0 then True
      else \<bar>ce_captureSeq e\<bar> \<le> 9007199254740991 \<and> clearedThrough < ce_captureSeq e)"

text \<open>The selection is kept while its entry is there, and otherwise moves to the last entry.\<close>

definition fix_selection :: "capture_state \<Rightarrow> capture_state" where
  "fix_selection s =
     (if some_elem (\<lambda>e. Some (ce_id e) = cp_selectedEntryId s) (cp_entries s) then s
      else s\<lparr>cp_selectedEntryId := map_option ce_id (last_opt (cp_entries s))\<rparr>)"

definition clearEntries_done :: "string + int \<Rightarrow> capture_state \<Rightarrow> capture_state" where
  "clearEntries_done reply s =
     (case reply of
        Inl _ \<Rightarrow> s
      | Inr clearedThrough \<Rightarrow>
          let fence = max (cp_clearedThroughCaptureSeq s) clearedThrough;
              s1 = s\<lparr>cp_clearedThroughCaptureSeq := fence, cp_entriesDestructiveEpoch := cp_entriesDestructiveEpoch s + 1\<rparr>;
              s2 = fix_selection (retainNewestEntries (filter (entrySurvivesClearFence fence) (cp_entries s)) s1)
          in s2\<lparr>cp_entriesReloadScheduled := True\<rparr>)"

text \<open>\<open>loadEntries\<close> up to its await; a scheduled reload also clears the mark of the schedule.\<close>

record load_ticket =
  lt_destructive :: nat
  lt_live :: nat
  lt_sequence :: nat

definition loadEntries_begin :: "capture_state \<Rightarrow> load_ticket \<times> capture_state" where
  "loadEntries_begin s =
     (let n = cp_entriesRequestSequence s + 1
      in (\<lparr> lt_destructive = cp_entriesDestructiveEpoch s, lt_live = cp_entriesLiveEpoch s, lt_sequence = n \<rparr>,
          s\<lparr>cp_entriesRequestSequence := n\<rparr>))"

definition scheduled_loadEntries :: "capture_state \<Rightarrow> load_ticket \<times> capture_state" where
  "scheduled_loadEntries s = loadEntries_begin (s\<lparr>cp_entriesReloadScheduled := False\<rparr>)"

text \<open>The merge of a snapshot with entries that arrived while it was fetched: a completed live entry wins,
  and so does any live entry the snapshot has not completed.\<close>

definition merge_entry :: "(string \<times> CapturedEntry) list \<Rightarrow> CapturedEntry \<Rightarrow> (string \<times> CapturedEntry) list" where
  "merge_entry merged e =
     (if ce_completed e \<or> \<not> (case map_of merged (ce_id e) of Some x \<Rightarrow> ce_completed x | None \<Rightarrow> False)
      then AList.update (ce_id e) e merged else merged)"

definition last_n :: "nat \<Rightarrow> 'a list \<Rightarrow> 'a list" where
  "last_n n xs = drop (length xs - n) xs"

definition merge_snapshot :: "CapturedEntry list \<Rightarrow> CapturedEntry list \<Rightarrow> CapturedEntry list" where
  "merge_snapshot snapshot live =
     last_n 5000 (map snd (foldl merge_entry (fromEntries (map (\<lambda>e. (ce_id e, e)) snapshot)) live))"

definition loadEntries_done :: "load_ticket \<Rightarrow> string + CapturedEntry list \<Rightarrow> capture_state \<Rightarrow> capture_state" where
  "loadEntries_done t reply s =
     (case reply of
        Inl _ \<Rightarrow> s
      | Inr snapshot \<Rightarrow>
          if cp_entriesRequestSequence s \<noteq> lt_sequence t then s
          else if cp_entriesDestructiveEpoch s \<noteq> lt_destructive t then s\<lparr>cp_entriesReloadScheduled := True\<rparr>
          else
            let entries = filter (entrySurvivesClearFence (cp_clearedThroughCaptureSeq s)) snapshot;
                next_entries = (if cp_entriesLiveEpoch s \<noteq> lt_live t then merge_snapshot entries (cp_entries s) else entries)
            in fix_selection (retainNewestEntries next_entries s))"

text \<open>The eviction loop of the event handler: sizes are looked up, or computed when unknown.\<close>

fun capture_evict :: "CapturedEntry list \<Rightarrow> nat dict \<Rightarrow> int \<Rightarrow> CapturedEntry list \<times> nat dict \<times> int" where
  "capture_evict [] sizes bytes = ([], sizes, bytes)"
| "capture_evict (e # es) sizes bytes =
     (if MAX_RENDERER_CAPTURE_ENTRIES < length (e # es) \<or> int MAX_RENDERER_CAPTURE_BYTES < bytes
      then capture_evict es (AList.delete (ce_id e) sizes)
             (bytes - int (nullish (map_of sizes (ce_id e)) (capturedEntrySize e)))
      else (e # es, sizes, bytes))"

definition with_entries :: "CapturedEntry list \<times> nat dict \<times> int \<Rightarrow> capture_state \<Rightarrow> capture_state" where
  "with_entries r s = fix_selection (s\<lparr>cp_entries := fst r, cp_retainedEntrySizes := fst (snd r),
     cp_retainedEntryBytes := snd (snd r)\<rparr>)"

text \<open>The listener of \<open>capture-event\<close>.\<close>

definition onCaptureEvent :: "CapturedEntry \<Rightarrow> capture_state \<Rightarrow> capture_state" where
  "onCaptureEvent e s =
     (if ce_sessionId e \<noteq> cp_sessionId s then s
      else if \<not> entrySurvivesClearFence (cp_clearedThroughCaptureSeq s) e then s
      else
        let s1 = s\<lparr>cp_entriesLiveEpoch := cp_entriesLiveEpoch s + 1\<rparr>
        in case findIndex (\<lambda>x. ce_id x = ce_id e) (cp_entries s) of
             Some i \<Rightarrow>
               let existing = cp_entries s ! i
               in if ce_completed existing \<and> \<not> ce_completed e then s1
                  else with_entries (capture_evict ((cp_entries s)[i := e])
                    (AList.update (ce_id e) (capturedEntrySize e) (cp_retainedEntrySizes s))
                    (cp_retainedEntryBytes s - int (nullish (map_of (cp_retainedEntrySizes s) (ce_id e)) (capturedEntrySize existing))
                       + int (capturedEntrySize e))) s1
           | None \<Rightarrow>
               with_entries (capture_evict (cp_entries s @ [e])
                 (AList.update (ce_id e) (capturedEntrySize e) (cp_retainedEntrySizes s))
                 (cp_retainedEntryBytes s + int (capturedEntrySize e))) s1)"


section \<open>Paused requests\<close>

definition rememberPausedTombstone :: "string \<Rightarrow> string list \<Rightarrow> string list" where
  "rememberPausedTombstone i ts =
     (let ts' = (if MAX_TOMBSTONES \<le> length ts then drop 1 ts else ts) in if i \<in> set ts' then ts' else ts' @ [i])"

definition bury :: "string list \<Rightarrow> capture_state \<Rightarrow> capture_state" where
  "bury ids s = s\<lparr>cp_pausedTombstones := foldl (\<lambda>ts i. rememberPausedTombstone i ts) (cp_pausedTombstones s) ids\<rparr>"

text \<open>Every paused request is buried and the list is emptied: what a stop does.\<close>

definition drop_paused :: "capture_state \<Rightarrow> capture_state" where
  "drop_paused s = (bury (map pr_id (cp_pausedRequests s)) s)\<lparr>
     cp_pausedDestructiveEpoch := cp_pausedDestructiveEpoch s + 1, cp_pausedRequests := []\<rparr>"

definition loadPaused_begin :: "capture_state \<Rightarrow> load_ticket \<times> capture_state" where
  "loadPaused_begin s =
     (let n = cp_pausedRequestSequence s + 1
      in (\<lparr> lt_destructive = cp_pausedDestructiveEpoch s, lt_live = cp_pausedLiveEpoch s, lt_sequence = n \<rparr>,
          s\<lparr>cp_pausedRequestSequence := n\<rparr>))"

definition scheduled_loadPaused :: "capture_state \<Rightarrow> load_ticket \<times> capture_state" where
  "scheduled_loadPaused s = loadPaused_begin (s\<lparr>cp_pausedReloadScheduled := False\<rparr>)"

definition loadPaused_done :: "load_ticket \<Rightarrow> string + PausedRequest list \<Rightarrow> capture_state \<Rightarrow> capture_state" where
  "loadPaused_done t reply s =
     (case reply of
        Inl _ \<Rightarrow> s
      | Inr paused \<Rightarrow>
          if cp_pausedRequestSequence s \<noteq> lt_sequence t then s
          else if cp_pausedDestructiveEpoch s \<noteq> lt_destructive t then s\<lparr>cp_pausedReloadScheduled := True\<rparr>
          else
            let visible = filter (\<lambda>p. pr_id p \<notin> set (cp_pausedTombstones s)) paused
            in if cp_pausedLiveEpoch s = lt_live t then s\<lparr>cp_pausedRequests := visible\<rparr>
               else s\<lparr>cp_pausedRequests := map snd (assign_entries (fromEntries (map (\<lambda>p. (pr_id p, p)) visible))
                   (map (\<lambda>p. (pr_id p, p)) (filter (\<lambda>p. pr_id p \<notin> set (cp_pausedTombstones s)) (cp_pausedRequests s))))\<rparr>)"

definition remove_paused :: "string \<Rightarrow> capture_state \<Rightarrow> capture_state" where
  "remove_paused i s = (bury [i] s)\<lparr>cp_pausedDestructiveEpoch := cp_pausedDestructiveEpoch s + 1,
     cp_pausedRequests := filter (\<lambda>p. pr_id p \<noteq> i) (cp_pausedRequests s)\<rparr>"

definition resumePaused_done :: "string \<Rightarrow> string + unit \<Rightarrow> capture_state \<Rightarrow> capture_state" where
  "resumePaused_done pausedId reply s = (case reply of Inl _ \<Rightarrow> s | Inr _ \<Rightarrow> remove_paused pausedId s)"

definition onBreakpoint :: "PausedRequest \<Rightarrow> capture_state \<Rightarrow> capture_state" where
  "onBreakpoint p s =
     (if pr_sessionId p \<noteq> cp_sessionId s then s
      else if pr_id p \<in> set (cp_pausedTombstones s) then s
      else
        let s1 = s\<lparr>cp_pausedLiveEpoch := cp_pausedLiveEpoch s + 1\<rparr>
        in if some_elem (\<lambda>q. pr_id q = pr_id p) (cp_pausedRequests s) then s1
           else s1\<lparr>cp_pausedRequests := cp_pausedRequests s @ [p]\<rparr>)"

definition onPausedRemoved :: "PausedRequestRemoved \<Rightarrow> capture_state \<Rightarrow> capture_state" where
  "onPausedRemoved r s = (if rm_sessionId r \<noteq> cp_sessionId s then s else remove_paused (rm_requestId r) s)"



section \<open>The proxy\<close>

text \<open>What the queued operations of a start and of a stop come to, given the replies of the backend calls
  they make. The queue runs one operation at a time.\<close>

definition start_operation ::
  "int \<Rightarrow> string + ProxyStatusInfo \<Rightarrow> string + unit \<Rightarrow> string + ProxyStatusInfo option" where
  "start_operation p status start =
     (case status of
        Inr st \<Rightarrow> if ps_running st \<and> ps_port st = p then Inr (Some st)
                  else (case start of Inl e \<Rightarrow> Inl e | Inr _ \<Rightarrow> Inr None)
      | Inl _ \<Rightarrow> (case start of Inl e \<Rightarrow> Inl e | Inr _ \<Rightarrow> Inr None))"

definition stop_operation :: "string + ProxyStatusInfo \<Rightarrow> string + unit \<Rightarrow> string + unit" where
  "stop_operation status stop =
     (case status of Inr st \<Rightarrow> if \<not> ps_running st then Inr () else stop | Inl _ \<Rightarrow> stop)"

record life_ticket =
  lf_epoch :: nat
  lf_port :: int

definition begin_action :: "capture_state \<Rightarrow> capture_state" where
  "begin_action s = s\<lparr>cp_statusOperationEpoch := cp_statusOperationEpoch s + 1,
     cp_pendingLifecycleActionEpoch := Some (cp_statusOperationEpoch s + 1)\<rparr>"

definition settle_action :: "capture_state \<Rightarrow> capture_state" where
  "settle_action s = s\<lparr>cp_statusOperationEpoch := cp_statusOperationEpoch s + 1, cp_pendingLifecycleActionEpoch := None\<rparr>"

definition startCapture_begin :: "int option \<Rightarrow> capture_state \<Rightarrow> life_ticket \<times> capture_state" where
  "startCapture_begin port s =
     (\<lparr> lf_epoch = cp_statusOperationEpoch s + 1, lf_port = nullish port (cp_port s) \<rparr>, begin_action s)"

text \<open>The breakpoint rules that a start sends to the backend.\<close>

definition rules_to_sync :: "capture_state \<Rightarrow> BreakpointRule list option" where
  "rules_to_sync s = (if 0 < length (cp_breakpoints s) then Some (cp_breakpoints s) else None)"

definition startCapture_ok :: "life_ticket \<Rightarrow> ProxyStatusInfo option \<Rightarrow> capture_state \<Rightarrow> capture_state \<times> BreakpointRule list option" where
  "startCapture_ok t existing s =
     (if cp_statusOperationEpoch s \<noteq> lf_epoch t then (s, None)
      else
        let s' = (settle_action s)\<lparr>cp_running := True, cp_port := nullish (map_option ps_port existing) (lf_port t), cp_error := None\<rparr>
        in (s', rules_to_sync s'))"

text \<open>A rejected start asks for the status, unless a newer action has begun; with the status in hand it
  either finds the proxy running after all or reports the error, which is also thrown.\<close>

definition startCapture_fails :: "life_ticket \<Rightarrow> capture_state \<Rightarrow> bool" where
  "startCapture_fails t s \<longleftrightarrow> cp_statusOperationEpoch s = lf_epoch t"

definition startCapture_reconcile ::
  "life_ticket \<Rightarrow> string \<Rightarrow> string + ProxyStatusInfo \<Rightarrow> capture_state \<Rightarrow> capture_state \<times> BreakpointRule list option" where
  "startCapture_reconcile t msg status s =
     (if cp_statusOperationEpoch s \<noteq> lf_epoch t then (s, None)
      else
        let s1 = settle_action s
        in case status of
             Inl _ \<Rightarrow> (s1\<lparr>cp_error := Some msg\<rparr>, None)
           | Inr st \<Rightarrow>
               if ps_running st \<and> ps_port st = lf_port t
               then let s2 = s1\<lparr>cp_running := True, cp_port := ps_port st, cp_error := None\<rparr> in (s2, rules_to_sync s2)
               else (s1\<lparr>cp_running := ps_running st, cp_port := ps_port st, cp_error := Some msg\<rparr>, None))"

definition stopCapture_begin :: "capture_state \<Rightarrow> life_ticket \<times> capture_state" where
  "stopCapture_begin s = (\<lparr> lf_epoch = cp_statusOperationEpoch s + 1, lf_port = cp_port s \<rparr>, begin_action s)"

definition stopCapture_ok :: "life_ticket \<Rightarrow> capture_state \<Rightarrow> capture_state" where
  "stopCapture_ok t s =
     (let s1 = drop_paused s
      in if cp_statusOperationEpoch s1 \<noteq> lf_epoch t then s1
         else (settle_action s1)\<lparr>cp_running := False, cp_pausedRequests := [], cp_error := None\<rparr>)"

definition stopCapture_reconcile :: "life_ticket \<Rightarrow> string \<Rightarrow> string + ProxyStatusInfo \<Rightarrow> capture_state \<Rightarrow> capture_state" where
  "stopCapture_reconcile t msg status s =
     (if cp_statusOperationEpoch s \<noteq> lf_epoch t then s
      else
        let s1 = settle_action s
        in case status of
             Inl _ \<Rightarrow> s1\<lparr>cp_error := Some msg\<rparr>
           | Inr st \<Rightarrow>
               if \<not> ps_running st then (drop_paused s1)\<lparr>cp_running := False, cp_port := ps_port st, cp_error := None\<rparr>
               else s1\<lparr>cp_running := True, cp_port := ps_port st, cp_error := Some msg\<rparr>)"

record status_ticket =
  st_epoch :: nat
  st_sequence :: nat

definition refreshProxyStatus_begin :: "capture_state \<Rightarrow> status_ticket \<times> capture_state" where
  "refreshProxyStatus_begin s =
     (let n = cp_statusRequestSequence s + 1
      in (\<lparr> st_epoch = cp_statusOperationEpoch s, st_sequence = n \<rparr>, s\<lparr>cp_statusRequestSequence := n\<rparr>))"

definition refreshProxyStatus_done :: "status_ticket \<Rightarrow> string + ProxyStatusInfo \<Rightarrow> capture_state \<Rightarrow> capture_state" where
  "refreshProxyStatus_done t reply s =
     (case reply of
        Inl _ \<Rightarrow> s
      | Inr status \<Rightarrow>
          if cp_statusOperationEpoch s \<noteq> st_epoch t \<or> cp_statusRequestSequence s \<noteq> st_sequence t
            \<or> cp_pendingLifecycleActionEpoch s \<noteq> None then s
          else if \<not> ps_running status then (drop_paused s)\<lparr>cp_running := False, cp_port := ps_port status\<rparr>
          else s\<lparr>cp_running := ps_running status, cp_port := ps_port status\<rparr>)"


section \<open>Breakpoints, view and listeners\<close>

definition setFilter :: "string \<Rightarrow> capture_state \<Rightarrow> capture_state" where
  "setFilter f s = s\<lparr>cp_filter := f\<rparr>"

definition setSelectedEntry :: "string option \<Rightarrow> capture_state \<Rightarrow> capture_state" where
  "setSelectedEntry i s = s\<lparr>cp_selectedEntryId := i\<rparr>"

definition setDetailTab :: "DetailTab \<Rightarrow> capture_state \<Rightarrow> capture_state" where
  "setDetailTab t s = s\<lparr>cp_detailTab := t\<rparr>"

definition loadBreakpoints_done :: "string + BreakpointRule list \<Rightarrow> capture_state \<Rightarrow> capture_state" where
  "loadBreakpoints_done reply s = (case reply of Inl _ \<Rightarrow> s | Inr rules \<Rightarrow> s\<lparr>cp_breakpoints := rules\<rparr>)"

text \<open>Every change of the rules shows at once and is sent to the backend, whose failure is only logged.\<close>

definition syncBreakpoints :: "BreakpointRule list \<Rightarrow> capture_state \<Rightarrow> capture_state" where
  "syncBreakpoints rules s = s\<lparr>cp_breakpoints := rules\<rparr>"

definition addBreakpoint :: "string \<Rightarrow> BreakpointRule \<Rightarrow> capture_state \<Rightarrow> capture_state" where
  "addBreakpoint uuid rule s = syncBreakpoints (cp_breakpoints s @ [rule\<lparr>bp_id := uuid\<rparr>]) s"

definition updateBreakpoint :: "string \<Rightarrow> (BreakpointRule \<Rightarrow> BreakpointRule) \<Rightarrow> capture_state \<Rightarrow> capture_state" where
  "updateBreakpoint i patch s = syncBreakpoints (map_where (\<lambda>r. bp_id r = i) patch (cp_breakpoints s)) s"

definition removeBreakpoint :: "string \<Rightarrow> capture_state \<Rightarrow> capture_state" where
  "removeBreakpoint i s = syncBreakpoints (filter (\<lambda>r. bp_id r \<noteq> i) (cp_breakpoints s)) s"

definition toggleBreakpoint :: "string \<Rightarrow> capture_state \<Rightarrow> capture_state" where
  "toggleBreakpoint i s =
     syncBreakpoints (map_where (\<lambda>r. bp_id r = i) (\<lambda>r. r\<lparr>bp_enabled := \<not> bp_enabled r\<rparr>) (cp_breakpoints s)) s"

text \<open>\<open>registerCaptureListeners\<close>: when one registration fails, those that succeeded are undone. The result
  is the error or the listeners, and the listeners that are undone.\<close>

definition registerCaptureListeners :: "(string + nat) list \<Rightarrow> (string + nat list) \<times> nat list" where
  "registerCaptureListeners results =
     (case List.find isl results of
        Some failure \<Rightarrow> (Inl (projl failure), map projr (filter (\<lambda>r. \<not> isl r) results))
      | None \<Rightarrow> (Inr (map projr results), []))"

text \<open>\<open>initListener\<close> up to its await: the promise it waits for is the one there is, or a new one with the
  given identity.\<close>

definition initListener_begin :: "nat \<Rightarrow> capture_state \<Rightarrow> nat \<times> capture_state" where
  "initListener_begin fresh s =
     (let promise = nullish (cp_listenerPromise s) fresh
      in (promise, s\<lparr>cp_listenerSubscribers := cp_listenerSubscribers s + 1, cp_listenerPromise := Some promise\<rparr>))"

definition initListener_failed :: "nat \<Rightarrow> capture_state \<Rightarrow> capture_state" where
  "initListener_failed active s = s\<lparr>cp_listenerSubscribers := cp_listenerSubscribers s - 1,
     cp_listenerPromise := (if cp_listenerPromise s = Some active then None else cp_listenerPromise s)\<rparr>"

text \<open>The function that \<open>initListener\<close> returns; \<open>released\<close> is its own flag. The last component says whether
  the listeners are removed.\<close>

definition release_listener :: "nat \<Rightarrow> bool \<Rightarrow> capture_state \<Rightarrow> bool \<times> capture_state \<times> bool" where
  "release_listener active released s =
     (if released then (True, s, False)
      else
        let n = cp_listenerSubscribers s - 1; s' = s\<lparr>cp_listenerSubscribers := n\<rparr>
        in if n = 0 \<and> cp_listenerPromise s = Some active then (True, s'\<lparr>cp_listenerPromise := None\<rparr>, True)
           else (True, s', False))"

definition disposeListeners :: "capture_state \<Rightarrow> capture_state" where
  "disposeListeners s = s\<lparr>cp_listenerSubscribers := 0, cp_listenerPromise := None, cp_retainedEntrySizes := [],
     cp_retainedEntryBytes := 0\<rparr>"

end
