(* ===== verification/CaptureProps.thy ===== *)
theory CaptureProps
  imports CaptureStore
begin

text \<open>
  What the capture store keeps in every order of events: its byte accounting and budget, the fence of
  a clear, the tombstones of paused requests (\<open>capture_store\<close>, an \<open>action_store\<close>), and the life cycle
  of start and stop with their calls in flight (\<open>life_reach\<close>, by rule induction).
\<close>

section \<open>The entries follow their budget\<close>

interpretation capture_log: sized_log capturedEntrySize MAX_RENDERER_CAPTURE_ENTRIES MAX_RENDERER_CAPTURE_BYTES
  "drop_oldest capturedEntrySize MAX_RENDERER_CAPTURE_ENTRIES MAX_RENDERER_CAPTURE_BYTES"
  by (rule sized_log_drop_oldest)

abbreviation cap_evict :: "CapturedEntry list \<Rightarrow> CapturedEntry list" where
  "cap_evict \<equiv> drop_oldest capturedEntrySize MAX_RENDERER_CAPTURE_ENTRIES MAX_RENDERER_CAPTURE_BYTES"

abbreviation cap_bytes :: "CapturedEntry list \<Rightarrow> nat" where
  "cap_bytes es \<equiv> sum_list (map capturedEntrySize es)"

definition cap_small :: "CapturedEntry \<Rightarrow> bool" where
  "cap_small e \<longleftrightarrow> capturedEntrySize e \<le> MAX_RENDERER_CAPTURE_BYTES"

text \<open>The table of sizes holds exactly the sizes of the entries.\<close>

definition sizes_exact :: "nat dict \<Rightarrow> CapturedEntry list \<Rightarrow> bool" where
  "sizes_exact sizes es \<longleftrightarrow> (\<forall>k. map_of sizes k = map_option capturedEntrySize (List.find (\<lambda>e. ce_id e = k) es))"

lemma sizes_exact_get: "sizes_exact sizes es \<Longrightarrow> distinct (map ce_id es) \<Longrightarrow> e \<in> set es \<Longrightarrow>
    map_of sizes (ce_id e) = Some (capturedEntrySize e)"
  by (simp add: sizes_exact_def find_key_unique)

lemma sizes_exact_Cons: "sizes_exact sizes es \<Longrightarrow> sizes_exact (AList.update (ce_id e) (capturedEntrySize e) sizes) (e # es)"
  by (auto simp: sizes_exact_def update_conv')

lemma sizes_exact_snoc:
  "sizes_exact sizes es \<Longrightarrow> \<forall>x \<in> set es. ce_id x \<noteq> ce_id e \<Longrightarrow>
    sizes_exact (AList.update (ce_id e) (capturedEntrySize e) sizes) (es @ [e])"
  by (auto simp: sizes_exact_def update_conv' find_append find_None_iff' split: option.splits dest: find_SomeD)

lemma sizes_exact_drop: "sizes_exact sizes (e # es) \<Longrightarrow> distinct (map ce_id (e # es)) \<Longrightarrow>
    sizes_exact (AList.delete (ce_id e) sizes) es"
proof -
  assume a: "sizes_exact sizes (e # es)" "distinct (map ce_id (e # es))"
  have "\<forall>x \<in> set es. ce_id x \<noteq> ce_id e" using a(2) by (metis distinct.simps(2) image_eqI list.set_map list.simps(9))
  then have "List.find (\<lambda>x. ce_id x = ce_id e) es = None" by (simp add: find_None_iff')
  then show ?thesis using a(1) by (auto simp: sizes_exact_def delete_conv')
qed

lemma sizes_exact_replace:
  assumes "sizes_exact sizes es" and "distinct (map ce_id es)" and "i < length es" and "ce_id (es ! i) = ce_id e"
  shows "sizes_exact (AList.update (ce_id e) (capturedEntrySize e) sizes) (es[i := e])"
proof -
  have "List.find (\<lambda>x. ce_id x = k) (es[i := e]) = (if k = ce_id e then Some e else List.find (\<lambda>x. ce_id x = k) es)" for k
  proof -
    obtain xs ys where es: "es = xs @ es ! i # ys" "length xs = i" using id_take_nth_drop[OF assms(3)] assms(3) by (metis length_take min.absorb4)
    then have upd: "es[i := e] = xs @ e # ys" by (metis list_update_length)
    have "ce_id e \<notin> ce_id ` set xs" using assms(2,4) es(1) by (metis distinct_append distinct_map list.set_intros(1)
          map_append not_distinct_conv_prefix list.simps(9) disjoint_insert(1) list.set_map list.simps(15))
    then have "List.find (\<lambda>x. ce_id x = ce_id e) xs = None" unfolding find_None_iff' by (metis image_eqI)
    moreover have "List.find (\<lambda>x. ce_id x = k) es = List.find (\<lambda>x. ce_id x = k) (xs @ es ! i # ys)" using es(1) by simp
    ultimately show ?thesis unfolding upd using assms(4) by (auto simp: find_append split: option.splits)
  qed
  then show ?thesis using assms(1) by (auto simp: sizes_exact_def update_conv')
qed

lemma capture_evict_eq:
  assumes "sizes_exact sizes es" and "distinct (map ce_id es)"
  shows "fst (capture_evict es sizes (int (cap_bytes es))) = cap_evict es
    \<and> sizes_exact (fst (snd (capture_evict es sizes (int (cap_bytes es))))) (cap_evict es)
    \<and> snd (snd (capture_evict es sizes (int (cap_bytes es)))) = int (cap_bytes (cap_evict es))"
  using assms
proof (induction es arbitrary: sizes)
  case (Cons e es)
  have "nullish (map_of sizes (ce_id e)) (capturedEntrySize e) = capturedEntrySize e"
    using sizes_exact_get[OF Cons.prems, of e] by simp
  moreover have "sizes_exact (AList.delete (ce_id e) sizes) es" using sizes_exact_drop Cons.prems by blast
  ultimately show ?case using Cons by simp
qed simp

lemma capture_retain_eq:
  "sizes_exact sizes acc \<Longrightarrow>
    (fst (capture_retain xs acc sizes b), snd (snd (capture_retain xs acc sizes b)))
      = retain_newest capturedEntrySize MAX_RENDERER_CAPTURE_ENTRIES MAX_RENDERER_CAPTURE_BYTES xs acc b
    \<and> sizes_exact (fst (snd (capture_retain xs acc sizes b))) (fst (capture_retain xs acc sizes b))"
  by (induction xs acc sizes b rule: capture_retain.induct) (simp_all add: sizes_exact_Cons)

lemma retainNewestEntries_spec:
  obtains sizes where "sizes_exact sizes (cap_evict (filter cap_small es))"
    "retainNewestEntries es s = s\<lparr>cp_entries := cap_evict (filter cap_small es), cp_retainedEntrySizes := sizes,
       cp_retainedEntryBytes := int (cap_bytes (cap_evict (filter cap_small es)))\<rparr>"
proof
  let ?r = "capture_retain (rev es) [] [] 0"
  have "sizes_exact [] []" by (simp add: sizes_exact_def)
  note r = capture_retain_eq[OF this, of "rev es" 0]
  have fit: "fits capturedEntrySize MAX_RENDERER_CAPTURE_ENTRIES MAX_RENDERER_CAPTURE_BYTES []" by (simp add: fits_def)
  have "(fst ?r, snd (snd ?r)) = (cap_evict (filter cap_small es), cap_bytes (cap_evict (filter cap_small es)))"
    using r retain_newest_eq[OF fit, of es] by (simp add: Let_def cap_small_def[abs_def])
  then have k: "fst ?r = cap_evict (filter cap_small es)" "snd (snd ?r) = cap_bytes (cap_evict (filter cap_small es))"
    by simp_all
  show "sizes_exact (fst (snd ?r)) (cap_evict (filter cap_small es))" using r unfolding k(1) by blast
  show "retainNewestEntries es s = s\<lparr>cp_entries := cap_evict (filter cap_small es), cp_retainedEntrySizes := fst (snd ?r),
       cp_retainedEntryBytes := int (cap_bytes (cap_evict (filter cap_small es)))\<rparr>"
    unfolding retainNewestEntries_def Let_def split_def k by (rule refl)
qed

lemma set_cap_evict: "e \<in> set (cap_evict es) \<Longrightarrow> e \<in> set es"
  using capture_log.evict_suffix[of es] set_mono_suffix by blast

lemma distinct_cap_evict: "distinct (map ce_id es) \<Longrightarrow> distinct (map ce_id (cap_evict es))"
  using capture_log.evict_suffix[of es] by (auto simp: suffix_def) (metis distinct_append map_append)

definition entries_inv :: "capture_state \<Rightarrow> bool" where
  "entries_inv s \<longleftrightarrow> cp_retainedEntryBytes s = int (cap_bytes (cp_entries s))
     \<and> sizes_exact (cp_retainedEntrySizes s) (cp_entries s)
     \<and> fits capturedEntrySize MAX_RENDERER_CAPTURE_ENTRIES MAX_RENDERER_CAPTURE_BYTES (cp_entries s)
     \<and> distinct (map ce_id (cp_entries s))
     \<and> (\<forall>e \<in> set (cp_entries s). entrySurvivesClearFence (cp_clearedThroughCaptureSeq s) e)"

lemma fix_selection_sel [simp]:
  "cp_entries (fix_selection s) = cp_entries s" "cp_retainedEntryBytes (fix_selection s) = cp_retainedEntryBytes s"
  "cp_retainedEntrySizes (fix_selection s) = cp_retainedEntrySizes s"
  "cp_clearedThroughCaptureSeq (fix_selection s) = cp_clearedThroughCaptureSeq s"
  "cp_pausedRequests (fix_selection s) = cp_pausedRequests s" "cp_pausedTombstones (fix_selection s) = cp_pausedTombstones s"
  by (simp_all add: fix_selection_def)

lemma entries_inv_cong:
  "cp_entries s' = cp_entries s \<Longrightarrow> cp_retainedEntryBytes s' = cp_retainedEntryBytes s \<Longrightarrow>
    cp_retainedEntrySizes s' = cp_retainedEntrySizes s \<Longrightarrow> cp_clearedThroughCaptureSeq s' = cp_clearedThroughCaptureSeq s \<Longrightarrow>
    entries_inv s' = entries_inv s"
  by (simp add: entries_inv_def)

lemma retain_inv:
  assumes "distinct (map ce_id es)" and "\<forall>e \<in> set es. entrySurvivesClearFence (cp_clearedThroughCaptureSeq s) e"
  shows "entries_inv (retainNewestEntries es s)"
proof -
  obtain sizes where "sizes_exact sizes (cap_evict (filter cap_small es))"
    "retainNewestEntries es s = s\<lparr>cp_entries := cap_evict (filter cap_small es), cp_retainedEntrySizes := sizes,
       cp_retainedEntryBytes := int (cap_bytes (cap_evict (filter cap_small es)))\<rparr>"
    by (rule retainNewestEntries_spec)
  moreover have "distinct (map ce_id (cap_evict (filter cap_small es)))"
    by (intro distinct_cap_evict distinct_map_filter assms(1))
  ultimately show ?thesis using assms(2)
    by (auto simp: entries_inv_def capture_log.evict_fits dest!: set_cap_evict)
qed

lemma evicted_inv:
  assumes "sizes_exact sizes es" and "distinct (map ce_id es)"
    and "\<forall>e \<in> set es. entrySurvivesClearFence (cp_clearedThroughCaptureSeq s) e"
  shows "entries_inv (with_entries (capture_evict es sizes (int (cap_bytes es))) s)"
  using capture_evict_eq[OF assms(1,2)] assms(3)
  by (auto simp: entries_inv_def with_entries_def capture_log.evict_fits distinct_cap_evict[OF assms(2)] dest!: set_cap_evict)


lemma onCaptureEvent_inv:
  assumes inv: "entries_inv s"
  shows "entries_inv (onCaptureEvent e s)"
proof (cases "ce_sessionId e \<noteq> cp_sessionId s \<or> \<not> entrySurvivesClearFence (cp_clearedThroughCaptureSeq s) e")
  case True
  then show ?thesis using inv by (auto simp: onCaptureEvent_def)
next
  case accept: False
  let ?s1 = "s\<lparr>cp_entriesLiveEpoch := cp_entriesLiveEpoch s + 1\<rparr>"
  let ?sizes = "AList.update (ce_id e) (capturedEntrySize e) (cp_retainedEntrySizes s)"
  have inv1: "entries_inv ?s1" using inv by (simp add: entries_inv_def)
  show ?thesis
  proof (cases "findIndex (\<lambda>x. ce_id x = ce_id e) (cp_entries s)")
    case None
    then have new: "\<forall>x \<in> set (cp_entries s). ce_id x \<noteq> ce_id e" by simp
    have "entries_inv (with_entries (capture_evict (cp_entries s @ [e]) ?sizes (int (cap_bytes (cp_entries s @ [e])))) ?s1)"
      using inv new accept
      by (intro evicted_inv sizes_exact_snoc) (auto simp: entries_inv_def image_iff)
    moreover have "cp_retainedEntryBytes s + int (capturedEntrySize e) = int (cap_bytes (cp_entries s @ [e]))"
      using inv by (simp add: entries_inv_def)
    ultimately show ?thesis using accept unfolding onCaptureEvent_def None by simp
  next
    case (Some i)
    note i = findIndex_SomeD[OF Some]
    let ?old = "cp_entries s ! i" and ?es = "(cp_entries s)[i := e]"
    have d: "distinct (map ce_id (cp_entries s))" and ex: "sizes_exact (cp_retainedEntrySizes s) (cp_entries s)"
      using inv by (auto simp: entries_inv_def)
    have ids: "map ce_id ?es = map ce_id (cp_entries s)" using i by (metis list_update_id map_update)
    have "nullish (map_of (cp_retainedEntrySizes s) (ce_id e)) (capturedEntrySize ?old) = capturedEntrySize ?old"
      using sizes_exact_get[OF ex d, of ?old] i by (metis nth_mem nullish_simps(2))
    moreover have "int (cap_bytes ?es) = cp_retainedEntryBytes s - int (capturedEntrySize ?old) + int (capturedEntrySize e)"
    proof -
      have "cap_bytes ?es + capturedEntrySize ?old = cap_bytes (cp_entries s) + capturedEntrySize e"
        using i sum_list_update[of i "map capturedEntrySize (cp_entries s)" "capturedEntrySize e"]
          elem_le_sum_list[of i "map capturedEntrySize (cp_entries s)"] by (simp add: map_update)
      then show ?thesis using inv by (simp add: entries_inv_def)
    qed
    moreover have "entries_inv (with_entries (capture_evict ?es ?sizes (int (cap_bytes ?es))) ?s1)"
    proof (rule evicted_inv)
      show "sizes_exact ?sizes ?es" using i by (intro sizes_exact_replace ex d) auto
      show "distinct (map ce_id ?es)" unfolding ids by (rule d)
      show "\<forall>x \<in> set ?es. entrySurvivesClearFence (cp_clearedThroughCaptureSeq ?s1) x"
        using inv accept set_update_subset_insert[of "cp_entries s" i e] by (auto simp: entries_inv_def)
    qed
    ultimately show ?thesis using accept inv1 unfolding onCaptureEvent_def Some Let_def by simp
  qed
qed

definition keyed :: "(string \<times> CapturedEntry) list \<Rightarrow> bool" where
  "keyed d \<longleftrightarrow> wf_dict d \<and> (\<forall>(k, e) \<in> set d. ce_id e = k)"

lemma keyed_ids: "keyed d \<Longrightarrow> distinct (map ce_id (map snd d))"
proof -
  assume k: "keyed d"
  then have "map ce_id (map snd d) = map fst d" by (auto simp: keyed_def)
  then show ?thesis using k unfolding keyed_def wf_dict_def by metis
qed

lemma set_update_dict: "set (AList.update k v d) \<subseteq> insert (k, v) (set d)"
  by (induction d) auto

lemma keyed_update: "keyed d \<Longrightarrow> keyed (AList.update (ce_id e) e d)"
  using set_update_dict[of "ce_id e" e d] by (fastforce simp: keyed_def)

lemma keyed_merge: "keyed d \<Longrightarrow> keyed (foldl merge_entry d live)"
  by (induction live arbitrary: d) (auto simp: merge_entry_def keyed_update)

lemma keyed_assign: "keyed d \<Longrightarrow> keyed (assign_entries d (map (\<lambda>e. (ce_id e, e)) es))"
  by (induction es arbitrary: d) (auto simp: keyed_update)

lemma set_merge: "snd ` set (foldl merge_entry d live) \<subseteq> snd ` set d \<union> set live"
proof (induction live arbitrary: d)
  case (Cons e live)
  have "snd ` set (merge_entry d e) \<subseteq> insert e (snd ` set d)"
    using set_update_dict[of "ce_id e" e d] by (auto simp: merge_entry_def)
  then have "snd ` set (merge_entry d e) \<union> set live \<subseteq> snd ` set d \<union> set (e # live)" by auto
  then show ?case unfolding foldl_Cons using Cons[of "merge_entry d e"] by (rule order.trans[rotated])
qed simp

lemma set_assigned: "snd ` set (assign_entries d ps) \<subseteq> snd ` set d \<union> snd ` set ps"
proof (induction ps arbitrary: d)
  case (Cons p ps)
  have "snd ` set (AList.update (fst p) (snd p) d) \<subseteq> insert (snd p) (snd ` set d)"
    using set_update_dict[of "fst p" "snd p" d] by auto
  then have "snd ` set (AList.update (fst p) (snd p) d) \<union> snd ` set ps \<subseteq> snd ` set d \<union> snd ` set (p # ps)" by auto
  then show ?case unfolding assign_entries_simps using Cons[of "AList.update (fst p) (snd p) d"] by (rule order.trans[rotated])
qed simp

lemma merge_snapshot_ids: "distinct (map ce_id (merge_snapshot snapshot live))"
proof -
  have "keyed (foldl merge_entry (fromEntries (map (\<lambda>e. (ce_id e, e)) snapshot)) live)"
    unfolding fromEntries_def by (intro keyed_merge keyed_assign) (simp add: keyed_def)
  from keyed_ids[OF this] show ?thesis unfolding merge_snapshot_def last_n_def by (simp only: drop_map[symmetric] distinct_drop)
qed

lemma merge_snapshot_set: "set (merge_snapshot snapshot live) \<subseteq> set snapshot \<union> set live"
proof -
  have "set (merge_snapshot snapshot live) \<subseteq> snd ` set (foldl merge_entry (fromEntries (map (\<lambda>e. (ce_id e, e)) snapshot)) live)"
    unfolding merge_snapshot_def last_n_def using set_drop_subset by fastforce
  also have "\<dots> \<subseteq> snd ` set (fromEntries (map (\<lambda>e. (ce_id e, e)) snapshot)) \<union> set live" by (rule set_merge)
  also have "snd ` set (fromEntries (map (\<lambda>e. (ce_id e, e)) snapshot)) \<subseteq> set snapshot"
    unfolding fromEntries_def using set_assigned[of "[]" "map (\<lambda>e. (ce_id e, e)) snapshot"] by (auto simp: image_image)
  finally show ?thesis by blast
qed

lemma loadEntries_inv:
  assumes inv: "entries_inv s" and "\<forall>es. reply = Inr es \<longrightarrow> distinct (map ce_id es)"
  shows "entries_inv (loadEntries_done t reply s)"
proof (cases reply)
  case (Inr snapshot)
  let ?es = "filter (entrySurvivesClearFence (cp_clearedThroughCaptureSeq s)) snapshot"
  let ?next = "if cp_entriesLiveEpoch s \<noteq> lt_live t then merge_snapshot ?es (cp_entries s) else ?es"
  have "distinct (map ce_id ?next)" using assms(2) Inr by (simp add: merge_snapshot_ids distinct_map_filter)
  moreover have "\<forall>e \<in> set ?next. entrySurvivesClearFence (cp_clearedThroughCaptureSeq s) e"
    using merge_snapshot_set[of ?es "cp_entries s"] inv by (auto simp: entries_inv_def)
  ultimately have "entries_inv (retainNewestEntries ?next s)" by (rule retain_inv)
  moreover have "entries_inv (fix_selection s') = entries_inv s'" for s' by (rule entries_inv_cong) simp_all
  moreover have "entries_inv (s\<lparr>cp_entriesReloadScheduled := True\<rparr>)" using inv by (simp add: entries_inv_def)
  ultimately show ?thesis using inv unfolding loadEntries_done_def Inr Let_def by simp
qed (simp add: loadEntries_done_def inv)

lemma clearEntries_inv:
  assumes inv: "entries_inv s"
  shows "entries_inv (clearEntries_done reply s)"
proof (cases reply)
  case (Inr n)
  let ?fence = "max (cp_clearedThroughCaptureSeq s) n"
  let ?s1 = "s\<lparr>cp_clearedThroughCaptureSeq := ?fence, cp_entriesDestructiveEpoch := cp_entriesDestructiveEpoch s + 1\<rparr>"
  have "entries_inv (retainNewestEntries (filter (entrySurvivesClearFence ?fence) (cp_entries s)) ?s1)"
    using inv by (intro retain_inv) (auto simp: entries_inv_def distinct_map_filter)
  then show ?thesis unfolding clearEntries_done_def Inr Let_def by (simp add: entries_inv_def)
qed (simp add: clearEntries_done_def inv)



section \<open>Paused requests stay buried\<close>

definition paused_inv :: "capture_state \<Rightarrow> bool" where
  "paused_inv s \<longleftrightarrow> distinct (cp_pausedTombstones s) \<and> length (cp_pausedTombstones s) \<le> MAX_TOMBSTONES
     \<and> (\<forall>p \<in> set (cp_pausedRequests s). pr_id p \<notin> set (cp_pausedTombstones s))"

lemma remember_distinct: "distinct ts \<Longrightarrow> distinct (rememberPausedTombstone i ts)"
  by (auto simp: rememberPausedTombstone_def Let_def)

lemma remember_length: "length ts \<le> MAX_TOMBSTONES \<Longrightarrow> length (rememberPausedTombstone i ts) \<le> MAX_TOMBSTONES"
  by (auto simp: rememberPausedTombstone_def Let_def MAX_TOMBSTONES_def)

lemma remember_set: "set (rememberPausedTombstone i ts) \<subseteq> insert i (set ts)"
  by (auto simp: rememberPausedTombstone_def Let_def dest: in_set_dropD)

lemma remember_mem: "i \<in> set (rememberPausedTombstone i ts)"
  by (auto simp: rememberPausedTombstone_def Let_def)

lemma remembers_inv:
  "distinct ts \<Longrightarrow> length ts \<le> MAX_TOMBSTONES \<Longrightarrow>
    distinct (foldl (\<lambda>ts i. rememberPausedTombstone i ts) ts is)
    \<and> length (foldl (\<lambda>ts i. rememberPausedTombstone i ts) ts is) \<le> MAX_TOMBSTONES"
  by (induction "is" arbitrary: ts) (auto simp: remember_distinct remember_length)

lemma drop_paused_inv: "paused_inv s \<Longrightarrow> paused_inv (drop_paused s)"
  using remembers_inv[of "cp_pausedTombstones s"] by (simp add: paused_inv_def drop_paused_def bury_def)

lemma remove_paused_inv: "paused_inv s \<Longrightarrow> paused_inv (remove_paused i s)"
  using remember_set[of i "cp_pausedTombstones s"]
  by (auto simp: paused_inv_def remove_paused_def bury_def remember_distinct remember_length)

lemma paused_inv_replace:
  "paused_inv s \<Longrightarrow> (\<And>p. p \<in> set ps \<Longrightarrow> pr_id p \<notin> set (cp_pausedTombstones s)) \<Longrightarrow>
    paused_inv (s\<lparr>cp_pausedRequests := ps\<rparr>)"
  by (simp add: paused_inv_def)

lemma loadPaused_inv: "paused_inv s \<Longrightarrow> paused_inv (loadPaused_done t reply s)"
proof (cases reply)
  case (Inr paused)
  assume inv: "paused_inv s"
  let ?live = "map (\<lambda>p. (pr_id p, p)) (filter (\<lambda>p. pr_id p \<notin> set (cp_pausedTombstones s)) (cp_pausedRequests s))"
  let ?snap = "map (\<lambda>p. (pr_id p, p)) (filter (\<lambda>p. pr_id p \<notin> set (cp_pausedTombstones s)) paused)"
  have sub: "snd ` set (assign_entries (fromEntries xs) ys) \<subseteq> snd ` set xs \<union> snd ` set ys" for xs ys :: "(string \<times> PausedRequest) list"
  proof -
    have "snd ` set (fromEntries xs) \<subseteq> snd ` set xs" unfolding fromEntries_def using set_assigned[of "[]" xs] by simp
    then show ?thesis using set_assigned[of "fromEntries xs" ys] by blast
  qed
  have "paused_inv (s\<lparr>cp_pausedRequests := map snd (assign_entries (fromEntries ?snap) ?live)\<rparr>)"
  proof (rule paused_inv_replace[OF inv])
    fix p
    assume "p \<in> set (map snd (assign_entries (fromEntries ?snap) ?live))"
    then have "p \<in> snd ` set (assign_entries (fromEntries ?snap) ?live)" by (simp only: set_map[of snd])
    then have "p \<in> snd ` set ?snap \<union> snd ` set ?live" using sub[of ?snap ?live] by (rule rev_subsetD)
    then show "pr_id p \<notin> set (cp_pausedTombstones s)" by auto
  qed
  moreover have "paused_inv (s\<lparr>cp_pausedRequests := filter (\<lambda>p. pr_id p \<notin> set (cp_pausedTombstones s)) paused\<rparr>)"
    by (intro paused_inv_replace inv) simp
  moreover have "paused_inv (s\<lparr>cp_pausedReloadScheduled := True\<rparr>)" using inv by (simp add: paused_inv_def)
  ultimately show ?thesis using inv unfolding loadPaused_done_def Inr Let_def sum.case by (simp only: split: if_splits) simp
qed (simp add: loadPaused_done_def)

lemma onBreakpoint_inv: "paused_inv s \<Longrightarrow> paused_inv (onBreakpoint p s)"
  by (auto simp: onBreakpoint_def paused_inv_def Let_def)

lemma onPausedRemoved_inv: "paused_inv s \<Longrightarrow> paused_inv (onPausedRemoved r s)"
  by (simp add: onPausedRemoved_def remove_paused_inv)


section \<open>All actions\<close>

datatype capture_action =
    CaptureEvent CapturedEntry
  | BreakpointEvent PausedRequest
  | PausedRemovedEvent PausedRequestRemoved
  | ClearReply "string + int"
  | LoadEntries
  | LoadEntriesReply load_ticket "string + CapturedEntry list"
  | LoadPaused
  | LoadPausedReply load_ticket "string + PausedRequest list"
  | ResumeReply string "string + unit"
  | StartCapture "int option"
  | StartReply life_ticket "string + ProxyStatusInfo option"
  | StartReconcile life_ticket string "string + ProxyStatusInfo"
  | StopCapture
  | StopReply life_ticket "string + unit"
  | StopReconcile life_ticket string "string + ProxyStatusInfo"
  | RefreshStatus
  | RefreshReply status_ticket "string + ProxyStatusInfo"
  | Breakpoints "BreakpointRule list"
  | View string "string option" DetailTab

text \<open>A reply may come with any ticket at all: the properties below do not depend on tickets being honest.
  What the backend lists has distinct ids (\<open>capture_ok\<close>).\<close>

fun capture_step :: "capture_state \<Rightarrow> capture_action \<Rightarrow> capture_state" where
  "capture_step s (CaptureEvent e) = onCaptureEvent e s"
| "capture_step s (BreakpointEvent p) = onBreakpoint p s"
| "capture_step s (PausedRemovedEvent r) = onPausedRemoved r s"
| "capture_step s (ClearReply r) = clearEntries_done r s"
| "capture_step s LoadEntries = snd (scheduled_loadEntries s)"
| "capture_step s (LoadEntriesReply t r) = loadEntries_done t r s"
| "capture_step s LoadPaused = snd (scheduled_loadPaused s)"
| "capture_step s (LoadPausedReply t r) = loadPaused_done t r s"
| "capture_step s (ResumeReply i r) = resumePaused_done i r s"
| "capture_step s (StartCapture p) = snd (startCapture_begin p s)"
| "capture_step s (StartReply t r) = (case r of Inl _ \<Rightarrow> s | Inr x \<Rightarrow> fst (startCapture_ok t x s))"
| "capture_step s (StartReconcile t m r) = fst (startCapture_reconcile t m r s)"
| "capture_step s StopCapture = snd (stopCapture_begin s)"
| "capture_step s (StopReply t r) = (case r of Inl _ \<Rightarrow> s | Inr _ \<Rightarrow> stopCapture_ok t s)"
| "capture_step s (StopReconcile t m r) = stopCapture_reconcile t m r s"
| "capture_step s RefreshStatus = snd (refreshProxyStatus_begin s)"
| "capture_step s (RefreshReply t r) = refreshProxyStatus_done t r s"
| "capture_step s (Breakpoints bs) = syncBreakpoints bs s"
| "capture_step s (View f i d) = setDetailTab d (setSelectedEntry i (setFilter f s))"

fun capture_ok :: "capture_state \<Rightarrow> capture_action \<Rightarrow> bool" where
  "capture_ok s (LoadEntriesReply t (Inr es)) = distinct (map ce_id es)"
| "capture_ok s _ = True"

lemmas life_defs = begin_action_def settle_action_def startCapture_begin_def startCapture_ok_def startCapture_reconcile_def
  stopCapture_begin_def stopCapture_ok_def stopCapture_reconcile_def refreshProxyStatus_begin_def refreshProxyStatus_done_def
  scheduled_loadEntries_def loadEntries_begin_def scheduled_loadPaused_def loadPaused_begin_def syncBreakpoints_def
  setDetailTab_def setSelectedEntry_def setFilter_def

text \<open>The fields the entries depend on are touched by the three entry operations only.\<close>

lemma entries_untouched:
  assumes "\<forall>e. a \<noteq> CaptureEvent e" "\<forall>r. a \<noteq> ClearReply r" "\<forall>t r. a \<noteq> LoadEntriesReply t r"
  shows "entries_inv (capture_step s a) = entries_inv s"
  using assms
  by (intro entries_inv_cong; cases a)
     (auto simp: life_defs drop_paused_def bury_def onBreakpoint_def onPausedRemoved_def remove_paused_def resumePaused_done_def
        loadPaused_done_def Let_def split: sum.splits)

lemma capture_entries_inv:
  assumes "entries_inv s" and "capture_ok s a"
  shows "entries_inv (capture_step s a)"
proof (cases a)
  case (LoadEntriesReply t r)
  then show ?thesis using assms by (cases r) (auto intro!: loadEntries_inv)
qed (use assms entries_untouched in \<open>auto simp: onCaptureEvent_inv clearEntries_inv simp del: capture_step.simps(2,3,5,7-19)\<close>)

lemma paused_inv_cong: "cp_pausedRequests s' = cp_pausedRequests s \<Longrightarrow> cp_pausedTombstones s' = cp_pausedTombstones s \<Longrightarrow>
    paused_inv s' = paused_inv s"
  by (simp add: paused_inv_def)


lemma paused_inv_upd [simp]:
  "paused_inv (s\<lparr>cp_running := b\<rparr>) = paused_inv s" "paused_inv (s\<lparr>cp_port := p\<rparr>) = paused_inv s"
  "paused_inv (s\<lparr>cp_error := e\<rparr>) = paused_inv s" "paused_inv (settle_action s) = paused_inv s"
  by (simp_all add: paused_inv_def settle_action_def)

lemma lifecycle_paused_inv:
  assumes inv: "paused_inv s"
  shows "paused_inv (fst (startCapture_ok t x s))" "paused_inv (fst (startCapture_reconcile t m r s))"
    "paused_inv (stopCapture_ok t s)" "paused_inv (stopCapture_reconcile t m r s)"
    "paused_inv (refreshProxyStatus_done rt rr s)"
proof -
  note d = drop_paused_inv[OF inv]
  show "paused_inv (fst (startCapture_ok t x s))" using inv by (simp add: startCapture_ok_def settle_action_def Let_def paused_inv_def)
  show "paused_inv (fst (startCapture_reconcile t m r s))"
    using inv by (simp add: startCapture_reconcile_def settle_action_def Let_def paused_inv_def split: sum.splits)
  show "paused_inv (stopCapture_ok t s)" using d by (simp add: stopCapture_ok_def settle_action_def Let_def paused_inv_def)
  show "paused_inv (refreshProxyStatus_done rt rr s)"
    using d inv by (simp add: refreshProxyStatus_done_def paused_inv_def split: sum.splits)
  have "paused_inv (drop_paused (settle_action s))" using inv by (intro drop_paused_inv) simp
  then show "paused_inv (stopCapture_reconcile t m r s)"
    using inv by (simp add: stopCapture_reconcile_def Let_def split: sum.splits)
qed

lemma entries_paused_inv:
  assumes inv: "paused_inv s"
  shows "paused_inv (onCaptureEvent e s)" "paused_inv (clearEntries_done cr s)" "paused_inv (loadEntries_done lt lr s)"
proof -
  have sel: "cp_pausedRequests (with_entries r s') = cp_pausedRequests s'" "cp_pausedTombstones (with_entries r s') = cp_pausedTombstones s'"
    "cp_pausedRequests (retainNewestEntries es s') = cp_pausedRequests s'"
    "cp_pausedTombstones (retainNewestEntries es s') = cp_pausedTombstones s'" for r s' es
    by (simp_all add: with_entries_def retainNewestEntries_def split_def Let_def)
  have "paused_inv (onCaptureEvent e s) = paused_inv s"
    by (rule paused_inv_cong) (simp_all add: onCaptureEvent_def Let_def sel split: option.splits)
  moreover have "paused_inv (clearEntries_done cr s) = paused_inv s"
    by (rule paused_inv_cong) (simp_all add: clearEntries_done_def Let_def sel split: sum.splits)
  moreover have "paused_inv (loadEntries_done lt lr s) = paused_inv s"
    by (rule paused_inv_cong) (simp_all add: loadEntries_done_def Let_def sel split: sum.splits)
  ultimately show "paused_inv (onCaptureEvent e s)" "paused_inv (clearEntries_done cr s)" "paused_inv (loadEntries_done lt lr s)"
    using inv by simp_all
qed

lemma capture_paused_inv:
  assumes inv: "paused_inv s"
  shows "paused_inv (capture_step s a)"
proof -
  have starts: "paused_inv (snd (scheduled_loadEntries s))" "paused_inv (snd (scheduled_loadPaused s))"
    "paused_inv (snd (startCapture_begin p s))" "paused_inv (snd (stopCapture_begin s))"
    "paused_inv (snd (refreshProxyStatus_begin s))" "paused_inv (syncBreakpoints bs s)"
    "paused_inv (setDetailTab d (setSelectedEntry i (setFilter f s)))" for p bs d i f
    using inv by (simp_all add: paused_inv_def scheduled_loadEntries_def loadEntries_begin_def scheduled_loadPaused_def
        loadPaused_begin_def startCapture_begin_def stopCapture_begin_def begin_action_def refreshProxyStatus_begin_def
        syncBreakpoints_def setDetailTab_def setSelectedEntry_def setFilter_def Let_def)
  show ?thesis
    by (cases a) (simp_all add: inv starts lifecycle_paused_inv entries_paused_inv onBreakpoint_inv onPausedRemoved_inv loadPaused_inv
        resumePaused_done_def remove_paused_inv split: sum.splits)
qed

interpretation capture_store: action_store "createCaptureSessionStore sid" capture_step capture_ok
  "\<lambda>s. entries_inv s \<and> paused_inv s" for sid
  by unfold_locales (auto simp: capture_entries_inv capture_paused_inv,
    simp_all add: entries_inv_def paused_inv_def createCaptureSessionStore_def fits_def sizes_exact_def)


section \<open>Life cycle actions in flight\<close>

datatype life_phase =
    Starting life_ticket
  | StartFailed life_ticket string
  | Stopping life_ticket
  | StopFailed life_ticket string

fun ticket_of :: "life_phase \<Rightarrow> nat" where
  "ticket_of (Starting t) = lf_epoch t"
| "ticket_of (StartFailed t e) = lf_epoch t"
| "ticket_of (Stopping t) = lf_epoch t"
| "ticket_of (StopFailed t e) = lf_epoch t"

fun is_life_action :: "capture_action \<Rightarrow> bool" where
  "is_life_action (StartCapture _) = True"
| "is_life_action (StartReply _ _) = True"
| "is_life_action (StartReconcile _ _ _) = True"
| "is_life_action StopCapture = True"
| "is_life_action (StopReply _ _) = True"
| "is_life_action (StopReconcile _ _ _) = True"
| "is_life_action _ = False"

text \<open>The calls of \<open>startCapture\<close> and \<open>stopCapture\<close> that have not ended, with the store.\<close>

inductive life_reach :: "string \<Rightarrow> capture_state \<Rightarrow> life_phase list \<Rightarrow> bool" for sid where
  init: "life_reach sid (createCaptureSessionStore sid) []"
| start: "life_reach sid s fs \<Longrightarrow> startCapture_begin p s = (t, s') \<Longrightarrow> life_reach sid s' (Starting t # fs)"
| start_ok: "life_reach sid s fs \<Longrightarrow> Starting t \<in> set fs \<Longrightarrow>
    life_reach sid (fst (startCapture_ok t x s)) (remove1 (Starting t) fs)"
| start_error: "life_reach sid s fs \<Longrightarrow> Starting t \<in> set fs \<Longrightarrow> cp_statusOperationEpoch s = lf_epoch t \<Longrightarrow>
    life_reach sid s (StartFailed t e # remove1 (Starting t) fs)"
| start_error_stale: "life_reach sid s fs \<Longrightarrow> Starting t \<in> set fs \<Longrightarrow> cp_statusOperationEpoch s \<noteq> lf_epoch t \<Longrightarrow>
    life_reach sid s (remove1 (Starting t) fs)"
| start_reconcile: "life_reach sid s fs \<Longrightarrow> StartFailed t e \<in> set fs \<Longrightarrow>
    life_reach sid (fst (startCapture_reconcile t e r s)) (remove1 (StartFailed t e) fs)"
| stop: "life_reach sid s fs \<Longrightarrow> stopCapture_begin s = (t, s') \<Longrightarrow> life_reach sid s' (Stopping t # fs)"
| stop_ok: "life_reach sid s fs \<Longrightarrow> Stopping t \<in> set fs \<Longrightarrow> life_reach sid (stopCapture_ok t s) (remove1 (Stopping t) fs)"
| stop_error: "life_reach sid s fs \<Longrightarrow> Stopping t \<in> set fs \<Longrightarrow> cp_statusOperationEpoch s = lf_epoch t \<Longrightarrow>
    life_reach sid s (StopFailed t e # remove1 (Stopping t) fs)"
| stop_error_stale: "life_reach sid s fs \<Longrightarrow> Stopping t \<in> set fs \<Longrightarrow> cp_statusOperationEpoch s \<noteq> lf_epoch t \<Longrightarrow>
    life_reach sid s (remove1 (Stopping t) fs)"
| stop_reconcile: "life_reach sid s fs \<Longrightarrow> StopFailed t e \<in> set fs \<Longrightarrow>
    life_reach sid (stopCapture_reconcile t e r s) (remove1 (StopFailed t e) fs)"
| other: "life_reach sid s fs \<Longrightarrow> \<not> is_life_action a \<Longrightarrow> life_reach sid (capture_step s a) fs"

definition life_inv :: "capture_state \<Rightarrow> life_phase list \<Rightarrow> bool" where
  "life_inv s fs \<longleftrightarrow> (case cp_pendingLifecycleActionEpoch s of
     None \<Rightarrow> True
   | Some e \<Rightarrow> e = cp_statusOperationEpoch s \<and> e \<in> ticket_of ` set fs)"

lemma life_inv_remove:
  "life_inv s fs \<Longrightarrow> ticket_of f \<noteq> cp_statusOperationEpoch s \<Longrightarrow> life_inv s (remove1 f fs)"
  by (auto simp: life_inv_def image_iff split: option.splits) (metis in_set_remove1)

lemma life_inv_cong:
  "cp_pendingLifecycleActionEpoch s' = cp_pendingLifecycleActionEpoch s \<Longrightarrow>
    cp_statusOperationEpoch s' = cp_statusOperationEpoch s \<Longrightarrow> life_inv s' fs = life_inv s fs"
  by (simp add: life_inv_def cong: option.case_cong)

lemma other_epoch:
  assumes "\<not> is_life_action a"
  shows "cp_pendingLifecycleActionEpoch (capture_step s a) = cp_pendingLifecycleActionEpoch s
    \<and> cp_statusOperationEpoch (capture_step s a) = cp_statusOperationEpoch s"
proof -
  have sel: "cp_pendingLifecycleActionEpoch (with_entries r s') = cp_pendingLifecycleActionEpoch s'"
    "cp_statusOperationEpoch (with_entries r s') = cp_statusOperationEpoch s'"
    "cp_pendingLifecycleActionEpoch (retainNewestEntries es s') = cp_pendingLifecycleActionEpoch s'"
    "cp_statusOperationEpoch (retainNewestEntries es s') = cp_statusOperationEpoch s'"
    "cp_pendingLifecycleActionEpoch (fix_selection s') = cp_pendingLifecycleActionEpoch s'"
    "cp_statusOperationEpoch (fix_selection s') = cp_statusOperationEpoch s'" for r s' es
    by (simp_all add: with_entries_def fix_selection_def retainNewestEntries_def split_def Let_def)
  show ?thesis using assms
    by (cases a) (simp_all add: life_defs drop_paused_def bury_def onBreakpoint_def onPausedRemoved_def remove_paused_def
        resumePaused_done_def loadPaused_done_def onCaptureEvent_def clearEntries_done_def loadEntries_done_def sel Let_def
        split: sum.splits option.splits)
qed

lemma life_inv_settled:
  assumes "life_inv s fs" and "cp_statusOperationEpoch s \<noteq> ticket_of f \<longrightarrow>
      cp_pendingLifecycleActionEpoch s' = cp_pendingLifecycleActionEpoch s \<and> cp_statusOperationEpoch s' = cp_statusOperationEpoch s"
    and "cp_statusOperationEpoch s = ticket_of f \<longrightarrow> cp_pendingLifecycleActionEpoch s' = None"
  shows "life_inv s' (remove1 f fs)"
proof (cases "cp_statusOperationEpoch s = ticket_of f")
  case True
  then show ?thesis using assms(3) by (simp add: life_inv_def)
next
  case False
  then have "life_inv s' (remove1 f fs) = life_inv s (remove1 f fs)" using assms(2) by (intro life_inv_cong) auto
  then show ?thesis using life_inv_remove[OF assms(1), of f] False by auto
qed

lemma life_inv_reach: "life_reach sid s fs \<Longrightarrow> life_inv s fs"
proof (induction rule: life_reach.induct)
  case (start_ok s fs t x)
  then show ?case by (intro life_inv_settled[OF start_ok.IH]) (auto simp: startCapture_ok_def settle_action_def Let_def)
next
  case (start_reconcile s fs t e r)
  then show ?case
    by (intro life_inv_settled[OF start_reconcile.IH])
       (auto simp: startCapture_reconcile_def settle_action_def Let_def split: sum.splits)
next
  case (stop_ok s fs t)
  then show ?case
    by (intro life_inv_settled[OF stop_ok.IH]) (auto simp: stopCapture_ok_def settle_action_def drop_paused_def bury_def Let_def)
next
  case (stop_reconcile s fs t e r)
  then show ?case
    by (intro life_inv_settled[OF stop_reconcile.IH])
       (auto simp: stopCapture_reconcile_def settle_action_def drop_paused_def bury_def Let_def split: sum.splits)
next
  case (other s fs a)
  then show ?case using other_epoch[of a s] life_inv_cong by metis
next
  case (start_error s fs t e)
  then show ?case by (auto simp: life_inv_def split: option.splits)
next
  case (stop_error s fs t e)
  then show ?case by (auto simp: life_inv_def split: option.splits)
qed (auto simp: life_inv_def createCaptureSessionStore_def startCapture_begin_def stopCapture_begin_def begin_action_def
      intro: life_inv_remove[unfolded life_inv_def])



section \<open>Properties\<close>

text \<open>\<^bold>\<open>C21\<close>. Over every sequence of events, replies and user actions, in any order and with any tickets: the
  byte counter and the table of sizes are exact, the entries stay within 5000 and 64 MB, their ids are
  distinct, and none of them lies behind the fence of the last clear.\<close>

theorem capture_log_accounted:
  assumes "admissible capture_step capture_ok (createCaptureSessionStore sid) as"
  shows "let s = run capture_step (createCaptureSessionStore sid) as in
      cp_retainedEntryBytes s = int (sum_list (map capturedEntrySize (cp_entries s)))
      \<and> length (cp_entries s) \<le> 5000 \<and> sum_list (map capturedEntrySize (cp_entries s)) \<le> 64 * 1024 * 1024
      \<and> distinct (map ce_id (cp_entries s))
      \<and> list_all (\<lambda>e. map_of (cp_retainedEntrySizes s) (ce_id e) = Some (capturedEntrySize e)) (cp_entries s)
      \<and> list_all (entrySurvivesClearFence (cp_clearedThroughCaptureSeq s)) (cp_entries s)"
proof -
  have inv: "entries_inv (run capture_step (createCaptureSessionStore sid) as)" using capture_store.inv_run[OF assms] by blast
  then show ?thesis
    using sizes_exact_get
    by (auto simp: Let_def entries_inv_def fits_def list_all_iff MAX_RENDERER_CAPTURE_ENTRIES_def MAX_RENDERER_CAPTURE_BYTES_def)
qed

definition demo_entry :: "string \<Rightarrow> int \<Rightarrow> CapturedEntry" where
  "demo_entry i n = \<lparr> ce_sessionId = ''s'', ce_captureSeq = n, ce_id = i, ce_method = ''GET'', ce_url = [], ce_host = [],
     ce_path = [], ce_status = None, ce_statusText = None, ce_requestHeaders = [], ce_responseHeaders = [],
     ce_requestBody = None, ce_responseBody = None, ce_requestBodyRaw = None, ce_responseBodyRaw = None,
     ce_contentType = None, ce_requestContentType = None, ce_requestSize = 0, ce_responseSize = 0, ce_durationMs = 0,
     ce_timestamp = [], ce_completed = False, ce_httpVersion = None \<rparr>"

theorem capture_log_accounted_witness:
  "let s = run capture_step (createCaptureSessionStore ''s'')
       [CaptureEvent (demo_entry ''a'' 1), ClearReply (Inr 1), CaptureEvent (demo_entry ''b'' 2)]
   in cp_retainedEntryBytes s = int (sum_list (map capturedEntrySize (cp_entries s)))"
  using capture_log_accounted[of "''s''" "[CaptureEvent (demo_entry ''a'' 1), ClearReply (Inr 1), CaptureEvent (demo_entry ''b'' 2)]"]
  by (simp add: Let_def)

lemma fence_mono: "cp_clearedThroughCaptureSeq s \<le> cp_clearedThroughCaptureSeq (capture_step s a)"
proof -
  have sel: "cp_clearedThroughCaptureSeq (with_entries r s') = cp_clearedThroughCaptureSeq s'"
    "cp_clearedThroughCaptureSeq (retainNewestEntries es s') = cp_clearedThroughCaptureSeq s'" for r s' es
    by (simp_all add: with_entries_def retainNewestEntries_def split_def Let_def)
  show ?thesis
    by (cases a) (simp_all add: life_defs drop_paused_def bury_def onBreakpoint_def onPausedRemoved_def remove_paused_def
        resumePaused_done_def loadPaused_done_def onCaptureEvent_def clearEntries_done_def loadEntries_done_def sel Let_def
        split: sum.splits option.splits)
qed

lemma fence_run: "n \<le> cp_clearedThroughCaptureSeq s \<Longrightarrow> n \<le> cp_clearedThroughCaptureSeq (run capture_step s as)"
proof (induction as arbitrary: s)
  case (Cons a as)
  have "n \<le> cp_clearedThroughCaptureSeq (capture_step s a)" using Cons.prems fence_mono by (rule order.trans)
  then show ?case using Cons.IH by simp
qed simp

lemma cleared_entries_gone:
  assumes "entries_inv s" and "paused_inv s" and "0 < n"
    and "admissible capture_step capture_ok (clearEntries_done (Inr n) s) as"
  shows "\<forall>e \<in> set (cp_entries (run capture_step (clearEntries_done (Inr n) s) as)). n < ce_captureSeq e"
proof -
  let ?s = "clearEntries_done (Inr n) s"
  have "entries_inv ?s \<and> paused_inv ?s" using clearEntries_inv[OF assms(1)] entries_paused_inv(2)[OF assms(2)] by blast
  then have inv: "entries_inv (run capture_step ?s as)" using capture_store.inv_run_from[OF _ assms(4)] by blast
  have "n \<le> cp_clearedThroughCaptureSeq ?s"
    by (simp add: clearEntries_done_def Let_def retainNewestEntries_def split_def)
  then have "n \<le> cp_clearedThroughCaptureSeq (run capture_step ?s as)" by (rule fence_run)
  then show ?thesis using inv assms(3) by (auto simp: entries_inv_def entrySurvivesClearFence_def split: if_splits)
qed

text \<open>\<^bold>\<open>C22\<close>. Once a clear has removed everything up to number \<open>n\<close>, no entry numbered \<open>n\<close> or lower is ever shown
  again, whatever late events and outdated snapshots arrive afterwards.\<close>

theorem capture_clear_is_final:
  assumes "admissible capture_step capture_ok (createCaptureSessionStore sid) (as @ ClearReply (Inr n) # bs)" and "0 < n"
  shows "\<forall>e \<in> set (cp_entries (run capture_step (createCaptureSessionStore sid) (as @ ClearReply (Inr n) # bs))). n < ce_captureSeq e"
proof -
  let ?s = "run capture_step (createCaptureSessionStore sid) as"
  have adm: "admissible capture_step capture_ok (createCaptureSessionStore sid) as"
    "admissible capture_step capture_ok (clearEntries_done (Inr n) ?s) bs"
    using assms(1) by (simp_all add: admissible_append)
  from capture_store.inv_run[OF adm(1)] cleared_entries_gone[OF _ _ assms(2) adm(2)]
  show ?thesis by (simp add: run_append)
qed

theorem capture_clear_is_final_witness:
  "ce_captureSeq ` set (cp_entries (run capture_step (createCaptureSessionStore ''s'')
     ([CaptureEvent (demo_entry ''a'' 1)] @ ClearReply (Inr 1) # [CaptureEvent (demo_entry ''a'' 1), CaptureEvent (demo_entry ''b'' 2)])))
     \<subseteq> {1<..}"
proof -
  have "\<forall>e \<in> set (cp_entries (run capture_step (createCaptureSessionStore ''s'')
     ([CaptureEvent (demo_entry ''a'' 1)] @ ClearReply (Inr 1) # [CaptureEvent (demo_entry ''a'' 1), CaptureEvent (demo_entry ''b'' 2)]))).
     1 < ce_captureSeq e"
    by (rule capture_clear_is_final) simp_all
  then show ?thesis by blast
qed

text \<open>In every reachable state no paused request is shown whose id is buried, at most 4096 ids are
  buried, a resumed request is buried and gone, and a successful stop shows none.\<close>

theorem paused_requests_stay_buried:
  assumes "admissible capture_step capture_ok (createCaptureSessionStore sid) as"
  shows "let s = run capture_step (createCaptureSessionStore sid) as in
      pr_id ` set (cp_pausedRequests s) \<inter> set (cp_pausedTombstones s) = {} \<and> length (cp_pausedTombstones s) \<le> 4096
      \<and> i \<in> set (cp_pausedTombstones (resumePaused_done i (Inr ()) s))
      \<and> i \<notin> pr_id ` set (cp_pausedRequests (resumePaused_done i (Inr ()) s))
      \<and> cp_pausedRequests (stopCapture_ok t s) = []"
proof -
  have inv: "paused_inv (run capture_step (createCaptureSessionStore sid) as)" using capture_store.inv_run[OF assms] by blast
  then show ?thesis
    by (auto simp: Let_def paused_inv_def MAX_TOMBSTONES_def resumePaused_done_def remove_paused_def bury_def remember_mem
        stopCapture_ok_def drop_paused_def)
qed

definition demo_paused :: "string \<Rightarrow> PausedRequest" where
  "demo_paused i = \<lparr> pr_sessionId = ''s'', pr_id = i, pr_method = ''GET'', pr_url = [], pr_host = [], pr_path = [],
     pr_requestHeaders = [], pr_requestBody = None, pr_timestamp = [] \<rparr>"

theorem paused_requests_stay_buried_witness:
  "let s = run capture_step (createCaptureSessionStore ''s'')
       [BreakpointEvent (demo_paused ''a''), ResumeReply ''a'' (Inr ()), BreakpointEvent (demo_paused ''a'')]
   in pr_id ` set (cp_pausedRequests s) \<inter> set (cp_pausedTombstones s) = {}"
  using paused_requests_stay_buried[of "''s''"
      "[BreakpointEvent (demo_paused ''a''), ResumeReply ''a'' (Inr ()), BreakpointEvent (demo_paused ''a'')]"]
  by (simp add: Let_def)

text \<open>\<^bold>\<open>C23\<close>. In every interleaving of starts, stops, their replies and all other actions, status replies are
  held back only while the latest start or stop is really in flight, and the end of any earlier one
  changes neither the running flag nor the port nor the error.\<close>

theorem capture_lifecycle_latest_wins:
  assumes "life_reach sid s fs"
  shows "(case cp_pendingLifecycleActionEpoch s of
       None \<Rightarrow> True | Some e \<Rightarrow> e = cp_statusOperationEpoch s \<and> e \<in> ticket_of ` set fs)
    \<and> (lf_epoch t \<noteq> cp_statusOperationEpoch s \<longrightarrow>
        (let view = (\<lambda>s. (cp_running s, cp_port s, cp_error s)) in
          view (fst (startCapture_ok t x s)) = view s \<and> view (fst (startCapture_reconcile t m r s)) = view s
          \<and> view (stopCapture_ok t s) = view s \<and> view (stopCapture_reconcile t m r s) = view s))"
proof -
  have "life_inv s fs" using assms by (rule life_inv_reach)
  then show ?thesis
    by (auto simp: life_inv_def Let_def startCapture_ok_def startCapture_reconcile_def stopCapture_ok_def
        stopCapture_reconcile_def drop_paused_def bury_def split: option.splits)
qed

theorem capture_lifecycle_latest_wins_witness:
  "\<exists>s fs. life_reach ''s'' s fs \<and> length fs = 2 \<and>
     (case cp_pendingLifecycleActionEpoch s of None \<Rightarrow> True | Some e \<Rightarrow> e = cp_statusOperationEpoch s \<and> e \<in> ticket_of ` set fs)"
proof -
  obtain t1 s1 where 1: "startCapture_begin None (createCaptureSessionStore ''s'') = (t1, s1)" by (cases "startCapture_begin None (createCaptureSessionStore ''s'')")
  obtain t2 s2 where 2: "stopCapture_begin s1 = (t2, s2)" by (cases "stopCapture_begin s1")
  have reach: "life_reach ''s'' s2 [Stopping t2, Starting t1]"
    by (rule life_reach.stop[OF life_reach.start[OF life_reach.init 1] 2])
  then show ?thesis using capture_lifecycle_latest_wins[OF reach] by (intro exI[of _ s2] exI[of _ "[Stopping t2, Starting t1]"]) simp
qed

end
