(* ===== verification/DbTypes.thy ===== *)
theory DbTypes
  imports Json
begin

text \<open>
  The data of the database client (\<open>src/src/types/dbclient.ts\<close>): connections, query results, the
  schema, table descriptions, cell edits, and how a value is shown.
\<close>

datatype DbType = Postgresql | Mysql | Sqlite | Influxdb

record ConnectionConfig =
  cc_dbType :: DbType
  cc_host :: string
  cc_port :: int
  cc_database :: string
  cc_username :: string
  cc_password :: string
  cc_sslEnabled :: bool
  cc_filePath :: "string option"
  cc_org :: "string option"
  cc_token :: "string option"
  cc_influxVersion :: "string option"
  cc_retentionPolicy :: "string option"

record SavedConnection =
  sc_id :: string
  sc_name :: string
  sc_dbType :: DbType
  sc_host :: string
  sc_port :: "int option"
  sc_databaseName :: string
  sc_username :: string
  sc_sslEnabled :: bool
  sc_filePath :: "string option"
  sc_org :: "string option"
  sc_influxVersion :: "string option"
  sc_colorLabel :: "string option"
  sc_sortOrder :: int
  sc_createdAt :: string
  sc_updatedAt :: string

record ServerInfo =
  sv_version :: string
  sv_serverType :: string
  sv_database :: "string option"

datatype SqlValue =
    SqlNull
  | SqlBool bool
  | SqlInt int
  | SqlFloat jsnum
  | SqlText string
  | SqlBytes string
  | SqlTimestamp string
  | SqlJson json
  | SqlArray "SqlValue list"

record ColumnInfo =
  ci_name :: string
  ci_dataType :: string
  ci_nullable :: bool
  ci_isPrimaryKey :: bool
  ci_maxLength :: "int option"

record QueryResult =
  qr_columns :: "ColumnInfo list"
  qr_rows :: "SqlValue list list"
  qr_affectedRows :: "int option"
  qr_executionTimeMs :: int
  qr_truncated :: bool
  qr_totalRows :: "int option"
  qr_warnings :: "string list"

record DatabaseInfo =
  di_name :: string
  di_sizeBytes :: "int option"
  di_encoding :: "string option"

record TableMeta =
  tm_schema :: string
  tm_name :: string
  tm_rowCountEstimate :: "int option"
  tm_comment :: "string option"

record FunctionMeta =
  fm_schema :: string
  fm_name :: string
  fm_returnType :: "string option"

record SchemaObjects =
  so_schemas :: "string list"
  so_tables :: "TableMeta list"
  so_views :: "TableMeta list"
  so_functions :: "FunctionMeta list"

record ColumnDetail =
  cd_name :: string
  cd_dataType :: string
  cd_nullable :: bool
  cd_defaultValue :: "string option"
  cd_isPrimaryKey :: bool
  cd_comment :: "string option"
  cd_maxLength :: "int option"

record IndexInfo =
  ix_name :: string
  ix_columns :: "string list"
  ix_unique :: bool
  ix_indexType :: "string option"

record TableDescription =
  td_columns :: "ColumnDetail list"
  td_primaryKeys :: "string list"
  td_indexes :: "IndexInfo list"
  td_comment :: "string option"
  td_rowCountEstimate :: "int option"

record CellEdit =
  ed_database :: string
  ed_schema :: string
  ed_table :: string
  ed_pkColumns :: "string list"
  ed_pkValues :: "SqlValue list"
  ed_column :: string
  ed_newValue :: SqlValue

datatype QueryStatus = QuerySuccess | QueryFailed

record QueryHistoryEntry =
  qh_id :: string
  qh_connectionId :: "string option"
  qh_connectionName :: string
  qh_dbType :: DbType
  qh_databaseName :: string
  qh_sqlText :: string
  qh_executionMs :: "int option"
  qh_rowCount :: "int option"
  qh_status :: QueryStatus
  qh_errorMessage :: "string option"
  qh_createdAt :: string

fun sqlValueToString :: "SqlValue \<Rightarrow> string" where
  "sqlValueToString SqlNull = []"
| "sqlValueToString (SqlBool b) = (if b then ''true'' else ''false'')"
| "sqlValueToString (SqlInt n) = int_to_string n"
| "sqlValueToString (SqlFloat x) = stringify_num x"
| "sqlValueToString (SqlText s) = s"
| "sqlValueToString (SqlTimestamp s) = s"
| "sqlValueToString (SqlBytes s) = ''[BINARY]''"
| "sqlValueToString (SqlJson j) = JSON_stringify j"
| "sqlValueToString (SqlArray vs) = ''['' @ js_join '', '' (map sqlValueToString vs) @ '']''"

definition sqlValueDisplay :: "SqlValue \<Rightarrow> string" where
  "sqlValueDisplay v = (if v = SqlNull then ''NULL'' else sqlValueToString v)"

fun DB_TYPE_LABELS :: "DbType \<Rightarrow> string" where
  "DB_TYPE_LABELS Postgresql = ''PostgreSQL''"
| "DB_TYPE_LABELS Mysql = ''MySQL''"
| "DB_TYPE_LABELS Sqlite = ''SQLite''"
| "DB_TYPE_LABELS Influxdb = ''InfluxDB''"

text \<open>Host, port, user and database proposed for a new connection.\<close>

fun DB_TYPE_DEFAULTS :: "DbType \<Rightarrow> string \<times> int \<times> string \<times> string" where
  "DB_TYPE_DEFAULTS Postgresql = (''localhost'', 5432, ''postgres'', ''postgres'')"
| "DB_TYPE_DEFAULTS Mysql = (''localhost'', 3306, ''root'', [])"
| "DB_TYPE_DEFAULTS Sqlite = ([], 0, [], [])"
| "DB_TYPE_DEFAULTS Influxdb = (''localhost'', 8086, [], [])"

fun DB_TYPE_SUPPORTS_CANCEL :: "DbType \<Rightarrow> bool" where
  "DB_TYPE_SUPPORTS_CANCEL Postgresql = True"
| "DB_TYPE_SUPPORTS_CANCEL Mysql = True"
| "DB_TYPE_SUPPORTS_CANCEL Sqlite = False"
| "DB_TYPE_SUPPORTS_CANCEL Influxdb = False"

end
