(* ===== verification/SqlDialect.thy ===== *)
theory SqlDialect
  imports DbTypes
begin

text \<open>
  The SQL text the database client generates (\<open>src/src/lib/sqlDialect.ts\<close>): quoting of identifiers and literals, queries for the definition of a
  table or a function, query templates, keyword tables, and the ALTER TABLE statements that turn the
  columns of a table into the edited ones. What is shown of them is in the theory SqlProps.

  In the text of a query \<open>~\<close> stands for a single quote and \<open>^\<close> for a backslash (\<open>sql_text\<close>).
\<close>

section \<open>Texts\<close>

abbreviation single_quote :: char where "single_quote \<equiv> CHR 0x27"
abbreviation double_quote :: char where "double_quote \<equiv> CHR 0x22"
abbreviation backtick :: char where "backtick \<equiv> CHR 0x60"
abbreviation sql_nl :: string where "sql_nl \<equiv> [CHR 0x0A]"

definition sql_text :: "string \<Rightarrow> string" where
  "sql_text s = map (\<lambda>c. if c = CHR 0x7E then single_quote else if c = CHR 0x5E then backslash else c) s"

fun dbTypeName :: "DbType \<Rightarrow> string" where
  "dbTypeName Postgresql = ''postgresql''"
| "dbTypeName Mysql = ''mysql''"
| "dbTypeName Sqlite = ''sqlite''"
| "dbTypeName Influxdb = ''influxdb''"

fun MONACO_LANGUAGE_MAP :: "DbType \<Rightarrow> string" where
  "MONACO_LANGUAGE_MAP Postgresql = ''pgsql''"
| "MONACO_LANGUAGE_MAP Mysql = ''mysql''"
| "MONACO_LANGUAGE_MAP Sqlite = ''sql''"
| "MONACO_LANGUAGE_MAP Influxdb = ''sql''"

definition getMonacoLanguage :: "DbType option \<Rightarrow> string" where
  "getMonacoLanguage dbType = (case dbType of Some d \<Rightarrow> MONACO_LANGUAGE_MAP d | None \<Rightarrow> ''sql'')"


section \<open>Quoting\<close>

definition quoteIdent :: "string \<Rightarrow> string" where
  "quoteIdent name = [double_quote] @ js_replaceAll double_quote [double_quote, double_quote] name @ [double_quote]"

definition quoteIdentMysql :: "string \<Rightarrow> string" where
  "quoteIdentMysql name = [backtick] @ js_replaceAll backtick [backtick, backtick] name @ [backtick]"

definition quoteIdentifier :: "string \<Rightarrow> DbType option \<Rightarrow> string" where
  "quoteIdentifier name dbType = (if dbType = Some Mysql then quoteIdentMysql name else quoteIdent name)"

definition qualifiedTableName :: "string option \<Rightarrow> string \<Rightarrow> DbType option \<Rightarrow> string" where
  "qualifiedTableName schema table dbType =
     (if truthy_opt schema
      then quoteIdentifier (the schema) dbType @ ''.'' @ quoteIdentifier table dbType
      else quoteIdentifier table dbType)"

definition escLiteral :: "string \<Rightarrow> string" where
  "escLiteral s = js_replaceAll single_quote [single_quote, single_quote] s"

definition formatTableRef :: "DbType \<Rightarrow> string \<Rightarrow> string \<Rightarrow> string" where
  "formatTableRef dbType schema table = (case dbType of
       Mysql \<Rightarrow> if truthy schema then quoteIdentMysql schema @ ''.'' @ quoteIdentMysql table
                else quoteIdentMysql table
     | Postgresql \<Rightarrow> if truthy schema then quoteIdent schema @ ''.'' @ quoteIdent table
                     else quoteIdent table
     | _ \<Rightarrow> if truthy schema
            then [double_quote] @ schema @ [double_quote] @ ''.'' @ [double_quote] @ table @ [double_quote]
            else [double_quote] @ table @ [double_quote])"


section \<open>Queries\<close>

definition getTableDdlQuery :: "DbType \<Rightarrow> string \<Rightarrow> string \<Rightarrow> string" where
  "getTableDdlQuery dbType schema table = (case dbType of
       Postgresql \<Rightarrow> (let pgSchema = or_else schema ''public'' in
        sql_text ''SELECT'' @ sql_nl @
        sql_text ''  ~CREATE TABLE ~ || quote_ident(c.table_schema) || ~.~ || quote_ident(c.table_name) || E~ (^n~ ||'' @ sql_nl @
        sql_text ''  string_agg('' @ sql_nl @
        sql_text ''    ~    ~ || quote_ident(c.column_name) || ~ ~ ||'' @ sql_nl @
        sql_text ''    CASE'' @ sql_nl @
        sql_text ''      WHEN c.data_type = ~character varying~ THEN ~varchar(~ || c.character_maximum_length || ~)~'' @ sql_nl @
        sql_text ''      WHEN c.data_type = ~character~ THEN ~char(~ || c.character_maximum_length || ~)~'' @ sql_nl @
        sql_text ''      WHEN c.data_type = ~numeric~ THEN ~numeric~ || COALESCE(~(~ || c.numeric_precision || ~,~ || c.numeric_scale || ~)~, ~~)'' @ sql_nl @
        sql_text ''      WHEN c.domain_name IS NOT NULL THEN c.domain_name'' @ sql_nl @
        sql_text ''      ELSE c.data_type'' @ sql_nl @
        sql_text ''    END ||'' @ sql_nl @
        sql_text ''    CASE WHEN c.column_default IS NOT NULL THEN ~ DEFAULT ~ || c.column_default ELSE ~~ END ||'' @ sql_nl @
        sql_text ''    CASE WHEN c.is_nullable = ~NO~ THEN ~ NOT NULL~ ELSE ~~ END,'' @ sql_nl @
        sql_text ''    E~,^n~ ORDER BY c.ordinal_position'' @ sql_nl @
        sql_text ''  ) ||'' @ sql_nl @
        sql_text ''  COALESCE(E~,^n    ~ || ('' @ sql_nl @
        sql_text ''    SELECT string_agg('' @ sql_nl @
        sql_text ''      CASE con.contype'' @ sql_nl @
        sql_text ''        WHEN ~p~ THEN ~CONSTRAINT ~ || quote_ident(con.conname) || ~ PRIMARY KEY (~ ||'' @ sql_nl @
        sql_text ''          (SELECT string_agg(quote_ident(a.attname), ~, ~ ORDER BY array_position(con.conkey, a.attnum))'' @ sql_nl @
        sql_text ''           FROM pg_attribute a WHERE a.attrelid = con.conrelid AND a.attnum = ANY(con.conkey)) || ~)~'' @ sql_nl @
        sql_text ''        WHEN ~u~ THEN ~CONSTRAINT ~ || quote_ident(con.conname) || ~ UNIQUE (~ ||'' @ sql_nl @
        sql_text ''          (SELECT string_agg(quote_ident(a.attname), ~, ~ ORDER BY array_position(con.conkey, a.attnum))'' @ sql_nl @
        sql_text ''           FROM pg_attribute a WHERE a.attrelid = con.conrelid AND a.attnum = ANY(con.conkey)) || ~)~'' @ sql_nl @
        sql_text ''      END,'' @ sql_nl @
        sql_text ''      E~,^n    ~'' @ sql_nl @
        sql_text ''    )'' @ sql_nl @
        sql_text ''    FROM pg_constraint con'' @ sql_nl @
        sql_text ''    WHERE con.conrelid = (quote_ident(~'' @ escLiteral pgSchema @
        sql_text ''~) || ~.~ || quote_ident(~'' @ escLiteral table @ sql_text ''~))::regclass'' @ sql_nl @
        sql_text ''      AND con.contype IN (~p~, ~u~)'' @ sql_nl @
        sql_text ''  ), ~~) ||'' @ sql_nl @
        sql_text ''  E~^n);~ AS ddl'' @ sql_nl @
        sql_text ''FROM information_schema.columns c'' @ sql_nl @
        sql_text ''WHERE c.table_schema = ~'' @ escLiteral pgSchema @ sql_text ''~ AND c.table_name = ~'' @
        escLiteral table @ sql_text ''~;'')
     | Mysql \<Rightarrow> ''SHOW CREATE TABLE '' @ quoteIdentMysql table @ '';''
     | Sqlite \<Rightarrow> sql_text ''SELECT sql FROM sqlite_master WHERE type=~table~ AND name=~'' @ escLiteral table @ sql_text ''~;''
     | Influxdb \<Rightarrow> ''-- DDL not supported for '' @ dbTypeName dbType)"

definition getFunctionDdlQuery :: "DbType \<Rightarrow> string \<Rightarrow> string \<Rightarrow> string" where
  "getFunctionDdlQuery dbType schema name = (case dbType of
       Postgresql \<Rightarrow> ''SELECT pg_get_functiondef(p.oid)'' @ sql_nl @ ''FROM pg_proc p'' @ sql_nl @
         ''JOIN pg_namespace n ON p.pronamespace = n.oid'' @ sql_nl @
         sql_text ''WHERE n.nspname = ~'' @ escLiteral (or_else schema ''public'') @
         sql_text ''~ AND p.proname = ~'' @ escLiteral name @ sql_text ''~;''
     | Mysql \<Rightarrow> ''SHOW CREATE FUNCTION '' @ quoteIdentMysql schema @ ''.'' @ quoteIdentMysql name @ '';''
     | _ \<Rightarrow> ''-- Function DDL not supported for '' @ dbTypeName dbType)"

definition getSelectQuery :: "DbType \<Rightarrow> string \<Rightarrow> string \<Rightarrow> int option \<Rightarrow> string" where
  "getSelectQuery dbType schema table limit =
     ''SELECT * FROM '' @ formatTableRef dbType schema table @ '' LIMIT '' @ int_to_string (nullish limit 100) @ '';''"

definition getDropTableQuery :: "DbType \<Rightarrow> string \<Rightarrow> string \<Rightarrow> string" where
  "getDropTableQuery dbType schema table = ''DROP TABLE '' @ formatTableRef dbType schema table @ '';''"


section \<open>Keywords\<close>

definition PG_KEYWORDS :: "string list" where
  "PG_KEYWORDS = [
    ''RETURNING'', ''ILIKE'', ''SIMILAR'', ''LATERAL'', ''MATERIALIZED'', ''CONCURRENTLY'',
    ''TABLESPACE'', ''EXTENSION'', ''SCHEMA'', ''INHERITS'', ''PARTITION'', ''EXCLUDE'', ''CONFLICT'',
    ''GENERATED'', ''IDENTITY'', ''OVERRIDING'', ''STORED'', ''NOTIFY'', ''LISTEN'', ''UNLISTEN'',
    ''VACUUM'', ''ANALYZE'', ''REINDEX'', ''CLUSTER'', ''REFRESH'', ''AGGREGATE'', ''SEQUENCE'',
    ''SERIAL'', ''BIGSERIAL'', ''SMALLSERIAL'', ''JSONB'', ''HSTORE'', ''ARRAY'', ''ENUM'', ''RANGE'',
    ''BYTEA'', ''UUID'', ''INET'', ''CIDR'', ''MACADDR'', ''TSVECTOR'', ''TSQUERY'', ''REGCLASS'',
    ''INTERVAL'']"

definition MYSQL_KEYWORDS :: "string list" where
  "MYSQL_KEYWORDS = [
    ''ENGINE'', ''AUTO_INCREMENT'', ''CHARSET'', ''COLLATE'', ''UNSIGNED'', ''ZEROFILL'', ''BINARY'',
    ''VARBINARY'', ''TINYINT'', ''MEDIUMINT'', ''BIGINT'', ''TINYTEXT'', ''MEDIUMTEXT'', ''LONGTEXT'',
    ''TINYBLOB'', ''MEDIUMBLOB'', ''LONGBLOB'', ''ENUM'', ''SET'', ''JSON'', ''GEOMETRY'', ''SPATIAL'',
    ''FULLTEXT'', ''PARTITION'', ''SUBPARTITION'', ''ALGORITHM'', ''DEFINER'', ''INVOKER'',
    ''DETERMINISTIC'', ''SQL_CALC_FOUND_ROWS'', ''STRAIGHT_JOIN'', ''HIGH_PRIORITY'', ''LOW_PRIORITY'',
    ''DELAYED'', ''IGNORE'', ''REPLACE'', ''DUPLICATE'', ''OUTFILE'', ''INFILE'', ''TERMINATED'',
    ''ENCLOSED'', ''ESCAPED'', ''LINES'', ''STARTING'', ''SHOW'', ''DESCRIBE'', ''EXPLAIN'', ''USE'',
    ''STATUS'', ''VARIABLES'', ''PROCESSLIST'', ''GRANTS'', ''PRIVILEGES'']"

definition SQLITE_KEYWORDS :: "string list" where
  "SQLITE_KEYWORDS = [
    ''AUTOINCREMENT'', ''GLOB'', ''VACUUM'', ''ATTACH'', ''DETACH'', ''PRAGMA'', ''REINDEX'',
    ''EXPLAIN'', ''CONFLICT'', ''ABORT'', ''FAIL'', ''ROLLBACK'', ''REPLACE'', ''IGNORE'', ''TEMP'',
    ''TEMPORARY'', ''WITHOUT'', ''ROWID'', ''STRICT'', ''RETURNING'', ''INDEXED'', ''UNINDEXED'',
    ''VIRTUAL'', ''USING'']"

fun DB_KEYWORDS :: "DbType \<Rightarrow> string list" where
  "DB_KEYWORDS Postgresql = PG_KEYWORDS"
| "DB_KEYWORDS Mysql = MYSQL_KEYWORDS"
| "DB_KEYWORDS Sqlite = SQLITE_KEYWORDS"
| "DB_KEYWORDS Influxdb = []"

definition getDbKeywords :: "DbType option \<Rightarrow> string list" where
  "getDbKeywords dbType = (case dbType of Some d \<Rightarrow> DB_KEYWORDS d | None \<Rightarrow> [])"


section \<open>ALTER TABLE statements\<close>

definition hasColumnChanged :: "ColumnDetail \<Rightarrow> ColumnDetail \<Rightarrow> bool" where
  "hasColumnChanged a b \<longleftrightarrow> cd_name a \<noteq> cd_name b \<or> cd_dataType a \<noteq> cd_dataType b
     \<or> cd_nullable a \<noteq> cd_nullable b \<or> cd_defaultValue a \<noteq> cd_defaultValue b \<or> cd_comment a \<noteq> cd_comment b"

definition buildColDef :: "DbType \<Rightarrow> ColumnDetail \<Rightarrow> string" where
  "buildColDef dbType col =
     (if dbType = Mysql then quoteIdentMysql (cd_name col) else quoteIdent (cd_name col)) @ '' '' @ cd_dataType col @
     (if \<not> cd_nullable col then '' NOT NULL'' else []) @
     (case cd_defaultValue col of Some v \<Rightarrow> '' DEFAULT '' @ v | None \<Rightarrow> []) @
     (if truthy_opt (cd_comment col) \<and> dbType = Mysql
      then sql_text '' COMMENT ~'' @ escLiteral (the (cd_comment col)) @ [single_quote] else [])"

definition generatePgAlterProps :: "string \<Rightarrow> ColumnDetail \<Rightarrow> ColumnDetail \<Rightarrow> string list" where
  "generatePgAlterProps fqn oldCol newCol = (let qn = quoteIdent (cd_name newCol) in
     (if cd_dataType oldCol \<noteq> cd_dataType newCol
      then [''ALTER TABLE '' @ fqn @ '' ALTER COLUMN '' @ qn @ '' TYPE '' @ cd_dataType newCol @ '';''] else []) @
     (if cd_nullable oldCol \<noteq> cd_nullable newCol
      then [''ALTER TABLE '' @ fqn @ '' ALTER COLUMN '' @ qn @ '' '' @
            (if cd_nullable newCol then ''DROP NOT NULL'' else ''SET NOT NULL'') @ '';''] else []) @
     (if cd_defaultValue oldCol \<noteq> cd_defaultValue newCol
      then [case cd_defaultValue newCol of
              None \<Rightarrow> ''ALTER TABLE '' @ fqn @ '' ALTER COLUMN '' @ qn @ '' DROP DEFAULT;''
            | Some v \<Rightarrow> ''ALTER TABLE '' @ fqn @ '' ALTER COLUMN '' @ qn @ '' SET DEFAULT '' @ v @ '';''] else []) @
     (if cd_comment oldCol \<noteq> cd_comment newCol
      then [''COMMENT ON COLUMN '' @ fqn @ ''.'' @ qn @ sql_text '' IS ~'' @ escLiteral (nullish (cd_comment newCol) []) @
            sql_text ''~;''] else []))"

definition generateRenameAndModify :: "DbType \<Rightarrow> string \<Rightarrow> ColumnDetail \<Rightarrow> ColumnDetail \<Rightarrow> string list" where
  "generateRenameAndModify dbType fqn oldCol newCol = (case dbType of
       Mysql \<Rightarrow> [''ALTER TABLE '' @ fqn @ '' CHANGE COLUMN '' @ quoteIdentMysql (cd_name oldCol) @ '' '' @
                 buildColDef Mysql newCol @ '';'']
     | Postgresql \<Rightarrow>
         (if cd_name oldCol \<noteq> cd_name newCol
          then [''ALTER TABLE '' @ fqn @ '' RENAME COLUMN '' @ quoteIdent (cd_name oldCol) @ '' TO '' @
                quoteIdent (cd_name newCol) @ '';''] else []) @
         generatePgAlterProps fqn (oldCol\<lparr>cd_name := cd_name newCol\<rparr>) newCol
     | Sqlite \<Rightarrow>
         (if cd_name oldCol \<noteq> cd_name newCol
          then [''ALTER TABLE '' @ fqn @ '' RENAME COLUMN '' @ [double_quote] @ cd_name oldCol @ [double_quote] @ '' TO '' @
                [double_quote] @ cd_name newCol @ [double_quote] @ '';''] else [])
     | Influxdb \<Rightarrow> [])"

definition sqlite_unsupported :: string where
  "sqlite_unsupported = ''-- SQLite '' @ [CHR 0xE4, CHR 0xB8, CHR 0x8D, CHR 0xE6, CHR 0x94, CHR 0xAF, CHR 0xE6, CHR 0x8C, CHR 0x81, CHR 0xE4, CHR 0xBF, CHR 0xAE, CHR 0xE6, CHR 0x94, CHR 0xB9, CHR 0xE5, CHR 0x88, CHR 0x97, CHR 0xE7, CHR 0xB1, CHR 0xBB, CHR 0xE5, CHR 0x9E, CHR 0x8B, CHR 0xE6, CHR 0x88, CHR 0x96, CHR 0xE7, CHR 0xBA, CHR 0xA6, CHR 0xE6, CHR 0x9D, CHR 0x9F]"

definition generateModifyColumn :: "DbType \<Rightarrow> string \<Rightarrow> ColumnDetail \<Rightarrow> ColumnDetail \<Rightarrow> string list" where
  "generateModifyColumn dbType fqn oldCol newCol = (case dbType of
       Mysql \<Rightarrow>
         (if cd_name oldCol \<noteq> cd_name newCol
          then [''ALTER TABLE '' @ fqn @ '' CHANGE COLUMN '' @ quoteIdentMysql (cd_name oldCol) @ '' '' @
                buildColDef Mysql newCol @ '';'']
          else [''ALTER TABLE '' @ fqn @ '' MODIFY COLUMN '' @ buildColDef Mysql newCol @ '';''])
     | Postgresql \<Rightarrow>
         (if cd_name oldCol \<noteq> cd_name newCol
          then [''ALTER TABLE '' @ fqn @ '' RENAME COLUMN '' @ quoteIdent (cd_name oldCol) @ '' TO '' @
                quoteIdent (cd_name newCol) @ '';''] else []) @
         generatePgAlterProps fqn (oldCol\<lparr>cd_name := cd_name newCol\<rparr>) newCol
     | Sqlite \<Rightarrow>
         (if cd_name oldCol \<noteq> cd_name newCol
          then [''ALTER TABLE '' @ fqn @ '' RENAME COLUMN '' @ [double_quote] @ cd_name oldCol @ [double_quote] @ '' TO '' @
                [double_quote] @ cd_name newCol @ [double_quote] @ '';'']
          else [sqlite_unsupported])
     | Influxdb \<Rightarrow> [])"

text \<open>
  The body of the third loop of \<open>generateAlterTableSQL\<close>, for the column at index \<open>i\<close> of the edited
  columns. The source asks \<open>edited.indexOf(editedCol)\<close> for the index; the objects of the list are
  distinct (copies of the original columns and freshly created ones), so it is the loop's index.
\<close>

definition alter_column :: "DbType \<Rightarrow> string \<Rightarrow> ColumnDetail list \<Rightarrow> ColumnDetail list \<Rightarrow> string list \<Rightarrow> string list
    \<Rightarrow> nat \<Rightarrow> ColumnDetail \<Rightarrow> string list" where
  "alter_column dbType fqn original edited deletedColumns addedNames i editedCol =
     (if cd_name editedCol \<in> set addedNames \<and> \<not> some_elem (\<lambda>c. cd_name c = cd_name editedCol) original then []
      else case find (\<lambda>c. cd_name c = cd_name editedCol) original of
        None \<Rightarrow>
          (if i < length original
              \<and> \<not> some_elem (\<lambda>e. cd_name e = cd_name (original ! i)) edited
              \<and> cd_name (original ! i) \<notin> set deletedColumns
           then generateRenameAndModify dbType fqn (original ! i) editedCol else [])
      | Some origCol \<Rightarrow>
          (if hasColumnChanged origCol editedCol then generateModifyColumn dbType fqn origCol editedCol else []))"

definition generateAlterTableSQL :: "DbType \<Rightarrow> string \<Rightarrow> string \<Rightarrow> ColumnDetail list \<Rightarrow> ColumnDetail list
    \<Rightarrow> string list \<Rightarrow> ColumnDetail list \<Rightarrow> string list" where
  "generateAlterTableSQL dbType schema table original edited deletedColumns addedColumns =
     (let fqn = formatTableRef dbType schema table;
          addedNames = map cd_name addedColumns
      in map (\<lambda>colName. ''ALTER TABLE '' @ fqn @ '' DROP COLUMN '' @
              (if dbType = Mysql then quoteIdentMysql colName else quoteIdent colName) @ '';'') deletedColumns
         @ map (\<lambda>col. ''ALTER TABLE '' @ fqn @ '' ADD COLUMN '' @ buildColDef dbType col @ '';'')
             (filter (\<lambda>col. cd_name col \<in> set addedNames) edited)
         @ concat (map (\<lambda>(i, editedCol). alter_column dbType fqn original edited deletedColumns addedNames i editedCol)
             (enumerate 0 edited)))"


end
