(* ===== verification/DbClientStore.thy ===== *)
theory DbClientStore
  imports SqlDialect
begin

text \<open>
  One session of the database client (\<open>src/src/stores/dbClientStore.ts\<close>): the connection, the
  schema tree, the tabs (queries, table data, table structure), the query editor's proxy fields,
  paging, sorting and editing of table data, and the structure editor.

  An asynchronous action is split at its await. The part before it is \<open>_begin\<close> and returns, beside
  the state, the command it sends (\<open>None\<close>: it returned early); the part after it gets the reply
  (\<open>Inl\<close> a rejected promise, as the text \<open>String(e)\<close>) and the state as it is then. Toasts, console
  output and the rethrown error of a failed action are left out.

  The structure editor compares column objects with \<open>===\<close>. A column object is therefore a pair of
  a reference and its fields; \<open>db_refs\<close> counts the references handed out.
\<close>

section \<open>State\<close>

record ColumnObj =
  co_ref :: nat
  co_col :: ColumnDetail

record QueryTab =
  qt_id :: string
  qt_label :: string
  qt_sqlText :: string
  qt_queryResult :: "QueryResult option"
  qt_queryError :: "string option"
  qt_queryRunning :: bool
  qt_panelLayout :: "(int \<times> int) option"

datatype SortDir = Asc | Desc

record TableDataTab =
  dt_id :: string
  dt_label :: string
  dt_database :: string
  dt_schema :: string
  dt_table :: string
  dt_tableData :: "QueryResult option"
  dt_tableDataLoading :: bool
  dt_tableDataOffset :: int
  dt_tableDataLimit :: int
  dt_sortColumn :: "string option"
  dt_sortDir :: "SortDir option"
  dt_filter :: string
  dt_tablePrimaryKeys :: "string list"
  dt_pendingEdits :: "CellEdit list"
  dt_tableDescription :: "TableDescription option"

record TableStructureTab =
  st_id :: string
  st_label :: string
  st_database :: string
  st_schema :: string
  st_table :: string
  st_originalDescription :: "TableDescription option"
  st_editedColumns :: "ColumnObj list"
  st_deletedColumns :: "string list"
  st_addedColumns :: "ColumnObj list"
  st_loading :: bool
  st_applyError :: "string option"

datatype WorkspaceTab = QueryT QueryTab | TableT TableDataTab | StructureT TableStructureTab

record db_state =
  db_sessionId :: string
  db_activeConnectionId :: "string option"
  db_connectionConfig :: "ConnectionConfig option"
  db_connected :: bool
  db_serverInfo :: "ServerInfo option"
  db_connectionError :: "string option"
  db_connecting :: bool
  db_savedConnections :: "SavedConnection list"
  db_expandedNodes :: "string set"
  db_databases :: "DatabaseInfo list"
  db_selectedDatabase :: "string option"
  db_schemaObjects :: "SchemaObjects option"
  db_schemaObjectsMap :: "(string \<times> SchemaObjects) list"
  db_selectedSchema :: "string option"
  db_schemaLoading :: bool
  db_tabs :: "WorkspaceTab list"
  db_activeTabId :: "string option"
  db_sqlText :: string
  db_queryRunning :: bool
  db_queryResult :: "QueryResult option"
  db_queryError :: "string option"
  db_refs :: nat

definition createDbClientSessionStore :: "string \<Rightarrow> db_state" where
  "createDbClientSessionStore sessionId = \<lparr> db_sessionId = sessionId, db_activeConnectionId = None,
     db_connectionConfig = None, db_connected = False, db_serverInfo = None, db_connectionError = None,
     db_connecting = False, db_savedConnections = [], db_expandedNodes = {}, db_databases = [],
     db_selectedDatabase = None, db_schemaObjects = None, db_schemaObjectsMap = [], db_selectedSchema = None,
     db_schemaLoading = False, db_tabs = [], db_activeTabId = None, db_sqlText = [], db_queryRunning = False,
     db_queryResult = None, db_queryError = None, db_refs = 0 \<rparr>"

fun wt_id :: "WorkspaceTab \<Rightarrow> string" where
  "wt_id (QueryT t) = qt_id t"
| "wt_id (TableT t) = dt_id t"
| "wt_id (StructureT t) = st_id t"

fun is_query :: "WorkspaceTab \<Rightarrow> bool" where
  "is_query (QueryT t) = True"
| "is_query _ = False"

definition getActiveTableTab :: "db_state \<Rightarrow> string option \<Rightarrow> TableDataTab option" where
  "getActiveTableTab s tabId = (case (case tabId of Some i \<Rightarrow> Some i | None \<Rightarrow> db_activeTabId s) of
       None \<Rightarrow> None
     | Some i \<Rightarrow> (if \<not> truthy i then None else
         case find (\<lambda>t. wt_id t = i) (db_tabs s) of Some (TableT t) \<Rightarrow> Some t | _ \<Rightarrow> None))"

text \<open>
  \<open>updateTab\<close> at each of the three tab types. The source casts the tab it finds; the identifiers it
  is used with belong to tabs of that type, except that a structure action on a tab of another type
  fails with a \<open>TypeError\<close> before the store is written, and a panel layout set on another type is a
  field nothing reads.
\<close>

fun on_query :: "(QueryTab \<Rightarrow> QueryTab) \<Rightarrow> WorkspaceTab \<Rightarrow> WorkspaceTab" where
  "on_query f (QueryT t) = QueryT (f t)"
| "on_query f t = t"

fun on_table :: "(TableDataTab \<Rightarrow> TableDataTab) \<Rightarrow> WorkspaceTab \<Rightarrow> WorkspaceTab" where
  "on_table f (TableT t) = TableT (f t)"
| "on_table f t = t"

fun on_structure :: "(TableStructureTab \<Rightarrow> TableStructureTab) \<Rightarrow> WorkspaceTab \<Rightarrow> WorkspaceTab" where
  "on_structure f (StructureT t) = StructureT (f t)"
| "on_structure f t = t"

definition db_updateTab :: "string \<Rightarrow> (WorkspaceTab \<Rightarrow> WorkspaceTab) \<Rightarrow> db_state \<Rightarrow> db_state" where
  "db_updateTab tabId f s = s\<lparr>db_tabs := map_where (\<lambda>t. wt_id t = tabId) f (db_tabs s)\<rparr>"


section \<open>Connection\<close>

definition connect_begin :: "db_state \<Rightarrow> db_state" where
  "connect_begin s = s\<lparr>db_connecting := True, db_connectionError := None\<rparr>"

definition connect_done :: "ConnectionConfig \<Rightarrow> string + ServerInfo \<Rightarrow> db_state \<Rightarrow> db_state" where
  "connect_done config reply s = (case reply of
       Inr info \<Rightarrow> s\<lparr>db_connected := True, db_serverInfo := Some info, db_connectionConfig := Some config,
                     db_connecting := False\<rparr>
     | Inl e \<Rightarrow> s\<lparr>db_connected := False, db_connectionError := Some e, db_connecting := False\<rparr>)"

definition saved_config :: "SavedConnection \<Rightarrow> ConnectionConfig" where
  "saved_config saved = \<lparr> cc_dbType = sc_dbType saved, cc_host = sc_host saved, cc_port = nullish (sc_port saved) 0,
     cc_database = sc_databaseName saved, cc_username = sc_username saved, cc_password = [],
     cc_sslEnabled = sc_sslEnabled saved, cc_filePath = sc_filePath saved, cc_org = sc_org saved, cc_token = None,
     cc_influxVersion = sc_influxVersion saved, cc_retentionPolicy = None \<rparr>"

definition connectSaved_done :: "string \<Rightarrow> string + ServerInfo \<Rightarrow> db_state \<Rightarrow> db_state" where
  "connectSaved_done connectionId reply s = (case reply of
       Inr info \<Rightarrow> s\<lparr>db_connected := True, db_serverInfo := Some info, db_activeConnectionId := Some connectionId,
         db_connectionConfig := map_option saved_config (find (\<lambda>c. sc_id c = connectionId) (db_savedConnections s)),
         db_connecting := False\<rparr>
     | Inl e \<Rightarrow> s\<lparr>db_connected := False, db_connectionError := Some e, db_connecting := False\<rparr>)"

definition disconnect_done :: "db_state \<Rightarrow> db_state" where
  "disconnect_done s = s\<lparr>db_connected := False, db_serverInfo := None, db_connectionConfig := None,
     db_activeConnectionId := None, db_databases := [], db_selectedDatabase := None, db_schemaObjects := None,
     db_schemaObjectsMap := [], db_tabs := [], db_activeTabId := None, db_sqlText := [], db_queryResult := None,
     db_queryError := None\<rparr>"

definition loadSavedConnections_done :: "string + SavedConnection list \<Rightarrow> db_state \<Rightarrow> db_state" where
  "loadSavedConnections_done reply s = (case reply of Inr conns \<Rightarrow> s\<lparr>db_savedConnections := conns\<rparr> | Inl e \<Rightarrow> s)"


section \<open>Schema\<close>

definition first_schema :: "SchemaObjects \<Rightarrow> db_state \<Rightarrow> db_state" where
  "first_schema objects s = (case so_schemas objects of x # _ \<Rightarrow> s\<lparr>db_selectedSchema := Some x\<rparr> | [] \<Rightarrow> s)"

text \<open>The command \<open>(use, db)\<close> lists the objects of \<open>db\<close>, after the statement \<open>use\<close> for MySQL.\<close>

definition selectDatabase_begin :: "string \<Rightarrow> db_state \<Rightarrow> db_state \<times> (string option \<times> string) option" where
  "selectDatabase_begin db s = (case map_of (db_schemaObjectsMap s) db of
       Some cached \<Rightarrow>
         (first_schema cached (s\<lparr>db_selectedDatabase := Some db, db_schemaObjects := Some cached, db_schemaLoading := False\<rparr>), None)
     | None \<Rightarrow>
         (s\<lparr>db_selectedDatabase := Some db, db_schemaObjects := None, db_schemaLoading := True\<rparr>,
          Some (if map_option cc_dbType (db_connectionConfig s) = Some Mysql
                then Some (''USE '' @ [backtick] @ js_replaceAll backtick [backtick, backtick] db @ [backtick]) else None, db)))"

definition selectDatabase_done :: "string \<Rightarrow> string + SchemaObjects \<Rightarrow> db_state \<Rightarrow> db_state" where
  "selectDatabase_done db reply s = (case reply of
       Inr objects \<Rightarrow> first_schema objects (s\<lparr>db_schemaObjects := Some objects,
          db_schemaObjectsMap := AList.update db objects (db_schemaObjectsMap s), db_schemaLoading := False\<rparr>)
     | Inl e \<Rightarrow> s\<lparr>db_schemaLoading := False\<rparr>)"

definition loadDatabases_done :: "string + DatabaseInfo list \<Rightarrow> db_state \<Rightarrow> db_state \<times> (string option \<times> string) option" where
  "loadDatabases_done reply s = (case reply of
       Inl e \<Rightarrow> (s, None)
     | Inr dbs \<Rightarrow> (let s' = s\<lparr>db_databases := dbs\<rparr>; wanted = map_option cc_database (db_connectionConfig s') in
         if truthy_opt wanted \<and> some_elem (\<lambda>d. di_name d = the wanted) dbs then selectDatabase_begin (the wanted) s'
         else case dbs of d # _ \<Rightarrow> selectDatabase_begin (di_name d) s' | [] \<Rightarrow> (s', None)))"

definition loadSchemaObjects_begin :: "string option \<Rightarrow> db_state \<Rightarrow> db_state \<times> (string \<times> string) option" where
  "loadSchemaObjects_begin schema s = (if \<not> truthy_opt (db_selectedDatabase s) then (s, None)
     else (s\<lparr>db_schemaLoading := True\<rparr>,
           Some (the (db_selectedDatabase s), nullish schema (nullish (db_selectedSchema s) []))))"

definition loadSchemaObjects_done :: "string \<Rightarrow> string + SchemaObjects \<Rightarrow> db_state \<Rightarrow> db_state" where
  "loadSchemaObjects_done db reply s = (case reply of
       Inr objects \<Rightarrow> s\<lparr>db_schemaObjects := Some objects,
          db_schemaObjectsMap := AList.update db objects (db_schemaObjectsMap s), db_schemaLoading := False\<rparr>
     | Inl e \<Rightarrow> s\<lparr>db_schemaLoading := False\<rparr>)"

definition toggleNode :: "string \<Rightarrow> db_state \<Rightarrow> db_state" where
  "toggleNode nodeId s = s\<lparr>db_expandedNodes :=
     (if nodeId \<in> db_expandedNodes s then db_expandedNodes s - {nodeId} else insert nodeId (db_expandedNodes s))\<rparr>"


section \<open>Tabs and the query editor\<close>

text \<open>The proxy fields taken from the tab that becomes active.\<close>

definition show_proxy :: "WorkspaceTab option \<Rightarrow> db_state \<Rightarrow> db_state" where
  "show_proxy t s = (case t of
       Some (QueryT q) \<Rightarrow> s\<lparr>db_sqlText := qt_sqlText q, db_queryResult := qt_queryResult q,
                           db_queryError := qt_queryError q, db_queryRunning := qt_queryRunning q\<rparr>
     | _ \<Rightarrow> s\<lparr>db_sqlText := [], db_queryResult := None, db_queryError := None, db_queryRunning := False\<rparr>)"

text \<open>The tabs with the proxy fields written back to the active query tab.\<close>

definition saved_tabs :: "db_state \<Rightarrow> WorkspaceTab list" where
  "saved_tabs s = map_where (\<lambda>t. Some (wt_id t) = db_activeTabId s)
     (on_query (\<lambda>q. q\<lparr>qt_sqlText := db_sqlText s, qt_queryResult := db_queryResult s, qt_queryError := db_queryError s,
                       qt_queryRunning := db_queryRunning s\<rparr>)) (db_tabs s)"

definition addQueryTab :: "string option \<Rightarrow> string option \<Rightarrow> string \<Rightarrow> db_state \<Rightarrow> db_state" where
  "addQueryTab label sql uuid s = (let tab = \<lparr> qt_id = uuid,
       qt_label = nullish label (''Query '' @ nat_to_string (length (filter is_query (db_tabs s)) + 1)),
       qt_sqlText = nullish sql [], qt_queryResult = None, qt_queryError = None, qt_queryRunning = False,
       qt_panelLayout = None \<rparr>
     in s\<lparr>db_tabs := db_tabs s @ [QueryT tab], db_activeTabId := Some uuid, db_sqlText := qt_sqlText tab,
          db_queryResult := None, db_queryError := None, db_queryRunning := False\<rparr>)"

definition db_closeTab :: "string \<Rightarrow> db_state \<Rightarrow> db_state" where
  "db_closeTab tabId s = (let tabs = filter (\<lambda>t. wt_id t \<noteq> tabId) (db_tabs s);
       activeId = (if db_activeTabId s = Some tabId then map_option wt_id (last_opt tabs) else db_activeTabId s)
     in show_proxy (find (\<lambda>t. Some (wt_id t) = activeId) tabs) (s\<lparr>db_tabs := tabs, db_activeTabId := activeId\<rparr>))"

definition db_closeOtherTabs :: "string \<Rightarrow> db_state \<Rightarrow> db_state" where
  "db_closeOtherTabs tabId s = (let tabs = filter (\<lambda>t. wt_id t = tabId) (db_tabs s) in
     show_proxy (case tabs of t # _ \<Rightarrow> Some t | [] \<Rightarrow> None) (s\<lparr>db_tabs := tabs, db_activeTabId := Some tabId\<rparr>))"

text \<open>
  After \<open>closeTabsToLeft\<close> and \<open>closeTabsToRight\<close>: the tab stays active when it is still open, else the
  one the action names becomes active.
\<close>

definition keep_tabs :: "WorkspaceTab list \<Rightarrow> string \<Rightarrow> db_state \<Rightarrow> db_state" where
  "keep_tabs tabs tabId s = (let
       activeId = (if some_elem (\<lambda>t. Some (wt_id t) = db_activeTabId s) tabs then db_activeTabId s else Some tabId)
     in show_proxy (find (\<lambda>t. Some (wt_id t) = activeId) tabs) (s\<lparr>db_tabs := tabs, db_activeTabId := activeId\<rparr>))"

text \<open>For an unknown tab \<open>findIndex\<close> is -1: \<open>slice(-1)\<close> keeps the last tab, \<open>slice(0, 0)\<close> none.\<close>

definition db_closeTabsToLeft :: "string \<Rightarrow> db_state \<Rightarrow> db_state" where
  "db_closeTabsToLeft tabId s = keep_tabs (case findIndex (\<lambda>t. wt_id t = tabId) (db_tabs s) of
       Some i \<Rightarrow> drop i (db_tabs s)
     | None \<Rightarrow> drop (length (db_tabs s) - 1) (db_tabs s)) tabId s"

definition db_closeTabsToRight :: "string \<Rightarrow> db_state \<Rightarrow> db_state" where
  "db_closeTabsToRight tabId s = keep_tabs (case findIndex (\<lambda>t. wt_id t = tabId) (db_tabs s) of
       Some i \<Rightarrow> take (i + 1) (db_tabs s)
     | None \<Rightarrow> []) tabId s"

definition db_setActiveTab :: "string \<Rightarrow> db_state \<Rightarrow> db_state" where
  "db_setActiveTab tabId s = (let tabs = saved_tabs s in
     show_proxy (find (\<lambda>t. wt_id t = tabId) tabs) (s\<lparr>db_tabs := tabs, db_activeTabId := Some tabId\<rparr>))"

definition setSqlText :: "string \<Rightarrow> db_state \<Rightarrow> db_state" where
  "setSqlText t s = s\<lparr>db_sqlText := t\<rparr>"

text \<open>The command is the statement with the database it runs in.\<close>

definition executeQuery_begin :: "string option \<Rightarrow> db_state \<Rightarrow> db_state \<times> (string \<times> string option) option" where
  "executeQuery_begin overrideDatabase s = (let sql = js_trim (db_sqlText s) in
     if \<not> truthy sql then (s, None)
     else (s\<lparr>db_queryRunning := True, db_queryError := None, db_queryResult := None\<rparr>,
           Some (sql, case overrideDatabase of Some d \<Rightarrow> Some d | None \<Rightarrow> db_selectedDatabase s)))"

definition executeQuery_done :: "string \<Rightarrow> string + QueryResult \<Rightarrow> db_state \<Rightarrow> db_state" where
  "executeQuery_done sql reply s = (case reply of
       Inr result \<Rightarrow> s\<lparr>db_queryResult := Some result, db_queryRunning := False,
         db_tabs := map_where (\<lambda>t. Some (wt_id t) = db_activeTabId s)
           (on_query (\<lambda>q. q\<lparr>qt_queryResult := Some result, qt_queryError := None, qt_queryRunning := False, qt_sqlText := sql\<rparr>))
           (db_tabs s)\<rparr>
     | Inl e \<Rightarrow> s\<lparr>db_queryError := Some e, db_queryRunning := False,
         db_tabs := map_where (\<lambda>t. Some (wt_id t) = db_activeTabId s)
           (on_query (\<lambda>q. q\<lparr>qt_queryError := Some e, qt_queryResult := None, qt_queryRunning := False, qt_sqlText := sql\<rparr>))
           (db_tabs s)\<rparr>)"

text \<open>The history entry written after a query; \<open>config\<close> is the configuration when it was sent.\<close>

definition query_history :: "string \<Rightarrow> string \<Rightarrow> ConnectionConfig option \<Rightarrow> int \<Rightarrow> string \<Rightarrow> string + QueryResult \<Rightarrow> db_state
    \<Rightarrow> QueryHistoryEntry" where
  "query_history uuid now config elapsed sql reply s = \<lparr> qh_id = uuid, qh_connectionId = None,
     qh_connectionName = nullish (map_option cc_host config) [],
     qh_dbType = nullish (map_option cc_dbType config) Postgresql,
     qh_databaseName = nullish (db_selectedDatabase s) [], qh_sqlText = sql,
     qh_executionMs = (case reply of Inr result \<Rightarrow> Some (qr_executionTimeMs result) | Inl e \<Rightarrow> Some elapsed),
     qh_rowCount = (case reply of Inr result \<Rightarrow> Some (int (length (qr_rows result))) | Inl e \<Rightarrow> None),
     qh_status = (case reply of Inr result \<Rightarrow> QuerySuccess | Inl e \<Rightarrow> QueryFailed),
     qh_errorMessage = (case reply of Inr result \<Rightarrow> None | Inl e \<Rightarrow> Some e), qh_createdAt = now \<rparr>"

definition cancelQuery_done :: "db_state \<Rightarrow> db_state" where
  "cancelQuery_done s = s\<lparr>db_queryRunning := False\<rparr>"


section \<open>Table data\<close>

text \<open>Arguments of the backend's \<open>fetchTableData\<close>.\<close>

record FetchRequest =
  fr_database :: string
  fr_schema :: string
  fr_table :: string
  fr_offset :: int
  fr_limit :: int
  fr_sortColumn :: "string option"
  fr_sortDir :: "SortDir option"
  fr_filter :: "string option"

definition fetch_request :: "TableDataTab \<Rightarrow> FetchRequest" where
  "fetch_request t = \<lparr> fr_database = dt_database t, fr_schema = dt_schema t, fr_table = dt_table t,
     fr_offset = dt_tableDataOffset t, fr_limit = dt_tableDataLimit t, fr_sortColumn = dt_sortColumn t,
     fr_sortDir = dt_sortDir t, fr_filter = (if truthy (dt_filter t) then Some (dt_filter t) else None) \<rparr>"

definition newTableTab :: "string \<Rightarrow> string \<Rightarrow> string \<Rightarrow> string \<Rightarrow> TableDataTab" where
  "newTableTab uuid db schema table = \<lparr> dt_id = uuid, dt_label = table, dt_database = db, dt_schema = schema, dt_table = table,
     dt_tableData = None, dt_tableDataLoading = True, dt_tableDataOffset = 0, dt_tableDataLimit = 1000,
     dt_sortColumn = None, dt_sortDir = None, dt_filter = [], dt_tablePrimaryKeys = [], dt_pendingEdits = [],
     dt_tableDescription = None \<rparr>"

text \<open>Open a new tab: the query editor's fields are saved first, as \<open>setActiveTab\<close> does.\<close>

definition open_tab :: "WorkspaceTab \<Rightarrow> db_state \<Rightarrow> db_state" where
  "open_tab tab s = s\<lparr>db_tabs := saved_tabs s @ [tab], db_activeTabId := Some (wt_id tab), db_sqlText := [],
     db_queryResult := None, db_queryError := None, db_queryRunning := False\<rparr>"

fun is_table_of :: "string \<Rightarrow> string \<Rightarrow> string \<Rightarrow> WorkspaceTab \<Rightarrow> bool" where
  "is_table_of db schema table (TableT t) \<longleftrightarrow> dt_database t = db \<and> dt_schema t = schema \<and> dt_table t = table"
| "is_table_of db schema table _ \<longleftrightarrow> False"

definition openTable_begin :: "string \<Rightarrow> string \<Rightarrow> string \<Rightarrow> db_state \<Rightarrow> db_state \<times> FetchRequest option" where
  "openTable_begin schema table uuid s = (let db = nullish (db_selectedDatabase s) [] in
     case find (is_table_of db schema table) (db_tabs s) of
       Some t \<Rightarrow> (db_setActiveTab (wt_id t) s, None)
     | None \<Rightarrow> (let tab = newTableTab uuid db schema table in (open_tab (TableT tab) s, Some (fetch_request tab))))"

definition openTable_done :: "string \<Rightarrow> string + QueryResult \<times> TableDescription \<Rightarrow> db_state \<Rightarrow> db_state" where
  "openTable_done i reply s = (case reply of
       Inr (result, desc) \<Rightarrow> db_updateTab i (on_table (\<lambda>t. t\<lparr>dt_tableData := Some result, dt_tableDataLoading := False,
          dt_tablePrimaryKeys := td_primaryKeys desc, dt_tableDescription := Some desc\<rparr>)) s
     | Inl e \<Rightarrow> db_updateTab i (on_table (\<lambda>t. t\<lparr>dt_tableDataLoading := False\<rparr>)) s)"

text \<open>
  Refreshing, sorting, filtering and paging change the tab, mark it as loading and fetch with the
  changed fields; the reply of each is handled by the same code.
\<close>

definition fetch_begin :: "string option \<Rightarrow> (TableDataTab \<Rightarrow> TableDataTab) \<Rightarrow> db_state \<Rightarrow> db_state \<times> FetchRequest option" where
  "fetch_begin tabId f s = (case getActiveTableTab s tabId of
       None \<Rightarrow> (s, None)
     | Some tab \<Rightarrow> (db_updateTab (dt_id tab) (on_table (\<lambda>t. (f t)\<lparr>dt_tableDataLoading := True\<rparr>)) s, Some (fetch_request (f tab))))"

definition fetch_done :: "string \<Rightarrow> string + QueryResult \<Rightarrow> db_state \<Rightarrow> db_state" where
  "fetch_done i reply s = (case reply of
       Inr result \<Rightarrow> db_updateTab i (on_table (\<lambda>t. t\<lparr>dt_tableData := Some result, dt_tableDataLoading := False\<rparr>)) s
     | Inl e \<Rightarrow> db_updateTab i (on_table (\<lambda>t. t\<lparr>dt_tableDataLoading := False\<rparr>)) s)"

definition refreshTableTab :: "string option \<Rightarrow> db_state \<Rightarrow> db_state \<times> FetchRequest option" where
  "refreshTableTab tabId s = fetch_begin tabId (\<lambda>t. t) s"

definition next_sort :: "string \<Rightarrow> TableDataTab \<Rightarrow> SortDir option" where
  "next_sort column tab = (if dt_sortColumn tab = Some column
     then (case dt_sortDir tab of Some Asc \<Rightarrow> Some Desc | Some Desc \<Rightarrow> None | None \<Rightarrow> Some Asc)
     else Some Asc)"

definition sort_tab :: "string \<Rightarrow> TableDataTab \<Rightarrow> TableDataTab" where
  "sort_tab column tab = tab\<lparr>dt_sortColumn := (if next_sort column tab = None then None else Some column),
     dt_sortDir := next_sort column tab, dt_tableDataOffset := 0\<rparr>"

definition setTableSort :: "string \<Rightarrow> string \<Rightarrow> db_state \<Rightarrow> db_state \<times> FetchRequest option" where
  "setTableSort tabId column s = fetch_begin (Some tabId) (sort_tab column) s"

definition setTableFilter :: "string \<Rightarrow> string \<Rightarrow> db_state \<Rightarrow> db_state \<times> FetchRequest option" where
  "setTableFilter tabId x s = fetch_begin (Some tabId) (\<lambda>t. t\<lparr>dt_filter := x, dt_tableDataOffset := 0\<rparr>) s"

text \<open>
  The first argument is a tab identifier (\<open>Inl\<close>) or, in the older form, the offset (\<open>Inr\<close>) for the
  active tab.
\<close>

definition setTableDataPage :: "string + int \<Rightarrow> int option \<Rightarrow> db_state \<Rightarrow> db_state \<times> FetchRequest option" where
  "setTableDataPage tabIdOrOffset offset s = (case tabIdOrOffset of
       Inr n \<Rightarrow> fetch_begin (Some (nullish (db_activeTabId s) [])) (\<lambda>t. t\<lparr>dt_tableDataOffset := n\<rparr>) s
     | Inl i \<Rightarrow> fetch_begin (Some i) (\<lambda>t. t\<lparr>dt_tableDataOffset := nullish offset 0\<rparr>) s)"

definition setTablePageSize :: "string \<Rightarrow> int \<Rightarrow> db_state \<Rightarrow> db_state \<times> FetchRequest option" where
  "setTablePageSize tabId pageSize s =
     fetch_begin (Some tabId) (\<lambda>t. t\<lparr>dt_tableDataLimit := pageSize, dt_tableDataOffset := 0\<rparr>) s"


section \<open>Editing rows\<close>

definition addPendingEdit :: "CellEdit \<Rightarrow> string option \<Rightarrow> db_state \<Rightarrow> db_state" where
  "addPendingEdit edit tabId s = (case getActiveTableTab s tabId of
       None \<Rightarrow> s
     | Some tab \<Rightarrow> db_updateTab (dt_id tab) (on_table (\<lambda>t. t\<lparr>dt_pendingEdits := dt_pendingEdits t @ [edit]\<rparr>)) s)"

definition clearPendingEdits :: "string option \<Rightarrow> db_state \<Rightarrow> db_state" where
  "clearPendingEdits tabId s = (case getActiveTableTab s tabId of
       None \<Rightarrow> s
     | Some tab \<Rightarrow> db_updateTab (dt_id tab) (on_table (\<lambda>t. t\<lparr>dt_pendingEdits := []\<rparr>)) s)"

text \<open>The command: the tab and the edits sent to the backend.\<close>

definition applyEdits_begin :: "string option \<Rightarrow> db_state \<Rightarrow> (string \<times> CellEdit list) option" where
  "applyEdits_begin tabId s = (case getActiveTableTab s tabId of
       None \<Rightarrow> None
     | Some tab \<Rightarrow> (if dt_pendingEdits tab = [] then None else Some (dt_id tab, dt_pendingEdits tab)))"

definition applyEdits_done :: "string \<Rightarrow> string + unit \<Rightarrow> db_state \<Rightarrow> db_state \<times> FetchRequest option" where
  "applyEdits_done i reply s = (case reply of
       Inr _ \<Rightarrow> refreshTableTab (Some i) (db_updateTab i (on_table (\<lambda>t. t\<lparr>dt_pendingEdits := []\<rparr>)) s)
     | Inl e \<Rightarrow> (s, None))"

definition deleteRows_begin :: "SqlValue list list \<Rightarrow> string option \<Rightarrow> db_state
    \<Rightarrow> (string \<times> (string \<times> string \<times> string) \<times> string list \<times> SqlValue list list) option" where
  "deleteRows_begin pkValues tabId s = (case getActiveTableTab s tabId of
       None \<Rightarrow> None
     | Some tab \<Rightarrow> (if dt_tablePrimaryKeys tab = [] then None
         else Some (dt_id tab, (dt_database tab, dt_schema tab, dt_table tab), dt_tablePrimaryKeys tab, pkValues)))"

definition deleteRows_done :: "string \<Rightarrow> string + unit \<Rightarrow> db_state \<Rightarrow> db_state \<times> FetchRequest option" where
  "deleteRows_done i reply s = (case reply of Inr _ \<Rightarrow> refreshTableTab (Some i) s | Inl e \<Rightarrow> (s, None))"

definition setTabPanelLayout :: "string \<Rightarrow> int \<times> int \<Rightarrow> db_state \<Rightarrow> db_state" where
  "setTabPanelLayout tabId layout s = db_updateTab tabId (on_query (\<lambda>q. q\<lparr>qt_panelLayout := Some layout\<rparr>)) s"


section \<open>The structure editor\<close>

text \<open>Copies of columns: new objects, with references from \<open>n\<close> on.\<close>

definition copy_columns :: "nat \<Rightarrow> ColumnDetail list \<Rightarrow> ColumnObj list" where
  "copy_columns n cols = map (\<lambda>(r, c). \<lparr> co_ref = r, co_col = c \<rparr>) (enumerate n cols)"

definition newStructureTab :: "string \<Rightarrow> string \<Rightarrow> string \<Rightarrow> string \<Rightarrow> TableStructureTab" where
  "newStructureTab uuid db schema table = \<lparr> st_id = uuid,
     st_label = table @ '' ['' @ [CHR 0xE7, CHR 0xBB, CHR 0x93, CHR 0xE6, CHR 0x9E, CHR 0x84] @ '']'',
     st_database = db, st_schema = schema, st_table = table, st_originalDescription = None, st_editedColumns = [],
     st_deletedColumns = [], st_addedColumns = [], st_loading = True, st_applyError = None \<rparr>"

fun is_structure_of :: "string \<Rightarrow> string \<Rightarrow> string \<Rightarrow> WorkspaceTab \<Rightarrow> bool" where
  "is_structure_of db schema table (StructureT t) \<longleftrightarrow> st_database t = db \<and> st_schema t = schema \<and> st_table t = table"
| "is_structure_of db schema table _ \<longleftrightarrow> False"

definition openTableStructure_begin :: "string \<Rightarrow> string \<Rightarrow> string \<Rightarrow> db_state
    \<Rightarrow> db_state \<times> (string \<times> string \<times> string) option" where
  "openTableStructure_begin schema table uuid s = (let db = nullish (db_selectedDatabase s) [] in
     case find (is_structure_of db schema table) (db_tabs s) of
       Some t \<Rightarrow> (db_setActiveTab (wt_id t) s, None)
     | None \<Rightarrow> (open_tab (StructureT (newStructureTab uuid db schema table)) s, Some (db, schema, table)))"

definition load_structure :: "TableDescription \<Rightarrow> nat \<Rightarrow> TableStructureTab \<Rightarrow> TableStructureTab" where
  "load_structure desc n t = t\<lparr>st_originalDescription := Some desc, st_editedColumns := copy_columns n (td_columns desc),
     st_loading := False\<rparr>"

definition openTableStructure_done :: "string \<Rightarrow> string + TableDescription \<Rightarrow> db_state \<Rightarrow> db_state" where
  "openTableStructure_done i reply s = (case reply of
       Inr desc \<Rightarrow> (db_updateTab i (on_structure (load_structure desc (db_refs s))) s)
                    \<lparr>db_refs := db_refs s + length (td_columns desc)\<rparr>
     | Inl e \<Rightarrow> db_updateTab i (on_structure (\<lambda>t. t\<lparr>st_loading := False\<rparr>)) s)"

text \<open>A \<open>Partial<ColumnDetail>\<close>: the fields that are present.\<close>

record ColumnUpdates =
  cu_name :: "string option"
  cu_dataType :: "string option"
  cu_nullable :: "bool option"
  cu_defaultValue :: "string option option"
  cu_isPrimaryKey :: "bool option"
  cu_comment :: "string option option"
  cu_maxLength :: "int option option"

definition apply_updates :: "ColumnUpdates \<Rightarrow> ColumnDetail \<Rightarrow> ColumnDetail" where
  "apply_updates u c = \<lparr> cd_name = nullish (cu_name u) (cd_name c), cd_dataType = nullish (cu_dataType u) (cd_dataType c),
     cd_nullable = nullish (cu_nullable u) (cd_nullable c), cd_defaultValue = nullish (cu_defaultValue u) (cd_defaultValue c),
     cd_isPrimaryKey = nullish (cu_isPrimaryKey u) (cd_isPrimaryKey c), cd_comment = nullish (cu_comment u) (cd_comment c),
     cd_maxLength = nullish (cu_maxLength u) (cd_maxLength c) \<rparr>"

text \<open>The changed column is a new object, with reference \<open>n\<close>.\<close>

definition update_column :: "nat \<Rightarrow> nat \<Rightarrow> ColumnUpdates \<Rightarrow> TableStructureTab \<Rightarrow> TableStructureTab" where
  "update_column n colIndex u t = t\<lparr>st_editedColumns :=
     map (\<lambda>(i, c). if i = colIndex then \<lparr> co_ref = n, co_col = apply_updates u (co_col c) \<rparr> else c)
       (enumerate 0 (st_editedColumns t))\<rparr>"

definition updateStructureColumn :: "string \<Rightarrow> nat \<Rightarrow> ColumnUpdates \<Rightarrow> db_state \<Rightarrow> db_state" where
  "updateStructureColumn tabId colIndex u s =
     (db_updateTab tabId (on_structure (update_column (db_refs s) colIndex u)) s)\<lparr>db_refs := db_refs s + 1\<rparr>"

definition newColumn :: ColumnDetail where
  "newColumn = \<lparr> cd_name = ''new_column'', cd_dataType = ''varchar(255)'', cd_nullable = True, cd_defaultValue = None,
     cd_isPrimaryKey = False, cd_comment = None, cd_maxLength = None \<rparr>"

definition add_column :: "nat \<Rightarrow> TableStructureTab \<Rightarrow> TableStructureTab" where
  "add_column n t = (let newCol = \<lparr> co_ref = n, co_col = newColumn \<rparr> in
     t\<lparr>st_editedColumns := st_editedColumns t @ [newCol], st_addedColumns := st_addedColumns t @ [newCol]\<rparr>)"

definition addStructureColumn :: "string \<Rightarrow> db_state \<Rightarrow> db_state" where
  "addStructureColumn tabId s =
     (db_updateTab tabId (on_structure (add_column (db_refs s))) s)\<lparr>db_refs := db_refs s + 1\<rparr>"

text \<open>Out of range the source reads a field of \<open>undefined\<close> and fails before the store is written.\<close>

definition remove_column :: "nat \<Rightarrow> TableStructureTab \<Rightarrow> TableStructureTab" where
  "remove_column colIndex t = (if colIndex < length (st_editedColumns t) then
     (let col = st_editedColumns t ! colIndex;
          isNew = some_elem (\<lambda>a. co_ref a = co_ref col) (st_addedColumns t)
      in t\<lparr>st_editedColumns := splice_out colIndex (st_editedColumns t),
           st_deletedColumns := (if isNew then st_deletedColumns t else st_deletedColumns t @ [cd_name (co_col col)]),
           st_addedColumns := (if isNew then filter (\<lambda>a. co_ref a \<noteq> co_ref col) (st_addedColumns t) else st_addedColumns t)\<rparr>)
     else t)"

definition removeStructureColumn :: "string \<Rightarrow> nat \<Rightarrow> db_state \<Rightarrow> db_state" where
  "removeStructureColumn tabId colIndex s = db_updateTab tabId (on_structure (remove_column colIndex)) s"

text \<open>
  The editor moves a column it shows. (For an index out of range the source would insert
  \<open>undefined\<close>; the model keeps the columns.)
\<close>

definition move_column :: "nat \<Rightarrow> nat \<Rightarrow> TableStructureTab \<Rightarrow> TableStructureTab" where
  "move_column fromIndex toIndex t = (if fromIndex < length (st_editedColumns t)
     then t\<lparr>st_editedColumns := splice_in toIndex (st_editedColumns t ! fromIndex) (splice_out fromIndex (st_editedColumns t))\<rparr>
     else t)"

definition moveStructureColumn :: "string \<Rightarrow> nat \<Rightarrow> nat \<Rightarrow> db_state \<Rightarrow> db_state" where
  "moveStructureColumn tabId fromIndex toIndex s = db_updateTab tabId (on_structure (move_column fromIndex toIndex)) s"

definition structure_sql :: "DbType \<Rightarrow> TableDescription \<Rightarrow> TableStructureTab \<Rightarrow> string list" where
  "structure_sql d desc t = generateAlterTableSQL d (st_schema t) (st_table t) (td_columns desc)
     (map co_col (st_editedColumns t)) (st_deletedColumns t) (map co_col (st_addedColumns t))"

text \<open>The command: the statements to execute one after the other, then a \<open>describeTable\<close>.\<close>

definition applyStructureChanges_begin :: "string \<Rightarrow> db_state \<Rightarrow> db_state \<times> string list option" where
  "applyStructureChanges_begin tabId s =
     (case find (\<lambda>t. wt_id t = tabId) (db_tabs s) of
        Some (StructureT tab) \<Rightarrow>
          (case (st_originalDescription tab, db_connectionConfig s) of
             (Some desc, Some config) \<Rightarrow>
               (let statements = structure_sql (cc_dbType config) desc tab in
                if statements = [] then (s, None)
                else (db_updateTab tabId (on_structure (\<lambda>t. t\<lparr>st_loading := True, st_applyError := None\<rparr>)) s, Some statements))
           | _ \<Rightarrow> (s, None))
      | _ \<Rightarrow> (s, None))"

text \<open>
  The loop over the statements with the backend's \<open>executeQuery\<close> as a function on the state of the
  database: it stops at the first failure, and describes the table when all have passed.
\<close>

fun execute_all :: "(string \<Rightarrow> 'db \<Rightarrow> 'db \<times> (string + unit)) \<Rightarrow> ('db \<Rightarrow> string + TableDescription) \<Rightarrow> string list \<Rightarrow> 'db
    \<Rightarrow> 'db \<times> (string + TableDescription)" where
  "execute_all exec describe [] w = (w, describe w)"
| "execute_all exec describe (q # qs) w = (case exec q w of
       (w', Inl e) \<Rightarrow> (w', Inl e)
     | (w', Inr _) \<Rightarrow> execute_all exec describe qs w')"

definition applyStructureChanges_done :: "string \<Rightarrow> string + TableDescription \<Rightarrow> db_state \<Rightarrow> db_state" where
  "applyStructureChanges_done tabId reply s = (case reply of
       Inr desc \<Rightarrow> (db_updateTab tabId (on_structure (\<lambda>t. (load_structure desc (db_refs s) t)
                      \<lparr>st_deletedColumns := [], st_addedColumns := [], st_applyError := None\<rparr>)) s)
                    \<lparr>db_refs := db_refs s + length (td_columns desc)\<rparr>
     | Inl e \<Rightarrow> db_updateTab tabId (on_structure (\<lambda>t. t\<lparr>st_loading := False, st_applyError := Some e\<rparr>)) s)"

definition discard_structure :: "nat \<Rightarrow> TableStructureTab \<Rightarrow> TableStructureTab" where
  "discard_structure n t = t\<lparr>st_editedColumns := (case st_originalDescription t of
        Some desc \<Rightarrow> copy_columns n (td_columns desc) | None \<Rightarrow> []),
     st_deletedColumns := [], st_addedColumns := [], st_applyError := None\<rparr>"

definition structure_size :: "string \<Rightarrow> db_state \<Rightarrow> nat" where
  "structure_size tabId s = (case find (\<lambda>t. wt_id t = tabId) (db_tabs s) of
       Some (StructureT t) \<Rightarrow> (case st_originalDescription t of Some desc \<Rightarrow> length (td_columns desc) | None \<Rightarrow> 0)
     | _ \<Rightarrow> 0)"

definition discardStructureChanges :: "string \<Rightarrow> db_state \<Rightarrow> db_state" where
  "discardStructureChanges tabId s =
     (db_updateTab tabId (on_structure (discard_structure (db_refs s))) s)\<lparr>db_refs := db_refs s + structure_size tabId s\<rparr>"


section \<open>The stores of the sessions\<close>

definition getDbClientStoreApi :: "string \<Rightarrow> (string \<times> db_state) list \<Rightarrow> (string \<times> db_state) list \<times> db_state" where
  "getDbClientStoreApi sessionId stores = (case map_of stores sessionId of
       Some s \<Rightarrow> (stores, s)
     | None \<Rightarrow> (AList.update sessionId (createDbClientSessionStore sessionId) stores, createDbClientSessionStore sessionId))"

definition detachDbClientStore :: "string \<Rightarrow> (string \<times> db_state) list \<Rightarrow> (string \<times> db_state) list \<times> db_state option" where
  "detachDbClientStore sessionId stores = (case map_of stores sessionId of
       None \<Rightarrow> (stores, None)
     | Some s \<Rightarrow> (AList.delete sessionId stores, Some s))"

end
