(* ===== verification/DbClientProps.thy ===== *)
theory DbClientProps
  imports DbClientStore Interfaces
begin

text \<open>
  Properties of the tabs and of the query editor of the database client: the tab list is consistent
  over every sequence of actions and replies; switching tabs loses no work, and which actions do;
  what a table tab fetches is what it shows.
\<close>

section \<open>Tabs\<close>

text \<open>What a tab is about: itself for a query, the table for the two others.\<close>

fun wt_key :: "WorkspaceTab \<Rightarrow> string \<times> string list" where
  "wt_key (QueryT t) = (''query'', [qt_id t])"
| "wt_key (TableT t) = (''table'', [dt_database t, dt_schema t, dt_table t])"
| "wt_key (StructureT t) = (''structure'', [st_database t, st_schema t, st_table t])"

definition tabs_inv :: "db_state \<Rightarrow> bool" where
  "tabs_inv s \<longleftrightarrow> distinct (map wt_id (db_tabs s)) \<and> distinct (map wt_key (db_tabs s)) \<and>
     (case db_activeTabId s of None \<Rightarrow> db_tabs s = [] | Some i \<Rightarrow> i \<in> wt_id ` set (db_tabs s))"

text \<open>Every action and every reply, with the arguments it comes with.\<close>

datatype db_action =
    ConnectBegin
  | ConnectReply ConnectionConfig "string + ServerInfo"
  | ConnectSavedReply string "string + ServerInfo"
  | DisconnectReply
  | SavedReply "string + SavedConnection list"
  | DatabasesReply "string + DatabaseInfo list"
  | SelectDatabase string
  | SelectReply string "string + SchemaObjects"
  | LoadSchema "string option"
  | SchemaReply string "string + SchemaObjects"
  | ToggleNode string
  | AddQueryTab "string option" "string option" string
  | DbCloseTab string
  | DbCloseOthers string
  | DbCloseLeft string
  | DbCloseRight string
  | DbSetActive string
  | SetSql string
  | Execute "string option"
  | ExecuteReply string "string + QueryResult"
  | CancelReply
  | OpenTable string string string
  | OpenTableReply string "string + QueryResult \<times> TableDescription"
  | Refresh "string option"
  | SetSort string string
  | SetTableFilter string string
  | SetPage "string + int" "int option"
  | SetPageSize string int
  | FetchReply string "string + QueryResult"
  | AddEdit CellEdit "string option"
  | ClearEdits "string option"
  | EditsReply string "string + unit"
  | DeleteReply string "string + unit"
  | SetLayout string "int \<times> int"
  | OpenStructure string string string
  | OpenStructureReply string "string + TableDescription"
  | UpdateColumn string nat ColumnUpdates
  | AddStructColumn string
  | RemoveColumn string nat
  | MoveColumn string nat nat
  | ApplyStructure string
  | ApplyReply string "string + TableDescription"
  | DiscardStructure string

fun db_step :: "db_state \<Rightarrow> db_action \<Rightarrow> db_state" where
  "db_step s ConnectBegin = connect_begin s"
| "db_step s (ConnectReply c r) = connect_done c r s"
| "db_step s (ConnectSavedReply i r) = connectSaved_done i r s"
| "db_step s DisconnectReply = disconnect_done s"
| "db_step s (SavedReply r) = loadSavedConnections_done r s"
| "db_step s (DatabasesReply r) = fst (loadDatabases_done r s)"
| "db_step s (SelectDatabase d) = fst (selectDatabase_begin d s)"
| "db_step s (SelectReply d r) = selectDatabase_done d r s"
| "db_step s (LoadSchema x) = fst (loadSchemaObjects_begin x s)"
| "db_step s (SchemaReply d r) = loadSchemaObjects_done d r s"
| "db_step s (ToggleNode n) = toggleNode n s"
| "db_step s (AddQueryTab l q u) = addQueryTab l q u s"
| "db_step s (DbCloseTab i) = db_closeTab i s"
| "db_step s (DbCloseOthers i) = db_closeOtherTabs i s"
| "db_step s (DbCloseLeft i) = db_closeTabsToLeft i s"
| "db_step s (DbCloseRight i) = db_closeTabsToRight i s"
| "db_step s (DbSetActive i) = db_setActiveTab i s"
| "db_step s (SetSql t) = setSqlText t s"
| "db_step s (Execute d) = fst (executeQuery_begin d s)"
| "db_step s (ExecuteReply q r) = executeQuery_done q r s"
| "db_step s CancelReply = cancelQuery_done s"
| "db_step s (OpenTable x t u) = fst (openTable_begin x t u s)"
| "db_step s (OpenTableReply i r) = openTable_done i r s"
| "db_step s (Refresh i) = fst (refreshTableTab i s)"
| "db_step s (SetSort i c) = fst (setTableSort i c s)"
| "db_step s (SetTableFilter i x) = fst (setTableFilter i x s)"
| "db_step s (SetPage i x) = fst (setTableDataPage i x s)"
| "db_step s (SetPageSize i n) = fst (setTablePageSize i n s)"
| "db_step s (FetchReply i r) = fetch_done i r s"
| "db_step s (AddEdit e i) = addPendingEdit e i s"
| "db_step s (ClearEdits i) = clearPendingEdits i s"
| "db_step s (EditsReply i r) = fst (applyEdits_done i r s)"
| "db_step s (DeleteReply i r) = fst (deleteRows_done i r s)"
| "db_step s (SetLayout i l) = setTabPanelLayout i l s"
| "db_step s (OpenStructure x t u) = fst (openTableStructure_begin x t u s)"
| "db_step s (OpenStructureReply i r) = openTableStructure_done i r s"
| "db_step s (UpdateColumn i n u) = updateStructureColumn i n u s"
| "db_step s (AddStructColumn i) = addStructureColumn i s"
| "db_step s (RemoveColumn i n) = removeStructureColumn i n s"
| "db_step s (MoveColumn i m n) = moveStructureColumn i m n s"
| "db_step s (ApplyStructure i) = fst (applyStructureChanges_begin i s)"
| "db_step s (ApplyReply i r) = applyStructureChanges_done i r s"
| "db_step s (DiscardStructure i) = discardStructureChanges i s"

text \<open>New tabs get fresh identifiers; the tab bar offers its actions on the tabs it shows.\<close>

fun db_ok :: "db_state \<Rightarrow> db_action \<Rightarrow> bool" where
  "db_ok s (AddQueryTab l q u) \<longleftrightarrow> u \<notin> wt_id ` set (db_tabs s)"
| "db_ok s (OpenTable x t u) \<longleftrightarrow> u \<notin> wt_id ` set (db_tabs s)"
| "db_ok s (OpenStructure x t u) \<longleftrightarrow> u \<notin> wt_id ` set (db_tabs s)"
| "db_ok s (DbCloseOthers i) \<longleftrightarrow> i \<in> wt_id ` set (db_tabs s)"
| "db_ok s (DbCloseLeft i) \<longleftrightarrow> i \<in> wt_id ` set (db_tabs s)"
| "db_ok s (DbCloseRight i) \<longleftrightarrow> i \<in> wt_id ` set (db_tabs s)"
| "db_ok s (DbSetActive i) \<longleftrightarrow> i \<in> wt_id ` set (db_tabs s)"
| "db_ok s _ \<longleftrightarrow> True"

named_theorems tab_maps \<open>tab updates keep identity and subject\<close>

lemma on_query_id [tab_maps]: "(\<And>q. qt_id (f q) = qt_id q) \<Longrightarrow> wt_id (on_query f t) = wt_id t \<and> wt_key (on_query f t) = wt_key t"
  by (cases t) auto

lemma on_table_id [tab_maps]:
  "(\<And>q. dt_id (f q) = dt_id q \<and> dt_database (f q) = dt_database q \<and> dt_schema (f q) = dt_schema q \<and> dt_table (f q) = dt_table q)
   \<Longrightarrow> wt_id (on_table f t) = wt_id t \<and> wt_key (on_table f t) = wt_key t"
  by (cases t) auto

lemma on_structure_id [tab_maps]:
  "(\<And>q. st_id (f q) = st_id q \<and> st_database (f q) = st_database q \<and> st_schema (f q) = st_schema q \<and> st_table (f q) = st_table q)
   \<Longrightarrow> wt_id (on_structure f t) = wt_id t \<and> wt_key (on_structure f t) = wt_key t"
  by (cases t) auto

text \<open>Two states with the same tabs up to their contents.\<close>

definition same_tabs :: "db_state \<Rightarrow> db_state \<Rightarrow> bool" where
  "same_tabs s s' \<longleftrightarrow> map wt_id (db_tabs s') = map wt_id (db_tabs s) \<and> map wt_key (db_tabs s') = map wt_key (db_tabs s)
     \<and> db_activeTabId s' = db_activeTabId s"

lemma same_tabs_inv: "same_tabs s s' \<Longrightarrow> tabs_inv s \<Longrightarrow> tabs_inv s'"
proof -
  assume a: "same_tabs s s'" and i: "tabs_inv s"
  have "wt_id ` set (db_tabs s') = wt_id ` set (db_tabs s)"
    using a by (metis same_tabs_def list.set_map)
  moreover have "db_tabs s' = [] \<longleftrightarrow> db_tabs s = []" using a by (metis same_tabs_def map_is_Nil_conv)
  ultimately show ?thesis using a i by (simp add: same_tabs_def tabs_inv_def split: option.splits)
qed

lemma same_tabs_upd: "(\<And>t. wt_id (f t) = wt_id t \<and> wt_key (f t) = wt_key t) \<Longrightarrow> same_tabs s (db_updateTab i f s)"
  by (simp add: same_tabs_def db_updateTab_def)

lemma same_tabs_refl [simp]: "same_tabs s s" by (simp add: same_tabs_def)

lemma same_tabs_trans: "same_tabs s t \<Longrightarrow> same_tabs t u \<Longrightarrow> same_tabs s u" by (simp add: same_tabs_def)

lemma same_tabs_refs [simp]: "same_tabs s (t\<lparr>db_refs := n\<rparr>) = same_tabs s t" by (simp add: same_tabs_def)

lemma saved_tabs_id [simp]: "map wt_id (saved_tabs s) = map wt_id (db_tabs s)" "map wt_key (saved_tabs s) = map wt_key (db_tabs s)"
  by (simp_all add: saved_tabs_def tab_maps)

lemma set_saved_ids [simp]: "wt_id ` set (saved_tabs s) = wt_id ` set (db_tabs s)"
  by (metis list.set_map saved_tabs_id(1))

lemma set_saved_keys [simp]: "wt_key ` set (saved_tabs s) = wt_key ` set (db_tabs s)"
  by (metis list.set_map saved_tabs_id(2))

lemma show_proxy_tabs [simp]:
  "db_tabs (show_proxy t s) = db_tabs s" "db_activeTabId (show_proxy t s) = db_activeTabId s"
  by (simp_all add: show_proxy_def split: option.split WorkspaceTab.split)

lemma first_schema_tabs [simp]:
  "db_tabs (first_schema x s) = db_tabs s" "db_activeTabId (first_schema x s) = db_activeTabId s"
  by (simp_all add: first_schema_def split: list.split)

lemma setActive_inv: "tabs_inv s \<Longrightarrow> i \<in> wt_id ` set (db_tabs s) \<Longrightarrow> tabs_inv (db_setActiveTab i s)"
  by (simp add: tabs_inv_def db_setActiveTab_def Let_def)

lemma open_tab_inv:
  "tabs_inv s \<Longrightarrow> wt_id t \<notin> wt_id ` set (db_tabs s) \<Longrightarrow> wt_key t \<notin> wt_key ` set (db_tabs s) \<Longrightarrow> tabs_inv (open_tab t s)"
  by (simp add: tabs_inv_def open_tab_def)

lemma table_key: "is_table_of db x t w \<longleftrightarrow> wt_key w = (''table'', [db, x, t])"
  by (cases w) auto

lemma structure_key: "is_structure_of db x t w \<longleftrightarrow> wt_key w = (''structure'', [db, x, t])"
  by (cases w) auto

lemma openTable_inv: "tabs_inv s \<Longrightarrow> u \<notin> wt_id ` set (db_tabs s) \<Longrightarrow> tabs_inv (fst (openTable_begin x t u s))"
  by (auto simp: find_None_iff table_key openTable_begin_def Let_def newTableTab_def split: option.split
      intro!: setActive_inv open_tab_inv dest: find_SomeD)

lemma openStructure_inv: "tabs_inv s \<Longrightarrow> u \<notin> wt_id ` set (db_tabs s) \<Longrightarrow> tabs_inv (fst (openTableStructure_begin x t u s))"
  by (auto simp: find_None_iff structure_key openTableStructure_begin_def Let_def newStructureTab_def split: option.split
      intro!: setActive_inv open_tab_inv dest: find_SomeD)

lemma query_key: "wt_key w = (''query'', [u]) \<Longrightarrow> wt_id w = u"
  by (cases w) auto

lemma addQueryTab_inv: "tabs_inv s \<Longrightarrow> u \<notin> wt_id ` set (db_tabs s) \<Longrightarrow> tabs_inv (addQueryTab l q u s)"
  using query_key[of _ u] by (fastforce simp: tabs_inv_def addQueryTab_def Let_def)

lemma closeTab_inv: "tabs_inv s \<Longrightarrow> tabs_inv (db_closeTab i s)"
proof -
  assume inv: "tabs_inv s"
  let ?ts = "filter (\<lambda>t. wt_id t \<noteq> i) (db_tabs s)"
  show ?thesis
  proof (cases "db_activeTabId s = Some i")
    case True
    then show ?thesis
      using inv last_in_set[of ?ts] by (auto simp: tabs_inv_def db_closeTab_def Let_def distinct_map_filter last_opt_def
          simp del: last_in_set set_filter)
  next
    case False
    then show ?thesis
      using inv by (cases "db_activeTabId s") (auto simp: tabs_inv_def db_closeTab_def Let_def distinct_map_filter)
  qed
qed

lemma keep_tabs_inv:
  assumes "tabs_inv s" "distinct (map wt_id ts)" "distinct (map wt_key ts)" "i \<in> wt_id ` set ts"
  shows "tabs_inv (keep_tabs ts i s)"
proof (cases "some_elem (\<lambda>t. Some (wt_id t) = db_activeTabId s) ts")
  case True
  then show ?thesis using assms by (auto simp: tabs_inv_def keep_tabs_def some_elem_def list_ex_iff split: option.splits)
next
  case False
  then show ?thesis using assms by (simp add: tabs_inv_def keep_tabs_def)
qed

lemma findIndex_id: "i \<in> wt_id ` set ts \<Longrightarrow> \<exists>n < length ts. findIndex (\<lambda>t. wt_id t = i) ts = Some n \<and> wt_id (ts ! n) = i"
  using findIndex_None[of "\<lambda>t. wt_id t = i" ts] findIndex_SomeD[of "\<lambda>t. wt_id t = i" ts]
  by (cases "findIndex (\<lambda>t. wt_id t = i) ts") auto

lemma closeLeft_inv: "tabs_inv s \<Longrightarrow> i \<in> wt_id ` set (db_tabs s) \<Longrightarrow> tabs_inv (db_closeTabsToLeft i s)"
proof -
  assume inv: "tabs_inv s" and "i \<in> wt_id ` set (db_tabs s)"
  then obtain n where n: "n < length (db_tabs s)" "findIndex (\<lambda>t. wt_id t = i) (db_tabs s) = Some n" "wt_id (db_tabs s ! n) = i"
    using findIndex_id by blast
  have "i \<in> wt_id ` set (drop n (db_tabs s))" using n by (metis Cons_nth_drop_Suc image_eqI list.set_intros(1))
  then show ?thesis
    using inv n keep_tabs_inv[OF inv] by (simp add: db_closeTabsToLeft_def tabs_inv_def drop_map[symmetric])
qed

lemma closeRight_inv: "tabs_inv s \<Longrightarrow> i \<in> wt_id ` set (db_tabs s) \<Longrightarrow> tabs_inv (db_closeTabsToRight i s)"
proof -
  assume inv: "tabs_inv s" and "i \<in> wt_id ` set (db_tabs s)"
  then obtain n where n: "n < length (db_tabs s)" "findIndex (\<lambda>t. wt_id t = i) (db_tabs s) = Some n" "wt_id (db_tabs s ! n) = i"
    using findIndex_id by blast
  have "i \<in> wt_id ` set (take (n + 1) (db_tabs s))" using n by (metis Suc_eq_plus1 image_eqI in_set_conv_nth length_take less_Suc_eq min_less_iff_conj nth_take)
  then show ?thesis
    using inv n keep_tabs_inv[OF inv] by (simp add: db_closeTabsToRight_def tabs_inv_def take_map[symmetric])
qed

lemma fetch_begin_same:
  "(\<And>q. dt_id (f q) = dt_id q \<and> dt_database (f q) = dt_database q \<and> dt_schema (f q) = dt_schema q \<and> dt_table (f q) = dt_table q)
   \<Longrightarrow> same_tabs s (fst (fetch_begin i f s))"
  by (simp add: fetch_begin_def split: option.split) (auto intro!: same_tabs_upd tab_maps)

lemmas fetch_actions = refreshTableTab_def setTableSort_def setTableFilter_def setTableDataPage_def setTablePageSize_def sort_tab_def
lemmas tab_replies = openTable_done_def fetch_done_def addPendingEdit_def clearPendingEdits_def setTabPanelLayout_def
  openTableStructure_done_def load_structure_def updateStructureColumn_def update_column_def addStructureColumn_def
  add_column_def removeStructureColumn_def remove_column_def moveStructureColumn_def move_column_def
  applyStructureChanges_begin_def applyStructureChanges_done_def discardStructureChanges_def discard_structure_def

lemma fetch_same:
  "same_tabs s (fst (refreshTableTab i s))" "same_tabs s (fst (setTableSort j c s))" "same_tabs s (fst (setTableFilter j c s))"
  "same_tabs s (fst (setTablePageSize j n s))" "same_tabs s (fst (setTableDataPage p o' s))"
  by (auto simp: fetch_actions intro!: fetch_begin_same split: sum.split)

lemma edits_same: "same_tabs s (fst (applyEdits_done i r s))" "same_tabs s (fst (deleteRows_done i r s))"
  by (auto simp: applyEdits_done_def deleteRows_done_def split: sum.split
      intro!: fetch_same same_tabs_trans[OF same_tabs_upd fetch_same(1)] tab_maps)

lemma reply_same:
  "same_tabs s (openTable_done i r1 s)" "same_tabs s (fetch_done i r2 s)" "same_tabs s (addPendingEdit e j s)"
  "same_tabs s (clearPendingEdits j s)" "same_tabs s (setTabPanelLayout i l s)"
  by (auto simp: tab_replies split: sum.split prod.split option.split intro!: same_tabs_upd tab_maps)

lemma structure_same:
  "same_tabs s (openTableStructure_done i r s)" "same_tabs s (updateStructureColumn i n u s)" "same_tabs s (addStructureColumn i s)"
  "same_tabs s (removeStructureColumn i n s)" "same_tabs s (moveStructureColumn i m n s)"
  "same_tabs s (applyStructureChanges_done i r s)" "same_tabs s (discardStructureChanges i s)"
  by (auto simp: tab_replies Let_def split: sum.split intro!: same_tabs_upd tab_maps)

lemma apply_same: "same_tabs s (fst (applyStructureChanges_begin i s))"
  by (auto simp: applyStructureChanges_begin_def Let_def split: option.split WorkspaceTab.split intro!: same_tabs_upd tab_maps)

lemma execute_same: "same_tabs s (executeQuery_done q r s)"
  by (simp add: executeQuery_done_def same_tabs_def tab_maps split: sum.split)

lemma connection_same:
  "same_tabs s (connect_begin s)" "same_tabs s (connect_done c r s)" "same_tabs s (connectSaved_done i r s)"
  "same_tabs s (loadSavedConnections_done q s)"
  by (simp_all add: same_tabs_def connect_begin_def connect_done_def connectSaved_done_def loadSavedConnections_done_def split: sum.split)

lemma select_same: "same_tabs s (fst (selectDatabase_begin d s))"
  by (simp add: same_tabs_def selectDatabase_begin_def split: option.split)

lemma schema_same:
  "same_tabs s (fst (loadDatabases_done r s))" "same_tabs s (selectDatabase_done d q s)" "same_tabs s (fst (loadSchemaObjects_begin x s))"
  "same_tabs s (loadSchemaObjects_done d q s)" "same_tabs s (toggleNode n s)"
  using select_same[of "s\<lparr>db_databases := dbs\<rparr>" for dbs]
  by (auto simp: same_tabs_def loadDatabases_done_def selectDatabase_done_def loadSchemaObjects_begin_def loadSchemaObjects_done_def
      toggleNode_def Let_def split: sum.split list.split)

lemma editor_same: "same_tabs s (setSqlText q s)" "same_tabs s (fst (executeQuery_begin d s))" "same_tabs s (cancelQuery_done s)"
  by (simp_all add: same_tabs_def setSqlText_def executeQuery_begin_def cancelQuery_done_def Let_def)

lemmas quiet_steps = connection_same select_same schema_same editor_same fetch_same edits_same reply_same structure_same
  apply_same execute_same

fun changes_tabs :: "db_action \<Rightarrow> bool" where
  "changes_tabs DisconnectReply = True"
| "changes_tabs (AddQueryTab l q u) = True"
| "changes_tabs (DbCloseTab i) = True"
| "changes_tabs (DbCloseOthers i) = True"
| "changes_tabs (DbCloseLeft i) = True"
| "changes_tabs (DbCloseRight i) = True"
| "changes_tabs (DbSetActive i) = True"
| "changes_tabs (OpenTable x t u) = True"
| "changes_tabs (OpenStructure x t u) = True"
| "changes_tabs _ = False"

lemma quiet_step: "\<not> changes_tabs a \<Longrightarrow> same_tabs s (db_step s a)"
  by (cases a) (simp_all add: quiet_steps)

lemma db_step_inv:
  assumes "tabs_inv s" "db_ok s a"
  shows "tabs_inv (db_step s a)"
proof (cases "changes_tabs a")
  case True
  then show ?thesis
  proof (cases a)
    case (DbCloseOthers i)
    then show ?thesis using assms by (auto simp: tabs_inv_def db_closeOtherTabs_def Let_def distinct_map_filter)
  qed (use assms in \<open>simp_all add: setActive_inv openTable_inv openStructure_inv addQueryTab_inv closeTab_inv closeLeft_inv
      closeRight_inv\<close>, simp add: tabs_inv_def disconnect_done_def)
next
  case False
  then show ?thesis using same_tabs_inv[OF quiet_step assms(1)] by blast
qed

interpretation db_store: action_store "createDbClientSessionStore sid" db_step db_ok tabs_inv for sid
  by unfold_locales (simp add: tabs_inv_def createDbClientSessionStore_def, rule db_step_inv)

section \<open>What the query editor shows\<close>

text \<open>
  The text, result, error and running flag of a query tab as the user sees them: the proxy fields
  for the active tab, the tab's own fields for another.
\<close>

type_synonym query_fields = "string \<times> QueryResult option \<times> string option \<times> bool"

definition query_view :: "db_state \<Rightarrow> string \<Rightarrow> query_fields option" where
  "query_view s i = (case List.find (\<lambda>t. wt_id t = i) (db_tabs s) of
       Some (QueryT q) \<Rightarrow> Some (if db_activeTabId s = Some i
         then (db_sqlText s, db_queryResult s, db_queryError s, db_queryRunning s)
         else (qt_sqlText q, qt_queryResult q, qt_queryError q, qt_queryRunning q))
     | _ \<Rightarrow> None)"

lemma find_active:
  "List.find (\<lambda>t. wt_id t = i) (map_where (\<lambda>t. Some (wt_id t) = a) (on_query f) ts)
     = map_option (\<lambda>t. if a = Some i then on_query f t else t) (List.find (\<lambda>t. wt_id t = i) ts)"
  if "\<And>q. qt_id (f q) = qt_id q"
proof -
  have "wt_id (on_query f t) = wt_id t" for t using that by (cases t) simp_all
  then show ?thesis by (auto simp: find_map_where intro!: option.map_cong dest: find_SomeD)
qed

lemma find_saved:
  "List.find (\<lambda>t. wt_id t = i) (saved_tabs s) = map_option
     (\<lambda>t. if db_activeTabId s = Some i then on_query (\<lambda>q. q\<lparr>qt_sqlText := db_sqlText s, qt_queryResult := db_queryResult s,
        qt_queryError := db_queryError s, qt_queryRunning := db_queryRunning s\<rparr>) t else t)
     (List.find (\<lambda>t. wt_id t = i) (db_tabs s))"
  by (simp add: saved_tabs_def find_active)

lemma view_setActiveTab: "query_view (db_setActiveTab j s) i = query_view s i"
proof (cases "List.find (\<lambda>t. wt_id t = i) (db_tabs s)")
  case None
  then have "List.find (\<lambda>t. wt_id t = i) (saved_tabs s) = None" by (simp add: find_saved)
  then show ?thesis using None
    by (simp add: query_view_def db_setActiveTab_def Let_def)
next
  case (Some t)
  have t: "List.find (\<lambda>t. wt_id t = i) (saved_tabs s) = Some (if db_activeTabId s = Some i then on_query
     (\<lambda>q. q\<lparr>qt_sqlText := db_sqlText s, qt_queryResult := db_queryResult s,
        qt_queryError := db_queryError s, qt_queryRunning := db_queryRunning s\<rparr>) t else t)"
    using Some by (simp add: find_saved)
  show ?thesis
  proof (cases "j = i")
    case True
    then show ?thesis using Some t
      by (cases t) (simp_all add: query_view_def db_setActiveTab_def Let_def show_proxy_def)
  next
    case False
    then show ?thesis using Some t
      by (cases t) (auto simp: query_view_def db_setActiveTab_def Let_def)
  qed
qed

lemma view_open_tab:
  "i \<noteq> wt_id t \<Longrightarrow> query_view (open_tab t s) i = query_view s i"
  by (auto simp: query_view_def open_tab_def find_append find_saved split: option.split WorkspaceTab.split)

definition demo_query :: db_state where
  "demo_query = addQueryTab None (Some ''select 2'') ''q2'' (addQueryTab None (Some ''select 1'') ''q1'' (createDbClientSessionStore ''s''))"

definition demo_result :: QueryResult where
  "demo_result = \<lparr> qr_columns = [], qr_rows = [], qr_affectedRows = None, qr_executionTimeMs = 1, qr_truncated = False,
     qr_totalRows = None, qr_warnings = [] \<rparr>"

text \<open>
  Switching tabs and opening a table or its structure lose nothing typed in the query editor and no
  result: every query tab shows the same text, result, error and running flag as before. (The
  identifier of a new tab is fresh.)
\<close>

theorem query_work_kept:
  "query_view (db_setActiveTab j s) i = query_view s i
   \<and> (i \<noteq> uuid \<longrightarrow> query_view (fst (openTable_begin schema table uuid s)) i = query_view s i
        \<and> query_view (fst (openTableStructure_begin schema table uuid s)) i = query_view s i)"
  by (simp add: view_setActiveTab openTable_begin_def openTableStructure_begin_def newTableTab_def newStructureTab_def
      view_open_tab Let_def split: option.split)

theorem query_work_kept_witness:
  "query_view (db_setActiveTab ''q1'' demo_query) ''q2'' = query_view demo_query ''q2''
   \<and> query_view (fst (openTable_begin [] ''t'' ''x'' demo_query)) ''q2'' = query_view demo_query ''q2''"
  using query_work_kept[of "''q1''" demo_query "''q2''" "''x''" "[]" "''t''"] by simp

lemma view_execute_other: "db_activeTabId s \<noteq> Some i \<Longrightarrow> query_view (executeQuery_done sql r s) i = query_view s i"
  by (auto simp: query_view_def executeQuery_done_def find_active option.map_comp split: sum.split option.split WorkspaceTab.split)

lemma find_active_self:
  "(\<And>q. qt_id (f q) = qt_id q) \<Longrightarrow> List.find (\<lambda>t. wt_id t = i) (map_where (\<lambda>t. wt_id t = i) (on_query f) ts)
     = map_option (on_query f) (List.find (\<lambda>t. wt_id t = i) ts)"
  using find_active[of f i "Some i" ts] by simp

lemma view_execute_active:
  "db_activeTabId s = Some i \<Longrightarrow> query_view (executeQuery_done sql (Inr r) s) i
     = map_option (\<lambda>(t, _, e, _). (t, Some r, e, False)) (query_view s i)"
  by (auto simp: query_view_def executeQuery_done_def find_active_self split: option.split WorkspaceTab.split)

lemma find_filter_keep: "(\<And>x. Q x \<Longrightarrow> P x) \<Longrightarrow> List.find Q (filter P xs) = List.find Q xs"
  by (induction xs) auto

text \<open>
  Other actions lose work. Text typed since the tab was last left is gone when a new query tab is
  opened, and when any other tab is closed the editor falls back to the text stored in the tab.
\<close>

theorem query_text_lost:
  assumes "db_activeTabId s = Some i" "List.find (\<lambda>t. wt_id t = i) (db_tabs s) = Some (QueryT q)" "j \<noteq> i" "uuid \<noteq> i"
  shows "map_option fst (query_view (setSqlText typed s) i) = Some typed
    \<and> map_option fst (query_view (db_closeTab j (setSqlText typed s)) i) = Some (qt_sqlText q)
    \<and> map_option fst (query_view (addQueryTab label sql uuid (setSqlText typed s)) i) = Some (qt_sqlText q)"
proof -
  have "List.find (\<lambda>t. wt_id t = i) (filter (\<lambda>t. wt_id t \<noteq> j) (db_tabs s)) = List.find (\<lambda>t. wt_id t = i) (db_tabs s)"
    using assms(3) by (intro find_filter_keep) auto
  then show ?thesis
    using assms by (auto simp: query_view_def setSqlText_def db_closeTab_def addQueryTab_def show_proxy_def Let_def find_append)
qed

theorem query_text_lost_witness:
  "map_option fst (query_view (setSqlText ''drop'' demo_query) ''q2'') = Some ''drop''
    \<and> map_option fst (query_view (db_closeTab ''q1'' (setSqlText ''drop'' demo_query)) ''q2'') = Some ''select 2''
    \<and> map_option fst (query_view (addQueryTab None None ''q3'' (setSqlText ''drop'' demo_query)) ''q2'') = Some ''select 2''"
proof -
  let ?q = "\<lparr> qt_id = ''q2'', qt_label = ''Query 2'', qt_sqlText = ''select 2'', qt_queryResult = None,
     qt_queryError = None, qt_queryRunning = False, qt_panelLayout = None \<rparr>"
  have "db_activeTabId demo_query = Some ''q2''" "List.find (\<lambda>t. wt_id t = ''q2'') (db_tabs demo_query) = Some (QueryT ?q)"
    by code_simp+
  from query_text_lost[OF this, of "''q1''" "''q3''" "''drop''" None None] show ?thesis by simp
qed

text \<open>
  The reply of a query goes to the tab that is active when it arrives. A query started in tab \<open>i\<close>,
  with tab \<open>j\<close> selected before the reply: the result is shown in \<open>j\<close>, and \<open>i\<close> shows a running query
  with no result.
\<close>

theorem late_reply_lands_elsewhere:
  assumes "db_activeTabId s = Some i" "List.find (\<lambda>t. wt_id t = i) (db_tabs s) = Some (QueryT q)"
    and "List.find (\<lambda>t. wt_id t = j) (db_tabs s) = Some (QueryT p)" "i \<noteq> j" "truthy (js_trim (db_sqlText s))"
  shows "let s' = executeQuery_done (js_trim (db_sqlText s)) (Inr r) (db_setActiveTab j (fst (executeQuery_begin None s)))
     in query_view s' i = Some (db_sqlText s, None, None, True)
        \<and> query_view s' j = Some (qt_sqlText p, Some r, qt_queryError p, False)"
proof -
  let ?b = "fst (executeQuery_begin None s)"
  let ?s = "db_setActiveTab j ?b"
  have b: "?b = s\<lparr>db_queryRunning := True, db_queryError := None, db_queryResult := None\<rparr>"
    using assms(5) by (simp add: executeQuery_begin_def Let_def)
  have "query_view ?b i = Some (db_sqlText s, None, None, True)"
    and "query_view ?b j = Some (qt_sqlText p, qt_queryResult p, qt_queryError p, qt_queryRunning p)"
    using assms(1-4) by (simp_all add: b query_view_def)
  then have v: "query_view ?s i = Some (db_sqlText s, None, None, True)"
    "query_view ?s j = Some (qt_sqlText p, qt_queryResult p, qt_queryError p, qt_queryRunning p)"
    by (simp_all add: view_setActiveTab)
  have "db_activeTabId ?s = Some j" by (simp add: db_setActiveTab_def Let_def)
  with v assms(4) show ?thesis
    by (auto simp: Let_def view_execute_other view_execute_active)
qed

theorem late_reply_lands_elsewhere_witness:
  "let s' = executeQuery_done ''select 2'' (Inr demo_result) (db_setActiveTab ''q1'' (fst (executeQuery_begin None demo_query)))
   in query_view s' ''q2'' = Some (''select 2'', None, None, True)
      \<and> query_view s' ''q1'' = Some (''select 1'', Some demo_result, None, False)"
proof -
  let ?q = "\<lambda>i l t. \<lparr> qt_id = i, qt_label = l, qt_sqlText = t, qt_queryResult = None,
     qt_queryError = None, qt_queryRunning = False, qt_panelLayout = None \<rparr>"
  have f: "db_activeTabId demo_query = Some ''q2''"
    "List.find (\<lambda>t. wt_id t = ''q2'') (db_tabs demo_query) = Some (QueryT (?q ''q2'' ''Query 2'' ''select 2''))"
    "List.find (\<lambda>t. wt_id t = ''q1'') (db_tabs demo_query) = Some (QueryT (?q ''q1'' ''Query 1'' ''select 1''))"
    "''q2'' \<noteq> ''q1''" "truthy (js_trim (db_sqlText demo_query))" "js_trim ''select 2'' = ''select 2''"
    "db_sqlText demo_query = ''select 2''"
    by code_simp+
  from late_reply_lands_elsewhere[OF f(1-5), of demo_result] show ?thesis by (simp add: f(6,7))
qed

section \<open>Consistency over all actions\<close>

text \<open>\<^bold>\<open>C25\<close>. 
  Over every sequence of actions and replies, in any order: tab identifiers are distinct, a table is
  open in one data tab and one structure tab at most, a tab is active exactly when one is open, and
  the active one is open.
\<close>

theorem db_tabs_consistent:
  assumes "admissible db_step db_ok (createDbClientSessionStore sid) as"
  shows "let s = run db_step (createDbClientSessionStore sid) as in
     distinct (map wt_id (db_tabs s)) \<and> distinct (map wt_key (db_tabs s)) \<and>
     (db_activeTabId s = None \<longleftrightarrow> db_tabs s = []) \<and> set_option (db_activeTabId s) \<subseteq> wt_id ` set (db_tabs s)"
  using db_store.inv_run[OF assms] by (auto simp: tabs_inv_def Let_def split: option.splits)

theorem db_tabs_consistent_witness:
  "let s = run db_step (createDbClientSessionStore ''s'') [AddQueryTab None None ''1'', OpenTable ''p'' ''t'' ''2'', OpenTable ''p'' ''t'' ''3'',
       OpenStructure ''p'' ''t'' ''4'', DbSetActive ''2'', DbCloseLeft ''2''] in
     distinct (map wt_id (db_tabs s)) \<and> distinct (map wt_key (db_tabs s)) \<and>
     (db_activeTabId s = None \<longleftrightarrow> db_tabs s = []) \<and> set_option (db_activeTabId s) \<subseteq> wt_id ` set (db_tabs s)"
  by (rule db_tabs_consistent) code_simp

section \<open>What a table tab fetches\<close>

lemma getActiveTableTab_mem: "getActiveTableTab s i = Some t \<Longrightarrow> TableT t \<in> set (db_tabs s)"
  by (auto simp: getActiveTableTab_def split: option.splits if_splits WorkspaceTab.splits dest: find_SomeD)

lemma fetch_request_loading [simp]: "fetch_request (t\<lparr>dt_tableDataLoading := b\<rparr>) = fetch_request t"
  by (simp add: fetch_request_def)

lemma fetch_begin_shows:
  assumes "fetch_begin i f s = (s', Some req)"
  shows "\<exists>t. TableT t \<in> set (db_tabs s') \<and> fetch_request t = req \<and> dt_tableDataLoading t"
proof -
  obtain tab where tab: "getActiveTableTab s i = Some tab" "req = fetch_request (f tab)"
    "s' = db_updateTab (dt_id tab) (on_table (\<lambda>t. (f t)\<lparr>dt_tableDataLoading := True\<rparr>)) s"
    using assms(1) by (auto simp: fetch_begin_def split: option.splits)
  have "on_table (\<lambda>t. (f t)\<lparr>dt_tableDataLoading := True\<rparr>) (TableT tab) \<in> set (db_tabs s')"
    using getActiveTableTab_mem[OF tab(1)] unfolding tab(3) db_updateTab_def by (force simp: set_map_where)
  then show ?thesis using tab(2) by (intro exI[of _ "(f tab)\<lparr>dt_tableDataLoading := True\<rparr>"]) simp
qed

text \<open>
  Whenever refreshing, sorting, filtering or paging sends a fetch, it asks for exactly the database,
  table, offset, page size, order and filter of a tab that is then shown as loading.
\<close>

theorem table_fetch_matches_tab:
  assumes "(s', Some req) \<in> {refreshTableTab i s, setTableSort j column s, setTableFilter j x s,
     setTableDataPage p offset s, setTablePageSize j n s}"
  shows "\<exists>t. TableT t \<in> set (db_tabs s') \<and> fetch_request t = req \<and> dt_tableDataLoading t"
proof -
  have "\<exists>k f. fetch_begin k f s = (s', Some req)"
    using assms
    by (simp add: refreshTableTab_def setTableSort_def setTableFilter_def setTableDataPage_def setTablePageSize_def split: sum.splits)
      metis+
  then show ?thesis using fetch_begin_shows by blast
qed

theorem table_fetch_matches_tab_witness:
  "let r = setTableSort ''2'' ''c'' (fst (openTable_begin ''p'' ''t'' ''2'' (createDbClientSessionStore ''s'')))
   in \<exists>t. TableT t \<in> set (db_tabs (fst r)) \<and> Some (fetch_request t) = snd r \<and> dt_tableDataLoading t"
proof -
  let ?r = "setTableSort ''2'' ''c'' (fst (openTable_begin ''p'' ''t'' ''2'' (createDbClientSessionStore ''s'')))"
  have "snd ?r = Some \<lparr> fr_database = [], fr_schema = ''p'', fr_table = ''t'', fr_offset = 0, fr_limit = 1000,
      fr_sortColumn = Some ''c'', fr_sortDir = Some Asc, fr_filter = None \<rparr>" (is "_ = Some ?q")
    by code_simp
  then have "(fst ?r, Some ?q) = ?r" by (metis prod.collapse)
  then show ?thesis
    using table_fetch_matches_tab[of "fst ?r" ?q None "fst (openTable_begin ''p'' ''t'' ''2'' (createDbClientSessionStore ''s''))"
        "''2''" "''c''" "[]" "Inr 0" None 0] \<open>snd ?r = Some ?q\<close> by (auto simp: Let_def)
qed

end
