(* ===== verification/SqlProps.thy ===== *)
theory SqlProps
  imports SqlDialect
begin

text \<open>
  Properties of the generated SQL. A reader of quoted names gets back exactly the name that was
  quoted, whatever it contains, where the generator escapes, and something else where it does not.
  The ALTER statements of MySQL and PostgreSQL, given as data with their text and their effect on a
  table, turn the original table into the edited one.
\<close>

section \<open>A reader of quoted names\<close>

text \<open>
  How a database reads a quoted name or literal: up to the next quote that is not doubled. The
  result is the name and the text after it.
\<close>

fun read_body :: "char \<Rightarrow> string \<Rightarrow> (string \<times> string) option" where
  "read_body q [] = None"
| "read_body q (c # cs) =
     (if c \<noteq> q then map_option (apfst ((#) c)) (read_body q cs)
      else case cs of
          d # ds \<Rightarrow> (if d = q then map_option (apfst ((#) q)) (read_body q ds) else Some ([], cs))
        | [] \<Rightarrow> Some ([], []))"

fun read_quoted :: "char \<Rightarrow> string \<Rightarrow> (string \<times> string) option" where
  "read_quoted q [] = None"
| "read_quoted q (c # cs) = (if c = q then read_body q cs else None)"

text \<open>A table reference: a name, or two names joined by a dot.\<close>

definition read_ref :: "char \<Rightarrow> string \<Rightarrow> (string option \<times> string \<times> string) option" where
  "read_ref q s = (case read_quoted q s of
       None \<Rightarrow> None
     | Some (a, rest) \<Rightarrow>
         (if take 1 rest = ''.'' then map_option (\<lambda>(b, r). (Some a, b, r)) (read_quoted q (drop 1 rest))
          else Some (None, a, rest)))"

definition ident_quote :: "DbType \<Rightarrow> char" where
  "ident_quote d = (if d = Mysql then backtick else double_quote)"

definition schema_opt :: "string \<Rightarrow> string option" where
  "schema_opt s = (if truthy s then Some s else None)"

lemma js_replaceAll_simps [simp]:
  "js_replaceAll c r [] = []"
  "js_replaceAll c r (d # s) = (if d = c then r else [d]) @ js_replaceAll c r s"
  by (simp_all add: js_replaceAll_def)

lemma js_replaceAll_id: "c \<notin> set s \<Longrightarrow> js_replaceAll c r s = s"
  by (induction s) auto

lemma read_body_doubled:
  assumes "take 1 rest \<noteq> [q]"
  shows "read_body q (js_replaceAll q [q, q] s @ q # rest) = Some (s, rest)"
  using assms by (induction s) (auto split: list.splits)

lemma read_quoted_doubled:
  "take 1 rest \<noteq> [q] \<Longrightarrow> read_quoted q (q # js_replaceAll q [q, q] s @ q # rest) = Some (s, rest)"
  by (simp add: read_body_doubled)

lemma read_ref_doubled:
  assumes "take 1 rest \<noteq> [q]" "take 1 rest \<noteq> ''.''" "q \<noteq> CHR ''.''"
  shows "read_ref q (q # js_replaceAll q [q, q] t @ q # rest) = Some (None, t, rest)"
    and "read_ref q (q # js_replaceAll q [q, q] s @ q # CHR ''.'' # q # js_replaceAll q [q, q] t @ q # rest)
         = Some (Some s, t, rest)"
  using assms by (simp_all add: read_ref_def read_body_doubled)

lemma formatTableRef_doubled:
  assumes "d \<in> {Mysql, Postgresql} \<or> double_quote \<notin> set schema \<union> set table"
  shows "formatTableRef d schema table = (let q = ident_quote d in
     (if truthy schema then q # js_replaceAll q [q, q] schema @ [q] @ ''.'' else []) @
     q # js_replaceAll q [q, q] table @ [q])"
  using assms
  by (cases d) (auto simp: formatTableRef_def ident_quote_def quoteIdent_def quoteIdentMysql_def js_replaceAll_id Let_def)

lemma read_formatTableRef:
  assumes "d \<in> {Mysql, Postgresql} \<or> double_quote \<notin> set schema \<union> set table"
    and "take 1 rest \<noteq> [ident_quote d]" "take 1 rest \<noteq> ''.''"
  shows "read_ref (ident_quote d) (formatTableRef d schema table @ rest) = Some (schema_opt schema, table, rest)"
proof -
  have "ident_quote d \<noteq> CHR ''.''" by (simp add: ident_quote_def)
  then show ?thesis
    using assms(2,3) by (simp add: formatTableRef_doubled[OF assms(1)] schema_opt_def Let_def read_ref_doubled)
qed

lemma read_qualifiedTableName:
  assumes "take 1 rest \<noteq> [ident_quote d]" "take 1 rest \<noteq> ''.''"
  shows "read_ref (ident_quote d) (qualifiedTableName schema table (Some d) @ rest)
     = Some (Option.bind schema schema_opt, table, rest)"
proof -
  have q: "ident_quote d \<noteq> CHR ''.''" by (simp add: ident_quote_def)
  have eq: "quoteIdentifier n (Some d) = ident_quote d # js_replaceAll (ident_quote d) [ident_quote d, ident_quote d] n @ [ident_quote d]" for n
    by (simp add: quoteIdentifier_def quoteIdent_def quoteIdentMysql_def ident_quote_def)
  show ?thesis
    using assms q by (cases schema) (auto simp: qualifiedTableName_def eq schema_opt_def read_ref_doubled)
qed



text \<open>
  Without escaping, a SQLite table whose name has a double quote ends the quoted name there: what
  follows it in the name is read as SQL. The DROP query of a table called \<open>a"; DROP TABLE b; --\<close>
  drops \<open>a\<close>, then runs the rest.
\<close>

theorem sqlite_names_break_out:
  assumes "double_quote \<notin> set t" "take 1 evil \<notin> {[], [double_quote], ''.''}"
  shows "\<exists>ref. getDropTableQuery Sqlite [] (t @ [double_quote] @ evil) = ''DROP TABLE '' @ ref \<and>
           read_ref double_quote ref = Some (None, t, evil @ [double_quote] @ '';'')"
proof -
  obtain e es where e: "evil = e # es" using assms(2) by (cases evil) auto
  have "read_ref double_quote (double_quote # js_replaceAll double_quote [double_quote, double_quote] t @ double_quote # evil @ [double_quote] @ '';'')
      = Some (None, t, evil @ [double_quote] @ '';'')"
    by (rule read_ref_doubled(1)) (use assms e in auto)
  then show ?thesis
    using assms(1) by (intro exI[of _ "double_quote # t @ double_quote # evil @ [double_quote] @ '';''"])
      (simp add: getDropTableQuery_def formatTableRef_def js_replaceAll_id)
qed

theorem sqlite_names_break_out_witness:
  "\<exists>ref. getDropTableQuery Sqlite [] (''a'' @ [double_quote] @ ''; DROP TABLE b; --'') = ''DROP TABLE '' @ ref \<and>
     read_ref double_quote ref = Some (None, ''a'', ''; DROP TABLE b; --'' @ [double_quote] @ '';'')"
  by (rule sqlite_names_break_out) simp_all

section \<open>What the ALTER statements do\<close>

text \<open>
  The statements as data, their text, and their effect on a table: a map from column names to the
  type, nullability, default and comment (an empty comment is no comment). A statement fails, with
  \<open>None\<close>, on a column that is not there or a name already taken. \<open>ADD COLUMN\<close> of PostgreSQL has no
  comment clause.
\<close>

type_synonym colspec = "string \<times> bool \<times> string option \<times> string"

definition spec_of :: "ColumnDetail \<Rightarrow> colspec" where
  "spec_of c = (cd_dataType c, cd_nullable c, cd_defaultValue c, nullish (cd_comment c) [])"

datatype alter =
    DropColumn string
  | AddColumn ColumnDetail
  | ChangeColumn string ColumnDetail
  | ModifyColumn ColumnDetail
  | RenameColumn string string
  | AlterType string string
  | AlterNull string bool
  | AlterDefault string "string option"
  | CommentColumn string string

fun alter_sql :: "DbType \<Rightarrow> string \<Rightarrow> alter \<Rightarrow> string" where
  "alter_sql d fqn (DropColumn n) = ''ALTER TABLE '' @ fqn @ '' DROP COLUMN '' @ quoteIdentifier n (Some d) @ '';''"
| "alter_sql d fqn (AddColumn c) = ''ALTER TABLE '' @ fqn @ '' ADD COLUMN '' @ buildColDef d c @ '';''"
| "alter_sql d fqn (ChangeColumn n c) =
     ''ALTER TABLE '' @ fqn @ '' CHANGE COLUMN '' @ quoteIdentifier n (Some d) @ '' '' @ buildColDef d c @ '';''"
| "alter_sql d fqn (ModifyColumn c) = ''ALTER TABLE '' @ fqn @ '' MODIFY COLUMN '' @ buildColDef d c @ '';''"
| "alter_sql d fqn (RenameColumn a b) =
     ''ALTER TABLE '' @ fqn @ '' RENAME COLUMN '' @ quoteIdentifier a (Some d) @ '' TO '' @ quoteIdentifier b (Some d) @ '';''"
| "alter_sql d fqn (AlterType n t) =
     ''ALTER TABLE '' @ fqn @ '' ALTER COLUMN '' @ quoteIdentifier n (Some d) @ '' TYPE '' @ t @ '';''"
| "alter_sql d fqn (AlterNull n b) =
     ''ALTER TABLE '' @ fqn @ '' ALTER COLUMN '' @ quoteIdentifier n (Some d) @ '' '' @
     (if b then ''DROP NOT NULL'' else ''SET NOT NULL'') @ '';''"
| "alter_sql d fqn (AlterDefault n v) = (case v of
       None \<Rightarrow> ''ALTER TABLE '' @ fqn @ '' ALTER COLUMN '' @ quoteIdentifier n (Some d) @ '' DROP DEFAULT;''
     | Some w \<Rightarrow> ''ALTER TABLE '' @ fqn @ '' ALTER COLUMN '' @ quoteIdentifier n (Some d) @ '' SET DEFAULT '' @ w @ '';'')"
| "alter_sql d fqn (CommentColumn n t) =
     ''COMMENT ON COLUMN '' @ fqn @ ''.'' @ quoteIdentifier n (Some d) @ sql_text '' IS ~'' @ escLiteral t @ sql_text ''~;''"

definition upd_col :: "string \<Rightarrow> (colspec \<Rightarrow> colspec) \<Rightarrow> (string \<rightharpoonup> colspec) \<Rightarrow> (string \<rightharpoonup> colspec) option" where
  "upd_col n f m = map_option (\<lambda>v. m(n \<mapsto> f v)) (m n)"

fun exec_alter :: "DbType \<Rightarrow> alter \<Rightarrow> (string \<rightharpoonup> colspec) \<Rightarrow> (string \<rightharpoonup> colspec) option" where
  "exec_alter d (DropColumn n) m = (if m n = None then None else Some (m(n := None)))"
| "exec_alter d (AddColumn c) m = (if m (cd_name c) \<noteq> None then None
     else Some (m(cd_name c \<mapsto> (if d = Mysql then spec_of c else spec_of (c\<lparr>cd_comment := None\<rparr>)))))"
| "exec_alter d (ChangeColumn n c) m =
     (if m n = None \<or> cd_name c \<noteq> n \<and> m (cd_name c) \<noteq> None then None
      else Some ((m(n := None))(cd_name c \<mapsto> spec_of c)))"
| "exec_alter d (ModifyColumn c) m = upd_col (cd_name c) (\<lambda>_. spec_of c) m"
| "exec_alter d (RenameColumn a b) m =
     (if m a = None \<or> m b \<noteq> None then None else Some ((m(a := None))(b := m a)))"
| "exec_alter d (AlterType n t) m = upd_col n (\<lambda>(_, r). (t, r)) m"
| "exec_alter d (AlterNull n b) m = upd_col n (\<lambda>(t, _, r). (t, b, r)) m"
| "exec_alter d (AlterDefault n v) m = upd_col n (\<lambda>(t, b, _, r). (t, b, v, r)) m"
| "exec_alter d (CommentColumn n x) m = upd_col n (\<lambda>(t, b, v, _). (t, b, v, x)) m"

fun run_alter :: "DbType \<Rightarrow> alter list \<Rightarrow> (string \<rightharpoonup> colspec) \<Rightarrow> (string \<rightharpoonup> colspec) option" where
  "run_alter d [] m = Some m"
| "run_alter d (a # as) m = Option.bind (exec_alter d a m) (run_alter d as)"

definition table_of :: "ColumnDetail list \<Rightarrow> (string \<rightharpoonup> colspec)" where
  "table_of cols = map_of (map (\<lambda>c. (cd_name c, spec_of c)) cols)"

text \<open>The statements of one column, as data.\<close>

definition props_plan :: "ColumnDetail \<Rightarrow> ColumnDetail \<Rightarrow> alter list" where
  "props_plan a c =
     (if cd_dataType a \<noteq> cd_dataType c then [AlterType (cd_name c) (cd_dataType c)] else []) @
     (if cd_nullable a \<noteq> cd_nullable c then [AlterNull (cd_name c) (cd_nullable c)] else []) @
     (if cd_defaultValue a \<noteq> cd_defaultValue c then [AlterDefault (cd_name c) (cd_defaultValue c)] else []) @
     (if cd_comment a \<noteq> cd_comment c then [CommentColumn (cd_name c) (nullish (cd_comment c) [])] else [])"

definition rename_plan :: "DbType \<Rightarrow> ColumnDetail \<Rightarrow> ColumnDetail \<Rightarrow> alter list" where
  "rename_plan d a c =
     (if d = Mysql then [ChangeColumn (cd_name a) c]
      else (if cd_name a \<noteq> cd_name c then [RenameColumn (cd_name a) (cd_name c)] else []) @ props_plan a c)"

definition modify_plan :: "DbType \<Rightarrow> ColumnDetail \<Rightarrow> ColumnDetail \<Rightarrow> alter list" where
  "modify_plan d a c = (if d = Mysql \<and> cd_name a = cd_name c then [ModifyColumn c] else rename_plan d a c)"

definition column_plan :: "DbType \<Rightarrow> ColumnDetail list \<Rightarrow> ColumnDetail list \<Rightarrow> string list \<Rightarrow> string list
    \<Rightarrow> nat \<Rightarrow> ColumnDetail \<Rightarrow> alter list" where
  "column_plan d original edited deleted added i c =
     (if cd_name c \<in> set added \<and> \<not> some_elem (\<lambda>b. cd_name b = cd_name c) original then []
      else case find (\<lambda>b. cd_name b = cd_name c) original of
        None \<Rightarrow>
          (if i < length original \<and> \<not> some_elem (\<lambda>e. cd_name e = cd_name (original ! i)) edited
              \<and> cd_name (original ! i) \<notin> set deleted
           then rename_plan d (original ! i) c else [])
      | Some b \<Rightarrow> (if hasColumnChanged b c then modify_plan d b c else []))"

definition alter_plan :: "DbType \<Rightarrow> ColumnDetail list \<Rightarrow> ColumnDetail list \<Rightarrow> string list \<Rightarrow> ColumnDetail list \<Rightarrow> alter list" where
  "alter_plan d original edited deleted added =
     map DropColumn deleted
     @ map AddColumn (filter (\<lambda>c. cd_name c \<in> set (map cd_name added)) edited)
     @ concat (map (\<lambda>(i, c). column_plan d original edited deleted (map cd_name added) i c) (enumerate 0 edited))"

lemma props_plan_sql: "generatePgAlterProps fqn (a\<lparr>cd_name := n\<rparr>) c = map (alter_sql Postgresql fqn) (props_plan a c)"
  by (simp add: generatePgAlterProps_def props_plan_def quoteIdentifier_def Let_def split: option.split)

lemma rename_plan_sql:
  "d \<in> {Mysql, Postgresql} \<Longrightarrow> generateRenameAndModify d fqn a c = map (alter_sql d fqn) (rename_plan d a c)"
  by (auto simp: generateRenameAndModify_def rename_plan_def props_plan_sql quoteIdentifier_def)

lemma modify_plan_sql:
  "d \<in> {Mysql, Postgresql} \<Longrightarrow> generateModifyColumn d fqn a c = map (alter_sql d fqn) (modify_plan d a c)"
  by (auto simp: generateModifyColumn_def modify_plan_def rename_plan_def props_plan_sql quoteIdentifier_def)

lemma column_plan_sql:
  "d \<in> {Mysql, Postgresql} \<Longrightarrow>
   alter_column d fqn original edited deleted added i c = map (alter_sql d fqn) (column_plan d original edited deleted added i c)"
  by (auto simp: alter_column_def column_plan_def rename_plan_sql modify_plan_sql split: option.splits)

lemma alter_plan_sql:
  assumes "d \<in> {Mysql, Postgresql}"
  shows "generateAlterTableSQL d schema table original edited deleted added
     = map (alter_sql d (formatTableRef d schema table)) (alter_plan d original edited deleted added)"
  using assms
  by (auto simp: generateAlterTableSQL_def alter_plan_def Let_def column_plan_sql map_concat comp_def
      quoteIdentifier_def split_def)

subsection \<open>The effect of a plan\<close>

lemma run_alter_append: "run_alter d (as @ bs) m = Option.bind (run_alter d as m) (run_alter d bs)"
proof (induction as arbitrary: m)
  case (Cons a as)
  then show ?case by (cases "exec_alter d a m") simp_all
qed simp

lemma run_props_plan:
  "m (cd_name c) = Some (spec_of a) \<Longrightarrow> run_alter d (props_plan a c) m = Some (m(cd_name c \<mapsto> spec_of c))"
  by (auto simp: props_plan_def spec_of_def upd_col_def fun_upd_idem_iff)

lemma run_rename_plan:
  assumes "d \<in> {Mysql, Postgresql}" "m (cd_name a) = Some (spec_of a)"
    and "cd_name a = cd_name c \<or> m (cd_name c) = None"
  shows "run_alter d (rename_plan d a c) m = Some ((m(cd_name a := None))(cd_name c \<mapsto> spec_of c))"
  using assms run_props_plan[of "(m(cd_name a := None))(cd_name c := m (cd_name a))" c a d] run_props_plan[of m c a d]
  by (auto simp: rename_plan_def run_alter_append)

lemma run_modify_plan:
  assumes "d \<in> {Mysql, Postgresql}" "m (cd_name c) = Some (spec_of a)" "cd_name a = cd_name c"
  shows "run_alter d (modify_plan d a c) m = Some (m(cd_name c \<mapsto> spec_of c))"
  using assms run_rename_plan[of d m a c] by (auto simp: modify_plan_def upd_col_def)

lemma run_drops:
  "distinct ns \<Longrightarrow> \<forall>n \<in> set ns. m n \<noteq> None \<Longrightarrow> run_alter d (map DropColumn ns) m = Some (m |` (- set ns))"
proof (induction ns arbitrary: m)
  case (Cons n ns)
  have "run_alter d (map DropColumn ns) (m(n := None)) = Some (m(n := None) |` (- set ns))"
    using Cons.prems by (intro Cons.IH) auto
  moreover have "m(n := None) |` (- set ns) = m |` (- set (n # ns))"
    by (auto simp: restrict_map_def fun_eq_iff)
  ultimately show ?case using Cons.prems by simp
qed (simp add: restrict_map_def)

lemma run_adds:
  assumes "distinct (map cd_name cs)" "\<forall>c \<in> set cs. m (cd_name c) = None"
    and "d = Postgresql \<longrightarrow> (\<forall>c \<in> set cs. \<not> truthy_opt (cd_comment c))" "d \<in> {Mysql, Postgresql}"
  shows "run_alter d (map AddColumn cs) m = Some (m ++ table_of cs)"
  using assms
proof (induction cs arbitrary: m)
  case (Cons c cs)
  have c: "d = Postgresql \<Longrightarrow> spec_of (c\<lparr>cd_comment := None\<rparr>) = spec_of c"
    using Cons.prems(3) by (cases "cd_comment c") (auto simp: spec_of_def)
  have fresh: "\<forall>x \<in> set cs. (m(cd_name c \<mapsto> spec_of c)) (cd_name x) = None"
    using Cons.prems(1,2) by (auto simp: image_iff)
  have "run_alter d (map AddColumn cs) (m(cd_name c \<mapsto> spec_of c)) = Some (m(cd_name c \<mapsto> spec_of c) ++ table_of cs)"
    using Cons.prems(1,3,4) fresh by (intro Cons.IH) auto
  moreover have "m(cd_name c \<mapsto> spec_of c) ++ table_of cs = m ++ table_of (c # cs)"
    using Cons.prems(1)
    by (auto simp: table_of_def map_add_def fun_eq_iff map_of_eq_None_iff image_image split: option.split dest!: map_of_SomeD)
  ultimately show ?case using Cons.prems c by auto
qed (simp add: table_of_def)

subsection \<open>Edits that can be expressed\<close>

text \<open>
  An edit the generator can express: column names are distinct; a deleted column is one of the
  original and not kept; an added column has a new name, and for PostgreSQL no comment; every other
  edited column keeps its name or stands where the column it renames stood; and every original
  column is kept, deleted or renamed.
\<close>

definition plain_edit :: "DbType \<Rightarrow> ColumnDetail list \<Rightarrow> ColumnDetail list \<Rightarrow> string list \<Rightarrow> ColumnDetail list \<Rightarrow> bool" where
  "plain_edit d original edited deleted added \<longleftrightarrow>
     distinct (map cd_name original) \<and> distinct (map cd_name edited) \<and> distinct deleted \<and>
     set deleted \<subseteq> cd_name ` set original \<and> set deleted \<inter> cd_name ` set edited = {} \<and>
     cd_name ` set added \<inter> cd_name ` set original = {} \<and>
     (d = Postgresql \<longrightarrow> (\<forall>c \<in> set edited. cd_name c \<in> cd_name ` set added \<longrightarrow> \<not> truthy_opt (cd_comment c))) \<and>
     (\<forall>i < length edited. cd_name (edited ! i) \<in> cd_name ` set added \<union> cd_name ` set original \<or>
        i < length original \<and> cd_name (original ! i) \<notin> cd_name ` set edited \<union> set deleted) \<and>
     (\<forall>j < length original. cd_name (original ! j) \<in> cd_name ` set edited \<union> set deleted \<or>
        j < length edited \<and> cd_name (edited ! j) \<notin> cd_name ` set added \<union> cd_name ` set original)"

text \<open>The table after the drops, the additions and the first \<open>k\<close> edited columns.\<close>

definition stage :: "ColumnDetail list \<Rightarrow> ColumnDetail list \<Rightarrow> string list \<Rightarrow> ColumnDetail list \<Rightarrow> nat \<Rightarrow> (string \<rightharpoonup> colspec) \<Rightarrow> bool" where
  "stage original edited deleted added k m \<longleftrightarrow>
     (\<forall>i < length edited. m (cd_name (edited ! i)) =
        (if i < k \<or> cd_name (edited ! i) \<in> cd_name ` set added then Some (spec_of (edited ! i))
         else table_of original (cd_name (edited ! i)))) \<and>
     (\<forall>j < length original. cd_name (original ! j) \<notin> cd_name ` set edited \<longrightarrow> m (cd_name (original ! j)) =
        (if cd_name (original ! j) \<notin> set deleted \<and> k \<le> j then Some (spec_of (original ! j)) else None)) \<and>
     (\<forall>x. x \<notin> cd_name ` set edited \<union> cd_name ` set original \<longrightarrow> m x = None)"

lemma table_of_nth: "distinct (map cd_name cs) \<Longrightarrow> i < length cs \<Longrightarrow> table_of cs (cd_name (cs ! i)) = Some (spec_of (cs ! i))"
  by (auto simp: table_of_def comp_def intro!: map_of_is_SomeI)

lemma table_of_None: "table_of cs x = None \<longleftrightarrow> x \<notin> cd_name ` set cs"
  by (simp add: table_of_def map_of_eq_None_iff image_image)

lemma table_of_find: "find (\<lambda>b. cd_name b = x) cs = Some b \<Longrightarrow> table_of cs x = Some (spec_of b) \<and> cd_name b = x"
  by (induction cs) (auto simp: table_of_def split: if_splits)

lemma nth_name_eq: "distinct (map cd_name cs) \<Longrightarrow> i < length cs \<Longrightarrow> j < length cs \<Longrightarrow> cd_name (cs ! i) = cd_name (cs ! j) \<longleftrightarrow> i = j"
  by (metis length_map nth_eq_iff_index_eq nth_map)

lemma some_name: "some_elem (\<lambda>b. cd_name b = x) cs \<longleftrightarrow> x \<in> cd_name ` set cs"
  by (auto simp: some_elem_def list_ex_iff)

lemma find_name_None: "find (\<lambda>b. cd_name b = x) cs = None \<longleftrightarrow> x \<notin> cd_name ` set cs"
  by (auto simp: find_None_iff)

lemma nth_nameD: "x \<in> cd_name ` set cs \<Longrightarrow> \<exists>i < length cs. x = cd_name (cs ! i)"
  by (auto simp: in_set_conv_nth)

lemma plain_added: "plain_edit d original edited deleted added \<Longrightarrow> cd_name ` set added \<inter> cd_name ` set original = {}"
  by (simp add: plain_edit_def)

lemma plain_kept:
  "plain_edit d original edited deleted added \<Longrightarrow> j < length original \<Longrightarrow>
   cd_name (original ! j) \<in> cd_name ` set edited \<union> set deleted \<or>
   j < length edited \<and> cd_name (edited ! j) \<notin> cd_name ` set added \<union> cd_name ` set original"
  by (simp add: plain_edit_def)

lemma plain_renamed:
  "plain_edit d original edited deleted added \<Longrightarrow> i < length edited \<Longrightarrow>
   cd_name (edited ! i) \<notin> cd_name ` set added \<union> cd_name ` set original \<Longrightarrow>
   i < length original \<and> cd_name (original ! i) \<notin> cd_name ` set edited \<and> cd_name (original ! i) \<notin> set deleted"
  by (auto simp: plain_edit_def)

lemma stage_start:
  assumes ok: "plain_edit d original edited deleted added"
  shows "stage original edited deleted added 0
    (table_of original |` (- set deleted) ++ table_of (filter (\<lambda>c. cd_name c \<in> cd_name ` set added) edited))"
proof -
  let ?f = "filter (\<lambda>c. cd_name c \<in> cd_name ` set added) edited"
  have df: "distinct (map cd_name ?f)" using ok by (simp add: plain_edit_def distinct_map_filter)
  have val: "table_of ?f (cd_name c) = (if cd_name c \<in> cd_name ` set added then Some (spec_of c) else None)"
    if "c \<in> set edited" for c
  proof (cases "cd_name c \<in> cd_name ` set added")
    case True
    then have "c \<in> set ?f" using that by simp
    then show ?thesis using table_of_nth[OF df] True by (metis in_set_conv_nth)
  next
    case False
    then have "cd_name c \<notin> cd_name ` set ?f" by auto
    then have "table_of ?f (cd_name c) = None" by (simp only: table_of_None not_False_eq_True)
    then show ?thesis using False by simp
  qed
  have other: "table_of ?f x = None" if "x \<notin> cd_name ` set edited" for x
    using that by (auto simp: table_of_None)
  show ?thesis
    unfolding stage_def
  proof (intro conjI allI impI)
    fix i assume i: "i < length edited"
    have "cd_name (edited ! i) \<notin> set deleted" using ok i by (auto simp: plain_edit_def)
    then show "(table_of original |` (- set deleted) ++ table_of ?f) (cd_name (edited ! i)) =
      (if i < 0 \<or> cd_name (edited ! i) \<in> cd_name ` set added then Some (spec_of (edited ! i))
       else table_of original (cd_name (edited ! i)))"
      using i by (simp add: map_add_def val)
  next
    fix j assume j: "j < length original" "cd_name (original ! j) \<notin> cd_name ` set edited"
    have "table_of original (cd_name (original ! j)) = Some (spec_of (original ! j))"
      using ok j by (simp add: table_of_nth plain_edit_def)
    then show "(table_of original |` (- set deleted) ++ table_of ?f) (cd_name (original ! j)) =
      (if cd_name (original ! j) \<notin> set deleted \<and> 0 \<le> j then Some (spec_of (original ! j)) else None)"
      using j by (simp add: map_add_def other)
  next
    fix x assume "x \<notin> cd_name ` set edited \<union> cd_name ` set original"
    then show "(table_of original |` (- set deleted) ++ table_of ?f) x = None"
      using table_of_None[of original x] by (simp add: map_add_def other restrict_map_def)
  qed
qed

lemma stage_end:
  assumes ok: "plain_edit d original edited deleted added" and st: "stage original edited deleted added (length edited) m"
  shows "m = table_of edited"
proof
  fix x
  consider i where "i < length edited" "x = cd_name (edited ! i)"
    | j where "j < length original" "x = cd_name (original ! j)" "x \<notin> cd_name ` set edited"
    | "x \<notin> cd_name ` set edited \<union> cd_name ` set original"
    using nth_nameD[of x edited] nth_nameD[of x original] by blast
  then show "m x = table_of edited x"
  proof cases
    case 1
    then show ?thesis using ok st by (simp add: stage_def plain_edit_def table_of_nth)
  next
    case 2
    then have "x \<in> set deleted \<or> j < length edited" using plain_kept[OF ok] by blast
    then show ?thesis using 2 st table_of_None[of edited x] by (auto simp: stage_def)
  next
    case 3
    then show ?thesis using st table_of_None[of edited x] by (simp add: stage_def)
  qed
qed

text \<open>A step that touches no original column at its own position only fixes the edited one.\<close>

lemma stage_keep:
  assumes ok: "plain_edit d original edited deleted added" and st: "stage original edited deleted added k m"
    and k: "k < length edited" "cd_name (edited ! k) \<in> cd_name ` set added \<union> cd_name ` set original"
  shows "stage original edited deleted added (Suc k) (m(cd_name (edited ! k) \<mapsto> spec_of (edited ! k)))"
proof -
  have de: "distinct (map cd_name edited)" using ok by (simp add: plain_edit_def)
  have pend: "cd_name (original ! k) \<in> cd_name ` set edited \<union> set deleted" if "k < length original"
    using plain_kept[OF ok that] k by blast
  have mem: "edited ! k \<in> set edited" using k by simp
  show ?thesis
    unfolding stage_def
  proof (intro conjI allI impI)
    fix i assume i: "i < length edited"
    show "(m(cd_name (edited ! k) \<mapsto> spec_of (edited ! k))) (cd_name (edited ! i)) =
      (if i < Suc k \<or> cd_name (edited ! i) \<in> cd_name ` set added then Some (spec_of (edited ! i))
       else table_of original (cd_name (edited ! i)))"
      using st i k nth_name_eq[OF de i k(1)] by (auto simp: stage_def less_Suc_eq)
  next
    fix j assume j: "j < length original" "cd_name (original ! j) \<notin> cd_name ` set edited"
    then have "cd_name (original ! j) \<noteq> cd_name (edited ! k)" using mem by auto
    then show "(m(cd_name (edited ! k) \<mapsto> spec_of (edited ! k))) (cd_name (original ! j)) =
      (if cd_name (original ! j) \<notin> set deleted \<and> Suc k \<le> j then Some (spec_of (original ! j)) else None)"
      using st j pend by (cases "j = k") (auto simp: stage_def)
  next
    fix x assume "x \<notin> cd_name ` set edited \<union> cd_name ` set original"
    then show "(m(cd_name (edited ! k) \<mapsto> spec_of (edited ! k))) x = None"
      using st mem by (auto simp: stage_def)
  qed
qed

lemma stage_rename:
  assumes ok: "plain_edit d original edited deleted added" and st: "stage original edited deleted added k m"
    and k: "k < length edited" "cd_name (edited ! k) \<notin> cd_name ` set added \<union> cd_name ` set original"
  shows "stage original edited deleted added (Suc k)
     ((m(cd_name (original ! k) := None))(cd_name (edited ! k) \<mapsto> spec_of (edited ! k)))"
    (is "stage _ _ _ _ _ ?m")
proof -
  have de: "distinct (map cd_name edited)" and dn: "distinct (map cd_name original)" using ok by (auto simp: plain_edit_def)
  have o: "k < length original" "cd_name (original ! k) \<notin> cd_name ` set edited" "cd_name (original ! k) \<notin> set deleted"
    using plain_renamed[OF ok k] by blast+
  have mem: "edited ! k \<in> set edited" using k by simp
  show ?thesis
    unfolding stage_def
  proof (intro conjI allI impI)
    fix i assume i: "i < length edited"
    have "cd_name (edited ! i) \<noteq> cd_name (original ! k)" using i o(2) by (metis image_eqI nth_mem)
    then show "?m (cd_name (edited ! i)) =
      (if i < Suc k \<or> cd_name (edited ! i) \<in> cd_name ` set added then Some (spec_of (edited ! i))
       else table_of original (cd_name (edited ! i)))"
      using st i k nth_name_eq[OF de i k(1)] by (auto simp: stage_def less_Suc_eq)
  next
    fix j assume j: "j < length original" "cd_name (original ! j) \<notin> cd_name ` set edited"
    then have "cd_name (original ! j) \<noteq> cd_name (edited ! k)" using mem by auto
    then show "?m (cd_name (original ! j)) =
      (if cd_name (original ! j) \<notin> set deleted \<and> Suc k \<le> j then Some (spec_of (original ! j)) else None)"
      using st j nth_name_eq[OF dn j(1) o(1)] by (auto simp: stage_def)
  next
    fix x assume "x \<notin> cd_name ` set edited \<union> cd_name ` set original"
    then show "?m x = None" using st mem by (auto simp: stage_def)
  qed
qed

lemma run_column_plan:
  assumes ok: "plain_edit d original edited deleted added" "d \<in> {Mysql, Postgresql}"
    and st: "stage original edited deleted added k m" and k: "k < length edited"
  shows "\<exists>m'. run_alter d (column_plan d original edited deleted (map cd_name added) k (edited ! k)) m = Some m'
     \<and> stage original edited deleted added (Suc k) m'"
proof -
  let ?c = "edited ! k"
  have here: "m (cd_name ?c) = (if cd_name ?c \<in> cd_name ` set added then Some (spec_of ?c) else table_of original (cd_name ?c))"
    using st k by (simp add: stage_def)
  consider (add) "cd_name ?c \<in> cd_name ` set added" "cd_name ?c \<notin> cd_name ` set original"
    | (keep) b where "find (\<lambda>b. cd_name b = cd_name ?c) original = Some b" "cd_name ?c \<in> cd_name ` set original"
        "cd_name ?c \<notin> cd_name ` set added"
    | (ren) "cd_name ?c \<notin> cd_name ` set added \<union> cd_name ` set original"
  proof (cases "cd_name ?c \<in> cd_name ` set original")
    case True
    then have "cd_name ?c \<notin> cd_name ` set added" using plain_added[OF ok(1)] by blast
    then show thesis using that(2) True find_name_None[of "cd_name ?c" original] by (metis not_None_eq)
  next
    case False
    then show thesis using that(1,3) by blast
  qed
  then show ?thesis
  proof cases
    case add
    then have "m(cd_name ?c \<mapsto> spec_of ?c) = m" using here by (simp add: fun_upd_idem_iff)
    then show ?thesis using stage_keep[OF ok(1) st k] add by (auto simp: column_plan_def some_name)
  next
    case keep
    then have b: "m (cd_name ?c) = Some (spec_of b)" "cd_name b = cd_name ?c"
      using here table_of_find[OF keep(1)] by auto
    have "run_alter d (if hasColumnChanged b ?c then modify_plan d b ?c else []) m = Some (m(cd_name ?c \<mapsto> spec_of ?c))"
      using run_modify_plan[OF ok(2), of m ?c b] b by (auto simp: hasColumnChanged_def spec_of_def fun_upd_idem_iff)
    then show ?thesis using stage_keep[OF ok(1) st k] keep by (auto simp: column_plan_def)
  next
    case ren
    then have o: "k < length original" "cd_name (original ! k) \<notin> cd_name ` set edited" "cd_name (original ! k) \<notin> set deleted"
      using plain_renamed[OF ok(1) k] by blast+
    have "m (cd_name (original ! k)) = Some (spec_of (original ! k))" using st o by (simp add: stage_def)
    moreover have "m (cd_name ?c) = None" using here ren table_of_None[of original "cd_name ?c"] by simp
    ultimately have "run_alter d (rename_plan d (original ! k) ?c) m
        = Some ((m(cd_name (original ! k) := None))(cd_name ?c \<mapsto> spec_of ?c))"
      using run_rename_plan[OF ok(2), of m "original ! k" ?c] by simp
    moreover have "find (\<lambda>b. cd_name b = cd_name ?c) original = None" using ren by (simp add: find_name_None)
    ultimately show ?thesis using stage_rename[OF ok(1) st k ren] o ren by (auto simp: column_plan_def some_name)
  qed
qed

lemma run_columns:
  assumes ok: "plain_edit d original edited deleted added" "d \<in> {Mysql, Postgresql}"
    and "stage original edited deleted added k m" "k \<le> length edited"
  shows "\<exists>m'. run_alter d (concat (map (\<lambda>(i, c). column_plan d original edited deleted (map cd_name added) i c)
           (enumerate k (drop k edited)))) m = Some m' \<and> stage original edited deleted added (length edited) m'"
  using assms(3,4)
proof (induction "length edited - k" arbitrary: k m)
  case (Suc n)
  then have k: "k < length edited" by simp
  obtain m1 where m1: "run_alter d (column_plan d original edited deleted (map cd_name added) k (edited ! k)) m = Some m1"
      "stage original edited deleted added (Suc k) m1"
    using run_column_plan[OF ok Suc.prems(1) k] by blast
  obtain m2 where "run_alter d (concat (map (\<lambda>(i, c). column_plan d original edited deleted (map cd_name added) i c)
           (enumerate (Suc k) (drop (Suc k) edited)))) m1 = Some m2" "stage original edited deleted added (length edited) m2"
    using Suc.hyps(1)[of "Suc k" m1] Suc.hyps(2) m1(2) k by (metis Suc_leI diff_Suc_1 diff_Suc_eq_diff_pred diff_commute)
  then show ?case using m1(1) k by (simp add: Cons_nth_drop_Suc[symmetric, OF k] run_alter_append)
qed simp

lemma alter_reaches:
  assumes "plain_edit d original edited deleted added" "d \<in> {Mysql, Postgresql}"
  shows "\<exists>plan. generateAlterTableSQL d schema table original edited deleted added
           = map (alter_sql d (formatTableRef d schema table)) plan
         \<and> run_alter d plan (table_of original) = Some (table_of edited)"
proof (intro exI conjI)
  let ?new = "filter (\<lambda>c. cd_name c \<in> cd_name ` set added) edited"
  let ?m = "table_of original |` (- set deleted) ++ table_of ?new"
  show "generateAlterTableSQL d schema table original edited deleted added
      = map (alter_sql d (formatTableRef d schema table)) (alter_plan d original edited deleted added)"
    using assms(2) by (rule alter_plan_sql)
  have drops: "run_alter d (map DropColumn deleted) (table_of original) = Some (table_of original |` (- set deleted))"
    using assms(1) table_of_None[of original] by (intro run_drops) (auto simp: plain_edit_def)
  have fresh: "(table_of original |` (- set deleted)) (cd_name c) = None" if "c \<in> set ?new" for c
    using that plain_added[OF assms(1)] table_of_None[of original "cd_name c"] by (auto simp: restrict_map_def)
  have adds: "run_alter d (map AddColumn ?new) (table_of original |` (- set deleted)) = Some ?m"
    using assms fresh by (intro run_adds) (auto simp: plain_edit_def distinct_map_filter)
  obtain m where "run_alter d (concat (map (\<lambda>(i, c). column_plan d original edited deleted (map cd_name added) i c)
      (enumerate 0 edited))) ?m = Some m" "stage original edited deleted added (length edited) m"
    using run_columns[OF assms stage_start[OF assms(1)]] by auto
  then show "run_alter d (alter_plan d original edited deleted added) (table_of original) = Some (table_of edited)"
    using drops adds stage_end[OF assms(1)] by (simp add: alter_plan_def run_alter_append)
qed

text \<open>
  The generated ALTER TABLE statements do what the editor shows: for MySQL and PostgreSQL and an
  edit of the plain kind, the generated text is a list of well-formed statements; executed one after
  the other on the original table none of them fails, and the result has exactly the edited columns
  with their types, nullability, defaults and comments.
\<close>

theorem alter_statements_reach_edit:
  assumes "plain_edit d original edited deleted added" "d \<in> {Mysql, Postgresql}"
  shows "\<exists>plan. generateAlterTableSQL d schema table original edited deleted added
           = map (alter_sql d (formatTableRef d schema table)) plan
         \<and> run_alter d plan (table_of original) = Some (table_of edited)"
  using assms by (rule alter_reaches)

definition demo_col :: "string \<Rightarrow> string \<Rightarrow> ColumnDetail" where
  "demo_col n t = \<lparr> cd_name = n, cd_dataType = t, cd_nullable = True, cd_defaultValue = None, cd_isPrimaryKey = False,
     cd_comment = None, cd_maxLength = None \<rparr>"

theorem alter_statements_reach_edit_witness:
  "\<exists>plan. generateAlterTableSQL Postgresql ''public'' ''t''
       [demo_col ''a'' ''int'', demo_col ''b'' ''int'', demo_col ''x'' ''int'']
       [demo_col ''a'' ''text'', demo_col ''c'' ''int'', demo_col ''n'' ''date''] [''x''] [demo_col ''n'' ''date'']
     = map (alter_sql Postgresql (formatTableRef Postgresql ''public'' ''t'')) plan
   \<and> run_alter Postgresql plan (table_of [demo_col ''a'' ''int'', demo_col ''b'' ''int'', demo_col ''x'' ''int''])
     = Some (table_of [demo_col ''a'' ''text'', demo_col ''c'' ''int'', demo_col ''n'' ''date''])"
  by (rule alter_statements_reach_edit)
    code_simp+

end
