(* ===== verification/DbStructure.thy ===== *)
theory DbStructure
  imports DbClientStore SqlProps Interfaces
begin

text \<open>
  The structure editor of the database client together with the SQL it generates: a session of edits
  ends in statements that give the table the editor shows; and edits that are lost.
\<close>

section \<open>A session of the structure editor\<close>

text \<open>
  Edits of a loaded structure tab: changes of a column's fields other than its name, new columns,
  removals. A new column is added when no other is called like it; for PostgreSQL an added column
  gets no comment; and a column that is removed is an original one or an added one that was not
  changed (a changed one is no longer the object in the list of added columns).
\<close>

datatype StructEdit = EditCol nat ColumnUpdates | AddCol | DropCol nat

fun edit_step :: "string \<Rightarrow> db_state \<Rightarrow> StructEdit \<Rightarrow> db_state" where
  "edit_step i s (EditCol n u) = updateStructureColumn i n u s"
| "edit_step i s AddCol = addStructureColumn i s"
| "edit_step i s (DropCol n) = removeStructureColumn i n s"

abbreviation names :: "ColumnObj list \<Rightarrow> string set" where
  "names cs \<equiv> (\<lambda>c. cd_name (co_col c)) ` set cs"

fun tab_ok :: "DbType \<Rightarrow> TableDescription \<Rightarrow> TableStructureTab \<Rightarrow> StructEdit \<Rightarrow> bool" where
  "tab_ok d desc t (EditCol n u) \<longleftrightarrow> n < length (st_editedColumns t) \<and> cu_name u = None \<and>
     (d = Postgresql \<longrightarrow> cu_comment u = None \<or> cd_name (co_col (st_editedColumns t ! n)) \<in> cd_name ` set (td_columns desc))"
| "tab_ok d desc t AddCol \<longleftrightarrow> ''new_column'' \<notin> names (st_editedColumns t) \<and> ''new_column'' \<notin> cd_name ` set (td_columns desc)"
| "tab_ok d desc t (DropCol n) \<longleftrightarrow> n < length (st_editedColumns t) \<and>
     (co_ref (st_editedColumns t ! n) \<in> co_ref ` set (st_addedColumns t) \<or>
      cd_name (co_col (st_editedColumns t ! n)) \<in> cd_name ` set (td_columns desc))"

definition edit_ok :: "DbType \<Rightarrow> TableDescription \<Rightarrow> string \<Rightarrow> db_state \<Rightarrow> StructEdit \<Rightarrow> bool" where
  "edit_ok d desc i s e \<longleftrightarrow> (case List.find (\<lambda>t. wt_id t = i) (db_tabs s) of
       Some (StructureT t) \<Rightarrow> tab_ok d desc t e | _ \<Rightarrow> False)"

definition edit_inv :: "DbType \<Rightarrow> TableDescription \<Rightarrow> nat \<Rightarrow> TableStructureTab \<Rightarrow> bool" where
  "edit_inv d desc n t \<longleftrightarrow> st_originalDescription t = Some desc \<and>
     distinct (map cd_name (td_columns desc)) \<and> distinct (map (\<lambda>c. cd_name (co_col c)) (st_editedColumns t)) \<and>
     distinct (st_deletedColumns t) \<and> set (st_deletedColumns t) \<subseteq> cd_name ` set (td_columns desc) \<and>
     set (st_deletedColumns t) \<inter> names (st_editedColumns t) = {} \<and>
     names (st_addedColumns t) \<inter> cd_name ` set (td_columns desc) = {} \<and>
     names (st_editedColumns t) \<subseteq> names (st_addedColumns t) \<union> cd_name ` set (td_columns desc) \<and>
     cd_name ` set (td_columns desc) \<subseteq> names (st_editedColumns t) \<union> set (st_deletedColumns t) \<and>
     (d = Postgresql \<longrightarrow> (\<forall>c \<in> set (st_editedColumns t). cd_name (co_col c) \<notin> cd_name ` set (td_columns desc)
        \<longrightarrow> \<not> truthy_opt (cd_comment (co_col c)))) \<and>
     (\<forall>c \<in> set (st_editedColumns t) \<union> set (st_addedColumns t). co_ref c < n) \<and>
     (\<forall>c \<in> set (st_editedColumns t). \<forall>a \<in> set (st_addedColumns t). co_ref c = co_ref a \<longrightarrow> c = a)"

lemma edit_invD:
  assumes "edit_inv d desc n t"
  shows "distinct (map cd_name (td_columns desc))" "distinct (map (\<lambda>c. cd_name (co_col c)) (st_editedColumns t))"
    "distinct (st_deletedColumns t)" "set (st_deletedColumns t) \<subseteq> cd_name ` set (td_columns desc)"
    "set (st_deletedColumns t) \<inter> names (st_editedColumns t) = {}"
    "names (st_addedColumns t) \<inter> cd_name ` set (td_columns desc) = {}"
    "names (st_editedColumns t) \<subseteq> names (st_addedColumns t) \<union> cd_name ` set (td_columns desc)"
    "cd_name ` set (td_columns desc) \<subseteq> names (st_editedColumns t) \<union> set (st_deletedColumns t)"
    "st_originalDescription t = Some desc"
    "d = Postgresql \<longrightarrow> (\<forall>c \<in> set (st_editedColumns t). cd_name (co_col c) \<notin> cd_name ` set (td_columns desc)
        \<longrightarrow> \<not> truthy_opt (cd_comment (co_col c)))"
    "\<forall>c \<in> set (st_editedColumns t) \<union> set (st_addedColumns t). co_ref c < n"
    "\<forall>c \<in> set (st_editedColumns t). \<forall>a \<in> set (st_addedColumns t). co_ref c = co_ref a \<longrightarrow> c = a"
  using assms[unfolded edit_inv_def] by - (elim conjE, assumption)+

lemma edit_inv_plain:
  assumes inv: "edit_inv d desc n t"
  shows "plain_edit d (td_columns desc) (map co_col (st_editedColumns t)) (st_deletedColumns t) (map co_col (st_addedColumns t))"
proof -
  note e = edit_invD[OF inv]
  have i: "cd_name ` set (map co_col cs) = names cs" for cs by (simp add: image_image)
  have E: "cd_name (map co_col (st_editedColumns t) ! i) \<in> names (st_editedColumns t)" if "i < length (st_editedColumns t)" for i
    using that by simp
  have O: "cd_name (td_columns desc ! j) \<in> cd_name ` set (td_columns desc)" if "j < length (td_columns desc)" for j
    using that by simp
  have c: "\<not> truthy_opt (cd_comment c)" if pg: "d = Postgresql"
    and m: "c \<in> set (map co_col (st_editedColumns t))" "cd_name c \<in> names (st_addedColumns t)" for c
  proof -
    obtain x where x: "x \<in> set (st_editedColumns t)" "c = co_col x" using m(1) by auto
    have "cd_name (co_col x) \<notin> cd_name ` set (td_columns desc)" using m(2) e(6) unfolding x(2) by blast
    then show ?thesis using e(10)[rule_format, OF pg x(1)] unfolding x(2) by simp
  qed
  have p: "cd_name (map co_col (st_editedColumns t) ! i) \<in> names (st_addedColumns t) \<union> cd_name ` set (td_columns desc)"
    if "i < length (map co_col (st_editedColumns t))" for i
    using E[of i] that e(7) by (metis length_map subsetD)
  have q: "cd_name (td_columns desc ! j) \<in> names (st_editedColumns t) \<union> set (st_deletedColumns t)"
    if "j < length (td_columns desc)" for j
    using O[OF that] e(8) by (rule subsetD[rotated])
  have d: "distinct (map cd_name (map co_col (st_editedColumns t)))" using e(2) by (simp add: comp_def)
  show ?thesis
    unfolding plain_edit_def i using e(1,3-6) c p q d by blast
qed

lemma load_inv:
  assumes "distinct (map cd_name (td_columns desc))" "st_deletedColumns t = []" "st_addedColumns t = []"
  shows "edit_inv d desc (n + length (td_columns desc)) (load_structure desc n t)"
proof -
  let ?cs = "copy_columns n (td_columns desc)"
  have nm: "map (\<lambda>c. cd_name (co_col c)) ?cs = map cd_name (td_columns desc)"
    by (rule nth_equalityI) (simp_all add: copy_columns_def nth_enumerate_eq split_def)
  then have st: "names ?cs = cd_name ` set (td_columns desc)" by (metis list.set_map)
  have "co_ref x < n + length (td_columns desc)" if "x \<in> set ?cs" for x
    using that by (auto simp: copy_columns_def in_set_enumerate_eq)
  moreover have "cd_name (co_col x) \<in> cd_name ` set (td_columns desc)" if "x \<in> set ?cs" for x using that st by blast
  ultimately show ?thesis using assms nm st by (simp add: edit_inv_def load_structure_def)
qed

lemma update_nth:
  "map (\<lambda>(i, c). if i = k then f c else c) (enumerate 0 xs) = (if k < length xs then xs[k := f (xs ! k)] else xs)"
  by (rule nth_equalityI) (auto simp: nth_enumerate_eq nth_list_update)

lemma edit_inv_update:
  assumes inv: "edit_inv d desc n t" and ok: "tab_ok d desc t (EditCol k u)"
  shows "edit_inv d desc (n + 1) (update_column n k u t)"
proof -
  note e = edit_invD[OF inv]
  let ?xs = "st_editedColumns t"
  let ?c = "\<lparr> co_ref = n, co_col = apply_updates u (co_col (?xs ! k)) \<rparr>"
  let ?ys = "?xs[k := ?c]"
  have k: "k < length ?xs" "cu_name u = None" using ok by auto
  have upd: "update_column n k u t = t\<lparr>st_editedColumns := ?ys\<rparr>"
    using k update_nth[of k "\<lambda>c. \<lparr> co_ref = n, co_col = apply_updates u (co_col c) \<rparr>" ?xs] by (simp add: update_column_def)
  have nm: "map (\<lambda>c. cd_name (co_col c)) ?ys = map (\<lambda>c. cd_name (co_col c)) ?xs"
    using k by (simp add: map_update apply_updates_def list_update_same_conv)
  then have st: "names ?ys = names ?xs" by (metis list.set_map)
  have mem: "x = ?c \<or> x \<in> set ?xs" if "x \<in> set ?ys" for x using that set_update_subset_insert[of ?xs k ?c] by blast
  have pg: "\<not> truthy_opt (cd_comment (co_col x))"
    if "d = Postgresql" "x \<in> set ?ys" "cd_name (co_col x) \<notin> cd_name ` set (td_columns desc)" for x
    using mem[OF that(2)]
  proof
    assume x: "x = ?c"
    then have n: "cd_name (co_col (?xs ! k)) \<notin> cd_name ` set (td_columns desc)" using that(3) k by (simp add: apply_updates_def)
    then have "cu_comment u = None" using ok that(1) by simp
    then show ?thesis using e(10)[rule_format, OF that(1) _ n] k x by (simp add: apply_updates_def)
  qed (use e(10) that in blast)
  have rf: "co_ref x < n + 1" if "x \<in> set ?ys \<union> set (st_addedColumns t)" for x
    using that mem e(11)[rule_format] by (metis ColumnObj.select_convs(1) UnE UnI1 UnI2 less_add_one trans_less_add1)
  have idn: "x = a" if "x \<in> set ?ys" "a \<in> set (st_addedColumns t)" "co_ref x = co_ref a" for x a
    using mem[OF that(1)] e(11)[rule_format, of a] e(12)[rule_format, of x a] that(2,3) by auto
  show ?thesis
    using e(1-9) pg rf idn unfolding edit_inv_def upd by (simp add: nm st)
qed

lemma edit_inv_add:
  assumes inv: "edit_inv d desc n t" and ok: "tab_ok d desc t AddCol"
  shows "edit_inv d desc (n + 1) (add_column n t)"
proof -
  note e = edit_invD[OF inv]
  let ?c = "\<lparr> co_ref = n, co_col = newColumn \<rparr>"
  have add: "add_column n t = t\<lparr>st_editedColumns := st_editedColumns t @ [?c], st_addedColumns := st_addedColumns t @ [?c]\<rparr>"
    by (simp add: add_column_def Let_def)
  have nm: "cd_name (co_col ?c) = ''new_column''" "cd_comment (co_col ?c) = None" by (simp_all add: newColumn_def)
  have fresh: "''new_column'' \<notin> names (st_editedColumns t)" "''new_column'' \<notin> cd_name ` set (td_columns desc)" using ok by auto
  have del: "set (st_deletedColumns t) \<inter> names (st_editedColumns t @ [?c]) = {}" using e(4,5) fresh nm by auto
  have rf: "co_ref x < n + 1" if "x \<in> set (st_editedColumns t @ [?c]) \<union> set (st_addedColumns t @ [?c])" for x
    using that e(11)[rule_format, of x] by auto
  have idn: "x = a" if "x \<in> set (st_editedColumns t @ [?c])" "a \<in> set (st_addedColumns t @ [?c])" "co_ref x = co_ref a" for x a
    using that e(11)[rule_format, of x] e(11)[rule_format, of a] e(12)[rule_format, of x a] by auto
  have pg: "\<not> truthy_opt (cd_comment (co_col x))"
    if "d = Postgresql" "x \<in> set (st_editedColumns t @ [?c])" "cd_name (co_col x) \<notin> cd_name ` set (td_columns desc)" for x
    using that e(10)[rule_format, of x] nm by auto
  have "distinct (map (\<lambda>c. cd_name (co_col c)) (st_editedColumns t @ [?c]))" using e(2) fresh nm by simp
  moreover have "names (st_addedColumns t @ [?c]) \<inter> cd_name ` set (td_columns desc) = {}" using e(6) fresh nm by simp
  moreover have "names (st_editedColumns t @ [?c]) \<subseteq> names (st_addedColumns t @ [?c]) \<union> cd_name ` set (td_columns desc)"
    using e(7) by auto
  moreover have "cd_name ` set (td_columns desc) \<subseteq> names (st_editedColumns t @ [?c]) \<union> set (st_deletedColumns t)"
    using e(8) by auto
  ultimately show ?thesis
    using e(1,3,4,9) del rf idn pg unfolding edit_inv_def add by simp
qed

lemma subset_insert_drop: "A \<subseteq> insert x N \<union> D \<Longrightarrow> x \<notin> A \<Longrightarrow> A \<subseteq> N \<union> D"
  by blast

lemma edit_inv_remove:
  assumes inv: "edit_inv d desc n t" and ok: "tab_ok d desc t (DropCol k)"
  shows "edit_inv d desc n (remove_column k t)"
proof -
  note e = edit_invD[OF inv]
  let ?col = "st_editedColumns t ! k"
  have k: "k < length (st_editedColumns t)" using ok by simp
  obtain as bs where ab: "st_editedColumns t = as @ ?col # bs" "splice_out k (st_editedColumns t) = as @ bs"
    using k by (rule splice_out_decomp)
  have E: "names (st_editedColumns t) = insert (cd_name (co_col ?col)) (names (as @ bs))" by (subst ab(1)) auto
  have "distinct (map (\<lambda>c. cd_name (co_col c)) (as @ ?col # bs))" using e(2) ab(1) by metis
  then have out: "cd_name (co_col ?col) \<notin> names (as @ bs)" "distinct (map (\<lambda>c. cd_name (co_col c)) (as @ bs))"
    by auto
  have sub: "x \<in> set (st_editedColumns t)" if "x \<in> set (as @ bs)" for x using that by (subst ab(1)) auto
  have pg: "d = Postgresql \<longrightarrow> (\<forall>c \<in> set (as @ bs). cd_name (co_col c) \<notin> cd_name ` set (td_columns desc)
        \<longrightarrow> \<not> truthy_opt (cd_comment (co_col c)))" using e(10) sub by metis
  have rf: "\<forall>c \<in> set (as @ bs) \<union> set (filter P (st_addedColumns t)). co_ref c < n"
      "\<forall>c \<in> set (as @ bs) \<union> set (st_addedColumns t). co_ref c < n" for P
    using e(11) sub by (metis UnE UnI1 UnI2 filter_is_subset subsetD)+
  have idn: "\<forall>c \<in> set (as @ bs). \<forall>a \<in> set (filter P (st_addedColumns t)). co_ref c = co_ref a \<longrightarrow> c = a" for P
    using e(12) sub by (metis filter_is_subset subsetD)
  have idn2: "\<forall>c \<in> set (as @ bs). \<forall>a \<in> set (st_addedColumns t). co_ref c = co_ref a \<longrightarrow> c = a"
    using e(12) sub by metis
  show ?thesis
  proof (cases "co_ref ?col \<in> co_ref ` set (st_addedColumns t)")
    case True
    let ?A = "filter (\<lambda>a. co_ref a \<noteq> co_ref ?col) (st_addedColumns t)"
    have r: "remove_column k t = t\<lparr>st_editedColumns := as @ bs, st_addedColumns := ?A\<rparr>"
      using True k by (auto simp: remove_column_def some_elem_def list_ex_iff ab(2) Let_def image_iff)
    have col: "?col \<in> set (st_addedColumns t)" using True e(12)[rule_format, of ?col] k by (metis imageE nth_mem)
    then have notO: "cd_name (co_col ?col) \<notin> cd_name ` set (td_columns desc)" using e(6) by blast
    have A: "names (as @ bs) \<subseteq> names ?A \<union> cd_name ` set (td_columns desc)"
    proof
      fix x assume x: "x \<in> names (as @ bs)"
      have ne: "x \<noteq> cd_name (co_col ?col)" using x out(1) by metis
      have "x \<in> names (st_editedColumns t)" unfolding E using x by (rule insertI2)
      then have "x \<in> names (st_addedColumns t) \<union> cd_name ` set (td_columns desc)" using e(7) by (rule subsetD[rotated])
      moreover have "a = ?col" if "a \<in> set (st_addedColumns t)" "co_ref a = co_ref ?col" for a
        using e(12)[rule_format, of ?col a] that k by auto
      ultimately show "x \<in> names ?A \<union> cd_name ` set (td_columns desc)" using ne by auto
    qed
    have "names ?A \<inter> cd_name ` set (td_columns desc) = {}" using e(6) by auto
    moreover have "cd_name ` set (td_columns desc) \<subseteq> names (as @ bs) \<union> set (st_deletedColumns t)" using e(8)[unfolded E] notO by (rule subset_insert_drop)
    moreover have "set (st_deletedColumns t) \<inter> names (as @ bs) = {}" using e(5) E by auto
    ultimately show ?thesis
      using e(1,3,4,9) pg rf(1) idn A out(2) unfolding edit_inv_def r by simp
  next
    case False
    then have inO: "cd_name (co_col ?col) \<in> cd_name ` set (td_columns desc)" using ok by simp
    have r: "remove_column k t = t\<lparr>st_editedColumns := as @ bs, st_deletedColumns := st_deletedColumns t @ [cd_name (co_col ?col)]\<rparr>"
      using False k by (auto simp: remove_column_def some_elem_def list_ex_iff ab(2) Let_def image_iff)
    have "distinct (st_deletedColumns t @ [cd_name (co_col ?col)])" using e(3,5) E by auto
    moreover have "set (st_deletedColumns t @ [cd_name (co_col ?col)]) \<inter> names (as @ bs) = {}" using e(5) E out(1) by auto
    moreover have "names (as @ bs) \<subseteq> names (st_addedColumns t) \<union> cd_name ` set (td_columns desc)" using e(7) E by auto
    moreover have "cd_name ` set (td_columns desc) \<subseteq> names (as @ bs) \<union> set (st_deletedColumns t @ [cd_name (co_col ?col)])"
      using e(8) E by auto
    ultimately show ?thesis
      using e(1,4,6,9) pg rf(2) idn2 inO out(2) unfolding edit_inv_def r by simp
  qed
qed

text \<open>The tab after an edit, and the references handed out.\<close>

lemma find_upd:
  "(\<And>t. wt_id (f t) = wt_id t) \<Longrightarrow>
   List.find (\<lambda>t. wt_id t = i) (db_tabs (db_updateTab i f s)) = map_option f (List.find (\<lambda>t. wt_id t = i) (db_tabs s))"
  by (auto simp: db_updateTab_def find_map_where intro!: option.map_cong dest: find_SomeD)

lemma on_structure_keeps: "(\<And>t. st_id (f t) = st_id t) \<Longrightarrow> wt_id (on_structure f t) = wt_id t"
  by (cases t) simp_all

lemma structure_ids [simp]:
  "st_id (update_column n k u t) = st_id t" "st_id (add_column n t) = st_id t" "st_id (remove_column k t) = st_id t"
  "st_id (load_structure desc n t) = st_id t"
  by (simp_all add: update_column_def add_column_def remove_column_def load_structure_def Let_def)

definition session_inv :: "DbType \<Rightarrow> TableDescription \<Rightarrow> string \<Rightarrow> ConnectionConfig \<Rightarrow> db_state \<Rightarrow> bool" where
  "session_inv d desc i config s \<longleftrightarrow> db_connectionConfig s = Some config \<and>
     (\<exists>t. List.find (\<lambda>t. wt_id t = i) (db_tabs s) = Some (StructureT t) \<and> edit_inv d desc (db_refs s) t)"

lemma db_updateTab_sel [simp]:
  "db_connectionConfig (db_updateTab i f s) = db_connectionConfig s" "db_refs (db_updateTab i f s) = db_refs s"
  by (simp_all add: db_updateTab_def)

lemma session_step:
  assumes "session_inv d desc i config s" "edit_ok d desc i s e"
  shows "session_inv d desc i config (edit_step i s e)"
proof -
  obtain t where t: "List.find (\<lambda>t. wt_id t = i) (db_tabs s) = Some (StructureT t)" "edit_inv d desc (db_refs s) t"
    "db_connectionConfig s = Some config" using assms(1) by (auto simp: session_inv_def)
  have ok: "tab_ok d desc t e" using assms(2) t(1) by (simp add: edit_ok_def)
  show ?thesis
  proof (cases e)
    case (EditCol n u)
    then show ?thesis using t edit_inv_update[OF t(2)] ok
      by (simp add: session_inv_def updateStructureColumn_def find_upd on_structure_keeps)
  next
    case AddCol
    then show ?thesis using t edit_inv_add[OF t(2)] ok
      by (simp add: session_inv_def addStructureColumn_def find_upd on_structure_keeps)
  next
    case (DropCol n)
    then show ?thesis using t edit_inv_remove[OF t(2)] ok
      by (simp add: session_inv_def removeStructureColumn_def find_upd on_structure_keeps)
  qed
qed

lemma session_run:
  "session_inv d desc i config s \<Longrightarrow> admissible (edit_step i) (edit_ok d desc i) s es \<Longrightarrow> session_inv d desc i config (run (edit_step i) s es)"
  by (induction es arbitrary: s) (auto intro: session_step)

lemma session_start:
  assumes "List.find (\<lambda>t. wt_id t = i) (db_tabs s) = Some (StructureT (newStructureTab i db schema table))"
    and "db_connectionConfig s = Some config" "distinct (map cd_name (td_columns desc))"
  shows "session_inv d desc i config (openTableStructure_done i (Inr desc) s)"
proof -
  have "edit_inv d desc (db_refs s + length (td_columns desc)) (load_structure desc (db_refs s) (newStructureTab i db schema table))"
    using assms(3) by (intro load_inv) (simp_all add: newStructureTab_def)
  then show ?thesis
    using assms(1,2) by (simp add: session_inv_def openTableStructure_done_def find_upd on_structure_keeps)
qed


definition no_updates :: ColumnUpdates where
  "no_updates = \<lparr> cu_name = None, cu_dataType = None, cu_nullable = None, cu_defaultValue = None, cu_isPrimaryKey = None,
     cu_comment = None, cu_maxLength = None \<rparr>"

definition demo_desc :: TableDescription where
  "demo_desc = \<lparr> td_columns = [demo_col ''a'' ''int'', demo_col ''b'' ''int''], td_primaryKeys = [], td_indexes = [],
     td_comment = None, td_rowCountEstimate = None \<rparr>"

definition demo_config :: ConnectionConfig where
  "demo_config = \<lparr> cc_dbType = Mysql, cc_host = ''h'', cc_port = 3306, cc_database = ''d'', cc_username = ''u'', cc_password = [],
     cc_sslEnabled = False, cc_filePath = None, cc_org = None, cc_token = None, cc_influxVersion = None, cc_retentionPolicy = None \<rparr>"

definition demo_structure :: db_state where
  "demo_structure = open_tab (StructureT (newStructureTab ''x'' ''d'' [] ''t''))
     ((createDbClientSessionStore ''s'')\<lparr>db_connectionConfig := Some demo_config\<rparr>)"


lemma enumerate_snoc: "enumerate n (xs @ [x]) = enumerate n xs @ [(n + length xs, x)]"
  by (induction xs arbitrary: n) auto

lemma unchanged_column:
  assumes "distinct (map cd_name original)" "c \<in> set original"
  shows "alter_column d fqn original edited deleted added k c = []"
proof -
  have "List.find (\<lambda>b. cd_name b = cd_name c) original = Some c" using assms by (rule find_key_unique)
  moreover have "\<not> hasColumnChanged c c" by (simp add: hasColumnChanged_def)
  ultimately show ?thesis by (simp add: alter_column_def)
qed

lemma renamed_addition_no_sql:
  assumes "distinct (map cd_name original)" "cd_name c \<notin> insert (cd_name x) (cd_name ` set original)" "cd_name x \<notin> cd_name ` set original"
  shows "generateAlterTableSQL d schema table original (original @ [c]) [] [x] = []"
proof -
  have "filter (\<lambda>b. cd_name b = cd_name x) (original @ [c]) = []" using assms(2,3) by (auto simp: filter_empty_conv image_iff)
  moreover have "concat (map (\<lambda>(k, b). alter_column d fqn original (original @ [c]) [] [cd_name x] k b) (enumerate 0 original)) = []" for fqn
    using unchanged_column[OF assms(1)] by (auto simp: in_set_enumerate_eq)
  moreover have "alter_column d fqn original (original @ [c]) [] [cd_name x] (length original) c = []" for fqn
    using assms(2) find_name_None[of "cd_name c" original] by (simp add: alter_column_def)
  ultimately show ?thesis
    using assms(2) by (simp add: generateAlterTableSQL_def Let_def enumerate_snoc)
qed

text \<open>
  An edit of the structure editor that is lost. A column that is added and then renamed is in no
  statement: the list of added columns still has its first name, so \<open>applyStructureChanges\<close> returns
  without sending anything, for every database.
\<close>

theorem renamed_new_column_lost:
  assumes "List.find (\<lambda>t. wt_id t = i) (db_tabs s) = Some (StructureT t)" "st_originalDescription t = Some desc"
    and "map co_col (st_editedColumns t) = td_columns desc" "st_deletedColumns t = []" "st_addedColumns t = []"
    and "distinct (map cd_name (td_columns desc))" "n \<notin> insert ''new_column'' (cd_name ` set (td_columns desc))"
    and "''new_column'' \<notin> cd_name ` set (td_columns desc)"
  shows "let s' = updateStructureColumn i (length (td_columns desc)) (no_updates\<lparr>cu_name := Some n\<rparr>) (addStructureColumn i s)
     in applyStructureChanges_begin i s' = (s', None)"
proof -
  let ?k = "length (td_columns desc)" and ?u = "no_updates\<lparr>cu_name := Some n\<rparr>"
  let ?s' = "updateStructureColumn i ?k ?u (addStructureColumn i s)"
  let ?t' = "update_column (db_refs s + 1) ?k ?u (add_column (db_refs s) t)"
  have len: "length (st_editedColumns t) = ?k" using assms(3) by (metis length_map)
  have find: "List.find (\<lambda>t. wt_id t = i) (db_tabs ?s') = Some (StructureT ?t')"
    using assms(1) by (simp add: updateStructureColumn_def addStructureColumn_def find_upd on_structure_keeps)
  have tab: "st_editedColumns ?t' = st_editedColumns t @ [\<lparr> co_ref = db_refs s + 1, co_col = newColumn\<lparr>cd_name := n\<rparr> \<rparr>]"
    "st_deletedColumns ?t' = []" "map co_col (st_addedColumns ?t') = [newColumn]" "st_originalDescription ?t' = Some desc"
    using assms(2,4,5) len
    by (simp_all add: update_column_def add_column_def Let_def update_nth nth_append list_update_append apply_updates_def no_updates_def newColumn_def)
  have "structure_sql d desc ?t' = []" for d
    unfolding structure_sql_def tab map_append assms(3)
    by (simp, rule renamed_addition_no_sql) (use assms(6-8) in \<open>simp_all add: newColumn_def\<close>)
  then show ?thesis
    using find tab(4) by (auto simp: applyStructureChanges_begin_def Let_def split: option.split)
qed

theorem renamed_new_column_lost_witness:
  "let s = openTableStructure_done ''x'' (Inr demo_desc) demo_structure;
       s' = updateStructureColumn ''x'' (length (td_columns demo_desc)) (no_updates\<lparr>cu_name := Some ''email''\<rparr>) (addStructureColumn ''x'' s)
   in applyStructureChanges_begin ''x'' s' = (s', None)"
  unfolding Let_def[of "openTableStructure_done ''x'' (Inr demo_desc) demo_structure"]
  by (rule renamed_new_column_lost[where t = "load_structure demo_desc 0 (newStructureTab ''x'' ''d'' [] ''t'')"]) code_simp+

text \<open>
  Renames are matched by position. Two columns that were moved past each other and then renamed get
  each other's new name: in the editor \<open>b\<close> became \<open>c\<close> and \<open>a\<close> became \<open>e\<close>, the statements rename \<open>a\<close> to
  \<open>c\<close> and \<open>b\<close> to \<open>e\<close>.
\<close>

theorem moved_renames_swap:
  "let s = moveStructureColumn ''x'' 0 1 (openTableStructure_done ''x'' (Inr demo_desc)
             (demo_structure\<lparr>db_connectionConfig := Some (demo_config\<lparr>cc_dbType := Postgresql\<rparr>)\<rparr>));
       s' = updateStructureColumn ''x'' 0 (no_updates\<lparr>cu_name := Some ''c''\<rparr>)
             (updateStructureColumn ''x'' 1 (no_updates\<lparr>cu_name := Some ''e''\<rparr>) s)
   in snd (applyStructureChanges_begin ''x'' s') =
        Some (map (alter_sql Postgresql (formatTableRef Postgresql [] ''t'')) [RenameColumn ''a'' ''c'', RenameColumn ''b'' ''e''])"
  by code_simp

end
