(* ===== verification/Workflow.thy ===== *)
theory Workflow
  imports Complex_Main Json
begin

text \<open>
  Workflows: their data (\<open>src/src/types/workflow.ts\<close>), the store with the list of workflows and the
  state of an execution (\<open>src/src/stores/workflowStore.ts\<close>), and the check of a new connection
  (\<open>isWorkflowConnectionAllowed\<close> of \<open>src/src/components/workflow/WorkflowWorkspace.tsx\<close>).

  Canvas coordinates are rational numbers. A deep copy through JSON is the value itself. Identifiers
  from \<open>crypto.randomUUID\<close> are arguments, as is the selection React Flow keeps.
\<close>

section \<open>Data\<close>

datatype NodeType =
    HttpRequestN
  | WsSendN
  | TcpSendN
  | UdpSendN
  | MqttPublishN
  | DbQueryN
  | DelayN
  | ScriptN
  | ExtractDataN
  | JsonParseN
  | JsonStringifyN
  | TextTransformN
  | Base64EncodeN
  | Base64DecodeN
  | UrlEncodeN
  | UrlDecodeN
  | HashN
  | ConditionN
  | LoopN
  | ParallelN
  | SetVariableN
  | TimestampN
  | UuidN
  | LogN
  | AssertionN
  | StartN
  | EndN

text \<open>The literal of the source that names a type.\<close>

fun node_type_name :: "NodeType \<Rightarrow> string" where
  "node_type_name HttpRequestN = ''httpRequest''"
| "node_type_name WsSendN = ''wsSend''"
| "node_type_name TcpSendN = ''tcpSend''"
| "node_type_name UdpSendN = ''udpSend''"
| "node_type_name MqttPublishN = ''mqttPublish''"
| "node_type_name DbQueryN = ''dbQuery''"
| "node_type_name DelayN = ''delay''"
| "node_type_name ScriptN = ''script''"
| "node_type_name ExtractDataN = ''extractData''"
| "node_type_name JsonParseN = ''jsonParse''"
| "node_type_name JsonStringifyN = ''jsonStringify''"
| "node_type_name TextTransformN = ''textTransform''"
| "node_type_name Base64EncodeN = ''base64Encode''"
| "node_type_name Base64DecodeN = ''base64Decode''"
| "node_type_name UrlEncodeN = ''urlEncode''"
| "node_type_name UrlDecodeN = ''urlDecode''"
| "node_type_name HashN = ''hash''"
| "node_type_name ConditionN = ''condition''"
| "node_type_name LoopN = ''loop''"
| "node_type_name ParallelN = ''parallel''"
| "node_type_name SetVariableN = ''setVariable''"
| "node_type_name TimestampN = ''timestamp''"
| "node_type_name UuidN = ''uuid''"
| "node_type_name LogN = ''log''"
| "node_type_name AssertionN = ''assertion''"
| "node_type_name StartN = ''start''"
| "node_type_name EndN = ''end''"

datatype NodeShape = RectangleShape | CircleShape | DiamondShape

record NodeMeta =
  nm_label :: string
  nm_icon :: string
  nm_color :: string
  nm_shape :: NodeShape

definition node_meta :: "string \<Rightarrow> string \<Rightarrow> string \<Rightarrow> NodeShape \<Rightarrow> NodeMeta" where
  "node_meta l i c s = \<lparr> nm_label = l, nm_icon = i, nm_color = c, nm_shape = s \<rparr>"

fun NODE_TYPE_META :: "NodeType \<Rightarrow> NodeMeta" where
   "NODE_TYPE_META HttpRequestN = node_meta (''HTTP '' @ [CHR 0xE8, CHR 0xAF, CHR 0xB7, CHR 0xE6, CHR 0xB1, CHR 0x82]) ''globe'' ''#3b82f6'' RectangleShape"
|  "NODE_TYPE_META WsSendN = node_meta (''WebSocket'') ''zap'' ''#f59e0b'' RectangleShape"
|  "NODE_TYPE_META TcpSendN = node_meta (''TCP '' @ [CHR 0xE5, CHR 0x8F, CHR 0x91, CHR 0xE9, CHR 0x80, CHR 0x81]) ''plug'' ''#10b981'' RectangleShape"
|  "NODE_TYPE_META UdpSendN = node_meta (''UDP '' @ [CHR 0xE5, CHR 0x8F, CHR 0x91, CHR 0xE9, CHR 0x80, CHR 0x81]) ''radio'' ''#8b5cf6'' RectangleShape"
|  "NODE_TYPE_META MqttPublishN = node_meta (''MQTT '' @ [CHR 0xE5, CHR 0x8F, CHR 0x91, CHR 0xE5, CHR 0xB8, CHR 0x83]) ''radio'' ''#7c3aed'' RectangleShape"
|  "NODE_TYPE_META DbQueryN = node_meta ([CHR 0xE6, CHR 0x95, CHR 0xB0, CHR 0xE6, CHR 0x8D, CHR 0xAE, CHR 0xE5, CHR 0xBA, CHR 0x93, CHR 0xE6, CHR 0x9F, CHR 0xA5, CHR 0xE8, CHR 0xAF, CHR 0xA2]) ''database'' ''#d97706'' RectangleShape"
|  "NODE_TYPE_META DelayN = node_meta ([CHR 0xE5, CHR 0xBB, CHR 0xB6, CHR 0xE6, CHR 0x97, CHR 0xB6, CHR 0xE7, CHR 0xAD, CHR 0x89, CHR 0xE5, CHR 0xBE, CHR 0x85]) ''clock'' ''#f59e0b'' RectangleShape"
|  "NODE_TYPE_META ScriptN = node_meta ([CHR 0xE8, CHR 0x84, CHR 0x9A, CHR 0xE6, CHR 0x9C, CHR 0xAC]) ''code'' ''#ef4444'' RectangleShape"
|  "NODE_TYPE_META ExtractDataN = node_meta ([CHR 0xE6, CHR 0x95, CHR 0xB0, CHR 0xE6, CHR 0x8D, CHR 0xAE, CHR 0xE6, CHR 0x8F, CHR 0x90, CHR 0xE5, CHR 0x8F, CHR 0x96]) ''filter'' ''#06b6d4'' RectangleShape"
|  "NODE_TYPE_META JsonParseN = node_meta (''JSON '' @ [CHR 0xE8, CHR 0xA7, CHR 0xA3, CHR 0xE6, CHR 0x9E, CHR 0x90]) ''file-json'' ''#0ea5e9'' RectangleShape"
|  "NODE_TYPE_META JsonStringifyN = node_meta (''JSON '' @ [CHR 0xE5, CHR 0xBA, CHR 0x8F, CHR 0xE5, CHR 0x88, CHR 0x97, CHR 0xE5, CHR 0x8C, CHR 0x96]) ''braces'' ''#0284c7'' RectangleShape"
|  "NODE_TYPE_META TextTransformN = node_meta ([CHR 0xE6, CHR 0x96, CHR 0x87, CHR 0xE6, CHR 0x9C, CHR 0xAC, CHR 0xE8, CHR 0xBD, CHR 0xAC, CHR 0xE6, CHR 0x8D, CHR 0xA2]) ''case-sensitive'' ''#f97316'' RectangleShape"
|  "NODE_TYPE_META Base64EncodeN = node_meta (''Base64 '' @ [CHR 0xE7, CHR 0xBC, CHR 0x96, CHR 0xE7, CHR 0xA0, CHR 0x81]) ''lock'' ''#64748b'' RectangleShape"
|  "NODE_TYPE_META Base64DecodeN = node_meta (''Base64 '' @ [CHR 0xE8, CHR 0xA7, CHR 0xA3, CHR 0xE7, CHR 0xA0, CHR 0x81]) ''unlock'' ''#64748b'' RectangleShape"
|  "NODE_TYPE_META UrlEncodeN = node_meta (''URL '' @ [CHR 0xE7, CHR 0xBC, CHR 0x96, CHR 0xE7, CHR 0xA0, CHR 0x81]) ''link-2'' ''#6366f1'' RectangleShape"
|  "NODE_TYPE_META UrlDecodeN = node_meta (''URL '' @ [CHR 0xE8, CHR 0xA7, CHR 0xA3, CHR 0xE7, CHR 0xA0, CHR 0x81]) ''unlink-2'' ''#818cf8'' RectangleShape"
|  "NODE_TYPE_META HashN = node_meta ([CHR 0xE5, CHR 0x93, CHR 0x88, CHR 0xE5, CHR 0xB8, CHR 0x8C, CHR 0xE8, CHR 0xAE, CHR 0xA1, CHR 0xE7, CHR 0xAE, CHR 0x97]) ''hash'' ''#7c3aed'' RectangleShape"
|  "NODE_TYPE_META ConditionN = node_meta ([CHR 0xE6, CHR 0x9D, CHR 0xA1, CHR 0xE4, CHR 0xBB, CHR 0xB6, CHR 0xE5, CHR 0x88, CHR 0xA4, CHR 0xE6, CHR 0x96, CHR 0xAD]) ''git-branch'' ''#f59e0b'' DiamondShape"
|  "NODE_TYPE_META LoopN = node_meta ([CHR 0xE5, CHR 0xBE, CHR 0xAA, CHR 0xE7, CHR 0x8E, CHR 0xAF]) ''repeat'' ''#06b6d4'' RectangleShape"
|  "NODE_TYPE_META ParallelN = node_meta ([CHR 0xE5, CHR 0xB9, CHR 0xB6, CHR 0xE8, CHR 0xA1, CHR 0x8C, CHR 0xE6, CHR 0x89, CHR 0xA7, CHR 0xE8, CHR 0xA1, CHR 0x8C]) ''columns'' ''#a855f7'' RectangleShape"
|  "NODE_TYPE_META SetVariableN = node_meta ([CHR 0xE8, CHR 0xAE, CHR 0xBE, CHR 0xE7, CHR 0xBD, CHR 0xAE, CHR 0xE5, CHR 0x8F, CHR 0x98, CHR 0xE9, CHR 0x87, CHR 0x8F]) ''variable'' ''#14b8a6'' RectangleShape"
|  "NODE_TYPE_META TimestampN = node_meta ([CHR 0xE6, CHR 0x97, CHR 0xB6, CHR 0xE9, CHR 0x97, CHR 0xB4, CHR 0xE6, CHR 0x88, CHR 0xB3]) ''calendar-clock'' ''#0f766e'' RectangleShape"
|  "NODE_TYPE_META UuidN = node_meta (''UUID'') ''fingerprint'' ''#4f46e5'' RectangleShape"
|  "NODE_TYPE_META LogN = node_meta ([CHR 0xE6, CHR 0x97, CHR 0xA5, CHR 0xE5, CHR 0xBF, CHR 0x97, CHR 0xE8, CHR 0xBE, CHR 0x93, CHR 0xE5, CHR 0x87, CHR 0xBA]) ''message-square'' ''#64748b'' RectangleShape"
|  "NODE_TYPE_META AssertionN = node_meta ([CHR 0xE6, CHR 0x96, CHR 0xAD, CHR 0xE8, CHR 0xA8, CHR 0x80]) ''check-square'' ''#22c55e'' RectangleShape"
|  "NODE_TYPE_META StartN = node_meta ([CHR 0xE5, CHR 0xBC, CHR 0x80, CHR 0xE5, CHR 0xA7, CHR 0x8B]) ''play-circle'' ''#22c55e'' CircleShape"
|  "NODE_TYPE_META EndN = node_meta ([CHR 0xE7, CHR 0xBB, CHR 0x93, CHR 0xE6, CHR 0x9D, CHR 0x9F]) ''stop-circle'' ''#ef4444'' CircleShape"

fun defaultConfig :: "NodeType \<Rightarrow> json dict" where
   "defaultConfig HttpRequestN = [(''method'', JStr ''GET''), (''url'', JStr []), (''headers'', JObj []),
       (''queryParams'', JObj []), (''timeoutMs'', JNum (JInt 30000)), (''followRedirects'', JBool True),
       (''sslVerify'', JBool True)]"
|  "defaultConfig WsSendN = [(''url'', JStr []), (''headersJson'', JStr []), (''message'', JStr []),
       (''messageType'', JStr ''text''), (''waitTimeoutMs'', JNum (JInt 5000))]"
|  "defaultConfig TcpSendN = [(''host'', JStr ''127.0.0.1''), (''port'', JNum (JInt 8080)), (''data'', JStr []),
       (''encoding'', JStr ''utf8''), (''readTimeoutMs'', JNum (JInt 5000))]"
|  "defaultConfig UdpSendN = [(''targetHost'', JStr ''127.0.0.1''), (''targetPort'', JNum (JInt 8080)),
       (''data'', JStr []), (''encoding'', JStr ''utf8''), (''readTimeoutMs'', JNum (JInt 5000))]"
|  "defaultConfig MqttPublishN = [(''brokerUrl'', JStr ''mqtt://localhost:1883''),
       (''clientId'', JStr ''protoforge-workflow''), (''topic'', JStr []), (''payload'', JStr []),
       (''qos'', JNum (JInt 0)), (''retain'', JBool False), (''cleanSession'', JBool True),
       (''keepAliveSecs'', JNum (JInt 30)), (''username'', JStr []), (''password'', JStr [])]"
|  "defaultConfig DbQueryN = [(''dbType'', JStr ''postgresql''), (''mode'', JStr ''query''),
       (''host'', JStr ''localhost''), (''port'', JNum (JInt 5432)), (''database'', JStr []),
       (''username'', JStr []), (''password'', JStr []), (''sslEnabled'', JBool False), (''filePath'', JStr []),
       (''org'', JStr []), (''token'', JStr []), (''influxVersion'', JStr ''2.x''), (''sql'', JStr ''SELECT 1'')]"
|  "defaultConfig DelayN = [(''delayMs'', JNum (JInt 1000))]"
|  "defaultConfig ScriptN = [(''script'', JStr [])]"
|  "defaultConfig ExtractDataN = [(''source'', JStr []), (''mode'', JStr ''jsonPath''), (''expression'', JStr [])]"
|  "defaultConfig JsonParseN = [(''input'', JStr [])]"
|  "defaultConfig JsonStringifyN = [(''input'', JStr []), (''pretty'', JBool True)]"
|  "defaultConfig TextTransformN = [(''input'', JStr []), (''operation'', JStr ''trim''), (''search'', JStr []),
       (''replacement'', JStr [])]"
|  "defaultConfig Base64EncodeN = [(''input'', JStr [])]"
|  "defaultConfig Base64DecodeN = [(''input'', JStr [])]"
|  "defaultConfig UrlEncodeN = [(''input'', JStr [])]"
|  "defaultConfig UrlDecodeN = [(''input'', JStr [])]"
|  "defaultConfig HashN = [(''input'', JStr []), (''algorithm'', JStr ''sha256'')]"
|  "defaultConfig ConditionN = [(''expression'', JStr [])]"
|  "defaultConfig LoopN = [(''iterations'', JNum (JInt 3))]"
|  "defaultConfig ParallelN = [(''maxConcurrency'', JNum (JInt 0))]"
|  "defaultConfig SetVariableN = [(''key'', JStr []), (''value'', JStr [])]"
|  "defaultConfig TimestampN = [(''format'', JStr ''iso8601'')]"
|  "defaultConfig UuidN = []"
|  "defaultConfig LogN = [(''message'', JStr []), (''level'', JStr ''info'')]"
|  "defaultConfig AssertionN = [(''target'', JStr []), (''operator'', JStr ''equals''), (''expected'', JStr []),
       (''name'', JStr [])]"
|  "defaultConfig StartN = []"
|  "defaultConfig EndN = []"

record NodeCategory =
  nc_id :: string
  nc_labelKey :: string
  nc_nodes :: "NodeType list"

definition NODE_CATEGORIES :: "NodeCategory list" where
  "NODE_CATEGORIES = [
     \<lparr> nc_id = ''trigger'', nc_labelKey = ''workflow.categories.trigger'', nc_nodes = [StartN, EndN] \<rparr>,
     \<lparr> nc_id = ''network'', nc_labelKey = ''workflow.categories.network'', nc_nodes = [HttpRequestN, WsSendN, TcpSendN, UdpSendN, MqttPublishN] \<rparr>,
     \<lparr> nc_id = ''integration'', nc_labelKey = ''workflow.categories.integration'', nc_nodes = [DbQueryN] \<rparr>,
     \<lparr> nc_id = ''flow'', nc_labelKey = ''workflow.categories.flow'', nc_nodes = [ConditionN, DelayN] \<rparr>,
     \<lparr> nc_id = ''data'', nc_labelKey = ''workflow.categories.data'', nc_nodes = [ExtractDataN, JsonParseN, JsonStringifyN, TextTransformN, SetVariableN, ScriptN] \<rparr>,
     \<lparr> nc_id = ''codec'', nc_labelKey = ''workflow.categories.codec'', nc_nodes = [Base64EncodeN, Base64DecodeN, UrlEncodeN, UrlDecodeN, HashN] \<rparr>,
     \<lparr> nc_id = ''utility'', nc_labelKey = ''workflow.categories.utility'', nc_nodes = [TimestampN, UuidN] \<rparr>,
     \<lparr> nc_id = ''test'', nc_labelKey = ''workflow.categories.test'', nc_nodes = [AssertionN, LogN] \<rparr>]"

type_synonym position = "rat \<times> rat"

record FlowNode =
  fn_id :: string
  fn_name :: string
  fn_nodeType :: NodeType
  fn_config :: "json dict"
  fn_position :: "position option"

record FlowEdge =
  fe_id :: string
  fe_sourceNodeId :: string
  fe_targetNodeId :: string
  fe_condition :: "string option"
  fe_label :: "string option"
  fe_sourceHandle :: "string option"

record FlowVariable =
  fv_key :: string
  fv_value :: string
  fv_description :: string

record Workflow =
  wo_id :: string
  wo_name :: string
  wo_description :: string
  wo_nodes :: "FlowNode list"
  wo_edges :: "FlowEdge list"
  wo_variables :: "FlowVariable list"
  wo_createdAt :: string
  wo_updatedAt :: string

datatype ExecutionStatus = Pending | Running | Completed | Skipped | Failed | Cancelled

record NodeResult =
  nr_nodeId :: string
  nr_nodeName :: string
  nr_nodeType :: NodeType
  nr_status :: ExecutionStatus
  nr_output :: json
  nr_error :: "string option"
  nr_durationMs :: int

record WorkflowExecution =
  we_executionId :: string
  we_workflowId :: string
  we_status :: ExecutionStatus
  we_nodeResults :: "NodeResult list"
  we_startedAt :: string
  we_finishedAt :: "string option"
  we_totalDurationMs :: int

record WorkflowProgressEvent =
  wp_executionId :: string
  wp_workflowId :: string
  wp_currentStep :: int
  wp_totalSteps :: int
  wp_currentNodeId :: string
  wp_currentNodeName :: string
  wp_status :: ExecutionStatus
  wp_nodeResult :: "NodeResult option"


section \<open>The state of the workspace\<close>

text \<open>
  The fields of the store, then those of the editor: the workflow being edited, the stacks of undo
  and redo (newest last), the clipboard and the selection.
\<close>

record wf_state =
  wf_workflows :: "Workflow list"
  wf_loading :: bool
  wf_activeWorkflowId :: "string option"
  wf_dirty :: bool
  wf_executionId :: "string option"
  wf_executionStatus :: "ExecutionStatus option"
  wf_executionError :: "string option"
  wf_executionProgress :: "WorkflowProgressEvent option"
  wf_nodeResults :: "NodeResult list"
  wf_local :: "Workflow option"
  wf_history :: "Workflow list"
  wf_future :: "Workflow list"
  wf_clipboard :: "(FlowNode list \<times> FlowEdge list) option"
  wf_selectedNodeId :: "string option"
  wf_selectedEdgeId :: "string option"

definition wf_init :: wf_state where
  "wf_init = \<lparr> wf_workflows = [], wf_loading = False, wf_activeWorkflowId = None, wf_dirty = False, wf_executionId = None,
     wf_executionStatus = None, wf_executionError = None, wf_executionProgress = None, wf_nodeResults = [],
     wf_local = None, wf_history = [], wf_future = [], wf_clipboard = None, wf_selectedNodeId = None,
     wf_selectedEdgeId = None \<rparr>"


section \<open>The store\<close>

definition fetchWorkflows_begin :: "wf_state \<Rightarrow> wf_state" where
  "fetchWorkflows_begin s = s\<lparr>wf_loading := True\<rparr>"

definition fetchWorkflows_done :: "string + Workflow list \<Rightarrow> wf_state \<Rightarrow> wf_state" where
  "fetchWorkflows_done reply s = (case reply of
       Inr ws \<Rightarrow> s\<lparr>wf_workflows := ws, wf_loading := False\<rparr>
     | Inl e \<Rightarrow> s\<lparr>wf_loading := False\<rparr>)"

definition newWorkflow :: "string \<Rightarrow> string \<Rightarrow> string \<Rightarrow> Workflow" where
  "newWorkflow uuid now name = \<lparr> wo_id = uuid, wo_name = name, wo_description = [], wo_nodes = [], wo_edges = [],
     wo_variables = [], wo_createdAt = now, wo_updatedAt = now \<rparr>"

text \<open>A rejected command of the backend is rethrown to the caller and leaves the state.\<close>

definition createWorkflow_done :: "string + Workflow \<Rightarrow> wf_state \<Rightarrow> wf_state" where
  "createWorkflow_done reply s = (case reply of
       Inr created \<Rightarrow> s\<lparr>wf_workflows := wf_workflows s @ [created], wf_activeWorkflowId := Some (wo_id created)\<rparr>
     | Inl e \<Rightarrow> s)"

definition saveWorkflow_done :: "string \<Rightarrow> Workflow \<Rightarrow> string + unit \<Rightarrow> wf_state \<Rightarrow> wf_state" where
  "saveWorkflow_done now workflow reply s = (case reply of
       Inr _ \<Rightarrow> (let updated = workflow\<lparr>wo_updatedAt := now\<rparr> in
          s\<lparr>wf_workflows := map_where (\<lambda>w. wo_id w = wo_id updated) (\<lambda>_. updated) (wf_workflows s), wf_dirty := False\<rparr>)
     | Inl e \<Rightarrow> s)"

definition deleteWorkflow_done :: "string \<Rightarrow> string + unit \<Rightarrow> wf_state \<Rightarrow> wf_state" where
  "deleteWorkflow_done i reply s = (case reply of
       Inr _ \<Rightarrow> s\<lparr>wf_workflows := filter (\<lambda>w. wo_id w \<noteq> i) (wf_workflows s),
                  wf_activeWorkflowId := (if wf_activeWorkflowId s = Some i then None else wf_activeWorkflowId s)\<rparr>
     | Inl e \<Rightarrow> s)"

definition setActiveWorkflowId :: "string option \<Rightarrow> wf_state \<Rightarrow> wf_state" where
  "setActiveWorkflowId i s = s\<lparr>wf_activeWorkflowId := i, wf_dirty := False\<rparr>"

definition setDirty :: "bool \<Rightarrow> wf_state \<Rightarrow> wf_state" where
  "setDirty d s = s\<lparr>wf_dirty := d\<rparr>"

definition runWorkflow_begin :: "wf_state \<Rightarrow> wf_state" where
  "runWorkflow_begin s = s\<lparr>wf_executionStatus := Some Running, wf_executionError := None, wf_nodeResults := [],
     wf_executionProgress := None\<rparr>"

definition runWorkflow_done :: "string + string \<Rightarrow> wf_state \<Rightarrow> wf_state" where
  "runWorkflow_done reply s = (case reply of
       Inr executionId \<Rightarrow> s\<lparr>wf_executionId := Some executionId\<rparr>
     | Inl msg \<Rightarrow> s\<lparr>wf_executionStatus := Some Failed, wf_executionId := None, wf_executionError := Some msg\<rparr>)"

definition cancelExecution_begin :: "wf_state \<Rightarrow> string option" where
  "cancelExecution_begin s = (if truthy_opt (wf_executionId s) then wf_executionId s else None)"

definition cancelExecution_done :: "string + unit \<Rightarrow> wf_state \<Rightarrow> wf_state" where
  "cancelExecution_done reply s = (case reply of Inr _ \<Rightarrow> s\<lparr>wf_executionStatus := Some Cancelled\<rparr> | Inl e \<Rightarrow> s)"

definition clearExecution :: "wf_state \<Rightarrow> wf_state" where
  "clearExecution s = s\<lparr>wf_executionId := None, wf_executionStatus := None, wf_executionError := None,
     wf_executionProgress := None, wf_nodeResults := []\<rparr>"

text \<open>The event listeners. An event of another execution than the one followed is ignored.\<close>

definition foreign_event :: "string \<Rightarrow> wf_state \<Rightarrow> bool" where
  "foreign_event i s \<longleftrightarrow> truthy_opt (wf_executionId s) \<and> wf_executionId s \<noteq> Some i"

definition put_result :: "NodeResult \<Rightarrow> NodeResult list \<Rightarrow> NodeResult list" where
  "put_result r rs = (case findIndex (\<lambda>x. nr_nodeId x = nr_nodeId r) rs of Some k \<Rightarrow> rs[k := r] | None \<Rightarrow> rs @ [r])"

definition onProgress :: "WorkflowProgressEvent \<Rightarrow> wf_state \<Rightarrow> wf_state" where
  "onProgress p s = (if foreign_event (wp_executionId p) s then s
     else s\<lparr>wf_executionId := (case wf_executionId s of Some i \<Rightarrow> Some i | None \<Rightarrow> Some (wp_executionId p)),
            wf_executionProgress := Some p, wf_executionStatus := Some (wp_status p),
            wf_nodeResults := (case wp_nodeResult p of Some r \<Rightarrow> put_result r (wf_nodeResults s) | None \<Rightarrow> wf_nodeResults s)\<rparr>)"

definition onCompleted :: "WorkflowExecution \<Rightarrow> wf_state \<Rightarrow> wf_state" where
  "onCompleted e s = (if foreign_event (we_executionId e) s then s
     else s\<lparr>wf_executionId := Some (we_executionId e), wf_executionStatus := Some (we_status e),
            wf_nodeResults := we_nodeResults e,
            wf_executionError := (if we_status e = Failed then wf_executionError s else None)\<rparr>)"


section \<open>The check of a connection\<close>

definition neighbors :: "FlowEdge list \<Rightarrow> string \<Rightarrow> string list" where
  "neighbors edges n = map fe_targetNodeId (filter (\<lambda>e. fe_sourceNodeId e = n) edges)"

lemma neighbors_none: "n \<notin> fe_sourceNodeId ` set edges \<Longrightarrow> neighbors edges n = []"
  by (auto simp: neighbors_def filter_empty_conv)

text \<open>
  The depth first search: does it meet \<open>source\<close>? The head of \<open>stack\<close> is the end of the source's
  array, where it pops and pushes.
\<close>

function reaches :: "FlowEdge list \<Rightarrow> string \<Rightarrow> string list \<Rightarrow> string list \<Rightarrow> bool" where
  "reaches edges source visited [] = False"
| "reaches edges source visited (current # stack) =
     (if current = source then True
      else if current \<in> set visited then reaches edges source visited stack
      else reaches edges source (current # visited) (rev (neighbors edges current) @ stack))"
  by pat_completeness auto

termination
proof (relation "measures [\<lambda>(edges, _, visited, _). card (fe_sourceNodeId ` set edges - set visited), \<lambda>(_, _, _, stack). length stack]")
  fix edges :: "FlowEdge list" and source current :: string and visited stack :: "string list"
  assume "current \<noteq> source" and new: "current \<notin> set visited"
  let ?S = "fe_sourceNodeId ` set edges"
  show "((edges, source, current # visited, rev (neighbors edges current) @ stack), edges, source, visited, current # stack)
      \<in> measures [\<lambda>(edges, _, visited, _). card (fe_sourceNodeId ` set edges - set visited), \<lambda>(_, _, _, stack). length stack]"
  proof (cases "current \<in> ?S")
    case True
    then have "card (?S - set (current # visited)) < card (?S - set visited)"
      using new by (intro psubset_card_mono) auto
    then show ?thesis by simp
  next
    case False
    then have "?S - set (current # visited) = ?S - set visited" by auto
    then show ?thesis using False by (simp add: neighbors_none)
  qed
qed auto

definition or_undefined :: "string option \<Rightarrow> string option" where
  "or_undefined h = (if truthy_opt h then h else None)"

definition isWorkflowConnectionAllowed :: "Workflow \<Rightarrow> string option \<Rightarrow> string option \<Rightarrow> string option \<Rightarrow> string option \<Rightarrow> bool" where
  "isWorkflowConnectionAllowed workflow source target sourceHandle ignoredEdgeId =
     (if \<not> truthy_opt source \<or> \<not> truthy_opt target \<or> source = target then False
      else case (find (\<lambda>n. Some (fn_id n) = source) (wo_nodes workflow), find (\<lambda>n. Some (fn_id n) = target) (wo_nodes workflow)) of
        (Some sourceNode, Some targetNode) \<Rightarrow>
          if fn_nodeType sourceNode = EndN \<or> fn_nodeType targetNode = StartN then False
          else let h = or_undefined sourceHandle in
            if fn_nodeType sourceNode = ConditionN \<and> h \<noteq> Some ''left-source'' \<and> h \<noteq> Some ''right-source'' then False
            else let edges = filter (\<lambda>e. Some (fe_id e) \<noteq> ignoredEdgeId) (wo_edges workflow) in
              if some_elem (\<lambda>e. Some (fe_sourceNodeId e) = source \<and> Some (fe_targetNodeId e) = target
                    \<and> or_undefined (fe_sourceHandle e) = h) edges then False
              else \<not> reaches edges (the source) [] [the target]
      | _ \<Rightarrow> False)"


end
