(* ===== verification/WorkflowEditor.thy ===== *)
theory WorkflowEditor
  imports Workflow
begin

text \<open>
  The graph editor of \<open>src/src/components/workflow/WorkflowWorkspace.tsx\<close>: the editing handlers, undo
  and redo, copy and paste, alignment, automatic layout (\<open>src/src/components/workflow/layout.ts\<close>),
  the canvas search, and import. The positions that the dagre library computes are an argument.
\<close>

section \<open>The editor\<close>

definition HISTORY_LIMIT :: nat where "HISTORY_LIMIT = 100"

text \<open>\<open>push\<close>, then \<open>shift\<close> when the limit is passed.\<close>

definition push_limited :: "Workflow list \<Rightarrow> Workflow \<Rightarrow> Workflow list" where
  "push_limited ws w = (let ws' = ws @ [w] in if HISTORY_LIMIT < length ws' then tl ws' else ws')"

definition pushHistory :: "wf_state \<Rightarrow> wf_state" where
  "pushHistory s = (case wf_local s of
       None \<Rightarrow> s
     | Some w \<Rightarrow> s\<lparr>wf_history := push_limited (wf_history s) w, wf_future := []\<rparr>)"

definition on_local :: "(Workflow \<Rightarrow> Workflow) \<Rightarrow> wf_state \<Rightarrow> wf_state" where
  "on_local f s = s\<lparr>wf_local := map_option f (wf_local s)\<rparr>"

text \<open>A structural change: history, change, dirty flag.\<close>

definition edit_local :: "(Workflow \<Rightarrow> Workflow) \<Rightarrow> wf_state \<Rightarrow> wf_state" where
  "edit_local f s = setDirty True (on_local f (pushHistory s))"

definition activeWorkflow :: "wf_state \<Rightarrow> Workflow option" where
  "activeWorkflow s = find (\<lambda>w. Some (wo_id w) = wf_activeWorkflowId s) (wf_workflows s)"

text \<open>The effect that follows a change of the active workflow.\<close>

definition syncActive :: "wf_state \<Rightarrow> wf_state" where
  "syncActive s = s\<lparr>wf_local := activeWorkflow s,
     wf_selectedNodeId := None, wf_selectedEdgeId := None, wf_history := [], wf_future := []\<rparr>"

text \<open>
  The effect runs when the identifier of the active workflow (none when the list has no such
  workflow) is another than at the last render.
\<close>

definition with_effect :: "(wf_state \<Rightarrow> wf_state) \<Rightarrow> wf_state \<Rightarrow> wf_state" where
  "with_effect action s = (let s' = action s in
     if map_option wo_id (activeWorkflow s') = map_option wo_id (activeWorkflow s) then s' else syncActive s')"

definition remove_node :: "string \<Rightarrow> Workflow \<Rightarrow> Workflow" where
  "remove_node i w = w\<lparr>wo_nodes := filter (\<lambda>n. fn_id n \<noteq> i) (wo_nodes w),
     wo_edges := filter (\<lambda>e. fe_sourceNodeId e \<noteq> i \<and> fe_targetNodeId e \<noteq> i) (wo_edges w)\<rparr>"

definition place_node :: "string \<Rightarrow> position \<Rightarrow> Workflow \<Rightarrow> Workflow" where
  "place_node i p w = w\<lparr>wo_nodes := map_where (\<lambda>n. fn_id n = i) (\<lambda>n. n\<lparr>fn_position := Some p\<rparr>) (wo_nodes w)\<rparr>"

text \<open>The changes React Flow reports that matter: the end of a drag, and a removal.\<close>

datatype NodeChange = PositionChange string position | RemoveChange string

fun apply_change :: "NodeChange \<Rightarrow> Workflow \<Rightarrow> Workflow" where
  "apply_change (PositionChange i p) w = place_node i p w"
| "apply_change (RemoveChange i) w = remove_node i w"

definition handleNodesChange :: "NodeChange list \<Rightarrow> wf_state \<Rightarrow> wf_state" where
  "handleNodesChange changes s = (if changes = [] then s else edit_local (fold apply_change changes) s)"

definition newEdge :: "string \<Rightarrow> string \<Rightarrow> string \<Rightarrow> string option \<Rightarrow> FlowEdge" where
  "newEdge uuid source target sourceHandle = \<lparr> fe_id = uuid, fe_sourceNodeId = source, fe_targetNodeId = target,
     fe_condition = None, fe_label = None, fe_sourceHandle = or_undefined sourceHandle \<rparr>"

definition isValidConnection :: "string \<Rightarrow> string \<Rightarrow> string option \<Rightarrow> wf_state \<Rightarrow> bool" where
  "isValidConnection source target sourceHandle s = (case wf_local s of
       None \<Rightarrow> False
     | Some w \<Rightarrow> isWorkflowConnectionAllowed w (Some source) (Some target) (or_undefined sourceHandle) None)"

definition onConnect :: "string \<Rightarrow> string \<Rightarrow> string \<Rightarrow> string option \<Rightarrow> wf_state \<Rightarrow> wf_state" where
  "onConnect uuid source target sourceHandle s =
     edit_local (\<lambda>w. w\<lparr>wo_edges := wo_edges w @ [newEdge uuid source target sourceHandle]\<rparr>) s"

definition addNodeAtPosition :: "string \<Rightarrow> NodeType \<Rightarrow> position \<Rightarrow> wf_state \<Rightarrow> wf_state" where
  "addNodeAtPosition uuid nodeType p s =
     (let newNode = \<lparr> fn_id = uuid, fn_name = nm_label (NODE_TYPE_META nodeType), fn_nodeType = nodeType,
            fn_config = defaultConfig nodeType, fn_position = Some p \<rparr>
      in (edit_local (\<lambda>w. w\<lparr>wo_nodes := wo_nodes w @ [newNode]\<rparr>) s)\<lparr>wf_selectedNodeId := Some uuid\<rparr>)"

definition handleAddNode :: "string \<Rightarrow> NodeType \<Rightarrow> wf_state \<Rightarrow> wf_state" where
  "handleAddNode uuid nodeType s = (case wf_local s of
       None \<Rightarrow> s
     | Some w \<Rightarrow> addNodeAtPosition uuid nodeType (250, of_nat (length (wo_nodes w)) * 120 + 60) s)"

definition deselect_node :: "string \<Rightarrow> wf_state \<Rightarrow> wf_state" where
  "deselect_node i s = (if wf_selectedNodeId s = Some i then s\<lparr>wf_selectedNodeId := None\<rparr> else s)"

definition deselect_edge :: "string \<Rightarrow> wf_state \<Rightarrow> wf_state" where
  "deselect_edge i s = (if wf_selectedEdgeId s = Some i then s\<lparr>wf_selectedEdgeId := None\<rparr> else s)"

definition remove_edge :: "string \<Rightarrow> Workflow \<Rightarrow> Workflow" where
  "remove_edge i w = w\<lparr>wo_edges := filter (\<lambda>e. fe_id e \<noteq> i) (wo_edges w)\<rparr>"

definition handleDeleteNode :: "string \<Rightarrow> wf_state \<Rightarrow> wf_state" where
  "handleDeleteNode i s = deselect_node i (edit_local (remove_node i) s)"

definition handleDeleteEdge :: "string \<Rightarrow> wf_state \<Rightarrow> wf_state" where
  "handleDeleteEdge i s = deselect_edge i (edit_local (remove_edge i) s)"

definition handleEdgesChange :: "string list \<Rightarrow> wf_state \<Rightarrow> wf_state" where
  "handleEdgesChange removed s = (if removed = [] then s
     else fold deselect_edge removed (edit_local (fold remove_edge removed) s))"

definition shifted :: "position option \<Rightarrow> position option" where
  "shifted p = Some (case p of Some (x, y) \<Rightarrow> (x + 40, y + 40) | None \<Rightarrow> (280, 80))"

definition duplicate_node :: "string \<Rightarrow> string \<Rightarrow> Workflow \<Rightarrow> Workflow" where
  "duplicate_node uuid i w = (case find (\<lambda>n. fn_id n = i) (wo_nodes w) of
       None \<Rightarrow> w
     | Some n \<Rightarrow> w\<lparr>wo_nodes := wo_nodes w @ [\<lparr> fn_id = uuid, fn_name = fn_name n @ '' (copy)'', fn_nodeType = fn_nodeType n,
          fn_config = fn_config n, fn_position = shifted (fn_position n) \<rparr>]\<rparr>)"

definition handleDuplicateNode :: "string \<Rightarrow> string \<Rightarrow> wf_state \<Rightarrow> wf_state" where
  "handleDuplicateNode uuid i s = edit_local (duplicate_node uuid i) s"

definition disconnect_node :: "string \<Rightarrow> Workflow \<Rightarrow> Workflow" where
  "disconnect_node i w = w\<lparr>wo_edges := filter (\<lambda>e. fe_sourceNodeId e \<noteq> i \<and> fe_targetNodeId e \<noteq> i) (wo_edges w)\<rparr>"

definition handleDisconnectNode :: "string \<Rightarrow> wf_state \<Rightarrow> wf_state" where
  "handleDisconnectNode i s = edit_local (disconnect_node i) s"

text \<open>After the user has confirmed.\<close>

definition handleClearCanvas :: "wf_state \<Rightarrow> wf_state" where
  "handleClearCanvas s = (if wf_local s = None then s
     else (edit_local (\<lambda>w. w\<lparr>wo_nodes := [], wo_edges := []\<rparr>) s)\<lparr>wf_selectedNodeId := None, wf_selectedEdgeId := None\<rparr>)"

definition reversed_handle :: "Workflow \<Rightarrow> FlowEdge \<Rightarrow> string option" where
  "reversed_handle w e = (if map_option fn_nodeType (find (\<lambda>n. fn_id n = fe_targetNodeId e) (wo_nodes w)) = Some ConditionN
     then None else Some ''bottom-source'')"

definition reverse_edge :: "string \<Rightarrow> string option \<Rightarrow> Workflow \<Rightarrow> Workflow" where
  "reverse_edge i h w = w\<lparr>wo_edges := map_where (\<lambda>e. fe_id e = i)
     (\<lambda>e. e\<lparr>fe_sourceNodeId := fe_targetNodeId e, fe_targetNodeId := fe_sourceNodeId e, fe_sourceHandle := h\<rparr>) (wo_edges w)\<rparr>"

definition handleReverseEdge :: "string \<Rightarrow> wf_state \<Rightarrow> wf_state" where
  "handleReverseEdge i s = (case wf_local s of
       None \<Rightarrow> s
     | Some w \<Rightarrow> (case find (\<lambda>e. fe_id e = i) (wo_edges w) of
           None \<Rightarrow> s
         | Some e \<Rightarrow> (if isWorkflowConnectionAllowed w (Some (fe_targetNodeId e)) (Some (fe_sourceNodeId e))
                 (reversed_handle w e) (Some (fe_id e))
               then edit_local (reverse_edge i (reversed_handle w e)) s else s)))"

definition handleUndo :: "wf_state \<Rightarrow> wf_state" where
  "handleUndo s = (case wf_local s of
       None \<Rightarrow> s
     | Some w \<Rightarrow> (if wf_history s = [] then s
         else s\<lparr>wf_future := push_limited (wf_future s) w, wf_local := Some (last (wf_history s)),
                wf_history := butlast (wf_history s), wf_selectedNodeId := None, wf_selectedEdgeId := None, wf_dirty := True\<rparr>))"

definition handleRedo :: "wf_state \<Rightarrow> wf_state" where
  "handleRedo s = (case wf_local s of
       None \<Rightarrow> s
     | Some w \<Rightarrow> (if wf_future s = [] then s
         else s\<lparr>wf_history := push_limited (wf_history s) w, wf_local := Some (last (wf_future s)),
                wf_future := butlast (wf_future s), wf_selectedNodeId := None, wf_selectedEdgeId := None, wf_dirty := True\<rparr>))"

text \<open>The selected nodes with the edges between them.\<close>

definition selected_part :: "string list \<Rightarrow> Workflow \<Rightarrow> FlowNode list \<times> FlowEdge list" where
  "selected_part sel w = (filter (\<lambda>n. fn_id n \<in> set sel) (wo_nodes w),
     filter (\<lambda>e. fe_sourceNodeId e \<in> set sel \<and> fe_targetNodeId e \<in> set sel) (wo_edges w))"

definition handleCopy :: "string list \<Rightarrow> wf_state \<Rightarrow> wf_state" where
  "handleCopy sel s = (case wf_local s of
       None \<Rightarrow> s
     | Some w \<Rightarrow> (if sel = [] then s else s\<lparr>wf_clipboard := Some (selected_part sel w)\<rparr>))"

text \<open>Copies of nodes and edges under new identifiers, the ends of an edge renamed with its nodes.\<close>

definition fresh_nodes :: "string list \<Rightarrow> FlowNode list \<Rightarrow> FlowNode list" where
  "fresh_nodes uuids nodes = map (\<lambda>(u, n). n\<lparr>fn_id := u, fn_position := shifted (fn_position n)\<rparr>) (zip uuids nodes)"

definition id_map :: "string list \<Rightarrow> FlowNode list \<Rightarrow> string \<Rightarrow> string" where
  "id_map uuids nodes i = nullish (map_of (rev (zip (map fn_id nodes) uuids)) i) []"

definition fresh_edges :: "(string \<Rightarrow> string) \<Rightarrow> string list \<Rightarrow> FlowEdge list \<Rightarrow> FlowEdge list" where
  "fresh_edges m uuids edges = map (\<lambda>(u, e). e\<lparr>fe_id := u, fe_sourceNodeId := m (fe_sourceNodeId e),
     fe_targetNodeId := m (fe_targetNodeId e)\<rparr>) (zip uuids edges)"

definition insert_part :: "string list \<Rightarrow> string list \<Rightarrow> FlowNode list \<times> FlowEdge list \<Rightarrow> Workflow \<Rightarrow> Workflow" where
  "insert_part nodeIds edgeIds part w = (case part of (nodes, edges) \<Rightarrow>
     w\<lparr>wo_nodes := wo_nodes w @ fresh_nodes nodeIds nodes,
       wo_edges := wo_edges w @ fresh_edges (id_map nodeIds nodes) edgeIds edges\<rparr>)"

definition handlePaste :: "string list \<Rightarrow> string list \<Rightarrow> wf_state \<Rightarrow> wf_state" where
  "handlePaste nodeIds edgeIds s = (case (wf_clipboard s, wf_local s) of
       (Some (nodes, edges), Some w) \<Rightarrow> (if nodes = [] then s else edit_local (insert_part nodeIds edgeIds (nodes, edges)) s)
     | _ \<Rightarrow> s)"

definition handleDuplicateSelection :: "string list \<Rightarrow> string list \<Rightarrow> string list \<Rightarrow> wf_state \<Rightarrow> wf_state" where
  "handleDuplicateSelection sel nodeIds edgeIds s = (case wf_local s of
       None \<Rightarrow> s
     | Some w \<Rightarrow> (if sel = []
         then (if truthy_opt (wf_selectedNodeId s) then handleDuplicateNode (hd nodeIds) (the (wf_selectedNodeId s)) s else s)
         else edit_local (insert_part nodeIds edgeIds (selected_part sel w)) s))"

text \<open>The delete key with several nodes or edges selected.\<close>

definition delete_selection :: "string list \<Rightarrow> string list \<Rightarrow> Workflow \<Rightarrow> Workflow" where
  "delete_selection nodeIds edgeIds w = w\<lparr>wo_nodes := filter (\<lambda>n. fn_id n \<notin> set nodeIds) (wo_nodes w),
     wo_edges := filter (\<lambda>e. fe_id e \<notin> set edgeIds \<and> fe_sourceNodeId e \<notin> set nodeIds \<and> fe_targetNodeId e \<notin> set nodeIds) (wo_edges w)\<rparr>"

definition handleDeleteKey :: "string list \<Rightarrow> string list \<Rightarrow> wf_state \<Rightarrow> wf_state" where
  "handleDeleteKey selNodes selEdges s = (if wf_local s = None then s
     else if 1 < length selNodes \<or> 1 < length selEdges \<or> (1 \<le> length selNodes \<and> 1 \<le> length selEdges)
     then (edit_local (delete_selection selNodes selEdges) s)\<lparr>wf_selectedNodeId := None, wf_selectedEdgeId := None\<rparr>
     else if truthy_opt (wf_selectedEdgeId s) then handleDeleteEdge (the (wf_selectedEdgeId s)) s
     else if truthy_opt (wf_selectedNodeId s) then handleDeleteNode (the (wf_selectedNodeId s)) s
     else s)"

text \<open>The configuration panel changes the name or the configuration of the selected node.\<close>

definition handleUpdateNode :: "string option \<Rightarrow> json dict option \<Rightarrow> wf_state \<Rightarrow> wf_state" where
  "handleUpdateNode name config s = (if \<not> truthy_opt (wf_selectedNodeId s) then s
     else setDirty True (on_local (\<lambda>w. w\<lparr>wo_nodes := map_where (\<lambda>n. Some (fn_id n) = wf_selectedNodeId s)
       (\<lambda>n. n\<lparr>fn_name := nullish name (fn_name n), fn_config := nullish config (fn_config n)\<rparr>) (wo_nodes w)\<rparr>) s))"

definition handleNodeClick :: "string \<Rightarrow> wf_state \<Rightarrow> wf_state" where
  "handleNodeClick i s = s\<lparr>wf_selectedNodeId := Some i, wf_selectedEdgeId := None\<rparr>"

definition handleEdgeClick :: "string \<Rightarrow> wf_state \<Rightarrow> wf_state" where
  "handleEdgeClick i s = s\<lparr>wf_selectedEdgeId := Some i, wf_selectedNodeId := None\<rparr>"

definition handlePaneClick :: "wf_state \<Rightarrow> wf_state" where
  "handlePaneClick s = s\<lparr>wf_selectedEdgeId := None\<rparr>"

text \<open>
  Saving, running (after a save when there are unsaved changes) and renaming. The reply of the save
  and, for a run, the reply of the run are arguments; \<open>None\<close> in the second place: a failed save
  rejects the handler before it runs anything.
\<close>

definition handleSave :: "string \<Rightarrow> string + unit \<Rightarrow> wf_state \<Rightarrow> wf_state" where
  "handleSave now reply s = (case wf_local s of None \<Rightarrow> s | Some w \<Rightarrow> saveWorkflow_done now w reply s)"

definition handleRun :: "string \<Rightarrow> string + unit \<Rightarrow> wf_state \<Rightarrow> wf_state \<times> string option" where
  "handleRun now reply s = (case wf_local s of
       None \<Rightarrow> (s, None)
     | Some w \<Rightarrow> (if wf_dirty s
         then (case reply of Inl e \<Rightarrow> (s, None) | Inr _ \<Rightarrow> (runWorkflow_begin (saveWorkflow_done now w reply s), Some (wo_id w)))
         else (runWorkflow_begin s, Some (wo_id w))))"

definition commitRename :: "string \<Rightarrow> string \<Rightarrow> string \<Rightarrow> string + unit \<Rightarrow> wf_state \<Rightarrow> wf_state" where
  "commitRename renamingId renameValue now reply s = (let name = js_trim renameValue in
     if \<not> truthy renamingId \<or> \<not> truthy name then s
     else case find (\<lambda>w. wo_id w = renamingId) (wf_workflows s) of
       None \<Rightarrow> s
     | Some w \<Rightarrow> (case reply of
           Inl e \<Rightarrow> s
         | Inr _ \<Rightarrow> (let s' = saveWorkflow_done now (w\<lparr>wo_name := name\<rparr>) reply s in
             if map_option wo_id (wf_local s') = Some renamingId then on_local (\<lambda>w. w\<lparr>wo_name := name\<rparr>) s' else s')))"

section \<open>Alignment and layout\<close>

text \<open>\<open>Math.round\<close>.\<close>

definition js_round :: "rat \<Rightarrow> rat" where
  "js_round x = of_int \<lfloor>x + 1 / 2\<rfloor>"

text \<open>A selected node of the canvas, with its measured size when there is one.\<close>

record RfNode =
  rf_id :: string
  rf_position :: position
  rf_width :: "rat option"
  rf_height :: "rat option"

record dim =
  dm_x :: rat
  dm_y :: rat
  dm_w :: rat
  dm_h :: rat

datatype AlignMode = AlignLeft | AlignCenterH | AlignRight | AlignTop | AlignCenterV | AlignBottom | DistributeH | DistributeV

definition node_dim :: "RfNode \<Rightarrow> dim" where
  "node_dim r = \<lparr> dm_x = fst (rf_position r), dm_y = snd (rf_position r), dm_w = nullish (rf_width r) 180,
     dm_h = nullish (rf_height r) 60 \<rparr>"

definition align_dims :: "RfNode list \<Rightarrow> dim dict" where
  "align_dims selected = fromEntries (map (\<lambda>r. (rf_id r, node_dim r)) selected)"

text \<open>
  The middle entries of \<open>entries\<close>, ordered by the centre of the interval from \<open>start d\<close> of length \<open>len d\<close>,
  with the start that spaces the centres evenly between the first and the last.
\<close>

definition distribute :: "(dim \<Rightarrow> rat) \<Rightarrow> (dim \<Rightarrow> rat) \<Rightarrow> dim dict \<Rightarrow> (string \<times> dim \<times> rat) list option" where
  "distribute start len entries =
     (let centre = (\<lambda>(_, d). start d + len d / 2); sorted = sort_key centre entries in
      if length sorted < 3 then None
      else let first = centre (hd sorted); step = (centre (last sorted) - first) / of_nat (length sorted - 1) in
        Some (map (\<lambda>(k, i, d). (i, d, first + step * of_nat k - len d / 2))
          (filter (\<lambda>(k, _). k \<noteq> 0 \<and> k \<noteq> length sorted - 1) (enumerate 0 sorted))))"

definition align_updates :: "AlignMode \<Rightarrow> dim dict \<Rightarrow> position dict option" where
  "align_updates mode dims =
     (let minX = Min ((dm_x \<circ> snd) ` set dims); minY = Min ((dm_y \<circ> snd) ` set dims);
          maxRight = Max ((\<lambda>(_, d). dm_x d + dm_w d) ` set dims); maxBottom = Max ((\<lambda>(_, d). dm_y d + dm_h d) ` set dims);
          centerX = (minX + maxRight) / 2; centerY = (minY + maxBottom) / 2
      in case mode of
         AlignLeft \<Rightarrow> Some (map (\<lambda>(i, d). (i, minX, dm_y d)) dims)
       | AlignRight \<Rightarrow> Some (map (\<lambda>(i, d). (i, maxRight - dm_w d, dm_y d)) dims)
       | AlignCenterH \<Rightarrow> Some (map (\<lambda>(i, d). (i, centerX - dm_w d / 2, dm_y d)) dims)
       | AlignTop \<Rightarrow> Some (map (\<lambda>(i, d). (i, dm_x d, minY)) dims)
       | AlignBottom \<Rightarrow> Some (map (\<lambda>(i, d). (i, dm_x d, maxBottom - dm_h d)) dims)
       | AlignCenterV \<Rightarrow> Some (map (\<lambda>(i, d). (i, dm_x d, centerY - dm_h d / 2)) dims)
       | DistributeH \<Rightarrow> map_option (map (\<lambda>(i, d, v). (i, v, dm_y d))) (distribute dm_x dm_w dims)
       | DistributeV \<Rightarrow> map_option (map (\<lambda>(i, d, v). (i, dm_x d, v))) (distribute dm_y dm_h dims))"

definition move_nodes :: "position dict \<Rightarrow> Workflow \<Rightarrow> Workflow" where
  "move_nodes updates w = w\<lparr>wo_nodes := map (\<lambda>n. case map_of updates (fn_id n) of
       None \<Rightarrow> n
     | Some (x, y) \<Rightarrow> n\<lparr>fn_position := Some (js_round x, js_round y)\<rparr>) (wo_nodes w)\<rparr>"

text \<open>The history is pushed before the mode is looked at.\<close>

definition handleAlignNodes :: "AlignMode \<Rightarrow> RfNode list \<Rightarrow> wf_state \<Rightarrow> wf_state" where
  "handleAlignNodes mode selected s = (if wf_local s = None \<or> length selected < 2 then s
     else case align_updates mode (align_dims selected) of
       None \<Rightarrow> pushHistory s
     | Some updates \<Rightarrow> edit_local (move_nodes updates) s)"

definition getNodeDimensions :: "NodeType \<Rightarrow> rat \<times> rat" where
  "getNodeDimensions nodeType = (case nm_shape (NODE_TYPE_META nodeType) of
       CircleShape \<Rightarrow> (56, 56) | DiamondShape \<Rightarrow> (80, 80) | RectangleShape \<Rightarrow> (180, 56))"

datatype LayoutDirection = TB | LR

text \<open>
  \<open>dagre\<close> is the library: from the direction with the node and rank separation, the sized nodes and
  the edges between them to the centre of a node.
\<close>

type_synonym dagre_layout =
  "LayoutDirection \<times> rat \<times> rat \<Rightarrow> (string \<times> rat \<times> rat) list \<Rightarrow> (string \<times> string) list \<Rightarrow> string \<Rightarrow> position option"

definition dagre_edges :: "FlowNode list \<Rightarrow> FlowEdge list \<Rightarrow> (string \<times> string) list" where
  "dagre_edges nodes edges = map (\<lambda>e. (fe_sourceNodeId e, fe_targetNodeId e))
     (filter (\<lambda>e. fe_sourceNodeId e \<in> fn_id ` set nodes \<and> fe_targetNodeId e \<in> fn_id ` set nodes) edges)"

definition getLayoutedNodes :: "dagre_layout \<Rightarrow> FlowNode list \<Rightarrow> FlowEdge list \<Rightarrow> LayoutDirection \<Rightarrow> FlowNode list" where
  "getLayoutedNodes dagre nodes edges direction = (if nodes = [] then nodes
     else let layouted = dagre (direction, if direction = TB then 60 else 80, if direction = TB then 90 else 120)
            (map (\<lambda>n. (fn_id n, getNodeDimensions (fn_nodeType n))) nodes) (dagre_edges nodes edges)
       in map (\<lambda>n. case (layouted (fn_id n), getNodeDimensions (fn_nodeType n)) of
            (None, _) \<Rightarrow> n
          | (Some (x, y), width, height) \<Rightarrow> n\<lparr>fn_position := Some (js_round (x - width / 2), js_round (y - height / 2))\<rparr>) nodes)"

definition handleAutoLayout :: "dagre_layout \<Rightarrow> LayoutDirection \<Rightarrow> wf_state \<Rightarrow> wf_state" where
  "handleAutoLayout dagre direction s = (case wf_local s of
       None \<Rightarrow> s
     | Some w \<Rightarrow> (if wo_nodes w = [] then s
         else edit_local (\<lambda>w'. w'\<lparr>wo_nodes := getLayoutedNodes dagre (wo_nodes w) (wo_edges w) direction\<rparr>) s))"


section \<open>Canvas search\<close>

definition js_includes :: "string \<Rightarrow> string \<Rightarrow> bool" where
  "js_includes s q \<longleftrightarrow> list_ex (\<lambda>k. take (length q) (drop k s) = q) [0..<Suc (length s)]"

definition canvasSearchMatches :: "string \<Rightarrow> Workflow option \<Rightarrow> FlowNode list" where
  "canvasSearchMatches query local = (case local of
       None \<Rightarrow> []
     | Some w \<Rightarrow> (if \<not> truthy (js_trim query) then []
         else let q = js_toLowerCase query in
           filter (\<lambda>n. js_includes (js_toLowerCase (fn_name n)) q
             \<or> js_includes (js_toLowerCase (node_type_name (fn_nodeType n))) q
             \<or> js_includes (js_toLowerCase (nm_label (NODE_TYPE_META (fn_nodeType n)))) q) (wo_nodes w)))"

definition nextSearchMatch :: "FlowNode list \<Rightarrow> nat \<Rightarrow> nat" where
  "nextSearchMatch matches i = (if matches = [] then i else (i + 1) mod length matches)"

text \<open>\<open>i - 1 + n\<close>, never negative: the sum is taken first.\<close>

definition prevSearchMatch :: "FlowNode list \<Rightarrow> nat \<Rightarrow> nat" where
  "prevSearchMatch matches i = (if matches = [] then i else (i + length matches - 1) mod length matches)"


section \<open>Import\<close>

text \<open>
  The object read from the file, after \<open>JSON.parse\<close>: a field is \<open>None\<close> when it is absent or, for the
  arrays, not an array. Their elements are not looked at (the source casts them).
\<close>

record ImportedWorkflow =
  im_name :: "string option"
  im_description :: "string option"
  im_nodes :: "FlowNode list option"
  im_edges :: "FlowEdge list option"
  im_variables :: "FlowVariable list option"

definition or_text :: "string option \<Rightarrow> string \<Rightarrow> string" where
  "or_text x d = (if truthy_opt x then the x else d)"

definition merged_import :: "ImportedWorkflow \<Rightarrow> FlowNode list \<Rightarrow> FlowEdge list \<Rightarrow> Workflow \<Rightarrow> Workflow" where
  "merged_import obj nodes edges created = created\<lparr>wo_name := or_text (im_name obj) (wo_name created),
     wo_description := or_text (im_description obj) [], wo_nodes := nodes, wo_edges := edges,
     wo_variables := nullish (im_variables obj) []\<rparr>"

text \<open>
  \<open>None\<close>: the file is no JSON. The backend's replies to the two commands are arguments, \<open>create\<close> as a
  function of the workflow that is sent.
\<close>

definition handleImportJson :: "string \<Rightarrow> string \<Rightarrow> string \<Rightarrow> (Workflow \<Rightarrow> string + Workflow) \<Rightarrow> string + unit
    \<Rightarrow> ImportedWorkflow option \<Rightarrow> wf_state \<Rightarrow> wf_state" where
  "handleImportJson uuid now untitled create save parsed s = (case parsed of
       None \<Rightarrow> s
     | Some obj \<Rightarrow> (case (im_nodes obj, im_edges obj) of
           (Some nodes, Some edges) \<Rightarrow>
             (case create (newWorkflow uuid now (or_text (im_name obj) untitled)) of
                Inl e \<Rightarrow> s
              | Inr created \<Rightarrow> (let s1 = with_effect (createWorkflow_done (Inr created)) s in
                  case save of
                    Inl e \<Rightarrow> s1
                  | Inr _ \<Rightarrow> with_effect (setActiveWorkflowId (Some (wo_id created)))
                      (with_effect (saveWorkflow_done now (merged_import obj nodes edges created) save) s1)))
         | _ \<Rightarrow> s))"

end
