(* ===== verification/WorkflowGraph.thy ===== *)
theory WorkflowGraph
  imports WorkflowEditor Interfaces
begin

text \<open>
  The graphs of the workflow editor: the depth first search of the connection check decides
  reachability, each edit keeps a well formed graph well formed, and the editor as a state machine
  over all its handlers with that invariant (an \<open>action_store\<close>).
\<close>

section \<open>The check of a connection\<close>

definition arrows :: "FlowEdge list \<Rightarrow> (string \<times> string) set" where
  "arrows es = (\<lambda>e. (fe_sourceNodeId e, fe_targetNodeId e)) ` set es"

lemma arrows_simps [simp]:
  "arrows [] = {}"
  "arrows (e # es) = insert (fe_sourceNodeId e, fe_targetNodeId e) (arrows es)"
  "arrows (es @ fs) = arrows es \<union> arrows fs"
  by (auto simp: arrows_def)

lemma finite_arrows [simp]: "finite (arrows es)"
  by (simp add: arrows_def)

lemma arrows_mono: "set es \<subseteq> set fs \<Longrightarrow> arrows es \<subseteq> arrows fs"
  by (auto simp: arrows_def)

lemma in_neighbors: "y \<in> set (neighbors es x) \<longleftrightarrow> (x, y) \<in> arrows es"
  by (auto simp: neighbors_def arrows_def)

text \<open>A path out of a set whose exits are all in \<open>B\<close> passes through \<open>B\<close>.\<close>

lemma path_exits:
  assumes "(x, z) \<in> R\<^sup>*" and "x \<in> A \<union> B" and "z \<notin> A" and "R `` A \<subseteq> A \<union> B"
  shows "\<exists>y \<in> B. (y, z) \<in> R\<^sup>*"
  using assms(1,2)
proof (induction rule: converse_rtrancl_induct)
  case base
  then show ?case using assms(3) by auto
next
  case (step x y)
  show ?case
  proof (cases "x \<in> B")
    case True
    with step.hyps show ?thesis by (meson converse_rtrancl_into_rtrancl)
  next
    case False
    with step assms(4) show ?thesis by auto
  qed
qed

lemma reaches_correct:
  assumes "source \<notin> set visited" and "arrows es `` set visited \<subseteq> set visited \<union> set stack"
  shows "reaches es source visited stack \<longleftrightarrow> (\<exists>x \<in> set stack. (x, source) \<in> (arrows es)\<^sup>*)"
  using assms
proof (induction es source visited stack rule: reaches.induct)
  case (1 es source visited)
  then show ?case by simp
next
  case (2 es source visited current stack)
  show ?case
  proof (cases "current = source \<or> current \<in> set visited")
    case True
    show ?thesis
    proof (cases "current = source")
      case False
      then have "reaches es source visited stack \<longleftrightarrow> (\<exists>x \<in> set stack. (x, source) \<in> (arrows es)\<^sup>*)"
        using True 2 by auto
      moreover have "(current, source) \<in> (arrows es)\<^sup>* \<Longrightarrow> \<exists>x \<in> set stack. (x, source) \<in> (arrows es)\<^sup>*"
        by (rule path_exits[of current source _ "set visited"]) (use True False 2(3,4) in auto)
      ultimately show ?thesis using True False by auto
    qed simp
  next
    case False
    let ?next = "rev (neighbors es current) @ stack"
    have "reaches es source (current # visited) ?next \<longleftrightarrow> (\<exists>x \<in> set ?next. (x, source) \<in> (arrows es)\<^sup>*)"
      by (rule 2(2)) (use False 2(3,4) in \<open>auto simp: in_neighbors\<close>)
    moreover have "(current, source) \<in> (arrows es)\<^sup>* \<longleftrightarrow> (\<exists>x \<in> set (neighbors es current). (x, source) \<in> (arrows es)\<^sup>*)"
      unfolding Bex_def in_neighbors
      using False by (metis converse_rtranclE converse_rtrancl_into_rtrancl)
    ultimately show ?thesis using False by auto
  qed
qed

lemma reaches_iff: "reaches es source [] [target] \<longleftrightarrow> (target, source) \<in> (arrows es)\<^sup>*"
  using reaches_correct[of source "[]" es "[target]"] by (simp del: reaches.simps)

section \<open>Well formed graphs\<close>

text \<open>The type of a node, and what an edge needs of its ends.\<close>

definition kinds :: "FlowNode list \<Rightarrow> string \<Rightarrow> NodeType option" where
  "kinds ns = map_of (map (\<lambda>n. (fn_id n, fn_nodeType n)) ns)"

definition branch_handle :: "string option \<Rightarrow> bool" where
  "branch_handle h \<longleftrightarrow> h = Some ''left-source'' \<or> h = Some ''right-source''"

definition joins :: "(string \<Rightarrow> NodeType option) \<Rightarrow> string \<Rightarrow> string \<Rightarrow> string option \<Rightarrow> bool" where
  "joins k a b h = (case (k a, k b) of
       (Some s, Some t) \<Rightarrow> s \<noteq> EndN \<and> t \<noteq> StartN \<and> (s = ConditionN \<longrightarrow> branch_handle h)
     | _ \<Rightarrow> False)"

definition link :: "FlowEdge \<Rightarrow> string \<times> string \<times> string option" where
  "link e = (fe_sourceNodeId e, fe_targetNodeId e, or_undefined (fe_sourceHandle e))"

definition good_edge :: "(string \<Rightarrow> NodeType option) \<Rightarrow> FlowEdge \<Rightarrow> bool" where
  "good_edge k e = joins k (fe_sourceNodeId e) (fe_targetNodeId e) (or_undefined (fe_sourceHandle e))"

definition good_graph :: "FlowNode list \<Rightarrow> FlowEdge list \<Rightarrow> bool" where
  "good_graph ns es \<longleftrightarrow> distinct (map fn_id ns) \<and> distinct (map fe_id es) \<and> distinct (map link es)
     \<and> list_all (good_edge (kinds ns)) es \<and> acyclic (arrows es)"

abbreviation good_workflow :: "Workflow \<Rightarrow> bool" where
  "good_workflow w \<equiv> good_graph (wo_nodes w) (wo_edges w)"

lemma find_kind: "map_option fn_nodeType (find (\<lambda>n. Some (fn_id n) = Some a) ns) = kinds ns a"
  by (induction ns) (auto simp: kinds_def)

lemma allowed_iff:
  "isWorkflowConnectionAllowed w (Some a) (Some b) h ignored \<longleftrightarrow>
     a \<noteq> [] \<and> b \<noteq> [] \<and> joins (kinds (wo_nodes w)) a b (or_undefined h) \<and>
     (let es = filter (\<lambda>e. Some (fe_id e) \<noteq> ignored) (wo_edges w) in
       (a, b, or_undefined h) \<notin> link ` set es \<and> (b, a) \<notin> (arrows es)\<^sup>*)"
proof (cases "a = [] \<or> b = [] \<or> a = b")
  case True
  then show ?thesis by (auto simp: isWorkflowConnectionAllowed_def Let_def)
next
  case False
  let ?es = "filter (\<lambda>e. Some (fe_id e) \<noteq> ignored) (wo_edges w)"
  have link: "some_elem (\<lambda>e. Some (fe_sourceNodeId e) = Some a \<and> Some (fe_targetNodeId e) = Some b
      \<and> or_undefined (fe_sourceHandle e) = or_undefined h) ?es \<longleftrightarrow> (a, b, or_undefined h) \<in> link ` set ?es"
    by (auto simp: some_elem_def list_ex_iff link_def image_iff)
  show ?thesis
    using False find_kind[of a "wo_nodes w"] find_kind[of b "wo_nodes w"]
    unfolding isWorkflowConnectionAllowed_def joins_def Let_def link reaches_iff
    by (auto simp: reaches_iff branch_handle_def simp del: reaches.simps split: option.split)
qed


section \<open>Edits keep a graph well formed\<close>

definition shape :: "FlowNode list \<Rightarrow> (string \<times> NodeType) list" where
  "shape ns = map (\<lambda>n. (fn_id n, fn_nodeType n)) ns"

lemma ids_shape: "map fn_id ns = map fst (shape ns)"
  by (simp add: shape_def)

lemma good_shape: "shape ns' = shape ns \<Longrightarrow> good_graph ns' es = good_graph ns es"
  unfolding good_graph_def ids_shape kinds_def by (simp add: shape_def)

lemma shape_map: "(\<And>n. fn_id (f n) = fn_id n \<and> fn_nodeType (f n) = fn_nodeType n) \<Longrightarrow> shape (map f ns) = shape ns"
  by (simp add: shape_def)

lemma shape_map_where:
  "(\<And>n. fn_id (f n) = fn_id n \<and> fn_nodeType (f n) = fn_nodeType n) \<Longrightarrow> shape (map_where P f ns) = shape ns"
  by (simp add: shape_def map_where_def)

lemma kinds_filter: "kinds (filter (\<lambda>n. Q (fn_id n)) ns) a = (if Q a then kinds ns a else None)"
  by (induction ns) (auto simp: kinds_def)

lemma kinds_append: "kinds (ns @ ms) a = (case kinds ns a of Some t \<Rightarrow> Some t | None \<Rightarrow> kinds ms a)"
  by (simp add: kinds_def map_add_def split: option.split)

lemma kinds_None: "kinds ns a = None \<longleftrightarrow> a \<notin> fn_id ` set ns"
  by (simp add: kinds_def map_of_eq_None_iff image_image)

lemma joins_ends: "joins k a b h \<Longrightarrow> k a \<noteq> None \<and> k b \<noteq> None"
  by (simp add: joins_def split: option.splits)

lemma joins_mono: "joins k a b h \<Longrightarrow> k' a = k a \<Longrightarrow> k' b = k b \<Longrightarrow> joins k' a b h"
  by (simp add: joins_def)

lemma good_edges_mono:
  "list_all (good_edge k) es \<Longrightarrow>
   (\<And>e. e \<in> set es \<Longrightarrow> good_edge k e \<Longrightarrow> k' (fe_sourceNodeId e) = k (fe_sourceNodeId e) \<and> k' (fe_targetNodeId e) = k (fe_targetNodeId e))
   \<Longrightarrow> list_all (good_edge k') es"
  unfolding list_all_iff good_edge_def using joins_mono by metis

lemma good_edge_ends: "good_edge k e \<Longrightarrow> k (fe_sourceNodeId e) \<noteq> None \<and> k (fe_targetNodeId e) \<noteq> None"
  unfolding good_edge_def by (rule joins_ends)

lemma good_edges_link: "list_all (good_edge k) es = list_all (\<lambda>(a, b, h). joins k a b h) (map link es)"
  by (simp add: list_all_iff good_edge_def link_def)

lemma good_ends:
  "good_graph ns es \<Longrightarrow> e \<in> set es \<Longrightarrow> fe_sourceNodeId e \<in> fn_id ` set ns \<and> fe_targetNodeId e \<in> fn_id ` set ns"
  unfolding good_graph_def list_all_iff by (metis good_edge_ends kinds_None)

lemma good_filter:
  assumes "good_graph ns es" and keep: "\<And>e. R e \<Longrightarrow> Q (fe_sourceNodeId e) \<and> Q (fe_targetNodeId e)"
  shows "good_graph (filter (\<lambda>n. Q (fn_id n)) ns) (filter R es)"
proof -
  have "acyclic (arrows (filter R es))"
    using assms(1) acyclic_subset[OF _ arrows_mono, of es "filter R es"] by (auto simp: good_graph_def)
  moreover have "list_all (good_edge (kinds (filter (\<lambda>n. Q (fn_id n)) ns))) (filter R es)"
    by (rule good_edges_mono[of "kinds ns"]) (use assms(1) keep in \<open>auto simp: good_graph_def list_all_iff kinds_filter\<close>)
  ultimately show ?thesis
    using assms(1) by (simp add: good_graph_def distinct_map_filter)
qed

lemma good_filter_edges: "good_graph ns es \<Longrightarrow> good_graph ns (filter R es)"
  using good_filter[of ns es R "\<lambda>_. True"] by simp

lemma good_add_node:
  assumes "good_graph ns es" and "fn_id n \<notin> fn_id ` set ns"
  shows "good_graph (ns @ [n]) es"
proof -
  have "list_all (good_edge (kinds (ns @ [n]))) es"
    by (rule good_edges_mono[of "kinds ns"])
      (use assms(1) in \<open>auto simp: good_graph_def kinds_append dest!: good_edge_ends\<close>)
  then show ?thesis using assms by (simp add: good_graph_def)
qed

lemma good_put_edge:
  assumes "good_graph ns (xs @ ys)" and "good_edge (kinds ns) e" and "fe_id e \<notin> fe_id ` set (xs @ ys)"
    and "link e \<notin> link ` set (xs @ ys)"
    and "(fe_targetNodeId e, fe_sourceNodeId e) \<notin> (arrows (xs @ ys))\<^sup>*"
  shows "good_graph ns (xs @ e # ys)"
  using assms by (auto simp: good_graph_def acyclic_insert)

lemma good_reverse:
  assumes "good_workflow w" and found: "find (\<lambda>e. fe_id e = i) (wo_edges w) = Some e"
    and ok: "isWorkflowConnectionAllowed w (Some (fe_targetNodeId e)) (Some (fe_sourceNodeId e)) h (Some (fe_id e))"
  shows "good_workflow (reverse_edge i h w)"
proof -
  let ?e = "e\<lparr>fe_sourceNodeId := fe_targetNodeId e, fe_targetNodeId := fe_sourceNodeId e, fe_sourceHandle := h\<rparr>"
  from found have i: "fe_id e = i" "e \<in> set (wo_edges w)" by (auto dest: find_SomeD)
  from split_list[OF i(2)] obtain xs ys where w: "wo_edges w = xs @ e # ys" by blast
  have "distinct (map fe_id (xs @ e # ys))" using assms(1) w by (simp add: good_graph_def)
  then have new: "i \<notin> fe_id ` set xs" "i \<notin> fe_id ` set ys" using i(1) by auto
  then have "filter (\<lambda>d. fe_id d \<noteq> i) xs = xs" "filter (\<lambda>d. fe_id d \<noteq> i) ys = ys"
    by (auto intro!: filter_True)
  then have others: "filter (\<lambda>d. Some (fe_id d) \<noteq> Some i) (wo_edges w) = xs @ ys"
    using w i(1) by simp
  have same: "map (\<lambda>d. if fe_id d = i then f d else d) xs = xs" "map (\<lambda>d. if fe_id d = i then f d else d) ys = ys" for f
    using new by (auto intro!: map_idI)
  have map: "wo_edges (reverse_edge i h w) = xs @ ?e # ys" "wo_nodes (reverse_edge i h w) = wo_nodes w"
    using w i(1) by (simp_all add: reverse_edge_def map_where_def same)
  have "good_graph (wo_nodes w) (xs @ ys)"
    using good_filter_edges[OF assms(1), of "\<lambda>d. Some (fe_id d) \<noteq> Some i"] others by simp
  then show ?thesis
    unfolding map using ok[unfolded allowed_iff i(1) others Let_def] new i(1)
    by (intro good_put_edge) (auto simp: good_edge_def link_def)
qed


text \<open>Copies under new identifiers.\<close>

lemma id_map_nth:
  assumes "distinct (map fn_id ns)" and "length us = length ns" and "k < length ns"
  shows "id_map us ns (fn_id (ns ! k)) = us ! k"
proof -
  let ?z = "zip (map fn_id ns) us"
  have "distinct (map fst (rev ?z))" using assms by (simp add: rev_map[symmetric])
  moreover have "(fn_id (ns ! k), us ! k) \<in> set (rev ?z)" using assms by (auto simp: in_set_zip intro!: exI[of _ k])
  ultimately have "map_of (rev ?z) (fn_id (ns ! k)) = Some (us ! k)" by (rule map_of_is_SomeI)
  then show ?thesis by (simp add: id_map_def nullish_def)
qed

lemma id_map_in:
  assumes "distinct (map fn_id ns)" and "length us = length ns" and "a \<in> fn_id ` set ns"
  shows "id_map us ns a \<in> set us"
  using assms by (auto simp: in_set_conv_nth[of _ ns] id_map_nth)

lemma id_map_inj:
  assumes "distinct (map fn_id ns)" and "length us = length ns" and "distinct us"
  shows "inj_on (id_map us ns) (fn_id ` set ns)"
proof (rule inj_onI, clarsimp simp: in_set_conv_nth)
  fix j k
  assume "j < length ns" "k < length ns" "id_map us ns (fn_id (ns ! j)) = id_map us ns (fn_id (ns ! k))"
  then show "fn_id (ns ! j) = fn_id (ns ! k)"
    using assms by (simp add: id_map_nth nth_eq_iff_index_eq)
qed

lemma fresh_ids: "length us = length ns \<Longrightarrow> map fn_id (fresh_nodes us ns) = us"
  by (auto simp: fresh_nodes_def intro!: nth_equalityI)

lemma kinds_fresh:
  assumes "distinct (map fn_id ns)" and "length us = length ns" and "distinct us" and "a \<in> fn_id ` set ns"
  shows "kinds (fresh_nodes us ns) (id_map us ns a) = kinds ns a"
proof -
  from assms(4) obtain k where k: "k < length ns" "a = fn_id (ns ! k)" by (auto simp: in_set_conv_nth)
  have "shape (fresh_nodes us ns) = zip us (map fn_nodeType ns)"
    using assms(2) by (auto simp: shape_def fresh_nodes_def intro!: nth_equalityI)
  then have "kinds (fresh_nodes us ns) = map_of (zip us (map fn_nodeType ns))"
    by (simp add: kinds_def shape_def)
  then have "kinds (fresh_nodes us ns) (us ! k) = Some (fn_nodeType (ns ! k))"
    using map_of_zip_nth[of us "map fn_nodeType ns" k] assms(2,3) k(1) by simp
  moreover have "kinds ns a = Some (fn_nodeType (ns ! k))"
    unfolding kinds_def using assms k by (intro map_of_is_SomeI) (auto simp: comp_def)
  ultimately show ?thesis using assms k by (simp add: id_map_nth)
qed

lemma fresh_edges_simps:
  assumes "length vs = length es"
  shows "map fe_id (fresh_edges m vs es) = vs"
    and "map link (fresh_edges m vs es) = map (\<lambda>e. (m (fe_sourceNodeId e), m (fe_targetNodeId e), or_undefined (fe_sourceHandle e))) es"
    and "arrows (fresh_edges m vs es) = map_prod m m ` arrows es"
proof -
  show "map fe_id (fresh_edges m vs es) = vs"
    using assms by (auto simp: fresh_edges_def intro!: nth_equalityI)
  show l: "map link (fresh_edges m vs es) = map (\<lambda>e. (m (fe_sourceNodeId e), m (fe_targetNodeId e), or_undefined (fe_sourceHandle e))) es"
    using assms by (auto simp: fresh_edges_def link_def intro!: nth_equalityI)
  have "arrows (fresh_edges m vs es) = (\<lambda>(a, b, _). (a, b)) ` set (map link (fresh_edges m vs es))"
    by (auto simp: arrows_def link_def image_image)
  also have "\<dots> = map_prod m m ` arrows es"
    unfolding l by (simp add: arrows_def image_image)
  finally show "arrows (fresh_edges m vs es) = map_prod m m ` arrows es" .
qed


lemma distinct_links:
  assumes part: "good_graph ns es" and "length vs = length es" and inj: "inj_on m (fn_id ` set ns)"
  shows "distinct (map link (fresh_edges m vs es))"
proof -
  let ?f = "\<lambda>(a, b, h). (m a, m b, h)"
  have "inj_on ?f (link ` set es)"
    using good_ends[OF part] by (auto simp: inj_on_def link_def dest: inj_onD[OF inj])
  then have "distinct (map ?f (map link es))"
    using part by (simp add: good_graph_def distinct_map comp_inj_on)
  then show ?thesis by (simp add: fresh_edges_simps(2)[OF assms(2)] comp_def link_def)
qed

lemma acyclic_copy:
  assumes "acyclic R" "finite R" and inj: "inj_on m (Field R)" and "acyclic S" "finite S"
    and apart: "m ` Field R \<inter> Field S = {}"
  shows "acyclic (S \<union> map_prod m m ` R)"
proof -
  have "wf (map_prod m m ` R)"
    using assms(1,2) inj
    by (intro wf_map_prod_image_Dom_Ran finite_acyclic_wf) (auto simp: inj_on_def Field_def)
  moreover have "wf S" using assms(4,5) by (rule finite_acyclic_wf[rotated])
  moreover have "Domain S \<inter> Range (map_prod m m ` R) = {}"
    using apart by (auto simp: Field_def)
  ultimately have "wf (S \<union> map_prod m m ` R)" by (intro wf_Un)
  then show ?thesis by (rule wf_acyclic)
qed

lemma Field_arrows: "good_graph ns es \<Longrightarrow> Field (arrows es) \<subseteq> fn_id ` set ns"
  using good_ends by (fastforce simp: Field_def arrows_def)

lemma good_insert:
  assumes w: "good_workflow w" and part: "good_graph ns es"
    and us: "length us = length ns" "distinct us" "set us \<inter> fn_id ` set (wo_nodes w) = {}"
    and vs: "length vs = length es" "distinct vs" "set vs \<inter> fe_id ` set (wo_edges w) = {}"
  shows "good_workflow (insert_part us vs (ns, es) w)"
proof -
  let ?m = "id_map us ns" and ?N = "wo_nodes w @ fresh_nodes us ns"
  let ?F = "fresh_edges ?m vs es"
  note d = conjunct1[OF part[unfolded good_graph_def]]
  have m: "?m a \<in> set us" "?m a \<notin> fn_id ` set (wo_nodes w)" if "a \<in> fn_id ` set ns" for a
    using id_map_in[OF d us(1) that] us(3) by auto
  have old: "list_all (good_edge (kinds ?N)) (wo_edges w)"
    by (rule good_edges_mono[of "kinds (wo_nodes w)"])
      (use w in \<open>auto simp: good_graph_def kinds_append dest!: good_edge_ends\<close>)
  have kinds: "kinds ?N (?m a) = kinds ns a" if "a \<in> fn_id ` set ns" for a
    using m[OF that] kinds_fresh[OF d us(1,2) that] by (simp add: kinds_append kinds_None[symmetric])
  have new: "list_all (good_edge (kinds ?N)) ?F"
    unfolding good_edges_link fresh_edges_simps(2)[OF vs(1)] list.pred_map comp_def prod.case
  proof (unfold list_all_iff, rule ballI)
    fix e assume e: "e \<in> set es"
    then have "joins (kinds ns) (fe_sourceNodeId e) (fe_targetNodeId e) (or_undefined (fe_sourceHandle e))"
      using part by (auto simp: good_graph_def list_all_iff good_edge_def)
    then show "joins (kinds ?N) (?m (fe_sourceNodeId e)) (?m (fe_targetNodeId e)) (or_undefined (fe_sourceHandle e))"
      using good_ends[OF part e] by (simp add: joins_def kinds)
  qed
  have apart: "?m ` Field (arrows es) \<inter> Field (arrows (wo_edges w)) = {}"
    using Field_arrows[OF part] Field_arrows[OF w] m(2) by blast
  have "inj_on ?m (fn_id ` set ns)" by (rule id_map_inj[OF d us(1,2)])
  moreover from this have links: "distinct (map link ?F)" by (rule distinct_links[OF part vs(1)])
  ultimately have "acyclic (arrows (wo_edges w) \<union> map_prod ?m ?m ` arrows es)"
    using w part Field_arrows[OF part] apart
    by (intro acyclic_copy) (auto simp: good_graph_def dest: inj_on_subset)
  moreover have "link ` set (wo_edges w) \<inter> link ` set ?F = {}"
    using good_ends[OF w] good_ends[OF part] m(2) vs(1)
    by (auto simp: link_def fresh_edges_def dest!: set_zip_rightD) metis
  ultimately show ?thesis
    using w old new links us vs
    by (simp add: good_graph_def insert_part_def fresh_ids fresh_edges_simps flip: set_map) blast
qed


section \<open>The editor as a state machine\<close>

datatype wf_action =
    Fetched "string + Workflow list"
  | Created "string + Workflow"
  | Deleted string "string + unit"
  | SelectWorkflow "string option"
  | NodesChange "NodeChange list"
  | Connect string string string "string option"
  | AddNode string NodeType position
  | AddNodeByClick string NodeType
  | DeleteNode string
  | DeleteEdge string
  | EdgesChange "string list"
  | DuplicateNode string string
  | DisconnectNode string
  | ClearCanvas
  | ReverseEdge string
  | Undo
  | Redo
  | Copy "string list"
  | Paste "string list" "string list"
  | DuplicateSelection "string list" "string list" "string list"
  | DeleteKey "string list" "string list"
  | UpdateNode "string option" "json dict option"
  | NodeClick string
  | EdgeClick string
  | PaneClick
  | Align AlignMode "RfNode list"
  | AutoLayout dagre_layout LayoutDirection
  | Save string "string + unit"
  | Run string "string + unit"
  | Rename string string string "string + unit"

fun wf_step :: "wf_state \<Rightarrow> wf_action \<Rightarrow> wf_state" where
  "wf_step s (Fetched r) = with_effect (fetchWorkflows_done r) s"
| "wf_step s (Created r) = with_effect (createWorkflow_done r) s"
| "wf_step s (Deleted i r) = with_effect (deleteWorkflow_done i r) s"
| "wf_step s (SelectWorkflow i) = with_effect (setActiveWorkflowId i) s"
| "wf_step s (NodesChange cs) = handleNodesChange cs s"
| "wf_step s (Connect u a b h) = (if isValidConnection a b h s then onConnect u a b h s else s)"
| "wf_step s (AddNode u k p) = addNodeAtPosition u k p s"
| "wf_step s (AddNodeByClick u k) = handleAddNode u k s"
| "wf_step s (DeleteNode i) = handleDeleteNode i s"
| "wf_step s (DeleteEdge i) = handleDeleteEdge i s"
| "wf_step s (EdgesChange is) = handleEdgesChange is s"
| "wf_step s (DuplicateNode u i) = handleDuplicateNode u i s"
| "wf_step s (DisconnectNode i) = handleDisconnectNode i s"
| "wf_step s ClearCanvas = handleClearCanvas s"
| "wf_step s (ReverseEdge i) = handleReverseEdge i s"
| "wf_step s Undo = handleUndo s"
| "wf_step s Redo = handleRedo s"
| "wf_step s (Copy sel) = handleCopy sel s"
| "wf_step s (Paste us vs) = handlePaste us vs s"
| "wf_step s (DuplicateSelection sel us vs) = handleDuplicateSelection sel us vs s"
| "wf_step s (DeleteKey ns es) = handleDeleteKey ns es s"
| "wf_step s (UpdateNode n c) = handleUpdateNode n c s"
| "wf_step s (NodeClick i) = handleNodeClick i s"
| "wf_step s (EdgeClick i) = handleEdgeClick i s"
| "wf_step s PaneClick = handlePaneClick s"
| "wf_step s (Align m sel) = handleAlignNodes m sel s"
| "wf_step s (AutoLayout dagre d) = handleAutoLayout dagre d s"
| "wf_step s (Save now r) = handleSave now r s"
| "wf_step s (Run now r) = fst (handleRun now r s)"
| "wf_step s (Rename i v now r) = commitRename i v now r s"

text \<open>
  Identifiers from \<open>crypto.randomUUID\<close> are new, and what the backend sends are well formed graphs.
\<close>

definition new_node_ids :: "wf_state \<Rightarrow> string list \<Rightarrow> nat \<Rightarrow> bool" where
  "new_node_ids s us n \<longleftrightarrow> length us = n \<and> distinct us \<and> (case wf_local s of None \<Rightarrow> True | Some w \<Rightarrow> list_all (\<lambda>m. fn_id m \<notin> set us) (wo_nodes w))"

definition new_edge_ids :: "wf_state \<Rightarrow> string list \<Rightarrow> nat \<Rightarrow> bool" where
  "new_edge_ids s vs n \<longleftrightarrow> length vs = n \<and> distinct vs \<and> (case wf_local s of None \<Rightarrow> True | Some w \<Rightarrow> list_all (\<lambda>e. fe_id e \<notin> set vs) (wo_edges w))"

definition new_ids :: "wf_state \<Rightarrow> string list \<Rightarrow> string list \<Rightarrow> FlowNode list \<times> FlowEdge list \<Rightarrow> bool" where
  "new_ids s us vs part \<longleftrightarrow> new_node_ids s us (length (fst part)) \<and> new_edge_ids s vs (length (snd part))"

fun wf_ok :: "wf_state \<Rightarrow> wf_action \<Rightarrow> bool" where
  "wf_ok s (Fetched (Inr ws)) = list_all good_workflow ws"
| "wf_ok s (Created (Inr w)) = good_workflow w"
| "wf_ok s (Connect u a b h) = new_edge_ids s [u] 1"
| "wf_ok s (AddNode u k p) = new_node_ids s [u] 1"
| "wf_ok s (AddNodeByClick u k) = new_node_ids s [u] 1"
| "wf_ok s (DuplicateNode u i) = new_node_ids s [u] 1"
| "wf_ok s (Paste us vs) = (case wf_clipboard s of None \<Rightarrow> True | Some part \<Rightarrow> new_ids s us vs part)"
| "wf_ok s (DuplicateSelection sel us vs) = (case wf_local s of
       None \<Rightarrow> True
     | Some w \<Rightarrow> (if sel = [] then new_node_ids s [hd us] 1 else new_ids s us vs (selected_part sel w)))"
| "wf_ok s _ = True"

text \<open>Every workflow the workspace holds: those of the store, the one edited, both stacks, the clipboard.\<close>

definition graphs :: "wf_state \<Rightarrow> (FlowNode list \<times> FlowEdge list) set" where
  "graphs s = (\<lambda>w. (wo_nodes w, wo_edges w)) ` (set (wf_workflows s) \<union> set_option (wf_local s) \<union> set (wf_history s)
     \<union> set (wf_future s)) \<union> set_option (wf_clipboard s)"

definition wf_inv :: "wf_state \<Rightarrow> bool" where
  "wf_inv s \<longleftrightarrow> graphs s \<subseteq> {(ns, es). good_graph ns es}"

lemma wf_inv_iff:
  "wf_inv s \<longleftrightarrow> (\<forall>w \<in> set (wf_workflows s) \<union> set_option (wf_local s) \<union> set (wf_history s) \<union> set (wf_future s). good_workflow w)
     \<and> (\<forall>(ns, es) \<in> set_option (wf_clipboard s). good_graph ns es)"
  by (auto simp: wf_inv_def graphs_def)

lemma wf_inv_local: "wf_inv s \<Longrightarrow> wf_local s = Some w \<Longrightarrow> good_workflow w"
  by (simp add: wf_inv_iff)

lemma wf_inv_cong:
  "wf_inv s \<Longrightarrow> wf_workflows s' = wf_workflows s \<Longrightarrow> wf_local s' = wf_local s \<Longrightarrow> wf_history s' = wf_history s
   \<Longrightarrow> wf_future s' = wf_future s \<Longrightarrow> wf_clipboard s' = wf_clipboard s \<Longrightarrow> wf_inv s'"
  by (simp add: wf_inv_iff)

lemma set_push_limited: "set (push_limited ws w) \<subseteq> insert w (set ws)"
  by (cases ws) (auto simp: push_limited_def Let_def)

lemma on_local_inv: "wf_inv s \<Longrightarrow> (\<And>w. wf_local s = Some w \<Longrightarrow> good_workflow (f w)) \<Longrightarrow> wf_inv (on_local f s)"
  by (auto simp: wf_inv_iff on_local_def)

lemma pushHistory_inv: "wf_inv s \<Longrightarrow> wf_inv (pushHistory s)"
  using set_push_limited[of "wf_history s"] by (auto simp: wf_inv_iff pushHistory_def split: option.split)

lemma pushHistory_local [simp]: "wf_local (pushHistory s) = wf_local s"
  by (simp add: pushHistory_def split: option.split)

lemma setDirty_inv: "wf_inv s \<Longrightarrow> wf_inv (setDirty d s)"
  by (rule wf_inv_cong) (simp_all add: setDirty_def)

lemma edit_inv: "wf_inv s \<Longrightarrow> (\<And>w. wf_local s = Some w \<Longrightarrow> good_workflow w \<Longrightarrow> good_workflow (f w)) \<Longrightarrow> wf_inv (edit_local f s)"
  unfolding edit_local_def
  by (intro setDirty_inv on_local_inv pushHistory_inv) (auto dest: wf_inv_local)


lemma with_effect_inv:
  assumes "wf_inv (f s)"
  shows "wf_inv (with_effect f s)"
  using assms by (auto simp: with_effect_def Let_def wf_inv_iff syncActive_def activeWorkflow_def dest: find_SomeD)

lemma good_remove_node: "good_workflow w \<Longrightarrow> good_workflow (remove_node i w)"
  using good_filter[of "wo_nodes w" "wo_edges w" "\<lambda>e. fe_sourceNodeId e \<noteq> i \<and> fe_targetNodeId e \<noteq> i" "\<lambda>j. j \<noteq> i"]
  by (simp add: remove_node_def)

lemma good_remove_edge: "good_workflow w \<Longrightarrow> good_workflow (remove_edge i w)"
  by (simp add: remove_edge_def good_filter_edges)

lemma good_place_node: "good_workflow w \<Longrightarrow> good_workflow (place_node i p w)"
  by (simp add: place_node_def good_shape[OF shape_map_where])

lemma good_fold: "good_workflow w \<Longrightarrow> (\<And>x w. x \<in> set xs \<Longrightarrow> good_workflow w \<Longrightarrow> good_workflow (f x w)) \<Longrightarrow> good_workflow (fold f xs w)"
  by (induction xs arbitrary: w) auto

lemma good_change: "good_workflow w \<Longrightarrow> good_workflow (apply_change c w)"
  by (cases c) (auto intro: good_place_node good_remove_node)

lemma good_duplicate:
  "good_workflow w \<Longrightarrow> list_all (\<lambda>m. fn_id m \<noteq> u) (wo_nodes w) \<Longrightarrow> good_workflow (duplicate_node u i w)"
  by (auto simp: duplicate_node_def list_all_iff intro!: good_add_node split: option.split)

lemma good_selected:
  assumes "good_workflow w"
  shows "good_graph (fst (selected_part sel w)) (snd (selected_part sel w))"
  unfolding selected_part_def fst_conv snd_conv by (rule good_filter[OF assms, where Q = "\<lambda>i. i \<in> set sel"]) auto

lemma good_delete_selection: "good_workflow w \<Longrightarrow> good_workflow (delete_selection ns es w)"
  using good_filter[of "wo_nodes w" "wo_edges w"
      "\<lambda>e. fe_id e \<notin> set es \<and> fe_sourceNodeId e \<notin> set ns \<and> fe_targetNodeId e \<notin> set ns" "\<lambda>j. j \<notin> set ns"]
  by (simp add: delete_selection_def)

lemma good_updates: "good_workflow w \<Longrightarrow> good_workflow (move_nodes u w)"
  unfolding move_nodes_def
  by (simp, subst good_shape[OF shape_map]) (auto split: option.split)

lemma shape_layout: "shape (getLayoutedNodes dagre ns es d) = shape ns"
  by (auto simp: getLayoutedNodes_def Let_def intro!: shape_map split: option.split prod.split)

lemma new_ids_good:
  assumes "good_workflow w" and "good_graph (fst part) (snd part)" and "wf_local s = Some w" and "new_ids s us vs part"
  shows "good_workflow (insert_part us vs part w)"
  using assms good_insert[of w "fst part" "snd part" us vs]
  by (auto simp: new_ids_def new_node_ids_def new_edge_ids_def list_all_iff)

lemma connect_inv:
  assumes inv: "wf_inv s" and new: "new_edge_ids s [u] 1" and ok: "isValidConnection a b h s"
  shows "wf_inv (onConnect u a b h s)"
  unfolding onConnect_def
proof (rule edit_inv[OF inv])
  fix w assume w: "wf_local s = Some w" and good: "good_workflow w"
  have h: "or_undefined (or_undefined h) = or_undefined h" by (simp add: or_undefined_def)
  have "good_graph (wo_nodes w) (wo_edges w @ newEdge u a b h # [])"
    using good ok new w
    by (intro good_put_edge)
      (auto simp: isValidConnection_def allowed_iff Let_def h newEdge_def good_edge_def link_def new_edge_ids_def list_all_iff)
  then show "good_workflow (w\<lparr>wo_edges := wo_edges w @ [newEdge u a b h]\<rparr>)" by simp
qed


lemma deselect_inv: "wf_inv s \<Longrightarrow> wf_inv (deselect_node i s)" "wf_inv s \<Longrightarrow> wf_inv (deselect_edge i s)"
  by (auto simp: deselect_node_def deselect_edge_def elim: wf_inv_cong)

lemma deselect_edges_inv: "wf_inv s \<Longrightarrow> wf_inv (fold deselect_edge is s)"
  by (induction "is" arbitrary: s) (auto intro: deselect_inv)

lemma unselected_inv: "wf_inv s \<Longrightarrow> wf_inv (s\<lparr>wf_selectedNodeId := a\<rparr>)" "wf_inv s \<Longrightarrow> wf_inv (s\<lparr>wf_selectedEdgeId := b\<rparr>)"
  by (auto elim: wf_inv_cong)

lemma add_node_inv: "wf_inv s \<Longrightarrow> new_node_ids s [u] 1 \<Longrightarrow> wf_inv (addNodeAtPosition u k p s)"
  unfolding addNodeAtPosition_def Let_def
  by (intro unselected_inv edit_inv) (auto simp: new_node_ids_def list_all_iff intro!: good_add_node)

lemma duplicate_inv: "wf_inv s \<Longrightarrow> new_node_ids s [u] 1 \<Longrightarrow> wf_inv (handleDuplicateNode u i s)"
  unfolding handleDuplicateNode_def
  by (intro edit_inv) (auto simp: new_node_ids_def intro!: good_duplicate)

lemma delete_inv: "wf_inv s \<Longrightarrow> wf_inv (handleDeleteNode i s)" "wf_inv s \<Longrightarrow> wf_inv (handleDeleteEdge i s)"
  by (simp_all add: handleDeleteNode_def handleDeleteEdge_def deselect_inv edit_inv good_remove_node good_remove_edge)

lemma delete_key_inv: "wf_inv s \<Longrightarrow> wf_inv (handleDeleteKey ns es s)"
  by (simp add: handleDeleteKey_def delete_inv unselected_inv edit_inv good_delete_selection)

lemma reverse_inv: "wf_inv s \<Longrightarrow> wf_inv (handleReverseEdge i s)"
  by (auto simp: handleReverseEdge_def intro!: edit_inv split: option.split dest: find_SomeD intro: good_reverse)

lemma undo_inv: "wf_inv s \<Longrightarrow> wf_inv (handleUndo s)"
  using set_push_limited[of "wf_future s"]
  by (auto simp: handleUndo_def wf_inv_iff split: option.split dest: in_set_butlastD)

lemma redo_inv: "wf_inv s \<Longrightarrow> wf_inv (handleRedo s)"
  using set_push_limited[of "wf_history s"]
  by (auto simp: handleRedo_def wf_inv_iff split: option.split dest: in_set_butlastD)

lemma copy_inv: "wf_inv s \<Longrightarrow> wf_inv (handleCopy sel s)"
  using good_selected[of "the (wf_local s)" sel] by (auto simp: handleCopy_def wf_inv_iff split: option.split)

lemma paste_inv:
  assumes "wf_inv s" and "wf_ok s (Paste us vs)"
  shows "wf_inv (handlePaste us vs s)"
proof (cases "wf_clipboard s")
  case (Some part)
  then have "good_graph (fst part) (snd part)" using assms(1) by (auto simp: wf_inv_iff split: prod.splits)
  with Some assms show ?thesis
    by (cases part) (auto simp: handlePaste_def intro!: edit_inv new_ids_good split: option.split)
qed (simp add: handlePaste_def assms)

lemma duplicate_selection_inv:
  "wf_inv s \<Longrightarrow> wf_ok s (DuplicateSelection sel us vs) \<Longrightarrow> wf_inv (handleDuplicateSelection sel us vs s)"
  by (auto simp: handleDuplicateSelection_def intro!: edit_inv duplicate_inv new_ids_good good_selected split: option.splits if_splits)

lemma align_inv: "wf_inv s \<Longrightarrow> wf_inv (handleAlignNodes m sel s)"
  by (auto simp: handleAlignNodes_def intro!: edit_inv pushHistory_inv good_updates split: option.split)

lemma layout_inv: "wf_inv s \<Longrightarrow> wf_inv (handleAutoLayout dagre d s)"
  by (auto simp: handleAutoLayout_def good_shape[OF shape_layout] intro!: edit_inv split: option.split)

lemma update_inv: "wf_inv s \<Longrightarrow> wf_inv (handleUpdateNode n c s)"
  by (auto simp: handleUpdateNode_def good_shape[OF shape_map_where] intro!: setDirty_inv on_local_inv dest: wf_inv_local)

lemma save_local [simp]: "wf_local (saveWorkflow_done now w r s) = wf_local s"
  by (simp add: saveWorkflow_done_def Let_def split: sum.split)

lemma save_inv: "wf_inv s \<Longrightarrow> good_workflow w \<Longrightarrow> wf_inv (saveWorkflow_done now w r s)"
  by (auto simp: saveWorkflow_done_def wf_inv_iff map_where_def Let_def split: sum.split)

lemma run_inv: "wf_inv s \<Longrightarrow> wf_inv (runWorkflow_begin s)"
  by (erule wf_inv_cong) (simp_all add: runWorkflow_begin_def)

lemma rename_inv:
  assumes "wf_inv s"
  shows "wf_inv (commitRename i v now r s)"
proof -
  have "good_workflow (w\<lparr>wo_name := n\<rparr>)" if "find P (wf_workflows s) = Some w" for w n P
    using that assms by (auto simp: wf_inv_iff dest: find_SomeD)
  with assms show ?thesis
    by (auto simp: commitRename_def Let_def intro!: on_local_inv save_inv dest: wf_inv_local split: option.splits sum.splits)
qed

lemma store_inv:
  assumes "wf_inv s"
  shows "list_all good_workflow ws \<Longrightarrow> wf_inv (fetchWorkflows_done (Inr ws) s)" "wf_inv (fetchWorkflows_done (Inl e) s)"
    and "good_workflow w \<Longrightarrow> wf_inv (createWorkflow_done (Inr w) s)" "wf_inv (createWorkflow_done (Inl e) s)"
    and "wf_inv (deleteWorkflow_done i r s)" "wf_inv (setActiveWorkflowId a s)"
  using assms
  by (auto simp: wf_inv_iff list_all_iff fetchWorkflows_done_def createWorkflow_done_def deleteWorkflow_done_def
      setActiveWorkflowId_def split: sum.split)

lemma sum_store_inv:
  assumes "wf_inv s"
  shows "wf_ok s (Fetched fr) \<Longrightarrow> wf_inv (fetchWorkflows_done fr s)"
    and "wf_ok s (Created cr) \<Longrightarrow> wf_inv (createWorkflow_done cr s)"
  by (cases fr; simp add: store_inv[OF assms]) (cases cr; simp add: store_inv[OF assms])

lemmas editor_invs = edit_inv add_node_inv duplicate_inv delete_inv delete_key_inv reverse_inv undo_inv redo_inv copy_inv
  paste_inv duplicate_selection_inv align_inv layout_inv update_inv rename_inv connect_inv store_inv(5,6) sum_store_inv
  with_effect_inv deselect_edges_inv unselected_inv

lemma other_inv:
  assumes "wf_inv s"
  shows "wf_inv (handleNodesChange cs s)" "wf_inv (handleEdgesChange is s)" "wf_inv (handleDisconnectNode i s)"
    "wf_inv (handleClearCanvas s)" "wf_inv (handleSave now r s)" "wf_inv (fst (handleRun now r s))"
    "new_node_ids s [u] 1 \<Longrightarrow> wf_inv (handleAddNode u k s)"
  using assms wf_inv_local[OF assms]
  by (auto simp: handleNodesChange_def handleEdgesChange_def handleDisconnectNode_def disconnect_node_def handleClearCanvas_def
      handleSave_def handleRun_def handleAddNode_def good_filter_edges acyclic_def good_graph_def [of "[]"] split: option.split sum.split
      intro!: editor_invs good_fold good_change good_remove_edge save_inv run_inv)

lemma wf_step_inv:
  assumes "wf_inv s" and "wf_ok s a"
  shows "wf_inv (wf_step s a)"
  using assms
  by (cases a) (simp_all add: editor_invs other_inv handleNodeClick_def handleEdgeClick_def handlePaneClick_def)

interpretation wf_editor: action_store wf_init wf_step wf_ok wf_inv
  by unfold_locales (simp add: wf_inv_def graphs_def wf_init_def, rule wf_step_inv)

end
