(* ===== verification/WorkflowProps.thy ===== *)
theory WorkflowProps
  imports WorkflowGraph
begin

text \<open>
  Properties of the workflow editor and store: the connection check is exact, every graph the
  workspace holds is well formed, undo and redo are exact, and what goes wrong in a rename, an import
  and a second run.
\<close>

section \<open>Undo and redo\<close>

type_synonym edit_line = "Workflow option \<times> Workflow list \<times> Workflow list"

definition timeline :: "wf_state \<Rightarrow> edit_line" where
  "timeline s = (wf_local s, wf_history s, wf_future s)"

fun undone :: "edit_line \<Rightarrow> edit_line" where
  "undone (Some w, h, f) = (if h = [] then (Some w, h, f) else (Some (last h), butlast h, push_limited f w))"
| "undone (None, h, f) = (None, h, f)"

fun redone :: "edit_line \<Rightarrow> edit_line" where
  "redone (Some w, h, f) = (if f = [] then (Some w, h, f) else (Some (last f), push_limited h w, butlast f))"
| "redone (None, h, f) = (None, h, f)"

lemma timeline_undo1: "timeline (handleUndo s) = undone (timeline s)"
  by (auto simp: timeline_def handleUndo_def split: option.split)

lemma timeline_undo: "timeline ((handleUndo ^^ n) s) = (undone ^^ n) (timeline s)"
  by (induction n) (simp_all add: timeline_undo1)

lemma timeline_redo1: "timeline (handleRedo s) = redone (timeline s)"
  by (auto simp: timeline_def handleRedo_def split: option.split)

lemma timeline_redo: "timeline ((handleRedo ^^ n) s) = (redone ^^ n) (timeline s)"
  by (induction n) (simp_all add: timeline_redo1)

lemma push_short: "length ws < HISTORY_LIMIT \<Longrightarrow> push_limited ws w = ws @ [w]"
  by (simp add: push_limited_def Let_def)

lemma undone_pow:
  "k \<le> length h \<Longrightarrow> length f + k \<le> HISTORY_LIMIT \<Longrightarrow>
   \<exists>g. (undone ^^ k) (Some w, h, f) = (Some ((h @ [w]) ! (length h - k)), take (length h - k) h, g) \<and> length g = length f + k"
proof (induction k)
  case (Suc k)
  let ?m = "length h - Suc k"
  have m: "length h - k = Suc ?m" "?m < length h" using Suc.prems by auto
  obtain g where "(undone ^^ k) (Some w, h, f) = (Some ((h @ [w]) ! Suc ?m), take (Suc ?m) h, g)" "length g = length f + k"
    using Suc m(1) by auto
  then show ?case
    using m(2) Suc.prems by (auto simp: push_short take_Suc_conv_app_nth nth_append)
qed simp

lemma redone_undone:
  assumes "h \<noteq> []" and "length h \<le> HISTORY_LIMIT" and "length f < HISTORY_LIMIT"
  shows "redone (undone (Some w, h, f)) = (Some w, h, f)"
proof -
  have "length (butlast h) < HISTORY_LIMIT" using assms by (cases h) auto
  with assms show ?thesis by (simp add: push_short)
qed

lemma redone_undone_pow:
  "k \<le> length h \<Longrightarrow> length h \<le> HISTORY_LIMIT \<Longrightarrow> length f + k \<le> HISTORY_LIMIT \<Longrightarrow>
   (redone ^^ k) ((undone ^^ k) (Some w, h, f)) = (Some w, h, f)"
proof (induction k)
  case (Suc k)
  obtain g where g: "(undone ^^ k) (Some w, h, f) = (Some ((h @ [w]) ! (length h - k)), take (length h - k) h, g)" "length g = length f + k"
    using undone_pow[of k h f w] Suc.prems by auto
  have "(redone ^^ Suc k) ((undone ^^ Suc k) (Some w, h, f)) = (redone ^^ k) (redone (undone ((undone ^^ k) (Some w, h, f))))"
    by (simp add: funpow_swap1)
  also have "\<dots> = (redone ^^ k) ((undone ^^ k) (Some w, h, f))"
    unfolding g(1) by (subst redone_undone) (use g(2) Suc.prems in auto)
  finally show ?case using Suc by simp
qed simp

lemma undone_stays: "(undone ^^ n) (Some w, [], f) = (Some w, [], f)"
  by (induction n) auto

lemma redone_stays: "(redone ^^ n) (Some w, h, []) = (Some w, h, [])"
  by (induction n) auto

text \<open>The actions that leave the edited workflow alone or change it through the history.\<close>

fun recorded :: "wf_action \<Rightarrow> bool" where
  "recorded (Fetched _) = False"
| "recorded (Created _) = False"
| "recorded (Deleted _ _) = False"
| "recorded (SelectWorkflow _) = False"
| "recorded Undo = False"
| "recorded Redo = False"
| "recorded (UpdateNode _ _) = False"
| "recorded (Rename _ _ _ _) = False"
| "recorded _ = True"

lemma timeline_edit: "wf_local s = Some w \<Longrightarrow> timeline (edit_local f s) = (Some (f w), push_limited (wf_history s) w, [])"
  by (simp add: timeline_def edit_local_def on_local_def setDirty_def pushHistory_def)

lemma timeline_push: "wf_local s = Some w \<Longrightarrow> timeline (pushHistory s) = (Some w, push_limited (wf_history s) w, [])"
  by (simp add: timeline_def pushHistory_def)

lemma timeline_same [simp]:
  "timeline (deselect_node i s) = timeline s" "timeline (deselect_edge i s) = timeline s"
  "timeline (s\<lparr>wf_selectedNodeId := a\<rparr>) = timeline s" "timeline (s\<lparr>wf_selectedEdgeId := b\<rparr>) = timeline s"
  "timeline (s\<lparr>wf_clipboard := c\<rparr>) = timeline s" "timeline (saveWorkflow_done now w r s) = timeline s"
  "timeline (runWorkflow_begin s) = timeline s"
  by (simp_all add: timeline_def deselect_node_def deselect_edge_def saveWorkflow_done_def runWorkflow_begin_def Let_def split: sum.split)

lemma timeline_deselect_edges [simp]: "timeline (fold deselect_edge is s) = timeline s"
  by (induction "is" arbitrary: s) auto

lemma recorded_step:
  assumes "recorded a" and w: "wf_local s = Some w"
  shows "timeline (wf_step s a) = timeline s \<or> (\<exists>w'. timeline (wf_step s a) = (Some w', push_limited (wf_history s) w, []))"
  using assms
  by (cases a) (auto simp: handleNodesChange_def onConnect_def addNodeAtPosition_def Let_def handleAddNode_def handleDeleteNode_def
      handleDeleteEdge_def handleEdgesChange_def handleDuplicateNode_def handleDisconnectNode_def handleClearCanvas_def
      handleReverseEdge_def handleCopy_def handlePaste_def handleDuplicateSelection_def handleDeleteKey_def
      handleNodeClick_def handleEdgeClick_def handlePaneClick_def handleAlignNodes_def handleAutoLayout_def handleSave_def handleRun_def
      timeline_edit timeline_push split: option.splits prod.splits sum.splits)

lemma recorded_run:
  assumes "wf_local s = Some w" "wf_history s = []" "wf_future s = []" and "list_all recorded acts" "length acts \<le> HISTORY_LIMIT"
  shows "\<exists>w' h. timeline (run wf_step s acts) = (Some w', h, []) \<and> length h \<le> length acts \<and> hd (h @ [w']) = w"
  using assms(4,5)
proof (induction acts rule: rev_induct)
  case Nil
  then show ?case using assms by (simp add: timeline_def run_def)
next
  case (snoc a acts)
  then obtain w' h where IH: "timeline (run wf_step s acts) = (Some w', h, [])" "length h \<le> length acts" "hd (h @ [w']) = w" by auto
  let ?s = "run wf_step s acts"
  have s: "wf_local ?s = Some w'" "wf_history ?s = h" using IH(1) by (auto simp: timeline_def)
  have step: "run wf_step s (acts @ [a]) = wf_step ?s a" by (simp add: run_def)
  have "timeline (wf_step ?s a) = (Some w', h, []) \<or> (\<exists>v. timeline (wf_step ?s a) = (Some v, h @ [w'], []))"
    using recorded_step[OF _ s(1), of a] snoc.prems IH by (simp add: s(2) push_short)
  then show ?case unfolding step using IH(2,3)
    by (elim disjE exE) (auto simp: hd_append intro!: exI[of _ "h @ [w']"])
qed

text \<open>\<^bold>\<open>C27\<close>. 
  A session of at most \<^const>\<open>HISTORY_LIMIT\<close> edits of a workflow that was just opened is undone completely and redone
  completely, whatever the edits are (adding, connecting, deleting, pasting, aligning, layout) and even
  when some of them did nothing.
\<close>

theorem undo_redo_exact:
  assumes "wf_local s = Some w" "wf_history s = []" "wf_future s = []"
    and "list_all recorded acts" "length acts \<le> HISTORY_LIMIT"
  shows "wf_local ((handleUndo ^^ length acts) (run wf_step s acts)) = Some w \<and>
    wf_local ((handleRedo ^^ length acts) ((handleUndo ^^ length acts) (run wf_step s acts))) = wf_local (run wf_step s acts)"
proof -
  obtain w' h where t: "timeline (run wf_step s acts) = (Some w', h, [])" and h: "length h \<le> length acts" "hd (h @ [w']) = w"
    using recorded_run[OF assms] by blast
  obtain d where d: "length acts = d + length h" using h(1) by (metis le_add_diff_inverse2)
  obtain g where pow: "(undone ^^ length h) (Some w', h, []) = (Some w, [], g)"
    using undone_pow[of "length h" h "[]" w'] h assms(5) by (auto simp: hd_conv_nth)
  have "(undone ^^ length acts) (Some w', h, []) = (Some w, [], g)"
    unfolding d funpow_add comp_apply pow by (rule undone_stays)
  moreover have "(redone ^^ length acts) (Some w, [], g) = (Some w', h, [])"
    unfolding d funpow_add comp_apply pow[symmetric]
    using redone_undone_pow[of "length h" h "[]" w'] h(1) assms(5) by (simp add: redone_stays)
  ultimately have "timeline ((handleUndo ^^ length acts) (run wf_step s acts)) = (Some w, [], g)"
    "timeline ((handleRedo ^^ length acts) ((handleUndo ^^ length acts) (run wf_step s acts))) = (Some w', h, [])"
    by (simp_all add: timeline_undo timeline_redo t)
  then show ?thesis using t by (simp add: timeline_def)
qed

definition sample_workflow :: Workflow where
  "sample_workflow = (newWorkflow ''w'' ''t'' ''flow'')\<lparr>wo_nodes :=
     [\<lparr> fn_id = ''a'', fn_name = ''start'', fn_nodeType = StartN, fn_config = [], fn_position = Some (0, 0) \<rparr>,
      \<lparr> fn_id = ''b'', fn_name = ''wait'', fn_nodeType = DelayN, fn_config = defaultConfig DelayN, fn_position = None \<rparr>,
      \<lparr> fn_id = ''c'', fn_name = ''end'', fn_nodeType = EndN, fn_config = [], fn_position = None \<rparr>],
     wo_edges := [newEdge ''e'' ''a'' ''b'' None]\<rparr>"

lemma sample_good: "good_workflow sample_workflow"
  by (simp add: sample_workflow_def newWorkflow_def newEdge_def good_graph_def good_edge_def kinds_def joins_def acyclic_insert wf_acyclic)

theorem undo_redo_exact_witness:
  "let s = wf_init\<lparr>wf_local := Some sample_workflow\<rparr>;
       acts = [Connect ''f'' ''b'' ''c'' None, DeleteNode ''b'', Paste [] [], AddNodeByClick ''d'' LogN] in
   wf_local ((handleUndo ^^ length acts) (run wf_step s acts)) = Some sample_workflow \<and>
   wf_local ((handleRedo ^^ length acts) ((handleUndo ^^ length acts) (run wf_step s acts))) = wf_local (run wf_step s acts)"
  unfolding Let_def
  by (rule undo_redo_exact) (simp_all add: wf_init_def HISTORY_LIMIT_def)

text \<open>\<^bold>\<open>C26\<close>. 
  On a well formed workflow the check of a connection is exact: it accepts a connection precisely
  when the workflow with the new edge is well formed again, that is, both ends exist and are of the
  right kind, a condition is left through one of its branches, no connection is doubled and no cycle
  arises.
\<close>

theorem connection_check_exact:
  assumes "good_workflow w" and "u \<notin> fe_id ` set (wo_edges w)" and "a \<noteq> []" and "b \<noteq> []"
  shows "isWorkflowConnectionAllowed w (Some a) (Some b) h None \<longleftrightarrow>
    good_workflow (w\<lparr>wo_edges := wo_edges w @ [newEdge u a b h]\<rparr>)"
  using assms
  by (auto simp: allowed_iff good_graph_def good_edge_def newEdge_def link_def acyclic_insert or_undefined_def)

theorem connection_check_exact_witness:
  "isWorkflowConnectionAllowed sample_workflow (Some ''b'') (Some ''a'') None None \<longleftrightarrow>
    good_workflow (sample_workflow\<lparr>wo_edges := wo_edges sample_workflow @ [newEdge ''f'' ''b'' ''a'' None]\<rparr>)"
  by (rule connection_check_exact[OF sample_good]) (simp_all add: sample_workflow_def newEdge_def)



section \<open>Renaming, importing, running again\<close>

text \<open>
  Renaming a workflow that has unsaved edits saves the stored version under the new name and
  marks the editor as saved: the run that follows does not save, and runs the stored nodes and edges,
  not those on the canvas.
\<close>

theorem rename_forgets_edits:
  assumes "find (\<lambda>v. wo_id v = wo_id w) (wf_workflows s) = Some old" and "wf_local s = Some w" and "wo_id w \<noteq> []"
    and "js_trim name \<noteq> []"
  shows "let (s', ran) = handleRun now' r (commitRename (wo_id w) name now (Inr ()) s) in
    ran = Some (wo_id w) \<and> wf_local s' = Some (w\<lparr>wo_name := js_trim name\<rparr>) \<and>
    find (\<lambda>v. wo_id v = wo_id w) (wf_workflows s') = Some (old\<lparr>wo_name := js_trim name, wo_updatedAt := now\<rparr>)"
proof -
  have id: "wo_id old = wo_id w" using assms(1) by (auto dest: find_SomeD)
  have found: "find (\<lambda>v. wo_id v = i) (map_where (\<lambda>v. wo_id v = i) (\<lambda>_. x) vs) = (if i \<in> wo_id ` set vs then Some x else None)"
    if "wo_id x = i" for i x and vs :: "Workflow list"
    using that by (induction vs) (auto simp: map_where_def)
  have "wo_id w \<in> wo_id ` set (wf_workflows s)" using assms(1) id by (metis find_SomeD imageI)
  then show ?thesis
    using assms id by (simp add: commitRename_def Let_def saveWorkflow_done_def on_local_def handleRun_def runWorkflow_begin_def found)
qed

theorem rename_forgets_edits_witness:
  "let w = sample_workflow\<lparr>wo_nodes := []\<rparr>; s = wf_init\<lparr>wf_workflows := [sample_workflow], wf_local := Some w, wf_dirty := True\<rparr>;
     (s', ran) = handleRun ''3'' (Inr ()) (commitRename ''w'' '' new '' ''2'' (Inr ()) s) in
    ran = Some ''w'' \<and> wf_local s' = Some (w\<lparr>wo_name := ''new''\<rparr>) \<and>
    find (\<lambda>v. wo_id v = ''w'') (wf_workflows s') = Some (sample_workflow\<lparr>wo_name := ''new'', wo_updatedAt := ''2''\<rparr>)"
  using rename_forgets_edits[of "sample_workflow\<lparr>wo_nodes := []\<rparr>"
      "wf_init\<lparr>wf_workflows := [sample_workflow], wf_local := Some (sample_workflow\<lparr>wo_nodes := []\<rparr>), wf_dirty := True\<rparr>"
      sample_workflow "'' new ''" "''3''" "Inr ()" "''2''"]
  by (simp add: sample_workflow_def newWorkflow_def js_trim_def is_ws_def)

text \<open>
  Creating a workflow, saving content for it and activating it: the canvas shows the workflow as it was
  created, the store has the content, and saving from the editor replaces it.
\<close>

lemma created_then_saved:
  assumes "wo_id w = uuid" and "wo_id m = uuid" and new: "uuid \<notin> wo_id ` set (wf_workflows s)"
  shows "let s' = with_effect (setActiveWorkflowId (Some uuid)) (with_effect (saveWorkflow_done now m (Inr ())) (with_effect (createWorkflow_done (Inr w)) s)) in
    activeWorkflow s' = Some (m\<lparr>wo_updatedAt := now\<rparr>) \<and> wf_local s' = Some w \<and>
    activeWorkflow (handleSave now' (Inr ()) s') = Some (w\<lparr>wo_updatedAt := now'\<rparr>)"
proof -
  define m' where "m' = m\<lparr>wo_updatedAt := now\<rparr>"
  define s1 where "s1 = syncActive (createWorkflow_done (Inr w) s)"
  have ids: "wo_id w = uuid" "wo_id m = uuid" "wo_id m' = uuid" using assms(1,2) by (simp_all add: m'_def)
  have none: "find (\<lambda>v. Some (wo_id v) = Some uuid) (wf_workflows s) = None"
    using new by (auto simp: find_None_iff)
  have keep: "map_where (\<lambda>v. wo_id v = uuid) f (wf_workflows s @ [x]) = wf_workflows s @ [if wo_id x = uuid then f x else x]" for f x
    using new by (auto simp: map_where_def intro!: map_idI)
  have other: "map_option wo_id (activeWorkflow s) \<noteq> Some uuid"
    using new by (auto simp: activeWorkflow_def dest!: find_SomeD)
  have act: "activeWorkflow (createWorkflow_done (Inr w) s) = Some w"
    using none ids(1) by (simp add: activeWorkflow_def createWorkflow_done_def find_append)
  have s1: "with_effect (createWorkflow_done (Inr w)) s = s1"
    using not_sym[OF other] ids(1) by (simp only: with_effect_def Let_def s1_def act option.map if_False)
  have st: "wf_workflows s1 = wf_workflows s @ [w]" "wf_activeWorkflowId s1 = Some uuid" "wf_local s1 = Some w"
    using none ids by (auto simp: s1_def syncActive_def createWorkflow_done_def activeWorkflow_def find_append)
  have "with_effect (setActiveWorkflowId (Some uuid)) (with_effect (saveWorkflow_done now m (Inr ())) (with_effect (createWorkflow_done (Inr w)) s))
      = s1\<lparr>wf_workflows := wf_workflows s @ [m'], wf_dirty := False\<rparr>"
    using none ids st s1
    by (simp add: m'_def[symmetric] with_effect_def[of "saveWorkflow_done _ _ _"]
        with_effect_def[of "setActiveWorkflowId _"] saveWorkflow_done_def setActiveWorkflowId_def keep activeWorkflow_def find_append Let_def)
  then show ?thesis
    using none ids st unfolding Let_def m'_def[symmetric]
    by (simp add: activeWorkflow_def handleSave_def saveWorkflow_done_def Let_def keep find_append)
qed

text \<open>\<^bold>\<open>C28\<close>. 
  An import whose commands succeed stores the imported graph but leaves the empty workflow it
  created on the canvas, and saving from the editor then replaces the imported graph by the empty
  one. (The effect that loads the canvas runs when the workflow is created, and not again when its
  content is saved.)
\<close>

theorem import_shows_empty:
  assumes obj: "im_nodes obj = Some ns" "im_edges obj = Some es" and new: "uuid \<notin> wo_id ` set (wf_workflows s)"
  shows "let w = newWorkflow uuid now (or_text (im_name obj) untitled);
      s' = handleImportJson uuid now untitled Inr (Inr ()) (Some obj) s in
    activeWorkflow s' = Some (merged_import obj ns es w) \<and> wf_local s' = Some w \<and>
    activeWorkflow (handleSave now' (Inr ()) s') = Some (w\<lparr>wo_updatedAt := now'\<rparr>)"
proof -
  define w where "w = newWorkflow uuid now (or_text (im_name obj) untitled)"
  define m where "m = merged_import obj ns es w"
  have ids: "wo_id w = uuid" "wo_id m = uuid" "m\<lparr>wo_updatedAt := now\<rparr> = m"
    by (simp_all add: m_def w_def merged_import_def newWorkflow_def)
  note made = created_then_saved[OF ids(1,2) new, of now now']
  have "handleImportJson uuid now untitled Inr (Inr ()) (Some obj) s
      = with_effect (setActiveWorkflowId (Some uuid)) (with_effect (saveWorkflow_done now m (Inr ())) (with_effect (createWorkflow_done (Inr w)) s))"
    using obj ids by (simp add: handleImportJson_def w_def[symmetric] m_def[symmetric] Let_def)
  then show ?thesis using made ids(3) unfolding Let_def w_def[symmetric] m_def[symmetric] by simp
qed

theorem import_shows_empty_witness:
  "let obj = \<lparr> im_name = Some ''n'', im_description = None, im_nodes = Some (wo_nodes sample_workflow),
         im_edges = Some (wo_edges sample_workflow), im_variables = None \<rparr>;
       w = newWorkflow ''u'' ''1'' ''n''; s' = handleImportJson ''u'' ''1'' ''untitled'' Inr (Inr ()) (Some obj) wf_init in
    activeWorkflow s' = Some (merged_import obj (wo_nodes sample_workflow) (wo_edges sample_workflow) w) \<and> wf_local s' = Some w \<and>
    activeWorkflow (handleSave ''2'' (Inr ()) s') = Some (w\<lparr>wo_updatedAt := ''2''\<rparr>)"
  using import_shows_empty[of "\<lparr> im_name = Some ''n'', im_description = None, im_nodes = Some (wo_nodes sample_workflow),
         im_edges = Some (wo_edges sample_workflow), im_variables = None \<rparr>" "wo_nodes sample_workflow" "wo_edges sample_workflow"
       "''u''" wf_init "''1''" "''untitled''" "''2''"]
  by (simp add: wf_init_def or_text_def)

definition wf_event :: "WorkflowProgressEvent + WorkflowExecution \<Rightarrow> wf_state \<Rightarrow> wf_state" where
  "wf_event e s = (case e of Inl p \<Rightarrow> onProgress p s | Inr x \<Rightarrow> onCompleted x s)"

definition event_execution :: "WorkflowProgressEvent + WorkflowExecution \<Rightarrow> string" where
  "event_execution e = (case e of Inl p \<Rightarrow> wp_executionId p | Inr x \<Rightarrow> we_executionId x)"

lemma foreign_events_ignored:
  "wf_executionId s = Some i \<Longrightarrow> i \<noteq> [] \<Longrightarrow> list_all (\<lambda>e. event_execution e \<noteq> i) es \<Longrightarrow> fold wf_event es s = s"
  by (induction es) (auto simp: wf_event_def event_execution_def onProgress_def onCompleted_def foreign_event_def split: sum.splits)

text \<open>
  A run started while the previous execution is still remembered ignores every event of its own
  execution that arrives before the command returns: however the run went, it is shown as running
  with no results.
\<close>

theorem second_run_stuck:
  assumes "wf_executionId s = Some i" and "i \<noteq> []" and "list_all (\<lambda>e. event_execution e \<noteq> i) es"
  shows "let s' = runWorkflow_done (Inr j) (fold wf_event es (runWorkflow_begin s)) in
    wf_executionId s' = Some j \<and> wf_executionStatus s' = Some Running \<and> wf_nodeResults s' = []"
proof -
  have "fold wf_event es (runWorkflow_begin s) = runWorkflow_begin s"
    using assms by (intro foreign_events_ignored[of _ i]) (simp_all add: runWorkflow_begin_def)
  then show ?thesis by (simp add: runWorkflow_done_def runWorkflow_begin_def)
qed

theorem second_run_stuck_witness:
  "let s' = runWorkflow_done (Inr ''y'') (fold wf_event
       [Inr \<lparr> we_executionId = ''y'', we_workflowId = ''w'', we_status = Completed, we_nodeResults = [], we_startedAt = [],
              we_finishedAt = None, we_totalDurationMs = 1 \<rparr>] (runWorkflow_begin (wf_init\<lparr>wf_executionId := Some ''x''\<rparr>))) in
    wf_executionId s' = Some ''y'' \<and> wf_executionStatus s' = Some Running \<and> wf_nodeResults s' = []"
  by (rule second_run_stuck[of _ "''x''"]) (simp_all add: event_execution_def)

end
