(* ===== verification/Checksums.thy ===== *)
theory Checksums
  imports Prelude "HOL-Library.Word"
begin

text \<open>
  The checks of the debugging toolbox (\<open>src/src/components/plugins/ToolboxPanel.tsx\<close>): four cyclic
  redundancy checks, two sums and an exclusive or, on words of the width the code masks to.

  The four registers are instances of one interface, a linear shift register that loses no
  information; what they detect is proved once for it.
\<close>

unbundle bit_operations_syntax

type_synonym byte = "8 word"


section \<open>The algorithms\<close>

definition crc8_bit :: "8 word \<Rightarrow> 8 word" where
  "crc8_bit crc = (if crc AND 0x80 \<noteq> 0 then push_bit 1 crc XOR 0x07 else push_bit 1 crc)"

definition crc8 :: "byte list \<Rightarrow> 8 word" where
  "crc8 bytes = foldl (\<lambda>crc byte. (crc8_bit ^^ 8) (crc XOR byte)) 0 bytes"

definition crc16Modbus_bit :: "16 word \<Rightarrow> 16 word" where
  "crc16Modbus_bit crc = (if crc AND 1 \<noteq> 0 then drop_bit 1 crc XOR 0xA001 else drop_bit 1 crc)"

definition crc16Modbus :: "byte list \<Rightarrow> 16 word" where
  "crc16Modbus bytes = foldl (\<lambda>crc byte. (crc16Modbus_bit ^^ 8) (crc XOR ucast byte)) 0xFFFF bytes"

definition crc16CCITT_bit :: "16 word \<Rightarrow> 16 word" where
  "crc16CCITT_bit crc = (if crc AND 0x8000 \<noteq> 0 then push_bit 1 crc XOR 0x1021 else push_bit 1 crc)"

definition crc16CCITT :: "byte list \<Rightarrow> 16 word" where
  "crc16CCITT bytes = foldl (\<lambda>crc byte. (crc16CCITT_bit ^^ 8) (crc XOR push_bit 8 (ucast byte))) 0xFFFF bytes"

definition crc32_bit :: "32 word \<Rightarrow> 32 word" where
  "crc32_bit crc = (if crc AND 1 \<noteq> 0 then drop_bit 1 crc XOR 0xEDB88320 else drop_bit 1 crc)"

definition crc32 :: "byte list \<Rightarrow> 32 word" where
  "crc32 bytes = foldl (\<lambda>crc byte. (crc32_bit ^^ 8) (crc XOR ucast byte)) 0xFFFFFFFF bytes XOR 0xFFFFFFFF"

definition checksum8 :: "byte list \<Rightarrow> 8 word" where
  "checksum8 bytes = foldl (+) 0 bytes"

definition checksum16 :: "byte list \<Rightarrow> 16 word" where
  "checksum16 bytes = foldl (\<lambda>sum b. sum + ucast b) 0 bytes"

definition xorCheck :: "byte list \<Rightarrow> 8 word" where
  "xorCheck bytes = foldl (XOR) 0 bytes"

datatype CrcAlgorithm = Crc8 | Crc16Modbus | Crc16CCITT | Crc32 | Sum8 | Sum16 | Xor8

fun parseBits :: "CrcAlgorithm \<Rightarrow> nat" where
  "parseBits Crc8 = 8"
| "parseBits Sum8 = 8"
| "parseBits Xor8 = 8"
| "parseBits Crc32 = 32"
| "parseBits Crc16Modbus = 16"
| "parseBits Crc16CCITT = 16"
| "parseBits Sum16 = 16"

fun runCrc :: "byte list \<Rightarrow> CrcAlgorithm \<Rightarrow> nat" where
  "runCrc bytes Crc8 = unat (crc8 bytes)"
| "runCrc bytes Crc16Modbus = unat (crc16Modbus bytes)"
| "runCrc bytes Crc16CCITT = unat (crc16CCITT bytes)"
| "runCrc bytes Crc32 = unat (crc32 bytes)"
| "runCrc bytes Sum8 = unat (checksum8 bytes)"
| "runCrc bytes Sum16 = unat (checksum16 bytes)"
| "runCrc bytes Xor8 = unat (xorCheck bytes)"


section \<open>Shift registers\<close>

text \<open>
  \<open>load k b\<close> is where the \<open>k\<close>th byte after the current one would have to enter the register now to be
  in place when it is its turn; \<open>width\<close> is the number of bytes the register holds.
\<close>

fun packed :: "(nat \<Rightarrow> byte \<Rightarrow> 'w::len word) \<Rightarrow> nat \<Rightarrow> byte list \<Rightarrow> 'w word" where
  "packed load k [] = 0"
| "packed load k (b # bs) = load k b XOR packed load (Suc k) bs"

definition feed :: "('w::len word \<Rightarrow> 'w word) \<Rightarrow> (nat \<Rightarrow> byte \<Rightarrow> 'w word) \<Rightarrow> 'w word \<Rightarrow> byte \<Rightarrow> 'w word" where
  "feed step load s b = (step ^^ 8) (s XOR load 0 b)"

lemma xor_eq_0: "x XOR y = 0 \<Longrightarrow> x = y" for x y :: "'w::len word"
  by (metis xor.assoc xor.right_neutral xor_self_eq xor.left_neutral)

lemma xor_lists_eq: "length us = length vs \<Longrightarrow> set (map2 (XOR) us vs) \<subseteq> {0} \<Longrightarrow> us = vs" for us vs :: "byte list"
  by (induction us vs rule: list_induct2) (auto dest: xor_eq_0)

locale shift_register =
  fixes step :: "'w::len word \<Rightarrow> 'w word"
    and load :: "nat \<Rightarrow> byte \<Rightarrow> 'w word"
    and width :: nat
  assumes step_linear: "step (x XOR y) = step x XOR step y"
    and step_loses_nothing: "step x = 0 \<Longrightarrow> x = 0"
    and load_linear: "load k (a XOR b) = load k a XOR load k b"
    and load_moves: "Suc k < width \<Longrightarrow> (step ^^ 8) (load (Suc k) b) = load k b"
    and load_apart: "length bs \<le> width \<Longrightarrow> packed load 0 bs = 0 \<Longrightarrow> set bs \<subseteq> {0}"
begin

lemma step_zero: "step 0 = 0"
  using step_linear[of 0 0] by simp

lemma steps_linear: "(step ^^ n) (x XOR y) = (step ^^ n) x XOR (step ^^ n) y"
  by (induction n) (simp_all add: step_linear)

lemma steps_loses_nothing: "(step ^^ n) x = 0 \<Longrightarrow> x = 0"
  by (induction n) (auto dest: step_loses_nothing)

lemma steps_zero: "(step ^^ n) 0 = 0"
  by (induction n) (simp_all add: step_zero)

lemma load_zero: "load k 0 = 0"
  using load_linear[of k 0 0] by simp

lemma feed_linear: "feed step load (s XOR t) (a XOR b) = feed step load s a XOR feed step load t b"
  by (simp add: feed_def steps_linear load_linear ac_simps)

lemma feeds_linear:
  "length as = length bs \<Longrightarrow>
   foldl (feed step load) (s XOR t) (map2 (XOR) as bs) = foldl (feed step load) s as XOR foldl (feed step load) t bs"
  by (induction as bs arbitrary: s t rule: list_induct2) (simp_all add: feed_linear)

lemma feeds_loses_nothing: "foldl (feed step load) s (replicate n 0) = 0 \<Longrightarrow> s = 0"
  by (induction n arbitrary: s) (auto simp: feed_def load_zero dest: steps_loses_nothing)

text \<open>Bytes that fit into the register can be fed at once.\<close>

lemma packed_moves: "Suc k + length bs \<le> width \<Longrightarrow> (step ^^ 8) (packed load (Suc k) bs) = packed load k bs"
  by (induction bs arbitrary: k) (simp_all add: steps_zero steps_linear load_moves)

lemma feeds_packed:
  "length bs \<le> width \<Longrightarrow> foldl (feed step load) s bs = (step ^^ (8 * length bs)) (s XOR packed load 0 bs)"
proof (induction bs arbitrary: s)
  case (Cons b bs)
  have "s XOR (load 0 b XOR packed load (Suc 0) bs) = (s XOR load 0 b) XOR packed load (Suc 0) bs"
    by (simp add: ac_simps)
  then have "(step ^^ 8) (s XOR packed load 0 (b # bs)) = feed step load s b XOR packed load 0 bs"
    using Cons.prems by (simp add: feed_def steps_linear packed_moves)
  then have "(step ^^ (8 * length bs)) ((step ^^ 8) (s XOR packed load 0 (b # bs))) = foldl (feed step load) s (b # bs)"
    using Cons by simp
  moreover have "8 * length (b # bs) = 8 * length bs + 8" by simp
  ultimately show ?case by (simp only: funpow_add comp_apply)
qed simp

text \<open>A frame that ends with its own check leaves the register empty.\<close>

lemma appended: "length bs \<le> width \<Longrightarrow> packed load 0 bs = s \<Longrightarrow> foldl (feed step load) s bs = 0"
  by (simp add: feeds_packed steps_zero)

lemma burst_detected:
  assumes "length us = length vs" and "length us \<le> width" and "us \<noteq> vs"
  shows "foldl (feed step load) s (us @ ys) \<noteq> foldl (feed step load) s (vs @ ys)"
proof
  assume "foldl (feed step load) s (us @ ys) = foldl (feed step load) s (vs @ ys)"
  moreover have "map2 (XOR) ys ys = replicate (length ys) 0"
    by (induction ys) simp_all
  ultimately have "foldl (feed step load) 0 (map2 (XOR) us vs @ replicate (length ys) 0) = 0"
    using feeds_linear[of "us @ ys" "vs @ ys" s s] assms(1) by simp
  then have "foldl (feed step load) 0 (map2 (XOR) us vs) = 0"
    using feeds_loses_nothing by (simp only: foldl_append)
  then have "packed load 0 (map2 (XOR) us vs) = 0"
    using assms(1,2) by (simp add: feeds_packed steps_loses_nothing)
  then have "set (map2 (XOR) us vs) \<subseteq> {0}"
    using assms(1,2) by (intro load_apart) simp_all
  then have "us = vs"
    by (rule xor_lists_eq[OF assms(1)])
  with assms(3) show False by simp
qed

end


section \<open>The registers of the code\<close>

text \<open>A shift towards bit 0, and one away from it.\<close>

lemma word_bits_eq: "x = y \<longleftrightarrow> (\<forall>n < LENGTH('w). bit x n = bit y n)" for x y :: "'w::len word"
  by (auto intro: bit_word_eqI)

lemma and_1_bit: "x AND 1 \<noteq> 0 \<longleftrightarrow> bit x 0" for x :: "'w::len word"
  by (simp add: and_one_eq odd_iff_mod_2_eq_one even_iff_mod_2_eq_zero bit_0)

lemma and_mask_bit: "x AND push_bit n 1 \<noteq> 0 \<longleftrightarrow> bit x n" for x :: "'w::len word"
proof -
  have "x AND push_bit n 1 = 0 \<longleftrightarrow> \<not> bit x n"
    using bit_imp_le_length[of x n] by (auto simp: word_bits_eq bit_simps)
  then show ?thesis by simp
qed

definition shift_right :: "'w::len word \<Rightarrow> 'w word \<Rightarrow> 'w word" where
  "shift_right poly x = drop_bit 1 x XOR (if bit x 0 then poly else 0)"

definition shift_left :: "'w::len word \<Rightarrow> 'w word \<Rightarrow> 'w word" where
  "shift_left poly x = push_bit 1 x XOR (if bit x (LENGTH('w) - 1) then poly else 0)"

lemma shift_right_linear: "shift_right p (x XOR y) = shift_right p x XOR shift_right p y"
  by (auto simp: shift_right_def bit_simps ac_simps)

lemma shift_left_linear: "shift_left p (x XOR y) = shift_left p x XOR shift_left p y"
  by (auto simp: shift_left_def bit_simps ac_simps)

lemma shift_right_loses_nothing:
  fixes x p :: "'w::len word"
  assumes "bit p (LENGTH('w) - 1)" and "shift_right p x = 0"
  shows "x = 0"
proof -
  have top: "\<not> bit (drop_bit 1 x) (LENGTH('w) - 1)" by (simp add: bit_simps)
  have "\<not> bit x 0"
  proof
    assume "bit x 0"
    then have "drop_bit 1 x = p" using assms(2) by (auto simp: shift_right_def dest: xor_eq_0)
    with top assms(1) show False by simp
  qed
  moreover from this have "drop_bit 1 x = 0" using assms(2) by (simp add: shift_right_def)
  then have "\<not> bit x (Suc n)" for n using bit_imp_le_length[of x "Suc n"] by (auto simp: word_bits_eq bit_simps)
  ultimately have "\<not> bit x n" for n by (cases n) auto
  then show ?thesis by (simp add: bit_eq_iff)
qed

lemma shift_left_loses_nothing:
  fixes x p :: "'w::len word"
  assumes "bit p 0" and "shift_left p x = 0"
  shows "x = 0"
proof -
  have low: "\<not> bit (push_bit 1 x) 0" by (simp add: bit_0)
  have "\<not> bit x (LENGTH('w) - 1)"
  proof
    assume "bit x (LENGTH('w) - 1)"
    then have "push_bit 1 x = p" using assms(2) by (auto simp: shift_left_def dest: xor_eq_0)
    with low assms(1) show False by simp
  qed
  moreover from this have "push_bit 1 x = 0" using assms(2) by (simp add: shift_left_def)
  then have "Suc n < LENGTH('w) \<Longrightarrow> \<not> bit x n" for n by (auto simp: word_bits_eq bit_simps simp del: push_bit_Suc)
  ultimately have "\<not> bit x n" for n
    by (metis Suc_lessI bit_imp_le_length diff_Suc_1)
  then show ?thesis by (simp add: bit_eq_iff)
qed


lemma crc_bits:
  "crc8_bit = shift_left 0x07" "crc16CCITT_bit = shift_left 0x1021"
  "crc16Modbus_bit = shift_right 0xA001" "crc32_bit = shift_right 0xEDB88320"
  using and_mask_bit[of _ 7, where 'w = 8] and_mask_bit[of _ 15, where 'w = 16]
  by (auto simp: fun_eq_iff crc8_bit_def crc16CCITT_bit_def crc16Modbus_bit_def crc32_bit_def shift_left_def shift_right_def and_1_bit)

text \<open>Where a byte enters: the low end of a register that shifts right, the high end of one that shifts left.\<close>

definition load_low :: "nat \<Rightarrow> byte \<Rightarrow> 'w::len word" where
  "load_low k b = push_bit (8 * k) (ucast b)"

definition load_high :: "nat \<Rightarrow> byte \<Rightarrow> 'w::len word" where
  "load_high k b = push_bit (LENGTH('w) - 8 - 8 * k) (ucast b)"

lemma load_linears:
  "load_low k (a XOR b) = load_low k a XOR load_low k b" "load_high k (a XOR b) = load_high k a XOR load_high k b"
  by (auto simp: load_low_def load_high_def word_bits_eq bit_simps)

lemma right_step:
  fixes v :: "'w::len word"
  assumes "\<And>n. bit v n \<Longrightarrow> Suc j + n < LENGTH('w)"
  shows "shift_right p (push_bit (Suc j) v) = push_bit j v"
proof (rule bit_word_eqI)
  fix n assume "n < LENGTH('w)"
  show "bit (shift_right p (push_bit (Suc j) v)) n = bit (push_bit j v) n"
    using assms[of "n - j"] by (auto simp: shift_right_def bit_simps simp del: push_bit_Suc)
qed

lemma left_step:
  fixes v :: "'w::len word"
  assumes "\<And>n. bit v n \<Longrightarrow> Suc j + n < LENGTH('w)"
  shows "shift_left p (push_bit j v) = push_bit (Suc j) v"
proof (rule bit_word_eqI)
  fix n assume "n < LENGTH('w)"
  show "bit (shift_left p (push_bit j v)) n = bit (push_bit (Suc j) v) n"
    using assms[of "LENGTH('w) - 1 - j"] by (auto simp: shift_left_def bit_simps simp del: push_bit_Suc)
qed

lemma right_steps:
  fixes v :: "'w::len word"
  assumes "\<And>n. bit v n \<Longrightarrow> i + n < LENGTH('w)" and "k \<le> i"
  shows "(shift_right p ^^ k) (push_bit i v) = push_bit (i - k) v"
  using assms(2)
proof (induction k)
  case (Suc k)
  have "(shift_right p ^^ Suc k) (push_bit i v) = shift_right p (push_bit (Suc (i - Suc k)) v)"
    using Suc by (simp add: Suc_diff_Suc)
  also have "\<dots> = push_bit (i - Suc k) v"
    using assms(1) Suc.prems by (intro right_step) (auto dest: assms(1))
  finally show ?case .
qed simp

lemma left_steps:
  fixes v :: "'w::len word"
  assumes "\<And>n. bit v n \<Longrightarrow> i + k + n < LENGTH('w)"
  shows "(shift_left p ^^ k) (push_bit i v) = push_bit (i + k) v"
  using assms
proof (induction k)
  case (Suc k)
  have "(shift_left p ^^ Suc k) (push_bit i v) = shift_left p (push_bit (i + k) v)"
    using Suc by fastforce
  also have "\<dots> = push_bit (i + Suc k) v"
    using Suc.prems by (simp del: push_bit_Suc) (rule left_step, fastforce)
  finally show ?case .
qed simp


lemma bit_loads:
  "bit (load_low k b :: 'w::len word) n \<longleftrightarrow> 8 * k \<le> n \<and> n < LENGTH('w) \<and> bit b (n - 8 * k)"
  "bit (load_high k b :: 'w::len word) n \<longleftrightarrow> LENGTH('w) - 8 - 8 * k \<le> n \<and> n < LENGTH('w) \<and> bit b (n - (LENGTH('w) - 8 - 8 * k))"
  by (auto simp: load_low_def load_high_def bit_simps)

lemma byte_bits: "bit b n \<Longrightarrow> n < 8" for b :: byte
  using bit_imp_le_length[of b n] by simp

lemma load_low_moves:
  fixes p :: "'w::len word"
  assumes "8 * (Suc k + 1) \<le> LENGTH('w)"
  shows "(shift_right p ^^ 8) (load_low (Suc k) b) = load_low k b"
proof -
  have "(shift_right p ^^ 8) (push_bit (8 * Suc k) (ucast b)) = push_bit (8 * Suc k - 8) (ucast b)"
    using assms by (intro right_steps) (auto simp: bit_simps dest: byte_bits)
  then show ?thesis by (simp add: load_low_def)
qed

lemma load_high_moves:
  fixes p :: "'w::len word"
  assumes "8 * (Suc k + 1) \<le> LENGTH('w)"
  shows "(shift_left p ^^ 8) (load_high (Suc k) b) = load_high k b"
proof -
  let ?i = "LENGTH('w) - 8 - 8 * Suc k"
  have "?i + 8 + n < LENGTH('w)" if "bit (ucast b :: 'w word) n" for n
    using assms that byte_bits[of b n] by (simp add: bit_simps)
  then have step: "(shift_left p ^^ 8) (push_bit ?i (ucast b)) = push_bit (?i + 8) (ucast b)"
    by (rule left_steps)
  obtain m where "LENGTH('w) = 8 * (Suc k + 1) + m" using assms nat_le_iff_add by blast
  then have "?i + 8 = LENGTH('w) - 8 - 8 * k" by simp
  with step show ?thesis unfolding load_high_def by (simp only:)
qed

lemma packed_low: "bit (packed load_low k bs :: 'w::len word) n \<Longrightarrow> 8 * k \<le> n"
proof (induction bs arbitrary: k)
  case (Cons b bs)
  then consider "bit (load_low k b :: 'w word) n" | "bit (packed load_low (Suc k) bs :: 'w word) n"
    by (auto simp: bit_simps)
  then show ?case using Cons.IH[of "Suc k"] by cases (auto simp: bit_loads)
qed simp

lemma packed_high:
  "8 * (k + length bs) \<le> LENGTH('w) \<Longrightarrow> bit (packed load_high k bs :: 'w::len word) n \<Longrightarrow> n < LENGTH('w) - 8 * k"
proof (induction bs arbitrary: k)
  case (Cons b bs)
  then consider "bit (load_high k b :: 'w word) n" | "bit (packed load_high (Suc k) bs :: 'w word) n"
    by (auto simp: bit_simps)
  then show ?case
  proof cases
    case 1
    then have "n - (LENGTH('w) - 8 - 8 * k) < 8" by (auto simp: bit_loads dest: byte_bits)
    then show ?thesis using Cons.prems(1) by simp
  next
    case 2
    then show ?thesis using Cons.IH[of "Suc k"] Cons.prems(1) by simp
  qed
qed simp

lemma load_low_apart: "8 * (k + length bs) \<le> LENGTH('w) \<Longrightarrow> packed load_low k bs = (0 :: 'w::len word) \<Longrightarrow> set bs \<subseteq> {0}"
proof (induction bs arbitrary: k)
  case (Cons b bs)
  let ?l = "load_low k b :: 'w word" and ?r = "packed load_low (Suc k) bs :: 'w word"
  have eq: "?l = ?r" using Cons.prems by (auto dest: xor_eq_0)
  have "\<not> bit b n" for n
  proof
    assume n: "bit b n"
    then have "n < 8" by (rule byte_bits)
    then have "bit ?l (8 * k + n)" using n Cons.prems by (simp add: bit_loads)
    then have "8 * Suc k \<le> 8 * k + n" unfolding eq by (rule packed_low)
    with \<open>n < 8\<close> show False by simp
  qed
  then have "b = 0" by (simp add: bit_eq_iff)
  moreover from this have "?l = 0" by (simp add: load_low_def)
  then have "set bs \<subseteq> {0}" using eq Cons.IH[of "Suc k"] Cons.prems(1) by simp
  ultimately show ?case by simp
qed simp

lemma load_high_apart: "8 * (k + length bs) \<le> LENGTH('w) \<Longrightarrow> packed load_high k bs = (0 :: 'w::len word) \<Longrightarrow> set bs \<subseteq> {0}"
proof (induction bs arbitrary: k)
  case (Cons b bs)
  let ?l = "load_high k b :: 'w word" and ?r = "packed load_high (Suc k) bs :: 'w word" and ?i = "LENGTH('w) - 8 - 8 * k"
  have eq: "?l = ?r" using Cons.prems by (auto dest: xor_eq_0)
  have "\<not> bit b n" for n
  proof
    assume n: "bit b n"
    then have "n < 8" by (rule byte_bits)
    then have "?i + n < LENGTH('w)" using Cons.prems(1) by simp
    then have "bit ?l (?i + n)" using n unfolding bit_loads by simp
    then have "?i + n < LENGTH('w) - 8 * Suc k" unfolding eq using Cons.prems(1) by (intro packed_high) simp_all
    then show False by simp
  qed
  then have "b = 0" by (simp add: bit_eq_iff)
  moreover from this have "?l = 0" by (simp add: load_high_def)
  then have "set bs \<subseteq> {0}" using eq Cons.IH[of "Suc k"] Cons.prems(1) by simp
  ultimately show ?case by simp
qed simp

interpretation reg8: shift_register "shift_left (0x07 :: 8 word)" load_high 1
proof unfold_locales
  show "length bs \<le> 1 \<Longrightarrow> packed load_high 0 bs = (0 :: 8 word) \<Longrightarrow> set bs \<subseteq> {0}" for bs
    by (rule load_high_apart[of 0]) simp_all
qed (auto simp: shift_left_linear load_linears load_high_moves dest: shift_left_loses_nothing[rotated])

interpretation modbus: shift_register "shift_right (0xA001 :: 16 word)" load_low 2
proof unfold_locales
  show "length bs \<le> 2 \<Longrightarrow> packed load_low 0 bs = (0 :: 16 word) \<Longrightarrow> set bs \<subseteq> {0}" for bs
    by (rule load_low_apart[of 0]) simp_all
qed (auto simp: shift_right_linear load_linears load_low_moves dest: shift_right_loses_nothing[rotated])

interpretation ccitt: shift_register "shift_left (0x1021 :: 16 word)" load_high 2
proof unfold_locales
  show "length bs \<le> 2 \<Longrightarrow> packed load_high 0 bs = (0 :: 16 word) \<Longrightarrow> set bs \<subseteq> {0}" for bs
    by (rule load_high_apart[of 0]) simp_all
qed (auto simp: shift_left_linear load_linears load_high_moves dest: shift_left_loses_nothing[rotated])

interpretation reg32: shift_register "shift_right (0xEDB88320 :: 32 word)" load_low 4
proof unfold_locales
  show "length bs \<le> 4 \<Longrightarrow> packed load_low 0 bs = (0 :: 32 word) \<Longrightarrow> set bs \<subseteq> {0}" for bs
    by (rule load_low_apart[of 0]) simp_all
qed (auto simp: shift_right_linear load_linears load_low_moves dest: shift_right_loses_nothing[rotated])


section \<open>What the checks detect\<close>

lemma crc_feeds:
  "crc8 bs = foldl (feed (shift_left 0x07) load_high) 0 bs"
  "crc16Modbus bs = foldl (feed (shift_right 0xA001) load_low) 0xFFFF bs"
  "crc16CCITT bs = foldl (feed (shift_left 0x1021) load_high) 0xFFFF bs"
  "crc32 bs = foldl (feed (shift_right 0xEDB88320) load_low) 0xFFFFFFFF bs XOR 0xFFFFFFFF"
  by (simp_all add: crc8_def crc16Modbus_def crc16CCITT_def crc32_def crc_bits feed_def[abs_def] load_low_def load_high_def)

lemma xor_cancel: "x XOR z = y XOR z \<Longrightarrow> x = y" for x y z :: "'w::len word"
  by (metis xor.assoc xor.right_neutral xor_self_eq)

lemma xor_cancel_left: "z XOR x = z XOR y \<Longrightarrow> x = y" for x y z :: "'w::len word"
  by (metis xor.commute xor_cancel)

lemma foldl_cancel:
  assumes "\<And>s t y. f s y = f t y \<Longrightarrow> s = t" and "\<And>s y z. f s y = f s z \<Longrightarrow> y = z"
    and "foldl f s (xs @ [a] @ ys) = foldl f s (xs @ [b] @ ys)"
  shows "a = b"
proof -
  have inj: "foldl f s ys = foldl f t ys \<Longrightarrow> s = t" for s t
    by (induction ys arbitrary: s t) (auto dest: assms(1))
  show ?thesis using assms(3) by (auto dest!: inj assms(2))
qed

lemma length_le_1: "length us = length vs \<Longrightarrow> length us \<le> 1 \<Longrightarrow> us \<noteq> vs \<Longrightarrow> \<exists>a b. us = [a] \<and> vs = [b] \<and> a \<noteq> b"
  by (cases us; cases vs) auto

text \<open>\<^bold>\<open>C29\<close>. 
  Two messages that differ only inside a window no wider than the check (one byte for the
  8-bit checks, two for the 16-bit ones, four for CRC-32) have different checks. The 16-bit sum is
  the exception: it does not see two bytes swapped.
\<close>

theorem checks_detect_bursts:
  assumes "length us = length vs" and "8 * length us \<le> parseBits algo" and "us \<noteq> vs" and "algo \<noteq> Sum16"
  shows "runCrc (xs @ us @ ys) algo \<noteq> runCrc (xs @ vs @ ys) algo"
proof (cases algo)
  case Crc8
  then show ?thesis using assms reg8.burst_detected[of us vs] by (simp add: crc_feeds flip: word_unat_eq_iff)
next
  case Crc16Modbus
  then show ?thesis using assms modbus.burst_detected[of us vs] by (simp add: crc_feeds flip: word_unat_eq_iff)
next
  case Crc16CCITT
  then show ?thesis using assms ccitt.burst_detected[of us vs] by (simp add: crc_feeds flip: word_unat_eq_iff)
next
  case Crc32
  then show ?thesis using assms reg32.burst_detected[of us vs] by (auto simp: crc_feeds dest: xor_cancel simp flip: word_unat_eq_iff)
next
  case Sum8
  then obtain a b where "us = [a]" "vs = [b]" "a \<noteq> b" using assms length_le_1[of us vs] by auto
  with Sum8 show ?thesis using foldl_cancel[of "(+)" 0 xs a ys b] by (auto simp: checksum8_def simp flip: word_unat_eq_iff)
next
  case Xor8
  then obtain a b where "us = [a]" "vs = [b]" "a \<noteq> b" using assms length_le_1[of us vs] by auto
  with Xor8 show ?thesis
    using foldl_cancel[of "(XOR)" 0 xs a ys b, OF xor_cancel xor_cancel_left] by (auto simp: xorCheck_def simp flip: word_unat_eq_iff)
qed (use assms in simp)

theorem checks_detect_bursts_witness:
  "runCrc ([1, 3] @ [0, 10] @ [7]) Crc16Modbus \<noteq> runCrc ([1, 3] @ [10, 0] @ [7]) Crc16Modbus"
  by (rule checks_detect_bursts) simp_all

lemma sum16_misses_swap: "runCrc (xs @ [a, b] @ ys) Sum16 = runCrc (xs @ [b, a] @ ys) Sum16"
  by (simp add: checksum16_def ac_simps)

lemma frame8: "crc8 (bs @ [crc8 bs]) = 0"
  using reg8.appended[of "[crc8 bs]" "crc8 bs"] by (simp add: crc_feeds load_high_def)

lemma word_split:
  "load_low 0 (ucast c) XOR load_low 1 (ucast (drop_bit 8 c)) = (c :: 16 word)"
  "load_high 0 (ucast (drop_bit 8 c)) XOR load_high 1 (ucast c) = (c :: 16 word)"
  "load_low 0 (ucast d) XOR load_low 1 (ucast (drop_bit 8 d)) XOR load_low 2 (ucast (drop_bit 16 d)) XOR load_low 3 (ucast (drop_bit 24 d)) = (d :: 32 word)"
  by (rule bit_word_eqI, auto simp: bit_simps bit_loads)+

lemma frame16:
  "crc16Modbus (bs @ [ucast (crc16Modbus bs), ucast (drop_bit 8 (crc16Modbus bs))]) = 0"
  "crc16CCITT (bs @ [ucast (drop_bit 8 (crc16CCITT bs)), ucast (crc16CCITT bs)]) = 0"
proof -
  let ?l = "\<lambda>c. [ucast c, ucast (drop_bit 8 c)]" and ?h = "\<lambda>c. [ucast (drop_bit 8 c), ucast c]"
  have "foldl (feed (shift_right 0xA001) load_low) c (?l c) = 0" for c :: "16 word"
    using word_split(1)[of c] by (intro modbus.appended) simp_all
  then show "crc16Modbus (bs @ ?l (crc16Modbus bs)) = 0" by (simp only: crc_feeds foldl_append)
  have "foldl (feed (shift_left 0x1021) load_high) c (?h c) = 0" for c :: "16 word"
    using word_split(2)[of c] by (intro ccitt.appended) simp_all
  then show "crc16CCITT (bs @ ?h (crc16CCITT bs)) = 0" by (simp only: crc_feeds foldl_append)
qed

lemma pow8: "(f ^^ 8) x = f (f (f (f (f (f (f (f x)))))))"
  by (simp add: eval_nat_numeral)

lemma residue32: "(shift_right 0xEDB88320 ^^ 32) (0xFFFFFFFF :: 32 word) = 0xDEBB20E3"
proof -
  let ?f = "shift_right (0xEDB88320 :: 32 word)"
  have "(?f ^^ 8) 0xFFFFFFFF = 0x2DFD1072" unfolding pow8 shift_right_def by simp
  moreover
  have "(?f ^^ 8) 0x2DFD1072 = 0xBE26ED00" unfolding pow8 shift_right_def by simp
  moreover
  have "(?f ^^ 8) 0xBE26ED00 = 0xBE26ED" unfolding pow8 shift_right_def by simp
  moreover
  have "(?f ^^ 8) 0xBE26ED = 0xDEBB20E3" unfolding pow8 shift_right_def by simp
  moreover have "(?f ^^ (8 + (8 + (8 + 8)))) x = (?f ^^ 8) ((?f ^^ 8) ((?f ^^ 8) ((?f ^^ 8) x)))" for x
    by (simp only: funpow_add comp_apply)
  ultimately show ?thesis by simp
qed

lemma frame32:
  "crc32 (bs @ [ucast (crc32 bs), ucast (drop_bit 8 (crc32 bs)), ucast (drop_bit 16 (crc32 bs)), ucast (drop_bit 24 (crc32 bs))]) = 0x2144DF1C"
proof -
  define s :: "32 word" where "s = foldl (feed (shift_right 0xEDB88320) load_low) 0xFFFFFFFF bs"
  let ?d = "s XOR 0xFFFFFFFF"
  let ?t = "[ucast ?d, ucast (drop_bit 8 ?d), ucast (drop_bit 16 ?d), ucast (drop_bit 24 ?d)]"
  have "packed load_low 0 ?t = ?d"
    using word_split(3)[of ?d] by (simp add: numeral_eq_Suc)
  then have "foldl (feed (shift_right 0xEDB88320) load_low) s ?t = (shift_right 0xEDB88320 ^^ 32) (s XOR ?d)"
    using reg32.feeds_packed[of ?t s] by (simp del: packed.simps foldl.simps)
  also have "s XOR ?d = 0xFFFFFFFF" by (simp flip: xor.assoc)
  also have "(shift_right 0xEDB88320 ^^ 32) (0xFFFFFFFF :: 32 word) = 0xDEBB20E3" by (rule residue32)
  finally show ?thesis by (simp only: crc_feeds foldl_append s_def[symmetric]) simp
qed

text \<open>
  A message followed by its own check is recognised without comparing: the check of the whole
  is 0 (CRC-8; CRC-16/Modbus sent low byte first; CRC-16/CCITT sent high byte first) or the
  constant 0x2144DF1C (CRC-32 sent low byte first).
\<close>

theorem checked_frames:
  "crc8 (bs @ [crc8 bs]) = 0 \<and>
   (let c = crc16Modbus bs in crc16Modbus (bs @ [ucast c, ucast (drop_bit 8 c)]) = 0) \<and>
   (let c = crc16CCITT bs in crc16CCITT (bs @ [ucast (drop_bit 8 c), ucast c]) = 0) \<and>
   (let c = crc32 bs in crc32 (bs @ [ucast c, ucast (drop_bit 8 c), ucast (drop_bit 16 c), ucast (drop_bit 24 c)]) = 0x2144DF1C)"
  by (simp add: frame8 frame16 frame32 Let_def)

end
