(* ===== verification/ByteCodecs.thy ===== *)
theory ByteCodecs
  imports Checksums Json
begin

text \<open>
  Bytes as text: the hexadecimal and byte tools of the toolbox
  (\<open>src/src/components/plugins/ToolboxPanel.tsx\<close>), the codecs of \<open>src/src/services/tcpService.ts\<close>, and
  the register decoder of \<open>src/src/components/tcp/ModbusPanel.tsx\<close>.

  \<open>parseInt(s, 16)\<close>, \<open>btoa\<close>, \<open>atob\<close> and \<open>TextDecoder\<close> for UTF-8 are modelled; the GBK decoder and the
  printing of floating point numbers are arguments. \<open>NaN\<close> is \<open>None\<close>.
\<close>

section \<open>Hexadecimal numbers\<close>

definition hex_digit_upper :: "nat \<Rightarrow> char" where
  "hex_digit_upper n = ''0123456789ABCDEF'' ! (n mod 16)"

text \<open>\<open>b.toString(16).padStart(2, '0')\<close>, and the same in upper case.\<close>

definition byte_hex :: "byte \<Rightarrow> string" where
  "byte_hex b = [hex_digit (unat b div 16), hex_digit (unat b)]"

definition byte_hex_upper :: "byte \<Rightarrow> string" where
  "byte_hex_upper b = [hex_digit_upper (unat b div 16), hex_digit_upper (unat b)]"

fun hex_run :: "string \<Rightarrow> nat list" where
  "hex_run [] = []"
| "hex_run (c # s) = (case hex_val c of Some v \<Rightarrow> v # hex_run s | None \<Rightarrow> [])"

definition strip_prefix_0x :: "string \<Rightarrow> string" where
  "strip_prefix_0x s = (if take 2 s = ''0x'' \<or> take 2 s = ''0X'' then drop 2 s else s)"

definition parseInt16 :: "string \<Rightarrow> int option" where
  "parseInt16 s =
     (let t = dropWhile is_ws s; signed = t \<noteq> [] \<and> (hd t = CHR ''-'' \<or> hd t = CHR ''+'');
          digits = hex_run (strip_prefix_0x (if signed then tl t else t))
      in if digits = [] then None
         else Some ((if signed \<and> hd t = CHR ''-'' then -1 else 1) * int (foldl (\<lambda>n d. 16 * n + d) 0 digits)))"

text \<open>\<open>s.split(/\s+/).filter(Boolean)\<close>.\<close>

fun split_ws :: "string \<Rightarrow> string list" where
  "split_ws [] = [[]]"
| "split_ws (c # s) = (if is_ws c then [] # split_ws s else (case split_ws s of [] \<Rightarrow> [[c]] | w # ws \<Rightarrow> (c # w) # ws))"

definition js_words :: "string \<Rightarrow> string list" where
  "js_words s = filter truthy (split_ws s)"

fun collect_bytes :: "string list \<Rightarrow> byte list option" where
  "collect_bytes [] = Some []"
| "collect_bytes (p # ps) = (case parseInt16 p of
       None \<Rightarrow> None
     | Some v \<Rightarrow> (if v < 0 \<or> 255 < v then None else map_option ((#) (word_of_int v)) (collect_bytes ps)))"

definition parseHexBytes :: "string \<Rightarrow> byte list option" where
  "parseHexBytes hex = collect_bytes (js_words (js_trim hex))"


section \<open>The toolbox\<close>

text \<open>\<open>n.toString(2)\<close> padded to the width, in groups of four.\<close>

fun binary_digits :: "nat \<Rightarrow> string" where
  "binary_digits n = (if n < 2 then [digit_char n] else binary_digits (n div 2) @ [digit_char (n mod 2)])"

declare binary_digits.simps [simp del]

definition padStart :: "nat \<Rightarrow> char \<Rightarrow> string \<Rightarrow> string" where
  "padStart n c s = replicate (n - length s) c @ s"

fun groups_of_4 :: "string \<Rightarrow> string" where
  "groups_of_4 (a # b # c # d # s) = a # b # c # d # CHR '' '' # groups_of_4 s"
| "groups_of_4 s = s"

definition formatBinary :: "nat \<Rightarrow> nat \<Rightarrow> string" where
  "formatBinary n bits = js_trim (groups_of_4 (padStart bits (CHR ''0'') (binary_digits n)))"

datatype InputMode = HexInput | AsciiInput

text \<open>The error, or the value with the number of bits.\<close>

definition handleCalculate :: "InputMode \<Rightarrow> string \<Rightarrow> CrcAlgorithm \<Rightarrow> string + nat \<times> nat" where
  "handleCalculate mode input algo =
     (case (case mode of HexInput \<Rightarrow> parseHexBytes input | AsciiInput \<Rightarrow> Some (map of_char input)) of
        None \<Rightarrow> Inl ''hexFormatExample''
      | Some bytes \<Rightarrow> (if bytes = [] then Inl ''emptyInput'' else Inr (runCrc bytes algo, parseBits algo)))"

definition formatBytes :: "32 word \<Rightarrow> bool \<Rightarrow> string" where
  "formatBytes n bigEndian =
     (let arr = map (\<lambda>k. ucast (drop_bit k n) :: byte) [24, 16, 8, 0]
      in js_join '' '' (map byte_hex_upper (if bigEndian then arr else rev arr)))"

datatype ByteOperation = SwapOp | InvertOp | AndOp | OrOp

definition with_mask :: "(byte \<Rightarrow> byte \<Rightarrow> byte) \<Rightarrow> byte list \<Rightarrow> byte list \<Rightarrow> byte list" where
  "with_mask f maskBytes bytes = map (\<lambda>(i, b). f b (maskBytes ! (i mod length maskBytes))) (enumerate 0 bytes)"

definition byteOperation :: "ByteOperation \<Rightarrow> string \<Rightarrow> byte list \<Rightarrow> string + byte list" where
  "byteOperation oper maskText bytes = (case oper of
       SwapOp \<Rightarrow> Inr (rev bytes)
     | InvertOp \<Rightarrow> Inr (map NOT bytes)
     | AndOp \<Rightarrow> (case parseHexBytes maskText of
           Some (m # ms) \<Rightarrow> Inr (with_mask (AND) (m # ms) bytes) | _ \<Rightarrow> Inl ''maskFormat'')
     | OrOp \<Rightarrow> (case parseHexBytes maskText of
           Some (m # ms) \<Rightarrow> Inr (with_mask (OR) (m # ms) bytes) | _ \<Rightarrow> Inl ''maskFormat''))"

definition printable :: "byte \<Rightarrow> char" where
  "printable b = (if 0x20 \<le> b \<and> b \<le> 0x7E then char_of (unat b) else CHR ''.'')"

text \<open>The error, or the hexadecimal and the printable form of the result.\<close>

definition handleApply :: "ByteOperation \<Rightarrow> string \<Rightarrow> string \<Rightarrow> string + string \<times> string" where
  "handleApply oper maskText input = (case parseHexBytes input of
       None \<Rightarrow> Inl ''hexFormat''
     | Some [] \<Rightarrow> Inl ''emptyInput''
     | Some bytes \<Rightarrow> (case byteOperation oper maskText bytes of
           Inl e \<Rightarrow> Inl e
         | Inr out \<Rightarrow> Inr (js_join '' '' (map byte_hex_upper out), map printable out)))"


section \<open>Codecs of the TCP service\<close>

fun strip_all_0x :: "string \<Rightarrow> string" where
  "strip_all_0x (a # b # s) = (if a = CHR ''0'' \<and> (b = CHR ''x'' \<or> b = CHR ''X'') then strip_all_0x s else a # strip_all_0x (b # s))"
| "strip_all_0x s = s"

fun pairs :: "string \<Rightarrow> string list" where
  "pairs (a # b # s) = [a, b] # pairs s"
| "pairs [a] = [[a]]"
| "pairs [] = []"

definition hexToBytes :: "string \<Rightarrow> int option list" where
  "hexToBytes hex = map parseInt16 (pairs (filter (\<lambda>c. \<not> is_ws c \<and> c \<noteq> CHR '','') (strip_all_0x hex)))"

text \<open>The elements of a \<open>Uint8Array\<close>: the number modulo 256, 0 for \<open>NaN\<close>.\<close>

definition uint8 :: "int option \<Rightarrow> byte" where
  "uint8 v = (case v of None \<Rightarrow> 0 | Some i \<Rightarrow> word_of_int i)"

definition hexToUint8Array :: "string \<Rightarrow> byte list" where
  "hexToUint8Array hex = map uint8 (hexToBytes hex)"

definition bytesToHex :: "byte list \<Rightarrow> string" where
  "bytesToHex bytes = js_join '' '' (map byte_hex bytes)"

text \<open>\<open>bytesToHex\<close> on the numbers of \<open>hexToBytes\<close>, which two digits keep below 256.\<close>

definition num_hex :: "int option \<Rightarrow> string" where
  "num_hex v = (case v of None \<Rightarrow> ''NaN''
     | Some i \<Rightarrow> (if i < 0 then CHR ''-'' # [hex_digit (nat (- i))] else byte_hex (word_of_int i)))"

definition asciiToHex :: "string \<Rightarrow> string" where
  "asciiToHex str = js_join '' '' (map (\<lambda>c. byte_hex (of_char c)) str)"

text \<open>\<open>btoa\<close> and \<open>atob\<close>, by way of the numbers below 64.\<close>

definition b64_alphabet :: string where
  "b64_alphabet = ''ABCDEFGHIJKLMNOPQRSTUVWXYZabcdefghijklmnopqrstuvwxyz0123456789+/''"

definition b64_char :: "nat \<Rightarrow> char" where
  "b64_char n = b64_alphabet ! (n mod 64)"

fun btoa :: "nat list \<Rightarrow> string" where
  "btoa (x # y # z # s) = map b64_char [x div 4, x mod 4 * 16 + y div 16, y mod 16 * 4 + z div 64, z mod 64] @ btoa s"
| "btoa [x, y] = map b64_char [x div 4, x mod 4 * 16 + y div 16, y mod 16 * 4] @ ''=''"
| "btoa [x] = map b64_char [x div 4, x mod 4 * 16] @ ''==''"
| "btoa [] = []"

fun sextets_to_bytes :: "nat list \<Rightarrow> nat list option" where
  "sextets_to_bytes (a # b # c # d # s) =
     map_option (\<lambda>r. [a * 4 + b div 16, b mod 16 * 16 + c div 4, c mod 4 * 64 + d] @ r) (sextets_to_bytes s)"
| "sextets_to_bytes [a, b, c] = Some [a * 4 + b div 16, b mod 16 * 16 + c div 4]"
| "sextets_to_bytes [a, b] = Some [a * 4 + b div 16]"
| "sextets_to_bytes [a] = None"
| "sextets_to_bytes [] = Some []"

text \<open>One or two \<open>=\<close> at the end (here the start, of the reversed text) of a text of full groups.\<close>

fun drop_pad :: "string \<Rightarrow> string" where
  "drop_pad (a # b # s) = (if a = CHR ''='' then (if b = CHR ''='' then s else b # s) else a # b # s)"
| "drop_pad s = (if s = ''='' then [] else s)"

definition strip_padding :: "string \<Rightarrow> string" where
  "strip_padding s = (if length s mod 4 = 0 then rev (drop_pad (rev s)) else s)"

fun b64_values :: "string \<Rightarrow> nat list option" where
  "b64_values [] = Some []"
| "b64_values (c # s) = (case findIndex (\<lambda>d. d = c) b64_alphabet of
       None \<Rightarrow> None | Some v \<Rightarrow> map_option ((#) v) (b64_values s))"

definition atob :: "string \<Rightarrow> nat list option" where
  "atob s = Option.bind (b64_values (strip_padding (filter (\<lambda>c. \<not> is_ws c) s))) sextets_to_bytes"

definition bytesToBase64 :: "byte list \<Rightarrow> string" where
  "bytesToBase64 bytes = btoa (map unat bytes)"

definition base64ToBytes :: "string \<Rightarrow> byte list" where
  "base64ToBytes b64 = (case atob (js_trim b64) of None \<Rightarrow> [] | Some raw \<Rightarrow> map of_nat raw)"

text \<open>\<open>None\<close>: \<open>btoa\<close> rejects the character of a negative number.\<close>

definition hexToBase64 :: "string \<Rightarrow> string option" where
  "hexToBase64 hex = (if list_ex (\<lambda>v. case v of Some i \<Rightarrow> i < 0 | None \<Rightarrow> False) (hexToBytes hex) then None
     else Some (bytesToBase64 (hexToUint8Array hex)))"

definition base64ToHex :: "string \<Rightarrow> string" where
  "base64ToHex b64 = (case atob (js_trim b64) of None \<Rightarrow> b64 | Some raw \<Rightarrow> js_join '' '' (map (\<lambda>n. byte_hex (of_nat n)) raw))"


text \<open>
  \<open>TextDecoder\<close> for UTF-8: a byte order mark at the start is dropped, and every ill-formed sequence
  becomes U+FFFD. The table gives the bytes that may follow a first byte: how many, and the range of
  the first of them.
\<close>

definition utf8_follow :: "nat \<Rightarrow> (nat \<times> nat \<times> nat) option" where
  "utf8_follow b =
     (if 0xC2 \<le> b \<and> b \<le> 0xDF then Some (1, 0x80, 0xBF)
      else if b = 0xE0 then Some (2, 0xA0, 0xBF)
      else if b = 0xED then Some (2, 0x80, 0x9F)
      else if 0xE1 \<le> b \<and> b \<le> 0xEF then Some (2, 0x80, 0xBF)
      else if b = 0xF0 then Some (3, 0x90, 0xBF)
      else if b = 0xF4 then Some (3, 0x80, 0x8F)
      else if 0xF1 \<le> b \<and> b \<le> 0xF3 then Some (3, 0x80, 0xBF)
      else None)"

text \<open>How many of the following bytes continue the sequence, at most \<open>n\<close>.\<close>

fun continuation :: "nat \<Rightarrow> nat \<Rightarrow> nat \<Rightarrow> nat list \<Rightarrow> nat" where
  "continuation (Suc n) lo hi (b # bs) = (if lo \<le> b \<and> b \<le> hi then Suc (continuation n 0x80 0xBF bs) else 0)"
| "continuation _ _ _ _ = 0"

definition replacement :: "nat list" where "replacement = [0xEF, 0xBF, 0xBD]"

function utf8_decode :: "nat list \<Rightarrow> nat list" where
  "utf8_decode [] = []"
| "utf8_decode (b # bs) = (if b < 0x80 then b # utf8_decode bs
     else case utf8_follow b of
       None \<Rightarrow> replacement @ utf8_decode bs
     | Some (n, lo, hi) \<Rightarrow> (let k = continuation n lo hi bs in
         (if k = n then b # take k bs else replacement) @ utf8_decode (drop k bs)))"
  by pat_completeness auto
termination by (relation "measure length") auto

definition decodeText :: "byte list \<Rightarrow> string" where
  "decodeText bytes = (let ns = map unat bytes in
     map char_of (utf8_decode (if take 3 ns = [0xEF, 0xBB, 0xBF] then drop 3 ns else ns)))"

definition hexToAscii :: "string \<Rightarrow> string" where
  "hexToAscii hex = decodeText (hexToUint8Array hex)"

definition encodeText :: "string \<Rightarrow> byte list" where
  "encodeText s = map of_char s"

text \<open>\<open>JSON.stringify(v, null, 2)\<close>.\<close>

fun stringify_indented :: "nat \<Rightarrow> json \<Rightarrow> string" where
  "stringify_indented k (JArr (v # vs)) = ''['' @ [CHR 0x0A] @ js_join ('','' @ [CHR 0x0A])
     (map (\<lambda>x. replicate (k + 2) (CHR '' '') @ stringify_indented (k + 2) x) (v # vs)) @ [CHR 0x0A] @ replicate k (CHR '' '') @ '']''"
| "stringify_indented k (JObj (p # ps)) = ''{'' @ [CHR 0x0A] @ js_join ('','' @ [CHR 0x0A])
     (map (\<lambda>x. replicate (k + 2) (CHR '' '') @ quote_string (fst x) @ '': '' @ stringify_indented (k + 2) (snd x)) (p # ps))
     @ [CHR 0x0A] @ replicate k (CHR '' '') @ ''}''"
| "stringify_indented k v = JSON_stringify v"

definition prettyJson :: "string \<Rightarrow> string" where
  "prettyJson input = (case JSON_parse input of Some v \<Rightarrow> stringify_indented 0 v | None \<Rightarrow> input)"

datatype DataFormat = AutoFormat | TextFormat | HexFormat | Base64Format | GbkFormat | JsonFormat

definition measurePayloadSize :: "string \<Rightarrow> DataFormat \<Rightarrow> nat" where
  "measurePayloadSize data format = (if data = [] then 0
     else if format = HexFormat then length (hexToBytes data)
     else if format = Base64Format then length (base64ToBytes data)
     else length (encodeText data))"

definition normalizeSendEncoding :: "DataFormat \<Rightarrow> string" where
  "normalizeSendEncoding format = (case format of
       HexFormat \<Rightarrow> ''hex'' | Base64Format \<Rightarrow> ''base64'' | GbkFormat \<Rightarrow> ''gbk'' | _ \<Rightarrow> ''utf8'')"

definition estimateRawHex :: "string \<Rightarrow> DataFormat \<Rightarrow> string" where
  "estimateRawHex data format = (if data = [] then []
     else if format = HexFormat then js_join '' '' (map num_hex (hexToBytes data))
     else if format = Base64Format then bytesToHex (base64ToBytes data)
     else bytesToHex (encodeText data))"

text \<open>\<open>gbk\<close> is the decoder of that name.\<close>

definition convertFormat :: "(byte list \<Rightarrow> string) \<Rightarrow> string \<Rightarrow> string \<Rightarrow> DataFormat \<Rightarrow> string" where
  "convertFormat gbk data rawHex to = (if to = AutoFormat then data
     else let bytes = (if rawHex \<noteq> [] then hexToUint8Array rawHex
            else if to = HexFormat then hexToUint8Array data
            else if to = Base64Format then base64ToBytes data else encodeText data)
       in if to = HexFormat then bytesToHex bytes
          else if to = Base64Format then bytesToBase64 bytes
          else if to = GbkFormat then gbk bytes
          else if to = JsonFormat then prettyJson (decodeText bytes) else decodeText bytes)"


section \<open>Modbus registers\<close>

datatype ModbusDataType = Uint16 | Int16 | Uint32BE | Uint32LE | Int32BE | Int32LE | Float32BE | Float32LE

definition encodeCoilValue :: "int \<Rightarrow> int" where
  "encodeCoilValue v = (if v \<noteq> 0 then 0xFF00 else 0)"

definition up_arrow :: string where "up_arrow = [CHR 0xE2, CHR 0x86, CHR 0x91]"
definition em_dash :: string where "em_dash = [CHR 0xE2, CHR 0x80, CHR 0x94]"

text \<open>Two registers as one number, the first one high or low.\<close>

definition val32 :: "16 word \<Rightarrow> 16 word \<Rightarrow> 32 word" where
  "val32 high low = push_bit 16 (ucast high) OR ucast low"

fun decode_pairs :: "(16 word \<Rightarrow> 16 word \<Rightarrow> string) \<Rightarrow> 16 word list \<Rightarrow> string list" where
  "decode_pairs f (a # b # rs) = f a b # up_arrow # decode_pairs f rs"
| "decode_pairs f [a] = [em_dash]"
| "decode_pairs f [] = []"

definition signed16 :: "16 word \<Rightarrow> int" where
  "signed16 v = (if 32767 < uint v then uint v - 65536 else uint v)"

definition signed32 :: "32 word \<Rightarrow> int" where
  "signed32 v = (if 0x7FFFFFFF < uint v then uint v - 0x100000000 else uint v)"

text \<open>\<open>float\<close> prints the single precision number with these bits to seven digits.\<close>

definition decodeRegisters :: "(32 word \<Rightarrow> string) \<Rightarrow> 16 word list \<Rightarrow> ModbusDataType \<Rightarrow> string list" where
  "decodeRegisters float registers dataType = (case dataType of
       Uint16 \<Rightarrow> map (\<lambda>v. int_to_string (uint v)) registers
     | Int16 \<Rightarrow> map (\<lambda>v. int_to_string (signed16 v)) registers
     | Uint32BE \<Rightarrow> decode_pairs (\<lambda>a b. int_to_string (uint (val32 a b))) registers
     | Int32BE \<Rightarrow> decode_pairs (\<lambda>a b. int_to_string (signed32 (val32 a b))) registers
     | Uint32LE \<Rightarrow> decode_pairs (\<lambda>a b. int_to_string (uint (val32 b a))) registers
     | Int32LE \<Rightarrow> decode_pairs (\<lambda>a b. int_to_string (signed32 (val32 b a))) registers
     | Float32BE \<Rightarrow> decode_pairs (\<lambda>a b. float (val32 a b)) registers
     | Float32LE \<Rightarrow> decode_pairs (\<lambda>a b. float (val32 b a)) registers)"

end
