(* ===== verification/ByteProps.thy ===== *)
theory ByteProps
  imports ByteCodecs
begin

text \<open>
  Properties of the byte tools: what the toolbox and the TCP service print they read back, in
  hexadecimal and Base64, for every byte; Modbus registers are decoded as two's complement numbers.
\<close>

section \<open>Hexadecimal text\<close>

lemma less_16_cases: "n < 16 \<Longrightarrow> n \<in> {0,1,2,3,4,5,6,7,8,9,10,11,12,13,14,15}" for n :: nat
  by simp presburger

definition plain :: "char \<Rightarrow> bool" where
  "plain c \<longleftrightarrow> \<not> is_ws c \<and> c \<notin> set ''-+xX,''"

lemma hex_plain: "plain (hex_digit n)" "plain (hex_digit_upper n)"
  using less_16_cases[of "n mod 16"]
  by (auto simp: plain_def hex_digit_def hex_digit_upper_def is_ws_def)

lemma hex_vals: "hex_val (hex_digit n) = Some (n mod 16)" "hex_val (hex_digit_upper n) = Some (n mod 16)"
  using less_16_cases[of "n mod 16"]
  by (auto simp: hex_digit_def hex_digit_upper_def hex_val_def is_digit_def char_between_def)

lemma parseInt16_two:
  assumes "plain a" "plain b" "hex_val a = Some x" "hex_val b = Some y"
  shows "parseInt16 [a, b] = Some (int (16 * x + y))"
  using assms by (auto simp: parseInt16_def strip_prefix_0x_def plain_def Let_def)

lemma byte_digits: "16 * (unat b div 16 mod 16) + unat b mod 16 = unat b" for b :: byte
proof -
  have "unat b < 256" using unsigned_less[of b, where 'a = nat] by simp
  then have "unat b div 16 < 16" by (simp add: less_mult_imp_div_less)
  then show ?thesis by simp
qed

lemma parseInt16_byte: "parseInt16 (byte_hex b) = Some (uint b)" "parseInt16 (byte_hex_upper b) = Some (uint b)"
proof -
  have "int (16 * (unat b div 16 mod 16) + unat b mod 16) = uint b" unfolding byte_digits by simp
  then show "parseInt16 (byte_hex b) = Some (uint b)" "parseInt16 (byte_hex_upper b) = Some (uint b)"
    by (simp_all only: byte_hex_def byte_hex_upper_def parseInt16_two[OF hex_plain(1) hex_plain(1) hex_vals(1) hex_vals(1)]
        parseInt16_two[OF hex_plain(2) hex_plain(2) hex_vals(2) hex_vals(2)])
qed

lemma byte_hex_plain: "list_all plain (byte_hex b)" "list_all plain (byte_hex_upper b)"
  by (simp_all add: byte_hex_def byte_hex_upper_def hex_plain)

text \<open>Words of plain characters joined by blanks are read back.\<close>

lemma split_ws_word: "list_all plain w \<Longrightarrow> split_ws w = [w]"
  by (induction w) (auto simp: plain_def)

lemma split_ws_append: "list_all plain w \<Longrightarrow> split_ws (w @ CHR '' '' # s) = w # split_ws s"
  by (induction w) (auto simp: plain_def is_ws_def)

lemma split_ws_join: "ws \<noteq> [] \<Longrightarrow> list_all (list_all plain) ws \<Longrightarrow> split_ws (js_join '' '' ws) = ws"
  by (induction "'' ''" ws rule: js_join.induct) (simp_all add: split_ws_word split_ws_append)

lemma js_words_join: "list_all (list_all plain) ws \<Longrightarrow> list_all truthy ws \<Longrightarrow> js_words (js_join '' '' ws) = ws"
  by (cases "ws = []") (auto simp: js_words_def split_ws_join list_all_iff intro!: filter_True)

lemma collect_hex: "collect_bytes (map byte_hex_upper bs) = Some bs"
proof (induction bs)
  case (Cons b bs)
  have "0 \<le> uint b" "uint b \<le> 255" using unsigned_less[of b, where 'a = int] by simp_all
  with Cons show ?case by (simp add: parseInt16_byte)
qed simp


lemma split_ws_cons: "split_ws s \<noteq> []"
  by (induction s) (auto split: list.split)

lemma split_ws_last: "is_ws c \<Longrightarrow> split_ws (s @ [c]) = split_ws s @ [[]]"
  by (induction s) (auto simp: split_ws_cons split: list.split)

lemma js_words_left: "js_words (dropWhile is_ws s) = js_words s"
  by (induction s) (auto simp: js_words_def)

lemma js_words_right: "js_words (rev (dropWhile is_ws (rev s))) = js_words s"
  by (induction s rule: rev_induct) (auto simp: js_words_def split_ws_last)

lemma js_words_trim [simp]: "js_words (js_trim s) = js_words s"
  by (simp add: js_trim_def js_words_left js_words_right)

lemma truthy_hex: "list_all truthy (map byte_hex bs)" "list_all truthy (map byte_hex_upper bs)"
  by (simp_all add: list_all_iff byte_hex_def byte_hex_upper_def)

lemma plain_hex: "list_all (list_all plain) (map byte_hex bs)" "list_all (list_all plain) (map byte_hex_upper bs)"
  by (simp_all add: list_all_length byte_hex_plain[unfolded list_all_length])

lemma parse_printed: "parseHexBytes (js_join '' '' (map byte_hex_upper bs)) = Some bs"
  by (simp add: parseHexBytes_def js_words_join[OF plain_hex(2) truthy_hex(2)] collect_hex)

lemma handleApply_bytes:
  "parseHexBytes input = Some bytes \<Longrightarrow> bytes \<noteq> [] \<Longrightarrow> handleApply oper m input = (case byteOperation oper m bytes of
     Inl e \<Rightarrow> Inl e | Inr out \<Rightarrow> Inr (js_join '' '' (map byte_hex_upper out), map printable out))"
  by (cases bytes) (simp_all add: handleApply_def)

text \<open>The toolbox reads what it prints: applying \<open>swap\<close> or \<open>invert\<close> to its own result gives the bytes
  of the input back, in the printed form.\<close>

theorem byte_tools_involutive:
  assumes "handleApply oper m input = Inr (out, ascii)" and "oper = SwapOp \<or> oper = InvertOp"
  shows "\<exists>bytes. parseHexBytes input = Some bytes \<and>
    handleApply oper m' out = Inr (js_join '' '' (map byte_hex_upper bytes), map printable bytes)"
proof -
  obtain bytes where bytes: "parseHexBytes input = Some bytes" "bytes \<noteq> []"
    using assms(1) by (auto simp: handleApply_def split: option.splits list.splits)
  define g where "g = (if oper = SwapOp then rev else map (NOT :: byte \<Rightarrow> byte))"
  have g: "byteOperation oper k b = Inr (g b)" "g (g b) = b" "g b = [] \<longleftrightarrow> b = []" for k b
    using assms(2) by (auto simp: byteOperation_def g_def comp_def)
  have "out = js_join '' '' (map byte_hex_upper (g bytes))"
    using assms(1) by (simp add: handleApply_bytes[OF bytes] g)
  then have "handleApply oper m' out = Inr (js_join '' '' (map byte_hex_upper (g (g bytes))), map printable (g (g bytes)))"
    using bytes(2) by (simp add: handleApply_bytes[OF parse_printed] g)
  then show ?thesis using bytes(1) g(2) by auto
qed

theorem byte_tools_involutive_witness:
  "\<exists>bytes. parseHexBytes ''1 0x2f'' = Some bytes \<and>
    handleApply SwapOp [] ''2F 01'' = Inr (js_join '' '' (map byte_hex_upper bytes), map printable bytes)"
proof -
  have "handleApply SwapOp [] ''1 0x2f'' = Inr (''2F 01'', ''/.'')" by code_simp
  then show ?thesis using byte_tools_involutive[of SwapOp "[]" "''1 0x2f''" "''2F 01''" "''/.''" "[]"] by simp
qed

text \<open>Hexadecimal text of the TCP service.\<close>

lemma strip_plain: "list_all (\<lambda>c. c \<noteq> CHR ''x'' \<and> c \<noteq> CHR ''X'') s \<Longrightarrow> strip_all_0x s = s"
  by (induction s rule: strip_all_0x.induct) auto

lemma join_chars: "set (js_join sep ws) \<subseteq> set sep \<union> \<Union> (set ` set ws)"
  by (induction sep ws rule: js_join.induct) auto

lemma filter_join:
  "list_all (list_all plain) ws \<Longrightarrow> filter (\<lambda>c. \<not> is_ws c \<and> c \<noteq> CHR '','') (js_join '' '' ws) = concat ws"
  by (induction "'' ''" ws rule: js_join.induct) (auto simp: list_all_iff plain_def is_ws_def intro!: filter_True)

lemma pairs_hex: "pairs (concat (map byte_hex bs)) = map byte_hex bs"
  by (induction bs) (simp_all add: byte_hex_def)

lemma hexToBytes_printed: "hexToBytes (bytesToHex bs) = map (Some \<circ> uint) bs"
proof -
  note plain = plain_hex(1)[of bs]
  have "list_all (\<lambda>c. c \<noteq> CHR ''x'' \<and> c \<noteq> CHR ''X'') (bytesToHex bs)"
    using plain join_chars[of "'' ''" "map byte_hex bs"] by (fastforce simp: bytesToHex_def list_all_iff plain_def)
  then show ?thesis
    using filter_join[OF plain] by (simp add: hexToBytes_def strip_plain pairs_hex parseInt16_byte bytesToHex_def)
qed

lemma hex_roundtrip: "hexToUint8Array (bytesToHex bs) = bs"
  by (simp add: hexToUint8Array_def hexToBytes_printed uint8_def comp_def)

section \<open>Base64 and payloads\<close>

lemma b64_alphabet_length: "length b64_alphabet = 64"
  by (simp add: b64_alphabet_def)

lemma b64_distinct: "distinct b64_alphabet"
  by (simp add: b64_alphabet_def)

lemma findIndex_nth: "distinct xs \<Longrightarrow> n < length xs \<Longrightarrow> findIndex (\<lambda>d. d = xs ! n) xs = Some n"
proof (induction xs arbitrary: n)
  case (Cons x xs)
  then show ?case by (cases n) (auto simp: nth_eq_iff_index_eq)
qed simp

lemma b64_index: "n < 64 \<Longrightarrow> findIndex (\<lambda>d. d = b64_char n) b64_alphabet = Some n"
  unfolding b64_char_def using findIndex_nth[OF b64_distinct, of n] by (simp add: b64_alphabet_length)

lemma b64_values_chars: "list_all (\<lambda>n. n < 64) ns \<Longrightarrow> b64_values (map b64_char ns) = Some ns"
  by (induction ns) (simp_all add: b64_index)

lemma b64_plain: "\<not> is_ws (b64_char n)" "b64_char n \<noteq> CHR ''=''"
proof -
  have "b64_char n \<in> set b64_alphabet" by (simp add: b64_char_def b64_alphabet_length)
  moreover have "list_all (\<lambda>c. \<not> is_ws c \<and> c \<noteq> CHR ''='') b64_alphabet"
    by (simp add: b64_alphabet_def is_ws_def)
  ultimately show "\<not> is_ws (b64_char n)" "b64_char n \<noteq> CHR ''=''" by (auto simp: list_all_iff)
qed

text \<open>The sextets of a byte list, and the padding that completes them.\<close>

fun sextets :: "nat list \<Rightarrow> nat list" where
  "sextets (x # y # z # s) = [x div 4, x mod 4 * 16 + y div 16, y mod 16 * 4 + z div 64, z mod 64] @ sextets s"
| "sextets [x, y] = [x div 4, x mod 4 * 16 + y div 16, y mod 16 * 4]"
| "sextets [x] = [x div 4, x mod 4 * 16]"
| "sextets [] = []"

definition padding :: "nat list \<Rightarrow> string" where
  "padding xs = (if length xs mod 3 = 0 then [] else if length xs mod 3 = 1 then ''=='' else ''='')"

lemma padding_step: "padding (x # y # z # s) = padding s"
  by (simp add: padding_def mod_Suc)

lemma btoa_sextets: "btoa xs = map b64_char (sextets xs) @ padding xs"
  by (induction xs rule: btoa.induct) (simp_all add: padding_step, simp_all add: padding_def)

lemma sextets_small: "list_all (\<lambda>n. n < 256) xs \<Longrightarrow> list_all (\<lambda>n. n < 64) (sextets xs)"
  by (induction xs rule: sextets.induct) auto

lemma two_digits: "b < n \<Longrightarrow> (a * n + b) div n = a" "b < n \<Longrightarrow> (a * n + b) mod n = b" for a b n :: nat
  by simp_all

lemma sextets_back: "list_all (\<lambda>n. n < 256) xs \<Longrightarrow> sextets_to_bytes (sextets xs) = Some xs"
proof (induction xs rule: sextets.induct)
  case (1 x y z s)
  then have small: "y div 16 < 16" "z div 64 < 4" by (auto intro: less_mult_imp_div_less)
  from 1 small show ?case by (simp add: two_digits(1)[OF small(1)] two_digits(2)[OF small(1)] two_digits(1)[OF small(2)] two_digits(2)[OF small(2)])
next
  case (2 x y)
  then have small: "y div 16 < 16" by (auto intro: less_mult_imp_div_less)
  from small show ?case by (simp add: two_digits(1)[OF small] two_digits(2)[OF small])
qed simp_all

lemma drop_pad_plain: "CHR ''='' \<notin> set s \<Longrightarrow> drop_pad s = s"
  by (cases s rule: drop_pad.cases) auto

lemma drop_pad_padded:
  "CHR ''='' \<notin> set s \<Longrightarrow> drop_pad (CHR ''='' # s) = s" "drop_pad (CHR ''='' # CHR ''='' # s) = s"
  by (cases s, auto)

lemma padded_length: "(length (sextets xs) + length (padding xs)) mod 4 = 0"
proof (induction xs rule: sextets.induct)
  case (1 x y z s)
  have "length (sextets (x # y # z # s)) + length (padding (x # y # z # s)) = 4 + (length (sextets s) + length (padding s))"
    by (simp add: padding_step)
  then show ?case using 1 by (simp only: mod_add_self1)
qed (simp_all add: padding_def)

lemma strip_btoa: "strip_padding (btoa xs) = map b64_char (sextets xs)"
proof -
  let ?s = "map b64_char (sextets xs)"
  have plain: "CHR ''='' \<notin> set (rev ?s)" using b64_plain(2) by (metis imageE set_map set_rev)
  have "padding xs = [] \<or> padding xs = ''='' \<or> padding xs = ''==''" by (simp add: padding_def)
  then have "drop_pad (rev (?s @ padding xs)) = rev ?s"
    using drop_pad_plain[OF plain] drop_pad_padded(1)[OF plain] drop_pad_padded(2)[of "rev ?s"] by (elim disjE) simp_all
  then show ?thesis using padded_length[of xs] by (simp add: strip_padding_def btoa_sextets)
qed

lemma btoa_no_ws: "filter (\<lambda>c. \<not> is_ws c) (btoa xs) = btoa xs" "js_trim (btoa xs) = btoa xs"
proof -
  have equal: "\<not> is_ws (CHR ''='')" by (simp add: is_ws_def)
  have "\<forall>c \<in> set (btoa xs). \<not> is_ws c"
    using equal by (auto simp: btoa_sextets b64_plain padding_def)
  then show "filter (\<lambda>c. \<not> is_ws c) (btoa xs) = btoa xs" "js_trim (btoa xs) = btoa xs"
    by (simp_all add: js_trim_no_ws)
qed

lemma atob_btoa: "list_all (\<lambda>n. n < 256) xs \<Longrightarrow> atob (btoa xs) = Some xs"
  by (simp add: atob_def btoa_no_ws strip_btoa b64_values_chars sextets_small sextets_back)

lemma base64_roundtrip: "base64ToBytes (bytesToBase64 bs) = bs"
proof -
  have "list_all (\<lambda>n. n < 256) (map unat bs)"
    using unsigned_less[where 'a = nat and 'b = 8] by (auto simp: list_all_iff)
  then show ?thesis by (simp add: base64ToBytes_def bytesToBase64_def btoa_no_ws atob_btoa comp_def)
qed

text \<open>\<^bold>\<open>C30\<close>. 
  The bytes of a message survive every way they are shown: read from the raw hexadecimal form and
  printed as hexadecimal or Base64, they come back unchanged, whatever bytes they are; and the size
  shown for the printed payload is their number.
\<close>

theorem payload_formats_lossless:
  assumes "bs \<noteq> []"
  shows "let hex = convertFormat gbk data (bytesToHex bs) HexFormat; b64 = convertFormat gbk data (bytesToHex bs) Base64Format in
    hexToUint8Array hex = bs \<and> base64ToBytes b64 = bs \<and>
    measurePayloadSize hex HexFormat = length bs \<and> measurePayloadSize b64 Base64Format = length bs"
proof -
  have hex: "bytesToHex bs \<noteq> []" using hex_roundtrip[of bs] assms by (cases "bytesToHex bs = []") (auto simp: hexToUint8Array_def hexToBytes_def)
  have b64: "bytesToBase64 bs \<noteq> []" using base64_roundtrip[of bs] assms
    by (cases "bytesToBase64 bs = []") (auto simp: base64ToBytes_def atob_def strip_padding_def)
  show ?thesis
    using hex b64 by (simp add: convertFormat_def Let_def hex_roundtrip base64_roundtrip measurePayloadSize_def hexToBytes_printed)
qed

theorem payload_formats_lossless_witness:
  "let hex = convertFormat (\<lambda>_. []) ''x'' (bytesToHex [0, 255, 13]) HexFormat; b64 = convertFormat (\<lambda>_. []) ''x'' (bytesToHex [0, 255, 13]) Base64Format in
    hexToUint8Array hex = [0, 255, 13] \<and> base64ToBytes b64 = [0, 255, 13] \<and>
    measurePayloadSize hex HexFormat = length [0, 255, 13 :: byte] \<and> measurePayloadSize b64 Base64Format = length [0, 255, 13 :: byte]"
  by (rule payload_formats_lossless) simp

section \<open>Modbus registers\<close>

lemma wrap: "h \<le> u \<Longrightarrow> u < 2 * h \<Longrightarrow> (u + h) mod (2 * h) = u - h" for u h :: int
  using mod_add_self2[of "u - h" "2 * h"] by (simp add: mod_pos_pos_trivial add.commute)

lemma signed16_sint: "signed16 v = sint v"
proof -
  have "0 \<le> uint v" "uint v < 65536" using unsigned_less[of v, where 'a = int] by simp_all
  then show ?thesis
    using wrap[of 32768 "uint v"] by (simp add: signed16_def sint_uint signed_take_bit_eq_take_bit_shift take_bit_eq_mod)
qed

lemma signed32_sint: "signed32 v = sint v"
proof -
  have "0 \<le> uint v" "uint v < 4294967296" using unsigned_less[of v, where 'a = int] by simp_all
  then show ?thesis
    using wrap[of 2147483648 "uint v"] by (simp add: signed32_def sint_uint signed_take_bit_eq_take_bit_shift take_bit_eq_mod)
qed

definition high16 :: "32 word \<Rightarrow> 16 word" where "high16 w = ucast (drop_bit 16 w)"
definition low16 :: "32 word \<Rightarrow> 16 word" where "low16 w = ucast w"

lemma val32_split: "val32 (high16 w) (low16 w) = w"
  by (rule bit_word_eqI) (auto simp: val32_def high16_def low16_def bit_simps)

lemma decode_pairs_nth:
  assumes "i < length ws"
  shows "decode_pairs f (concat (map (\<lambda>w. [g w, h w]) ws)) ! (2 * i) = f (g (ws ! i)) (h (ws ! i))"
  using assms
proof (induction ws arbitrary: i)
  case (Cons w ws)
  then show ?case by (cases i) simp_all
qed simp

text \<open>
  Numbers written as pairs of registers are shown as they were written, in either word order,
  signed in two's complement or unsigned; a single register is shown as a signed 16-bit number.
\<close>

theorem registers_decode:
  assumes "i < length ws"
  shows "decodeRegisters float (concat (map (\<lambda>w. [high16 w, low16 w]) ws)) Int32BE ! (2 * i) = int_to_string (sint (ws ! i)) \<and>
    decodeRegisters float (concat (map (\<lambda>w. [low16 w, high16 w]) ws)) Int32LE ! (2 * i) = int_to_string (sint (ws ! i)) \<and>
    decodeRegisters float (concat (map (\<lambda>w. [high16 w, low16 w]) ws)) Uint32BE ! (2 * i) = int_to_string (uint (ws ! i)) \<and>
    decodeRegisters float (concat (map (\<lambda>w. [low16 w, high16 w]) ws)) Uint32LE ! (2 * i) = int_to_string (uint (ws ! i)) \<and>
    decodeRegisters float rs Int16 = map (int_to_string \<circ> sint) rs"
  using assms by (simp add: decodeRegisters_def decode_pairs_nth val32_split signed32_sint signed16_sint)

theorem registers_decode_witness:
  "let ws = [7, 0xFFFFFFFE :: 32 word] in
   decodeRegisters (\<lambda>_. []) (concat (map (\<lambda>w. [high16 w, low16 w]) ws)) Int32BE ! (2 * 1) = int_to_string (sint (ws ! 1)) \<and>
    decodeRegisters (\<lambda>_. []) (concat (map (\<lambda>w. [low16 w, high16 w]) ws)) Int32LE ! (2 * 1) = int_to_string (sint (ws ! 1)) \<and>
    decodeRegisters (\<lambda>_. []) (concat (map (\<lambda>w. [high16 w, low16 w]) ws)) Uint32BE ! (2 * 1) = int_to_string (uint (ws ! 1)) \<and>
    decodeRegisters (\<lambda>_. []) (concat (map (\<lambda>w. [low16 w, high16 w]) ws)) Uint32LE ! (2 * 1) = int_to_string (uint (ws ! 1)) \<and>
    decodeRegisters (\<lambda>_. []) [65535] Int16 = map (int_to_string \<circ> sint) [65535 :: 16 word]"
  unfolding Let_def by (rule registers_decode) simp

section \<open>Readings that surprise\<close>

lemma garbage_after_digit: "parseHexBytes ''1G 2-'' = Some [1, 2]"
  by code_simp

lemma odd_digits_merge: "hexToUint8Array ''0x1 0x2'' = [0x12]" "parseHexBytes ''0x1 0x2'' = Some [1, 2]"
  by code_simp+

lemma ascii_text_kept: "list_all (\<lambda>b. b < 0x80) bs \<Longrightarrow> decodeText bs = map (char_of \<circ> unat) bs" for bs :: "byte list"
proof -
  assume *: "list_all (\<lambda>b. b < 0x80) bs"
  have "utf8_decode ns = ns" if "list_all (\<lambda>n. n < 0x80) ns" for ns
    using that by (induction ns) auto
  moreover have "list_all (\<lambda>n. n < 0x80) (map unat bs)"
    using * by (auto simp: list_all_iff word_less_nat_alt)
  ultimately show ?thesis
    by (cases bs) (auto simp: decodeText_def Let_def)
qed

end
