(* ===== verification/UpdateStore.thy ===== *)
theory UpdateStore
  imports Complex_Main Prelude
begin

text \<open>
  The update store (\<open>src/src/stores/updateStore.ts\<close>): the comparison of versions, the check through the
  native updater and through the release page, and the installation. \<open>num\<close> is JavaScript's \<open>Number\<close> on
  the parts of a version, \<open>None\<close> for \<open>NaN\<close>; the replies of the updater and of the release page are
  arguments.
\<close>

section \<open>Versions\<close>

definition strip_v :: "string \<Rightarrow> string" where
  "strip_v s = (if s \<noteq> [] \<and> hd s = CHR ''v'' then tl s else s)"

definition version_parts :: "(string \<Rightarrow> rat option) \<Rightarrow> string \<Rightarrow> rat list" where
  "version_parts num a = map (\<lambda>p. nullish (num p) 0) (js_split (CHR ''.'') (strip_v a))"

text \<open>A missing part, like one that is no number, counts as 0.\<close>

fun compare_parts :: "rat list \<Rightarrow> rat list \<Rightarrow> rat" where
  "compare_parts [] [] = 0"
| "compare_parts (x # xs) [] = (if x \<noteq> 0 then x else compare_parts xs [])"
| "compare_parts [] (y # ys) = (if y \<noteq> 0 then - y else compare_parts [] ys)"
| "compare_parts (x # xs) (y # ys) = (if x \<noteq> y then x - y else compare_parts xs ys)"

definition compareVersions :: "(string \<Rightarrow> rat option) \<Rightarrow> string \<Rightarrow> string \<Rightarrow> rat" where
  "compareVersions num a b = compare_parts (version_parts num a) (version_parts num b)"


section \<open>The store\<close>

datatype UpdateStatus = Idle | Checking | Available | Downloading | Ready | UpdateError | UpToDate

record UpdateInfo =
  ui_version :: string
  ui_date :: string
  ui_body :: string
  ui_isFallback :: bool
  ui_releaseUrl :: "string option"

text \<open>The object of the native updater, and the release the page reports.\<close>

record NativeUpdate =
  nu_version :: string
  nu_date :: "string option"
  nu_body :: "string option"

record GithubRelease =
  gr_tag_name :: "string option"
  gr_published_at :: "string option"
  gr_body :: "string option"
  gr_html_url :: "string option"

record update_state =
  us_currentVersion :: string
  us_latestVersion :: "string option"
  us_status :: UpdateStatus
  us_updateInfo :: "UpdateInfo option"
  us_progress :: int
  us_error :: "string option"
  us_lastCheckTime :: "int option"
  us_pendingUpdate :: "NativeUpdate option"

definition update_init :: update_state where
  "update_init = \<lparr> us_currentVersion = [], us_latestVersion = None, us_status = Idle, us_updateInfo = None, us_progress = 0,
     us_error = None, us_lastCheckTime = None, us_pendingUpdate = None \<rparr>"

definition or_empty :: "string option \<Rightarrow> string" where
  "or_empty x = nullish x []"

definition initVersion :: "string option \<Rightarrow> update_state \<Rightarrow> update_state" where
  "initVersion reply s = (case reply of Some version \<Rightarrow> s\<lparr>us_currentVersion := version\<rparr> | None \<Rightarrow> s)"

text \<open>\<open>None\<close>: a check or a download is under way. The version is the one read at the start.\<close>

definition checkForUpdate_begin :: "update_state \<Rightarrow> (update_state \<times> string) option" where
  "checkForUpdate_begin s = (if us_status s = Checking \<or> us_status s = Downloading then None
     else Some (s\<lparr>us_status := Checking, us_error := None\<rparr>, us_currentVersion s))"

text \<open>Whether the native updater found an update; an error or none goes on to the release page.\<close>

definition check_native :: "int \<Rightarrow> string + NativeUpdate option \<Rightarrow> update_state \<Rightarrow> update_state \<times> bool" where
  "check_native now reply s = (case reply of
       Inr (Some u) \<Rightarrow> (s\<lparr>us_pendingUpdate := Some u,
          us_updateInfo := Some \<lparr> ui_version = nu_version u, ui_date = or_empty (nu_date u), ui_body = or_empty (nu_body u),
            ui_isFallback = False, ui_releaseUrl = None \<rparr>,
          us_latestVersion := Some (nu_version u), us_status := Available, us_lastCheckTime := Some now\<rparr>, True)
     | _ \<Rightarrow> (s, False))"

definition RELEASES :: string where
  "RELEASES = ''https://github.com/chenqi92/protoforge/releases/latest''"

definition check_github :: "(string \<Rightarrow> rat option) \<Rightarrow> int \<Rightarrow> string \<Rightarrow> string + GithubRelease \<Rightarrow> update_state \<Rightarrow> update_state" where
  "check_github num now currentVersion reply s = (case reply of
       Inr r \<Rightarrow> (let remote = strip_v (or_empty (gr_tag_name r)) in
          if truthy remote \<and> 0 < compareVersions num remote currentVersion
          then s\<lparr>us_updateInfo := Some \<lparr> ui_version = remote, ui_date = or_empty (gr_published_at r), ui_body = or_empty (gr_body r),
                   ui_isFallback = True, ui_releaseUrl = Some (or_else (or_empty (gr_html_url r)) RELEASES) \<rparr>,
                 us_latestVersion := Some remote, us_status := Available, us_lastCheckTime := Some now\<rparr>
          else s\<lparr>us_status := UpToDate, us_latestVersion := None, us_lastCheckTime := Some now\<rparr>)
     | Inl e \<Rightarrow> s\<lparr>us_status := UpdateError, us_error := Some e, us_lastCheckTime := Some now\<rparr>)"

definition checkForUpdate :: "(string \<Rightarrow> rat option) \<Rightarrow> int \<Rightarrow> string + NativeUpdate option \<Rightarrow> string + GithubRelease
    \<Rightarrow> update_state \<Rightarrow> update_state" where
  "checkForUpdate num now native github s = (case checkForUpdate_begin s of
       None \<Rightarrow> s
     | Some (s', currentVersion) \<Rightarrow> (case check_native now native s' of
           (s'', True) \<Rightarrow> s''
         | (s'', False) \<Rightarrow> (if \<not> truthy currentVersion then s''\<lparr>us_status := Idle\<rparr>
             else check_github num now currentVersion github s'')))"

datatype DownloadEvent = Started "nat option" | Progress nat | Finished

text \<open>Downloaded bytes, length, state.\<close>

fun on_download :: "DownloadEvent \<Rightarrow> nat \<times> nat \<times> update_state \<Rightarrow> nat \<times> nat \<times> update_state" where
  "on_download (Started len) (_, _, s) = (0, nullish len 0, s)"
| "on_download (Progress chunk) (d, len, s) = (d + chunk, len,
     if 0 < len then s\<lparr>us_progress := \<lfloor>rat_of_nat (d + chunk) / rat_of_nat len * 100 + 1 / 2\<rfloor>\<rparr> else s)"
| "on_download Finished (d, len, s) = (d, len, s\<lparr>us_status := Ready, us_progress := 100\<rparr>)"

text \<open>
  \<open>check\<close> is the reply of the updater when no update object is at hand, \<open>result\<close> the events of the
  download and how it ended. A fallback update opens its page instead.
\<close>

definition installUpdate :: "string + NativeUpdate option \<Rightarrow> DownloadEvent list \<times> (string + unit) \<Rightarrow> update_state \<Rightarrow> update_state" where
  "installUpdate check result s =
     (if (case us_updateInfo s of Some i \<Rightarrow> ui_isFallback i \<and> truthy_opt (ui_releaseUrl i) | None \<Rightarrow> False) then s
      else let s0 = s\<lparr>us_status := Downloading, us_progress := 0\<rparr>;
               failed = (\<lambda>e t. t\<lparr>us_error := Some e, us_status := UpdateError\<rparr>);
               download = (\<lambda>t. let t' = snd (snd (fold on_download (fst result) (0, 0, t))) in
                 case snd result of Inl e \<Rightarrow> failed e t' | Inr _ \<Rightarrow> t'\<lparr>us_status := Ready, us_progress := 100, us_pendingUpdate := None\<rparr>)
        in case us_pendingUpdate s of
          Some u \<Rightarrow> download s0
        | None \<Rightarrow> (case check of
              Inl e \<Rightarrow> failed e s0
            | Inr None \<Rightarrow> s0\<lparr>us_pendingUpdate := None\<rparr>
            | Inr (Some u) \<Rightarrow> download (s0\<lparr>us_pendingUpdate := Some u\<rparr>)))"


section \<open>Properties\<close>

text \<open>Versions are ordered lexicographically, missing parts being 0.\<close>

definition padded :: "nat \<Rightarrow> rat list \<Rightarrow> rat list" where
  "padded n xs = xs @ replicate (n - length xs) 0"

fun lex_less :: "rat list \<Rightarrow> rat list \<Rightarrow> bool" where
  "lex_less (x # xs) (y # ys) \<longleftrightarrow> x < y \<or> x = y \<and> lex_less xs ys"
| "lex_less _ _ \<longleftrightarrow> False"

lemma compare_parts_swap: "compare_parts ys xs = - compare_parts xs ys"
  by (induction xs ys rule: compare_parts.induct) auto

lemma compare_parts_zeros: "compare_parts (replicate k 0) ys = compare_parts [] ys"
proof (induction ys arbitrary: k)
  case Nil
  then show ?case by (induction k) auto
next
  case (Cons y ys)
  then show ?case by (cases k) auto
qed

lemma compare_parts_right: "compare_parts (xs @ replicate k 0) ys = compare_parts xs ys"
  by (induction xs ys rule: compare_parts.induct) (simp_all add: compare_parts_zeros)

lemma compare_parts_padded: "compare_parts (padded n xs) (padded n ys) = compare_parts xs ys"
  unfolding padded_def by (metis compare_parts_right compare_parts_swap)

lemma compare_parts_lex: "length xs = length ys \<Longrightarrow> 0 < compare_parts xs ys \<longleftrightarrow> lex_less ys xs"
  by (induction xs ys rule: list_induct2) auto

text \<open>
  A version is newer exactly when its parts, filled up with zeros to the same length, are
  lexicographically greater; and two versions are never each newer than the other.
\<close>

theorem versions_ordered:
  "let n = max (length (version_parts num a)) (length (version_parts num b)) in
    (0 < compareVersions num a b \<longleftrightarrow> lex_less (padded n (version_parts num b)) (padded n (version_parts num a))) \<and>
    compareVersions num b a = - compareVersions num a b"
proof -
  let ?n = "max (length (version_parts num a)) (length (version_parts num b))"
  have "length (padded ?n (version_parts num a)) = length (padded ?n (version_parts num b))"
    by (simp add: padded_def)
  from compare_parts_lex[OF this] show ?thesis
    by (simp add: compareVersions_def compare_parts_padded Let_def flip: compare_parts_swap)
qed

text \<open>
  An installation without an update object whose check finds nothing leaves the store downloading,
  and from then on every check returns at once: the application never finds another update.
\<close>

theorem install_without_update_stuck:
  assumes "us_pendingUpdate s = None" and "set_option (us_updateInfo s) \<subseteq> {i. \<not> ui_isFallback i}"
  shows "let s' = installUpdate (Inr None) result s in
    us_status s' = Downloading \<and> foldl (\<lambda>t (now, native, github). checkForUpdate num now native github t) s' checks = s'"
proof -
  have "us_status t = Downloading \<Longrightarrow> foldl (\<lambda>t (now, native, github). checkForUpdate num now native github t) t checks = t" for t
    by (induction checks) (auto simp: checkForUpdate_def checkForUpdate_begin_def)
  then show ?thesis using assms by (auto simp: installUpdate_def Let_def split: option.splits)
qed

theorem install_without_update_stuck_witness:
  "let s' = installUpdate (Inr None) ([], Inr ()) update_init in us_status s' = Downloading \<and>
    foldl (\<lambda>t (now, native, github). checkForUpdate (\<lambda>_. None) now native github t) s' [(1, Inl ''x'', Inl ''y'')] = s'"
  by (rule install_without_update_stuck) (simp_all add: update_init_def)

text \<open>A download whose chunks do not exceed the announced length shows a progress between 0 and 100 that never falls.\<close>

lemma progress_grows:
  assumes "0 < len" and "d + chunk \<le> len" and "us_progress s = \<lfloor>rat_of_nat d / rat_of_nat len * 100 + 1 / 2\<rfloor>"
  shows "us_progress s \<le> us_progress (snd (snd (on_download (Progress chunk) (d, len, s)))) \<and>
    us_progress (snd (snd (on_download (Progress chunk) (d, len, s)))) \<le> 100"
proof -
  let ?a = "rat_of_nat d / rat_of_nat len" and ?b = "rat_of_nat (d + chunk) / rat_of_nat len"
  have a: "?a \<le> ?b" using assms(1) by (simp add: divide_right_mono)
  have b: "?b \<le> 1" using assms(1,2) by (simp flip: of_nat_add)
  have "\<lfloor>?a * 100 + 1 / 2\<rfloor> \<le> \<lfloor>?b * 100 + 1 / 2\<rfloor>" using a by (intro floor_mono) linarith
  moreover have "?b * 100 + 1 / 2 < 101" using b by linarith
  then have "\<lfloor>?b * 100 + 1 / 2\<rfloor> \<le> 100" by linarith
  moreover have "us_progress (snd (snd (on_download (Progress chunk) (d, len, s)))) = \<lfloor>?b * 100 + 1 / 2\<rfloor>"
    using assms(1) by simp
  ultimately show ?thesis using assms(3) by (simp only:)
qed

end
