(* ===== verification/Connections.thy ===== *)
theory Connections
  imports Interfaces
begin

text \<open>
  The registry of open connections (\<open>src/src/lib/connectionRegistry.ts\<close>), a map of maps, and the
  release of what a TCP session owns (\<open>src/src/services/tcpSessionLifecycle.ts\<close>). The registry refines
  a flat map from session and connection to label.
\<close>

section \<open>The registry\<close>

type_synonym registry = "string dict dict"

definition inner :: "registry \<Rightarrow> string \<Rightarrow> string dict" where
  "inner r key = nullish (map_of r key) []"

definition registerConnection :: "string \<Rightarrow> string \<Rightarrow> string \<Rightarrow> registry \<Rightarrow> registry" where
  "registerConnection sessionKey connId label r =
     (let r' = (if has_key r sessionKey then r else AList.update sessionKey [] r)
      in AList.update sessionKey (AList.update connId label (inner r' sessionKey)) r')"

text \<open>An inner map that becomes empty is removed.\<close>

definition unregisterConnection :: "string \<Rightarrow> string \<Rightarrow> registry \<Rightarrow> registry" where
  "unregisterConnection sessionKey connId r = (case map_of r sessionKey of
       None \<Rightarrow> r
     | Some m \<Rightarrow> (let m' = AList.delete connId m in
         if m' = [] then AList.delete sessionKey r else AList.update sessionKey m' r))"

definition isConnectionRegistered :: "string \<Rightarrow> string \<Rightarrow> registry \<Rightarrow> bool" where
  "isConnectionRegistered sessionKey connId r = has_key (inner r sessionKey) connId"

definition clearConnections :: "string \<Rightarrow> registry \<Rightarrow> registry" where
  "clearConnections sessionKey r = AList.delete sessionKey r"

definition clearConnectionsForKeys :: "string list \<Rightarrow> registry \<Rightarrow> registry" where
  "clearConnectionsForKeys sessionKeys r = foldl (\<lambda>r k. clearConnections k r) r sessionKeys"

definition hasActiveConnections :: "string \<Rightarrow> registry \<Rightarrow> bool" where
  "hasActiveConnections sessionKey r \<longleftrightarrow> 0 < length (inner r sessionKey)"

definition hasActiveConnectionsForKeys :: "string list \<Rightarrow> registry \<Rightarrow> bool" where
  "hasActiveConnectionsForKeys sessionKeys r = some_elem (\<lambda>k. hasActiveConnections k r) sessionKeys"

definition getActiveConnectionLabels :: "string \<Rightarrow> registry \<Rightarrow> string list" where
  "getActiveConnectionLabels sessionKey r = (case map_of r sessionKey of None \<Rightarrow> [] | Some m \<Rightarrow> map snd m)"

definition getActiveConnectionLabelsForKeys :: "string list \<Rightarrow> registry \<Rightarrow> string list" where
  "getActiveConnectionLabelsForKeys sessionKeys r = concat (map (\<lambda>k. getActiveConnectionLabels k r) sessionKeys)"


section \<open>Releasing a session\<close>

definition getTcpSessionKeys :: "string \<Rightarrow> string list" where
  "getTcpSessionKeys sessionId = [sessionId, sessionId @ ''-split'']"

text \<open>A command of the backend with the handle it closes.\<close>

definition session_commands :: "string \<Rightarrow> (string \<times> string) list" where
  "session_commands key =
    [(''tcp_disconnect'', ''tcp-client:'' @ key), (''tcp_server_stop'', ''tcp-server:'' @ key), (''udp_close'', ''udp-client:'' @ key),
     (''udp_close'', ''udp-server:'' @ key), (''serial_close'', ''serial:'' @ key), (''modbus_tcp_disconnect'', ''modbus:'' @ key),
     (''modbus_rtu_close'', ''modbus:'' @ key), (''modbus_slave_tcp_stop'', ''modbus-slave-'' @ key),
     (''modbus_slave_rtu_stop'', ''modbus-slave-'' @ key)]"

text \<open>
  Every command is started whatever becomes of the others (\<open>Promise.allSettled\<close>), and the registry
  forgets the session in any case (\<open>finally\<close>).
\<close>

definition releaseTcpSessionResources :: "string \<Rightarrow> registry \<Rightarrow> (string \<times> string) list \<times> registry" where
  "releaseTcpSessionResources sessionId r =
     (let keys = getTcpSessionKeys sessionId
      in (concat (map session_commands keys), clearConnectionsForKeys keys r))"


section \<open>Refinement\<close>

text \<open>The abstract view: the label of a connection of a session.\<close>

definition conn_label :: "registry \<Rightarrow> string \<times> string \<Rightarrow> string option" where
  "conn_label r p = map_of (inner r (fst p)) (snd p)"

definition put_conn :: "string \<times> string \<Rightarrow> string \<Rightarrow> registry \<Rightarrow> registry" where
  "put_conn p label r = registerConnection (fst p) (snd p) label r"

definition del_conn :: "string \<times> string \<Rightarrow> registry \<Rightarrow> registry" where
  "del_conn p r = unregisterConnection (fst p) (snd p) r"

lemma inner_update: "inner (AList.update k m r) k' = (if k' = k then m else inner r k')"
  by (simp add: inner_def nullish_def update_conv')

lemma inner_delete: "inner (AList.delete k r) k' = (if k' = k then [] else inner r k')"
  by (simp add: inner_def nullish_def delete_conv')

lemma inner_Nil [simp]: "inner [] k = []"
  by (simp add: inner_def nullish_def)

lemma inner_register:
  "inner (registerConnection k c l r) k' = (if k' = k then AList.update c l (inner r k) else inner r k')"
proof -
  let ?r = "if has_key r k then r else AList.update k [] r"
  have "map_of r k = None" if "\<not> has_key r k"
    using that by (simp add: has_key_def map_of_eq_None_iff)
  then have "inner ?r j = inner r j" for j
    by (auto simp: inner_update) (simp add: inner_def nullish_def)
  then show ?thesis unfolding registerConnection_def Let_def by (simp only: inner_update)
qed

lemma inner_unregister: "inner (unregisterConnection k c r) k' = (if k' = k then AList.delete c (inner r k) else inner r k')"
proof (cases "map_of r k")
  case None
  then have "inner r k = []" by (simp add: inner_def nullish_def)
  with None show ?thesis by (simp add: unregisterConnection_def)
next
  case (Some m)
  then have "inner r k = m" by (simp add: inner_def nullish_def)
  with Some show ?thesis by (simp add: unregisterConnection_def Let_def inner_update inner_delete)
qed

interpretation connections: dictionary "[]" conn_label put_conn del_conn
proof unfold_locales
  show "conn_label [] k = None" for k by (simp add: conn_label_def)
  show "conn_label (put_conn k v d) k' = (if k' = k then Some v else conn_label d k')" for k v d k'
    by (cases k; cases k') (simp add: conn_label_def put_conn_def inner_register update_conv')
  show "conn_label (del_conn k d) k' = (if k' = k then None else conn_label d k')" for k d k'
    by (cases k; cases k') (simp add: conn_label_def del_conn_def inner_unregister delete_conv')
qed

lemma inner_clear: "inner (clearConnectionsForKeys ks r) k = (if k \<in> set ks then [] else inner r k)"
  unfolding clearConnectionsForKeys_def clearConnections_def
  by (induction ks arbitrary: r) (auto simp: inner_delete)

text \<open>A session is active exactly when one of its connections has a label.\<close>

lemma active_iff: "hasActiveConnections k r \<longleftrightarrow> (\<exists>c. conn_label r (k, c) \<noteq> None)"
  by (cases "inner r k") (auto simp: hasActiveConnections_def conn_label_def split: if_splits)

text \<open>\<^bold>\<open>C31\<close>. 
  The registry behaves as one map from a session and a connection to a label: it starts empty, a
  registered connection is found under its label until it is unregistered, other connections are not
  touched, and a session is reported as active exactly when the map has a connection of it.
\<close>

theorem registry_refines_map:
  "conn_label [] = Map.empty \<and>
   conn_label (registerConnection k c l r) = (conn_label r)((k, c) \<mapsto> l) \<and>
   conn_label (unregisterConnection k c r) = (conn_label r)((k, c) := None) \<and>
   conn_label (clearConnectionsForKeys ks r) = conn_label r |` {p. fst p \<notin> set ks} \<and>
   isConnectionRegistered k c r = (conn_label r (k, c) \<noteq> None) \<and>
   hasActiveConnectionsForKeys ks r = (\<exists>k c. k \<in> set ks \<and> conn_label r (k, c) \<noteq> None)"
proof (intro conjI)
  show "conn_label (registerConnection k c l r) = (conn_label r)((k, c) \<mapsto> l)"
    using connections.get_put[of "(k, c)" l r] by (auto simp: put_conn_def fun_eq_iff)
  show "conn_label (unregisterConnection k c r) = (conn_label r)((k, c) := None)"
    using connections.get_del[of "(k, c)" r] by (auto simp: del_conn_def fun_eq_iff)
  show "conn_label (clearConnectionsForKeys ks r) = conn_label r |` {p. fst p \<notin> set ks}"
    by (auto simp: conn_label_def inner_clear restrict_map_def fun_eq_iff)
  show "isConnectionRegistered k c r = (conn_label r (k, c) \<noteq> None)"
    by (simp add: isConnectionRegistered_def conn_label_def has_key_def map_of_eq_None_iff)
  show "hasActiveConnectionsForKeys ks r = (\<exists>k c. k \<in> set ks \<and> conn_label r (k, c) \<noteq> None)"
    unfolding hasActiveConnectionsForKeys_def some_elem_def list_ex_iff active_iff by blast
qed (simp add: conn_label_def fun_eq_iff)

text \<open>
  After a session is released, neither of its two panels has a registered connection, other sessions
  keep theirs, and for each panel all nine kinds of handle were asked to close.
\<close>

lemma session_released:
  "let (commands, r') = releaseTcpSessionResources sid r in
    \<not> hasActiveConnectionsForKeys (getTcpSessionKeys sid) r' \<and>
    set (session_commands sid) \<union> set (session_commands (sid @ ''-split'')) = set commands \<and>
    (\<forall>k. k \<notin> set (getTcpSessionKeys sid) \<longrightarrow> getActiveConnectionLabels k r' = getActiveConnectionLabels k r)"
proof -
  have labels: "getActiveConnectionLabels k r = map snd (inner r k)" for k r
    by (simp add: getActiveConnectionLabels_def inner_def nullish_def split: option.split)
  show ?thesis
    by (auto simp: releaseTcpSessionResources_def Let_def hasActiveConnectionsForKeys_def some_elem_def list_ex_iff
        hasActiveConnections_def inner_clear getTcpSessionKeys_def labels)
qed

end
