(* ===== verification/HistoryStore.thy ===== *)
theory HistoryStore
  imports CollectionTypes "HOL-Library.Sublist"
begin

text \<open>
  The request history (\<open>src/src/stores/historyStore.ts\<close>): summaries in memory, newest first, and full
  records in the backend's table. \<open>maxCount\<close> is the setting \<open>maxHistoryCount\<close>.
\<close>

definition PAGE_SIZE :: nat where "PAGE_SIZE = 50"

record history_state =
  ht_entries :: "HistoryEntrySummary list"
  ht_loading :: bool
  ht_error :: "string option"
  ht_hasMore :: bool
  ht_writeError :: "string option"

definition history_init :: history_state where
  "history_init = \<lparr> ht_entries = [], ht_loading = False, ht_error = None, ht_hasMore = True, ht_writeError = None \<rparr>"

definition summary_of :: "HistoryEntry \<Rightarrow> HistoryEntrySummary" where
  "summary_of e = \<lparr> hs_id = he_id e, hs_method = he_method e, hs_url = he_url e, hs_status = he_status e,
     hs_durationMs = he_durationMs e, hs_bodySize = he_bodySize e, hs_createdAt = he_createdAt e \<rparr>"

definition fetchHistory_begin :: "history_state \<Rightarrow> history_state" where
  "fetchHistory_begin s = s\<lparr>ht_loading := True, ht_error := None\<rparr>"

definition fetchHistory_done :: "string + HistoryEntrySummary list \<Rightarrow> history_state \<Rightarrow> history_state" where
  "fetchHistory_done reply s = (case reply of
       Inr entries \<Rightarrow> s\<lparr>ht_entries := entries, ht_loading := False, ht_hasMore := PAGE_SIZE \<le> length entries\<rparr>
     | Inl e \<Rightarrow> s\<lparr>ht_error := Some e, ht_loading := False\<rparr>)"

text \<open>The number of entries asked for, \<open>None\<close> when nothing is asked.\<close>

definition loadMore_begin :: "nat \<Rightarrow> history_state \<Rightarrow> history_state \<times> nat option" where
  "loadMore_begin maxCount s = (if ht_loading s \<or> \<not> ht_hasMore s then (s, None)
     else let currentCount = length (ht_entries s); nextBatch = min (int PAGE_SIZE) (int maxCount - int currentCount) in
       if nextBatch \<le> 0 then (s\<lparr>ht_loading := False, ht_hasMore := False\<rparr>, None)
       else (s\<lparr>ht_loading := True\<rparr>, Some (currentCount + nat nextBatch)))"

definition loadMore_done :: "nat \<Rightarrow> nat \<Rightarrow> string + HistoryEntrySummary list \<Rightarrow> history_state \<Rightarrow> history_state" where
  "loadMore_done maxCount asked reply s = (case reply of
       Inr allEntries \<Rightarrow> s\<lparr>ht_entries := allEntries, ht_loading := False,
          ht_hasMore := asked \<le> length allEntries \<and> length allEntries < maxCount\<rparr>
     | Inl e \<Rightarrow> s\<lparr>ht_error := Some e, ht_loading := False\<rparr>)"

definition addEntry :: "nat \<Rightarrow> HistoryEntry \<Rightarrow> history_state \<Rightarrow> history_state" where
  "addEntry maxCount entry s = s\<lparr>ht_entries := take maxCount (summary_of entry # ht_entries s), ht_writeError := None\<rparr>"

definition addEntry_fails :: "string \<Rightarrow> history_state \<Rightarrow> history_state" where
  "addEntry_fails msg s = s\<lparr>ht_writeError := Some msg\<rparr>"

text \<open>The timer, five seconds later.\<close>

definition clear_error_timer :: "string \<Rightarrow> history_state \<Rightarrow> history_state" where
  "clear_error_timer msg s = (if ht_writeError s = Some msg then s\<lparr>ht_writeError := None\<rparr> else s)"

definition history_deleteEntry :: "string \<Rightarrow> string + unit \<Rightarrow> history_state \<Rightarrow> history_state" where
  "history_deleteEntry i reply s = (case reply of
       Inr _ \<Rightarrow> s\<lparr>ht_entries := filter (\<lambda>e. hs_id e \<noteq> i) (ht_entries s)\<rparr> | Inl e \<Rightarrow> s)"

definition history_clearAll :: "string + unit \<Rightarrow> history_state \<Rightarrow> history_state" where
  "history_clearAll reply s = (case reply of Inr _ \<Rightarrow> s\<lparr>ht_entries := [], ht_hasMore := False\<rparr> | Inl e \<Rightarrow> s)"

definition clearWriteError :: "history_state \<Rightarrow> history_state" where
  "clearWriteError s = s\<lparr>ht_writeError := None\<rparr>"

text \<open>
  Beside a table that does the same to its rows (the newest first, at most \<open>maxCount\<close> of them), the
  list shown stays the beginning of the table.
\<close>

lemma shown_is_prefix:
  assumes "prefix (ht_entries s) rows"
  shows "prefix (ht_entries (addEntry m e s)) (take m (summary_of e # rows))"
    and "prefix (ht_entries (history_deleteEntry i (Inr ()) s)) (filter (\<lambda>r. hs_id r \<noteq> i) rows)"
    and "prefix (ht_entries (fetchHistory_done (Inr (take PAGE_SIZE rows)) s)) rows"
    and "loadMore_begin m s = (s', Some n) \<Longrightarrow> prefix (ht_entries (loadMore_done m n (Inr (take n rows)) s')) rows"
proof -
  obtain zs where rows: "rows = ht_entries s @ zs" using assms by (auto simp: prefix_def)
  show "prefix (ht_entries (addEntry m e s)) (take m (summary_of e # rows))"
    by (cases m) (simp_all add: addEntry_def rows)
  show "prefix (ht_entries (history_deleteEntry i (Inr ()) s)) (filter (\<lambda>r. hs_id r \<noteq> i) rows)"
    by (simp add: history_deleteEntry_def rows)
  show "prefix (ht_entries (fetchHistory_done (Inr (take PAGE_SIZE rows)) s)) rows"
    by (simp add: fetchHistory_done_def take_is_prefix)
  show "prefix (ht_entries (loadMore_done m n (Inr (take n rows)) s')) rows"
    by (simp add: loadMore_done_def take_is_prefix)
qed

text \<open>Loading more shows at least one row more than before, until the table or the limit is reached.\<close>

lemma loadMore_grows:
  assumes "prefix (ht_entries s) rows" and "loadMore_begin m s = (s', Some n)" and "length (ht_entries s) < length rows"
  shows "length (ht_entries s) < length (ht_entries (loadMore_done m n (Inr (take n rows)) s')) \<and>
    length (ht_entries (loadMore_done m n (Inr (take n rows)) s')) \<le> m"
  using assms by (auto simp: loadMore_begin_def loadMore_done_def Let_def PAGE_SIZE_def min_def split: if_splits)

end
