(* ===== verification/IconRegistry.thy ===== *)
theory IconRegistry
  imports Interfaces
begin

text \<open>
  Icons that plugins contribute (\<open>src/src/stores/iconRegistry.ts\<close>): the sanitizer of SVG documents and
  the registry of icon packs. Parsing and serializing a document (\<open>DOMParser\<close>, \<open>XMLSerializer\<close>) are
  arguments; the sanitizer works on the parsed tree.
\<close>

definition js_startsWith :: "string \<Rightarrow> string \<Rightarrow> bool" where
  "js_startsWith s p \<longleftrightarrow> take (length p) s = p"

definition svg_includes :: "string \<Rightarrow> string \<Rightarrow> bool" where
  "svg_includes s q \<longleftrightarrow> list_ex (\<lambda>k. take (length q) (drop k s) = q) [0..<Suc (length s)]"

section \<open>The sanitizer\<close>

datatype SvgNode = SvgElement string "(string \<times> string) list" "SvgNode list" | SvgText string

definition ALLOWED_SVG_TAGS :: "string list" where
  "ALLOWED_SVG_TAGS = [''svg'', ''g'', ''path'', ''circle'', ''rect'', ''line'', ''polyline'', ''polygon'', ''ellipse'', ''defs'',
     ''lineargradient'', ''radialgradient'', ''stop'', ''clippath'', ''mask'', ''use'', ''title'', ''desc'', ''text'', ''tspan'',
     ''marker'', ''pattern'', ''symbol'']"

definition isDangerousUrl :: "string \<Rightarrow> bool" where
  "isDangerousUrl value = (let v = js_toLowerCase (js_trim value) in js_startsWith v ''javascript:'' \<or> js_startsWith v ''data:'')"

definition isDangerousStyle :: "string \<Rightarrow> bool" where
  "isDangerousStyle value = (let v = js_toLowerCase value in
     svg_includes v ''expression('' \<or> svg_includes v ''javascript:'' \<or> svg_includes v ''url('')"

definition local_name :: "string \<Rightarrow> string" where
  "local_name name = (case after_char (CHR '':'') name of Some rest \<Rightarrow> rest | None \<Rightarrow> name)"

text \<open>The attributes that are removed.\<close>

definition dangerous_attr :: "string \<times> string \<Rightarrow> bool" where
  "dangerous_attr a = (case a of (attr_name, value) \<Rightarrow> let name = js_toLowerCase attr_name in
     if js_startsWith name ''on'' then True
     else if name = ''href'' \<or> local_name name = ''href'' then
       (if isDangerousUrl value then True else name = ''style'' \<and> isDangerousStyle value)
     else name = ''style'' \<and> isDangerousStyle value)"

text \<open>\<open>None\<close>: the element is removed with all it contains. Text is not visited.\<close>

fun sanitizeElement :: "SvgNode \<Rightarrow> SvgNode option" where
  "sanitizeElement (SvgText t) = Some (SvgText t)"
| "sanitizeElement (SvgElement tag attrs children) =
     (if js_toLowerCase tag \<notin> set ALLOWED_SVG_TAGS then None
      else Some (SvgElement tag (filter (\<lambda>a. \<not> dangerous_attr a) attrs)
        (concat (map (\<lambda>c. case sanitizeElement c of None \<Rightarrow> [] | Some d \<Rightarrow> [d]) children))))"

fun root_tag :: "SvgNode \<Rightarrow> string" where
  "root_tag (SvgElement tag _ _) = js_toLowerCase tag"
| "root_tag (SvgText _) = []"

definition sanitizeSvg :: "(string \<Rightarrow> SvgNode option) \<Rightarrow> (SvgNode \<Rightarrow> string) \<Rightarrow> string \<Rightarrow> string" where
  "sanitizeSvg parse serialize raw = (case parse raw of
       None \<Rightarrow> []
     | Some root \<Rightarrow> (if root_tag root \<noteq> ''svg'' then []
         else case sanitizeElement root of None \<Rightarrow> [] | Some clean \<Rightarrow> serialize clean))"


section \<open>The registry\<close>

record IconContribution =
  ic_name :: string
  ic_svg :: string

type_synonym icon_registry = "string dict dict"

definition registerPack :: "(string \<Rightarrow> SvgNode option) \<Rightarrow> (SvgNode \<Rightarrow> string) \<Rightarrow> string \<Rightarrow> IconContribution list
    \<Rightarrow> icon_registry \<Rightarrow> icon_registry" where
  "registerPack parse serialize namespace icons r =
     AList.update namespace (foldl (\<lambda>d icon. let clean = sanitizeSvg parse serialize (ic_svg icon) in
       if truthy clean then AList.update (ic_name icon) clean d else d) [] icons) r"

definition unregisterPack :: "string \<Rightarrow> icon_registry \<Rightarrow> icon_registry" where
  "unregisterPack namespace r = AList.delete namespace r"

text \<open>\<open>ref.split(':', 2)\<close> keeps the first two pieces.\<close>

definition resolveIcon :: "string \<Rightarrow> icon_registry \<Rightarrow> string option" where
  "resolveIcon ref r = (case js_split (CHR '':'') ref of
       ns # name # _ \<Rightarrow> Option.bind (map_of r ns) (\<lambda>d. map_of d name)
     | _ \<Rightarrow> None)"

definition getNamespaces :: "icon_registry \<Rightarrow> string list" where
  "getNamespaces r = map fst r"

definition hasNamespace :: "string \<Rightarrow> icon_registry \<Rightarrow> bool" where
  "hasNamespace namespace r = has_key r namespace"


section \<open>Sanitized documents\<close>

text \<open>Only allowed elements, no event handler, no script or data URL in a link, no active style.\<close>

fun safe_node :: "SvgNode \<Rightarrow> bool" where
  "safe_node (SvgText t) = True"
| "safe_node (SvgElement tag attrs children) \<longleftrightarrow>
     js_toLowerCase tag \<in> set ALLOWED_SVG_TAGS \<and>
     list_all (\<lambda>(name, value). \<not> js_startsWith (js_toLowerCase name) ''on'' \<and>
       (local_name (js_toLowerCase name) = ''href'' \<longrightarrow> \<not> isDangerousUrl value) \<and>
       (js_toLowerCase name = ''style'' \<longrightarrow> \<not> isDangerousStyle value)) attrs \<and>
     list_all safe_node children"

lemma kept_attr:
  "\<not> dangerous_attr (name, value) \<longleftrightarrow> \<not> js_startsWith (js_toLowerCase name) ''on'' \<and>
     (local_name (js_toLowerCase name) = ''href'' \<longrightarrow> \<not> isDangerousUrl value) \<and>
     (js_toLowerCase name = ''style'' \<longrightarrow> \<not> isDangerousStyle value)"
proof -
  have "local_name ''href'' = ''href''" "local_name ''style'' = ''style''" by (simp_all add: local_name_def after_char_def)
  then show ?thesis by (auto simp: dangerous_attr_def Let_def)
qed

lemma sanitized_safe: "sanitizeElement n = Some m \<Longrightarrow> safe_node m"
proof (induction n arbitrary: m rule: sanitizeElement.induct)
  case (2 tag attrs children)
  from 2(2) have tag: "js_toLowerCase tag \<in> set ALLOWED_SVG_TAGS"
    and m: "m = SvgElement tag (filter (\<lambda>a. \<not> dangerous_attr a) attrs)
      (concat (map (\<lambda>c. case sanitizeElement c of None \<Rightarrow> [] | Some d \<Rightarrow> [d]) children))"
    by (auto split: if_splits)
  have "safe_node d" if "d \<in> set (concat (map (\<lambda>c. case sanitizeElement c of None \<Rightarrow> [] | Some d \<Rightarrow> [d]) children))" for d
    using that 2(1)[OF _ _] tag by (auto split: option.splits)
  then show ?case using tag unfolding m by (auto simp: list_all_iff kept_attr[symmetric])
qed auto

lemma safe_kept: "safe_node n \<Longrightarrow> sanitizeElement n = Some n"
proof (induction n rule: sanitizeElement.induct)
  case (2 tag attrs children)
  then have "sanitizeElement c = Some c" if "c \<in> set children" for c
    using that by (auto simp: list_all_iff)
  then have "map (\<lambda>c. case sanitizeElement c of None \<Rightarrow> [] | Some d \<Rightarrow> [d]) children = map (\<lambda>c. [c]) children"
    by (auto intro!: map_cong)
  then have "concat (map (\<lambda>c. case sanitizeElement c of None \<Rightarrow> [] | Some d \<Rightarrow> [d]) children) = children"
    by (simp only: concat_map_singleton list.map_ident)
  moreover have "\<not> dangerous_attr a" if "a \<in> set attrs" for a
    using that 2(2) unfolding safe_node.simps list_all_iff kept_attr[symmetric] by (cases a) auto
  then have "filter (\<lambda>a. \<not> dangerous_attr a) attrs = attrs" by (auto intro!: filter_True)
  ultimately show ?case using 2(2) by simp
qed simp

text \<open>
  What the sanitizer lets through is safe: only allowed elements, no event handler attribute, no
  script or data URL in a link, no active style, at any depth; and a safe document is let through
  unchanged.
\<close>

theorem sanitizer_safe_and_exact:
  "set_option (sanitizeElement n) \<subseteq> Collect safe_node \<and> (safe_node n \<longleftrightarrow> sanitizeElement n = Some n)"
  using sanitized_safe safe_kept by (cases "sanitizeElement n") auto

lemma tab_in_scheme_passes: "safe_node (SvgElement ''use'' [(''href'', ''java'' @ [CHR 0x09] @ ''script:alert(1)'')] [])"
  by code_simp

text \<open>The icons of a registry come out of the sanitizer.\<close>

definition clean_icons :: "(SvgNode \<Rightarrow> string) \<Rightarrow> string set" where
  "clean_icons serialize = serialize ` {n. safe_node n \<and> root_tag n = ''svg''}"

definition sanitized_icons :: "(SvgNode \<Rightarrow> string) \<Rightarrow> icon_registry \<Rightarrow> bool" where
  "sanitized_icons serialize r \<longleftrightarrow> snd ` set r \<subseteq> {d. snd ` set d \<subseteq> clean_icons serialize}"


lemma sanitizeSvg_icon: "truthy (sanitizeSvg parse serialize raw) \<Longrightarrow>
  sanitizeSvg parse serialize raw \<in> clean_icons serialize"
proof -
  have root: "root_tag m = root_tag n" if "sanitizeElement n = Some m" for n m
    using that by (cases n) (auto split: if_splits)
  assume "truthy (sanitizeSvg parse serialize raw)"
  then obtain n m where nm: "sanitizeElement n = Some m" "root_tag n = ''svg''" "sanitizeSvg parse serialize raw = serialize m"
    by (auto simp: sanitizeSvg_def split: option.splits if_splits)
  then have "m \<in> {n. safe_node n \<and> root_tag n = ''svg''}" using root sanitized_safe by simp
  then show ?thesis unfolding nm(3) clean_icons_def by (rule imageI)
qed

lemma update_snd: "snd ` set (AList.update k v d) \<subseteq> insert v (snd ` set d)"
  by (induction d) auto

lemma delete_snd: "snd ` set (AList.delete k d) \<subseteq> snd ` set d"
  by (auto simp: AList.delete_eq)

lemma pack_sanitized:
  assumes "snd ` set d \<subseteq> clean_icons serialize"
  shows "snd ` set (foldl (\<lambda>d icon. let clean = sanitizeSvg parse serialize (ic_svg icon) in
       if truthy clean then AList.update (ic_name icon) clean d else d) d icons)
    \<subseteq> clean_icons serialize"
  using assms
proof (induction icons arbitrary: d)
  case (Cons icon icons)
  let ?d = "let clean = sanitizeSvg parse serialize (ic_svg icon) in if truthy clean then AList.update (ic_name icon) clean d else d"
  have "snd ` set ?d \<subseteq> clean_icons serialize"
  proof (cases "truthy (sanitizeSvg parse serialize (ic_svg icon))")
    case True
    have "snd ` set ?d \<subseteq> insert (sanitizeSvg parse serialize (ic_svg icon)) (snd ` set d)"
      unfolding Let_def if_P[OF True] by (rule update_snd)
    also have "\<dots> \<subseteq> clean_icons serialize" using sanitizeSvg_icon[OF True] Cons.prems by (rule insert_subsetI)
    finally show ?thesis .
  next
    case False
    then show ?thesis unfolding Let_def if_not_P[OF False] by (rule_tac Cons.prems)
  qed
  then show ?case using Cons.IH by simp
qed simp


lemma sanitized_put:
  assumes "sanitized_icons serialize r" and "snd ` set d \<subseteq> clean_icons serialize"
  shows "sanitized_icons serialize (AList.update ns d r)"
proof -
  let ?C = "{d. snd ` set d \<subseteq> clean_icons serialize}"
  have "snd ` set (AList.update ns d r) \<subseteq> insert d (snd ` set r)" by (rule update_snd)
  also have "\<dots> \<subseteq> ?C" using CollectI[where P = "\<lambda>d. snd ` set d \<subseteq> clean_icons serialize", OF assms(2)] assms(1)[unfolded sanitized_icons_def]
    by (rule insert_subsetI)
  finally show ?thesis unfolding sanitized_icons_def .
qed

lemma unregisterPack_sanitized: "sanitized_icons serialize r \<Longrightarrow> sanitized_icons serialize (unregisterPack ns r)"
  unfolding sanitized_icons_def unregisterPack_def by (rule subset_trans[OF delete_snd])

lemma registerPack_sanitized: "sanitized_icons serialize r \<Longrightarrow> sanitized_icons serialize (registerPack parse serialize ns icons r)"
  unfolding registerPack_def by (erule sanitized_put) (rule pack_sanitized, simp)

end
