(* ===== verification/PluginStore.thy ===== *)
theory PluginStore
  imports IconRegistry
begin

text \<open>
  The plugin store (\<open>src/src/stores/pluginStore.ts\<close>) together with the icon registry it feeds. Of a
  manifest's contributions (\<open>contributes\<close>) the store reads the icons only, \<open>pm_icons\<close>. \<open>parse\<close> and \<open>serialize\<close> are those of the
  registry.
\<close>

section \<open>Data\<close>

datatype PluginType = ProtocolParserPlugin | RequestHookPlugin | ResponseRendererPlugin | DataGeneratorPlugin | ExportFormatPlugin
  | SidebarPanelPlugin | CryptoToolPlugin | IconPackPlugin | DatabaseDriverPlugin | QueryFormatterPlugin

datatype PanelPosition = PanelLeft | PanelRight | PanelBoth

record PluginI18nEntry =
  pi_name :: "string option"
  pi_description :: "string option"

datatype PluginSource = NativeSource | RemoteSource

record PluginManifest =
  pm_id :: string
  pm_name :: string
  pm_version :: string
  pm_description :: string
  pm_author :: string
  pm_pluginType :: PluginType
  pm_panelPosition :: "PanelPosition option"
  pm_icon :: string
  pm_entrypoint :: string
  pm_protocolIds :: "string list"
  pm_tags :: "string list"
  pm_installed :: bool
  pm_downloadUrl :: "string option"
  pm_source :: PluginSource
  pm_icons :: "IconContribution list option"
  pm_i18n :: "PluginI18nEntry dict option"
  pm_hasUpdate :: "bool option"
  pm_latestVersion :: "string option"
  pm_removedFromRegistry :: "bool option"
  pm_iconNamespace :: "string option"

record ProtocolParser =
  pp_pluginId :: string
  pp_protocolId :: string
  pp_pluginName :: string

record plugin_state =
  pg_installedPlugins :: "PluginManifest list"
  pg_availablePlugins :: "PluginManifest list"
  pg_protocolParsers :: "ProtocolParser list"
  pg_loading :: bool
  pg_refreshing :: bool
  pg_initialized :: bool
  pg_icons :: icon_registry

definition plugin_init :: plugin_state where
  "plugin_init = \<lparr> pg_installedPlugins = [], pg_availablePlugins = [], pg_protocolParsers = [], pg_loading = False,
     pg_refreshing = False, pg_initialized = False, pg_icons = [] \<rparr>"


section \<open>Actions\<close>

type_synonym svg_io = "(string \<Rightarrow> SvgNode option) \<times> (SvgNode \<Rightarrow> string)"

definition register_icons :: "svg_io \<Rightarrow> PluginManifest \<Rightarrow> icon_registry \<Rightarrow> icon_registry" where
  "register_icons io p r = (case (pm_iconNamespace p, pm_icons p) of
       (Some ns, Some (i # is)) \<Rightarrow> (if pm_pluginType p = IconPackPlugin \<and> truthy ns
          then registerPack (fst io) (snd io) ns (i # is) r else r)
     | _ \<Rightarrow> r)"

definition initializeIfNeeded_begin :: "plugin_state \<Rightarrow> plugin_state option" where
  "initializeIfNeeded_begin s = (if pg_initialized s \<and> (pg_installedPlugins s \<noteq> [] \<or> pg_availablePlugins s \<noteq> []) then None
     else Some (s\<lparr>pg_loading := True\<rparr>))"

definition mark_removed :: "PluginManifest list \<Rightarrow> PluginManifest \<Rightarrow> PluginManifest" where
  "mark_removed available p = p\<lparr>pm_removedFromRegistry := Some (pm_source p = RemoteSource \<and> pm_id p \<notin> pm_id ` set available)\<rparr>"

definition initializeIfNeeded_done :: "svg_io \<Rightarrow> string + PluginManifest list \<times> PluginManifest list \<Rightarrow> plugin_state \<Rightarrow> plugin_state" where
  "initializeIfNeeded_done io reply s = (case reply of
       Inr (installed, available) \<Rightarrow> s\<lparr>pg_installedPlugins := map (mark_removed available) installed,
          pg_availablePlugins := available, pg_loading := False, pg_initialized := True,
          pg_icons := fold (register_icons io) installed (pg_icons s)\<rparr>
     | Inl e \<Rightarrow> s\<lparr>pg_loading := False, pg_initialized := True\<rparr>)"

definition fetchInstalledPlugins_done :: "string + PluginManifest list \<Rightarrow> plugin_state \<Rightarrow> plugin_state" where
  "fetchInstalledPlugins_done reply s = (case reply of Inr plugins \<Rightarrow> s\<lparr>pg_installedPlugins := plugins\<rparr> | Inl e \<Rightarrow> s)"

text \<open>Whether the refresh is a silent one is decided at the start.\<close>

definition fetchAvailablePlugins_begin :: "plugin_state \<Rightarrow> plugin_state \<times> bool" where
  "fetchAvailablePlugins_begin s = (if pg_availablePlugins s \<noteq> [] then (s\<lparr>pg_refreshing := True\<rparr>, True)
     else (s\<lparr>pg_loading := True\<rparr>, False))"

definition fetchAvailablePlugins_done :: "bool \<Rightarrow> string + PluginManifest list \<Rightarrow> plugin_state \<Rightarrow> plugin_state" where
  "fetchAvailablePlugins_done silent reply s =
     (let s' = (case reply of Inr plugins \<Rightarrow> s\<lparr>pg_availablePlugins := plugins\<rparr> | Inl e \<Rightarrow> s)
      in if silent then s'\<lparr>pg_refreshing := False\<rparr> else s'\<lparr>pg_loading := False\<rparr>)"

definition fetchProtocolParsers_done :: "string + ProtocolParser list \<Rightarrow> plugin_state \<Rightarrow> plugin_state" where
  "fetchProtocolParsers_done reply s = (case reply of Inr parsers \<Rightarrow> s\<lparr>pg_protocolParsers := parsers\<rparr> | Inl e \<Rightarrow> s)"

definition refreshRegistry_begin :: "plugin_state \<Rightarrow> plugin_state" where
  "refreshRegistry_begin s = s\<lparr>pg_loading := True\<rparr>"

definition refreshRegistry_done :: "string + PluginManifest list \<Rightarrow> plugin_state \<Rightarrow> plugin_state" where
  "refreshRegistry_done reply s = fetchAvailablePlugins_done False reply s"

definition set_available :: "string \<Rightarrow> (PluginManifest \<Rightarrow> PluginManifest) \<Rightarrow> plugin_state \<Rightarrow> plugin_state" where
  "set_available i f s = s\<lparr>pg_availablePlugins := map_where (\<lambda>p. pm_id p = i) f (pg_availablePlugins s)\<rparr>"

text \<open>
  An installation, removal or update has two parts: the backend's reply changes the lists, and when the
  list of parsers arrives it is stored and the icons are registered or removed; other actions may come
  in between. A failure of either command is rethrown and ends the action where it is.
\<close>

definition installPlugin_manifest :: "string \<Rightarrow> PluginManifest \<Rightarrow> plugin_state \<Rightarrow> plugin_state" where
  "installPlugin_manifest pluginId manifest s =
     set_available pluginId (\<lambda>p. p\<lparr>pm_installed := True, pm_hasUpdate := Some False, pm_latestVersion := None\<rparr>)
       (s\<lparr>pg_installedPlugins := pg_installedPlugins s @ [manifest]\<rparr>)"

definition installPlugin_parsers :: "svg_io \<Rightarrow> PluginManifest \<Rightarrow> ProtocolParser list \<Rightarrow> plugin_state \<Rightarrow> plugin_state" where
  "installPlugin_parsers io manifest ps s =
     s\<lparr>pg_protocolParsers := ps, pg_icons := register_icons io manifest (pg_icons s)\<rparr>"

definition uninstallPlugin_lists :: "string \<Rightarrow> plugin_state \<Rightarrow> plugin_state" where
  "uninstallPlugin_lists pluginId s =
     set_available pluginId (\<lambda>p. p\<lparr>pm_installed := False, pm_hasUpdate := Some False, pm_latestVersion := None\<rparr>)
       (s\<lparr>pg_installedPlugins := filter (\<lambda>p. pm_id p \<noteq> pluginId) (pg_installedPlugins s)\<rparr>)"

definition uninstallPlugin_parsers :: "string \<Rightarrow> ProtocolParser list \<Rightarrow> plugin_state \<Rightarrow> plugin_state" where
  "uninstallPlugin_parsers pluginId ps s =
     (let s' = s\<lparr>pg_protocolParsers := ps\<rparr> in case find (\<lambda>p. pm_id p = pluginId) (pg_availablePlugins s') of
       None \<Rightarrow> s'
     | Some p \<Rightarrow> (if pm_pluginType p = IconPackPlugin \<and> truthy_opt (pm_iconNamespace p)
         then s'\<lparr>pg_icons := unregisterPack (the (pm_iconNamespace p)) (pg_icons s')\<rparr> else s'))"

definition updatePlugin_manifest :: "string \<Rightarrow> PluginManifest \<Rightarrow> plugin_state \<Rightarrow> plugin_state" where
  "updatePlugin_manifest pluginId manifest s =
     set_available pluginId
       (\<lambda>p. p\<lparr>pm_version := pm_version manifest, pm_installed := True, pm_hasUpdate := Some False, pm_latestVersion := None\<rparr>)
       (s\<lparr>pg_installedPlugins := map_where (\<lambda>p. pm_id p = pluginId) (\<lambda>_. manifest) (pg_installedPlugins s)\<rparr>)"

definition updatePlugin_parsers :: "ProtocolParser list \<Rightarrow> plugin_state \<Rightarrow> plugin_state" where
  "updatePlugin_parsers ps s = s\<lparr>pg_protocolParsers := ps\<rparr>"

text \<open>The actions without anything in between.\<close>

definition installPlugin :: "svg_io \<Rightarrow> string \<Rightarrow> string + PluginManifest \<Rightarrow> string + ProtocolParser list \<Rightarrow> plugin_state \<Rightarrow> plugin_state" where
  "installPlugin io pluginId reply parsers s = (case reply of
       Inl e \<Rightarrow> s
     | Inr manifest \<Rightarrow> (let s' = installPlugin_manifest pluginId manifest s in
         case parsers of Inl e \<Rightarrow> s' | Inr ps \<Rightarrow> installPlugin_parsers io manifest ps s'))"

definition uninstallPlugin :: "string \<Rightarrow> string + unit \<Rightarrow> string + ProtocolParser list \<Rightarrow> plugin_state \<Rightarrow> plugin_state" where
  "uninstallPlugin pluginId reply parsers s = (case reply of
       Inl e \<Rightarrow> s
     | Inr _ \<Rightarrow> (let s' = uninstallPlugin_lists pluginId s in
         case parsers of Inl e \<Rightarrow> s' | Inr ps \<Rightarrow> uninstallPlugin_parsers pluginId ps s'))"

definition updatePlugin :: "string \<Rightarrow> string + PluginManifest \<Rightarrow> string + ProtocolParser list \<Rightarrow> plugin_state \<Rightarrow> plugin_state" where
  "updatePlugin pluginId reply parsers s = (case reply of
       Inl e \<Rightarrow> s
     | Inr manifest \<Rightarrow> (let s' = updatePlugin_manifest pluginId manifest s in
         case parsers of Inl e \<Rightarrow> s' | Inr ps \<Rightarrow> updatePlugin_parsers ps s'))"

definition getInstalledByType :: "PluginType \<Rightarrow> plugin_state \<Rightarrow> PluginManifest list" where
  "getInstalledByType type s = filter (\<lambda>p. pm_pluginType p = type) (pg_installedPlugins s)"


section \<open>The icons of installed packs\<close>

datatype plugin_action =
    InitializeBegin
  | InitializeDone "string + PluginManifest list \<times> PluginManifest list"
  | FetchInstalled "string + PluginManifest list"
  | FetchAvailableBegin
  | FetchAvailableDone bool "string + PluginManifest list"
  | FetchParsers "string + ProtocolParser list"
  | RefreshBegin
  | RefreshDone "string + PluginManifest list"
  | InstallManifest string PluginManifest
  | InstallParsers PluginManifest "ProtocolParser list"
  | UninstallLists string
  | UninstallParsers string "ProtocolParser list"
  | UpdateManifest string PluginManifest
  | UpdateParsers "ProtocolParser list"

fun plugin_step :: "svg_io \<Rightarrow> plugin_state \<Rightarrow> plugin_action \<Rightarrow> plugin_state" where
  "plugin_step io s InitializeBegin = (case initializeIfNeeded_begin s of None \<Rightarrow> s | Some s' \<Rightarrow> s')"
| "plugin_step io s (InitializeDone r) = initializeIfNeeded_done io r s"
| "plugin_step io s (FetchInstalled r) = fetchInstalledPlugins_done r s"
| "plugin_step io s FetchAvailableBegin = fst (fetchAvailablePlugins_begin s)"
| "plugin_step io s (FetchAvailableDone silent r) = fetchAvailablePlugins_done silent r s"
| "plugin_step io s (FetchParsers r) = fetchProtocolParsers_done r s"
| "plugin_step io s RefreshBegin = refreshRegistry_begin s"
| "plugin_step io s (RefreshDone r) = refreshRegistry_done r s"
| "plugin_step io s (InstallManifest i m) = installPlugin_manifest i m s"
| "plugin_step io s (InstallParsers m ps) = installPlugin_parsers io m ps s"
| "plugin_step io s (UninstallLists i) = uninstallPlugin_lists i s"
| "plugin_step io s (UninstallParsers i ps) = uninstallPlugin_parsers i ps s"
| "plugin_step io s (UpdateManifest i m) = updatePlugin_manifest i m s"
| "plugin_step io s (UpdateParsers ps) = updatePlugin_parsers ps s"

lemma register_sanitized: "sanitized_icons (snd io) r \<Longrightarrow> sanitized_icons (snd io) (register_icons io p r)"
  by (simp add: register_icons_def registerPack_sanitized split: option.split list.split)

lemma registers_sanitized: "sanitized_icons (snd io) r \<Longrightarrow> sanitized_icons (snd io) (fold (register_icons io) ps r)"
  by (induction ps arbitrary: r) (simp_all add: register_sanitized)

lemma set_available_icons [simp]: "pg_icons (set_available i f s) = pg_icons s"
  by (simp add: set_available_def)

lemmas plugin_defs = initializeIfNeeded_begin_def initializeIfNeeded_done_def fetchInstalledPlugins_done_def
  fetchAvailablePlugins_begin_def fetchAvailablePlugins_done_def fetchProtocolParsers_done_def refreshRegistry_done_def
  refreshRegistry_begin_def installPlugin_manifest_def installPlugin_parsers_def uninstallPlugin_lists_def
  uninstallPlugin_parsers_def updatePlugin_manifest_def updatePlugin_parsers_def

lemma step_sanitized: "sanitized_icons (snd io) (pg_icons s) \<Longrightarrow> sanitized_icons (snd io) (pg_icons (plugin_step io s a))"
  by (cases a)
    (auto simp: plugin_defs Let_def intro!: registers_sanitized register_sanitized unregisterPack_sanitized
      split: sum.split option.split)

interpretation plugin_store: action_store plugin_init "plugin_step io" "\<lambda>_ _. True" "\<lambda>s. sanitized_icons (snd io) (pg_icons s)" for io
  by unfold_locales (simp add: plugin_init_def sanitized_icons_def, rule step_sanitized)

lemma resolved_sanitized: "sanitized_icons serialize r \<Longrightarrow> set_option (resolveIcon ref r) \<subseteq> clean_icons serialize"
proof
  fix v
  assume s: "sanitized_icons serialize r" and v: "v \<in> set_option (resolveIcon ref r)"
  from v obtain ns d name where d: "map_of r ns = Some d" "map_of d name = Some v"
    by (auto simp: resolveIcon_def bind_eq_Some_conv split: list.splits)
  have "d \<in> snd ` set r" using imageI[OF map_of_SomeD[OF d(1)], of snd] by simp
  with s have "snd ` set d \<subseteq> clean_icons serialize" by (auto simp only: sanitized_icons_def)
  then show "v \<in> clean_icons serialize" using imageI[OF map_of_SomeD[OF d(2)], of snd] by auto
qed

lemma any_admissible: "admissible step (\<lambda>_ _. True) s as"
  by (induction as arbitrary: s) auto


text \<open>
  Uninstalling an icon pack that is no longer in the registry of plugins (the case the store marks
  as removed) takes it off the list and leaves its icons registered; updating a pack leaves the icons
  of the old version.
\<close>

lemma removed_pack_keeps_icons:
  assumes "pluginId \<notin> pm_id ` set (pg_availablePlugins s)"
  shows "pg_icons (uninstallPlugin pluginId (Inr ()) (Inr ps) s) = pg_icons s
    \<and> pluginId \<notin> pm_id ` set (pg_installedPlugins (uninstallPlugin pluginId (Inr ()) (Inr ps) s))"
proof -
  have none: "find (\<lambda>p. pm_id p = pluginId) (pg_availablePlugins s) = None"
    using assms by (auto simp: find_None_iff)
  have same: "map_where (\<lambda>p. pm_id p = pluginId) f (pg_availablePlugins s) = pg_availablePlugins s" for f
    using assms by (auto intro!: map_where_id)
  show ?thesis
    by (auto simp: uninstallPlugin_def uninstallPlugin_lists_def uninstallPlugin_parsers_def Let_def set_available_def same none)
qed

lemma update_keeps_icons: "pg_icons (updatePlugin i r ps s) = pg_icons s"
  by (auto simp: updatePlugin_def updatePlugin_manifest_def updatePlugin_parsers_def Let_def split: sum.split)

end
