(* ===== verification/SavedRequests.thy ===== *)
theory SavedRequests
  imports JsonFields AppStore CollectionStore HttpService
begin

text \<open>
  Saving a request in a collection and opening it again: the stored form of a request
  (\<open>src/src/lib/collectionRequest.ts\<close>), \<open>handleOpenItem\<close> of the sidebar
  (\<open>src/src/components/layout/Sidebar.tsx\<close>), and saving with the test for unsaved changes
  (\<open>src/src/components/http/HttpWorkspace.tsx\<close>).

  A typed object is printed with its fields in the order of its interface. The parts of a stored item
  are texts; opening parses them and casts the values to the types of the request. \<open>OpenIllTyped\<close>: some value does
  not have its type, and the code goes on with the ill-typed value, which the model does not follow.
  \<open>OpenThrows\<close>: the code throws.
\<close>

section \<open>Enumerations as texts\<close>

fun body_type_name :: "BodyType \<Rightarrow> string" where
  "body_type_name BodyNone = ''none''"
| "body_type_name BodyRaw = ''raw''"
| "body_type_name BodyJson = ''json''"
| "body_type_name BodyFormUrlencoded = ''formUrlencoded''"
| "body_type_name BodyFormData = ''formData''"
| "body_type_name BodyBinary = ''binary''"
| "body_type_name BodyGraphql = ''graphql''"

fun auth_type_name :: "AuthType \<Rightarrow> string" where
  "auth_type_name AuthNone = ''none''"
| "auth_type_name AuthBearer = ''bearer''"
| "auth_type_name AuthBasic = ''basic''"
| "auth_type_name AuthApiKey = ''apiKey''"
| "auth_type_name AuthOauth2 = ''oauth2''"

fun grant_type_name :: "GrantType \<Rightarrow> string" where
  "grant_type_name AuthorizationCode = ''authorization_code''"
| "grant_type_name ClientCredentials = ''client_credentials''"
| "grant_type_name GrantPassword = ''password''"

fun add_to_name :: "ApiKeyAddTo \<Rightarrow> string" where
  "add_to_name AddToHeader = ''header''"
| "add_to_name AddToQuery = ''query''"

definition all_methods :: "HttpMethod list" where
  "all_methods = [GET, POST, PUT, DELETE, PATCH, HEAD, OPTIONS]"

definition all_body_types :: "BodyType list" where
  "all_body_types = [BodyNone, BodyRaw, BodyJson, BodyFormUrlencoded, BodyFormData, BodyBinary, BodyGraphql]"

definition all_auth_types :: "AuthType list" where
  "all_auth_types = [AuthNone, AuthBearer, AuthBasic, AuthApiKey, AuthOauth2]"

definition all_grant_types :: "GrantType list" where
  "all_grant_types = [AuthorizationCode, ClientCredentials, GrantPassword]"


section \<open>The stored form\<close>

definition json_of_kv :: "KeyValue \<Rightarrow> json" where
  "json_of_kv kv = JObj ([(''key'', JStr (kv_key kv)), (''value'', JStr (kv_value kv))]
     @ opt_field ''description'' JStr (kv_description kv) @ [(''enabled'', JBool (kv_enabled kv))]
     @ opt_field ''isAuto'' JBool (kv_isAuto kv))"

definition json_of_texts :: "string list \<Rightarrow> json" where
  "json_of_texts xs = JArr (map JStr xs)"

definition json_of_field :: "FormDataField \<Rightarrow> json" where
  "json_of_field f = JObj ([(''key'', JStr (fd_key f)), (''value'', JStr (fd_value f)),
     (''fieldType'', JStr (field_type_name (fd_fieldType f)))] @ opt_field ''fileName'' JStr (fd_fileName f)
     @ opt_field ''filePaths'' json_of_texts (fd_filePaths f) @ opt_field ''fileNames'' json_of_texts (fd_fileNames f)
     @ opt_field ''description'' JStr (fd_description f) @ opt_field ''contentType'' JStr (fd_contentType f)
     @ [(''enabled'', JBool (fd_enabled f))])"

record CollectionRequestContent =
  rc_name :: string
  rc_method :: string
  rc_url :: string
  rc_headers :: string
  rc_queryParams :: string
  rc_bodyType :: string
  rc_bodyContent :: string
  rc_authType :: string
  rc_authConfig :: string
  rc_preScript :: string
  rc_postScript :: string

definition getBodyType :: "HttpRequestConfig \<Rightarrow> string" where
  "getBodyType config =
     (if rq_requestMode config = ModeGraphql then ''graphql''
      else if rq_requestMode config = ModeSse then ''sse''
      else body_type_name (rq_bodyType config))"

definition graphql_content :: "HttpRequestConfig \<Rightarrow> string" where
  "graphql_content config = JSON_stringify (JObj [(''query'', JStr (rq_graphqlQuery config)),
     (''variables'', JStr (rq_graphqlVariables config))])"

definition getBodyContent :: "HttpRequestConfig \<Rightarrow> string" where
  "getBodyContent config =
     (if rq_requestMode config = ModeGraphql then graphql_content config
      else if rq_requestMode config = ModeSse then []
      else case rq_bodyType config of
        BodyJson \<Rightarrow> rq_jsonBody config
      | BodyRaw \<Rightarrow> rq_rawBody config
      | BodyFormUrlencoded \<Rightarrow> JSON_stringify (JArr (map json_of_kv (rq_formFields config)))
      | BodyFormData \<Rightarrow> JSON_stringify (JArr (map json_of_field (rq_formDataFields config)))
      | BodyBinary \<Rightarrow> rq_binaryFilePath config
      | BodyGraphql \<Rightarrow> graphql_content config
      | BodyNone \<Rightarrow> [])"

text \<open>The tokens of an OAuth2 configuration are not stored.\<close>

definition json_of_oauth2 :: "OAuth2Config \<Rightarrow> json" where
  "json_of_oauth2 o2 = JObj [(''grantType'', JStr (grant_type_name (oa_grantType o2))),
     (''accessTokenUrl'', JStr (oa_accessTokenUrl o2)), (''clientId'', JStr (oa_clientId o2)),
     (''clientSecret'', JStr (oa_clientSecret o2)), (''scope'', JStr (oa_scope o2)), (''authUrl'', JStr (oa_authUrl o2)),
     (''redirectUri'', JStr (oa_redirectUri o2)), (''usePkce'', JBool (oa_usePkce o2)),
     (''username'', JStr (oa_username o2)), (''password'', JStr (oa_password o2))]"

definition auth_json :: "HttpRequestConfig \<Rightarrow> json" where
  "auth_json config = JObj [(''bearerToken'', JStr (rq_bearerToken config)),
     (''basicUsername'', JStr (rq_basicUsername config)), (''basicPassword'', JStr (rq_basicPassword config)),
     (''apiKeyName'', JStr (rq_apiKeyName config)), (''apiKeyValue'', JStr (rq_apiKeyValue config)),
     (''apiKeyAddTo'', JStr (add_to_name (rq_apiKeyAddTo config))), (''oauth2Config'', json_of_oauth2 (rq_oauth2Config config))]"

definition getAuthConfig :: "HttpRequestConfig \<Rightarrow> string" where
  "getAuthConfig config = JSON_stringify (auth_json config)"

text \<open>The name is an optional parameter (\<open>None\<close>: the default).\<close>

definition request_name :: "HttpRequestConfig \<Rightarrow> string option \<Rightarrow> string" where
  "request_name config name = nullish name (or_else (rq_name config) ''Untitled Request'')"

definition getCollectionRequestContent :: "HttpRequestConfig \<Rightarrow> string option \<Rightarrow> CollectionRequestContent" where
  "getCollectionRequestContent config name = \<lparr>
     rc_name = request_name config name,
     rc_method = method_name (rq_method config),
     rc_url = rq_url config,
     rc_headers = JSON_stringify (JArr (map json_of_kv (rq_headers config))),
     rc_queryParams = JSON_stringify (JArr (map json_of_kv (rq_queryParams config))),
     rc_bodyType = getBodyType config,
     rc_bodyContent = getBodyContent config,
     rc_authType = auth_type_name (rq_authType config),
     rc_authConfig = getAuthConfig config,
     rc_preScript = rq_preScript config,
     rc_postScript = rq_postScript config \<rparr>"

definition buildCollectionItemFromHttpConfig ::
  "HttpRequestConfig \<Rightarrow> string \<Rightarrow> string \<Rightarrow> string option \<Rightarrow> int \<Rightarrow> string \<Rightarrow> string \<Rightarrow> string option \<Rightarrow> string option
    \<Rightarrow> CollectionItem" where
  "buildCollectionItemFromHttpConfig config itemId collectionId parentId sortOrder createdAt updatedAt name responseExample =
     (let content = getCollectionRequestContent config name in \<lparr>
        it_id = itemId, it_collectionId = collectionId, it_parentId = parentId, it_itemType = ItemRequest,
        it_variables = ''[]'', it_name = rc_name content, it_sortOrder = sortOrder,
        it_method = Some (rc_method content), it_url = Some (rc_url content), it_headers = rc_headers content,
        it_queryParams = rc_queryParams content, it_bodyType = rc_bodyType content,
        it_bodyContent = rc_bodyContent content, it_authType = rc_authType content,
        it_authConfig = rc_authConfig content, it_preScript = rc_preScript content,
        it_postScript = rc_postScript content, it_responseExample = nullish responseExample [],
        it_createdAt = createdAt, it_updatedAt = updatedAt \<rparr>)"

definition json_of_content :: "CollectionRequestContent \<Rightarrow> json" where
  "json_of_content c = JObj [(''name'', JStr (rc_name c)), (''method'', JStr (rc_method c)), (''url'', JStr (rc_url c)),
     (''headers'', JStr (rc_headers c)), (''queryParams'', JStr (rc_queryParams c)), (''bodyType'', JStr (rc_bodyType c)),
     (''bodyContent'', JStr (rc_bodyContent c)), (''authType'', JStr (rc_authType c)),
     (''authConfig'', JStr (rc_authConfig c)), (''preScript'', JStr (rc_preScript c)), (''postScript'', JStr (rc_postScript c))]"

definition getCollectionRequestSignatureFromConfig :: "HttpRequestConfig \<Rightarrow> string option \<Rightarrow> string" where
  "getCollectionRequestSignatureFromConfig config name = JSON_stringify (json_of_content (getCollectionRequestContent config name))"

text \<open>The method and the URL of an item may be \<open>null\<close>.\<close>

definition json_or_null :: "string option \<Rightarrow> json" where
  "json_or_null x = (case x of None \<Rightarrow> JNull | Some s \<Rightarrow> JStr s)"

definition getCollectionRequestSignatureFromItem :: "CollectionItem \<Rightarrow> string" where
  "getCollectionRequestSignatureFromItem item = JSON_stringify (JObj [(''name'', JStr (it_name item)),
     (''method'', json_or_null (it_method item)), (''url'', json_or_null (it_url item)),
     (''headers'', JStr (it_headers item)), (''queryParams'', JStr (it_queryParams item)),
     (''bodyType'', JStr (it_bodyType item)), (''bodyContent'', JStr (it_bodyContent item)),
     (''authType'', JStr (it_authType item)), (''authConfig'', JStr (it_authConfig item)),
     (''preScript'', JStr (it_preScript item)), (''postScript'', JStr (it_postScript item))])"


section \<open>Opening an item\<close>

datatype open_error = OpenThrows | OpenIllTyped

type_synonym 'a opened = "open_error + 'a"

definition and_then :: "'a opened \<Rightarrow> ('a \<Rightarrow> 'b opened) \<Rightarrow> 'b opened" where
  "and_then x f = (case x of Inl e \<Rightarrow> Inl e | Inr v \<Rightarrow> f v)"

definition typed :: "'a option \<Rightarrow> 'a opened" where
  "typed x = (case x of None \<Rightarrow> Inl OpenIllTyped | Some v \<Rightarrow> Inr v)"

definition read_enum :: "('a \<Rightarrow> string) \<Rightarrow> 'a list \<Rightarrow> string \<Rightarrow> 'a opened" where
  "read_enum name xs t = typed (List.find (\<lambda>x. name x = t) xs)"

text \<open>A number literal that is zero.\<close>

fun zero_num :: "jsnum \<Rightarrow> bool" where
  "zero_num (JInt n) = (n = 0)"
| "zero_num (JLit l) = list_all (\<lambda>c. c \<notin> set ''123456789'') (takeWhile (\<lambda>c. c \<noteq> CHR ''e'' \<and> c \<noteq> CHR ''E'') l)"

fun falsy :: "json \<Rightarrow> bool" where
  "falsy JNull = True"
| "falsy (JBool b) = (\<not> b)"
| "falsy (JNum x) = zero_num x"
| "falsy (JStr s) = (s = [])"
| "falsy (JArr vs) = False"
| "falsy (JObj d) = False"

text \<open>\<open>v.k\<close>: throws on \<open>null\<close>; \<open>Inr None\<close> is \<open>undefined\<close>.\<close>

fun member :: "json \<Rightarrow> string \<Rightarrow> json option opened" where
  "member JNull k = Inl OpenThrows"
| "member (JObj d) k = Inr (map_of d k)"
| "member v k = Inr None"

text \<open>\<open>x || d\<close> where a text is expected.\<close>

definition text_or :: "json option \<Rightarrow> string \<Rightarrow> string opened" where
  "text_or x d = (case x of None \<Rightarrow> Inr d
     | Some v \<Rightarrow> if falsy v then Inr d else typed (get_string (Some v)))"

definition member_text :: "json \<Rightarrow> string \<Rightarrow> string \<Rightarrow> string opened" where
  "member_text v k d = and_then (member v k) (\<lambda>x. text_or x d)"

definition kv_of_json :: "json \<Rightarrow> KeyValue option" where
  "kv_of_json j = (case j of
     JObj d \<Rightarrow>
       (case (get_string (map_of d ''key''), get_string (map_of d ''value''),
              get_optional get_string (map_of d ''description''), get_bool (map_of d ''enabled''),
              get_optional get_bool (map_of d ''isAuto'')) of
          (Some k, Some v, Some ds, Some en, Some au) \<Rightarrow>
            Some \<lparr> kv_key = k, kv_value = v, kv_description = ds, kv_enabled = en, kv_isAuto = au \<rparr>
        | _ \<Rightarrow> None)
   | _ \<Rightarrow> None)"

definition get_texts :: "json option \<Rightarrow> string list option" where
  "get_texts j = get_array (\<lambda>v. get_string (Some v)) j"

definition get_field_type :: "json option \<Rightarrow> FieldType option" where
  "get_field_type j = Option.bind (get_string j) (\<lambda>t. List.find (\<lambda>x. field_type_name x = t) [FieldText, FieldFile])"

definition field_of_json :: "json \<Rightarrow> FormDataField option" where
  "field_of_json j = (case j of
     JObj d \<Rightarrow>
       (case (get_string (map_of d ''key''), get_string (map_of d ''value''), get_field_type (map_of d ''fieldType''),
              get_optional get_string (map_of d ''fileName''), get_optional get_texts (map_of d ''filePaths'')) of
          (Some k, Some v, Some ft, Some fnm, Some fps) \<Rightarrow>
       (case (get_optional get_texts (map_of d ''fileNames''), get_optional get_string (map_of d ''description''),
              get_optional get_string (map_of d ''contentType''), get_bool (map_of d ''enabled'')) of
          (Some fns, Some ds, Some ct, Some en) \<Rightarrow>
            Some \<lparr> fd_key = k, fd_value = v, fd_fieldType = ft, fd_fileName = fnm, fd_filePaths = fps, fd_fileNames = fns,
                   fd_description = ds, fd_contentType = ct, fd_enabled = en \<rparr>
        | _ \<Rightarrow> None)
        | _ \<Rightarrow> None)
   | _ \<Rightarrow> None)"

text \<open>\<open>Object.entries(v)\<close> of a value that is not an array.\<close>

fun object_entries :: "json \<Rightarrow> (string \<times> json) list opened" where
  "object_entries JNull = Inl OpenThrows"
| "object_entries (JObj d) = Inr d"
| "object_entries (JStr s) = Inr (map (\<lambda>(i, c). (nat_to_string i, JStr [c])) (enumerate 0 s))"
| "object_entries v = Inr []"

definition entry_kv :: "string \<times> json \<Rightarrow> KeyValue" where
  "entry_kv e = \<lparr> kv_key = fst e, kv_value = js_String (snd e), kv_description = None, kv_enabled = True, kv_isAuto = None \<rparr>"

text \<open>Headers and parameters: an array of rows, or the older form, an object; never an empty table.\<close>

definition parsed_rows :: "string \<Rightarrow> KeyValue list opened" where
  "parsed_rows t = (case if truthy t then nullish (JSON_parse t) (JArr []) else JArr [] of
       JArr vs \<Rightarrow> typed (those (map kv_of_json vs))
     | v \<Rightarrow> and_then (object_entries v) (\<lambda>d. Inr (map entry_kv d)))"

definition rows_or_blank :: "KeyValue list \<Rightarrow> KeyValue list" where
  "rows_or_blank rows = (if rows \<noteq> [] then rows else [emptyKeyValue])"

record auth_fields =
  au_bearerToken :: string
  au_basicUsername :: string
  au_basicPassword :: string
  au_apiKeyName :: string
  au_apiKeyValue :: string
  au_apiKeyAddTo :: string

text \<open>\<open>arr?.find(kv => kv.key === key)?.value ?? ''\<close>\<close>

fun find_key :: "json list \<Rightarrow> string \<Rightarrow> json option opened" where
  "find_key [] key = Inr None"
| "find_key (v # vs) key = and_then (member v ''key'') (\<lambda>k.
     if k = Some (JStr key) then member v ''value'' else find_key vs key)"

definition findKV :: "json option \<Rightarrow> string \<Rightarrow> string opened" where
  "findKV arr key = (case arr of
       None \<Rightarrow> Inr []
     | Some JNull \<Rightarrow> Inr []
     | Some (JArr vs) \<Rightarrow> and_then (find_key vs key) (\<lambda>v. case v of
         None \<Rightarrow> Inr [] | Some JNull \<Rightarrow> Inr [] | Some x \<Rightarrow> typed (get_string (Some x)))
     | Some _ \<Rightarrow> Inl OpenThrows)"

definition flat_auth :: "json \<Rightarrow> auth_fields opened" where
  "flat_auth raw =
     and_then (member_text raw ''bearerToken'' []) (\<lambda>bt.
     and_then (member_text raw ''basicUsername'' []) (\<lambda>bu.
     and_then (member_text raw ''basicPassword'' []) (\<lambda>bp.
     and_then (member_text raw ''apiKeyName'' []) (\<lambda>kn.
     and_then (member_text raw ''apiKeyValue'' []) (\<lambda>kv.
     and_then (and_then (member raw ''apiKeyAddTo'') (\<lambda>x. case x of
         None \<Rightarrow> member_text raw ''apiKeyIn'' ''header''
       | Some v \<Rightarrow> if falsy v then member_text raw ''apiKeyIn'' ''header'' else typed (get_string x))) (\<lambda>ka.
       Inr \<lparr> au_bearerToken = bt, au_basicUsername = bu, au_basicPassword = bp, au_apiKeyName = kn, au_apiKeyValue = kv,
             au_apiKeyAddTo = ka \<rparr>))))))"

definition nested_auth :: "json \<Rightarrow> auth_fields opened" where
  "nested_auth raw =
     and_then (and_then (member raw ''bearer'') (\<lambda>x. findKV x ''token'')) (\<lambda>bt.
     and_then (and_then (member raw ''basic'') (\<lambda>x. findKV x ''username'')) (\<lambda>bu.
     and_then (and_then (member raw ''basic'') (\<lambda>x. findKV x ''password'')) (\<lambda>bp.
     and_then (and_then (member raw ''apikey'') (\<lambda>x. findKV x ''key'')) (\<lambda>kn.
     and_then (and_then (member raw ''apikey'') (\<lambda>x. findKV x ''value'')) (\<lambda>kv.
     and_then (and_then (member raw ''apikey'') (\<lambda>x. findKV x ''in'')) (\<lambda>ka.
       Inr \<lparr> au_bearerToken = bt, au_basicUsername = bu, au_basicPassword = bp, au_apiKeyName = kn, au_apiKeyValue = kv,
             au_apiKeyAddTo = or_else ka ''header'' \<rparr>))))))"

definition parsed_auth :: "json \<Rightarrow> auth_fields opened" where
  "parsed_auth raw =
     and_then (member raw ''bearerToken'') (\<lambda>bt.
     and_then (member raw ''basicUsername'') (\<lambda>bu.
       if bt \<noteq> None \<or> bu \<noteq> None then flat_auth raw else nested_auth raw))"

definition auth_raw :: "CollectionItem \<Rightarrow> json" where
  "auth_raw item = (if truthy (it_authConfig item) then nullish (JSON_parse (it_authConfig item)) (JObj []) else JObj [])"

definition default_json_body :: string where
  "default_json_body = ''{'' @ [CHR 0x0A] @ ''  '' @ [CHR 0x0A] @ ''}''"

definition opened_mode :: "CollectionItem \<Rightarrow> HttpRequestMode" where
  "opened_mode item = (if it_bodyType item = ''sse'' then ModeSse else if it_bodyType item = ''graphql'' then ModeGraphql else ModeRest)"

definition opened_body_type :: "CollectionItem \<Rightarrow> BodyType opened" where
  "opened_body_type item = (if it_bodyType item = ''sse'' then Inr BodyNone else if it_bodyType item = ''graphql'' then Inr BodyJson
     else read_enum body_type_name all_body_types (or_else (it_bodyType item) ''none''))"

text \<open>The fields of the body that the stored type and content set.\<close>

definition opened_form_fields :: "string \<Rightarrow> HttpRequestConfig \<Rightarrow> HttpRequestConfig opened" where
  "opened_form_fields content c = (case JSON_parse content of
       None \<Rightarrow> Inr (c\<lparr>rq_rawBody := content\<rparr>)
     | Some (JObj d) \<Rightarrow> Inr (c\<lparr>rq_formFields := map entry_kv d\<rparr>)
     | Some JNull \<Rightarrow> Inr (c\<lparr>rq_rawBody := content\<rparr>)
     | Some (JArr vs) \<Rightarrow> and_then (typed (those (map kv_of_json vs))) (\<lambda>rows. Inr (c\<lparr>rq_formFields := rows\<rparr>))
     | Some _ \<Rightarrow> Inr c)"

definition opened_form_data :: "string \<Rightarrow> HttpRequestConfig \<Rightarrow> HttpRequestConfig opened" where
  "opened_form_data content c = (case JSON_parse content of
       None \<Rightarrow> Inr (c\<lparr>rq_rawBody := content\<rparr>)
     | Some (JArr vs) \<Rightarrow> and_then (typed (those (map field_of_json vs))) (\<lambda>rows. Inr (c\<lparr>rq_formDataFields := rows\<rparr>))
     | Some _ \<Rightarrow> Inr c)"

definition opened_graphql :: "string \<Rightarrow> HttpRequestConfig \<Rightarrow> HttpRequestConfig opened" where
  "opened_graphql content c = (case JSON_parse content of
       None \<Rightarrow> Inr (c\<lparr>rq_graphqlQuery := content\<rparr>)
     | Some JNull \<Rightarrow> Inr (c\<lparr>rq_graphqlQuery := content\<rparr>)
     | Some gql \<Rightarrow>
         and_then (member_text gql ''query'' []) (\<lambda>q.
         and_then (member_text gql ''variables'' []) (\<lambda>v.
           Inr (c\<lparr>rq_graphqlQuery := q, rq_graphqlVariables := v\<rparr>))))"

definition body_updates :: "CollectionItem \<Rightarrow> HttpRequestConfig \<Rightarrow> HttpRequestConfig opened" where
  "body_updates item c0 =
     and_then (opened_body_type item) (\<lambda>bt.
     let c = c0\<lparr>rq_requestMode := opened_mode item, rq_bodyType := bt\<rparr>; content = it_bodyContent item; t = it_bodyType item in
     if t = ''json'' then Inr (c\<lparr>rq_jsonBody := or_else content default_json_body\<rparr>)
     else if t = ''raw'' then Inr (c\<lparr>rq_rawBody := content\<rparr>)
     else if t = ''formUrlencoded'' then opened_form_fields content c
     else if t = ''formData'' then opened_form_data content c
     else if t = ''binary'' then Inr (c\<lparr>rq_binaryFilePath := content\<rparr>)
     else if t = ''graphql'' then opened_graphql content c
     else if t = ''sse'' then Inr (c\<lparr>rq_bodyType := BodyNone\<rparr>)
     else Inr (c\<lparr>rq_rawBody := content\<rparr>))"

definition oauth2_of_json :: "json \<Rightarrow> OAuth2Config opened" where
  "oauth2_of_json saved =
     and_then (and_then (member_text saved ''grantType'' ''client_credentials'') (read_enum grant_type_name all_grant_types)) (\<lambda>gt.
     and_then (member_text saved ''accessTokenUrl'' []) (\<lambda>tu.
     and_then (member_text saved ''clientId'' []) (\<lambda>ci.
     and_then (member_text saved ''clientSecret'' []) (\<lambda>cs.
     and_then (member_text saved ''scope'' []) (\<lambda>sc.
     and_then (member_text saved ''authUrl'' []) (\<lambda>au.
     and_then (member_text saved ''redirectUri'' ''http://localhost:1420/callback'') (\<lambda>ru.
     and_then (and_then (member saved ''usePkce'') (\<lambda>x. if x = None \<or> x = Some JNull then Inr True else typed (get_bool x))) (\<lambda>pk.
     and_then (member_text saved ''username'' []) (\<lambda>un.
     and_then (member_text saved ''password'' []) (\<lambda>pw.
       Inr \<lparr> oa_grantType = gt, oa_accessTokenUrl = tu, oa_clientId = ci, oa_clientSecret = cs, oa_scope = sc, oa_authUrl = au,
             oa_redirectUri = ru, oa_usePkce = pk, oa_username = un, oa_password = pw, oa_accessToken = [],
             oa_refreshToken = [], oa_tokenExpiresAt = 0 \<rparr>))))))))))"

definition oauth2_updates :: "json \<Rightarrow> HttpRequestConfig \<Rightarrow> HttpRequestConfig opened" where
  "oauth2_updates raw c = and_then (member raw ''oauth2Config'') (\<lambda>saved. case saved of
       None \<Rightarrow> Inr c
     | Some v \<Rightarrow> if falsy v then Inr c else and_then (oauth2_of_json v) (\<lambda>o2. Inr (c\<lparr>rq_oauth2Config := o2\<rparr>)))"

definition opened_config :: "CollectionItem \<Rightarrow> HttpRequestConfig \<Rightarrow> HttpRequestConfig opened" where
  "opened_config item c0 =
     and_then (parsed_rows (it_headers item)) (\<lambda>headers.
     and_then (parsed_rows (it_queryParams item)) (\<lambda>params.
     and_then (parsed_auth (auth_raw item)) (\<lambda>auth.
     and_then (read_enum method_name all_methods (or_else (nullish (it_method item) []) ''GET'')) (\<lambda>method.
     and_then (read_enum auth_type_name all_auth_types (or_else (it_authType item) ''none'')) (\<lambda>authType.
     and_then (read_enum add_to_name [AddToHeader, AddToQuery] (au_apiKeyAddTo auth)) (\<lambda>addTo.
     and_then (body_updates item c0) (\<lambda>c1.
     oauth2_updates (auth_raw item)
       (c1\<lparr>rq_method := method, rq_url := nullish (it_url item) [], rq_name := it_name item,
          rq_headers := rows_or_blank headers, rq_queryParams := rows_or_blank params, rq_authType := authType,
          rq_bearerToken := au_bearerToken auth, rq_basicUsername := au_basicUsername auth,
          rq_basicPassword := au_basicPassword auth, rq_apiKeyName := au_apiKeyName auth,
          rq_apiKeyValue := au_apiKeyValue auth, rq_apiKeyAddTo := addTo,
          rq_preScript := it_preScript item, rq_postScript := it_postScript item\<rparr>))))))))"

definition null_text :: "string option \<Rightarrow> string" where
  "null_text x = nullish x ''null''"

definition opened_label :: "CollectionItem \<Rightarrow> string" where
  "opened_label item = or_else (it_name item) (null_text (it_method item) @ '' '' @ null_text (it_url item))"

definition link_item :: "CollectionItem \<Rightarrow> AppTab \<Rightarrow> AppTab" where
  "link_item item tab = tab\<lparr>tab_linkedCollectionItemId := Some (it_id item), tab_linkedCollectionId := Some (it_collectionId item),
     tab_linkedCollectionParentId := it_parentId item, tab_linkedCollectionSortOrder := Some (it_sortOrder item),
     tab_linkedCollectionCreatedAt := Some (it_createdAt item),
     tab_savedRequestSignature := Some (getCollectionRequestSignatureFromItem item)\<rparr>"

text \<open>
  The handler; the three fresh identifiers of the new tab are arguments. \<open>Inl\<close>: the parsing failed; an
  exception leaves the new tab as it was added.
\<close>

definition handleOpenItem :: "string \<Rightarrow> string \<Rightarrow> string \<Rightarrow> CollectionItem \<Rightarrow> bool \<Rightarrow> app_state \<Rightarrow> (open_error \<times> app_state) + app_state" where
  "handleOpenItem i epoch reqId item forceNewTab s =
     (if it_itemType item \<noteq> ItemRequest then Inr s
      else if \<not> truthy_opt (it_method item) \<and> \<not> truthy_opt (it_url item) then Inr s
      else
        let fresh = (let (tabId, s1) = addTab i epoch reqId Http s in
              case opened_config item (createDefaultRequest reqId) of
                Inl e \<Rightarrow> Inl (e, s1)
              | Inr c \<Rightarrow> Inr (updateTab tabId (\<lambda>t. link_item item (t\<lparr>tab_label := opened_label item, tab_customLabel := Some (opened_label item)\<rparr>))
                  (updateHttpConfig tabId (\<lambda>_. c) s1)))
        in if forceNewTab then fresh
           else (case List.find (\<lambda>tab. tab_protocol tab = Http \<and> tab_linkedCollectionItemId tab = Some (it_id item)) (ap_tabs s) of
                   Some existingTab \<Rightarrow> Inr (setActiveTab (Some (tab_id existingTab)) s)
                 | None \<Rightarrow> fresh))"


section \<open>Saving a tab\<close>

definition isLinkedCollectionRequest :: "AppTab \<Rightarrow> bool" where
  "isLinkedCollectionRequest tab \<longleftrightarrow> truthy_opt (tab_linkedCollectionItemId tab) \<and> truthy_opt (tab_linkedCollectionId tab)"

definition isSavedRequestPristine :: "AppTab \<Rightarrow> HttpRequestConfig \<Rightarrow> bool" where
  "isSavedRequestPristine tab config \<longleftrightarrow> isLinkedCollectionRequest tab
     \<and> tab_savedRequestSignature tab = Some (getCollectionRequestSignatureFromConfig config None)"

definition syncSavedCollectionBinding :: "AppTab \<Rightarrow> CollectionItem \<Rightarrow> app_state \<Rightarrow> app_state" where
  "syncSavedCollectionBinding activeTab item s =
     updateTab (tab_id activeTab) (\<lambda>t. link_item item (t\<lparr>
         tab_label := or_else (it_name item) (tab_label activeTab),
         tab_customLabel := Some (or_else (it_name item) (or_else (nullish (tab_customLabel activeTab) []) (tab_label activeTab)))\<rparr>))
       (updateHttpConfig (tab_id activeTab) (\<lambda>c. c\<lparr>rq_name := it_name item\<rparr>) s)"

datatype save_start = ShowSaveDialog | NothingToSave | SaveItem CollectionItem

text \<open>\<open>items\<close> are those of the collection store, \<open>now\<close> the clock.\<close>

definition handleSaveRequest_begin :: "string \<Rightarrow> (string \<Rightarrow> CollectionItem list) \<Rightarrow> bool \<Rightarrow> AppTab \<Rightarrow> HttpRequestConfig \<Rightarrow> save_start" where
  "handleSaveRequest_begin now items savingRequest tab config =
     (if \<not> isLinkedCollectionRequest tab then ShowSaveDialog
      else if isSavedRequestPristine tab config \<or> savingRequest then NothingToSave
      else let cid = the (tab_linkedCollectionId tab); iid = the (tab_linkedCollectionItemId tab);
               existingItem = List.find (\<lambda>x. it_id x = iid) (items cid)
           in SaveItem (buildCollectionItemFromHttpConfig config iid cid (tab_linkedCollectionParentId tab)
                (nullish (tab_linkedCollectionSortOrder tab) 0) (nullish (tab_linkedCollectionCreatedAt tab) now) now None
                (Some (case existingItem of None \<Rightarrow> [] | Some x \<Rightarrow> it_responseExample x))))"

definition handleSaveRequest_done :: "AppTab \<Rightarrow> string + CollectionItem \<Rightarrow> app_state \<Rightarrow> app_state" where
  "handleSaveRequest_done activeTab reply s = (case reply of
       Inr saved \<Rightarrow> syncSavedCollectionBinding activeTab saved s
     | Inl e \<Rightarrow> setError (tab_id activeTab) (Some e) s)"

text \<open>The save dialog.\<close>

definition dialog_item :: "string \<Rightarrow> string \<Rightarrow> string option \<Rightarrow> string option \<Rightarrow> string \<Rightarrow> HttpRequestConfig \<Rightarrow> CollectionItem option" where
  "dialog_item uuid now selectedCollectionId selectedParentId name config =
     (if \<not> truthy_opt selectedCollectionId \<or> \<not> truthy (js_trim name) then None
      else Some (buildCollectionItemFromHttpConfig config uuid (the selectedCollectionId)
        (if truthy_opt selectedParentId then selectedParentId else None) 0 now now (Some (js_trim name)) None))"

end
