(* ===== verification/UrlQuerySync.thy ===== *)
theory UrlQuerySync
  imports HttpTypes
begin

text \<open>
  The address and the parameter table of a request kept in step (\<open>src/src/lib/urlQuerySync.ts\<close> and the
  handlers of \<open>src/src/components/http/HttpWorkspace.tsx\<close> that call it). \<open>decodeURIComponent\<close> is the
  library function on UTF-8 bytes; \<open>None\<close> is the \<open>URIError\<close> it throws.
\<close>

section \<open>decodeURIComponent\<close>

abbreviation percent :: char where "percent \<equiv> CHR ''%''"

fun pct_byte :: "string \<Rightarrow> (nat \<times> string) option" where
  "pct_byte (c # a # b # r) = (if c = percent then
     (case (hex_val a, hex_val b) of (Some x, Some y) \<Rightarrow> Some (16 * x + y, r) | _ \<Rightarrow> None) else None)"
| "pct_byte _ = None"

text \<open>The number of bytes a sequence has, by its first byte, and the range of the second one.\<close>

definition utf8_length :: "nat \<Rightarrow> nat option" where
  "utf8_length b = (if b < 128 then Some 1 else if b < 194 then None else if b < 224 then Some 2 else if b < 240 then Some 3
     else if b < 245 then Some 4 else None)"

definition second_ok :: "nat \<Rightarrow> nat \<Rightarrow> bool" where
  "second_ok b c \<longleftrightarrow> (b = 224 \<longrightarrow> 160 \<le> c) \<and> (b = 237 \<longrightarrow> c < 160) \<and> (b = 240 \<longrightarrow> 144 \<le> c) \<and> (b = 244 \<longrightarrow> c < 144)"

fun pct_bytes :: "nat \<Rightarrow> string \<Rightarrow> (nat list \<times> string) option" where
  "pct_bytes 0 s = Some ([], s)"
| "pct_bytes (Suc n) s = (case pct_byte s of
     None \<Rightarrow> None
   | Some (b, r) \<Rightarrow> (if 128 \<le> b \<and> b < 192 then map_option (\<lambda>(bs, t). (b # bs, t)) (pct_bytes n r) else None))"

definition pct_sequence :: "string \<Rightarrow> (string \<times> string) option" where
  "pct_sequence s = (case pct_byte s of
     None \<Rightarrow> None
   | Some (b, r) \<Rightarrow> (case utf8_length b of
       None \<Rightarrow> None
     | Some n \<Rightarrow> (case pct_bytes (n - 1) r of
         None \<Rightarrow> None
       | Some (bs, t) \<Rightarrow> (if bs \<noteq> [] \<and> \<not> second_ok b (hd bs) then None else Some (map char_of (b # bs), t)))))"

lemma pct_byte_length: "pct_byte s = Some (b, r) \<Longrightarrow> length r < length s"
  by (cases s rule: pct_byte.cases) (auto split: if_splits option.splits)

lemma pct_bytes_length: "pct_bytes n s = Some (bs, t) \<Longrightarrow> length t \<le> length s"
  by (induction n s arbitrary: bs t rule: pct_bytes.induct)
    (auto split: option.splits if_splits prod.splits dest!: pct_byte_length, fastforce dest: pct_byte_length)

lemma pct_sequence_length: "pct_sequence s = Some (w, t) \<Longrightarrow> length t < length s"
  by (auto simp: pct_sequence_def split: option.splits prod.splits if_splits dest!: pct_byte_length pct_bytes_length)

function decodeURIComponent :: "string \<Rightarrow> string option" where
  "decodeURIComponent s = (case s of
     [] \<Rightarrow> Some []
   | c # r \<Rightarrow> (if c \<noteq> percent then map_option ((#) c) (decodeURIComponent r)
       else (case pct_sequence s of
           None \<Rightarrow> None
         | Some (w, t) \<Rightarrow> map_option ((@) w) (decodeURIComponent t))))"
  by pat_completeness auto
termination
  by (relation "measure length") (auto dest: pct_sequence_length)

declare decodeURIComponent.simps [simp del]


section \<open>Query strings\<close>

definition decodeQueryComponent :: "string \<Rightarrow> string" where
  "decodeQueryComponent raw = nullish (decodeURIComponent (js_replaceAll (CHR ''+'') '' '' raw)) raw"

definition query_row :: "string \<Rightarrow> string \<Rightarrow> KeyValue" where
  "query_row k v = \<lparr> kv_key = k, kv_value = v, kv_description = None, kv_enabled = True, kv_isAuto = None \<rparr>"

definition parseQueryStringToParams :: "string \<Rightarrow> KeyValue list" where
  "parseQueryStringToParams query = (if \<not> truthy query then [] else
     map (\<lambda>segment. query_row (decodeQueryComponent (before_char (CHR ''='') segment))
         (decodeQueryComponent (nullish (after_char (CHR ''='') segment) [])))
       (filter truthy (js_split (CHR ''&'') query)))"

definition active_param :: "KeyValue \<Rightarrow> bool" where
  "active_param p \<longleftrightarrow> truthy (js_trim (kv_key p)) \<and> kv_enabled p"

definition buildRawQueryString :: "KeyValue list \<Rightarrow> string" where
  "buildRawQueryString params = js_join ''&'' (map (\<lambda>p. kv_key p @ ''='' @ kv_value p) (filter active_param params))"

definition joinUrlWithParams :: "string \<Rightarrow> KeyValue list \<Rightarrow> string" where
  "joinUrlWithParams url params = (let baseUrl = before_char (CHR ''?'') url; query = buildRawQueryString params in
     if truthy query then baseUrl @ ''?'' @ query else baseUrl)"


section \<open>The handlers\<close>

datatype sync_source = FromUrl | FromParams

text \<open>What a tab does with its request when it is shown for the first time.\<close>

definition initial_sync :: "HttpRequestConfig \<Rightarrow> HttpRequestConfig" where
  "initial_sync c =
     (let url = rq_url c; query = nullish (after_char (CHR ''?'') url) []; hasUrlQuery = truthy query;
          enabledParams = filter active_param (rq_queryParams c); hasRealParams = (enabledParams \<noteq> []);
          parsedUrlParams = (if hasUrlQuery then parseQueryStringToParams query else [])
      in if hasUrlQuery \<and> \<not> hasRealParams then
           (if parsedUrlParams \<noteq> []
            then c\<lparr>rq_queryParams := parsedUrlParams @ [emptyKeyValue], rq_url := joinUrlWithParams url parsedUrlParams\<rparr>
            else c)
         else if hasRealParams then
           (let normalizedUrl = joinUrlWithParams url enabledParams in if normalizedUrl \<noteq> url then c\<lparr>rq_url := normalizedUrl\<rparr> else c)
         else c)"

definition onUrlChange :: "sync_source option \<Rightarrow> string \<Rightarrow> HttpRequestConfig \<Rightarrow> HttpRequestConfig" where
  "onUrlChange syncing newUrl c =
     (if syncing = Some FromParams then c\<lparr>rq_url := newUrl\<rparr>
      else case after_char (CHR ''?'') newUrl of
        Some query \<Rightarrow> c\<lparr>rq_url := newUrl, rq_queryParams := parseQueryStringToParams query @ [emptyKeyValue]\<rparr>
      | None \<Rightarrow> c\<lparr>rq_url := newUrl, rq_queryParams := [emptyKeyValue]\<rparr>)"

definition onParamsChange :: "sync_source option \<Rightarrow> KeyValue list \<Rightarrow> HttpRequestConfig \<Rightarrow> HttpRequestConfig" where
  "onParamsChange syncing v c =
     (if syncing = Some FromUrl then c\<lparr>rq_queryParams := v\<rparr>
      else c\<lparr>rq_queryParams := v, rq_url := joinUrlWithParams (rq_url c) v\<rparr>)"


section \<open>Reading back\<close>

lemma decode_plain: "percent \<notin> set s \<Longrightarrow> decodeURIComponent s = Some s"
proof (induction s)
  case (Cons a s)
  then show ?case by (subst decodeURIComponent.simps) auto
qed (simp add: decodeURIComponent.simps)

lemma replaceAll_absent: "c \<notin> set s \<Longrightarrow> js_replaceAll c r s = s"
  by (induction s) (auto simp: js_replaceAll_def)

lemma component_plain: "percent \<notin> set s \<Longrightarrow> CHR ''+'' \<notin> set s \<Longrightarrow> decodeQueryComponent s = s"
  by (simp add: decodeQueryComponent_def replaceAll_absent decode_plain)

text \<open>A row that is written as it is read: no separator and nothing that is decoded.\<close>

definition plain_row :: "KeyValue \<Rightarrow> bool" where
  "plain_row p \<longleftrightarrow> set (kv_key p) \<inter> set ''&=%+'' = {} \<and> set (kv_value p) \<inter> set ''&%+'' = {}"

lemma before_after_char:
  assumes "c \<notin> set s"
  shows "before_char c (s @ c # t) = s" and "after_char c (s @ c # t) = Some t"
    and "before_char c s = s" and "after_char c s = None"
proof -
  have "takeWhile (\<lambda>d. d \<noteq> c) (s @ c # t) = s" "dropWhile (\<lambda>d. d \<noteq> c) (s @ c # t) = c # t"
    "takeWhile (\<lambda>d. d \<noteq> c) s = s" "dropWhile (\<lambda>d. d \<noteq> c) s = []"
    using assms by (induction s) auto
  then show "before_char c (s @ c # t) = s" "after_char c (s @ c # t) = Some t" "before_char c s = s" "after_char c s = None"
    unfolding before_char_def after_char_def by (simp_all only: list.case)
qed

lemma before_char_absent: "c \<notin> set (before_char c s)"
  by (auto simp: before_char_def dest: set_takeWhileD)

lemma row_back:
  assumes "plain_row p"
  shows "query_row (decodeQueryComponent (before_char (CHR ''='') (kv_key p @ ''='' @ kv_value p)))
     (decodeQueryComponent (nullish (after_char (CHR ''='') (kv_key p @ ''='' @ kv_value p)) [])) = query_row (kv_key p) (kv_value p)"
  using assms before_after_char(1,2)[of "CHR ''=''" "kv_key p" "kv_value p"]
  by (simp add: plain_row_def component_plain)

lemma query_back:
  assumes "\<forall>p \<in> set v. active_param p \<longrightarrow> plain_row p"
  shows "parseQueryStringToParams (buildRawQueryString v) = map (\<lambda>p. query_row (kv_key p) (kv_value p)) (filter active_param v)"
proof (cases "filter active_param v = []")
  case True
  then show ?thesis by (simp add: parseQueryStringToParams_def buildRawQueryString_def)
next
  case False
  let ?segs = "map (\<lambda>p. kv_key p @ ''='' @ kv_value p) (filter active_param v)"
  have "\<forall>x \<in> set ?segs. CHR ''&'' \<notin> set x" using assms by (auto simp: plain_row_def)
  then have split: "js_split (CHR ''&'') (js_join ''&'' ?segs) = ?segs" using False by (intro js_split_join) auto
  have "js_join ''&'' ?segs \<noteq> []" using False by (cases "filter active_param v"; cases "tl (filter active_param v)") auto
  moreover have "filter truthy ?segs = ?segs" by (auto simp: filter_id_conv)
  ultimately have "parseQueryStringToParams (buildRawQueryString v)
    = map (\<lambda>segment. query_row (decodeQueryComponent (before_char (CHR ''='') segment))
         (decodeQueryComponent (nullish (after_char (CHR ''='') segment) []))) ?segs"
    by (simp only: parseQueryStringToParams_def buildRawQueryString_def split simp_thms if_False)
  also have "\<dots> = map (\<lambda>p. query_row (kv_key p) (kv_value p)) (filter active_param v)"
    unfolding map_map comp_def by (rule map_cong[OF refl], rule row_back) (use assms in auto)
  finally show ?thesis .
qed

lemma join_base: "before_char (CHR ''?'') (joinUrlWithParams url v) = before_char (CHR ''?'') url"
  using before_after_char(1,3)[OF before_char_absent[of "CHR ''?''" url]] by (simp add: joinUrlWithParams_def Let_def)

lemma join_query: "nullish (after_char (CHR ''?'') (joinUrlWithParams url v)) [] = buildRawQueryString v"
  using before_after_char(2,4)[OF before_char_absent[of "CHR ''?''" url]] by (auto simp: joinUrlWithParams_def Let_def)


section \<open>Properties\<close>



text \<open>Every edit of the address drops the disabled rows.\<close>

lemma url_edit_drops_disabled: "p \<in> set (rq_queryParams (onUrlChange None url c)) \<Longrightarrow> kv_enabled p"
  by (auto simp: onUrlChange_def parseQueryStringToParams_def query_row_def emptyKeyValue_def split: option.splits if_splits)

text \<open>An encoded separator in the address of a request is decoded into the table and written back as it is.\<close>

lemma initial_sync_splits_value:
  "rq_url (initial_sync ((createDefaultRequest ''r'')\<lparr>rq_url := ''h?q=a%26b''\<rparr>)) = ''h?q=a&b''"
  by code_simp

end
