(* ===== verification/CurlGenerator.thy ===== *)
theory CurlGenerator
  imports SavedRequests UrlQuerySync
begin

text \<open>
  A stored request as a cURL command (\<open>src/src/lib/curlGenerator.ts\<close>). \<open>resolve\<close> is the substitution of
  variables (\<open>resolveVariableTemplate\<close> when the request belongs to a collection, else the identity).
  The parts of the command are kept with their shape: a plain word, an option with a text put between
  single quotes as it is, and an option with a text whose single quotes are escaped. As in the opening
  of an item, \<open>OpenIllTyped\<close> stands for stored values that do not have their type.
\<close>

section \<open>Parts\<close>

datatype curl_part =
    CurlPlain string
  | CurlQuoted string string
  | CurlEscaped string string

abbreviation quote1 :: char where "quote1 \<equiv> CHR 0x27"
abbreviation line_feed :: char where "line_feed \<equiv> CHR 0x0A"

text \<open>\<open>text.replace(/'/g, "'\\''")\<close>\<close>

definition escape_quotes :: "string \<Rightarrow> string" where
  "escape_quotes t = js_replaceAll quote1 [quote1, backslash, quote1, quote1] t"

definition with_option :: "string \<Rightarrow> string \<Rightarrow> string" where
  "with_option opt t = (if opt = [] then [quote1] @ t @ [quote1] else opt @ '' '' @ [quote1] @ t @ [quote1])"

fun render_part :: "curl_part \<Rightarrow> string" where
  "render_part (CurlPlain t) = t"
| "render_part (CurlQuoted opt t) = with_option opt t"
| "render_part (CurlEscaped opt t) = with_option opt (escape_quotes t)"


section \<open>Rows\<close>

text \<open>Rows that are enabled and have a key, as pairs.\<close>

definition curl_row :: "json \<Rightarrow> (string \<times> string) list opened" where
  "curl_row j = (case j of
       JObj d \<Rightarrow> (if map_of d ''enabled'' = Some (JBool False) then Inr []
         else and_then (text_or (map_of d ''key'') []) (\<lambda>k. if \<not> truthy k then Inr []
           else and_then (text_or (map_of d ''value'') []) (\<lambda>v. Inr [(k, v)])))
     | _ \<Rightarrow> Inr [])"

fun collect :: "'a list opened list \<Rightarrow> 'a list opened" where
  "collect [] = Inr []"
| "collect (x # xs) = and_then x (\<lambda>a. and_then (collect xs) (\<lambda>b. Inr (a @ b)))"

definition array_rows :: "json list \<Rightarrow> (string \<times> string) list opened" where
  "array_rows vs = (if JNull \<in> set vs then Inl OpenThrows else collect (map curl_row vs))"

definition stored_pairs :: "string \<Rightarrow> (string \<times> string) list opened" where
  "stored_pairs t = (if \<not> truthy t then Inr [] else case JSON_parse t of
       None \<Rightarrow> Inl OpenThrows
     | Some (JArr vs) \<Rightarrow> array_rows vs
     | Some (JObj d) \<Rightarrow> Inr (map (\<lambda>(k, v). (k, js_String v)) (filter (\<lambda>(k, v). truthy k) d))
     | Some JNull \<Rightarrow> Inl OpenThrows
     | Some _ \<Rightarrow> Inr [])"

text \<open>A section whose code throws is left out.\<close>

definition section_or :: "'a opened \<Rightarrow> 'a \<Rightarrow> 'a opened" where
  "section_or x d = (if x = Inl OpenThrows then Inr d else x)"


section \<open>Sections\<close>

definition curl_method :: "CollectionItem \<Rightarrow> curl_part list" where
  "curl_method item = (let method = js_toUpperCase (or_else (nullish (it_method item) []) ''GET'') in
     if method \<noteq> ''GET'' then [CurlPlain (''-X '' @ method)] else [])"

definition curl_url :: "(string \<Rightarrow> string) \<Rightarrow> CollectionItem \<Rightarrow> string opened" where
  "curl_url resolve item =
     (let url = resolve (nullish (it_url item) []); url = nullish (decodeURIComponent url) url in
      and_then (section_or (stored_pairs (it_queryParams item)) []) (\<lambda>pairs.
        Inr (if pairs \<noteq> [] then url @ (if CHR ''?'' \<in> set url then ''&'' else ''?'')
               @ js_join ''&'' (map (\<lambda>(k, v). resolve k @ ''='' @ resolve v) pairs)
             else url)))"

definition curl_header :: "string \<Rightarrow> string \<Rightarrow> curl_part" where
  "curl_header k v = CurlQuoted ''-H'' (k @ '': '' @ v)"

definition curl_headers :: "(string \<Rightarrow> string) \<Rightarrow> CollectionItem \<Rightarrow> curl_part list opened" where
  "curl_headers resolve item = and_then (section_or (stored_pairs (it_headers item)) []) (\<lambda>pairs.
     Inr (map (\<lambda>(k, v). curl_header (resolve k) (resolve v)) pairs))"

text \<open>\<open>auth.flat || (Array.isArray(auth.nested) ? auth.nested.find(kv => kv.key === key)?.value : '') || ''\<close>\<close>

definition auth_text :: "json \<Rightarrow> string \<Rightarrow> string \<Rightarrow> string \<Rightarrow> string opened" where
  "auth_text auth flat nested key = and_then (member_text auth flat []) (\<lambda>t. if truthy t then Inr t
     else and_then (member auth nested) (\<lambda>n. case n of
         Some (JArr vs) \<Rightarrow> and_then (find_key vs key) (\<lambda>v. text_or v [])
       | _ \<Rightarrow> Inr []))"

definition curl_auth_of :: "(string \<Rightarrow> string) \<Rightarrow> string \<Rightarrow> json \<Rightarrow> curl_part list opened" where
  "curl_auth_of resolve authType auth =
     (if authType = ''bearer'' then and_then (auth_text auth ''bearerToken'' ''bearer'' ''token'') (\<lambda>token.
        Inr (if truthy token then [CurlQuoted ''-H'' (''Authorization: Bearer '' @ resolve token)] else []))
      else if authType = ''basic'' then and_then (auth_text auth ''basicUsername'' ''basic'' ''username'') (\<lambda>user.
        and_then (auth_text auth ''basicPassword'' ''basic'' ''password'') (\<lambda>pass.
          Inr (if truthy user then [CurlQuoted ''-u'' (resolve user @ '':'' @ resolve pass)] else [])))
      else if authType = ''apikey'' then and_then (member_text auth ''apiKeyName'' []) (\<lambda>keyName.
        and_then (member_text auth ''apiKeyValue'' []) (\<lambda>keyValue.
        and_then (member_text auth ''apiKeyAddTo'' ''header'') (\<lambda>addTo.
          Inr (if truthy keyName \<and> addTo = ''header'' then [curl_header (resolve keyName) (resolve keyValue)] else []))))
      else Inr [])"

definition curl_auth :: "(string \<Rightarrow> string) \<Rightarrow> CollectionItem \<Rightarrow> curl_part list opened" where
  "curl_auth resolve item =
     (if truthy (it_authType item) \<and> it_authType item \<noteq> ''none'' \<and> truthy (it_authConfig item)
      then (case JSON_parse (it_authConfig item) of
              None \<Rightarrow> Inr []
            | Some auth \<Rightarrow> section_or (curl_auth_of resolve (it_authType item) auth) [])
      else Inr [])"

definition json_content_type :: curl_part where
  "json_content_type = CurlQuoted ''-H'' ''Content-Type: application/json''"

definition curl_file_paths :: "json dict \<Rightarrow> string list opened" where
  "curl_file_paths d = (case map_of d ''filePaths'' of
       Some (JArr (p # ps)) \<Rightarrow> typed (those (map (\<lambda>v. get_string (Some v)) (p # ps)))
     | _ \<Rightarrow> and_then (text_or (map_of d ''value'') []) (\<lambda>t. Inr (filter truthy (map js_trim (js_split (CHR '','') t)))))"

definition form_part :: "(string \<Rightarrow> string) \<Rightarrow> json \<Rightarrow> curl_part list opened" where
  "form_part resolve j = (case j of
       JObj d \<Rightarrow> (if map_of d ''enabled'' = Some (JBool False) then Inr []
         else and_then (text_or (map_of d ''key'') []) (\<lambda>k. if \<not> truthy k then Inr []
           else if map_of d ''type'' = Some (JStr ''file'') \<or> map_of d ''fieldType'' = Some (JStr ''file'')
           then and_then (curl_file_paths d) (\<lambda>paths. Inr (map (\<lambda>p. CurlQuoted ''-F'' (resolve k @ ''=@'' @ p)) paths))
           else and_then (text_or (map_of d ''value'') []) (\<lambda>v. Inr [CurlQuoted ''-F'' (resolve k @ ''='' @ resolve v)])))
     | _ \<Rightarrow> Inr [])"

definition graphql_data :: "(string \<Rightarrow> string) \<Rightarrow> json \<Rightarrow> string opened" where
  "graphql_data resolve gql = and_then (member_text gql ''query'' []) (\<lambda>q. and_then (member gql ''variables'') (\<lambda>vs.
     Inr (JSON_stringify (JObj ([(''query'', JStr (resolve q))]
       @ (case vs of Some v \<Rightarrow> if falsy v then [] else [(''variables'', v)] | None \<Rightarrow> []))))))"

definition curl_body :: "(string \<Rightarrow> string) \<Rightarrow> CollectionItem \<Rightarrow> curl_part list opened" where
  "curl_body resolve item =
     (let content = it_bodyContent item; t = it_bodyType item; bodyContent = resolve content; data = CurlEscaped ''-d'' bodyContent in
      if \<not> truthy content \<or> \<not> truthy t \<or> t = ''none'' then Inr []
      else if t = ''json'' then Inr [json_content_type, data]
      else if t = ''raw'' then Inr [data]
      else if t = ''formUrlencoded'' then and_then
        (case JSON_parse content of
             Some (JArr vs) \<Rightarrow> section_or (and_then (array_rows vs) (\<lambda>pairs.
               Inr (map (\<lambda>(k, v). CurlQuoted ''--data-urlencode'' (resolve k @ ''='' @ resolve v)) pairs))) [data]
           | _ \<Rightarrow> Inr [data])
        (\<lambda>ps. Inr (CurlQuoted ''-H'' ''Content-Type: application/x-www-form-urlencoded'' # ps))
      else if t = ''formData'' then
        (case JSON_parse content of
             None \<Rightarrow> Inr [data]
           | Some (JArr vs) \<Rightarrow> (if JNull \<in> set vs then Inr [data] else collect (map (form_part resolve) vs))
           | Some _ \<Rightarrow> Inr [])
      else if t = ''binary'' then Inr [CurlQuoted ''--data-binary'' (''@'' @ content)]
      else if t = ''graphql'' then
        (case JSON_parse content of
             None \<Rightarrow> Inr [json_content_type, data]
           | Some gql \<Rightarrow> section_or (and_then (graphql_data resolve gql) (\<lambda>payload. Inr [json_content_type, CurlEscaped ''-d'' payload]))
               [json_content_type, data])
      else Inr [])"

definition curl_parts :: "(string \<Rightarrow> string) \<Rightarrow> CollectionItem \<Rightarrow> curl_part list opened" where
  "curl_parts resolve item =
     and_then (curl_url resolve item) (\<lambda>url.
     and_then (curl_headers resolve item) (\<lambda>headers.
     and_then (curl_auth resolve item) (\<lambda>auth.
     and_then (curl_body resolve item) (\<lambda>body.
       Inr ([CurlPlain ''curl''] @ curl_method item @ headers @ auth @ body @ [CurlQuoted [] url])))))"

definition generateCurlFromItem :: "(string \<Rightarrow> string) \<Rightarrow> CollectionItem \<Rightarrow> string opened" where
  "generateCurlFromItem resolve item = and_then (curl_parts resolve item) (\<lambda>parts.
     Inr (js_join ('' '' @ [backslash, line_feed] @ ''  '') (map render_part parts)))"

text \<open>Copying the request of a tab as a command.\<close>

definition handleCopyAsCurl :: "(string \<Rightarrow> string) \<Rightarrow> string \<Rightarrow> AppTab \<Rightarrow> HttpRequestConfig \<Rightarrow> string opened" where
  "handleCopyAsCurl resolve now tab config = generateCurlFromItem resolve
     (buildCollectionItemFromHttpConfig config (tab_id tab) (nullish (tab_linkedCollectionId tab) []) None 0 now now None None)"

end
