(* ===== verification/SavedRequestProps.thy ===== *)
theory SavedRequestProps
  imports SavedRequests
begin

text \<open>
  What saving a request keeps: an opened item is the saved request up to the fields that are not
  stored, and a tab knows whether it differs from its stored item.
\<close>

section \<open>Reading what was written\<close>

declare JSON_stringify.simps [simp del]

lemma and_then_simps [simp]: "and_then (Inr v) f = f v" "and_then (Inl e) f = Inl e"
  by (simp_all add: and_then_def)

lemma typed_Some [simp]: "typed (Some v) = Inr v"
  by (simp add: typed_def)

lemma text_or_str [simp]: "text_or (Some (JStr t)) d = Inr (or_else t d)"
  by (simp add: text_or_def or_else_def)

lemma member_text_obj [simp]: "member_text (JObj d) k t = text_or (map_of d k) t"
  by (simp add: member_text_def)

lemma or_else_Nil [simp]: "or_else t [] = t"
  by (simp add: or_else_def)

lemma kv_roundtrip: "kv_of_json (json_of_kv kv) = Some kv"
  by (cases "kv_description kv"; cases "kv_isAuto kv")
    (simp_all add: kv_of_json_def json_of_kv_def opt_field_def get_optional_Some)

lemma texts_roundtrip: "get_texts (Some (json_of_texts xs)) = Some xs"
  unfolding get_texts_def json_of_texts_def by (rule get_array_json) simp

lemma field_type_roundtrip: "get_field_type (Some (JStr (field_type_name t))) = Some t"
  by (cases t) (simp_all add: get_field_type_def)

lemma field_roundtrip: "field_of_json (json_of_field f) = Some f"
  by (cases "fd_fileName f"; cases "fd_filePaths f"; cases "fd_fileNames f"; cases "fd_description f"; cases "fd_contentType f")
    (simp_all add: field_of_json_def json_of_field_def opt_field_def get_optional_Some texts_roundtrip field_type_roundtrip)

lemma enum_roundtrip [simp]:
  "read_enum method_name all_methods (method_name m) = Inr m"
  "read_enum body_type_name all_body_types (body_type_name b) = Inr b"
  "read_enum auth_type_name all_auth_types (auth_type_name a) = Inr a"
  "read_enum grant_type_name all_grant_types (grant_type_name g) = Inr g"
  "read_enum add_to_name [AddToHeader, AddToQuery] (add_to_name t) = Inr t"
  by (cases m, simp_all add: read_enum_def all_methods_def)
    (cases b; cases a; cases g; cases t; simp add: read_enum_def all_body_types_def all_auth_types_def all_grant_types_def)+

lemma json_ok_texts [simp]: "json_ok (json_of_texts xs)"
  by (auto simp: json_of_texts_def)

lemma opt_field_keys [simp]:
  "fst ` set (opt_field k f x) = (if x = None then {} else {k})" "distinct (map fst (opt_field k f x))"
  by (auto simp: opt_field_def split: option.split)

lemma opt_field_ok [simp]: "(\<forall>p \<in> set (opt_field k f x). json_ok (snd p)) \<longleftrightarrow> (\<forall>v. x = Some v \<longrightarrow> json_ok (f v))"
  by (auto simp: opt_field_def split: option.split)

lemma json_ok_kv: "json_ok (json_of_kv kv)"
  by (simp add: json_of_kv_def wf_dict_def ball_Un)

lemma json_ok_field: "json_ok (json_of_field f)"
  by (simp add: json_of_field_def wf_dict_def ball_Un)

lemma stringify_inj: "json_ok x \<Longrightarrow> json_ok y \<Longrightarrow> JSON_stringify x = JSON_stringify y \<longleftrightarrow> x = y"
  by (metis JSON_roundtrip option.inject)

lemma json_ok_rows: "json_ok (JArr (map json_of_kv rows))" "json_ok (JArr (map json_of_field fs))"
  by (auto simp: json_ok_kv json_ok_field)

lemma those_rows: "those (map kv_of_json (map json_of_kv rows)) = Some rows"
  "those (map field_of_json (map json_of_field fs)) = Some fs"
  by (rule those_map_Some, rule kv_roundtrip) (rule those_map_Some, rule field_roundtrip)

lemma stringify_truthy [simp]: "JSON_stringify (JArr vs) \<noteq> []" "JSON_stringify (JObj d) \<noteq> []"
  by (simp_all add: JSON_stringify.simps)

lemma parsed_rows_back: "parsed_rows (JSON_stringify (JArr (map json_of_kv rows))) = Inr rows"
  unfolding parsed_rows_def JSON_roundtrip[OF json_ok_rows(1)] by (simp add: those_rows(1) del: map_map)


section \<open>What an opened item is\<close>

text \<open>
  The request that is restored: the stored fields are those that were saved, except that a table without
  rows gets a blank one, an empty JSON body and an empty redirect address get their defaults, GraphQL
  requests have the body type of JSON, and the parts of the body that the body type does not use, the
  tokens, the content type of a raw body, the assertions, the time-out and the choice to follow
  redirects are those of a new request.
\<close>

definition restored_body :: "HttpRequestConfig \<Rightarrow> HttpRequestConfig \<Rightarrow> HttpRequestConfig" where
  "restored_body c d =
     (if rq_requestMode c = ModeSse then d\<lparr>rq_requestMode := ModeSse, rq_bodyType := BodyNone\<rparr>
      else if rq_requestMode c = ModeGraphql \<or> rq_bodyType c = BodyGraphql then
        d\<lparr>rq_requestMode := ModeGraphql, rq_bodyType := BodyJson, rq_graphqlQuery := rq_graphqlQuery c,
          rq_graphqlVariables := rq_graphqlVariables c\<rparr>
      else let d' = d\<lparr>rq_requestMode := ModeRest, rq_bodyType := rq_bodyType c\<rparr> in
        case rq_bodyType c of
          BodyJson \<Rightarrow> d'\<lparr>rq_jsonBody := or_else (rq_jsonBody c) default_json_body\<rparr>
        | BodyRaw \<Rightarrow> d'\<lparr>rq_rawBody := rq_rawBody c\<rparr>
        | BodyFormUrlencoded \<Rightarrow> d'\<lparr>rq_formFields := rq_formFields c\<rparr>
        | BodyFormData \<Rightarrow> d'\<lparr>rq_formDataFields := rq_formDataFields c\<rparr>
        | BodyBinary \<Rightarrow> d'\<lparr>rq_binaryFilePath := rq_binaryFilePath c\<rparr>
        | _ \<Rightarrow> d'\<lparr>rq_rawBody := []\<rparr>)"

definition restored_oauth2 :: "OAuth2Config \<Rightarrow> OAuth2Config" where
  "restored_oauth2 o2 = o2\<lparr>oa_redirectUri := or_else (oa_redirectUri o2) ''http://localhost:1420/callback'',
     oa_accessToken := [], oa_refreshToken := [], oa_tokenExpiresAt := 0\<rparr>"

definition restored :: "HttpRequestConfig \<Rightarrow> string option \<Rightarrow> string \<Rightarrow> HttpRequestConfig" where
  "restored c name reqId = (restored_body c (createDefaultRequest reqId))\<lparr>
     rq_name := request_name c name, rq_method := rq_method c, rq_url := rq_url c,
     rq_headers := rows_or_blank (rq_headers c), rq_queryParams := rows_or_blank (rq_queryParams c),
     rq_authType := rq_authType c, rq_bearerToken := rq_bearerToken c, rq_basicUsername := rq_basicUsername c,
     rq_basicPassword := rq_basicPassword c, rq_apiKeyName := rq_apiKeyName c, rq_apiKeyValue := rq_apiKeyValue c,
     rq_apiKeyAddTo := rq_apiKeyAddTo c, rq_oauth2Config := restored_oauth2 (rq_oauth2Config c),
     rq_preScript := rq_preScript c, rq_postScript := rq_postScript c\<rparr>"

lemma json_ok_auth: "json_ok (auth_json c)" "json_ok (json_of_oauth2 o2)"
  by (simp_all add: auth_json_def json_of_oauth2_def wf_dict_def)

lemma auth_back: "nullish (JSON_parse (getAuthConfig c)) d = auth_json c" "getAuthConfig c \<noteq> []"
  unfolding getAuthConfig_def JSON_roundtrip[OF json_ok_auth(1)] by (simp_all add: auth_json_def)

lemma add_to_truthy [simp]: "or_else (add_to_name t) d = add_to_name t" "add_to_name t \<noteq> []"
  "or_else (method_name m) d = method_name m" "method_name m \<noteq> []" "or_else (auth_type_name a) d = auth_type_name a"
  "or_else (grant_type_name g) d = grant_type_name g"
  by (cases t; simp add: or_else_def) (cases t; cases m; cases a; cases g; simp add: or_else_def)+

lemma parsed_auth_back:
  "parsed_auth (auth_json c) = Inr \<lparr> au_bearerToken = rq_bearerToken c, au_basicUsername = rq_basicUsername c,
     au_basicPassword = rq_basicPassword c, au_apiKeyName = rq_apiKeyName c, au_apiKeyValue = rq_apiKeyValue c,
     au_apiKeyAddTo = add_to_name (rq_apiKeyAddTo c) \<rparr>"
  by (simp add: parsed_auth_def flat_auth_def auth_json_def)

lemma oauth2_back: "oauth2_of_json (json_of_oauth2 o2) = Inr (restored_oauth2 o2)"
  by (simp add: oauth2_of_json_def json_of_oauth2_def restored_oauth2_def)

lemma oauth2_updates_back: "oauth2_updates (auth_json c) d = Inr (d\<lparr>rq_oauth2Config := restored_oauth2 (rq_oauth2Config c)\<rparr>)"
proof -
  have "member (auth_json c) ''oauth2Config'' = Inr (Some (json_of_oauth2 (rq_oauth2Config c)))" by (simp add: auth_json_def)
  moreover have "\<not> falsy (json_of_oauth2 (rq_oauth2Config c))" by (simp add: json_of_oauth2_def)
  ultimately show ?thesis by (simp add: oauth2_updates_def oauth2_back)
qed

lemma graphql_back: "opened_graphql (graphql_content c) d
    = Inr (d\<lparr>rq_graphqlQuery := rq_graphqlQuery c, rq_graphqlVariables := rq_graphqlVariables c\<rparr>)"
proof -
  have "json_ok (JObj [(''query'', JStr (rq_graphqlQuery c)), (''variables'', JStr (rq_graphqlVariables c))])"
    by (simp add: wf_dict_def)
  from JSON_roundtrip[OF this] show ?thesis by (simp add: opened_graphql_def graphql_content_def)
qed

lemma form_fields_back:
  "opened_form_fields (JSON_stringify (JArr (map json_of_kv rows))) d = Inr (d\<lparr>rq_formFields := rows\<rparr>)"
  "opened_form_data (JSON_stringify (JArr (map json_of_field fs))) d = Inr (d\<lparr>rq_formDataFields := fs\<rparr>)"
  unfolding opened_form_fields_def opened_form_data_def JSON_roundtrip[OF json_ok_rows(1)] JSON_roundtrip[OF json_ok_rows(2)]
  by (simp_all add: those_rows del: map_map)

lemma body_type_simps: "opened_body_type item = (if it_bodyType item = ''sse'' then Inr BodyNone
    else if it_bodyType item = ''graphql'' then Inr BodyJson
    else read_enum body_type_name all_body_types (or_else (it_bodyType item) ''none''))"
  by (simp add: opened_body_type_def)

lemma body_back:
  assumes "it_bodyType item = getBodyType c" and "it_bodyContent item = getBodyContent c"
  shows "body_updates item d = Inr (restored_body c d)"
proof (cases "rq_requestMode c")
  case ModeRest
  then show ?thesis
    using assms enum_roundtrip(2)[of "rq_bodyType c"]
    by (cases "rq_bodyType c")
      (simp_all add: body_updates_def opened_body_type_def opened_mode_def getBodyType_def getBodyContent_def restored_body_def
        Let_def or_else_def form_fields_back graphql_back)
qed (use assms in \<open>simp_all add: body_updates_def opened_body_type_def opened_mode_def getBodyType_def getBodyContent_def
    restored_body_def Let_def graphql_back\<close>)

lemmas build_defs = buildCollectionItemFromHttpConfig_def getCollectionRequestContent_def Let_def

lemma opened_config_back:
  "opened_config (buildCollectionItemFromHttpConfig c itemId cid parentId so ca ua name re) (createDefaultRequest reqId)
    = Inr (restored c name reqId)"
proof -
  let ?item = "buildCollectionItemFromHttpConfig c itemId cid parentId so ca ua name re"
  have "body_updates ?item d = Inr (restored_body c d)" for d by (rule body_back) (simp_all add: build_defs)
  moreover have "auth_raw ?item = auth_json c" by (simp add: auth_raw_def build_defs auth_back)
  moreover have "parsed_rows (it_headers ?item) = Inr (rq_headers c)" "parsed_rows (it_queryParams ?item) = Inr (rq_queryParams c)"
    by (simp_all add: build_defs parsed_rows_back)
  ultimately have "opened_config ?item (createDefaultRequest reqId)
    = Inr ((restored_body c (createDefaultRequest reqId))\<lparr>rq_method := rq_method c, rq_url := rq_url c,
        rq_name := request_name c name, rq_headers := rows_or_blank (rq_headers c),
        rq_queryParams := rows_or_blank (rq_queryParams c), rq_authType := rq_authType c,
        rq_bearerToken := rq_bearerToken c, rq_basicUsername := rq_basicUsername c, rq_basicPassword := rq_basicPassword c,
        rq_apiKeyName := rq_apiKeyName c, rq_apiKeyValue := rq_apiKeyValue c, rq_apiKeyAddTo := rq_apiKeyAddTo c,
        rq_preScript := rq_preScript c, rq_postScript := rq_postScript c,
        rq_oauth2Config := restored_oauth2 (rq_oauth2Config c)\<rparr>)"
    by (simp add: opened_config_def parsed_auth_back oauth2_updates_back build_defs)
  then show ?thesis by (simp add: restored_def)
qed



section \<open>Signatures\<close>

lemma json_ok_content: "json_ok (json_of_content k)"
  by (simp add: json_of_content_def wf_dict_def)

lemma signature_eq:
  "getCollectionRequestSignatureFromConfig c n = getCollectionRequestSignatureFromConfig c' n'
    \<longleftrightarrow> getCollectionRequestContent c n = getCollectionRequestContent c' n'"
  unfolding getCollectionRequestSignatureFromConfig_def stringify_inj[OF json_ok_content json_ok_content]
  by (auto simp: json_of_content_def)

lemma item_signature:
  "getCollectionRequestSignatureFromItem (buildCollectionItemFromHttpConfig c itemId cid parentId so ca ua name re)
    = getCollectionRequestSignatureFromConfig c name"
  by (simp add: getCollectionRequestSignatureFromItem_def getCollectionRequestSignatureFromConfig_def json_of_content_def
      build_defs json_or_null_def)

text \<open>The requests that come back as they were saved.\<close>

definition reopens_clean :: "HttpRequestConfig \<Rightarrow> string option \<Rightarrow> bool" where
  "reopens_clean c name \<longleftrightarrow> name \<noteq> Some [] \<and> rq_headers c \<noteq> [] \<and> rq_queryParams c \<noteq> []
     \<and> oa_redirectUri (rq_oauth2Config c) \<noteq> []
     \<and> \<not> (rq_requestMode c = ModeRest \<and> rq_bodyType c = BodyJson \<and> rq_jsonBody c = [])"

lemma restored_sel:
  "rq_headers (restored c name r) = rows_or_blank (rq_headers c)" "rq_queryParams (restored c name r) = rows_or_blank (rq_queryParams c)"
  "rq_method (restored c name r) = rq_method c" "rq_url (restored c name r) = rq_url c" "rq_name (restored c name r) = request_name c name"
  "rq_authType (restored c name r) = rq_authType c" "rq_preScript (restored c name r) = rq_preScript c"
  "rq_postScript (restored c name r) = rq_postScript c"
  by (simp_all add: restored_def)

lemma blank_rows: "JSON_stringify (JArr (map json_of_kv (rows_or_blank rows))) = JSON_stringify (JArr (map json_of_kv rows)) \<longleftrightarrow> rows \<noteq> []"
  unfolding stringify_inj[OF json_ok_rows(1) json_ok_rows(1)] by (simp add: rows_or_blank_def)

lemma restored_name: "request_name (restored c name r) None = request_name c name \<longleftrightarrow> name \<noteq> Some []"
  by (cases name) (auto simp: request_name_def restored_sel or_else_def)

lemma restored_body_type: "getBodyType (restored c name r) = getBodyType c"
  by (cases "rq_requestMode c"; cases "rq_bodyType c")
    (simp_all add: getBodyType_def restored_def restored_body_def Let_def)

lemma restored_body_content: "getBodyContent (restored c name r) = getBodyContent c
    \<longleftrightarrow> \<not> (rq_requestMode c = ModeRest \<and> rq_bodyType c = BodyJson \<and> rq_jsonBody c = [])"
  by (cases "rq_requestMode c"; cases "rq_bodyType c")
    (simp_all add: getBodyContent_def restored_def restored_body_def graphql_content_def Let_def or_else_def default_json_body_def)

lemma restored_auth: "getAuthConfig (restored c name r) = getAuthConfig c \<longleftrightarrow> oa_redirectUri (rq_oauth2Config c) \<noteq> []"
  unfolding getAuthConfig_def stringify_inj[OF json_ok_auth(1) json_ok_auth(1)]
  by (auto simp: auth_json_def json_of_oauth2_def restored_def restored_oauth2_def or_else_def)

lemma restored_content:
  "getCollectionRequestContent (restored c name r) None = getCollectionRequestContent c name \<longleftrightarrow> reopens_clean c name"
  by (auto simp: getCollectionRequestContent_def restored_sel blank_rows restored_name restored_body_type restored_body_content
      restored_auth reopens_clean_def)

lemma restored_pristine:
  "getCollectionRequestSignatureFromItem (buildCollectionItemFromHttpConfig c itemId cid parentId so ca ua name re)
    = getCollectionRequestSignatureFromConfig (restored c name r) None \<longleftrightarrow> reopens_clean c name"
  unfolding item_signature signature_eq using restored_content[of c name r] by auto


lemma reopening_drops: "rq_assertions (restored c name r) = ''[]''" "rq_timeoutMs (restored c name r) = 30000"
  "rq_followRedirects (restored c name r)" "rq_rawContentType (restored c name r) = ''text/plain''"
  "rq_binaryFileName (restored c name r) = []"
  by (simp_all add: restored_def restored_body_def createDefaultRequest_def Let_def split: BodyType.split)


section \<open>Properties\<close>

lemma map_where_snoc: "\<forall>x \<in> set xs. \<not> P x \<Longrightarrow> P y \<Longrightarrow> map_where P f (xs @ [y]) = xs @ [f y]"
  by (induction xs) (auto simp: map_where_def)

text \<open>\<^bold>\<open>C5\<close>. 
  Saving a request in a collection and opening the stored item in a new tab adds one tab, in focus,
  linked to the item, whose request is the saved one as far as it is stored; and the tab counts as
  unchanged exactly when the request had a row in both tables, a redirect address, a body if its
  type is JSON, and a name.
\<close>

theorem saved_request_reopens:
  assumes "i \<notin> tab_id ` set (ap_tabs s)" and "itemId \<noteq> []" and "cid \<noteq> []"
  shows "\<exists>t. handleOpenItem i epoch reqId (buildCollectionItemFromHttpConfig c itemId cid parentId so ca ua name re) True s
      = Inr (setActiveTab (Some i) (s\<lparr>ap_tabs := ap_tabs s @ [t]\<rparr>))
    \<and> tab_id t = i \<and> tab_httpConfig t = Some (restored c name reqId) \<and> tab_linkedCollectionItemId t = Some itemId
    \<and> (isSavedRequestPristine t (restored c name reqId) \<longleftrightarrow> reopens_clean c name)"
proof -
  let ?item = "buildCollectionItemFromHttpConfig c itemId cid parentId so ca ua name re"
  let ?c = "restored c name reqId"
  let ?t = "link_item ?item ((newTab i epoch reqId Http)\<lparr>tab_httpConfig := Some ?c, tab_label := opened_label ?item,
    tab_customLabel := Some (opened_label ?item)\<rparr>)"
  have item: "it_itemType ?item = ItemRequest" "truthy_opt (it_method ?item)" "it_id ?item = itemId" "it_collectionId ?item = cid"
    by (simp_all add: build_defs)
  have new: "\<forall>x \<in> set (ap_tabs s). \<not> tab_id x = i" using assms(1) by auto
  have "handleOpenItem i epoch reqId ?item True s = Inr (setActiveTab (Some i) (s\<lparr>ap_tabs := ap_tabs s @ [?t]\<rparr>))"
    using item by (simp add: handleOpenItem_def addTab_def updateTab_def updateHttpConfig_def map_tab_def setActiveTab_def
        map_where_snoc[OF new] newTab_def opened_config_back)
  moreover have "isSavedRequestPristine ?t ?c \<longleftrightarrow> reopens_clean c name"
    using assms(2,3) item restored_pristine
    by (simp add: isSavedRequestPristine_def isLinkedCollectionRequest_def link_item_def)
  ultimately show ?thesis using item by (intro exI[of _ ?t]) (simp add: link_item_def newTab_def)
qed

theorem saved_request_reopens_witness:
  "\<exists>t. handleOpenItem ''t'' ''e'' ''q'' (buildCollectionItemFromHttpConfig ((createDefaultRequest ''r'')\<lparr>rq_url := ''u''\<rparr>)
        ''i'' ''c'' None 0 ''n'' ''n'' None None) True app_init
      = Inr (setActiveTab (Some ''t'') (app_init\<lparr>ap_tabs := ap_tabs app_init @ [t]\<rparr>))
    \<and> tab_id t = ''t'' \<and> tab_httpConfig t = Some (restored ((createDefaultRequest ''r'')\<lparr>rq_url := ''u''\<rparr>) None ''q'')
    \<and> isSavedRequestPristine t (restored ((createDefaultRequest ''r'')\<lparr>rq_url := ''u''\<rparr>) None ''q'')"
proof -
  have "reopens_clean ((createDefaultRequest ''r'')\<lparr>rq_url := ''u''\<rparr>) None"
    by (simp add: reopens_clean_def createDefaultRequest_def)
  then show ?thesis
    using saved_request_reopens[of "''t''" app_init "''i''" "''c''" "''e''" "''q''" "(createDefaultRequest ''r'')\<lparr>rq_url := ''u''\<rparr>"
      None 0 "''n''" "''n''" None None]
    by (auto simp: app_init_def)
qed

lemma renamed_content: "getCollectionRequestContent (c\<lparr>rq_name := request_name c None\<rparr>) None = getCollectionRequestContent c None"
proof -
  let ?c = "c\<lparr>rq_name := request_name c None\<rparr>"
  have "getBodyType ?c = getBodyType c" "getBodyContent ?c = getBodyContent c" "getAuthConfig ?c = getAuthConfig c"
    by (simp_all add: getBodyType_def getBodyContent_def graphql_content_def getAuthConfig_def auth_json_def split: BodyType.split)
  then show ?thesis by (simp add: getCollectionRequestContent_def request_name_def or_else_def)
qed

text \<open>\<^bold>\<open>C6\<close>. 
  Saving a linked tab: when the backend has stored the item and the reply arrives, the tab is linked to
  it and counts as unchanged exactly when its request (which may have been edited in the meantime) has
  the content that was sent; in particular when it was not edited.
\<close>

theorem save_tracks_edits:
  assumes "handleSaveRequest_begin now items saving t0 c = SaveItem item"
    and "t \<in> set (ap_tabs s)" and "tab_id t = tab_id t0" and "tab_httpConfig t = Some c'"
  shows "\<exists>t' \<in> set (ap_tabs (handleSaveRequest_done t0 (Inr item) s)).
     tab_id t' = tab_id t0 \<and> tab_httpConfig t' = Some (c'\<lparr>rq_name := request_name c None\<rparr>)
     \<and> (isSavedRequestPristine t' (c'\<lparr>rq_name := request_name c None\<rparr>)
         \<longleftrightarrow> getCollectionRequestContent (c'\<lparr>rq_name := request_name c None\<rparr>) None = getCollectionRequestContent c None)
     \<and> (c' = c \<longrightarrow> isSavedRequestPristine t' (c'\<lparr>rq_name := request_name c None\<rparr>))"
proof -
  obtain iid cid where ids: "tab_linkedCollectionItemId t0 = Some iid" "iid \<noteq> []" "tab_linkedCollectionId t0 = Some cid" "cid \<noteq> []"
    using assms(1) by (auto simp: handleSaveRequest_begin_def isLinkedCollectionRequest_def split: if_splits elim!: truthy_opt.elims)
  obtain pa so ca re where item: "item = buildCollectionItemFromHttpConfig c iid cid pa so ca now None re"
    using assms(1) ids by (auto simp: handleSaveRequest_begin_def Let_def split: if_splits)
  have name: "it_name item = request_name c None" "it_id item = iid" "it_collectionId item = cid" by (simp_all add: item build_defs)
  let ?c = "c'\<lparr>rq_name := request_name c None\<rparr>"
  let ?f = "\<lambda>t. link_item item (t\<lparr>tab_httpConfig := map_option (\<lambda>c. c\<lparr>rq_name := it_name item\<rparr>) (tab_httpConfig t),
    tab_label := or_else (it_name item) (tab_label t0),
    tab_customLabel := Some (or_else (it_name item) (or_else (nullish (tab_customLabel t0) []) (tab_label t0)))\<rparr>)"
  have "?f t \<in> set (ap_tabs (handleSaveRequest_done t0 (Inr item) s))"
    using assms(2,3) by (auto simp: handleSaveRequest_done_def syncSavedCollectionBinding_def updateTab_def updateHttpConfig_def
        map_tab_def map_where_def image_iff intro!: bexI[of _ t])
  moreover have "isSavedRequestPristine (?f t) ?c \<longleftrightarrow> getCollectionRequestContent ?c None = getCollectionRequestContent c None"
    using ids name unfolding isSavedRequestPristine_def isLinkedCollectionRequest_def
    by (auto simp: link_item_def item item_signature signature_eq)
  ultimately show ?thesis using assms(3,4) name renamed_content[of c]
    by (intro bexI[of _ "?f t"]) (auto simp: link_item_def)
qed

theorem save_tracks_edits_witness:
  "let t0 = (newTab ''t'' ''e'' ''q'' Http)\<lparr>tab_linkedCollectionItemId := Some ''i'', tab_linkedCollectionId := Some ''c''\<rparr>;
       c = createDefaultRequest ''q'';
       item = buildCollectionItemFromHttpConfig c ''i'' ''c'' None 0 ''n'' ''n'' None (Some []);
       s = app_init\<lparr>ap_tabs := [t0]\<rparr>
   in handleSaveRequest_begin ''n'' (\<lambda>_. []) False t0 c = SaveItem item
     \<and> (\<exists>t' \<in> set (ap_tabs (handleSaveRequest_done t0 (Inr item) s)).
          tab_id t' = ''t'' \<and> isSavedRequestPristine t' (c\<lparr>rq_name := request_name c None\<rparr>))"
proof -
  let ?t0 = "(newTab ''t'' ''e'' ''q'' Http)\<lparr>tab_linkedCollectionItemId := Some ''i'', tab_linkedCollectionId := Some ''c''\<rparr>"
  let ?c = "createDefaultRequest ''q''"
  let ?item = "buildCollectionItemFromHttpConfig ?c ''i'' ''c'' None 0 ''n'' ''n'' None (Some [])"
  have start: "handleSaveRequest_begin ''n'' (\<lambda>_. []) False ?t0 ?c = SaveItem ?item"
    by (simp add: handleSaveRequest_begin_def isSavedRequestPristine_def isLinkedCollectionRequest_def newTab_def Let_def)
  show ?thesis
    using start save_tracks_edits[OF start, of ?t0 "app_init\<lparr>ap_tabs := [?t0]\<rparr>" ?c] by (auto simp: newTab_def Let_def)
qed

end
