(* ===== verification/CurlProps.thy ===== *)
theory CurlProps
  imports CurlGenerator SavedRequestProps
begin

text \<open>
  What a shell makes of a generated command. The shell is the POSIX one on a single command: words
  separated by spaces, text between single quotes literal, a backslash before a line break removed with
  it and before another character quoting that character. \<open>None\<close>: the text is not a single command of
  plain words, since a quote is not closed or a character outside quotes is special.
\<close>

section \<open>The shell\<close>

definition word_char :: "char \<Rightarrow> bool" where
  "word_char c \<longleftrightarrow> is_word c \<or> c \<in> set ''-./:@''"

definition end_word :: "string option \<Rightarrow> string list \<Rightarrow> string list" where
  "end_word w ws = (case w of None \<Rightarrow> ws | Some x \<Rightarrow> x # ws)"

definition add_char :: "string option \<Rightarrow> char \<Rightarrow> string option" where
  "add_char w c = Some (nullish w [] @ [c])"

text \<open>The flag says whether the position is between quotes; the word read so far, if any, follows.\<close>

fun sh_read :: "bool \<Rightarrow> string option \<Rightarrow> string \<Rightarrow> string list option" where
  "sh_read q w [] = (if q then None else Some (end_word w []))"
| "sh_read True w (c # r) = (if c = quote1 then sh_read False w r else sh_read True (add_char w c) r)"
| "sh_read False w (c # r) =
     (if c = CHR '' '' then map_option (end_word w) (sh_read False None r)
      else if c = quote1 then sh_read True (Some (nullish w [])) r
      else if c = backslash then
        (case r of
           [] \<Rightarrow> None
         | d # r' \<Rightarrow> (if d = line_feed then sh_read False w r' else sh_read False (add_char w d) r'))
      else if word_char c then sh_read False (add_char w c) r
      else None)"

definition sh_words :: "string \<Rightarrow> string list option" where
  "sh_words s = sh_read False None s"


section \<open>Reading a part\<close>

lemma read_quote_free: "quote1 \<notin> set t \<Longrightarrow> sh_read True (Some w) (t @ quote1 # r) = sh_read False (Some (w @ t)) r"
  by (induction t arbitrary: w) (auto simp: add_char_def)

lemma read_escaped: "sh_read True (Some w) (escape_quotes t @ quote1 # r) = sh_read False (Some (w @ t)) r"
proof (induction t arbitrary: w)
  case (Cons c t)
  then show ?case by (cases "c = quote1") (auto simp: escape_quotes_def js_replaceAll_def add_char_def word_char_def)
qed (simp add: escape_quotes_def js_replaceAll_def)

lemma word_char_plain: "word_char c \<Longrightarrow> c \<noteq> CHR '' '' \<and> c \<noteq> quote1 \<and> c \<noteq> backslash"
  by (auto simp: word_char_def is_word_def is_alpha_def is_upper_def is_digit_def char_between_def)

lemma read_word: "list_all word_char t \<Longrightarrow> sh_read False (Some w) (t @ r) = sh_read False (Some (w @ t)) r"
  by (induction t arbitrary: w) (auto simp: add_char_def dest: word_char_plain)

lemma read_first_word: "list_all word_char t \<Longrightarrow> t \<noteq> [] \<Longrightarrow> sh_read False None (t @ r) = sh_read False (Some t) r"
  by (cases t) (auto simp: add_char_def read_word dest: word_char_plain)

text \<open>The words a part stands for, and the parts that are safe to paste.\<close>

fun part_words :: "curl_part \<Rightarrow> string list" where
  "part_words (CurlPlain t) = js_split (CHR '' '') t"
| "part_words (CurlQuoted opt t) = (if opt = [] then [t] else [opt, t])"
| "part_words (CurlEscaped opt t) = (if opt = [] then [t] else [opt, t])"

definition plain_words :: "string \<Rightarrow> bool" where
  "plain_words t \<longleftrightarrow> (\<forall>w \<in> set (js_split (CHR '' '') t). w \<noteq> [] \<and> list_all word_char w)"

fun part_ok :: "curl_part \<Rightarrow> bool" where
  "part_ok (CurlPlain t) = plain_words t"
| "part_ok (CurlQuoted opt t) = (list_all word_char opt \<and> quote1 \<notin> set t)"
| "part_ok (CurlEscaped opt t) = list_all word_char opt"

text \<open>What can follow a word.\<close>

definition after_word :: "string \<Rightarrow> bool" where
  "after_word r \<longleftrightarrow> (\<forall>w. sh_read False (Some w) r = map_option ((#) w) (sh_read False None r))"

lemma map_option_append_Nil [simp]: "map_option (end_word None) x = x" "map_option ((@) []) x = x"
  by (cases x; simp add: end_word_def)+

lemma map_option_append_words [simp]:
  "map_option ((@) [t]) x = map_option ((#) t) x" "map_option ((@) [opt, t]) x = map_option (\<lambda>y. opt # t # y) x"
  by (cases x; simp)+

lemma end_word_Some [simp]: "end_word (Some w) = (#) w"
  by (auto simp: end_word_def)

lemma after_word_simps [simp]: "after_word (CHR '' '' # r)" "after_word []"
  by (auto simp: after_word_def end_word_def)

lemma after_wordD: "after_word r \<Longrightarrow> sh_read False (Some w) r = map_option ((#) w) (sh_read False None r)"
  by (simp add: after_word_def)

lemma read_quoted_word:
  assumes "\<And>w. sh_read True (Some w) (u @ quote1 # r) = sh_read False (Some (w @ t)) r" and "after_word r"
    and "list_all word_char opt"
  shows "sh_read False None (with_option opt u @ r)
    = map_option ((@) (if opt = [] then [t] else [opt, t])) (sh_read False None r)"
proof -
  have "sh_read False None (quote1 # u @ quote1 # r) = map_option ((#) t) (sh_read False None r)"
    using assms(1)[of "[]"] after_wordD[OF assms(2)] by simp
  then show ?thesis
    using read_first_word[OF assms(3), of "CHR '' '' # quote1 # u @ quote1 # r"]
    by (cases "opt = []") (auto simp: with_option_def option.map_comp comp_def)
qed

lemma read_plain_words:
  assumes "\<forall>w \<in> set ws. w \<noteq> [] \<and> list_all word_char w" and "ws \<noteq> []" and "after_word r"
  shows "sh_read False None (js_join '' '' ws @ r) = map_option ((@) ws) (sh_read False None r)"
  using assms(1,2)
proof (induction ws)
  case (Cons w ws)
  show ?case
  proof (cases "ws = []")
    case True
    then show ?thesis using Cons.prems read_first_word[of w r] after_wordD[OF assms(3), of w] by simp
  next
    case False
    then show ?thesis using Cons read_first_word[of w "CHR '' '' # js_join '' '' ws @ r"]
      by (simp add: js_join_Cons option.map_comp comp_def)
  qed
qed simp

lemma read_part:
  assumes "part_ok p" and "after_word r"
  shows "sh_read False None (render_part p @ r) = map_option ((@) (part_words p)) (sh_read False None r)"
proof (cases p)
  case (CurlPlain t)
  then show ?thesis using assms read_plain_words[of "js_split (CHR '' '') t" r] by (simp add: plain_words_def js_join_split)
next
  case (CurlQuoted opt t)
  then show ?thesis using assms read_quote_free[of t _ r] by (simp add: read_quoted_word)
next
  case (CurlEscaped opt t)
  then show ?thesis using assms read_escaped[of _ t r] by (simp add: read_quoted_word)
qed

abbreviation part_sep :: string where "part_sep \<equiv> '' '' @ [backslash, line_feed] @ ''  ''"

lemma read_sep: "sh_read False None (part_sep @ r) = sh_read False None r"
  by simp

lemma read_parts:
  assumes "list_all part_ok ps" and "ps \<noteq> []"
  shows "sh_words (js_join part_sep (map render_part ps)) = Some (concat (map part_words ps))"
  using assms unfolding sh_words_def
proof (induction ps)
  case (Cons p ps)
  let ?rest = "js_join part_sep (map render_part ps)"
  show ?case
  proof (cases "ps = []")
    case True
    then show ?thesis using Cons.prems read_part[of p "[]"] by (simp add: end_word_def)
  next
    case False
    have "sh_read False None (render_part p @ part_sep @ ?rest) = map_option ((@) (part_words p)) (sh_read False None (part_sep @ ?rest))"
      by (rule read_part) (use Cons.prems in auto)
    also have "\<dots> = map_option ((@) (part_words p)) (Some (concat (map part_words ps)))"
      unfolding read_sep using Cons False by simp
    finally show ?thesis using False by (simp add: js_join_Cons)
  qed
qed simp



section \<open>The request of a tab\<close>

declare JSON_stringify.simps [simp del]

definition shown_row :: "KeyValue \<Rightarrow> bool" where
  "shown_row p \<longleftrightarrow> kv_enabled p \<and> truthy (kv_key p)"

lemma curl_row_kv: "curl_row (json_of_kv p) = Inr (if shown_row p then [(kv_key p, kv_value p)] else [])"
  by (cases "kv_description p"; cases "kv_isAuto p")
    (simp_all add: curl_row_def json_of_kv_def opt_field_def shown_row_def)

lemma collect_rows: "collect (map curl_row (map json_of_kv rows)) = Inr (map (\<lambda>p. (kv_key p, kv_value p)) (filter shown_row rows))"
  by (induction rows) (simp_all add: curl_row_kv)

lemma array_rows_kv: "array_rows (map json_of_kv rows) = Inr (map (\<lambda>p. (kv_key p, kv_value p)) (filter shown_row rows))"
proof -
  have "JNull \<notin> set (map json_of_kv rows)" by (auto simp: json_of_kv_def)
  then show ?thesis unfolding array_rows_def using collect_rows[of rows] by (simp del: map_map)
qed

lemma stored_pairs_kv:
  "stored_pairs (JSON_stringify (JArr (map json_of_kv rows))) = Inr (map (\<lambda>p. (kv_key p, kv_value p)) (filter shown_row rows))"
  unfolding stored_pairs_def JSON_roundtrip[OF json_ok_rows(1)] by (simp add: array_rows_kv del: map_map)

definition tab_item :: "string \<Rightarrow> AppTab \<Rightarrow> HttpRequestConfig \<Rightarrow> CollectionItem" where
  "tab_item now tab c =
     buildCollectionItemFromHttpConfig c (tab_id tab) (nullish (tab_linkedCollectionId tab) []) None 0 now now None None"

definition shown_url :: "HttpRequestConfig \<Rightarrow> string" where
  "shown_url c = (let url = nullish (decodeURIComponent (rq_url c)) (rq_url c); rows = filter shown_row (rq_queryParams c) in
     if rows \<noteq> [] then url @ (if CHR ''?'' \<in> set url then ''&'' else ''?'') @ js_join ''&'' (map (\<lambda>p. kv_key p @ ''='' @ kv_value p) rows)
     else url)"

lemma tab_url: "curl_url (\<lambda>t. t) (tab_item now tab c) = Inr (shown_url c)"
  by (simp add: curl_url_def tab_item_def build_defs stored_pairs_kv section_or_def shown_url_def Let_def comp_def)

lemma tab_headers: "curl_headers (\<lambda>t. t) (tab_item now tab c)
    = Inr (map (\<lambda>p. curl_header (kv_key p) (kv_value p)) (filter shown_row (rq_headers c)))"
  by (simp add: curl_headers_def tab_item_def build_defs stored_pairs_kv section_or_def comp_def)

lemma tab_method: "curl_method (tab_item now tab c)
    = (if rq_method c = GET then [] else [CurlPlain (''-X '' @ method_name (rq_method c))])"
  by (cases "rq_method c") (simp_all add: curl_method_def tab_item_def build_defs or_else_def js_toUpperCase_def upper_char_def char_between_def)

lemma method_words: "plain_words (''-X '' @ method_name m)" "js_split (CHR '' '') (''-X '' @ method_name m) = [''-X'', method_name m]"
  "plain_words ''curl''" "js_split (CHR '' '') ''curl'' = [''curl'']"
  by (cases m; simp add: plain_words_def word_char_def is_word_def is_alpha_def is_upper_def is_digit_def char_between_def)+



text \<open>
  The address of the command repeats the query of a request: the workspace keeps the parameters in the
  address too (\<open>joinUrlWithParams\<close>), and the generator appends the rows to that address.
\<close>

theorem curl_repeats_query:
  assumes "rq_url c = joinUrlWithParams base (rq_queryParams c)" and "filter active_param (rq_queryParams c) \<noteq> []"
    and "\<forall>p \<in> set (rq_queryParams c). shown_row p \<longrightarrow> active_param p" and "percent \<notin> set (rq_url c)"
  shows "shown_url c = before_char (CHR ''?'') base @ ''?'' @ buildRawQueryString (rq_queryParams c)
      @ ''&'' @ buildRawQueryString (rq_queryParams c)
    \<and> curl_url (\<lambda>t. t) (tab_item now tab c) = Inr (shown_url c)"
proof -
  let ?v = "rq_queryParams c"
  have act: "filter shown_row ?v = filter active_param ?v"
    by (rule filter_cong) (use assms(3) in \<open>auto simp: shown_row_def active_param_def js_trim_def\<close>)
  have query: "js_join ''&'' (map (\<lambda>p. kv_key p @ ''='' @ kv_value p) (filter active_param ?v)) = buildRawQueryString ?v"
    by (simp add: buildRawQueryString_def)
  have "buildRawQueryString ?v \<noteq> []"
    using assms(2) unfolding buildRawQueryString_def by (cases "filter active_param ?v"; cases "tl (filter active_param ?v)") auto
  then have url: "rq_url c = before_char (CHR ''?'') base @ ''?'' @ buildRawQueryString ?v"
    unfolding assms(1) joinUrlWithParams_def by (simp add: Let_def)
  have "shown_url c = rq_url c @ ''&'' @ buildRawQueryString ?v"
    using assms(2) unfolding shown_url_def act query decode_plain[OF assms(4)] by (simp add: Let_def url query[simplified])
  then show ?thesis using url tab_url by simp
qed

theorem curl_repeats_query_witness:
  "shown_url ((createDefaultRequest ''q'')\<lparr>rq_url := ''h?a=1'', rq_queryParams := [query_row ''a'' ''1'']\<rparr>) = ''h?a=1&a=1''"
proof -
  let ?c = "(createDefaultRequest ''q'')\<lparr>rq_url := ''h?a=1'', rq_queryParams := [query_row ''a'' ''1'']\<rparr>"
  have "active_param (query_row ''a'' ''1'')" by (simp add: active_param_def query_row_def js_trim_def is_ws_def)
  then have "buildRawQueryString (rq_queryParams ?c) = ''a=1''" "filter active_param (rq_queryParams ?c) \<noteq> []"
    "\<forall>p \<in> set (rq_queryParams ?c). shown_row p \<longrightarrow> active_param p" "percent \<notin> set (rq_url ?c)" "before_char (CHR ''?'') ''h'' = ''h''"
    by (simp_all add: buildRawQueryString_def query_row_def before_char_def)
  moreover have "rq_url ?c = joinUrlWithParams ''h'' (rq_queryParams ?c)"
    using calculation by (simp add: joinUrlWithParams_def)
  ultimately show ?thesis using curl_repeats_query[of ?c "''h''"] by simp
qed

text \<open>A single quote in a header ends the quoted text: the rest of the header becomes options of the command.\<close>

lemma curl_header_injection:
  "sh_words (js_join part_sep (map render_part [CurlPlain ''curl'', curl_header ''X'' (''a'' @ [quote1] @ '' -o f '' @ [quote1]), CurlQuoted [] ''h'']))
    = Some [''curl'', ''-H'', ''X: a'', ''-o'', ''f'', [], ''h'']"
  by code_simp

text \<open>The API key of a request is never part of the command: its type is stored as \<open>apiKey\<close>.\<close>

lemma curl_omits_api_key: "rq_authType c = AuthApiKey \<Longrightarrow> curl_auth resolve (tab_item now tab c) = Inr []"
  by (simp add: curl_auth_def curl_auth_of_def tab_item_def build_defs section_or_def split: option.split)

end
