(* ===== verification/SqlFormatter.thy ===== *)
theory SqlFormatter
  imports Json
begin

text \<open>
  The SQL formatter of the query editor (\<open>src/src/lib/sqlFormatter.ts\<close>): literals and comments are
  replaced by placeholders, the rest is cut into tokens and laid out on lines, and the placeholders are
  replaced by what they stand for. Shown: the layout changes white space and the case of letters only.
\<close>

section \<open>Keywords\<close>

definition SQL_KEYWORDS :: "string list" where
  "SQL_KEYWORDS = [
     ''SELECT'', ''FROM'', ''WHERE'', ''AND'', ''OR'', ''INSERT'', ''INTO'', ''VALUES'',
     ''UPDATE'', ''SET'', ''DELETE'', ''CREATE'', ''TABLE'', ''ALTER'', ''DROP'',
     ''INDEX'', ''JOIN'', ''LEFT'', ''RIGHT'', ''INNER'', ''OUTER'', ''FULL'', ''CROSS'',
     ''ON'', ''AS'', ''IN'', ''NOT'', ''NULL'', ''IS'', ''LIKE'', ''BETWEEN'', ''EXISTS'',
     ''GROUP'', ''BY'', ''ORDER'', ''HAVING'', ''LIMIT'', ''OFFSET'', ''UNION'', ''ALL'',
     ''DISTINCT'', ''CASE'', ''WHEN'', ''THEN'', ''ELSE'', ''END'', ''IF'', ''BEGIN'',
     ''COMMIT'', ''ROLLBACK'', ''GRANT'', ''REVOKE'', ''WITH'', ''RECURSIVE'',
     ''ASC'', ''DESC'', ''CASCADE'', ''RESTRICT'', ''PRIMARY'', ''KEY'', ''FOREIGN'',
     ''REFERENCES'', ''CONSTRAINT'', ''DEFAULT'', ''CHECK'', ''UNIQUE'',
     ''RETURNING'', ''EXPLAIN'', ''ANALYZE'', ''VACUUM'', ''TRUNCATE'',
     ''OVER'', ''PARTITION'', ''WINDOW'', ''ROWS'', ''RANGE'', ''PRECEDING'', ''FOLLOWING'',
     ''CURRENT'', ''ROW'', ''UNBOUNDED'', ''FETCH'', ''FIRST'', ''NEXT'', ''ONLY'',
     ''LATERAL'', ''COALESCE'', ''NULLIF'', ''GREATEST'', ''LEAST'']"

definition NEWLINE_BEFORE :: "string list" where
  "NEWLINE_BEFORE = [
     ''SELECT'', ''FROM'', ''WHERE'', ''AND'', ''OR'', ''JOIN'', ''LEFT'', ''RIGHT'',
     ''INNER'', ''OUTER'', ''FULL'', ''CROSS'', ''ORDER'', ''GROUP'', ''HAVING'',
     ''LIMIT'', ''OFFSET'', ''UNION'', ''INSERT'', ''UPDATE'', ''DELETE'', ''SET'',
     ''VALUES'', ''RETURNING'', ''WITH'', ''ON'']"

definition INDENT_AFTER :: "string list" where
  "INDENT_AFTER = [''SELECT'', ''SET'', ''VALUES'']"


section \<open>Literals and comments\<close>

text \<open>
  What each alternative of the pattern matches, after its opening: the rest of the match and the
  remaining text. A doubled quote belongs to the literal if the literal is closed later on.
\<close>

fun match_single :: "string \<Rightarrow> (string \<times> string) option" where
  "match_single [] = None"
| "match_single (c # r) = (if c \<noteq> CHR 0x27 then map_option (\<lambda>(t, u). (c # t, u)) (match_single r)
     else (case r of
         d # r' \<Rightarrow> (if d = CHR 0x27 then (case match_single r' of Some (t, u) \<Rightarrow> Some (c # d # t, u) | None \<Rightarrow> Some ([c], r))
                    else Some ([c], r))
       | [] \<Rightarrow> Some ([c], r)))"

fun match_double :: "string \<Rightarrow> (string \<times> string) option" where
  "match_double [] = None"
| "match_double (c # r) = (if c = CHR 0x22 then Some ([c], r) else map_option (\<lambda>(t, u). (c # t, u)) (match_double r))"

fun match_comment :: "string \<Rightarrow> (string \<times> string) option" where
  "match_comment (c # d # r) = (if c = CHR ''*'' \<and> d = CHR ''/'' then Some ([c, d], r)
     else map_option (\<lambda>(t, u). (c # t, u)) (match_comment (d # r)))"
| "match_comment _ = None"

definition match_protected :: "string \<Rightarrow> (string \<times> string) option" where
  "match_protected s = (case s of
       [] \<Rightarrow> None
     | c # r \<Rightarrow>
         if c = CHR 0x27 then map_option (\<lambda>(t, u). (c # t, u)) (match_single r)
         else if c = CHR 0x22 then map_option (\<lambda>(t, u). (c # t, u)) (match_double r)
         else (case r of
             d # r' \<Rightarrow>
               if c = CHR ''-'' \<and> d = CHR ''-'' then
                 Some (c # d # takeWhile (\<lambda>x. x \<noteq> CHR 0x0A) r', dropWhile (\<lambda>x. x \<noteq> CHR 0x0A) r')
               else if c = CHR ''/'' \<and> d = CHR ''*'' then map_option (\<lambda>(t, u). (c # d # t, u)) (match_comment r')
               else None
           | [] \<Rightarrow> None))"

lemma match_single_length: "match_single s = Some (t, u) \<Longrightarrow> length u < length s"
  by (induction s arbitrary: t u rule: match_single.induct) (fastforce split: if_splits list.splits option.splits)+

lemma match_double_length: "match_double s = Some (t, u) \<Longrightarrow> length u < length s"
  by (induction s arbitrary: t u rule: match_double.induct) (fastforce split: if_splits)+

lemma match_comment_length: "match_comment s = Some (t, u) \<Longrightarrow> length u < length s"
  by (induction s arbitrary: t u rule: match_comment.induct) (fastforce split: if_splits)+

lemma match_protected_length:
  assumes "match_protected s = Some (t, u)"
  shows "length u < length s"
proof (cases s)
  case Nil
  then show ?thesis using assms by (simp add: match_protected_def)
next
  case (Cons c r)
  note m = assms[unfolded match_protected_def Cons list.case]
  show ?thesis
  proof (cases "c = CHR 0x27 \<or> c = CHR 0x22")
    case True
    then have "(\<exists>t'. match_single r = Some (t', u)) \<or> (\<exists>t'. match_double r = Some (t', u))" using m by (auto split: if_splits)
    then show ?thesis using Cons match_single_length match_double_length by fastforce
  next
    case False
    then obtain d r' where r: "r = d # r'" using m by (cases r) auto
    then have "u = dropWhile (\<lambda>x. x \<noteq> CHR 0x0A) r' \<or> (\<exists>t'. match_comment r' = Some (t', u))"
      using m False by (auto split: if_splits)
    then show ?thesis using Cons r match_comment_length[of r'] length_dropWhile_le[of "\<lambda>x. x \<noteq> CHR 0x0A" r'] by fastforce
  qed
qed

definition placeholder :: "nat \<Rightarrow> string" where
  "placeholder idx = ''__PROTECTED_'' @ nat_to_string idx @ ''__''"

text \<open>The text with placeholders and the protected parts; the argument counts the parts before.\<close>

function protect :: "nat \<Rightarrow> string \<Rightarrow> string \<times> string list" where
  "protect n s = (case s of
       [] \<Rightarrow> ([], [])
     | c # r \<Rightarrow> (case match_protected s of
         Some (t, u) \<Rightarrow> (let (p, parts) = protect (Suc n) u in (placeholder n @ p, t # parts))
       | None \<Rightarrow> (let (p, parts) = protect n r in (c # p, parts))))"
  by pat_completeness auto
termination
  by (relation "measure (\<lambda>(n, s). length s)") (auto dest: match_protected_length)

declare protect.simps [simp del]


section \<open>Tokens\<close>

text \<open>\<open>s.replace(/\s+/g, " ")\<close>\<close>

fun collapse_ws :: "string \<Rightarrow> string" where
  "collapse_ws (c # d # r) = (if is_ws c \<and> is_ws d then collapse_ws (d # r) else (if is_ws c then CHR '' '' else c) # collapse_ws (d # r))"
| "collapse_ws [c] = [if is_ws c then CHR '' '' else c]"
| "collapse_ws [] = []"

text \<open>Maximal runs of characters that belong together.\<close>

fun split_runs :: "(char \<Rightarrow> char \<Rightarrow> bool) \<Rightarrow> string \<Rightarrow> string list" where
  "split_runs P (c # d # r) = (case split_runs P (d # r) of
     w # ws \<Rightarrow> if P c d then (c # w) # ws else [c] # w # ws | [] \<Rightarrow> [[c]])"
| "split_runs P [c] = [[c]]"
| "split_runs P [] = []"

definition is_separator :: "char \<Rightarrow> bool" where
  "is_separator c \<longleftrightarrow> c \<in> set ''(),;''"

definition same_word :: "char \<Rightarrow> char \<Rightarrow> bool" where
  "same_word c d \<longleftrightarrow> is_word c = is_word d"

definition same_chunk :: "char \<Rightarrow> char \<Rightarrow> bool" where
  "same_chunk c d \<longleftrightarrow> \<not> is_separator c \<and> \<not> is_separator d \<and> is_ws c = is_ws d"

definition sql_tokens :: "string \<Rightarrow> string list" where
  "sql_tokens processed = concat (map (split_runs same_chunk) (split_runs same_word processed))"


section \<open>Layout\<close>

record format_state =
  fs_lines :: "string list"
  fs_currentLine :: string
  fs_indentLevel :: nat
  fs_prevKeyword :: string

definition ends_with :: "string \<Rightarrow> char \<Rightarrow> bool" where
  "ends_with s c \<longleftrightarrow> s \<noteq> [] \<and> last s = c"

definition indent :: "nat \<Rightarrow> string" where
  "indent n = concat (replicate n ''  '')"

definition blank :: "string \<Rightarrow> bool" where
  "blank s \<longleftrightarrow> \<not> truthy (js_trim s)"

definition break_line :: "string \<Rightarrow> format_state \<Rightarrow> format_state" where
  "break_line upper s = (if upper \<in> set NEWLINE_BEFORE \<and> \<not> blank (fs_currentLine s) then
       let level = (if upper \<in> set [''FROM'', ''WHERE'', ''ORDER'', ''GROUP'', ''HAVING'', ''LIMIT'', ''UNION'', ''RETURNING'']
             then 0 else fs_indentLevel s)
       in s\<lparr>fs_lines := fs_lines s @ [fs_currentLine s], fs_indentLevel := level, fs_currentLine := indent level\<rparr>
     else s)"

definition space_after :: "string \<Rightarrow> format_state \<Rightarrow> format_state" where
  "space_after trimmed s = (if \<not> ends_with (fs_currentLine s) (CHR '' '') \<and> trimmed \<noteq> ''('' \<and> trimmed \<noteq> '')''
     then s\<lparr>fs_currentLine := fs_currentLine s @ '' ''\<rparr> else s)"

definition format_token :: "format_state \<Rightarrow> string \<Rightarrow> format_state" where
  "format_token s0 token =
     (let trimmed = js_trim token; upper = js_toUpperCase trimmed in
      if \<not> truthy trimmed then s0
      else let s = break_line upper s0; line = fs_currentLine s in
        if upper \<in> set SQL_KEYWORDS then
          space_after trimmed (s\<lparr>fs_currentLine := line @ upper,
            fs_indentLevel := (if upper \<in> set INDENT_AFTER then 1 else fs_indentLevel s), fs_prevKeyword := upper\<rparr>)
        else if trimmed = ''('' then space_after trimmed (s\<lparr>fs_currentLine := line @ '' (''\<rparr>)
        else if trimmed = '')'' then space_after trimmed (s\<lparr>fs_currentLine := line @ '')''\<rparr>)
        else if trimmed = '','' then
          (if fs_prevKeyword s = ''SELECT'' \<or> 0 < fs_indentLevel s
           then s\<lparr>fs_lines := fs_lines s @ [line @ '',''], fs_currentLine := indent (fs_indentLevel s)\<rparr>
           else space_after trimmed (s\<lparr>fs_currentLine := line @ '',''\<rparr>))
        else if trimmed = '';'' then
          s\<lparr>fs_lines := fs_lines s @ [line @ '';'', []], fs_currentLine := [], fs_indentLevel := 0\<rparr>
        else space_after trimmed (s\<lparr>fs_currentLine :=
          line @ (if ends_with line (CHR '' '') \<or> ends_with line (CHR ''('') \<or> blank line then trimmed else '' '' @ trimmed)\<rparr>))"

definition js_trimEnd :: "string \<Rightarrow> string" where
  "js_trimEnd s = rev (dropWhile is_ws (rev s))"

definition format_lines :: "string list \<Rightarrow> string list" where
  "format_lines tokens = (let s = foldl format_token \<lparr> fs_lines = [], fs_currentLine = [], fs_indentLevel = 0, fs_prevKeyword = [] \<rparr> tokens in
     if \<not> blank (fs_currentLine s) then fs_lines s @ [fs_currentLine s] else fs_lines s)"

definition layout_sql :: "string \<Rightarrow> string" where
  "layout_sql processed = js_join [CHR 0x0A] (map js_trimEnd (format_lines (sql_tokens (js_trim (collapse_ws processed)))))"


section \<open>Restoring\<close>

text \<open>The replacement text of \<open>s.replace(pattern, replacement)\<close> for a pattern that is a string.\<close>

fun expand_replacement :: "string \<Rightarrow> string \<Rightarrow> string \<Rightarrow> string \<Rightarrow> string" where
  "expand_replacement pre m post (c # d # r) = (if c = CHR ''$'' then
       (if d = CHR ''$'' then c # expand_replacement pre m post r
        else if d = CHR ''&'' then m @ expand_replacement pre m post r
        else if d = CHR 0x60 then pre @ expand_replacement pre m post r
        else if d = CHR 0x27 then post @ expand_replacement pre m post r
        else c # expand_replacement pre m post (d # r))
     else c # expand_replacement pre m post (d # r))"
| "expand_replacement pre m post [c] = [c]"
| "expand_replacement pre m post [] = []"

text \<open>The first occurrence: what stands before and after it.\<close>

fun first_occurrence :: "string \<Rightarrow> string \<Rightarrow> (string \<times> string) option" where
  "first_occurrence p [] = (if p = [] then Some ([], []) else None)"
| "first_occurrence p (c # r) = (if take (length p) (c # r) = p then Some ([], drop (length p) (c # r))
     else map_option (\<lambda>(a, b). (c # a, b)) (first_occurrence p r))"

definition js_replace_first :: "string \<Rightarrow> string \<Rightarrow> string \<Rightarrow> string" where
  "js_replace_first p replacement s = (case first_occurrence p s of
       None \<Rightarrow> s
     | Some (a, b) \<Rightarrow> a @ expand_replacement a p b replacement @ b)"

fun restore_parts :: "nat \<Rightarrow> string list \<Rightarrow> string \<Rightarrow> string" where
  "restore_parts i [] result = result"
| "restore_parts i (x # xs) result = restore_parts (Suc i) xs (js_replace_first (placeholder i) x result)"

definition formatSql :: "string \<Rightarrow> string" where
  "formatSql sql = (if blank sql then sql
     else let (processed, protected_parts) = protect 0 sql in js_trim (restore_parts 0 protected_parts (layout_sql processed)))"


section \<open>Layout changes white space and case only\<close>

definition squeeze :: "string \<Rightarrow> string" where
  "squeeze s = map upper_char (filter (\<lambda>c. \<not> is_ws c) s)"

lemma squeeze_simps [simp]: "squeeze [] = []" "squeeze (c # s) = (if is_ws c then squeeze s else upper_char c # squeeze s)"
  "squeeze (s @ t) = squeeze s @ squeeze t"
  by (simp_all add: squeeze_def)

lemma squeeze_drop: "squeeze (dropWhile is_ws s) = squeeze s" "squeeze (rev (dropWhile is_ws (rev s))) = squeeze s"
proof -
  show d: "squeeze (dropWhile is_ws s) = squeeze s" for s by (induction s) auto
  have r: "squeeze (rev s) = rev (squeeze s)" for s by (simp add: squeeze_def rev_filter rev_map)
  show "squeeze (rev (dropWhile is_ws (rev s))) = squeeze s" unfolding r d by simp
qed

lemma squeeze_trim [simp]: "squeeze (js_trim s) = squeeze s" "squeeze (js_trimEnd s) = squeeze s"
  by (simp_all add: js_trim_def js_trimEnd_def squeeze_drop)

lemma is_ws_space [simp]: "is_ws (CHR '' '')" "is_ws (CHR 0x0A)"
  by (simp_all add: is_ws_def)

lemma squeeze_collapse [simp]: "squeeze (collapse_ws s) = squeeze s"
  by (induction s rule: collapse_ws.induct) auto

lemma concat_split_runs: "concat (split_runs P s) = s"
  by (induction P s rule: split_runs.induct) (auto split: list.split)

lemma concat_sql_tokens: "concat (sql_tokens s) = s"
proof -
  have "concat (concat (map (split_runs P) ws)) = concat ws" for P ws
    by (induction ws) (simp_all add: concat_split_runs)
  then show ?thesis by (simp add: sql_tokens_def concat_split_runs)
qed

lemma squeeze_indent [simp]: "squeeze (indent n) = []"
  unfolding indent_def by (induction n) auto

lemma upper_idem [simp]: "upper_char (upper_char c) = upper_char c"
  by (cases c) (auto simp: upper_char_def char_between_def split: if_splits)


lemma upper_ws [simp]: "is_ws (upper_char c) \<longleftrightarrow> is_ws c"
proof -
  have "is_ws c \<Longrightarrow> upper_char c = c" by (auto simp: is_ws_def upper_char_def char_between_def)
  moreover have "\<not> is_ws c \<Longrightarrow> \<not> is_ws (upper_char c)" by (cases c) (auto simp: upper_char_def char_between_def is_ws_def)
  ultimately show ?thesis by metis
qed

lemma squeeze_upper [simp]: "squeeze (js_toUpperCase s) = squeeze s"
  by (induction s) (simp_all add: js_toUpperCase_def)

text \<open>The text laid out so far.\<close>

definition laid_out :: "format_state \<Rightarrow> string" where
  "laid_out s = squeeze (concat (fs_lines s) @ fs_currentLine s)"

lemma laid_out_break: "laid_out (break_line u s) = laid_out s"
  by (simp add: laid_out_def break_line_def Let_def)

lemma laid_out_space: "laid_out (space_after t s) = laid_out s"
  by (simp add: laid_out_def space_after_def)

lemma laid_out_put: "laid_out (s\<lparr>fs_currentLine := fs_currentLine s @ t, fs_indentLevel := l, fs_prevKeyword := k\<rparr>) = laid_out s @ squeeze t"
  "laid_out (s\<lparr>fs_currentLine := fs_currentLine s @ t\<rparr>) = laid_out s @ squeeze t"
  "laid_out (s\<lparr>fs_lines := fs_lines s @ [fs_currentLine s @ t], fs_currentLine := indent n\<rparr>) = laid_out s @ squeeze t"
  "laid_out (s\<lparr>fs_lines := fs_lines s @ [fs_currentLine s @ t, []], fs_currentLine := [], fs_indentLevel := l\<rparr>) = laid_out s @ squeeze t"
  by (simp_all add: laid_out_def)

lemma laid_out_token: "laid_out (format_token s0 t) = laid_out s0 @ squeeze t"
proof -
  define trimmed where "trimmed = js_trim t"
  define upper where "upper = js_toUpperCase trimmed"
  define s where "s = break_line upper s0"
  have t: "squeeze t = squeeze trimmed" "squeeze upper = squeeze trimmed" by (simp_all add: trimmed_def upper_def)
  have s: "laid_out s0 = laid_out s" by (simp add: s_def laid_out_break)
  have token: "format_token s0 t = (if \<not> truthy trimmed then s0
      else if upper \<in> set SQL_KEYWORDS then
          space_after trimmed (s\<lparr>fs_currentLine := fs_currentLine s @ upper,
            fs_indentLevel := (if upper \<in> set INDENT_AFTER then 1 else fs_indentLevel s), fs_prevKeyword := upper\<rparr>)
      else if trimmed = ''('' then space_after trimmed (s\<lparr>fs_currentLine := fs_currentLine s @ '' (''\<rparr>)
      else if trimmed = '')'' then space_after trimmed (s\<lparr>fs_currentLine := fs_currentLine s @ '')''\<rparr>)
      else if trimmed = '','' then
          (if fs_prevKeyword s = ''SELECT'' \<or> 0 < fs_indentLevel s
           then s\<lparr>fs_lines := fs_lines s @ [fs_currentLine s @ '',''], fs_currentLine := indent (fs_indentLevel s)\<rparr>
           else space_after trimmed (s\<lparr>fs_currentLine := fs_currentLine s @ '',''\<rparr>))
      else if trimmed = '';'' then
          s\<lparr>fs_lines := fs_lines s @ [fs_currentLine s @ '';'', []], fs_currentLine := [], fs_indentLevel := 0\<rparr>
      else space_after trimmed (s\<lparr>fs_currentLine := fs_currentLine s
          @ (if ends_with (fs_currentLine s) (CHR '' '') \<or> ends_with (fs_currentLine s) (CHR ''('') \<or> blank (fs_currentLine s)
             then trimmed else '' '' @ trimmed)\<rparr>))"
    unfolding format_token_def Let_def trimmed_def upper_def s_def ..
  show ?thesis
    unfolding token t(1) by (simp only: laid_out_space laid_out_put t(2) s split: if_split) simp
qed

lemma laid_out_foldl: "laid_out (foldl format_token s ts) = laid_out s @ squeeze (concat ts)"
  by (induction ts arbitrary: s) (simp_all add: laid_out_token)

lemma squeeze_blank: "blank l \<Longrightarrow> squeeze l = []"
  using squeeze_trim(1)[of l] by (simp add: blank_def)

lemma squeeze_join: "squeeze (js_join [CHR 0x0A] (map js_trimEnd ls)) = squeeze (concat ls)"
proof (induction ls)
  case (Cons l ls)
  then show ?case by (cases "ls = []") (simp_all add: js_join_Cons)
qed simp

lemma squeeze_lines: "squeeze (concat (format_lines ts)) = squeeze (concat ts)"
  using laid_out_foldl[of "\<lparr> fs_lines = [], fs_currentLine = [], fs_indentLevel = 0, fs_prevKeyword = [] \<rparr>" ts]
  by (auto simp: format_lines_def Let_def laid_out_def squeeze_blank)

lemma layout_squeeze: "squeeze (layout_sql processed) = squeeze processed"
  by (simp add: layout_sql_def squeeze_join squeeze_lines concat_sql_tokens)

lemma nothing_protected: "snd (protect n s) = [] \<Longrightarrow> fst (protect n s) = s"
proof (induction n s rule: protect.induct)
  case (1 n s)
  show ?case
  proof (cases s)
    case (Cons c r)
    then show ?thesis using 1 by (subst protect.simps, subst (asm) (3) protect.simps) (auto split: option.splits prod.splits)
  qed (simp add: protect.simps)
qed


section \<open>Properties\<close>

text \<open>\<^bold>\<open>C33\<close>. 
  A statement without literals and comments is formatted by changing white space and the case of
  letters only: the other characters stay, in order. And whatever is formatted, the layout itself
  (before the literals and comments are put back) changes nothing else.
\<close>

theorem formatter_keeps_text:
  assumes "snd (protect 0 sql) = []"
  shows "squeeze (formatSql sql) = squeeze sql \<and> squeeze (layout_sql other) = squeeze other"
  using assms nothing_protected[OF assms] by (simp add: formatSql_def layout_squeeze case_prod_unfold)

theorem formatter_keeps_text_witness:
  "snd (protect 0 ''select a, b from t'') = [] \<and> squeeze (formatSql ''select a, b from t'') = ''SELECTA,BFROMT''"
proof -
  have none: "snd (protect 0 ''select a, b from t'') = []" by code_simp
  have "squeeze ''select a, b from t'' = ''SELECTA,BFROMT''" by code_simp
  then show ?thesis using none formatter_keeps_text[OF none] by simp
qed

text \<open>
  Putting a literal back interprets the dollar patterns of \<open>String.replace\<close>: a literal that ends with a
  dollar sign loses its closing quote and repeats the rest of the statement.
\<close>

lemma formatter_dollar_literal:
  "formatSql (''SELECT '' @ [CHR 0x27] @ ''US$'' @ [CHR 0x27] @ '' FROM t'')
    = ''SELECT '' @ [CHR 0x27] @ ''US'' @ [CHR 0x0A] @ ''FROM t'' @ [CHR 0x0A] @ ''FROM t''"
  by code_simp

text \<open>The line break that ends a comment is lost, and what follows on the line becomes part of the comment.\<close>

lemma formatter_comment_swallows:
  "formatSql (''UPDATE t SET a = 1 -- one'' @ [CHR 0x0A] @ '' * 2'') = ''UPDATE t'' @ [CHR 0x0A] @ ''SET a = 1 -- one * 2''"
  by code_simp

end
