(* ===== verification/SerialEvents.thy ===== *)
theory SerialEvents
  imports Interfaces
begin

text \<open>
  The buffer of serial port events (\<open>src/src/services/serialService.ts\<close>): events are numbered, kept in
  bounded buffers per port and per opening of the port, delivered to the panels that listen, and
  replayed to a panel that comes back. Maps are association lists in insertion order. The listeners'
  callbacks are represented by what they are called with.
\<close>

section \<open>Data\<close>

datatype SerialEventType = SerialOpened | SerialData | SerialClosed | SerialError | SerialSignalsChanged

record SerialSignals =
  sg_cts :: bool
  sg_dsr :: bool
  sg_ri :: bool
  sg_cd :: bool

record SerialEvent =
  se_portId :: string
  se_generation :: string
  se_eventType :: SerialEventType
  se_data :: "string option"
  se_rawHex :: "string option"
  se_size :: "int option"
  se_timestamp :: string
  se_signals :: "SerialSignals option"

definition MAX_BUFFERED_SERIAL_PORTS :: nat where "MAX_BUFFERED_SERIAL_PORTS = 16"
definition MAX_BUFFERED_SERIAL_GENERATIONS :: nat where "MAX_BUFFERED_SERIAL_GENERATIONS = 4"
definition MAX_BUFFERED_SERIAL_EVENTS_PER_GENERATION :: nat where "MAX_BUFFERED_SERIAL_EVENTS_PER_GENERATION = 256"
definition MAX_BUFFERED_SERIAL_BYTES_PER_GENERATION :: int where "MAX_BUFFERED_SERIAL_BYTES_PER_GENERATION = 1024 * 1024"
definition MAX_BUFFERED_SERIAL_TOTAL_BYTES :: int where "MAX_BUFFERED_SERIAL_TOTAL_BYTES = 8 * 1024 * 1024"
definition MAX_SERIAL_CONSUMER_CURSORS :: nat where "MAX_SERIAL_CONSUMER_CURSORS = 128"

record SequencedSerialEvent =
  sq_sequence :: nat
  sq_event :: SerialEvent
  sq_bytes :: int
  sq_activityRecorded :: bool

record SerialGenerationBuffer =
  gb_events :: "SequencedSerialEvent list"
  gb_bytes :: int

type_synonym port_buffers = "SerialGenerationBuffer dict"

record SerialEventSubscriber =
  sb_key :: nat
  sb_consumerId :: string
  sb_portId :: string

record serial_state =
  sl_subscribers :: "SerialEventSubscriber list"
  sl_buffers :: "port_buffers dict"
  sl_cursors :: "nat dict"
  sl_sequence :: nat
  sl_totalBytes :: int

definition serial_init :: serial_state where
  "serial_init = \<lparr> sl_subscribers = [], sl_buffers = [], sl_cursors = [], sl_sequence = 0, sl_totalBytes = 0 \<rparr>"

record serial_delivery =
  dl_consumerId :: string
  dl_sequence :: nat
  dl_event :: SerialEvent
  dl_replayed :: bool
  dl_recordActivity :: bool


section \<open>Buffers\<close>

definition serialPayloadBytes :: "SerialEvent \<Rightarrow> int" where
  "serialPayloadBytes event =
     (let payloadBytes = (if truthy_opt (se_rawHex event)
            then (int (length (filter (\<lambda>c. \<not> is_ws c) (the (se_rawHex event)))) + 1) div 2
            else int (length (nullish (se_data event) [])));
          declaredBytes = (case se_size event of None \<Rightarrow> 0 | Some n \<Rightarrow> max 0 n)
      in max payloadBytes declaredBytes)"

text \<open>Deleting a key and setting it again moves it to the end.\<close>

definition to_end :: "string \<Rightarrow> 'v \<Rightarrow> 'v dict \<Rightarrow> 'v dict" where
  "to_end k v d = AList.delete k d @ [(k, v)]"

definition rememberConsumerCursor :: "string \<Rightarrow> nat \<Rightarrow> nat dict \<Rightarrow> nat dict" where
  "rememberConsumerCursor consumerId sequence cursors =
     (let d = to_end consumerId sequence cursors in drop (length d - MAX_SERIAL_CONSUMER_CURSORS) d)"

definition port_bytes :: "port_buffers \<Rightarrow> int" where
  "port_bytes gs = sum_list (map (\<lambda>p. gb_bytes (snd p)) gs)"

text \<open>The entry of the port, last in the map; the oldest port goes when there are too many.\<close>

definition open_port :: "string \<Rightarrow> serial_state \<Rightarrow> port_buffers \<times> serial_state" where
  "open_port portId s = (case map_of (sl_buffers s) portId of
       Some gs \<Rightarrow> (gs, s\<lparr>sl_buffers := to_end portId gs (sl_buffers s)\<rparr>)
     | None \<Rightarrow>
         (let s' = (if MAX_BUFFERED_SERIAL_PORTS \<le> length (sl_buffers s)
                    then (case sl_buffers s of
                            (p, gs) # _ \<Rightarrow> s\<lparr>sl_totalBytes := sl_totalBytes s - port_bytes gs, sl_buffers := AList.delete p (sl_buffers s)\<rparr>
                          | [] \<Rightarrow> s)
                    else s)
          in ([], s'\<lparr>sl_buffers := sl_buffers s' @ [(portId, [])]\<rparr>)))"

definition open_generation :: "string \<Rightarrow> port_buffers \<Rightarrow> int \<Rightarrow> SerialGenerationBuffer \<times> port_buffers \<times> int" where
  "open_generation generation gs tot = (case map_of gs generation of
       Some b \<Rightarrow> (b, to_end generation b gs, tot)
     | None \<Rightarrow>
         (let (gs', tot') = (if MAX_BUFFERED_SERIAL_GENERATIONS \<le> length gs
                    then (case gs of (g, b) # _ \<Rightarrow> (AList.delete g gs, tot - gb_bytes b) | [] \<Rightarrow> (gs, tot))
                    else (gs, tot));
              b = \<lparr> gb_events = [], gb_bytes = 0 \<rparr>
          in (b, gs' @ [(generation, b)], tot')))"

fun make_room :: "int \<Rightarrow> SequencedSerialEvent list \<Rightarrow> int \<Rightarrow> int \<Rightarrow> SequencedSerialEvent list \<times> int \<times> int" where
  "make_room n [] bytes tot = ([], bytes, tot)"
| "make_room n (x # xs) bytes tot =
     (if MAX_BUFFERED_SERIAL_EVENTS_PER_GENERATION \<le> length (x # xs) \<or> MAX_BUFFERED_SERIAL_BYTES_PER_GENERATION < bytes + n
      then make_room n xs (bytes - sq_bytes x) (tot - sq_bytes x)
      else (x # xs, bytes, tot))"

definition push_event :: "SequencedSerialEvent \<Rightarrow> SerialGenerationBuffer \<Rightarrow> int \<Rightarrow> SerialGenerationBuffer \<times> int" where
  "push_event item b tot = (let (es, bytes, tot') = make_room (sq_bytes item) (gb_events b) (gb_bytes b) tot in
     (\<lparr> gb_events = es @ [item], gb_bytes = bytes + sq_bytes item \<rparr>, tot' + sq_bytes item))"

text \<open>The oldest event that is first in its buffer, with its port and generation.\<close>

definition first_events :: "port_buffers dict \<Rightarrow> (string \<times> string \<times> SequencedSerialEvent) list" where
  "first_events d = concat (map (\<lambda>(p, gs). concat (map (\<lambda>(g, b).
     case gb_events b of [] \<Rightarrow> [] | x # _ \<Rightarrow> [(p, g, x)]) gs)) d)"

fun oldest_of :: "(string \<times> string \<times> SequencedSerialEvent) list \<Rightarrow> (string \<times> string \<times> SequencedSerialEvent) option" where
  "oldest_of [] = None"
| "oldest_of (x # xs) = (case oldest_of xs of
     None \<Rightarrow> Some x
   | Some y \<Rightarrow> if sq_sequence (snd (snd y)) < sq_sequence (snd (snd x)) then Some y else Some x)"

text \<open>Removing the first event of a buffer; an empty buffer and a port without buffers go.\<close>

definition shift_event :: "string \<Rightarrow> string \<Rightarrow> port_buffers dict \<Rightarrow> (port_buffers dict \<times> int) option" where
  "shift_event p g d = (case map_of d p of
       None \<Rightarrow> None
     | Some gs \<Rightarrow> (case map_of gs g of
         None \<Rightarrow> None
       | Some b \<Rightarrow> (case gb_events b of
           [] \<Rightarrow> None
         | x # xs \<Rightarrow>
             (let gs' = (if xs = [] then AList.delete g gs
                else AList.update g \<lparr> gb_events = xs, gb_bytes = gb_bytes b - sq_bytes x \<rparr> gs)
              in Some (if gs' = [] then AList.delete p d else AList.update p gs' d, sq_bytes x)))))"

definition event_count :: "port_buffers dict \<Rightarrow> nat" where
  "event_count d = sum_list (map (\<lambda>p. sum_list (map (\<lambda>q. length (gb_events (snd q))) (snd p))) d)"

lemma sum_update:
  fixes f :: "'v \<Rightarrow> 'n::ab_group_add"
  shows "map_of d k = Some v \<Longrightarrow> sum_list (map (\<lambda>p. f (snd p)) (AList.update k w d)) = sum_list (map (\<lambda>p. f (snd p)) d) - f v + f w"
  by (induction d) (auto split: if_splits simp: algebra_simps)

lemma sum_update_nat:
  fixes f :: "'v \<Rightarrow> nat"
  shows "map_of d k = Some v \<Longrightarrow> sum_list (map (\<lambda>p. f (snd p)) (AList.update k w d)) + f v = sum_list (map (\<lambda>p. f (snd p)) d) + f w"
  by (induction d) (auto split: if_splits)

lemma sum_delete_le:
  fixes f :: "'v \<Rightarrow> nat"
  shows "map_of d k = Some v \<Longrightarrow> sum_list (map (\<lambda>p. f (snd p)) (AList.delete k d)) + f v \<le> sum_list (map (\<lambda>p. f (snd p)) d)"
proof (induction d)
  case (Cons p d)
  have le: "sum_list (map (\<lambda>p. f (snd p)) (AList.delete k d)) \<le> sum_list (map (\<lambda>p. f (snd p)) d)" for d
    by (induction d) (auto simp: AList.delete_eq)
  show ?case using Cons le[of d] by (cases "fst p = k") (auto simp: AList.delete_eq)
qed simp

lemma shift_event_count:
  assumes "shift_event p g d = Some (d', n)"
  shows "event_count d' < event_count d"
proof -
  let ?l = "\<lambda>b. length (gb_events b)"
  let ?f = "\<lambda>gs. sum_list (map (\<lambda>q. ?l (snd q)) gs)"
  from assms obtain gs b x xs where gs: "map_of d p = Some gs" and b: "map_of gs g = Some b" and x: "gb_events b = x # xs"
    by (auto simp: shift_event_def split: option.splits list.splits)
  define gs' where "gs' = (if xs = [] then AList.delete g gs else AList.update g \<lparr> gb_events = xs, gb_bytes = gb_bytes b - sq_bytes x \<rparr> gs)"
  have less: "?f gs' < ?f gs"
    using sum_delete_le[OF b, of ?l] sum_update_nat[OF b, of ?l "\<lparr> gb_events = xs, gb_bytes = gb_bytes b - sq_bytes x \<rparr>"] x
    by (auto simp: gs'_def)
  have d': "d' = (if gs' = [] then AList.delete p d else AList.update p gs' d)"
    using assms gs b x unfolding gs'_def by (auto simp: shift_event_def Let_def)
  show ?thesis
    using less sum_delete_le[OF gs, of ?f] sum_update_nat[OF gs, of ?f gs'] unfolding d' event_count_def by auto
qed

function evict_oldest :: "port_buffers dict \<Rightarrow> int \<Rightarrow> port_buffers dict \<times> int" where
  "evict_oldest d tot = (if tot \<le> MAX_BUFFERED_SERIAL_TOTAL_BYTES then (d, tot)
     else (case oldest_of (first_events d) of
         None \<Rightarrow> (d, tot)
       | Some (p, g, _) \<Rightarrow> (case shift_event p g d of
           None \<Rightarrow> (d, tot)
         | Some (d', n) \<Rightarrow> evict_oldest d' (tot - n))))"
  by pat_completeness auto
termination
  by (relation "measure (\<lambda>(d, tot). event_count d)") (auto dest: shift_event_count)

declare evict_oldest.simps [simp del]

definition rememberSerialEvent :: "SequencedSerialEvent \<Rightarrow> serial_state \<Rightarrow> serial_state" where
  "rememberSerialEvent item s0 =
     (let portId = se_portId (sq_event item); generation = se_generation (sq_event item);
          (gs, s) = open_port portId s0;
          (b, gs', tot) = open_generation generation gs (sl_totalBytes s);
          s = s\<lparr>sl_buffers := AList.update portId gs' (sl_buffers s), sl_totalBytes := tot\<rparr>
      in if MAX_BUFFERED_SERIAL_BYTES_PER_GENERATION < sq_bytes item then s
         else let (b', tot') = push_event item b tot;
                  (d, tot'') = evict_oldest (AList.update portId (AList.update generation b' gs') (sl_buffers s)) tot'
              in s\<lparr>sl_buffers := d, sl_totalBytes := tot''\<rparr>)"


section \<open>Delivery\<close>

definition bufferedEventsAfter :: "string \<Rightarrow> nat \<Rightarrow> serial_state \<Rightarrow> SequencedSerialEvent list" where
  "bufferedEventsAfter portId sequence s = (case map_of (sl_buffers s) portId of
       None \<Rightarrow> []
     | Some gs \<Rightarrow> sort_key sq_sequence (filter (\<lambda>x. sequence < sq_sequence x) (concat (map (\<lambda>p. gb_events (snd p)) gs))))"

text \<open>The flag of an event object that is shared by the buffer and the delivery loop.\<close>

definition mark_recorded :: "nat \<Rightarrow> port_buffers dict \<Rightarrow> port_buffers dict" where
  "mark_recorded n d = map (\<lambda>(p, gs). (p, map (\<lambda>(g, b). (g, b\<lparr>gb_events :=
     map (\<lambda>x. if sq_sequence x = n then x\<lparr>sq_activityRecorded := True\<rparr> else x) (gb_events b)\<rparr>)) gs)) d"

definition deliver :: "bool \<Rightarrow> bool \<Rightarrow> SequencedSerialEvent \<Rightarrow> string \<Rightarrow> serial_delivery" where
  "deliver replayed recordActivity item c = \<lparr> dl_consumerId = c, dl_sequence = sq_sequence item, dl_event = sq_event item,
     dl_replayed = replayed, dl_recordActivity = recordActivity \<rparr>"

definition dispatchSerialEvent :: "SerialEvent \<Rightarrow> serial_state \<Rightarrow> serial_state \<times> serial_delivery list" where
  "dispatchSerialEvent event s0 =
     (let n = Suc (sl_sequence s0);
          item = \<lparr> sq_sequence = n, sq_event = event,
            sq_bytes = (if se_eventType event = SerialData then serialPayloadBytes event else 0), sq_activityRecorded = False \<rparr>;
          s = rememberSerialEvent item (s0\<lparr>sl_sequence := n\<rparr>)
      in case filter (\<lambda>x. sb_portId x = se_portId event) (sl_subscribers s) of
           [] \<Rightarrow> (s, [])
         | x # xs \<Rightarrow>
             (s\<lparr>sl_buffers := mark_recorded n (sl_buffers s),
                sl_cursors := foldl (\<lambda>d y. rememberConsumerCursor (sb_consumerId y) n d) (sl_cursors s) (x # xs)\<rparr>,
              deliver False True item (sb_consumerId x) # map (\<lambda>y. deliver False False item (sb_consumerId y)) xs))"

text \<open>\<open>onSerialEvent\<close> once the listener is there; the key identifies the subscriber object.\<close>

definition onSerialEvent :: "nat \<Rightarrow> string \<Rightarrow> string \<Rightarrow> serial_state \<Rightarrow> serial_state \<times> serial_delivery list" where
  "onSerialEvent key consumerId portId s =
     (let items = bufferedEventsAfter portId (nullish (map_of (sl_cursors s) consumerId) 0) s in
      (s\<lparr>sl_buffers := foldl (\<lambda>d x. mark_recorded (sq_sequence x) d) (sl_buffers s) items,
         sl_cursors := foldl (\<lambda>d x. rememberConsumerCursor consumerId (sq_sequence x) d) (sl_cursors s) items,
         sl_subscribers := sl_subscribers s @ [\<lparr> sb_key = key, sb_consumerId = consumerId, sb_portId = portId \<rparr>]\<rparr>,
       map (\<lambda>x. deliver True (\<not> sq_activityRecorded x) x consumerId) items))"

definition unlistenSerial :: "nat \<Rightarrow> serial_state \<Rightarrow> serial_state" where
  "unlistenSerial key s = s\<lparr>sl_subscribers := filter (\<lambda>x. sb_key x \<noteq> key) (sl_subscribers s)\<rparr>"

end
