(* ===== verification/SerialProps.thy ===== *)
theory SerialProps
  imports SerialEvents "HOL-Library.Multiset"
begin

text \<open>
  The serial event buffer: its byte accounting and its bounds, and the order in which panels receive
  events.
\<close>

section \<open>Sums over dictionaries\<close>

definition dsum :: "('v \<Rightarrow> 'n) \<Rightarrow> ('k \<times> 'v) list \<Rightarrow> 'n::comm_monoid_add" where
  "dsum f d = sum_list (map (\<lambda>p. f (snd p)) d)"

lemma dsum_simps [simp]: "dsum f [] = 0" "dsum f (p # d) = f (snd p) + dsum f d" "dsum f (d @ d') = dsum f d + dsum f d'"
  by (simp_all add: dsum_def)

lemma dsum_update: "map_of d k = Some v \<Longrightarrow> dsum f (AList.update k w d) + f v = dsum f d + f w"
  by (induction d) (auto split: if_splits simp: ac_simps)

lemma delete_absent: "k \<notin> fst ` set d \<Longrightarrow> AList.delete k d = d"
  by (induction d) auto

lemma dsum_delete: "distinct (map fst d) \<Longrightarrow> map_of d k = Some v \<Longrightarrow> dsum f (AList.delete k d) + f v = dsum f d"
  by (induction d) (auto split: if_splits simp: ac_simps delete_absent)

lemma dsum_to_end:
  assumes "distinct (map fst d)" and "map_of d k = Some v"
  shows "dsum f (to_end k w d) + f v = dsum f d + f w"
  using dsum_delete[OF assms, of f, symmetric] by (simp add: to_end_def ac_simps)

lemma to_end_keys: "fst ` set (to_end k v d) = insert k (fst ` set d)"
  by (auto simp: to_end_def AList.delete_eq)

lemma to_end_distinct: "distinct (map fst d) \<Longrightarrow> distinct (map fst (to_end k v d))"
  using distinct_delete[of d k] by (auto simp: to_end_def AList.delete_eq)

lemma to_end_length: "map_of d k = Some v \<Longrightarrow> distinct (map fst d) \<Longrightarrow> length (to_end k w d) = length d"
  by (induction d) (auto simp: to_end_def delete_absent split: if_splits)

lemma map_of_to_end: "map_of (to_end k v d) j = (if j = k then Some v else map_of d j)"
  by (simp add: to_end_def delete_conv' map_add_def split: option.split)

lemma map_of_snoc: "k \<notin> fst ` set d \<Longrightarrow> map_of (d @ [(k, v)]) k = Some v"
  by (induction d) auto

definition all_vals :: "('v \<Rightarrow> bool) \<Rightarrow> ('k \<times> 'v) list \<Rightarrow> bool" where
  "all_vals P d \<longleftrightarrow> list_all (\<lambda>p. P (snd p)) d"

lemma all_vals_simps [simp]: "all_vals P []" "all_vals P (p # d) \<longleftrightarrow> P (snd p) \<and> all_vals P d"
  "all_vals P (d @ d') \<longleftrightarrow> all_vals P d \<and> all_vals P d'"
  by (simp_all add: all_vals_def)

lemma all_vals_update: "all_vals P d \<Longrightarrow> P v \<Longrightarrow> all_vals P (AList.update k v d)"
  by (induction d) auto

lemma all_vals_delete: "all_vals P d \<Longrightarrow> all_vals P (AList.delete k d)"
  by (induction d) auto

lemma all_vals_to_end: "all_vals P d \<Longrightarrow> P v \<Longrightarrow> all_vals P (to_end k v d)"
  by (simp add: to_end_def all_vals_delete)

lemma all_vals_map_of: "all_vals P d \<Longrightarrow> map_of d k = Some v \<Longrightarrow> P v"
  by (induction d) (auto split: if_splits)

lemma update_length: "map_of d k = Some v \<Longrightarrow> length (AList.update k w d) = length d"
  by (induction d) (auto split: if_splits)

lemma delete_length: "length (AList.delete k d) \<le> length d"
  by (simp add: AList.delete_eq)


section \<open>Well-formed buffers\<close>

definition gen_ok :: "SerialGenerationBuffer \<Rightarrow> bool" where
  "gen_ok b \<longleftrightarrow> gb_bytes b = sum_list (map sq_bytes (gb_events b)) \<and> length (gb_events b) \<le> 256
     \<and> gb_bytes b \<le> 1024 * 1024 \<and> (\<forall>x \<in> set (gb_events b). 0 \<le> sq_bytes x)"

definition port_ok :: "port_buffers \<Rightarrow> bool" where
  "port_ok gs \<longleftrightarrow> distinct (map fst gs) \<and> length gs \<le> 4 \<and> all_vals gen_ok gs"

definition bufs_ok :: "port_buffers dict \<Rightarrow> bool" where
  "bufs_ok d \<longleftrightarrow> distinct (map fst d) \<and> length d \<le> 16 \<and> all_vals port_ok d"

definition all_bytes :: "port_buffers dict \<Rightarrow> int" where
  "all_bytes d = dsum (dsum gb_bytes) d"

definition gen_events :: "SerialGenerationBuffer \<Rightarrow> SequencedSerialEvent multiset" where
  "gen_events b = mset (gb_events b)"

definition all_events :: "port_buffers dict \<Rightarrow> SequencedSerialEvent multiset" where
  "all_events d = dsum (dsum gen_events) d"

lemma port_bytes_dsum: "port_bytes gs = dsum gb_bytes gs"
  by (simp add: port_bytes_def dsum_def)

lemmas max_defs = MAX_BUFFERED_SERIAL_PORTS_def MAX_BUFFERED_SERIAL_GENERATIONS_def MAX_BUFFERED_SERIAL_EVENTS_PER_GENERATION_def
  MAX_BUFFERED_SERIAL_BYTES_PER_GENERATION_def MAX_BUFFERED_SERIAL_TOTAL_BYTES_def MAX_SERIAL_CONSUMER_CURSORS_def

text \<open>Replacing the buffers of a port.\<close>

lemma put_port:
  assumes "bufs_ok d" and "map_of d p = Some gs" and "port_ok gs'"
  shows "bufs_ok (AList.update p gs' d)"
    and "all_bytes (AList.update p gs' d) = all_bytes d - dsum gb_bytes gs + dsum gb_bytes gs'"
    and "all_events (AList.update p gs' d) + dsum gen_events gs = all_events d + dsum gen_events gs'"
proof -
  show "bufs_ok (AList.update p gs' d)"
    using assms by (simp add: bufs_ok_def distinct_update all_vals_update update_length)
  show "all_bytes (AList.update p gs' d) = all_bytes d - dsum gb_bytes gs + dsum gb_bytes gs'"
    using dsum_update[OF assms(2), of "dsum gb_bytes" gs'] by (simp add: all_bytes_def)
  show "all_events (AList.update p gs' d) + dsum gen_events gs = all_events d + dsum gen_events gs'"
    using dsum_update[OF assms(2), of "dsum gen_events" gs'] by (simp add: all_events_def)
qed

lemma drop_port:
  assumes "bufs_ok d" and "map_of d p = Some gs"
  shows "bufs_ok (AList.delete p d)" and "all_bytes (AList.delete p d) = all_bytes d - dsum gb_bytes gs"
    and "all_events (AList.delete p d) \<subseteq># all_events d"
proof -
  have dist: "distinct (map fst d)" using assms(1) by (simp add: bufs_ok_def)
  show "bufs_ok (AList.delete p d)"
    using assms(1) delete_length[of p d] by (simp add: bufs_ok_def distinct_delete all_vals_delete)
  show "all_bytes (AList.delete p d) = all_bytes d - dsum gb_bytes gs"
    using dsum_delete[OF dist assms(2), of "dsum gb_bytes"] by (simp add: all_bytes_def)
  show "all_events (AList.delete p d) \<subseteq># all_events d"
    using dsum_delete[OF dist assms(2), of "dsum gen_events"] unfolding all_events_def by (metis mset_subset_eq_add_left)
qed

lemma open_port_ok:
  assumes "bufs_ok (sl_buffers s)" and "sl_totalBytes s = all_bytes (sl_buffers s)" and "open_port p s = (gs, s')"
  shows "bufs_ok (sl_buffers s') \<and> sl_totalBytes s' = all_bytes (sl_buffers s') \<and> map_of (sl_buffers s') p = Some gs
    \<and> port_ok gs \<and> all_events (sl_buffers s') \<subseteq># all_events (sl_buffers s)
    \<and> sl_subscribers s' = sl_subscribers s \<and> sl_cursors s' = sl_cursors s \<and> sl_sequence s' = sl_sequence s"
proof (cases "map_of (sl_buffers s) p")
  case (Some gs0)
  have dist: "distinct (map fst (sl_buffers s))" using assms(1) by (simp add: bufs_ok_def)
  have s': "gs = gs0" "s' = s\<lparr>sl_buffers := to_end p gs0 (sl_buffers s)\<rparr>" using assms(3) Some by (auto simp: open_port_def)
  have ok: "port_ok gs0" using assms(1) Some unfolding bufs_ok_def by (blast dest: all_vals_map_of)
  have "bufs_ok (to_end p gs0 (sl_buffers s))"
    using assms(1) ok dist by (simp add: bufs_ok_def to_end_distinct to_end_length[OF Some] all_vals_to_end)
  moreover have "all_bytes (to_end p gs0 (sl_buffers s)) = all_bytes (sl_buffers s)" "all_events (to_end p gs0 (sl_buffers s)) = all_events (sl_buffers s)"
    using dsum_to_end[OF dist Some, of "dsum gb_bytes" gs0] dsum_to_end[OF dist Some, of "dsum gen_events" gs0]
    by (simp_all add: all_bytes_def all_events_def)
  ultimately show ?thesis using assms(2) ok unfolding s' by (simp add: map_of_to_end)
next
  case None
  define s1 where "s1 = (if MAX_BUFFERED_SERIAL_PORTS \<le> length (sl_buffers s)
      then (case sl_buffers s of (p, gs) # _ \<Rightarrow> s\<lparr>sl_totalBytes := sl_totalBytes s - port_bytes gs, sl_buffers := AList.delete p (sl_buffers s)\<rparr> | [] \<Rightarrow> s)
      else s)"
  have s': "gs = []" "s' = s1\<lparr>sl_buffers := sl_buffers s1 @ [(p, [])]\<rparr>" using assms(3) None by (auto simp: open_port_def s1_def Let_def)
  have s1: "bufs_ok (sl_buffers s1) \<and> sl_totalBytes s1 = all_bytes (sl_buffers s1) \<and> p \<notin> fst ` set (sl_buffers s1)
      \<and> length (sl_buffers s1) < 16 \<and> all_events (sl_buffers s1) \<subseteq># all_events (sl_buffers s)
      \<and> sl_subscribers s1 = sl_subscribers s \<and> sl_cursors s1 = sl_cursors s \<and> sl_sequence s1 = sl_sequence s"
  proof (cases "MAX_BUFFERED_SERIAL_PORTS \<le> length (sl_buffers s)")
    case False
    then show ?thesis using assms(1,2) None by (auto simp: s1_def max_defs map_of_eq_None_iff)
  next
    case True
    then obtain q gs1 rest where d: "sl_buffers s = (q, gs1) # rest" by (cases "sl_buffers s") (auto simp: max_defs)
    have q: "map_of (sl_buffers s) q = Some gs1" by (simp add: d)
    have "AList.delete q (sl_buffers s) = rest" using assms(1) by (auto simp: d bufs_ok_def delete_absent)
    then show ?thesis using True drop_port[OF assms(1) q] assms(1,2) None
      by (auto simp: s1_def d port_bytes_dsum map_of_eq_None_iff bufs_ok_def split: if_splits)
  qed
  then show ?thesis unfolding s'
    by (auto simp: bufs_ok_def port_ok_def all_bytes_def all_events_def map_of_snoc simp del: map_of_append)
qed

lemma gen_empty [simp]: "gen_ok \<lparr>gb_events = [], gb_bytes = 0\<rparr>" "gen_events \<lparr>gb_events = [], gb_bytes = 0\<rparr> = {#}"
  by (simp_all add: gen_ok_def gen_events_def)

lemma open_generation_ok:
  assumes "port_ok gs" and "open_generation g gs tot = (b, gs', tot')"
  shows "port_ok gs' \<and> map_of gs' g = Some b \<and> gen_ok b \<and> tot' = tot - dsum gb_bytes gs + dsum gb_bytes gs'
    \<and> dsum gen_events gs' \<subseteq># dsum gen_events gs"
proof (cases "map_of gs g")
  case (Some b0)
  have dist: "distinct (map fst gs)" using assms(1) by (simp add: port_ok_def)
  have e: "b = b0" "gs' = to_end g b0 gs" "tot' = tot" using assms(2) Some by (auto simp: open_generation_def)
  have "gen_ok b0" using assms(1) Some unfolding port_ok_def by (blast dest: all_vals_map_of)
  then show ?thesis
    using assms(1) dsum_to_end[OF dist Some, of gb_bytes b0] dsum_to_end[OF dist Some, of gen_events b0] unfolding e
    by (simp add: port_ok_def to_end_distinct to_end_length[OF Some] all_vals_to_end map_of_to_end)
next
  case None
  let ?b = "\<lparr> gb_events = [], gb_bytes = 0 \<rparr>"
  show ?thesis
  proof (cases "MAX_BUFFERED_SERIAL_GENERATIONS \<le> length gs")
    case False
    then have e: "b = ?b" "gs' = gs @ [(g, ?b)]" "tot' = tot" using assms(2) None by (auto simp: open_generation_def Let_def)
    show ?thesis using assms(1) None False unfolding e
      by (simp add: port_ok_def max_defs map_of_snoc map_of_eq_None_iff del: map_of_append)
  next
    case True
    then obtain h b1 rest where gs: "gs = (h, b1) # rest" by (cases gs) (auto simp: max_defs)
    have del: "AList.delete h gs = rest" using assms(1) by (auto simp: gs port_ok_def delete_absent)
    have e: "b = ?b" "gs' = rest @ [(g, ?b)]" "tot' = tot - gb_bytes b1"
      using assms(2) None True del by (auto simp: open_generation_def gs Let_def)
    have "g \<notin> fst ` set rest" using None by (auto simp: gs map_of_eq_None_iff split: if_splits)
    then show ?thesis using assms(1) unfolding e by (simp add: gs port_ok_def map_of_snoc del: map_of_append)
  qed
qed

lemma make_room_ok:
  assumes "make_room n es bytes tot = (es', bytes', tot')" and "bytes = sum_list (map sq_bytes es)"
  shows "(\<exists>pre. es = pre @ es') \<and> bytes' = sum_list (map sq_bytes es') \<and> tot' = tot - bytes + bytes'
    \<and> (es' = [] \<or> length es' < 256 \<and> bytes' + n \<le> 1024 * 1024)"
  using assms
proof (induction n es bytes tot rule: make_room.induct)
  case (2 n x xs bytes tot)
  show ?case
  proof (cases "MAX_BUFFERED_SERIAL_EVENTS_PER_GENERATION \<le> length (x # xs) \<or> MAX_BUFFERED_SERIAL_BYTES_PER_GENERATION < bytes + n")
    case True
    then have "make_room n xs (bytes - sq_bytes x) (tot - sq_bytes x) = (es', bytes', tot')" using 2(2) by simp
    from 2(1)[OF True this] 2(3) show ?thesis by (auto intro: exI[of _ "x # _"])
  next
    case False
    then show ?thesis using 2(2,3) by (auto simp: max_defs)
  qed
qed simp

lemma push_event_ok:
  assumes "gen_ok b" and "0 \<le> sq_bytes item" and "sq_bytes item \<le> 1024 * 1024" and "push_event item b tot = (b', tot')"
  shows "gen_ok b' \<and> tot' = tot - gb_bytes b + gb_bytes b' \<and> gen_events b' \<subseteq># add_mset item (gen_events b)"
proof -
  obtain es bytes tot1 where m: "make_room (sq_bytes item) (gb_events b) (gb_bytes b) tot = (es, bytes, tot1)" by (cases rule: prod_cases3)
  have e: "b' = \<lparr> gb_events = es @ [item], gb_bytes = bytes + sq_bytes item \<rparr>" "tot' = tot1 + sq_bytes item"
    using assms(4) m by (auto simp: push_event_def)
  from make_room_ok[OF m] assms(1) obtain pre where r: "gb_events b = pre @ es" "bytes = sum_list (map sq_bytes es)" "tot1 = tot - gb_bytes b + bytes"
    "es = [] \<or> length es < 256 \<and> bytes + sq_bytes item \<le> 1024 * 1024"
    by (auto simp: gen_ok_def)
  then show ?thesis using assms(1-3) unfolding e by (auto simp: gen_ok_def gen_events_def)
qed

lemma shift_event_ok:
  assumes "bufs_ok d" and "shift_event p g d = Some (d', n)"
  shows "bufs_ok d' \<and> all_bytes d' = all_bytes d - n \<and> all_events d' \<subseteq># all_events d"
proof -
  from assms(2) obtain gs b x xs where gs: "map_of d p = Some gs" and b: "map_of gs g = Some b" and x: "gb_events b = x # xs" and n: "n = sq_bytes x"
    by (auto simp: shift_event_def Let_def split: option.splits list.splits)
  define b' where "b' = \<lparr> gb_events = xs, gb_bytes = gb_bytes b - sq_bytes x \<rparr>"
  define gs' where "gs' = (if xs = [] then AList.delete g gs else AList.update g b' gs)"
  have gsok: "port_ok gs" using assms(1) gs unfolding bufs_ok_def by (blast dest: all_vals_map_of)
  then have dist: "distinct (map fst gs)" and bok: "gen_ok b" using b unfolding port_ok_def by (auto dest: all_vals_map_of)
  have b'ok: "gen_ok b'" using bok x by (auto simp: gen_ok_def b'_def)
  have gen: "port_ok gs' \<and> dsum gb_bytes gs' = dsum gb_bytes gs - n \<and> dsum gen_events gs' \<subseteq># dsum gen_events gs"
  proof (cases "xs = []")
    case True
    then have "gb_bytes b = n" using bok x n by (simp add: gen_ok_def)
    then show ?thesis using True gsok delete_length[of g gs] dsum_delete[OF dist b, of gb_bytes] dsum_delete[OF dist b, of gen_events, symmetric]
      by (simp add: gs'_def port_ok_def distinct_delete all_vals_delete)
  next
    case False
    have "gen_events b = add_mset x (gen_events b')" by (simp add: gen_events_def b'_def x)
    then have "dsum gen_events (AList.update g b' gs) + {#x#} = dsum gen_events gs"
      using dsum_update[OF b, of gen_events b'] by simp
    then have "dsum gen_events (AList.update g b' gs) \<subseteq># dsum gen_events gs" by (metis mset_subset_eq_add_left)
    then show ?thesis using False gsok b'ok dsum_update[OF b, of gb_bytes b']
      by (simp add: gs'_def port_ok_def distinct_update all_vals_update update_length[OF b] b'_def n)
  qed
  have d': "d' = (if gs' = [] then AList.delete p d else AList.update p gs' d)"
    using assms(2) gs b x unfolding gs'_def b'_def by (auto simp: shift_event_def Let_def)
  show ?thesis
  proof (cases "gs' = []")
    case True
    then show ?thesis using drop_port[OF assms(1) gs] gen d' by simp
  next
    case False
    have "all_events (AList.update p gs' d) \<subseteq># all_events d"
      using put_port(3)[OF assms(1) gs, of gs'] gen by (metis mset_subset_eq_mono_add_right_cancel mset_subset_eq_mono_add subset_mset.le_add_same_cancel1 subset_mset.order_refl)
    then show ?thesis using False put_port(1,2)[OF assms(1) gs, of gs'] gen d' by simp
  qed
qed

lemma oldest_of_None: "oldest_of xs = None \<Longrightarrow> xs = []"
  by (cases xs) (auto split: option.splits if_splits)

lemma oldest_of_mem: "oldest_of xs = Some x \<Longrightarrow> x \<in> set xs"
  by (induction xs arbitrary: x) (auto split: option.splits if_splits)

lemma no_firsts:
  "concat (map (\<lambda>(g, b). case gb_events b of [] \<Rightarrow> [] | x # _ \<Rightarrow> [(q, g, x)]) gs) = [] \<Longrightarrow> all_vals gen_ok gs \<Longrightarrow> dsum gb_bytes gs = 0"
  by (induction gs) (auto simp: gen_ok_def split: list.splits)

lemma no_first_events: "bufs_ok d \<Longrightarrow> first_events d = [] \<Longrightarrow> all_bytes d = 0"
proof -
  have "dsum (dsum gb_bytes) d = 0" if "all_vals port_ok d" "first_events d = []" for d
    using that
  proof (induction d)
    case (Cons p d)
    obtain q gs where p: "p = (q, gs)" by (cases p)
    have "dsum gb_bytes gs = 0" using Cons.prems no_firsts[of q gs] unfolding p first_events_def port_ok_def by simp
    moreover have "first_events d = []" using Cons.prems(2) unfolding first_events_def by simp
    ultimately show ?case using Cons p by simp
  qed simp
  then show "bufs_ok d \<Longrightarrow> first_events d = [] \<Longrightarrow> all_bytes d = 0" by (simp add: all_bytes_def bufs_ok_def)
qed

lemma first_event_shifts:
  assumes "bufs_ok d" and "(p, g, x) \<in> set (first_events d)"
  shows "shift_event p g d \<noteq> None"
proof -
  from assms(2) obtain gs b xs where gs: "(p, gs) \<in> set d" "(g, b) \<in> set gs" "x # xs = gb_events b"
    by (auto simp: first_events_def split: list.splits)
  have "map_of d p = Some gs" using assms(1) gs(1) by (simp add: bufs_ok_def)
  moreover have "port_ok gs" using assms(1) calculation unfolding bufs_ok_def by (blast dest: all_vals_map_of)
  then have "map_of gs g = Some b" using gs(2) by (simp add: port_ok_def)
  ultimately show ?thesis using gs(3)[symmetric] by (simp add: shift_event_def Let_def)
qed

lemma evict_oldest_ok:
  assumes "bufs_ok d" and "tot = all_bytes d" and "evict_oldest d tot = (d', tot')"
  shows "bufs_ok d' \<and> tot' = all_bytes d' \<and> all_events d' \<subseteq># all_events d \<and> tot' \<le> 8 * 1024 * 1024"
  using assms
proof (induction d tot rule: evict_oldest.induct)
  case (1 d tot)
  show ?case
  proof (cases "tot \<le> MAX_BUFFERED_SERIAL_TOTAL_BYTES")
    case True
    then have "evict_oldest d tot = (d, tot)" by (subst evict_oldest.simps) simp
    then show ?thesis using 1 True by (auto simp: max_defs)
  next
    case False
    then have "first_events d \<noteq> []" using no_first_events[OF 1(2)] 1(3) by (auto simp: max_defs)
    then obtain p g x where old: "oldest_of (first_events d) = Some (p, g, x)" by (cases "oldest_of (first_events d)") (auto dest: oldest_of_None)
    then obtain d1 n where sh: "shift_event p g d = Some (d1, n)"
      using first_event_shifts[OF 1(2) oldest_of_mem[OF old]] by auto
    from shift_event_ok[OF 1(2) sh] have ok: "bufs_ok d1" "tot - n = all_bytes d1" "all_events d1 \<subseteq># all_events d" using 1(3) by auto
    have "evict_oldest d1 (tot - n) = (d', tot')" using 1(4) False old sh by (subst (asm) evict_oldest.simps) simp
    from 1(1)[OF False old refl refl sh refl ok(1,2) this] ok(3) show ?thesis by (auto intro: subset_mset.order_trans)
  qed
qed

lemma mset_exchange: "A + B = C + D \<Longrightarrow> D \<subseteq># B + E \<Longrightarrow> A \<subseteq># C + (E :: 'a multiset)"
  by (metis (no_types, lifting) add.assoc add.commute subset_mset.add_le_cancel_left subset_mset.add_left_mono)

lemma gen_ok_sum: "gen_ok b \<Longrightarrow> gb_bytes b = (\<Sum>x \<in># gen_events b. sq_bytes x) \<and> (\<forall>x \<in># gen_events b. 0 \<le> sq_bytes x)"
  by (simp add: gen_ok_def gen_events_def sum_mset_sum_list flip: mset_map)

lemma gen_sum: "all_vals gen_ok gs \<Longrightarrow> dsum gb_bytes gs = (\<Sum>x \<in># dsum gen_events gs. sq_bytes x)
    \<and> (\<forall>x \<in># dsum gen_events gs. 0 \<le> sq_bytes x)"
  by (induction gs) (auto dest: gen_ok_sum)

lemma mset_sum_nonneg: "\<forall>x \<in># X. 0 \<le> f x \<Longrightarrow> 0 \<le> (\<Sum>x \<in># X. f x :: int)"
  by (induction X) auto

lemma all_bytes_events:
  assumes "all_vals port_ok d"
  shows "all_bytes d = (\<Sum>x \<in># all_events d. sq_bytes x) \<and> (\<forall>x \<in># all_events d. 0 \<le> sq_bytes x)"
  using assms unfolding all_bytes_def all_events_def
proof (induction d)
  case (Cons p d)
  then show ?case using gen_sum[of "snd p"] by (auto simp: port_ok_def)
qed simp

lemma all_bytes_mono: "bufs_ok d \<Longrightarrow> bufs_ok d' \<Longrightarrow> all_events d \<subseteq># all_events d' \<Longrightarrow> all_bytes d \<le> all_bytes d'"
  using all_bytes_events[of d] all_bytes_events[of d'] mset_sum_nonneg[of "all_events d' - all_events d" sq_bytes]
  by (auto simp: bufs_ok_def elim!: subset_mset.less_eqE)

lemma remember_ok:
  assumes "bufs_ok (sl_buffers s)" and "sl_totalBytes s = all_bytes (sl_buffers s)" and "sl_totalBytes s \<le> 8 * 1024 * 1024"
    and "0 \<le> sq_bytes item" and "s' = rememberSerialEvent item s"
  shows "bufs_ok (sl_buffers s') \<and> sl_totalBytes s' = all_bytes (sl_buffers s') \<and> sl_totalBytes s' \<le> 8 * 1024 * 1024
    \<and> all_events (sl_buffers s') \<subseteq># add_mset item (all_events (sl_buffers s))
    \<and> sl_subscribers s' = sl_subscribers s \<and> sl_cursors s' = sl_cursors s \<and> sl_sequence s' = sl_sequence s"
proof -
  let ?p = "se_portId (sq_event item)" and ?g = "se_generation (sq_event item)"
  obtain gs s1 where o: "open_port ?p s = (gs, s1)" by (cases "open_port ?p s")
  note port = open_port_ok[OF assms(1,2) o]
  obtain b gs' tot where og: "open_generation ?g gs (sl_totalBytes s1) = (b, gs', tot)" by (cases rule: prod_cases3)
  from open_generation_ok[OF _ og] port have gen: "port_ok gs'" "map_of gs' ?g = Some b" "gen_ok b"
    "tot = sl_totalBytes s1 - dsum gb_bytes gs + dsum gb_bytes gs'" "dsum gen_events gs' \<subseteq># dsum gen_events gs" by auto
  define d where "d = AList.update ?p gs' (sl_buffers s1)"
  have gs: "map_of (sl_buffers s1) ?p = Some gs" and ok1: "bufs_ok (sl_buffers s1)" using port by auto
  note put = put_port[OF ok1 gs gen(1), folded d_def]
  have "all_events d \<subseteq># all_events (sl_buffers s1) + {#}" by (rule mset_exchange[OF put(3)]) (simp add: gen(5))
  then have d: "bufs_ok d" "tot = all_bytes d" "all_events d \<subseteq># all_events (sl_buffers s)" "map_of d ?p = Some gs'"
    using put(1,2) port gen(4) by (auto simp: d_def update_conv' intro: subset_mset.order_trans)
  show ?thesis
  proof (cases "MAX_BUFFERED_SERIAL_BYTES_PER_GENERATION < sq_bytes item")
    case True
    have "s' = s1\<lparr>sl_buffers := d, sl_totalBytes := tot\<rparr>"
      using True by (simp add: assms(5) rememberSerialEvent_def Let_def o og d_def)
    moreover have "tot \<le> 8 * 1024 * 1024" using all_bytes_mono[OF d(1) assms(1) d(3)] assms(2,3) d(2) by simp
    ultimately show ?thesis using d port by (auto intro: subset_mset.order_trans)
  next
    case False
    obtain b' tot1 where pu: "push_event item b tot = (b', tot1)" by (cases "push_event item b tot")
    from push_event_ok[OF gen(3) assms(4) _ pu] False
    have b': "gen_ok b'" "tot1 = tot - gb_bytes b + gb_bytes b'" "gen_events b' \<subseteq># gen_events b + {#item#}" by (auto simp: max_defs)
    define gs2 where "gs2 = AList.update ?g b' gs'"
    have ok2: "port_ok gs2" using gen(1) b'(1) by (simp add: gs2_def port_ok_def distinct_update all_vals_update update_length[OF gen(2)])
    define d2 where "d2 = AList.update ?p gs2 d"
    note put2 = put_port[OF d(1,4) ok2, folded d2_def]
    have "dsum gen_events gs2 \<subseteq># dsum gen_events gs' + {#item#}"
      unfolding gs2_def by (rule mset_exchange[OF dsum_update[OF gen(2)]]) (rule b'(3))
    then have ev: "all_events d2 \<subseteq># all_events d + {#item#}" by (rule mset_exchange[OF put2(3)])
    have tot1: "tot1 = all_bytes d2"
      using put2(2) b'(2) d(2) dsum_update[OF gen(2), of gb_bytes b'] unfolding gs2_def by simp
    obtain d3 tot2 where e: "evict_oldest d2 tot1 = (d3, tot2)" by (cases "evict_oldest d2 tot1")
    note ev3 = evict_oldest_ok[OF put2(1) tot1 e]
    have "s' = s1\<lparr>sl_buffers := d3, sl_totalBytes := tot2\<rparr>"
      using False e by (simp add: assms(5) rememberSerialEvent_def Let_def o og pu d_def gs2_def d2_def)
    moreover have "all_events d3 \<subseteq># add_mset item (all_events (sl_buffers s))"
      using ev3 ev d(3) by (auto intro: subset_mset.order_trans)
    ultimately show ?thesis using ev3 port by simp
  qed
qed


lemma remember_rest: "sl_sequence (rememberSerialEvent item s) = sl_sequence s" "sl_subscribers (rememberSerialEvent item s) = sl_subscribers s"
  "sl_cursors (rememberSerialEvent item s) = sl_cursors s"
  by (auto simp: rememberSerialEvent_def open_port_def Let_def split: prod.splits option.splits list.splits if_splits)

lemma payload_nonneg: "0 \<le> serialPayloadBytes event"
  by (simp add: serialPayloadBytes_def Let_def le_max_iff_disj)


section \<open>Marking events as recorded\<close>

definition mark :: "nat set \<Rightarrow> SequencedSerialEvent \<Rightarrow> SequencedSerialEvent" where
  "mark N x = (if sq_sequence x \<in> N then x\<lparr>sq_activityRecorded := True\<rparr> else x)"

definition mark_gen :: "nat \<Rightarrow> SerialGenerationBuffer \<Rightarrow> SerialGenerationBuffer" where
  "mark_gen n b = b\<lparr>gb_events := map (mark {n}) (gb_events b)\<rparr>"

lemma mark_simps [simp]: "sq_sequence (mark N x) = sq_sequence x" "sq_bytes (mark N x) = sq_bytes x"
  "sq_activityRecorded (mark N x) \<longleftrightarrow> sq_activityRecorded x \<or> sq_sequence x \<in> N" "mark {} x = x"
  by (auto simp: mark_def)

lemma mark_mark: "mark M (mark N x) = mark (M \<union> N) x"
  by (auto simp: mark_def)

lemma mark_gen_simps: "gen_ok (mark_gen n b) = gen_ok b" "gb_bytes (mark_gen n b) = gb_bytes b"
  "gen_events (mark_gen n b) = image_mset (mark {n}) (gen_events b)"
  by (simp_all add: mark_gen_def gen_ok_def gen_events_def o_def)

lemma mark_recorded_alt: "mark_recorded n d = map (\<lambda>p. (fst p, map (\<lambda>q. (fst q, mark_gen n (snd q))) (snd p))) d"
  unfolding mark_recorded_def mark_gen_def by (intro map_cong refl) (auto simp: mark_def intro!: map_cong)

lemma dsum_map: "dsum f (map (\<lambda>q. (fst q, h (snd q))) d) = dsum (\<lambda>v. f (h v)) d"
  by (simp add: dsum_def o_def)

lemma all_vals_map: "all_vals P (map (\<lambda>q. (fst q, h (snd q))) d) = all_vals (\<lambda>v. P (h v)) d"
  by (simp add: all_vals_def list_all_iff)

lemma dsum_image: "dsum (\<lambda>v. image_mset h (f v)) d = image_mset h (dsum f d)"
  by (induction d) auto

lemma mark_port: "port_ok (map (\<lambda>q. (fst q, mark_gen n (snd q))) gs) = port_ok gs"
  by (simp add: port_ok_def all_vals_map mark_gen_simps o_def)

lemma mark_recorded_ok [simp]: "bufs_ok (mark_recorded n d) = bufs_ok d" "all_bytes (mark_recorded n d) = all_bytes d"
  "all_events (mark_recorded n d) = image_mset (mark {n}) (all_events d)"
  by (simp_all add: mark_recorded_alt bufs_ok_def all_bytes_def all_events_def all_vals_map dsum_map mark_port mark_gen_simps dsum_image o_def)

lemma mark_all_ok:
  "bufs_ok (foldl (\<lambda>d x. mark_recorded (sq_sequence x) d) d items) = bufs_ok d \<and>
   all_bytes (foldl (\<lambda>d x. mark_recorded (sq_sequence x) d) d items) = all_bytes d \<and>
   all_events (foldl (\<lambda>d x. mark_recorded (sq_sequence x) d) d items) = image_mset (mark (sq_sequence ` set items)) (all_events d)"
proof (induction items arbitrary: d)
  case (Cons x items)
  have "image_mset (mark (sq_sequence ` set items)) (image_mset (mark {sq_sequence x}) X) = image_mset (mark (sq_sequence ` set (x # items))) X" for X
    by (simp add: multiset.map_comp o_def mark_mark Un_commute)
  then show ?case using Cons[of "mark_recorded (sq_sequence x) d"] by simp
qed (simp add: image_mset_cong[where g = id])


section \<open>Runs of the service\<close>

datatype serial_action = SerialDispatch SerialEvent | SerialListen nat string string | SerialUnlisten nat

definition serial_step :: "serial_state \<times> serial_delivery list \<Rightarrow> serial_action \<Rightarrow> serial_state \<times> serial_delivery list" where
  "serial_step st a = (let (s, trace) = st; (s', new) = (case a of
       SerialDispatch event \<Rightarrow> dispatchSerialEvent event s
     | SerialListen key consumerId portId \<Rightarrow> onSerialEvent key consumerId portId s
     | SerialUnlisten key \<Rightarrow> (unlistenSerial key s, []))
   in (s', trace @ new))"

definition buffer_inv :: "serial_state \<Rightarrow> bool" where
  "buffer_inv s \<longleftrightarrow> bufs_ok (sl_buffers s) \<and> sl_totalBytes s = all_bytes (sl_buffers s) \<and> sl_totalBytes s \<le> 8 * 1024 * 1024"

lemma listen_buffer: "buffer_inv s \<Longrightarrow> buffer_inv (fst (onSerialEvent key c p s))"
  by (simp add: buffer_inv_def onSerialEvent_def Let_def mark_all_ok)

definition new_item :: "SerialEvent \<Rightarrow> serial_state \<Rightarrow> SequencedSerialEvent" where
  "new_item event s = \<lparr> sq_sequence = Suc (sl_sequence s), sq_event = event,
     sq_bytes = (if se_eventType event = SerialData then serialPayloadBytes event else 0), sq_activityRecorded = False \<rparr>"

lemma new_item_simps [simp]: "sq_sequence (new_item e s) = Suc (sl_sequence s)" "\<not> sq_activityRecorded (new_item e s)" "0 \<le> sq_bytes (new_item e s)"
  by (simp_all add: new_item_def payload_nonneg)

lemma dispatch_remember:
  assumes "buffer_inv s"
  shows "buffer_inv (rememberSerialEvent (new_item e s) (s\<lparr>sl_sequence := n\<rparr>))"
    and "all_events (sl_buffers (rememberSerialEvent (new_item e s) (s\<lparr>sl_sequence := n\<rparr>))) \<subseteq># add_mset (new_item e s) (all_events (sl_buffers s))"
  using remember_ok[of "s\<lparr>sl_sequence := n\<rparr>" "new_item e s" "rememberSerialEvent (new_item e s) (s\<lparr>sl_sequence := n\<rparr>)"] assms
  by (simp_all add: buffer_inv_def)

lemma dispatch_eq:
  "dispatchSerialEvent e s = (let s' = rememberSerialEvent (new_item e s) (s\<lparr>sl_sequence := Suc (sl_sequence s)\<rparr>);
       xs = filter (\<lambda>x. sb_portId x = se_portId e) (sl_subscribers s)
     in if xs = [] then (s', [])
        else (s'\<lparr>sl_buffers := mark_recorded (Suc (sl_sequence s)) (sl_buffers s'),
                 sl_cursors := foldl (\<lambda>d y. rememberConsumerCursor (sb_consumerId y) (Suc (sl_sequence s)) d) (sl_cursors s) xs\<rparr>,
              deliver False True (new_item e s) (sb_consumerId (hd xs)) # map (\<lambda>y. deliver False False (new_item e s) (sb_consumerId y)) (tl xs)))"
  unfolding dispatchSerialEvent_def new_item_def[symmetric] Let_def by (auto simp: remember_rest split: list.split)

lemma dispatch_buffer: "buffer_inv s \<Longrightarrow> buffer_inv (fst (dispatchSerialEvent e s))"
  using dispatch_remember(1)[of s e "Suc (sl_sequence s)"] by (simp add: dispatch_eq Let_def) (simp add: buffer_inv_def)


section \<open>Every event is recorded at most once\<close>

definition seqs :: "port_buffers dict \<Rightarrow> nat multiset" where
  "seqs d = image_mset sq_sequence (all_events d)"

definition recorded_seqs :: "serial_delivery list \<Rightarrow> nat list" where
  "recorded_seqs trace = map dl_sequence (filter dl_recordActivity trace)"

definition record_inv :: "serial_state \<times> serial_delivery list \<Rightarrow> bool" where
  "record_inv st \<longleftrightarrow> buffer_inv (fst st)
     \<and> (\<forall>n. count (seqs (sl_buffers (fst st))) n \<le> 1)
     \<and> (\<forall>x \<in># all_events (sl_buffers (fst st)). sq_sequence x \<le> sl_sequence (fst st))
     \<and> (\<forall>y \<in> set (snd st). dl_sequence y \<le> sl_sequence (fst st))
     \<and> (\<forall>x \<in># all_events (sl_buffers (fst st)). sq_sequence x \<in> set (recorded_seqs (snd st)) \<longrightarrow> sq_activityRecorded x)
     \<and> distinct (recorded_seqs (snd st))"

lemma recorded_append [simp]: "recorded_seqs (xs @ ys) = recorded_seqs xs @ recorded_seqs ys"
  by (simp add: recorded_seqs_def)

lemma recorded_bound: "record_inv (s, trace) \<Longrightarrow> n \<in> set (recorded_seqs trace) \<Longrightarrow> n \<le> sl_sequence s"
  by (auto simp: record_inv_def recorded_seqs_def)

lemma count_seqs_new:
  assumes "\<forall>n. count (seqs d) n \<le> 1" and "\<forall>x \<in># all_events d. sq_sequence x \<noteq> sq_sequence item"
    and "all_events d' \<subseteq># add_mset item (all_events d)"
  shows "count (seqs d') n \<le> 1"
proof -
  have "image_mset sq_sequence (all_events d') \<subseteq># image_mset sq_sequence (add_mset item (all_events d))"
    by (rule image_mset_subseteq_mono) (rule assms(3))
  then have "count (seqs d') n \<le> count (add_mset (sq_sequence item) (seqs d)) n" unfolding seqs_def by (metis mset_subset_eq_count image_mset_add_mset)
  moreover have "sq_sequence item \<notin># seqs d" using assms(2) by (auto simp: seqs_def)
  ultimately show ?thesis using assms(1) by (auto simp: not_in_iff split: if_splits intro: order_trans)
qed

lemma seqs_mark: "image_mset sq_sequence (image_mset (mark N) X) = image_mset sq_sequence X"
  by (simp add: multiset.map_comp o_def)

lemma dispatch_trace:
  "recorded_seqs (snd (dispatchSerialEvent e s)) = (if filter (\<lambda>x. sb_portId x = se_portId e) (sl_subscribers s) = [] then [] else [Suc (sl_sequence s)])"
  "set (map dl_sequence (snd (dispatchSerialEvent e s))) \<subseteq> {Suc (sl_sequence s)}"
  by (auto simp: dispatch_eq Let_def recorded_seqs_def deliver_def comp_def)

lemma dispatch_record:
  assumes "record_inv (s, trace)" and "dispatchSerialEvent e s = (s', new)"
  shows "record_inv (s', trace @ new)"
proof -
  let ?n = "Suc (sl_sequence s)"
  define r where "r = rememberSerialEvent (new_item e s) (s\<lparr>sl_sequence := ?n\<rparr>)"
  define xs where "xs = filter (\<lambda>x. sb_portId x = se_portId e) (sl_subscribers s)"
  have buf: "buffer_inv s" using assms(1) by (simp add: record_inv_def)
  have sub: "all_events (sl_buffers r) \<subseteq># add_mset (new_item e s) (all_events (sl_buffers s))"
    unfolding r_def by (rule dispatch_remember(2)[OF buf])
  have le: "\<forall>x \<in># all_events (sl_buffers s). sq_sequence x \<le> sl_sequence s" using assms(1) by (simp add: record_inv_def)
  have cnt: "count (seqs (sl_buffers r)) n \<le> 1" for n
    by (rule count_seqs_new[OF _ _ sub]) (use assms(1) le in \<open>auto simp: record_inv_def\<close>)
  have mem: "x = new_item e s \<or> x \<in># all_events (sl_buffers s)" if "x \<in># all_events (sl_buffers r)" for x
    using mset_subset_eqD[OF sub that] by auto
  have s': "s' = (if xs = [] then r else r\<lparr>sl_buffers := mark_recorded ?n (sl_buffers r),
      sl_cursors := foldl (\<lambda>d y. rememberConsumerCursor (sb_consumerId y) ?n d) (sl_cursors s) xs\<rparr>)"
    using assms(2) by (simp add: dispatch_eq Let_def r_def xs_def split: if_splits)
  have seq: "sl_sequence s' = ?n" unfolding s' by (simp add: r_def remember_rest)
  have ev: "all_events (sl_buffers s') = image_mset (mark (if xs = [] then {} else {?n})) (all_events (sl_buffers r))"
    unfolding s' by (simp add: image_mset_cong[where g = id])
  have new: "recorded_seqs new = (if xs = [] then [] else [?n])" "\<forall>y \<in> set new. dl_sequence y = ?n"
    using dispatch_trace[of e s] assms(2) by (auto simp: xs_def)
  have old: "n \<notin> set (recorded_seqs trace)" if "sl_sequence s < n" for n using recorded_bound[OF assms(1), of n] that by auto
  show ?thesis unfolding record_inv_def fst_conv snd_conv
  proof (intro conjI allI ballI impI)
    show "buffer_inv s'" using dispatch_buffer[OF buf, of e] assms(2) by simp
    show "count (seqs (sl_buffers s')) n \<le> 1" for n using cnt[of n] unfolding seqs_def ev seqs_mark .
    show "sq_sequence x \<le> sl_sequence s'" if "x \<in># all_events (sl_buffers s')" for x
      using that le mem unfolding ev seq by (auto dest!: mem intro: le_SucI)
    show "dl_sequence y \<le> sl_sequence s'" if "y \<in> set (trace @ new)" for y
      using that new(2) assms(1) unfolding seq by (auto simp: record_inv_def intro: le_SucI)
    show "sq_activityRecorded x" if "x \<in># all_events (sl_buffers s')" "sq_sequence x \<in> set (recorded_seqs (trace @ new))" for x
      using that old[of ?n] assms(1) unfolding ev by (auto simp: new(1) record_inv_def dest!: mem split: if_splits)
    show "distinct (recorded_seqs (trace @ new))" using assms(1) old[of ?n] by (simp add: new(1) record_inv_def)
  qed
qed

text \<open>The replayed events are events of the buffer, each once.\<close>

lemma port_events_sub:
  assumes "distinct (map fst d)" and "map_of d p = Some gs"
  shows "mset (concat (map (\<lambda>q. gb_events (snd q)) gs)) \<subseteq># all_events d"
proof -
  have "mset (concat (map (\<lambda>q. gb_events (snd q)) gs)) = dsum gen_events gs" by (induction gs) (auto simp: gen_events_def)
  moreover have "dsum gen_events gs \<subseteq># all_events d"
    using dsum_delete[OF assms, of "dsum gen_events", symmetric] by (simp add: all_events_def)
  ultimately show ?thesis by simp
qed

lemma buffered_sub: "bufs_ok (sl_buffers s) \<Longrightarrow> mset (bufferedEventsAfter p n s) \<subseteq># all_events (sl_buffers s)"
  by (auto simp: bufferedEventsAfter_def bufs_ok_def intro: subset_mset.order_trans[OF multiset_filter_subset port_events_sub] split: option.split)

lemma replay_distinct:
  assumes "record_inv (s, trace)"
  shows "distinct (map sq_sequence (bufferedEventsAfter p n s))"
proof -
  have ok: "bufs_ok (sl_buffers s)" using assms by (simp add: record_inv_def buffer_inv_def)
  have "count (image_mset sq_sequence (mset (bufferedEventsAfter p n s))) k \<le> 1" for k
    using mset_subset_eq_count[OF image_mset_subseteq_mono[OF buffered_sub[OF ok, of p n], of sq_sequence], of k] assms
    by (auto simp: record_inv_def seqs_def intro: order_trans)
  then show ?thesis unfolding distinct_count_atmost_1
    by (metis count_greater_zero_iff le_antisym less_one mset_map not_less not_in_iff set_mset_mset)
qed

lemma listen_record:
  assumes "record_inv (s, trace)" and "onSerialEvent key c p s = (s', new)"
  shows "record_inv (s', trace @ new)"
proof -
  define items where "items = bufferedEventsAfter p (nullish (map_of (sl_cursors s) c) 0) s"
  have buf: "buffer_inv s" using assms(1) by (simp add: record_inv_def)
  have mem: "x \<in># all_events (sl_buffers s)" if "x \<in> set items" for x
    using buffered_sub[of s p "nullish (map_of (sl_cursors s) c) 0"] buf that unfolding items_def[symmetric] buffer_inv_def
    by (metis mset_subset_eqD set_mset_mset)
  have dist: "distinct (map sq_sequence items)" unfolding items_def by (rule replay_distinct[OF assms(1)])
  have e: "sl_sequence s' = sl_sequence s"
    "all_events (sl_buffers s') = image_mset (mark (sq_sequence ` set items)) (all_events (sl_buffers s))"
    "new = map (\<lambda>x. deliver True (\<not> sq_activityRecorded x) x c) items"
    using assms(2) by (auto simp: onSerialEvent_def Let_def items_def mark_all_ok)
  have rec: "recorded_seqs new = map sq_sequence (filter (\<lambda>x. \<not> sq_activityRecorded x) items)"
    by (simp add: e(3) recorded_seqs_def filter_map o_def deliver_def)
  show ?thesis unfolding record_inv_def fst_conv snd_conv
  proof (intro conjI allI ballI impI)
    show "buffer_inv s'" using listen_buffer[OF buf, of key c p] assms(2) by simp
    show "count (seqs (sl_buffers s')) n \<le> 1" for n using assms(1) unfolding seqs_def e(2) seqs_mark by (simp add: record_inv_def seqs_def)
    show "sq_sequence x \<le> sl_sequence s'" if "x \<in># all_events (sl_buffers s')" for x
      using that assms(1) unfolding e(1,2) by (auto simp: record_inv_def)
    show "dl_sequence y \<le> sl_sequence s'" if "y \<in> set (trace @ new)" for y
      using that assms(1) mem unfolding e(1,3) by (auto simp: record_inv_def deliver_def)
    show "sq_activityRecorded x" if "x \<in># all_events (sl_buffers s')" "sq_sequence x \<in> set (recorded_seqs (trace @ new))" for x
      using that assms(1) unfolding e(2) by (auto simp: rec record_inv_def)
    show "distinct (recorded_seqs (trace @ new))"
      using assms(1) dist mem by (auto simp: rec record_inv_def distinct_map inj_on_def)
  qed
qed

lemma serial_init_inv: "record_inv (serial_init, [])"
  by (simp add: record_inv_def buffer_inv_def serial_init_def bufs_ok_def all_bytes_def all_events_def seqs_def recorded_seqs_def)

lemma serial_step_inv: "record_inv st \<Longrightarrow> record_inv (serial_step st a)"
proof (cases a)
  case (SerialUnlisten key)
  assume "record_inv st"
  then show ?thesis by (cases st) (simp add: SerialUnlisten serial_step_def unlistenSerial_def record_inv_def buffer_inv_def)
qed (cases st; auto simp: serial_step_def split: prod.splits intro: dispatch_record listen_record)+

interpretation serial_service: action_store "(serial_init, [])" serial_step "\<lambda>_ _. True" record_inv
  by unfold_locales (rule serial_init_inv, rule serial_step_inv)


section \<open>Panels receive events in order\<close>

definition received :: "string \<Rightarrow> serial_delivery list \<Rightarrow> nat list" where
  "received c trace = map dl_sequence (filter (\<lambda>y. dl_consumerId y = c) trace)"

definition cursors_ok :: "string list \<Rightarrow> nat dict \<Rightarrow> bool" where
  "cursors_ok panels d \<longleftrightarrow> distinct (map fst d) \<and> fst ` set d \<subseteq> set panels \<and> length panels \<le> 128"

definition trace_inv :: "string list \<Rightarrow> nat dict \<Rightarrow> serial_delivery list \<Rightarrow> bool" where
  "trace_inv panels d trace \<longleftrightarrow> cursors_ok panels d
     \<and> (\<forall>y \<in> set trace. \<exists>m. map_of d (dl_consumerId y) = Some m \<and> dl_sequence y \<le> m)
     \<and> (\<forall>c. sorted_wrt (<) (received c trace))"

lemma remember_cursor:
  assumes "cursors_ok panels d" and "c \<in> set panels"
  shows "rememberConsumerCursor c n d = to_end c n d" and "cursors_ok panels (to_end c n d)"
proof -
  show ok: "cursors_ok panels (to_end c n d)"
    using assms by (simp add: cursors_ok_def to_end_distinct to_end_keys)
  have "length (to_end c n d) = card (fst ` set (to_end c n d))"
    using ok distinct_card[of "map fst (to_end c n d)"] by (simp add: cursors_ok_def)
  also have "\<dots> \<le> card (set panels)" using ok by (intro card_mono) (auto simp: cursors_ok_def)
  also have "\<dots> \<le> 128" using assms(1) card_length[of panels] by (simp add: cursors_ok_def)
  finally show "rememberConsumerCursor c n d = to_end c n d" by (simp add: rememberConsumerCursor_def Let_def max_defs)
qed

definition remember_delivery :: "nat dict \<Rightarrow> serial_delivery \<Rightarrow> nat dict" where
  "remember_delivery d y = rememberConsumerCursor (dl_consumerId y) (dl_sequence y) d"

text \<open>One delivery with a number above the cursor of the panel.\<close>

lemma deliver_one:
  assumes "trace_inv panels d trace" and "dl_consumerId y \<in> set panels" and "\<forall>m. map_of d (dl_consumerId y) = Some m \<longrightarrow> m < dl_sequence y"
  shows "trace_inv panels (remember_delivery d y) (trace @ [y])"
    and "map_of (remember_delivery d y) = (map_of d)(dl_consumerId y \<mapsto> dl_sequence y)"
proof -
  have ok: "cursors_ok panels d" using assms(1) by (simp add: trace_inv_def)
  have e: "remember_delivery d y = to_end (dl_consumerId y) (dl_sequence y) d"
    unfolding remember_delivery_def by (rule remember_cursor(1)[OF ok assms(2)])
  show m: "map_of (remember_delivery d y) = (map_of d)(dl_consumerId y \<mapsto> dl_sequence y)"
    by (rule ext) (simp add: e map_of_to_end)
  have less: "dl_sequence x < dl_sequence y" if "x \<in> set trace" "dl_consumerId x = dl_consumerId y" for x
    using assms(1,3) that unfolding trace_inv_def by (metis le_less_trans)
  have "\<exists>m. map_of (remember_delivery d y) (dl_consumerId x) = Some m \<and> dl_sequence x \<le> m" if "x \<in> set (trace @ [y])" for x
    using that less[of x] assms(1) unfolding m trace_inv_def by (auto intro: less_imp_le)
  moreover have "sorted_wrt (<) (received c (trace @ [y]))" for c
    using less assms(1) by (auto simp: received_def trace_inv_def sorted_wrt_append)
  ultimately show "trace_inv panels (remember_delivery d y) (trace @ [y])"
    using remember_cursor(2)[OF ok assms(2), of "dl_sequence y"] unfolding trace_inv_def e by auto
qed

fun in_order :: "(string \<Rightarrow> nat option) \<Rightarrow> serial_delivery list \<Rightarrow> bool" where
  "in_order m [] = True"
| "in_order m (y # ys) \<longleftrightarrow> (\<forall>n. m (dl_consumerId y) = Some n \<longrightarrow> n < dl_sequence y) \<and> in_order (m(dl_consumerId y \<mapsto> dl_sequence y)) ys"

lemma deliver_many:
  "trace_inv panels d trace \<Longrightarrow> in_order (map_of d) ys \<Longrightarrow> \<forall>y \<in> set ys. dl_consumerId y \<in> set panels \<Longrightarrow>
   \<forall>c n. map_of d c = Some n \<longrightarrow> n \<le> b \<Longrightarrow> \<forall>y \<in> set ys. dl_sequence y \<le> b \<Longrightarrow>
   trace_inv panels (foldl remember_delivery d ys) (trace @ ys) \<and> (\<forall>c n. map_of (foldl remember_delivery d ys) c = Some n \<longrightarrow> n \<le> b)"
proof (induction ys arbitrary: d trace)
  case (Cons y ys)
  from Cons.prems have y: "dl_consumerId y \<in> set panels" "\<forall>m. map_of d (dl_consumerId y) = Some m \<longrightarrow> m < dl_sequence y" by auto
  note one = deliver_one[OF Cons.prems(1) y]
  have b: "\<forall>c n. map_of (remember_delivery d y) c = Some n \<longrightarrow> n \<le> b" using Cons.prems(4,5) by (simp add: one(2))
  have order: "in_order (map_of (remember_delivery d y)) ys" using Cons.prems(2) one(2) by simp
  from Cons.IH[OF one(1) order _ b] Cons.prems(3,5) show ?case by simp
qed simp

lemma in_order_live:
  "distinct (map dl_consumerId ys) \<Longrightarrow> \<forall>y \<in> set ys. dl_sequence y = n \<and> (\<forall>k. m (dl_consumerId y) = Some k \<longrightarrow> k < n) \<Longrightarrow> in_order m ys"
proof (induction ys arbitrary: m)
  case (Cons y ys)
  have ne: "dl_consumerId z \<noteq> dl_consumerId y" if "z \<in> set ys" for z
    using Cons.prems(1) imageI[OF that, of dl_consumerId] by auto
  have "in_order (m(dl_consumerId y \<mapsto> dl_sequence y)) ys" by (rule Cons.IH) (use Cons.prems ne in auto)
  then show ?case using Cons.prems by auto
qed simp

lemma in_order_replay:
  "sorted_wrt (<) (map dl_sequence ys) \<Longrightarrow> \<forall>y \<in> set ys. dl_consumerId y = c \<and> (\<forall>k. m c = Some k \<longrightarrow> k < dl_sequence y) \<Longrightarrow> in_order m ys"
  by (induction ys arbitrary: m) auto

definition panel_inv :: "string list \<Rightarrow> serial_state \<times> serial_delivery list \<Rightarrow> bool" where
  "panel_inv panels st \<longleftrightarrow> record_inv st \<and> trace_inv panels (sl_cursors (fst st)) (snd st)
     \<and> (\<forall>c n. map_of (sl_cursors (fst st)) c = Some n \<longrightarrow> n \<le> sl_sequence (fst st))
     \<and> distinct (map sb_consumerId (sl_subscribers (fst st))) \<and> sb_consumerId ` set (sl_subscribers (fst st)) \<subseteq> set panels"

text \<open>A panel has one subscription at a time.\<close>

definition panel_ok :: "string list \<Rightarrow> serial_state \<times> serial_delivery list \<Rightarrow> serial_action \<Rightarrow> bool" where
  "panel_ok panels st a = (case a of
     SerialListen key c p \<Rightarrow> c \<in> set panels \<and> c \<notin> set (map sb_consumerId (sl_subscribers (fst st))) | _ \<Rightarrow> True)"

lemma foldl_remember: "foldl (\<lambda>d y. rememberConsumerCursor (f y) (g y) d) d xs = foldl remember_delivery d (map h xs)"
  if "\<And>y. dl_consumerId (h y) = f y" "\<And>y. dl_sequence (h y) = g y"
  using that by (induction xs arbitrary: d) (simp_all add: remember_delivery_def)

lemma deliver_simps [simp]: "dl_consumerId (deliver r a x c) = c" "dl_sequence (deliver r a x c) = sq_sequence x" "dl_recordActivity (deliver r a x c) = a"
  by (simp_all add: deliver_def)

lemma dispatch_panel:
  assumes "panel_inv panels (s, trace)" and "dispatchSerialEvent e s = (s', new)"
  shows "panel_inv panels (s', trace @ new)"
proof -
  let ?n = "Suc (sl_sequence s)"
  define xs where "xs = filter (\<lambda>x. sb_portId x = se_portId e) (sl_subscribers s)"
  have rec: "record_inv (s', trace @ new)" by (rule dispatch_record[OF _ assms(2)]) (use assms(1) in \<open>simp add: panel_inv_def\<close>)
  have s': "sl_subscribers s' = sl_subscribers s" "sl_sequence s' = ?n"
    "sl_cursors s' = foldl (\<lambda>d y. rememberConsumerCursor (sb_consumerId y) ?n d) (sl_cursors s) xs"
    using assms(2) by (auto simp: dispatch_eq Let_def xs_def remember_rest split: if_splits)
  have new: "map (\<lambda>y. (dl_consumerId y, dl_sequence y)) new = map (\<lambda>x. (sb_consumerId x, ?n)) xs"
    using assms(2) by (cases xs) (auto simp: dispatch_eq Let_def xs_def[symmetric])
  have cur: "sl_cursors s' = foldl remember_delivery (sl_cursors s) new"
  proof -
    have "foldl (\<lambda>d p. rememberConsumerCursor (fst p) (snd p) d) d (map (\<lambda>y. (dl_consumerId y, dl_sequence y)) new) = foldl remember_delivery d new" for d
      by (induction new arbitrary: d) (simp_all add: remember_delivery_def)
    then show ?thesis unfolding s'(3) new[symmetric] by (simp add: new foldl_map)
  qed
  have ids: "map dl_consumerId new = map sb_consumerId xs" using arg_cong[OF new, of "map fst"] by (simp add: o_def)
  have seq: "\<forall>y \<in> set new. dl_sequence y = ?n" using dispatch_trace(2)[of e s] assms(2) by auto
  have sub: "set xs \<subseteq> set (sl_subscribers s)" "distinct (map sb_consumerId xs)"
    using assms(1) by (auto simp: xs_def panel_inv_def distinct_map_filter)
  have order: "in_order (map_of (sl_cursors s)) new"
    by (rule in_order_live[where n = ?n]) (use ids sub seq assms(1) in \<open>auto simp: panel_inv_def less_Suc_eq_le\<close>)
  have "sb_consumerId ` set xs \<subseteq> set panels" 
    by (rule subset_trans[OF image_mono[OF sub(1)]]) (use assms(1) in \<open>simp add: panel_inv_def\<close>)
  then have "\<forall>y \<in> set new. dl_consumerId y \<in> set panels" using arg_cong[OF ids, of set] by (metis imageI list.set_map subsetD)
  with deliver_many[OF _ order, of panels trace ?n] assms(1) seq
  have "trace_inv panels (sl_cursors s') (trace @ new) \<and> (\<forall>c n. map_of (sl_cursors s') c = Some n \<longrightarrow> n \<le> ?n)"
    unfolding cur panel_inv_def by (simp add: le_SucI)
  then show ?thesis using rec assms(1) by (simp add: panel_inv_def s'(1,2))
qed

lemma sorted_distinct_strict: "sorted xs \<Longrightarrow> distinct xs \<Longrightarrow> sorted_wrt (<) (xs :: nat list)"
  by (simp add: strict_sorted_iff)

lemma listen_panel:
  assumes "panel_inv panels (s, trace)" and "panel_ok panels (s, trace) (SerialListen key c p)" and "onSerialEvent key c p s = (s', new)"
  shows "panel_inv panels (s', trace @ new)"
proof -
  define items where "items = bufferedEventsAfter p (nullish (map_of (sl_cursors s) c) 0) s"
  have inv: "record_inv (s, trace)" using assms(1) by (simp add: panel_inv_def)
  have rec: "record_inv (s', trace @ new)" by (rule listen_record[OF inv assms(3)])
  have e: "sl_sequence s' = sl_sequence s" "new = map (\<lambda>x. deliver True (\<not> sq_activityRecorded x) x c) items"
    "sl_subscribers s' = sl_subscribers s @ [\<lparr> sb_key = key, sb_consumerId = c, sb_portId = p \<rparr>]"
    "sl_cursors s' = foldl (\<lambda>d x. rememberConsumerCursor c (sq_sequence x) d) (sl_cursors s) items"
    using assms(3) by (auto simp: onSerialEvent_def Let_def items_def)
  have cur: "sl_cursors s' = foldl remember_delivery (sl_cursors s) new"
    unfolding e(2,4) by (rule foldl_remember) simp_all
  have above: "k < sq_sequence x" if "x \<in> set items" "map_of (sl_cursors s) c = Some k" for x k
    using that by (auto simp: items_def bufferedEventsAfter_def split: option.splits)
  have "sorted (map sq_sequence items)" by (auto simp: items_def bufferedEventsAfter_def split: option.split)
  then have "sorted_wrt (<) (map dl_sequence new)"
    using sorted_distinct_strict[OF _ replay_distinct[OF inv, of p "nullish (map_of (sl_cursors s) c) 0"]] by (simp add: e(2) items_def o_def)
  then have order: "in_order (map_of (sl_cursors s)) new"
    by (rule in_order_replay[where c = c]) (auto simp: e(2) above)
  have "\<forall>y \<in> set new. dl_consumerId y \<in> set panels \<and> dl_sequence y \<le> sl_sequence s"
    using assms(2) rec by (auto simp: e panel_ok_def record_inv_def)
  with deliver_many[OF _ order, of panels trace "sl_sequence s"] assms(1)
  have "trace_inv panels (sl_cursors s') (trace @ new) \<and> (\<forall>c n. map_of (sl_cursors s') c = Some n \<longrightarrow> n \<le> sl_sequence s)"
    unfolding cur panel_inv_def by simp
  then show ?thesis using rec assms(1,2) by (auto simp: panel_inv_def panel_ok_def e(1,3))
qed


lemma panel_init_inv: "length panels \<le> 128 \<Longrightarrow> panel_inv panels (serial_init, [])"
  using serial_init_inv by (simp add: panel_inv_def trace_inv_def cursors_ok_def serial_init_def received_def)

lemma panel_step_inv:
  assumes "panel_inv panels st" and "panel_ok panels st a"
  shows "panel_inv panels (serial_step st a)"
proof (cases a)
  case (SerialUnlisten key)
  obtain s trace where st: "st = (s, trace)" by (cases st)
  have "sb_consumerId ` set (filter (\<lambda>x. sb_key x \<noteq> key) (sl_subscribers s)) \<subseteq> set panels"
    by (rule subset_trans[OF image_mono[OF filter_is_subset]]) (use assms(1) in \<open>simp add: st panel_inv_def\<close>)
  then show ?thesis using assms(1) serial_step_inv[of st a]
    by (simp add: st SerialUnlisten serial_step_def unlistenSerial_def panel_inv_def distinct_map_filter)
next
  case (SerialDispatch e)
  then show ?thesis using assms by (cases st) (auto simp: serial_step_def split: prod.splits intro: dispatch_panel)
next
  case (SerialListen key c p)
  then show ?thesis using assms by (cases st) (auto simp: serial_step_def split: prod.splits intro: listen_panel)
qed

interpretation serial_panels: action_store "(serial_init, [])" serial_step "panel_ok panels" "\<lambda>st. length panels \<le> 128 \<longrightarrow> panel_inv panels st" for panels
  by unfold_locales (auto intro: panel_init_inv panel_step_inv)


section \<open>Properties\<close>

lemma admissible_free: "admissible step (\<lambda>_ _. True) s as"
  by (induction as arbitrary: s) auto

definition within_limits :: "serial_state \<Rightarrow> bool" where
  "within_limits s \<longleftrightarrow> distinct (map fst (sl_buffers s)) \<and> length (sl_buffers s) \<le> 16 \<and> list_all (\<lambda>p.
       distinct (map fst (snd p)) \<and> length (snd p) \<le> 4 \<and> list_all (\<lambda>q. length (gb_events (snd q)) \<le> 256
         \<and> gb_bytes (snd q) = sum_list (map sq_bytes (gb_events (snd q))) \<and> gb_bytes (snd q) \<le> 1024 * 1024) (snd p)) (sl_buffers s)"

lemma buffer_inv_limits: "buffer_inv s \<Longrightarrow> within_limits s"
  unfolding buffer_inv_def within_limits_def bufs_ok_def all_vals_def port_ok_def
  by (elim conjE, intro conjI) (auto elim!: list.pred_mono_strong simp: gen_ok_def)

text \<open>\<^bold>\<open>C34\<close>. Whatever events arrive and whichever panels come and go, the buffers hold at most 16 ports, 4
  openings of a port, 256 events and 1 MB for an opening and 8 MB in all; the byte counters, which the
  code adjusts at every step, are the sizes of the buffered events; and an event is reported for the
  activity log at most once: the numbers of the deliveries that carry \<open>recordActivity\<close> are distinct.\<close>

theorem serial_service_accounted:
  "let (s, trace) = run serial_step (serial_init, []) actions in within_limits s
     \<and> sl_totalBytes s = sum_list (map (\<lambda>p. sum_list (map (\<lambda>q. gb_bytes (snd q)) (snd p))) (sl_buffers s))
     \<and> sl_totalBytes s \<le> 8 * 1024 * 1024
     \<and> distinct (map dl_sequence (filter dl_recordActivity trace))"
proof -
  obtain s trace where st: "run serial_step (serial_init, []) actions = (s, trace)" by (cases "run serial_step (serial_init, []) actions")
  have "record_inv (s, trace)" using serial_service.inv_run[OF admissible_free, of actions] by (simp add: st)
  then show ?thesis using buffer_inv_limits[of s]
    by (simp add: st record_inv_def buffer_inv_def recorded_seqs_def all_bytes_def dsum_def)
qed


definition example_event :: "string \<Rightarrow> SerialEvent" where
  "example_event text = \<lparr> se_portId = ''COM1'', se_generation = ''g1'', se_eventType = SerialData, se_data = Some text,
     se_rawHex = None, se_size = None, se_timestamp = ''0'', se_signals = None \<rparr>"

definition example_run :: "serial_action list" where
  "example_run = [SerialDispatch (example_event ''a''), SerialListen 0 ''panel'' ''COM1'', SerialDispatch (example_event ''b''),
     SerialUnlisten 0, SerialDispatch (example_event ''c''), SerialListen 1 ''panel'' ''COM1'']"


end
