(* ===== verification/ToolWindows.thy ===== *)
theory ToolWindows
  imports AppStoreProps JsonFields "HOL-Library.Monad_Syntax"
begin

text \<open>
  Tool windows (\<open>src/src/lib/windowManager.ts\<close>), docking (\<open>src/src/lib/toolDocking.ts\<close>) and the handlers of
  \<open>src/src/App.tsx\<close> that move a tool session between the main window and a window of its own. The window
  system is not part of the sources: what it is asked to do is returned as a list of calls, and what
  it answers (which labels exist) is an argument.
\<close>

section \<open>The window manager\<close>

type_synonym ToolWindowType = ToolWorkbench

record ToolWindowConfig =
  tc_title :: string
  tc_width :: int
  tc_height :: int
  tc_minWidth :: int
  tc_minHeight :: int

definition tool_window :: "string \<Rightarrow> int \<Rightarrow> int \<Rightarrow> int \<Rightarrow> int \<Rightarrow> ToolWindowConfig" where
  "tool_window name w h mw mh = \<lparr> tc_title = ''ProtoForge '' @ utf8_text [8212] @ '' '' @ name, tc_width = w, tc_height = h,
     tc_minWidth = mw, tc_minHeight = mh \<rparr>"

fun toolConfigs :: "ToolWindowType \<Rightarrow> ToolWindowConfig" where
  "toolConfigs CaptureTool = tool_window (utf8_text [32593, 32476, 25235, 21253]) 1100 700 800 500"
| "toolConfigs LoadTest = tool_window (utf8_text [21387, 21147, 27979, 35797]) 1100 750 800 500"
| "toolConfigs TcpUdp = tool_window (''TCP/UDP'') 1000 700 750 500"
| "toolConfigs VideoStream = tool_window (utf8_text [35270, 39057, 27969]) 1200 800 900 600"
| "toolConfigs MockServer = tool_window (''Mock Server'') 1100 750 800 500"
| "toolConfigs DbClient = tool_window (''Database Client'') 1200 800 900 600"
| "toolConfigs Toolbox = tool_window (utf8_text [24037, 20855, 31665]) 1000 700 800 500"
| "toolConfigs WorkflowTool = tool_window (''Workflow'') 1200 800 900 600"

definition getToolWindowLabel :: "ToolWindowType \<Rightarrow> string \<Rightarrow> string" where
  "getToolWindowLabel tool sessionId = ''tool-'' @ tool_name tool @ ''-'' @ sessionId"

definition label_tools :: "ToolWindowType list" where
  "label_tools = [CaptureTool, LoadTest, TcpUdp, VideoStream, MockServer, DbClient, Toolbox, WorkflowTool]"

text \<open>The dot of the pattern matches everything but the ends of lines.\<close>

definition line_text :: "string \<Rightarrow> bool" where
  "line_text t \<longleftrightarrow> t \<noteq> [] \<and> list_all (\<lambda>c. c \<noteq> CHR 0x0A \<and> c \<noteq> CHR 0x0D) t"

definition strip_prefix :: "string \<Rightarrow> string \<Rightarrow> string option" where
  "strip_prefix p t = (if take (length p) t = p then Some (drop (length p) t) else None)"

definition label_of_tool :: "string \<Rightarrow> ToolWindowType \<Rightarrow> (ToolWindowType \<times> string) option" where
  "label_of_tool label tool = (case strip_prefix (''tool-'' @ tool_name tool @ ''-'') label of
     Some t \<Rightarrow> if line_text t then Some (tool, t) else None | None \<Rightarrow> None)"

definition parseToolWindowLabel :: "string \<Rightarrow> (ToolWindowType \<times> string) option" where
  "parseToolWindowLabel label = (case List.map_filter (label_of_tool label) label_tools of [] \<Rightarrow> None | m # _ \<Rightarrow> Some m)"

text \<open>\<open>labels\<close>: the labels of all windows, as the window system lists them.\<close>

definition getToolWindows :: "ToolWindowType option \<Rightarrow> string list \<Rightarrow> string list" where
  "getToolWindows tool labels = filter (\<lambda>l. case parseToolWindowLabel l of None \<Rightarrow> False
     | Some p \<Rightarrow> (case tool of Some t \<Rightarrow> fst p = t | None \<Rightarrow> True)) labels"

datatype window_call = SetFocus string | ShowWindow string | CreateWindow string "(string \<times> string) list" ToolWindowConfig
  | CloseWindow string | DestroyWindow string

definition window_params :: "ToolWindowType \<Rightarrow> string \<Rightarrow> ToolSessionOptions \<Rightarrow> (string \<times> string) list" where
  "window_params tool sessionId options = [(''window'', tool_name tool), (''session'', sessionId)]
     @ (if truthy_opt (op_tcpMode options) then [(''tcpMode'', the (op_tcpMode options))] else [])
     @ (if truthy_opt (op_videoMode options) then [(''videoMode'', the (op_videoMode options))] else [])"

definition openToolWindow :: "string list \<Rightarrow> ToolWindowType \<Rightarrow> string \<Rightarrow> ToolSessionOptions \<Rightarrow> window_call list \<times> string" where
  "openToolWindow labels tool sessionId options = (let label = getToolWindowLabel tool sessionId in
     (if label \<in> set labels then [SetFocus label]
      else [CreateWindow label (window_params tool sessionId options) (toolConfigs tool)], sessionId))"

definition isToolWindowOpen :: "string list \<Rightarrow> ToolWindowType \<Rightarrow> string option \<Rightarrow> bool" where
  "isToolWindowOpen labels tool sessionId =
     (if truthy_opt sessionId then getToolWindowLabel tool (the sessionId) \<in> set labels
      else 0 < length (getToolWindows (Some tool) labels))"

definition listOpenToolWindowSessions :: "string list \<Rightarrow> ToolWindowType \<Rightarrow> string list" where
  "listOpenToolWindowSessions labels tool =
     map snd (List.map_filter parseToolWindowLabel (getToolWindows (Some tool) labels))"

definition focusMainWindow :: "string list \<Rightarrow> window_call list" where
  "focusMainWindow labels = (if ''main'' \<in> set labels then [ShowWindow ''main'', SetFocus ''main''] else [])"

text \<open>\<open>close_ok\<close>: whether closing succeeds; a failure to destroy is ignored.\<close>

definition closeWindowByLabel :: "string list \<Rightarrow> bool \<Rightarrow> string \<Rightarrow> window_call list" where
  "closeWindowByLabel labels close_ok label = (if label \<in> set labels
     then CloseWindow label # (if close_ok then [] else [DestroyWindow label]) else [])"


section \<open>Docking requests\<close>

record DockRequest =
  dk_tool :: ToolWindowType
  dk_sessionId :: string
  dk_ts :: int
  dk_sourceLabel :: "string option"

definition dock_key :: string where "dock_key = ''protoforge:tool-docking-request''"

definition json_of_dock :: "DockRequest \<Rightarrow> json" where
  "json_of_dock r = JObj ([(''tool'', JStr (tool_name (dk_tool r))), (''sessionId'', JStr (dk_sessionId r)), (''ts'', json_number (dk_ts r))]
     @ opt_field ''sourceLabel'' JStr (dk_sourceLabel r))"

definition isDockRequest :: "json \<Rightarrow> bool" where
  "isDockRequest v = (case v of JObj d \<Rightarrow> list_all (\<lambda>k. map_of d k \<noteq> None) [''tool'', ''sessionId'', ''ts''] | _ \<Rightarrow> False)"

text \<open>A request whose fields have the types the source gives them.\<close>

definition tool_of_name :: "string \<Rightarrow> ToolWindowType option" where
  "tool_of_name n = find (\<lambda>t. tool_name t = n) label_tools"

definition dock_of_json :: "json \<Rightarrow> DockRequest option" where
  "dock_of_json v = (case v of
     JObj d \<Rightarrow> do { n \<leftarrow> get_string (map_of d ''tool''); tool \<leftarrow> tool_of_name n; sid \<leftarrow> get_string (map_of d ''sessionId'');
       ts \<leftarrow> get_int (map_of d ''ts''); src \<leftarrow> get_optional get_string (map_of d ''sourceLabel'');
       Some \<lparr> dk_tool = tool, dk_sessionId = sid, dk_ts = ts, dk_sourceLabel = src \<rparr> }
   | _ \<Rightarrow> None)"

text \<open>The text stored and the message broadcast; storing may fail.\<close>

definition requestDockTool :: "bool \<Rightarrow> int \<Rightarrow> ToolWindowType \<Rightarrow> string \<Rightarrow> string option \<Rightarrow> string option \<times> json" where
  "requestDockTool blocked now tool sessionId sourceLabel =
     (let payload = json_of_dock \<lparr> dk_tool = tool, dk_sessionId = sessionId, dk_ts = now, dk_sourceLabel = sourceLabel \<rparr>
      in (if blocked then None else Some (JSON_stringify payload), payload))"

definition handleDockPayload :: "json \<Rightarrow> json option" where
  "handleDockPayload payload = (if isDockRequest payload then Some payload else None)"

definition handleDockStorage :: "string \<Rightarrow> string option \<Rightarrow> json option" where
  "handleDockStorage key newValue = (if key \<noteq> dock_key \<or> \<not> truthy_opt newValue then None
     else case JSON_parse (the newValue) of Some v \<Rightarrow> handleDockPayload v | None \<Rightarrow> None)"


section \<open>Sessions in the main window and in windows of their own\<close>

record dock_state =
  dw_app :: app_state
  dw_detached :: "ToolWorkbench \<Rightarrow> string list"

definition refreshDetachedTools :: "string list \<Rightarrow> dock_state \<Rightarrow> dock_state" where
  "refreshDetachedTools labels s = s\<lparr>dw_detached := (\<lambda>tool. listOpenToolWindowSessions labels tool)\<rparr>"

text \<open>The reply to a docking request, after the window it came from was closed.\<close>

definition dockTool :: "string \<Rightarrow> DockRequest \<Rightarrow> dock_state \<Rightarrow> dock_state" where
  "dockTool uuid r s = s\<lparr>dw_app := snd (openToolTab uuid (dk_tool r) (Some (dk_sessionId r)) no_options (dw_app s)),
     dw_detached := (dw_detached s)(dk_tool r := filter (\<lambda>i. i \<noteq> dk_sessionId r) (dw_detached s (dk_tool r)))\<rparr>"

definition handlePopoutWorkbench :: "string list \<Rightarrow> ToolWorkbench \<Rightarrow> string \<Rightarrow> dock_state \<Rightarrow> window_call list \<times> dock_state" where
  "handlePopoutWorkbench labels tool sessionId s =
     (let session = find (\<lambda>x. ts_id x = sessionId) (ap_toolSessions (dw_app s) tool);
          (calls, detachedId) = openToolWindow labels tool sessionId
             (no_options\<lparr>op_tcpMode := (case session of Some x \<Rightarrow> ts_tcpMode x | None \<Rightarrow> None),
                         op_videoMode := (case session of Some x \<Rightarrow> ts_videoMode x | None \<Rightarrow> None)\<rparr>);
          current = dw_detached s tool;
          nextDetached = (if detachedId \<in> set current then current else current @ [detachedId]);
          app = dw_app s;
          app' = (if ap_activeToolSessionIds app tool = Some detachedId
                  then (case find (\<lambda>x. ts_id x \<notin> set nextDetached) (ap_toolSessions app tool) of
                          Some x \<Rightarrow> setActiveToolSession tool (ts_id x) app | None \<Rightarrow> app)
                  else app)
      in (calls, s\<lparr>dw_app := app', dw_detached := (dw_detached s)(tool := nextDetached)\<rparr>))"


section \<open>Properties\<close>

lemma strip_prefix_append [simp]: "strip_prefix p (p @ t) = Some t"
  by (simp add: strip_prefix_def)

lemma label_match: "label_of_tool (getToolWindowLabel tool sid) t = (if t = tool \<and> line_text sid then Some (tool, sid) else None)"
  by (cases tool; cases t) (auto simp: label_of_tool_def getToolWindowLabel_def strip_prefix_def)

lemma parse_label: "parseToolWindowLabel (getToolWindowLabel tool sid) = (if line_text sid then Some (tool, sid) else None)"
  by (cases tool) (simp_all add: parseToolWindowLabel_def label_match label_tools_def map_filter_simps)

lemma sessions_of_labels:
  "list_all (\<lambda>p. line_text (snd p)) opens \<Longrightarrow>
   listOpenToolWindowSessions (map (\<lambda>p. getToolWindowLabel (fst p) (snd p)) opens) tool = map snd (filter (\<lambda>p. fst p = tool) opens)"
  unfolding listOpenToolWindowSessions_def getToolWindows_def
  by (induction opens) (simp_all add: parse_label map_filter_simps)

lemma main_not_listed: "listOpenToolWindowSessions (''main'' # labels) tool = listOpenToolWindowSessions labels tool"
proof -
  have "label_of_tool ''main'' t = None" for t by (simp add: label_of_tool_def strip_prefix_def)
  then have "parseToolWindowLabel ''main'' = None" by (simp add: parseToolWindowLabel_def label_tools_def map_filter_simps)
  then show ?thesis by (simp add: listOpenToolWindowSessions_def getToolWindows_def)
qed

text \<open>The windows opened for tool sessions are found again by their labels: what the main window lists
  as detached sessions of a tool are the sessions whose windows are open, in the order of the windows.\<close>

theorem tool_windows_listed:
  assumes "list_all (\<lambda>p. line_text (snd p)) opens"
  shows "dw_detached (refreshDetachedTools (''main'' # map (\<lambda>p. getToolWindowLabel (fst p) (snd p)) opens) s) tool
     = map snd (filter (\<lambda>p. fst p = tool) opens)"
  using sessions_of_labels[OF assms] by (simp add: refreshDetachedTools_def main_not_listed)

lemma tool_name_back: "tool_of_name (tool_name t) = Some t"
  by (cases t) (simp_all add: tool_of_name_def label_tools_def)

lemma dock_json_back: "dock_of_json (json_of_dock r) = Some r" "isDockRequest (json_of_dock r)" "json_ok (json_of_dock r)"
  by (cases "dk_sourceLabel r"; simp add: json_of_dock_def dock_of_json_def isDockRequest_def opt_field_def tool_name_back get_optional_Some wf_dict_def)+

text \<open>A docking request reaches the main window as it was sent, through the store and through the channel.\<close>

lemma dock_request_arrives:
  "Option.bind (handleDockStorage dock_key (fst (requestDockTool False now tool sid src))) dock_of_json
     = Some \<lparr> dk_tool = tool, dk_sessionId = sid, dk_ts = now, dk_sourceLabel = src \<rparr>"
  "Option.bind (handleDockPayload (snd (requestDockTool blocked now tool sid src))) dock_of_json
     = Some \<lparr> dk_tool = tool, dk_sessionId = sid, dk_ts = now, dk_sourceLabel = src \<rparr>"
proof -
  let ?r = "\<lparr> dk_tool = tool, dk_sessionId = sid, dk_ts = now, dk_sourceLabel = src \<rparr>"
  have "JSON_stringify (json_of_dock ?r) \<noteq> []" using length_stringify_pos[OF dock_json_back(3), of ?r] by auto
  then show "Option.bind (handleDockStorage dock_key (fst (requestDockTool False now tool sid src))) dock_of_json = Some ?r"
    by (simp add: handleDockStorage_def requestDockTool_def Let_def handleDockPayload_def JSON_roundtrip dock_json_back)
  show "Option.bind (handleDockPayload (snd (requestDockTool blocked now tool sid src))) dock_of_json = Some ?r"
    by (simp add: requestDockTool_def Let_def handleDockPayload_def dock_json_back)
qed

lemma dock_existing:
  assumes "sid \<in> session_ids (dw_app s) tool" and "sid \<noteq> []"
  shows "dockTool uuid \<lparr> dk_tool = tool, dk_sessionId = sid, dk_ts = now, dk_sourceLabel = src \<rparr> s
    = s\<lparr>dw_app := focus_session tool (Some sid) (dw_app s), dw_detached := (dw_detached s)(tool := filter (\<lambda>i. i \<noteq> sid) (dw_detached s tool))\<rparr>"
proof -
  obtain x where x: "find (\<lambda>x. Some (ts_id x) = Some sid) (ap_toolSessions (dw_app s) tool) = Some x"
    using assms(1) by (cases "find (\<lambda>x. Some (ts_id x) = Some sid) (ap_toolSessions (dw_app s) tool)") (auto simp: session_ids_def find_None_iff)
  then have "x \<in> set (ap_toolSessions (dw_app s) tool)" "ts_id x = sid" by (auto simp: find_Some_iff)
  then have "some_elem (\<lambda>y. ts_id y = ts_id x) (ap_toolSessions (dw_app s) tool)" by (auto simp: some_elem_def list_ex_iff)
  then show ?thesis using x assms(2) \<open>ts_id x = sid\<close> by (simp add: dockTool_def openToolTab_def Let_def)
qed

text \<open>What a pop-out does to the main window.\<close>

lemma popout_state:
  assumes "handlePopoutWorkbench labels tool sid s = (calls, s1)"
  shows "ap_toolSessions (dw_app s1) = ap_toolSessions (dw_app s)"
    and "dw_detached s1 = (dw_detached s)(tool := if sid \<in> set (dw_detached s tool) then dw_detached s tool else dw_detached s tool @ [sid])"
    and "ap_tabs (dw_app s1) = ap_tabs (dw_app s)"
    and "getToolWindowLabel tool sid \<notin> set labels \<Longrightarrow> \<exists>params config. calls = [CreateWindow (getToolWindowLabel tool sid) params config]"
  using assms by (auto simp: handlePopoutWorkbench_def openToolWindow_def Let_def setActiveToolSession_def focus_session_def split: option.splits if_splits)

lemma popout_active:
  assumes "handlePopoutWorkbench labels tool sid s = (calls, s1)" and "ap_activeToolSessionIds (dw_app s) tool = Some sid"
    and "i \<in> session_ids (dw_app s) tool" and "i \<notin> set (dw_detached s1 tool)"
  shows "\<exists>j. ap_activeToolSessionIds (dw_app s1) tool = Some j \<and> j \<in> session_ids (dw_app s1) tool \<and> j \<notin> set (dw_detached s1 tool)"
proof -
  let ?next = "dw_detached s1 tool"
  have n: "?next = (if sid \<in> set (dw_detached s tool) then dw_detached s tool else dw_detached s tool @ [sid])"
    using popout_state(2)[OF assms(1)] by simp
  obtain x where x: "find (\<lambda>x. ts_id x \<notin> set ?next) (ap_toolSessions (dw_app s) tool) = Some x"
    using assms(3,4) by (cases "find (\<lambda>x. ts_id x \<notin> set ?next) (ap_toolSessions (dw_app s) tool)") (auto simp: session_ids_def find_None_iff)
  then have m: "x \<in> set (ap_toolSessions (dw_app s) tool)" "ts_id x \<notin> set ?next" by (auto simp: find_Some_iff)
  have "dw_app s1 = setActiveToolSession tool (ts_id x) (dw_app s)"
    using assms(1,2) x unfolding n by (auto simp: handlePopoutWorkbench_def openToolWindow_def Let_def split: if_splits)
  then show ?thesis using m by (auto simp: setActiveToolSession_def focus_session_def session_ids_def)
qed

text \<open>\<^bold>\<open>C37\<close>. Popping a tool session out of the main window and docking it again, with the request that its
  window sends: the window made for it carries its label, the session counts as detached in between
  and the main window shows another session where there is one; afterwards the sessions are those of
  before, the session is the active one of its tool and is no longer detached.\<close>

theorem popout_and_dock:
  assumes "sid \<in> session_ids (dw_app s) tool" and "line_text sid" and "getToolWindowLabel tool sid \<notin> set labels"
    and "handlePopoutWorkbench labels tool sid s = (calls, s1)"
    and "Option.bind (handleDockStorage dock_key (fst (requestDockTool False now tool sid (Some (getToolWindowLabel tool sid))))) dock_of_json = Some request"
    and "s2 = dockTool uuid request s1"
  shows "(\<exists>label params config. calls = [CreateWindow label params config] \<and> parseToolWindowLabel label = Some (tool, sid))
    \<and> sid \<in> set (dw_detached s1 tool)
    \<and> (ap_activeToolSessionIds (dw_app s) tool = Some sid \<and> session_ids (dw_app s) tool - set (dw_detached s1 tool) \<noteq> {} \<longrightarrow>
        (\<exists>j. ap_activeToolSessionIds (dw_app s1) tool = Some j \<and> j \<in> session_ids (dw_app s1) tool \<and> j \<notin> set (dw_detached s1 tool)))
    \<and> ap_toolSessions (dw_app s2) = ap_toolSessions (dw_app s) \<and> ap_activeToolSessionIds (dw_app s2) tool = Some sid
    \<and> dw_detached s2 = (dw_detached s)(tool := filter (\<lambda>i. i \<noteq> sid) (dw_detached s tool))"
proof -
  note pop = popout_state[OF assms(4)]
  have sid: "sid \<noteq> []" using assms(2) by (simp add: line_text_def)
  have r: "request = \<lparr> dk_tool = tool, dk_sessionId = sid, dk_ts = now, dk_sourceLabel = Some (getToolWindowLabel tool sid) \<rparr>"
    using assms(5) dock_request_arrives(1) by simp
  have in1: "sid \<in> session_ids (dw_app s1) tool" using assms(1) pop(1) by (simp add: session_ids_def)
  have s2: "s2 = s1\<lparr>dw_app := focus_session tool (Some sid) (dw_app s1), dw_detached := (dw_detached s1)(tool := filter (\<lambda>i. i \<noteq> sid) (dw_detached s1 tool))\<rparr>"
    unfolding assms(6) r by (rule dock_existing[OF in1 sid])
  have "dw_detached s2 = (dw_detached s)(tool := filter (\<lambda>i. i \<noteq> sid) (dw_detached s tool))" by (simp add: s2 pop(2))
  moreover have "\<exists>label params config. calls = [CreateWindow label params config] \<and> parseToolWindowLabel label = Some (tool, sid)"
    using pop(4)[OF assms(3)] parse_label[of tool sid] assms(2) by auto
  moreover have "sid \<in> set (dw_detached s1 tool)" by (simp add: pop(2))
  ultimately show ?thesis using popout_active[OF assms(4)] pop(1) by (auto simp: s2 focus_session_def)
qed

theorem tool_windows_listed_witness:
  "dw_detached (refreshDetachedTools (''main'' # map (\<lambda>p. getToolWindowLabel (fst p) (snd p)) [(Toolbox, ''a''), (LoadTest, ''b-c''), (Toolbox, ''d'')])
     \<lparr> dw_app = app_init, dw_detached = (\<lambda>_. []) \<rparr>) Toolbox = [''a'', ''d'']"
  by (subst tool_windows_listed) (simp_all add: line_text_def)

theorem popout_and_dock_witness:
  "let s = \<lparr> dw_app = snd (addToolSession ''b'' Toolbox no_options (snd (addToolSession ''a'' Toolbox no_options app_init))), dw_detached = (\<lambda>_. []) \<rparr>;
       s1 = snd (handlePopoutWorkbench [''main''] Toolbox ''b'' s);
       s2 = dockTool ''u'' \<lparr> dk_tool = Toolbox, dk_sessionId = ''b'', dk_ts = 1, dk_sourceLabel = Some (getToolWindowLabel Toolbox ''b'') \<rparr> s1
   in dw_detached s1 Toolbox = [''b''] \<and> ap_activeToolSessionIds (dw_app s1) Toolbox = Some ''a''
     \<and> dw_detached s2 = dw_detached s \<and> ap_activeToolSessionIds (dw_app s2) Toolbox = Some ''b''"
proof -
  let ?s = "\<lparr> dw_app = snd (addToolSession ''b'' Toolbox no_options (snd (addToolSession ''a'' Toolbox no_options app_init))), dw_detached = (\<lambda>_. []) \<rparr>"
  let ?r = "\<lparr> dk_tool = Toolbox, dk_sessionId = ''b'', dk_ts = 1, dk_sourceLabel = Some (getToolWindowLabel Toolbox ''b'') \<rparr>"
  have ids: "session_ids (dw_app ?s) Toolbox = {''a'', ''b''}" "ap_activeToolSessionIds (dw_app ?s) Toolbox = Some ''b''"
    by (auto simp: session_ids_def addToolSession_def createToolSession_def push_session_def focus_session_def app_init_def Let_def)
  have label: "getToolWindowLabel Toolbox ''b'' \<notin> set [''main'']" by (simp add: getToolWindowLabel_def)
  have e: "dw_detached (snd (handlePopoutWorkbench [''main''] Toolbox ''b'' ?s)) Toolbox = [''b'']"
    using popout_state(2)[OF prod.collapse[symmetric], of "[''main'']" Toolbox "''b''" ?s] by simp
  have in1: "''b'' \<in> session_ids (dw_app ?s) Toolbox" and lt: "line_text ''b''" using ids(1) by (simp_all add: line_text_def)
  define s1 where "s1 = snd (handlePopoutWorkbench [''main''] Toolbox ''b'' ?s)"
  have pop: "handlePopoutWorkbench [''main''] Toolbox ''b'' ?s = (fst (handlePopoutWorkbench [''main''] Toolbox ''b'' ?s), s1)"
    by (simp add: s1_def)
  note r = popout_and_dock[OF in1 lt label pop dock_request_arrives(1) refl, of "''u''" 1]
  have other: "session_ids (dw_app ?s) Toolbox - set (dw_detached s1 Toolbox) = {''a''}" using ids(1) e by (auto simp: s1_def)
  have same: "session_ids (dw_app s1) Toolbox = session_ids (dw_app ?s) Toolbox" using popout_state(1)[OF pop] by (simp add: session_ids_def)
  have "\<exists>j. ap_activeToolSessionIds (dw_app s1) Toolbox = Some j \<and> j \<in> session_ids (dw_app s1) Toolbox \<and> j \<notin> set (dw_detached s1 Toolbox)"
    using r ids(2) other by (metis insert_not_empty)
  then have active: "ap_activeToolSessionIds (dw_app s1) Toolbox = Some ''a''" using ids(1) e same by (auto simp: s1_def)
  have "dw_detached (dockTool ''u'' ?r s1) = dw_detached ?s \<and> ap_activeToolSessionIds (dw_app (dockTool ''u'' ?r s1)) Toolbox = Some ''b''"
    using conjunct2[OF conjunct2[OF conjunct2[OF conjunct2[OF r]]]] by (simp add: fun_upd_idem)
  then show ?thesis using e active unfolding Let_def s1_def by blast
qed

end
