(* ===== verification/LoadTest.thy ===== *)
theory LoadTest
  imports ToolWindows SavedRequests
begin

text \<open>
  The load test: a request handed over to it (\<open>src/src/lib/loadTestBridge.ts\<close>), and the configuration and
  event handling of its panel (\<open>src/src/components/loadtest/LoadTestWorkspace.tsx\<close>). Measurements are
  opaque values.
\<close>

section \<open>Data\<close>

record LoadTestBody =
  lb_type :: string
  lb_content :: "string option"
  lb_data :: "string option"
  lb_contentType :: "string option"

record LoadTestAuth =
  la_type :: string
  la_token :: "string option"
  la_username :: "string option"
  la_password :: "string option"
  la_key :: "string option"
  la_value :: "string option"
  la_addTo :: "string option"

record LoadTestConfig =
  lc_url :: string
  lc_method :: string
  lc_headers :: "string dict"
  lc_body :: "LoadTestBody option"
  lc_auth :: "LoadTestAuth option"
  lc_concurrency :: int
  lc_durationSecs :: "int option"
  lc_totalRequests :: "int option"
  lc_timeoutMs :: "int option"
  lc_rpsLimit :: "int option"
  lc_latencyThresholdMs :: "int option"

text \<open>The part of a configuration that a request determines.\<close>

record LoadTestPrefill =
  pf_url :: string
  pf_method :: string
  pf_headers :: "string dict"
  pf_body :: "LoadTestBody option"
  pf_auth :: "LoadTestAuth option"
  pf_timeoutMs :: int

definition json_body :: "string \<Rightarrow> LoadTestBody" where
  "json_body t = \<lparr> lb_type = ''json'', lb_content = None, lb_data = Some t, lb_contentType = None \<rparr>"

definition raw_body :: "string \<Rightarrow> string \<Rightarrow> LoadTestBody" where
  "raw_body t ct = \<lparr> lb_type = ''raw'', lb_content = Some t, lb_data = None, lb_contentType = Some ct \<rparr>"

definition bearer_auth :: "string \<Rightarrow> LoadTestAuth" where
  "bearer_auth t = \<lparr> la_type = ''bearer'', la_token = Some t, la_username = None, la_password = None, la_key = None, la_value = None, la_addTo = None \<rparr>"

definition basic_auth :: "string \<Rightarrow> string \<Rightarrow> LoadTestAuth" where
  "basic_auth u p = \<lparr> la_type = ''basic'', la_token = None, la_username = Some u, la_password = Some p, la_key = None, la_value = None, la_addTo = None \<rparr>"

definition key_auth :: "string \<Rightarrow> string \<Rightarrow> string \<Rightarrow> LoadTestAuth" where
  "key_auth k v a = \<lparr> la_type = ''apiKey'', la_token = None, la_username = None, la_password = None, la_key = Some k, la_value = Some v, la_addTo = Some a \<rparr>"


section \<open>From a request\<close>

definition load_headers :: "KeyValue list \<Rightarrow> string dict" where
  "load_headers kvs = fromEntries (map (\<lambda>h. (kv_key h, kv_value h)) (filter (\<lambda>h. kv_enabled h \<and> truthy (js_trim (kv_key h))) kvs))"

definition load_graphql :: "HttpRequestConfig \<Rightarrow> string" where
  "load_graphql http = JSON_stringify (JObj [(''query'', JStr (rq_graphqlQuery http)),
     (''variables'', if truthy (rq_graphqlVariables http)
        then (case JSON_parse (rq_graphqlVariables http) of Some v \<Rightarrow> v | None \<Rightarrow> JStr (rq_graphqlVariables http)) else JObj [])])"

definition load_body :: "HttpRequestConfig \<Rightarrow> LoadTestBody option" where
  "load_body http =
     (if rq_requestMode http = ModeGraphql then Some (json_body (load_graphql http))
      else case rq_bodyType http of
        BodyJson \<Rightarrow> if truthy (js_trim (rq_jsonBody http)) then Some (json_body (rq_jsonBody http)) else None
      | BodyRaw \<Rightarrow> if truthy (js_trim (rq_rawBody http))
          then Some (raw_body (rq_rawBody http) (if truthy (rq_rawContentType http) then rq_rawContentType http else ''text/plain'')) else None
      | _ \<Rightarrow> None)"

definition load_auth :: "HttpRequestConfig \<Rightarrow> LoadTestAuth option" where
  "load_auth http = (case rq_authType http of
        AuthBearer \<Rightarrow> if truthy (js_trim (rq_bearerToken http)) then Some (bearer_auth (rq_bearerToken http)) else None
      | AuthBasic \<Rightarrow> if truthy (js_trim (rq_basicUsername http)) then Some (basic_auth (rq_basicUsername http) (rq_basicPassword http)) else None
      | AuthApiKey \<Rightarrow> if truthy (js_trim (rq_apiKeyName http))
          then Some (key_auth (rq_apiKeyName http) (rq_apiKeyValue http) (add_to_name (rq_apiKeyAddTo http))) else None
      | _ \<Rightarrow> None)"

definition httpToLoadTestConfig :: "HttpRequestConfig \<Rightarrow> LoadTestPrefill" where
  "httpToLoadTestConfig http = \<lparr> pf_url = rq_url http, pf_method = method_name (rq_method http), pf_headers = load_headers (rq_headers http),
     pf_body = load_body http, pf_auth = load_auth http, pf_timeoutMs = (if rq_timeoutMs http = 0 then 30000 else rq_timeoutMs http) \<rparr>"


section \<open>The bridge\<close>

definition json_of_load_body :: "LoadTestBody \<Rightarrow> json" where
  "json_of_load_body b = JObj ([(''type'', JStr (lb_type b))] @ opt_field ''content'' JStr (lb_content b) @ opt_field ''data'' JStr (lb_data b)
     @ opt_field ''contentType'' JStr (lb_contentType b))"

definition json_of_load_auth :: "LoadTestAuth \<Rightarrow> json" where
  "json_of_load_auth a = JObj ([(''type'', JStr (la_type a))] @ opt_field ''token'' JStr (la_token a) @ opt_field ''username'' JStr (la_username a)
     @ opt_field ''password'' JStr (la_password a) @ opt_field ''key'' JStr (la_key a) @ opt_field ''value'' JStr (la_value a)
     @ opt_field ''addTo'' JStr (la_addTo a))"

definition json_of_prefill :: "LoadTestPrefill \<Rightarrow> json" where
  "json_of_prefill p = JObj ([(''url'', JStr (pf_url p)), (''method'', JStr (pf_method p)), (''headers'', json_strings (pf_headers p))]
     @ opt_field ''body'' json_of_load_body (pf_body p) @ opt_field ''auth'' json_of_load_auth (pf_auth p)
     @ [(''timeoutMs'', json_number (pf_timeoutMs p))])"

definition opt_string :: "(string \<times> json) list \<Rightarrow> string \<Rightarrow> string option option" where
  "opt_string d k = get_optional get_string (map_of d k)"

definition load_body_of_json :: "json option \<Rightarrow> LoadTestBody option" where
  "load_body_of_json j = (case j of
     Some (JObj d) \<Rightarrow> do { t \<leftarrow> get_string (map_of d ''type''); c \<leftarrow> opt_string d ''content''; x \<leftarrow> opt_string d ''data''; ct \<leftarrow> opt_string d ''contentType'';
       Some \<lparr> lb_type = t, lb_content = c, lb_data = x, lb_contentType = ct \<rparr> }
   | _ \<Rightarrow> None)"

definition load_auth_of_json :: "json option \<Rightarrow> LoadTestAuth option" where
  "load_auth_of_json j = (case j of
     Some (JObj d) \<Rightarrow> do { t \<leftarrow> get_string (map_of d ''type''); tk \<leftarrow> opt_string d ''token''; u \<leftarrow> opt_string d ''username''; p \<leftarrow> opt_string d ''password'';
       k \<leftarrow> opt_string d ''key''; v \<leftarrow> opt_string d ''value''; a \<leftarrow> opt_string d ''addTo'';
       Some \<lparr> la_type = t, la_token = tk, la_username = u, la_password = p, la_key = k, la_value = v, la_addTo = a \<rparr> }
   | _ \<Rightarrow> None)"

definition prefill_of_json :: "json \<Rightarrow> LoadTestPrefill option" where
  "prefill_of_json j = (case j of
     JObj d \<Rightarrow> do { u \<leftarrow> get_string (map_of d ''url''); m \<leftarrow> get_string (map_of d ''method''); h \<leftarrow> get_strings (map_of d ''headers'');
       b \<leftarrow> get_optional load_body_of_json (map_of d ''body''); a \<leftarrow> get_optional load_auth_of_json (map_of d ''auth''); t \<leftarrow> get_int (map_of d ''timeoutMs'');
       Some \<lparr> pf_url = u, pf_method = m, pf_headers = h, pf_body = b, pf_auth = a, pf_timeoutMs = t \<rparr> }
   | _ \<Rightarrow> None)"

definition prefill_key :: string where "prefill_key = ''protoforge:loadtest-prefill''"

definition prefill_payload :: "int \<Rightarrow> LoadTestPrefill \<Rightarrow> json" where
  "prefill_payload ts p = JObj [(''config'', json_of_prefill p), (''ts'', json_number ts)]"

definition readPayload :: "string option \<Rightarrow> json option" where
  "readPayload raw = (if \<not> truthy_opt raw then None else
     case JSON_parse (the raw) of Some v \<Rightarrow> if falsy v then None else Some v | None \<Rightarrow> None)"

text \<open>
  What \<open>pushLoadTestConfig\<close> leaves in the store (\<open>blocked\<close>: the store refuses), what it broadcasts, and
  where the load test is shown: the window that is open already, or a tab of the main window.
\<close>

definition pushLoadTestConfig ::
  "string \<Rightarrow> int \<Rightarrow> bool \<Rightarrow> string list \<Rightarrow> HttpRequestConfig \<Rightarrow> string option \<Rightarrow> app_state \<Rightarrow> (string option \<times> json) \<times> window_call list \<times> app_state" where
  "pushLoadTestConfig uuid now blocked labels http stored s =
     (let payload = prefill_payload now (httpToLoadTestConfig http) in
      ((if blocked then stored else Some (JSON_stringify payload), payload),
       (case listOpenToolWindowSessions labels LoadTest of
          sid # _ \<Rightarrow> (fst (openToolWindow labels LoadTest sid no_options), s)
        | [] \<Rightarrow> ([], snd (openToolTab uuid LoadTest None no_options s)))))"

text \<open>Reading the handed-over configuration, which empties the store; a store that refuses is \<open>blocked\<close>.\<close>

definition payload_config :: "json \<Rightarrow> json option" where
  "payload_config v = (case v of JObj d \<Rightarrow> map_of d ''config'' | _ \<Rightarrow> None)"

definition popLoadTestConfig :: "bool \<Rightarrow> string option \<Rightarrow> json option \<times> string option" where
  "popLoadTestConfig blocked stored = (if blocked then (None, stored) else
     case readPayload stored of None \<Rightarrow> (None, stored) | Some v \<Rightarrow> (payload_config v, None))"

definition handlePrefillPayload :: "json option \<Rightarrow> json option" where
  "handlePrefillPayload payload = (case payload of None \<Rightarrow> None
     | Some v \<Rightarrow> (case payload_config v of Some c \<Rightarrow> if falsy c then None else Some c | None \<Rightarrow> None))"

definition handlePrefillStorage :: "string \<Rightarrow> string option \<Rightarrow> json option" where
  "handlePrefillStorage key newValue = (if key \<noteq> prefill_key then None else handlePrefillPayload (readPayload newValue))"


section \<open>The panel\<close>

datatype DurationMode = ByDuration | ByRequests
datatype BodyMode = NoBody | JsonBody | RawBody
datatype AuthMode = NoAuth | BearerAuth | BasicAuth

record MetricsSnapshot =
  sn_testId :: string
  sn_errorSamples :: "json list"
  sn_metrics :: json

record LoadTestComplete =
  cm_testId :: string
  cm_result :: json

record load_panel =
  lt_url :: string
  lt_method :: string
  lt_concurrency :: int
  lt_durationMode :: DurationMode
  lt_durationSecs :: int
  lt_totalRequests :: int
  lt_timeoutMs :: int
  lt_rpsLimit :: "int option"
  lt_thresholdEnabled :: bool
  lt_latencyThreshold :: int
  lt_rpsEnabled :: bool
  lt_showAdvanced :: bool
  lt_headers :: "(string \<times> string) list"
  lt_bodyMode :: BodyMode
  lt_bodyContent :: string
  lt_authMode :: AuthMode
  lt_bearerToken :: string
  lt_basicUser :: string
  lt_basicPass :: string
  lt_running :: bool
  lt_snapshots :: "MetricsSnapshot list"
  lt_errorSamples :: "json list"
  lt_summary :: "LoadTestComplete option"
  lt_latestMetrics :: "MetricsSnapshot option"
  lt_error :: "string option"

definition load_panel_init :: load_panel where
  "load_panel_init = \<lparr> lt_url = ''https://httpbin.org/get'', lt_method = ''GET'', lt_concurrency = 10, lt_durationMode = ByDuration,
     lt_durationSecs = 10, lt_totalRequests = 100, lt_timeoutMs = 30000, lt_rpsLimit = None, lt_thresholdEnabled = False,
     lt_latencyThreshold = 500, lt_rpsEnabled = False, lt_showAdvanced = False, lt_headers = [([], [])], lt_bodyMode = NoBody,
     lt_bodyContent = [], lt_authMode = NoAuth, lt_bearerToken = [], lt_basicUser = [], lt_basicPass = [], lt_running = False,
     lt_snapshots = [], lt_errorSamples = [], lt_summary = None, lt_latestMetrics = None, lt_error = None \<rparr>"

definition MAX_RETAINED_SNAPSHOTS :: nat where "MAX_RETAINED_SNAPSHOTS = 3600"

definition prefill_headers :: "string dict \<Rightarrow> load_panel \<Rightarrow> load_panel" where
  "prefill_headers h s = (if 0 < length h then s\<lparr>lt_headers := h @ [([], [])], lt_showAdvanced := True\<rparr> else s)"

definition prefill_body :: "LoadTestBody \<Rightarrow> load_panel \<Rightarrow> load_panel" where
  "prefill_body b s =
     (if lb_type b = ''json'' \<and> truthy_opt (lb_data b) then s\<lparr>lt_bodyMode := JsonBody, lt_bodyContent := the (lb_data b), lt_showAdvanced := True\<rparr>
      else if lb_type b = ''raw'' \<and> truthy_opt (lb_content b) then s\<lparr>lt_bodyMode := RawBody, lt_bodyContent := the (lb_content b), lt_showAdvanced := True\<rparr>
      else s)"

definition prefill_auth :: "LoadTestAuth \<Rightarrow> load_panel \<Rightarrow> load_panel" where
  "prefill_auth a s =
     (if la_type a = ''bearer'' \<and> truthy_opt (la_token a) then s\<lparr>lt_authMode := BearerAuth, lt_bearerToken := the (la_token a), lt_showAdvanced := True\<rparr>
      else if la_type a = ''basic'' \<and> truthy_opt (la_username a)
      then s\<lparr>lt_authMode := BasicAuth, lt_basicUser := the (la_username a), lt_basicPass := nullish (la_password a) [], lt_showAdvanced := True\<rparr>
      else s)"

definition applyPrefill :: "LoadTestPrefill option \<Rightarrow> load_panel \<Rightarrow> load_panel" where
  "applyPrefill prefill s = (case prefill of None \<Rightarrow> s | Some p \<Rightarrow>
     (let s = (if truthy (pf_url p) then s\<lparr>lt_url := pf_url p\<rparr> else s);
          s = (if truthy (pf_method p) then s\<lparr>lt_method := pf_method p\<rparr> else s);
          s = (if pf_timeoutMs p \<noteq> 0 then s\<lparr>lt_timeoutMs := pf_timeoutMs p\<rparr> else s);
          s = prefill_headers (pf_headers p) s;
          s = (case pf_body p of Some b \<Rightarrow> prefill_body b s | None \<Rightarrow> s)
      in (case pf_auth p of Some a \<Rightarrow> prefill_auth a s | None \<Rightarrow> s)))"

text \<open>A payload of the channel or of the store as the panel reads it.\<close>

definition apply_received :: "json option \<Rightarrow> load_panel \<Rightarrow> load_panel" where
  "apply_received v s = applyPrefill (Option.bind v prefill_of_json) s"

definition buildConfig :: "load_panel \<Rightarrow> LoadTestConfig" where
  "buildConfig s = \<lparr> lc_url = lt_url s, lc_method = lt_method s,
     lc_headers = fromEntries (map (\<lambda>(k, v). (js_trim k, v)) (filter (\<lambda>(k, v). truthy (js_trim k)) (lt_headers s))),
     lc_body = (if lt_bodyMode s = JsonBody \<and> truthy (js_trim (lt_bodyContent s)) then Some (json_body (lt_bodyContent s))
        else if lt_bodyMode s = RawBody \<and> truthy (js_trim (lt_bodyContent s)) then Some (raw_body (lt_bodyContent s) ''text/plain'') else None),
     lc_auth = (if lt_authMode s = BearerAuth \<and> truthy (js_trim (lt_bearerToken s)) then Some (bearer_auth (lt_bearerToken s))
        else if lt_authMode s = BasicAuth \<and> truthy (js_trim (lt_basicUser s)) then Some (basic_auth (lt_basicUser s) (lt_basicPass s)) else None),
     lc_concurrency = lt_concurrency s,
     lc_durationSecs = (if lt_durationMode s = ByDuration then Some (lt_durationSecs s) else None),
     lc_totalRequests = (if lt_durationMode s = ByDuration then None else Some (lt_totalRequests s)),
     lc_timeoutMs = Some (lt_timeoutMs s),
     lc_rpsLimit = (if lt_rpsEnabled s \<and> nullish (lt_rpsLimit s) 0 \<noteq> 0 then lt_rpsLimit s else None),
     lc_latencyThresholdMs = (if lt_thresholdEnabled s \<and> 0 < lt_latencyThreshold s then Some (lt_latencyThreshold s) else None) \<rparr>"

definition handleStart_begin :: "load_panel \<Rightarrow> LoadTestConfig \<times> load_panel" where
  "handleStart_begin s = (buildConfig s, s\<lparr>lt_error := None, lt_snapshots := [], lt_errorSamples := [], lt_summary := None,
     lt_latestMetrics := None, lt_running := True\<rparr>)"

definition handleStart_done :: "string + unit \<Rightarrow> load_panel \<Rightarrow> load_panel" where
  "handleStart_done reply s = (case reply of Inr _ \<Rightarrow> s | Inl msg \<Rightarrow> s\<lparr>lt_running := False, lt_error := Some msg\<rparr>)"

definition keep_last :: "nat \<Rightarrow> 'a list \<Rightarrow> 'a list" where
  "keep_last n xs = (if n < length xs then drop (length xs - n) xs else xs)"

definition onLoadTestMetrics :: "string \<Rightarrow> MetricsSnapshot \<Rightarrow> load_panel \<Rightarrow> load_panel" where
  "onLoadTestMetrics tabId m s = (if sn_testId m \<noteq> tabId then s
     else s\<lparr>lt_snapshots := keep_last MAX_RETAINED_SNAPSHOTS (lt_snapshots s @ [m]), lt_latestMetrics := Some m,
            lt_errorSamples := (if 0 < length (sn_errorSamples m) then keep_last 200 (lt_errorSamples s @ sn_errorSamples m) else lt_errorSamples s)\<rparr>)"

definition onLoadTestComplete :: "string \<Rightarrow> LoadTestComplete \<Rightarrow> load_panel \<Rightarrow> load_panel" where
  "onLoadTestComplete tabId r s = (if cm_testId r \<noteq> tabId then s else s\<lparr>lt_summary := Some r, lt_running := False\<rparr>)"

end
