(* ===== verification/LoadTestProps.thy ===== *)
theory LoadTestProps
  imports LoadTest
begin

text \<open>
  What the load test sends for a request that was handed over to it, and the state of its panel.
\<close>

section \<open>The bridge is lossless\<close>

lemma map_of_opt_field [simp]:
  "map_of (opt_field k f x @ d) j = (if j = k then (case x of Some v \<Rightarrow> Some (f v) | None \<Rightarrow> map_of d j) else map_of d j)"
  "map_of (opt_field k f x) j = (if j = k then map_option f x else None)"
  by (auto simp: opt_field_def split: option.split)

lemma fst_opt_field: "fst ` set (opt_field k f x) = (case x of Some _ \<Rightarrow> {k} | None \<Rightarrow> {})" "distinct (map fst (opt_field k f x))"
  by (auto simp: opt_field_def split: option.split)

lemma get_optional_case [simp]:
  "get_optional get_string (case x of None \<Rightarrow> None | Some v \<Rightarrow> Some (JStr v)) = Some x" "get_optional get_string (map_option JStr x) = Some x"
  by (auto simp: get_optional_def split: option.split)

lemma load_body_back: "load_body_of_json (Some (json_of_load_body b)) = Some b"
  by (simp add: load_body_of_json_def json_of_load_body_def opt_string_def del: map_of_append cong: option.case_cong)

lemma load_auth_back: "load_auth_of_json (Some (json_of_load_auth a)) = Some a"
  by (simp add: load_auth_of_json_def json_of_load_auth_def opt_string_def del: map_of_append cong: option.case_cong)

lemma json_ok_opt_strings: "\<forall>p \<in> set (opt_field k JStr x). json_ok (snd p)"
  by (auto simp: opt_field_def split: option.split)

lemma json_ok_load: "json_ok (json_of_load_body b)" "json_ok (json_of_load_auth a)"
  by (auto simp: json_of_load_body_def json_of_load_auth_def wf_dict_def opt_field_def split: option.splits)

lemma prefill_back:
  assumes "wf_dict (pf_headers p)"
  shows "prefill_of_json (json_of_prefill p) = Some p" and "json_ok (json_of_prefill p)"
proof -
  have b: "get_optional load_body_of_json (case pf_body p of None \<Rightarrow> None | Some v \<Rightarrow> Some (json_of_load_body v)) = Some (pf_body p)"
    by (cases "pf_body p") (simp_all add: get_optional_Some load_body_back)
  have a: "get_optional load_auth_of_json (case pf_auth p of None \<Rightarrow> None | Some v \<Rightarrow> Some (json_of_load_auth v)) = Some (pf_auth p)"
    by (cases "pf_auth p") (simp_all add: get_optional_Some load_auth_back)
  show "prefill_of_json (json_of_prefill p) = Some p"
    by (simp add: prefill_of_json_def json_of_prefill_def a b del: map_of_append cong: option.case_cong)
  show "json_ok (json_of_prefill p)"
    using assms json_ok_load by (auto simp: json_of_prefill_def wf_dict_def opt_field_def split: option.splits)
qed

lemma payload_back:
  assumes "wf_dict (pf_headers p)"
  shows "popLoadTestConfig False (Some (JSON_stringify (prefill_payload ts p))) = (Some (json_of_prefill p), None)"
    and "handlePrefillPayload (Some (prefill_payload ts p)) = Some (json_of_prefill p)"
proof -
  have ok: "json_ok (prefill_payload ts p)" using prefill_back(2)[OF assms] by (simp add: prefill_payload_def wf_dict_def)
  have "JSON_stringify (prefill_payload ts p) \<noteq> []" using length_stringify_pos[OF ok] by auto
  then show "popLoadTestConfig False (Some (JSON_stringify (prefill_payload ts p))) = (Some (json_of_prefill p), None)"
    using JSON_roundtrip[OF ok] by (simp add: popLoadTestConfig_def readPayload_def) (simp add: prefill_payload_def payload_config_def)
  show "handlePrefillPayload (Some (prefill_payload ts p)) = Some (json_of_prefill p)"
    by (simp add: handlePrefillPayload_def prefill_payload_def payload_config_def json_of_prefill_def)
qed

lemma request_headers_wf: "wf_dict (pf_headers (httpToLoadTestConfig http))"
  by (simp add: httpToLoadTestConfig_def load_headers_def)


section \<open>What is sent\<close>

lemma method_name_truthy: "truthy (method_name m)"
  by (cases m) simp_all

lemma trim_truthy: "truthy (js_trim t) \<Longrightarrow> truthy t"
  by (auto simp: js_trim_def)

lemma graphql_truthy: "truthy (js_trim (load_graphql http))" "truthy (load_graphql http)"
proof -
  obtain u where u: "load_graphql http = CHR ''{'' # u" by (simp add: load_graphql_def)
  have "dropWhile is_ws (rev u @ [CHR ''{'']) \<noteq> []" by (simp add: is_ws_def)
  then show "truthy (js_trim (load_graphql http))" by (simp add: u js_trim_def is_ws_def)
  show "truthy (load_graphql http)" by (simp add: u)
qed

text \<open>The body and the credentials of the load test.\<close>

definition sent_body :: "HttpRequestConfig \<Rightarrow> LoadTestBody option" where
  "sent_body http = (case load_body http of None \<Rightarrow> None
     | Some b \<Rightarrow> Some (if lb_type b = ''raw'' then b\<lparr>lb_contentType := Some ''text/plain''\<rparr> else b))"

definition sent_auth :: "HttpRequestConfig \<Rightarrow> LoadTestAuth option" where
  "sent_auth http = (if rq_authType http = AuthApiKey then None else load_auth http)"

definition idle_request :: "load_panel \<Rightarrow> bool" where
  "idle_request s \<longleftrightarrow> lt_headers s = [([], [])] \<and> lt_bodyMode s = NoBody \<and> lt_authMode s = NoAuth"

lemma load_headers_truthy: "(k, v) \<in> set (load_headers kvs) \<Longrightarrow> truthy (js_trim k)"
proof -
  have "fst ` set (fromEntries ps) \<subseteq> fst ` set ps" for ps :: "(string \<times> string) list"
    by (induction ps rule: rev_induct) (auto simp: fromEntries_def assign_entries_append dom_update)
  then show "(k, v) \<in> set (load_headers kvs) \<Longrightarrow> truthy (js_trim k)" by (force simp: load_headers_def)
qed


lemma prefill_headers_config:
  assumes "lt_headers t = [([], [])]"
  shows "buildConfig (prefill_headers (load_headers kvs) t) = (buildConfig t)\<lparr>lc_headers := fromEntries (map (\<lambda>(k, v). (js_trim k, v)) (load_headers kvs))\<rparr>"
proof -
  have h: "filter (\<lambda>(k, v). truthy (js_trim k)) (load_headers kvs) = load_headers kvs"
    using load_headers_truthy[where kvs = kvs] by (auto intro!: filter_True)
  have e: "js_trim [] = []" by (simp add: js_trim_def)
  show ?thesis using assms h by (simp add: prefill_headers_def buildConfig_def e fromEntries_def)
qed

lemma load_body_cases:
  assumes "load_body http = Some b"
  obtains x where "truthy (js_trim x)" "truthy x" "b = json_body x" | x ct where "truthy (js_trim x)" "truthy x" "b = raw_body x ct"
proof -
  have "(\<exists>x. truthy (js_trim x) \<and> b = json_body x) \<or> (\<exists>x ct. truthy (js_trim x) \<and> b = raw_body x ct)"
    using assms graphql_truthy(1)[of http] by (auto simp: load_body_def split: if_splits BodyType.splits)
  then show thesis using that trim_truthy by blast
qed

lemma prefill_body_config:
  assumes "lt_bodyMode t = NoBody" and "load_body http = Some b"
  shows "buildConfig (prefill_body b t) = (buildConfig t)\<lparr>lc_body := sent_body http\<rparr>"
  using assms(2)
proof (cases rule: load_body_cases)
  case (1 x)
  then show ?thesis using assms by (simp add: prefill_body_def sent_body_def buildConfig_def json_body_def)
next
  case (2 x ct)
  then show ?thesis using assms by (simp add: prefill_body_def sent_body_def buildConfig_def raw_body_def)
qed

lemma load_auth_cases:
  assumes "load_auth http = Some a"
  obtains x where "truthy (js_trim x)" "truthy x" "a = bearer_auth x" "sent_auth http = Some a"
  | u p where "truthy (js_trim u)" "truthy u" "a = basic_auth u p" "sent_auth http = Some a"
  | k v l where "a = key_auth k v l" "sent_auth http = None"
proof -
  have "(\<exists>x. truthy (js_trim x) \<and> a = bearer_auth x \<and> sent_auth http = Some a) \<or>
      (\<exists>u p. truthy (js_trim u) \<and> a = basic_auth u p \<and> sent_auth http = Some a) \<or> (\<exists>k v l. a = key_auth k v l \<and> sent_auth http = None)"
    using assms by (auto simp: load_auth_def sent_auth_def split: if_splits AuthType.splits)
  then show thesis using that trim_truthy by blast
qed

lemma prefill_auth_config:
  assumes "lt_authMode t = NoAuth" and "load_auth http = Some a"
  shows "buildConfig (prefill_auth a t) = (buildConfig t)\<lparr>lc_auth := sent_auth http\<rparr>"
  using assms(2)
proof (cases rule: load_auth_cases)
  case (1 x)
  then show ?thesis using assms(1) by (simp add: prefill_auth_def buildConfig_def bearer_auth_def)
next
  case (2 u p)
  then show ?thesis using assms(1) by (simp add: prefill_auth_def buildConfig_def basic_auth_def nullish_def)
next
  case (3 k v l)
  then show ?thesis using assms(1) by (simp add: prefill_auth_def buildConfig_def key_auth_def)
qed

lemma prefill_frame:
  "lt_bodyMode (prefill_headers h t) = lt_bodyMode t" "lt_authMode (prefill_headers h t) = lt_authMode t" "lt_authMode (prefill_body b t) = lt_authMode t"
  by (simp_all add: prefill_headers_def prefill_body_def)

lemma config_unset: "lt_bodyMode t = NoBody \<Longrightarrow> lc_body (buildConfig t) = None" "lt_authMode t = NoAuth \<Longrightarrow> lc_auth (buildConfig t) = None"
  by (simp_all add: buildConfig_def)

lemma config_set_none: "lc_body c = None \<Longrightarrow> c\<lparr>lc_body := None\<rparr> = c" "lc_auth c = None \<Longrightarrow> c\<lparr>lc_auth := None\<rparr> = c" for c :: LoadTestConfig
  by simp_all

lemma prefill_sends:
  assumes "rq_url http \<noteq> []" and "idle_request s"
  shows "buildConfig (applyPrefill (Some (httpToLoadTestConfig http)) s) = (buildConfig s)\<lparr> lc_url := rq_url http,
     lc_method := method_name (rq_method http),
     lc_headers := fromEntries (map (\<lambda>(k, v). (js_trim k, v)) (load_headers (rq_headers http))),
     lc_body := sent_body http, lc_auth := sent_auth http,
     lc_timeoutMs := Some (if rq_timeoutMs http = 0 then 30000 else rq_timeoutMs http) \<rparr>"
proof -
  let ?tm = "if rq_timeoutMs http = 0 then 30000 else rq_timeoutMs http"
  define t where "t = s\<lparr>lt_url := rq_url http, lt_method := method_name (rq_method http), lt_timeoutMs := ?tm\<rparr>"
  define t1 where "t1 = prefill_headers (load_headers (rq_headers http)) t"
  define t2 where "t2 = (case load_body http of Some b \<Rightarrow> prefill_body b t1 | None \<Rightarrow> t1)"
  have idle: "lt_headers t = [([], [])]" "lt_bodyMode t1 = NoBody" "lt_authMode t1 = NoAuth"
    using assms(2) by (simp_all add: idle_request_def t_def t1_def prefill_frame)
  have c0: "buildConfig t = (buildConfig s)\<lparr>lc_url := rq_url http, lc_method := method_name (rq_method http), lc_timeoutMs := Some ?tm\<rparr>"
    by (simp add: buildConfig_def t_def)
  have c1: "buildConfig t1 = (buildConfig t)\<lparr>lc_headers := fromEntries (map (\<lambda>(k, v). (js_trim k, v)) (load_headers (rq_headers http)))\<rparr>"
    unfolding t1_def by (rule prefill_headers_config[OF idle(1)])
  have c2: "buildConfig t2 = (buildConfig t1)\<lparr>lc_body := sent_body http\<rparr>" and a2: "lt_authMode t2 = NoAuth"
    using prefill_body_config[OF idle(2)] idle(2,3) config_unset(1)[OF idle(2)]
    by (auto simp: t2_def sent_body_def prefill_frame split: option.split)
  have c3: "buildConfig (case load_auth http of Some a \<Rightarrow> prefill_auth a t2 | None \<Rightarrow> t2) = (buildConfig t2)\<lparr>lc_auth := sent_auth http\<rparr>"
    using prefill_auth_config[OF a2] config_unset(2)[OF a2] by (auto simp: sent_auth_def split: option.split)
  define p where "p = httpToLoadTestConfig http"
  have f: "pf_url p = rq_url http" "pf_method p = method_name (rq_method http)" "pf_timeoutMs p = ?tm" "?tm \<noteq> 0"
    "pf_headers p = load_headers (rq_headers http)" "pf_body p = load_body http" "pf_auth p = load_auth http"
    by (simp_all add: p_def httpToLoadTestConfig_def)
  have "applyPrefill (Some p) s = (case load_auth http of Some a \<Rightarrow> prefill_auth a t2 | None \<Rightarrow> t2)"
    unfolding applyPrefill_def Let_def option.case f(1-3,5-7) using assms(1) method_name_truthy[of "rq_method http"] f(4)
    by (simp only: if_True not_False_eq_True t2_def t1_def t_def)
  then have "applyPrefill (Some (httpToLoadTestConfig http)) s = (case load_auth http of Some a \<Rightarrow> prefill_auth a t2 | None \<Rightarrow> t2)"
    unfolding p_def .
  then show ?thesis by (simp add: c3 c2 c1 c0)
qed

section \<open>Properties\<close>

lemma stored_payload: "fst (pushLoadTestConfig uuid now False labels http stored app)
    = (Some (JSON_stringify (prefill_payload now (httpToLoadTestConfig http))), prefill_payload now (httpToLoadTestConfig http))"
  by (simp add: pushLoadTestConfig_def Let_def)

lemma received_prefill: "apply_received (Some (json_of_prefill (httpToLoadTestConfig http))) s = applyPrefill (Some (httpToLoadTestConfig http)) s"
  by (simp add: apply_received_def prefill_back(1)[OF request_headers_wf])



text \<open>
  The panel does not forget the credentials of an earlier request: when a request with a bearer token was
  handed over, a request to another address that has no credentials is sent with that token.
\<close>

theorem load_test_keeps_token:
  assumes "rq_authType http1 = AuthBearer" and "truthy (js_trim (rq_bearerToken http1))" and "load_auth http2 = None" and "rq_url http2 \<noteq> []"
  shows "let config = buildConfig (applyPrefill (Some (httpToLoadTestConfig http2)) (applyPrefill (Some (httpToLoadTestConfig http1)) panel))
    in lc_url config = rq_url http2 \<and> lc_auth config = Some (bearer_auth (rq_bearerToken http1))"
proof -
  have a1: "pf_auth (httpToLoadTestConfig http1) = Some (bearer_auth (rq_bearerToken http1))" and a2: "pf_auth (httpToLoadTestConfig http2) = None"
    using assms(1-3) by (simp_all add: httpToLoadTestConfig_def load_auth_def)
  have url: "pf_url (httpToLoadTestConfig http2) = rq_url http2" by (simp add: httpToLoadTestConfig_def)
  have tok: "lt_authMode (applyPrefill (Some p) s) = BearerAuth \<and> lt_bearerToken (applyPrefill (Some p) s) = t"
    if "pf_auth p = Some (bearer_auth t)" "truthy t" for p s t
    using that by (simp add: applyPrefill_def Let_def prefill_auth_def bearer_auth_def)
  have keep: "lt_authMode (applyPrefill (Some p) s) = lt_authMode s \<and> lt_bearerToken (applyPrefill (Some p) s) = lt_bearerToken s"
    if "pf_auth p = None" for p s
    using that by (auto simp: applyPrefill_def Let_def prefill_headers_def prefill_body_def split: option.split)
  have u: "lt_url (applyPrefill (Some p) s) = pf_url p" if "pf_url p \<noteq> []" "pf_auth p = None" for p s
    using that by (auto simp: applyPrefill_def Let_def prefill_headers_def prefill_body_def split: option.split)
  show ?thesis
    using tok[OF a1 trim_truthy[OF assms(2)]] keep[OF a2] u[OF _ a2] assms(2,4) by (simp add: Let_def buildConfig_def url)
qed

theorem load_test_keeps_token_witness:
  "let http1 = (createDefaultRequest ''r'')\<lparr>rq_url := ''u'', rq_authType := AuthBearer, rq_bearerToken := ''tok''\<rparr>;
       http2 = (createDefaultRequest ''q'')\<lparr>rq_url := ''v''\<rparr>;
       config = buildConfig (applyPrefill (Some (httpToLoadTestConfig http2)) (applyPrefill (Some (httpToLoadTestConfig http1)) load_panel_init))
   in lc_url config = ''v'' \<and> lc_auth config = Some (bearer_auth ''tok'')"
  using load_test_keeps_token[of "(createDefaultRequest ''r'')\<lparr>rq_url := ''u'', rq_authType := AuthBearer, rq_bearerToken := ''tok''\<rparr>"
      "(createDefaultRequest ''q'')\<lparr>rq_url := ''v''\<rparr>" load_panel_init]
  by (simp add: load_auth_def createDefaultRequest_def js_trim_def is_ws_def)

section \<open>The measurements\<close>

datatype load_event = Metrics MetricsSnapshot | Complete LoadTestComplete | StartLoad | StartReply "string + unit"

fun load_step :: "string \<Rightarrow> load_panel \<Rightarrow> load_event \<Rightarrow> load_panel" where
  "load_step tabId s (Metrics m) = onLoadTestMetrics tabId m s"
| "load_step tabId s (Complete r) = onLoadTestComplete tabId r s"
| "load_step tabId s StartLoad = snd (handleStart_begin s)"
| "load_step tabId s (StartReply r) = handleStart_done r s"

definition load_panel_inv :: "string \<Rightarrow> load_panel \<Rightarrow> bool" where
  "load_panel_inv tabId s \<longleftrightarrow> length (lt_snapshots s) \<le> 3600 \<and> length (lt_errorSamples s) \<le> 200
     \<and> list_all (\<lambda>m. sn_testId m = tabId) (lt_snapshots s)
     \<and> lt_latestMetrics s = (if lt_snapshots s = [] then None else Some (last (lt_snapshots s)))
     \<and> pred_option (\<lambda>r. cm_testId r = tabId) (lt_summary s)"

lemma keep_last_simps: "length (keep_last n xs) = min n (length xs)" "list_all P xs \<Longrightarrow> list_all P (keep_last n xs)"
  "0 < n \<Longrightarrow> keep_last n (xs @ [x]) \<noteq> [] \<and> last (keep_last n (xs @ [x])) = x"
  by (auto simp: keep_last_def list_all_iff dest: in_set_dropD)

lemma load_step_inv: "load_panel_inv tabId s \<Longrightarrow> load_panel_inv tabId (load_step tabId s e)"
proof (cases e)
  case (Metrics m)
  assume "load_panel_inv tabId s"
  then show ?thesis
    by (simp add: Metrics load_panel_inv_def onLoadTestMetrics_def keep_last_simps MAX_RETAINED_SNAPSHOTS_def)
next
  case (StartReply r)
  assume "load_panel_inv tabId s"
  then show ?thesis by (cases r) (simp_all add: StartReply load_panel_inv_def handleStart_done_def)
qed (simp_all add: load_panel_inv_def onLoadTestComplete_def handleStart_begin_def)

interpretation load_test_panel: action_store load_panel_init "load_step tabId" "\<lambda>_ _. True" "load_panel_inv tabId" for tabId
  by unfold_locales (simp add: load_panel_inv_def load_panel_init_def, rule load_step_inv)

end
