(* ===== verification/CrossTools.thy ===== *)
theory CrossTools
  imports WorkflowProps MockServer ToolWindows SavedRequests
begin

text \<open>
  Actions that reach from a request into another tool (\<open>src/src/lib/crossTool.ts\<close> and the handlers that call
  it): adding a mock route for a request, and making a workflow of it. The parser of URLs and the replies
  of the backend are arguments; what other handlers do while a reply is awaited is not represented.
\<close>

section \<open>A mock route from a request\<close>

record mock_source =
  mq_method :: "string option"
  mq_url :: "string option"
  mq_responseExample :: "string option"
  mq_name :: "string option"

text \<open>The text after the first closing braces, to the end of the line.\<close>

definition not_line_end :: "char \<Rightarrow> bool" where
  "not_line_end c \<longleftrightarrow> c \<noteq> CHR 0x0A \<and> c \<noteq> CHR 0x0D"

fun after_braces :: "string \<Rightarrow> string option" where
  "after_braces [] = None"
| "after_braces (x # xs) =
     (if x = CHR ''}'' \<and> take 1 xs = ''}'' \<and> list_ex not_line_end (take 1 (drop 1 xs)) then Some (takeWhile not_line_end (drop 1 xs))
      else after_braces xs)"

definition mock_path :: "(string \<Rightarrow> URLParts option) \<Rightarrow> string option \<Rightarrow> string" where
  "mock_path parse_url reqUrl = (let urlStr = or_text reqUrl ''/'' in
     if take 4 urlStr = ''http'' then (case parse_url urlStr of Some u \<Rightarrow> url_pathname u | None \<Rightarrow> or_text reqUrl ''/'')
     else nullish (after_braces urlStr) urlStr)"

definition mock_template :: "(string \<Rightarrow> URLParts option) \<Rightarrow> mock_source \<Rightarrow> MockRoute \<Rightarrow> MockRoute" where
  "mock_template parse_url req r = r\<lparr>mr_method := Some (or_text (mq_method req) ''GET''), mr_pattern := mock_path parse_url (mq_url req),
     mr_bodyTemplate := or_text (mq_responseExample req)
       (''{'' @ newline @ ''  '' @ quote_string ''message'' @ '': '' @ quote_string ''mock response'' @ newline @ ''}''),
     mr_description := or_text (mq_name req) []\<rparr>"

text \<open>The stores of the mock server tool by session; asking for a store that is not there makes it.\<close>

type_synonym mock_stores = "string \<Rightarrow> mock_state option"

definition generateMockFromRequest :: "string \<Rightarrow> string \<Rightarrow> string \<Rightarrow> (string \<Rightarrow> URLParts option) \<Rightarrow> mock_source
    \<Rightarrow> app_state \<times> mock_stores \<Rightarrow> app_state \<times> mock_stores" where
  "generateMockFromRequest uuid0 uuid1 uuid2 parse_url req s =
     (let (app, mocks) = s; (opened, app') = openToolTab uuid0 MockServer None no_options app; sessionId = the opened;
          store = nullish (mocks sessionId) (createMockServerSessionStore sessionId)
      in (app', mocks(sessionId \<mapsto> addRouteFromTemplate uuid1 uuid2 (mock_template parse_url req) store)))"

definition handleGenerateMock_http :: "string \<Rightarrow> string \<Rightarrow> string \<Rightarrow> (string \<Rightarrow> URLParts option) \<Rightarrow> HttpRequestConfig \<Rightarrow> HttpResponse option
    \<Rightarrow> app_state \<times> mock_stores \<Rightarrow> app_state \<times> mock_stores" where
  "handleGenerateMock_http uuid0 uuid1 uuid2 parse_url config response =
     generateMockFromRequest uuid0 uuid1 uuid2 parse_url \<lparr> mq_method = Some (method_name (rq_method config)), mq_url = Some (rq_url config),
       mq_responseExample = Some (case response of Some r \<Rightarrow> rs_body r | None \<Rightarrow> []), mq_name = Some (rq_name config) \<rparr>"

section \<open>A workflow from a request\<close>

record workflow_source =
  wq_name :: "string option"
  wq_method :: "string option"
  wq_url :: "string option"
  wq_headers :: "string dict"
  wq_queryParams :: "string dict"
  wq_body :: "string option"

definition start_node :: "string \<Rightarrow> FlowNode" where
  "start_node uuid = \<lparr> fn_id = uuid, fn_name = utf8_text [24320, 22987], fn_nodeType = StartN, fn_config = [], fn_position = Some (80, 40) \<rparr>"

definition http_node_config :: "workflow_source \<Rightarrow> json dict" where
  "http_node_config req = [(''method'', JStr (or_text (wq_method req) ''GET'')), (''url'', JStr (or_text (wq_url req) [])),
     (''headers'', json_strings (wq_headers req)), (''queryParams'', json_strings (wq_queryParams req)), (''timeoutMs'', JNum (JInt 30000)),
     (''followRedirects'', JBool True), (''sslVerify'', JBool True)]
   @ (if truthy_opt (wq_body req) \<and> truthy (js_trim (the (wq_body req)))
      then [(''body'', JObj [(''type'', JStr ''json''), (''data'', JStr (the (wq_body req)))])] else [])"

definition http_node :: "string \<Rightarrow> workflow_source \<Rightarrow> FlowNode" where
  "http_node uuid req = \<lparr> fn_id = uuid, fn_name = ''HTTP '' @ utf8_text [35831, 27714], fn_nodeType = HttpRequestN,
     fn_config = http_node_config req, fn_position = Some (60, 180) \<rparr>"

definition seed_edge :: "string \<Rightarrow> string \<Rightarrow> string \<Rightarrow> FlowEdge" where
  "seed_edge uuid source target = \<lparr> fe_id = uuid, fe_sourceNodeId = source, fe_targetNodeId = target, fe_condition = None, fe_label = None,
     fe_sourceHandle = Some ''bottom-source'' \<rparr>"

definition seeded_workflow :: "string \<Rightarrow> string \<Rightarrow> string \<Rightarrow> workflow_source \<Rightarrow> Workflow \<Rightarrow> Workflow" where
  "seeded_workflow n1 n2 e req w = w\<lparr>wo_nodes := [start_node n1, http_node n2 req], wo_edges := [seed_edge e n1 n2]\<rparr>"

text \<open>The effect of the editor runs when it is on screen.\<close>

definition store_action :: "bool \<Rightarrow> (wf_state \<Rightarrow> wf_state) \<Rightarrow> wf_state \<Rightarrow> wf_state" where
  "store_action shown f = (if shown then with_effect f else f)"

text \<open>
  \<open>create\<close> and \<open>save\<close>: the replies of the backend; the result says whether the success message is shown.
  The identifiers of the workflow, the nodes, the edge and the tool session are those drawn.
\<close>

definition sendRequestToWorkflow :: "string \<times> string \<times> string \<times> string \<times> string \<Rightarrow> string \<Rightarrow> string \<Rightarrow> (Workflow \<Rightarrow> string + Workflow)
    \<Rightarrow> string + unit \<Rightarrow> bool \<Rightarrow> workflow_source \<Rightarrow> app_state \<times> wf_state \<Rightarrow> bool \<times> app_state \<times> wf_state" where
  "sendRequestToWorkflow drawn created_at saved_at create save shown req s =
     (let (uuid, n1, n2, e, sid) = drawn; (app, wfs) = s;
          name = (case wq_name req of Some n \<Rightarrow> or_text (Some (js_trim n)) ''New Flow'' | None \<Rightarrow> ''New Flow'')
      in case create (newWorkflow uuid created_at name) of
           Inl _ \<Rightarrow> (False, app, wfs)
         | Inr created \<Rightarrow>
             (let wfs1 = store_action shown (createWorkflow_done (Inr created)) wfs in
              case save of
                Inl _ \<Rightarrow> (False, app, wfs1)
              | Inr _ \<Rightarrow>
                  (let wfs2 = store_action shown (saveWorkflow_done saved_at (seeded_workflow n1 n2 e req created) save) wfs1;
                       app' = snd (openToolTab sid WorkflowTool None no_options app)
                   in (True, app', store_action shown (setActiveWorkflowId (Some (wo_id created))) wfs2))))"

text \<open>The rows of a request's tables, and those of a stored item.\<close>

definition rows_record :: "KeyValue list \<Rightarrow> string dict" where
  "rows_record pairs = fromEntries (map (\<lambda>p. (kv_key p, kv_value p)) (filter (\<lambda>p. kv_enabled p \<and> truthy (js_trim (kv_key p))) pairs))"

definition handleSendToWorkflow_http :: "HttpRequestConfig \<Rightarrow> workflow_source" where
  "handleSendToWorkflow_http config = \<lparr> wq_name = Some (rq_name config), wq_method = Some (method_name (rq_method config)),
     wq_url = Some (rq_url config), wq_headers = rows_record (rq_headers config), wq_queryParams = rows_record (rq_queryParams config),
     wq_body = Some (if rq_bodyType config = BodyJson then rq_jsonBody config else if rq_bodyType config = BodyRaw then rq_rawBody config else []) \<rparr>"

definition stored_row :: "json \<Rightarrow> (string \<times> string) list" where
  "stored_row p = (let d = (case p of JObj d \<Rightarrow> d | _ \<Rightarrow> []);
       key = (case map_of d ''key'' of Some (JStr k) \<Rightarrow> js_trim k | _ \<Rightarrow> [])
     in if truthy key \<and> map_of d ''enabled'' \<noteq> Some (JBool False)
        then [(key, case map_of d ''value'' of Some v \<Rightarrow> if v = JNull then [] else js_String v | None \<Rightarrow> [])] else [])"

definition stored_record :: "string \<Rightarrow> string dict" where
  "stored_record raw = (if \<not> truthy raw then [] else case JSON_parse raw of
       Some (JArr vs) \<Rightarrow> fromEntries (concat (map stored_row vs))
     | Some (JObj d) \<Rightarrow> fromEntries (map (\<lambda>(k, v). (k, if v = JNull then [] else js_String v)) (filter (\<lambda>(k, v). truthy (js_trim k)) d))
     | _ \<Rightarrow> [])"

definition handleSendToWorkflow_item :: "CollectionItem \<Rightarrow> workflow_source" where
  "handleSendToWorkflow_item item = \<lparr> wq_name = Some (it_name item), wq_method = Some (or_text (it_method item) ''GET''),
     wq_url = Some (or_text (it_url item) []), wq_headers = stored_record (it_headers item), wq_queryParams = stored_record (it_queryParams item),
     wq_body = Some (it_bodyContent item) \<rparr>"

definition handleGenerateMock_item :: "string \<Rightarrow> string \<Rightarrow> string \<Rightarrow> (string \<Rightarrow> URLParts option) \<Rightarrow> CollectionItem
    \<Rightarrow> app_state \<times> mock_stores \<Rightarrow> app_state \<times> mock_stores" where
  "handleGenerateMock_item uuid0 uuid1 uuid2 parse_url item =
     generateMockFromRequest uuid0 uuid1 uuid2 parse_url \<lparr> mq_method = it_method item, mq_url = it_url item,
       mq_responseExample = Some (it_responseExample item), mq_name = Some (it_name item) \<rparr>"


section \<open>Properties\<close>

lemma open_focuses:
  obtains i where "fst (openToolTab uuid tool None opts app) = Some i" "ap_activeToolSessionIds (snd (openToolTab uuid tool None opts app)) tool = Some i"
    "i \<in> session_ids (snd (openToolTab uuid tool None opts app)) tool" "ap_activeWorkbench (snd (openToolTab uuid tool None opts app)) = Tool tool"
proof -
  let ?xs = "ap_toolSessions app tool" and ?active = "ap_activeToolSessionIds app tool"
  have "\<exists>i. fst (openToolTab uuid tool None opts app) = Some i \<and> ap_activeToolSessionIds (snd (openToolTab uuid tool None opts app)) tool = Some i
    \<and> i \<in> session_ids (snd (openToolTab uuid tool None opts app)) tool \<and> ap_activeWorkbench (snd (openToolTab uuid tool None opts app)) = Tool tool"
  proof (cases "?xs = []")
    case True
    then show ?thesis by (simp add: openToolTab_def Let_def push_session_def focus_session_def session_ids_def)
  next
    case False
    then have last: "last ?xs \<in> set ?xs" by simp
    show ?thesis
    proof (cases "truthy_opt ?active \<and> some_elem (\<lambda>x. Some (ts_id x) = ?active) ?xs")
      case True
      then obtain x where "x \<in> set ?xs" "?active = Some (ts_id x)" by (auto simp: some_elem_def list_ex_iff)
      then show ?thesis using True False by (auto simp: openToolTab_def Let_def focus_session_def session_ids_def)
    next
      case no: False
      have "openToolTab uuid tool None opts app = (Some (ts_id (last ?xs)), focus_session tool (Some (ts_id (last ?xs))) app)"
        using no False by (auto simp: openToolTab_def Let_def)
      then show ?thesis using last by (auto simp: focus_session_def session_ids_def)
    qed
  qed
  then show thesis using that by blast
qed

text \<open>
  Generating a mock for a request opens the mock server tool and adds to the session that is then in
  front exactly one route, at the end and selected, with the method, the path and the example of the
  request; the other sessions keep their routes.
\<close>

theorem mock_generated:
  assumes "generateMockFromRequest uuid0 uuid1 uuid2 parse_url req (app, mocks) = (app', mocks')"
  shows "\<exists>i store. ap_activeWorkbench app' = Tool MockServer \<and> ap_activeToolSessionIds app' MockServer = Some i \<and> i \<in> session_ids app' MockServer
    \<and> mocks' = mocks(i \<mapsto> store) \<and> ms_selectedRouteId store = Some uuid2
    \<and> ms_routes store = (case mocks i of Some old \<Rightarrow> ms_routes old | None \<Rightarrow> [])
        @ [mock_template parse_url req (createEmptyRoute uuid1)\<lparr>mr_id := uuid2\<rparr>]"
proof -
  obtain i where i: "fst (openToolTab uuid0 MockServer None no_options app) = Some i"
    "ap_activeToolSessionIds (snd (openToolTab uuid0 MockServer None no_options app)) MockServer = Some i"
    "i \<in> session_ids (snd (openToolTab uuid0 MockServer None no_options app)) MockServer"
    "ap_activeWorkbench (snd (openToolTab uuid0 MockServer None no_options app)) = Tool MockServer"
    by (rule open_focuses)
  have e: "app' = snd (openToolTab uuid0 MockServer None no_options app)"
    "mocks' = mocks(i \<mapsto> addRouteFromTemplate uuid1 uuid2 (mock_template parse_url req) (nullish (mocks i) (createMockServerSessionStore i)))"
    using assms i(1) by (auto simp: generateMockFromRequest_def split_def Let_def)
  have "ms_routes (createMockServerSessionStore i) = []" by (simp add: createMockServerSessionStore_def)
  then show ?thesis using i unfolding e
    by (intro exI[of _ i] exI[of _ "addRouteFromTemplate uuid1 uuid2 (mock_template parse_url req) (nullish (mocks i) (createMockServerSessionStore i))"])
      (simp add: addRouteFromTemplate_def scheduleAutoSave_def Let_def nullish_def split: option.split)
qed

text \<open>The path of a template address is what follows the first variable.\<close>

lemma template_path: "not_line_end c \<Longrightarrow> list_all not_line_end t \<Longrightarrow> list_all (\<lambda>x. x \<noteq> CHR ''}'') v \<Longrightarrow>
    after_braces (v @ ''}}'' @ c # t) = Some (c # t)"
  by (induction v) (auto simp: list_all_iff)

lemma template_mock_path:
  assumes "list_all (\<lambda>x. x \<noteq> CHR ''}'') v" and "list_all not_line_end (c # t)"
  shows "mock_path parse_url (Some (''{{'' @ v @ ''}}'' @ c # t)) = c # t"
  using template_path[of c t "''{{'' @ v"] assms by (simp add: mock_path_def or_text_def nullish_def Let_def)

lemma seeded_good:
  assumes "n1 \<noteq> n2"
  shows "good_workflow (seeded_workflow n1 n2 e req w)"
proof -
  have "acyclic {(n1, n2)}" using assms by (auto simp: acyclic_def trancl_insert)
  then show ?thesis using assms
    by (simp add: seeded_workflow_def good_graph_def good_edge_def joins_def kinds_def start_node_def http_node_def seed_edge_def
        arrows_def branch_handle_def)
qed

lemma created_found: "find (\<lambda>v. Some (wo_id v) = Some i) (xs @ [w]) = Some w" if "wo_id w = i" "i \<notin> wo_id ` set xs"
  using that by (induction xs) auto


text \<open>
  With the editor on screen the canvas is left with the empty workflow, and saving there replaces the
  graph that was just stored.
\<close>

theorem sent_request_shows_empty:
  assumes "uuid \<notin> wo_id ` set (wf_workflows wfs)" and "wq_name req = Some name" and "js_trim name \<noteq> []"
    and "sendRequestToWorkflow (uuid, n1, n2, e, sid) now saved_at Inr (Inr ()) True req (app, wfs) = (ok, app', wfs')"
  shows "let w = newWorkflow uuid now (js_trim name) in
    activeWorkflow wfs' = Some (seeded_workflow n1 n2 e req w\<lparr>wo_updatedAt := saved_at\<rparr>) \<and> wf_local wfs' = Some w \<and>
    activeWorkflow (handleSave now' (Inr ()) wfs') = Some (w\<lparr>wo_updatedAt := now'\<rparr>)"
proof -
  define w where "w = newWorkflow uuid now (js_trim name)"
  have id: "wo_id w = uuid" "wo_id (seeded_workflow n1 n2 e req w) = uuid" by (simp_all add: w_def newWorkflow_def seeded_workflow_def)
  have name: "(case wq_name req of Some n \<Rightarrow> or_text (Some (js_trim n)) ''New Flow'' | None \<Rightarrow> ''New Flow'') = js_trim name"
    using assms(2,3) by (simp add: or_text_def)
  have "wfs' = with_effect (setActiveWorkflowId (Some uuid)) (with_effect (saveWorkflow_done saved_at (seeded_workflow n1 n2 e req w) (Inr ()))
      (with_effect (createWorkflow_done (Inr w)) wfs))"
    using assms(4) id(1) by (simp add: sendRequestToWorkflow_def Let_def name w_def[symmetric] store_action_def)
  then show ?thesis using created_then_saved[OF id assms(1), of saved_at now'] unfolding Let_def w_def[symmetric] by simp
qed


theorem mock_generated_witness:
  "\<exists>i store. ap_activeToolSessionIds (fst (generateMockFromRequest ''s'' ''x'' ''r'' (\<lambda>_. None)
        \<lparr> mq_method = Some ''POST'', mq_url = Some ''{{base}}/users'', mq_responseExample = None, mq_name = Some ''n'' \<rparr> (app_init, Map.empty))) MockServer = Some i
    \<and> snd (generateMockFromRequest ''s'' ''x'' ''r'' (\<lambda>_. None)
        \<lparr> mq_method = Some ''POST'', mq_url = Some ''{{base}}/users'', mq_responseExample = None, mq_name = Some ''n'' \<rparr> (app_init, Map.empty)) i = Some store
    \<and> map mr_pattern (ms_routes store) = [''/users'']"
proof -
  let ?q = "\<lparr> mq_method = Some ''POST'', mq_url = Some ''{{base}}/users'', mq_responseExample = None, mq_name = Some ''n'' \<rparr>"
  have path: "mock_path (\<lambda>_. None) (Some ''{{base}}/users'') = ''/users''"
    by (simp add: mock_path_def or_text_def nullish_def not_line_end_def)
  show ?thesis
    using mock_generated[OF prod.collapse[symmetric], of "''s''" "''x''" "''r''" "\<lambda>_. None" ?q app_init Map.empty] path
    by (auto simp: mock_template_def)
qed

definition example_source :: workflow_source where
  "example_source = \<lparr> wq_name = Some '' Get users '', wq_method = None, wq_url = Some ''u'', wq_headers = [], wq_queryParams = [], wq_body = None \<rparr>"


theorem sent_request_shows_empty_witness:
  "case sendRequestToWorkflow (''w'', ''a'', ''b'', ''e'', ''s'') ''1'' ''2'' Inr (Inr ()) True example_source (app_init, wf_init) of (ok, app', wfs') \<Rightarrow>
     map_option wo_nodes (wf_local wfs') = Some [] \<and> map_option wo_nodes (activeWorkflow (handleSave ''3'' (Inr ()) wfs')) = Some []"
  using sent_request_shows_empty[of "''w''" wf_init example_source "'' Get users ''" "''a''" "''b''" "''e''" "''s''" "''1''" "''2''" app_init]
  by (auto simp: wf_init_def example_source_def js_trim_def is_ws_def newWorkflow_def Let_def split: prod.splits)

end
