(* ===== verification/GraphqlSchema.thy ===== *)
theory GraphqlSchema
  imports Interfaces
begin

text \<open>
  GraphQL schemas (\<open>src/src/types/graphql.ts\<close>) and the store that keeps one for each address
  (\<open>src/src/stores/graphqlSchemaStore.ts\<close>). The service that asks an address for its schema is an argument: its
  reply is a schema or an error message.
\<close>

section \<open>Schemas\<close>

datatype GqlTypeRef = GqlTypeRef (ref_kind: string) (ref_name: "string option") (ref_ofType: "GqlTypeRef option")

record GqlInputValue =
  iv_name :: string
  iv_description :: "string option"
  iv_type :: GqlTypeRef
  iv_defaultValue :: "string option"

record GqlField =
  gf_name :: string
  gf_description :: "string option"
  gf_args :: "GqlInputValue list"
  gf_type :: GqlTypeRef
  gf_isDeprecated :: bool
  gf_deprecationReason :: "string option"

record GqlEnumValue =
  ge_name :: string
  ge_description :: "string option"
  ge_isDeprecated :: bool
  ge_deprecationReason :: "string option"

record GqlType =
  gt_kind :: string
  gt_name :: "string option"
  gt_description :: "string option"
  gt_fields :: "GqlField list option"
  gt_inputFields :: "GqlInputValue list option"
  gt_interfaces :: "GqlTypeRef list option"
  gt_enumValues :: "GqlEnumValue list option"
  gt_possibleTypes :: "GqlTypeRef list option"

record GqlDirective =
  gd_name :: string
  gd_description :: "string option"
  gd_locations :: "string list"
  gd_args :: "GqlInputValue list"

text \<open>The root types are given by their names.\<close>

record GqlSchema =
  gs_queryType :: "string option"
  gs_mutationType :: "string option"
  gs_subscriptionType :: "string option"
  gs_types :: "GqlType list"
  gs_directives :: "GqlDirective list"

record IntrospectionResult =
  ir_schema :: GqlSchema
  ir_fetchedAt :: int
  ir_url :: string

fun formatTypeRef :: "GqlTypeRef \<Rightarrow> string" where
  "formatTypeRef (GqlTypeRef kind name ofType) = (case ofType of
     Some inner \<Rightarrow> if kind = ''NON_NULL'' then formatTypeRef inner @ ''!''
       else if kind = ''LIST'' then ''['' @ formatTypeRef inner @ '']'' else nullish name ''Unknown''
   | None \<Rightarrow> nullish name ''Unknown'')"

fun unwrapType :: "GqlTypeRef \<Rightarrow> string" where
  "unwrapType (GqlTypeRef kind name ofType) = (case ofType of Some inner \<Rightarrow> unwrapType inner | None \<Rightarrow> nullish name [])"

definition isBuiltinType :: "string \<Rightarrow> bool" where
  "isBuiltinType name \<longleftrightarrow> take 2 name = ''__'' \<or> name \<in> set [''String'', ''Int'', ''Float'', ''Boolean'', ''ID'']"


section \<open>The store\<close>

record SchemaEntry =
  sc_result :: "IntrospectionResult option"
  sc_loading :: bool
  sc_error :: "string option"

type_synonym schema_store = "SchemaEntry dict"

definition normalizeSchemaUrl :: "string \<Rightarrow> string" where
  "normalizeSchemaUrl url = rev (dropWhile (\<lambda>c. c = CHR ''/'') (rev (js_trim url)))"

definition cached_result :: "string \<Rightarrow> schema_store \<Rightarrow> IntrospectionResult option" where
  "cached_result key s = Option.bind (map_of s key) sc_result"

text \<open>Asking for a schema (nothing happens for an empty address), and the reply.\<close>

definition fetchSchema_begin :: "string \<Rightarrow> schema_store \<Rightarrow> schema_store" where
  "fetchSchema_begin url s = (let key = normalizeSchemaUrl url in
     if \<not> truthy key then s
     else AList.update key \<lparr> sc_result = cached_result key s, sc_loading = True, sc_error = None \<rparr> s)"

definition fetchSchema_done :: "string \<Rightarrow> string + IntrospectionResult \<Rightarrow> schema_store \<Rightarrow> schema_store" where
  "fetchSchema_done url reply s = (let key = normalizeSchemaUrl url in
     if \<not> truthy key then s
     else (case reply of
         Inr result \<Rightarrow> AList.update key \<lparr> sc_result = Some result, sc_loading = False, sc_error = None \<rparr> s
       | Inl msg \<Rightarrow> AList.update key \<lparr> sc_result = cached_result key s, sc_loading = False, sc_error = Some msg \<rparr> s))"

definition getSchema :: "string \<Rightarrow> schema_store \<Rightarrow> IntrospectionResult option" where
  "getSchema url s = cached_result (normalizeSchemaUrl url) s"

definition isLoading :: "string \<Rightarrow> schema_store \<Rightarrow> bool" where
  "isLoading url s = (case map_of s (normalizeSchemaUrl url) of Some e \<Rightarrow> sc_loading e | None \<Rightarrow> False)"

definition getError :: "string \<Rightarrow> schema_store \<Rightarrow> string option" where
  "getError url s = Option.bind (map_of s (normalizeSchemaUrl url)) sc_error"

definition clearSchema :: "string \<Rightarrow> schema_store \<Rightarrow> schema_store" where
  "clearSchema url s = AList.delete (normalizeSchemaUrl url) s"

definition type_named :: "string \<Rightarrow> GqlSchema \<Rightarrow> GqlType option" where
  "type_named name schema = find (\<lambda>t. gt_name t = Some name) (gs_types schema)"

definition findType :: "string \<Rightarrow> string \<Rightarrow> schema_store \<Rightarrow> GqlType option" where
  "findType url typeName s = Option.bind (getSchema url s) (\<lambda>r. type_named typeName (ir_schema r))"

datatype GqlOperation = QueryOp | MutationOp | SubscriptionOp

fun root_type :: "GqlOperation \<Rightarrow> GqlSchema \<Rightarrow> string option" where
  "root_type QueryOp schema = gs_queryType schema"
| "root_type MutationOp schema = gs_mutationType schema"
| "root_type SubscriptionOp schema = gs_subscriptionType schema"

definition getRootFields :: "string \<Rightarrow> GqlOperation \<Rightarrow> schema_store \<Rightarrow> GqlField list" where
  "getRootFields url operation s = (case getSchema url s of None \<Rightarrow> [] | Some r \<Rightarrow>
     (let rootName = root_type operation (ir_schema r) in
      if \<not> truthy_opt rootName then []
      else (case type_named (the rootName) (ir_schema r) of None \<Rightarrow> [] | Some t \<Rightarrow> nullish (gt_fields t) [])))"

text \<open>Later types of the same name replace earlier ones.\<close>

definition buildTypeMap :: "IntrospectionResult \<Rightarrow> GqlType dict" where
  "buildTypeMap result = fromEntries (map (\<lambda>t. (the (gt_name t), t)) (filter (\<lambda>t. truthy_opt (gt_name t)) (gs_types (ir_schema result))))"

definition getFieldsForType :: "GqlType dict \<Rightarrow> string \<Rightarrow> GqlField list" where
  "getFieldsForType typeMap typeName = (case map_of typeMap typeName of Some t \<Rightarrow> nullish (gt_fields t) [] | None \<Rightarrow> [])"

definition field_named :: "string \<Rightarrow> GqlType \<Rightarrow> GqlField option" where
  "field_named name t = Option.bind (gt_fields t) (find (\<lambda>f. gf_name f = name))"

fun resolve_from :: "GqlType dict \<Rightarrow> GqlType option \<Rightarrow> string list \<Rightarrow> GqlType option" where
  "resolve_from typeMap current [] = current"
| "resolve_from typeMap current (name # path) = (case current of None \<Rightarrow> None | Some t \<Rightarrow>
     (case field_named name t of None \<Rightarrow> None | Some f \<Rightarrow>
       (case map_of typeMap (unwrapType (gf_type f)) of None \<Rightarrow> None | Some t' \<Rightarrow> resolve_from typeMap (Some t') path)))"

definition resolveFieldPath :: "GqlType dict \<Rightarrow> string \<Rightarrow> string list \<Rightarrow> GqlType option" where
  "resolveFieldPath typeMap rootTypeName fieldPath = resolve_from typeMap (map_of typeMap rootTypeName) fieldPath"


section \<open>Over all runs\<close>

datatype schema_action = FetchSchema string | SchemaReply string "string + IntrospectionResult" | ClearSchema string

fun schema_step :: "schema_store \<Rightarrow> schema_action \<Rightarrow> schema_store" where
  "schema_step s (FetchSchema url) = fetchSchema_begin url s"
| "schema_step s (SchemaReply url r) = fetchSchema_done url r s"
| "schema_step s (ClearSchema url) = clearSchema url s"

text \<open>Whatever is requested, answered and cleared: the last answer that brought a schema, since the last
  clearing, is what an address has; a failure or a request in flight does not lose it.\<close>

fun last_schema :: "string \<Rightarrow> schema_action list \<Rightarrow> IntrospectionResult option \<Rightarrow> IntrospectionResult option" where
  "last_schema key [] r = r"
| "last_schema key (a # as) r = last_schema key as (case a of
       FetchSchema url \<Rightarrow> r
     | SchemaReply url reply \<Rightarrow> (if normalizeSchemaUrl url = key then (case reply of Inr x \<Rightarrow> Some x | Inl _ \<Rightarrow> r) else r)
     | ClearSchema url \<Rightarrow> (if normalizeSchemaUrl url = key then None else r))"

lemma step_result:
  assumes "key \<noteq> []"
  shows "cached_result key (schema_step s a) = last_schema key [a] (cached_result key s)"
  using assms by (cases a)
    (auto simp: cached_result_def fetchSchema_begin_def fetchSchema_done_def clearSchema_def Let_def update_conv' delete_conv' split: sum.split)

theorem schema_cache_keeps_last:
  assumes "normalizeSchemaUrl url \<noteq> []"
  shows "getSchema url (run schema_step s actions) = last_schema (normalizeSchemaUrl url) actions (getSchema url s)"
  unfolding getSchema_def
proof (induction actions arbitrary: s)
  case (Cons a as)
  then show ?case using step_result[OF assms, of s a] by (simp add: run_def)
qed (simp add: run_def)

end
