(* ===== verification/GraphqlComplete.thy ===== *)
theory GraphqlComplete
  imports GraphqlSchema
begin

text \<open>
  Completion in the GraphQL editor (\<open>src/src/lib/graphqlMonaco.ts\<close>): where the cursor is, which type that
  place has, and what is suggested. The text up to the cursor is the argument; the range that an editor
  attaches to each suggestion is not represented.
\<close>

section \<open>Regular expressions of the scanner\<close>

text \<open>\<open>/#[^\n]*/g\<close> and \<open>/\([^)]*\)/g\<close>, replaced by nothing.\<close>

function strip_comments :: "string \<Rightarrow> string" where
  "strip_comments [] = []"
| "strip_comments (c # cs) = (if c = CHR ''#'' then strip_comments (dropWhile (\<lambda>d. d \<noteq> CHR 0x0A) cs) else c # strip_comments cs)"
  by pat_completeness auto
termination
  by (relation "measure length") (auto simp: le_imp_less_Suc length_dropWhile_le)

text \<open>The rest after a string literal whose opening quote was read; \<open>None\<close> when it does not end.\<close>

fun string_rest :: "string \<Rightarrow> string option" where
  "string_rest [] = None"
| "string_rest (c # cs) =
     (if c = CHR 0x22 then Some cs
      else if c = CHR 0x5C then (case cs of [] \<Rightarrow> None | d # ds \<Rightarrow> if d = CHR 0x0A \<or> d = CHR 0x0D then None else string_rest ds)
      else string_rest cs)"

lemma string_rest_length: "string_rest s = Some r \<Longrightarrow> length r < length s"
  by (induction s arbitrary: r rule: string_rest.induct) (fastforce split: if_splits list.splits)+

function strip_strings :: "string \<Rightarrow> string" where
  "strip_strings [] = []"
| "strip_strings (c # cs) = (if c = CHR 0x22
     then (case string_rest cs of Some r \<Rightarrow> [CHR 0x22, CHR 0x22] @ strip_strings r | None \<Rightarrow> c # strip_strings cs)
     else c # strip_strings cs)"
  by pat_completeness auto
termination
  by (relation "measure length") (auto dest: string_rest_length)

text \<open>\<open>/"(?:[^"\\]|\\.)*"/g\<close>, replaced by an empty literal, is \<open>strip_strings\<close>.\<close>

fun paren_rest :: "string \<Rightarrow> string option" where
  "paren_rest [] = None"
| "paren_rest (c # cs) = (if c = CHR '')'' then Some cs else paren_rest cs)"

lemma paren_rest_length: "paren_rest s = Some r \<Longrightarrow> length r < length s"
  by (induction s) (auto split: if_splits)

function strip_parens :: "string \<Rightarrow> string" where
  "strip_parens [] = []"
| "strip_parens (c # cs) = (if c = CHR ''(''
     then (case paren_rest cs of Some r \<Rightarrow> strip_parens r | None \<Rightarrow> c # strip_parens cs)
     else c # strip_parens cs)"
  by pat_completeness auto
termination
  by (relation "measure length") (auto dest: paren_rest_length)

definition stripped_text :: "string \<Rightarrow> string" where
  "stripped_text t = strip_parens (strip_strings (strip_comments t))"

definition trim_end :: "string \<Rightarrow> string" where
  "trim_end t = rev (dropWhile is_ws (rev t))"

text \<open>\<open>t.trimEnd().match(/(\w+)\s*$/)\<close>: the word at the end, empty when there is none.\<close>

definition last_word :: "string \<Rightarrow> string" where
  "last_word t = rev (takeWhile is_word (rev (trim_end t)))"

text \<open>\<open>split(/([{}])/)\<close>: a text, a brace, a text, and so on, ending with a text.\<close>

datatype brace_token = TextToken string | OpenToken | CloseToken

definition brace_of :: "char \<Rightarrow> brace_token option" where
  "brace_of c = (if c = CHR ''{'' then Some OpenToken else if c = CHR ''}'' then Some CloseToken else None)"

fun split_braces :: "string \<Rightarrow> brace_token list" where
  "split_braces [] = [TextToken []]"
| "split_braces (c # cs) = (case brace_of c of
     Some b \<Rightarrow> TextToken [] # b # split_braces cs
   | None \<Rightarrow> (case split_braces cs of TextToken t # ts \<Rightarrow> TextToken (c # t) # ts | ts \<Rightarrow> TextToken [c] # ts))"


section \<open>Where the cursor is\<close>

text \<open>\<open>path\<close>, and \<open>nameStack\<close> with its top first.\<close>

fun path_token :: "string list \<times> string list \<Rightarrow> brace_token \<Rightarrow> string list \<times> string list" where
  "path_token (path, names) OpenToken = (path @ [last_word (case names of n # _ \<Rightarrow> n | [] \<Rightarrow> [])], [] # names)"
| "path_token (path, names) CloseToken = (butlast path, tl names)"
| "path_token (path, names) (TextToken t) = (path, t # tl names)"

definition detectFieldPath :: "string \<Rightarrow> string list" where
  "detectFieldPath t = fst (foldl path_token ([], []) (split_braces (stripped_text t)))"

datatype EditorContext = RootContext | FieldContext "string list" | ArgumentContext "string list" string
  | ArgumentValueContext "string list" string string | DirectiveContext

text \<open>\<open>/(\w+)\s*:\s*[^,)]*$/\<close>: the word of the first match.\<close>

fun colon_name :: "string \<Rightarrow> string option" where
  "colon_name [] = None"
| "colon_name (c # cs) = (let w = takeWhile is_word (c # cs); r = dropWhile is_ws (dropWhile is_word (c # cs)) in
     if w \<noteq> [] \<and> take 1 r = '':'' \<and> list_all (\<lambda>d. d \<noteq> CHR '','' \<and> d \<noteq> CHR '')'') (drop 1 r) then Some w else colon_name cs)"

definition argument_at :: "string \<Rightarrow> string \<Rightarrow> EditorContext option" where
  "argument_at before_paren inside = (let b = trim_end before_paren; w = last_word b in
     if w = [] then None
     else (let parentPath = detectFieldPath (take (length b - length w) b) in
       Some (case colon_name inside of Some a \<Rightarrow> ArgumentValueContext parentPath w a | None \<Rightarrow> ArgumentContext parentPath w)))"

text \<open>The characters before the cursor, last first, and those already passed.\<close>

fun arg_scan :: "string \<Rightarrow> string \<Rightarrow> nat \<Rightarrow> nat \<Rightarrow> EditorContext option" where
  "arg_scan [] after parens braces = None"
| "arg_scan (ch # before) after parens braces =
     (if ch = CHR '')'' then arg_scan before (ch # after) (Suc parens) braces
      else if ch = CHR ''('' then
        (if 0 < parens then arg_scan before (ch # after) (parens - 1) braces else argument_at (rev before) after)
      else if ch = CHR ''}'' then arg_scan before (ch # after) parens (Suc braces)
      else if ch = CHR ''{'' then (if 0 < braces then arg_scan before (ch # after) parens (braces - 1) else None)
      else arg_scan before (ch # after) parens braces)"

definition detectArgumentContext :: "string \<Rightarrow> EditorContext option" where
  "detectArgumentContext t = arg_scan (rev t) [] 0 0"

text \<open>The text after the last at sign.\<close>

definition after_at :: "string \<Rightarrow> string option" where
  "after_at t = (if CHR ''@'' \<in> set t then Some (rev (takeWhile (\<lambda>c. c \<noteq> CHR ''@'') (rev t))) else None)"

definition detectContext :: "string \<Rightarrow> EditorContext" where
  "detectContext t =
     (if (case after_at t of Some a \<Rightarrow> list_all (\<lambda>c. is_alpha c \<or> c = CHR ''_'') a | None \<Rightarrow> False) then DirectiveContext
      else case detectArgumentContext t of Some c \<Rightarrow> c
      | None \<Rightarrow> (let path = detectFieldPath t in if path = [] then RootContext else FieldContext path))"


section \<open>The type of a place\<close>

definition operation_root :: "string \<Rightarrow> GqlSchema \<Rightarrow> string option" where
  "operation_root word schema = (let k = js_toLowerCase word in
     if k = ''query'' \<or> k = [] then gs_queryType schema
     else if k = ''mutation'' then gs_mutationType schema
     else if k = ''subscription'' then gs_subscriptionType schema
     else gs_queryType schema)"

fun walk_path :: "GqlType dict \<Rightarrow> GqlType \<Rightarrow> string list \<Rightarrow> GqlType option" where
  "walk_path typeMap t [] = Some t"
| "walk_path typeMap t (name # path) =
     (if name = [] \<or> gt_fields t = None then Some t
      else case field_named name t of None \<Rightarrow> Some t
      | Some f \<Rightarrow> (case map_of typeMap (unwrapType (gf_type f)) of None \<Rightarrow> None | Some t' \<Rightarrow> walk_path typeMap t' path))"

definition resolveParentType :: "GqlType dict \<Rightarrow> IntrospectionResult \<Rightarrow> string list \<Rightarrow> GqlType option" where
  "resolveParentType typeMap schema path = (case path of [] \<Rightarrow> None | word # rest \<Rightarrow>
     (let root = operation_root word (ir_schema schema) in
      if \<not> truthy_opt root then None
      else case map_of typeMap (the root) of None \<Rightarrow> None | Some t \<Rightarrow> walk_path typeMap t rest))"


section \<open>Suggestions\<close>

datatype SuggestionKind = KeywordKind | PropertyKind | ModuleKind | FieldKind | VariableKind | EnumMemberKind | ValueKind | FunctionKind

record Suggestion =
  sg_label :: string
  sg_kind :: SuggestionKind
  sg_insertText :: string
  sg_snippet :: bool
  sg_detail :: "string option"
  sg_documentation :: "string option"
  sg_sortText :: "string option"

definition line_break :: string where "line_break = [CHR 0x0A]"

definition keyword_suggestion :: "string \<Rightarrow> string \<Rightarrow> Suggestion" where
  "keyword_suggestion kw root = \<lparr> sg_label = kw, sg_kind = KeywordKind,
     sg_insertText = kw @ '' ${1:OperationName} {'' @ line_break @ ''  $0'' @ line_break @ ''}'', sg_snippet = True,
     sg_detail = Some (''Root: '' @ root), sg_documentation = Some (''Define a GraphQL '' @ kw @ '' operation''), sg_sortText = None \<rparr>"

definition opt_suggestion :: "string \<Rightarrow> string option \<Rightarrow> Suggestion list" where
  "opt_suggestion kw root = (case root of Some r \<Rightarrow> [keyword_suggestion kw r] | None \<Rightarrow> [])"

definition buildKeywordSuggestions :: "GqlSchema \<Rightarrow> Suggestion list" where
  "buildKeywordSuggestions schema = opt_suggestion ''query'' (gs_queryType schema) @ opt_suggestion ''mutation'' (gs_mutationType schema)
     @ opt_suggestion ''subscription'' (gs_subscriptionType schema)
     @ [\<lparr> sg_label = ''fragment'', sg_kind = KeywordKind,
          sg_insertText = ''fragment ${1:FragmentName} on ${2:TypeName} {'' @ line_break @ ''  $0'' @ line_break @ ''}'', sg_snippet = True,
          sg_detail = None, sg_documentation = Some ''Define a reusable fragment'', sg_sortText = None \<rparr>]"

text \<open>\<open>String(i).padStart(4, '0')\<close>.\<close>

definition sort_text :: "nat \<Rightarrow> string" where
  "sort_text i = replicate (4 - length (nat_to_string i)) (CHR ''0'') @ nat_to_string i"

definition place_holder :: "nat \<Rightarrow> string" where
  "place_holder j = ''${'' @ nat_to_string j @ ''}''"

definition required_args :: "GqlField \<Rightarrow> GqlInputValue list" where
  "required_args f = filter (\<lambda>a. ref_kind (iv_type a) = ''NON_NULL'') (gf_args f)"

definition args_snippet :: "GqlInputValue list \<Rightarrow> string" where
  "args_snippet as = ''('' @ js_join '', '' (map (\<lambda>(j, a). iv_name a @ '': '' @ place_holder (Suc j)) (enumerate 0 as)) @ '')''"

definition object_like :: "GqlType dict \<Rightarrow> GqlField \<Rightarrow> bool" where
  "object_like typeMap f = (case map_of typeMap (unwrapType (gf_type f)) of
     Some t \<Rightarrow> gt_kind t \<in> set [''OBJECT'', ''INTERFACE'', ''UNION''] | None \<Rightarrow> False)"

definition field_insert :: "GqlType dict \<Rightarrow> GqlField \<Rightarrow> string \<times> bool" where
  "field_insert typeMap f = (let hasArgs = gf_args f \<noteq> []; required = required_args f; isObjectLike = object_like typeMap f in
     if hasArgs \<and> isObjectLike then
       (gf_name f @ (if required \<noteq> [] then args_snippet required else []) @ '' {'' @ line_break @ ''  '' @ place_holder (length required + 1)
          @ line_break @ ''}'', True)
     else if isObjectLike then (gf_name f @ '' {'' @ line_break @ ''  $0'' @ line_break @ ''}'', True)
     else if hasArgs \<and> required \<noteq> [] then (gf_name f @ args_snippet required, True)
     else (gf_name f, False))"

definition deprecated_mark :: string where
  "deprecated_mark = concat (map (\<lambda>n. [char_of (n :: nat)]) [226, 154, 160, 239, 184, 143])"

definition join_lines :: "string list \<Rightarrow> string option" where
  "join_lines xs = (let t = js_join line_break (filter truthy xs) in if truthy t then Some t else None)"

definition field_doc :: "GqlField \<Rightarrow> string option" where
  "field_doc f = join_lines [nullish (gf_description f) [],
     (if gf_args f \<noteq> [] then line_break @ ''Arguments:'' @ line_break
        @ js_join line_break (map (\<lambda>a. ''  '' @ iv_name a @ '': '' @ formatTypeRef (iv_type a)) (gf_args f)) else []),
     (if gf_isDeprecated f then line_break @ deprecated_mark @ '' Deprecated: '' @ nullish (gf_deprecationReason f) [] else [])]"

definition field_suggestion :: "GqlType dict \<Rightarrow> nat \<times> GqlField \<Rightarrow> Suggestion" where
  "field_suggestion typeMap p = (case p of (i, f) \<Rightarrow> \<lparr> sg_label = gf_name f, sg_kind = (if object_like typeMap f then ModuleKind else FieldKind),
     sg_insertText = fst (field_insert typeMap f), sg_snippet = snd (field_insert typeMap f), sg_detail = Some (formatTypeRef (gf_type f)),
     sg_documentation = field_doc f, sg_sortText = Some (sort_text i) \<rparr>)"

definition buildFieldSuggestions :: "GqlField list \<Rightarrow> GqlType dict \<Rightarrow> Suggestion list" where
  "buildFieldSuggestions fs typeMap = map (field_suggestion typeMap) (enumerate 0 fs)"

definition buildArgumentSuggestions :: "GqlInputValue list \<Rightarrow> Suggestion list" where
  "buildArgumentSuggestions args = map (\<lambda>(i, a). \<lparr> sg_label = iv_name a, sg_kind = VariableKind, sg_insertText = iv_name a @ '': '',
     sg_snippet = False, sg_detail = Some (formatTypeRef (iv_type a)), sg_documentation = iv_description a,
     sg_sortText = Some (sort_text i) \<rparr>) (enumerate 0 args)"

definition enum_doc :: "GqlEnumValue \<Rightarrow> string option" where
  "enum_doc v = join_lines [nullish (ge_description v) [],
     (if ge_isDeprecated v then deprecated_mark @ '' Deprecated: '' @ nullish (ge_deprecationReason v) [] else [])]"

definition buildEnumSuggestions :: "GqlType \<Rightarrow> Suggestion list" where
  "buildEnumSuggestions t = (case gt_enumValues t of None \<Rightarrow> [] | Some vs \<Rightarrow>
     map (\<lambda>(i, v). \<lparr> sg_label = ge_name v, sg_kind = EnumMemberKind, sg_insertText = ge_name v, sg_snippet = False,
       sg_detail = Some (nullish (gt_name t) ''null''), sg_documentation = enum_doc v, sg_sortText = Some (sort_text i) \<rparr>) (enumerate 0 vs))"

definition plain_suggestion :: "SuggestionKind \<Rightarrow> string \<Rightarrow> Suggestion" where
  "plain_suggestion k t = \<lparr> sg_label = t, sg_kind = k, sg_insertText = t, sg_snippet = False, sg_detail = None,
     sg_documentation = None, sg_sortText = None \<rparr>"

definition typename_suggestion :: Suggestion where
  "typename_suggestion = (plain_suggestion PropertyKind ''__typename'')\<lparr>sg_detail := Some ''String!'',
     sg_documentation := Some ''The name of the current Object type''\<rparr>"

definition directive_suggestion :: "GqlDirective \<Rightarrow> Suggestion" where
  "directive_suggestion d = \<lparr> sg_label = gd_name d, sg_kind = FunctionKind,
     sg_insertText = (if gd_args d \<noteq> [] then gd_name d @ ''($1)'' else gd_name d), sg_snippet = (gd_args d \<noteq> []),
     sg_detail = Some (''directive @'' @ gd_name d), sg_documentation = gd_description d, sg_sortText = None \<rparr>"

definition value_suggestions :: "GqlType dict \<Rightarrow> GqlInputValue \<Rightarrow> Suggestion list" where
  "value_suggestions typeMap a = (let inner = unwrapType (iv_type a) in
     (case map_of typeMap inner of Some t \<Rightarrow> buildEnumSuggestions t | None \<Rightarrow> [])
     @ (if inner = ''Boolean'' then [plain_suggestion ValueKind ''true'', plain_suggestion ValueKind ''false''] else []))"

definition place_field :: "GqlType dict \<Rightarrow> IntrospectionResult \<Rightarrow> string list \<Rightarrow> string \<Rightarrow> GqlField option" where
  "place_field typeMap schema path name = Option.bind (resolveParentType typeMap schema path) (field_named name)"

definition context_suggestions :: "IntrospectionResult \<Rightarrow> EditorContext \<Rightarrow> Suggestion list" where
  "context_suggestions schema context = (let typeMap = buildTypeMap schema in case context of
     RootContext \<Rightarrow> buildKeywordSuggestions (ir_schema schema)
   | FieldContext path \<Rightarrow>
       (case Option.bind (resolveParentType typeMap schema path) gt_fields of Some fs \<Rightarrow> buildFieldSuggestions fs typeMap | None \<Rightarrow> [])
       @ [typename_suggestion]
   | ArgumentContext path name \<Rightarrow>
       (case place_field typeMap schema path name of Some f \<Rightarrow> buildArgumentSuggestions (gf_args f) | None \<Rightarrow> [])
   | ArgumentValueContext path name arg \<Rightarrow>
       (case Option.bind (place_field typeMap schema path name) (\<lambda>f. find (\<lambda>a. iv_name a = arg) (gf_args f)) of
          Some a \<Rightarrow> value_suggestions typeMap a | None \<Rightarrow> [])
   | DirectiveContext \<Rightarrow> map directive_suggestion (gs_directives (ir_schema schema)))"

definition provideCompletionItems :: "IntrospectionResult option \<Rightarrow> string \<Rightarrow> Suggestion list" where
  "provideCompletionItems current textUntilPosition = (case current of None \<Rightarrow> []
     | Some schema \<Rightarrow> context_suggestions schema (detectContext textUntilPosition))"

text \<open>The hover text: what it shows of the type of the word under the cursor.\<close>

definition provideHover :: "IntrospectionResult option \<Rightarrow> string option \<Rightarrow> string list option" where
  "provideHover current word = (case (current, word) of
     (Some schema, Some w) \<Rightarrow> map_option (\<lambda>t. (''**'' @ gt_kind t @ ''** '' @ [CHR 0x60] @ nullish (gt_name t) ''null'' @ [CHR 0x60])
         # (if truthy_opt (gt_description t) then [the (gt_description t)] else [])) (map_of (buildTypeMap schema) w)
   | _ \<Rightarrow> None)"

end
