(* ===== verification/GraphqlProps.thy ===== *)
theory GraphqlProps
  imports GraphqlComplete
begin

text \<open>
  Completion offers the fields of the type at the cursor, for text that is written in the plain style:
  an operation keyword and nested selections of names.
\<close>

section \<open>Selections as text\<close>

datatype selection = Leaf string | Sub string "selection list"

fun sel_text :: "selection \<Rightarrow> string" where
  "sel_text (Leaf n) = '' '' @ n"
| "sel_text (Sub n ss) = '' '' @ n @ '' {'' @ concat (map sel_text ss) @ '' }''"

definition name_ok :: "string \<Rightarrow> bool" where
  "name_ok n \<longleftrightarrow> n \<noteq> [] \<and> list_all is_word n"

fun sel_ok :: "selection \<Rightarrow> bool" where
  "sel_ok (Leaf n) = name_ok n"
| "sel_ok (Sub n ss) = (name_ok n \<and> list_all sel_ok ss)"

text \<open>What is written before the cursor: the keyword, and for every open selection the selections that are
  complete and the name of the field whose selection is open.\<close>

fun open_text :: "(selection list \<times> string) list \<Rightarrow> string" where
  "open_text [] = []"
| "open_text ((ss, n) # ctx) = concat (map sel_text ss) @ '' '' @ n @ '' {'' @ open_text ctx"

definition written :: "string \<Rightarrow> (selection list \<times> string) list \<Rightarrow> selection list \<Rightarrow> string" where
  "written kw ctx done = kw @ '' {'' @ open_text ctx @ concat (map sel_text done) @ '' ''"


section \<open>Characters of the text\<close>

definition plain_char :: "char \<Rightarrow> bool" where
  "plain_char c \<longleftrightarrow> c \<noteq> CHR ''#'' \<and> c \<noteq> CHR 0x22 \<and> c \<noteq> CHR ''('' \<and> c \<noteq> CHR '')'' \<and> c \<noteq> CHR ''@''"

lemma not_word: "list_all (\<lambda>c. \<not> is_word c) [CHR ''#'', CHR 0x22, CHR ''('', CHR '')'', CHR ''@'', CHR ''{'', CHR ''}'',
    CHR 0x09, CHR 0x0A, CHR 0x0B, CHR 0x0C, CHR 0x0D, CHR '' '']"
  by (simp add: is_word_def is_alpha_def is_upper_def is_digit_def char_between_def)

lemma word_plain: "is_word c \<Longrightarrow> plain_char c \<and> brace_of c = None \<and> \<not> is_ws c"
  using not_word by (auto simp: plain_char_def brace_of_def is_ws_def)

lemma plain_blank: "plain_char (CHR '' '')" "plain_char (CHR ''{'')" "plain_char (CHR ''}'')"
  by (simp_all add: plain_char_def)

lemma name_plain: "name_ok n \<Longrightarrow> list_all plain_char n"
  by (auto simp: name_ok_def list_all_iff word_plain)

lemma sel_plain: "sel_ok s \<Longrightarrow> list_all plain_char (sel_text s)"
  by (induction s) (auto simp: plain_blank list_all_iff dest: name_plain[unfolded list_all_iff, rule_format])

lemma sels_plain: "list_all sel_ok ss \<Longrightarrow> list_all plain_char (concat (map sel_text ss))"
  using sel_plain by (auto simp: list_all_iff)

lemma open_plain: "list_all (\<lambda>p. list_all sel_ok (fst p) \<and> name_ok (snd p)) ctx \<Longrightarrow> list_all plain_char (open_text ctx)"
  by (induction ctx rule: open_text.induct) (simp_all add: sels_plain name_plain plain_blank)

lemma written_plain:
  assumes "kw = [] \<or> name_ok kw" and "list_all (\<lambda>p. list_all sel_ok (fst p) \<and> name_ok (snd p)) ctx" and "list_all sel_ok done"
  shows "list_all plain_char (written kw ctx done)"
  using assms by (auto simp: written_def plain_blank sels_plain open_plain name_plain)

lemma stripped_plain: "list_all plain_char t \<Longrightarrow> stripped_text t = t"
proof -
  have "strip_comments t = t \<and> strip_strings t = t \<and> strip_parens t = t" if "list_all plain_char t" for t
    using that by (induction t) (auto simp: plain_char_def)
  then show "list_all plain_char t \<Longrightarrow> stripped_text t = t" by (simp add: stripped_text_def)
qed

lemma no_argument: "list_all plain_char t \<Longrightarrow> arg_scan (rev t) after 0 braces = None"
proof -
  have "arg_scan r after 0 braces = None" if "list_all plain_char r" for r after braces
    using that by (induction r arbitrary: after braces) (auto simp: plain_char_def)
  then show "list_all plain_char t \<Longrightarrow> arg_scan (rev t) after 0 braces = None" by simp
qed

lemma no_directive: "list_all plain_char t \<Longrightarrow> after_at t = None"
  by (auto simp: after_at_def plain_char_def list_all_iff)


section \<open>The path\<close>

definition scan_path :: "string \<Rightarrow> string list \<times> string list \<Rightarrow> string list \<times> string list" where
  "scan_path t st = foldl path_token st (split_braces t)"

definition brace_free :: "string \<Rightarrow> bool" where
  "brace_free t \<longleftrightarrow> list_all (\<lambda>c. brace_of c = None) t"

lemma split_text: "brace_free t \<Longrightarrow> split_braces t = [TextToken t]"
  by (induction t) (auto simp: brace_free_def)

lemma split_brace: "brace_free t \<Longrightarrow> brace_of c = Some b \<Longrightarrow> split_braces (t @ c # r) = TextToken t # b # split_braces r"
  by (induction t) (auto simp: brace_free_def)

lemma scan_text: "brace_free t \<Longrightarrow> scan_path t (p, ns) = (p, t # tl ns)"
  by (simp add: scan_path_def split_text)

lemma scan_open: "brace_free t \<Longrightarrow> scan_path (t @ CHR ''{'' # r) (p, ns) = scan_path r (p @ [last_word t], [] # t # tl ns)"
  by (simp add: scan_path_def split_brace[where b = OpenToken] brace_of_def)

lemma scan_close: "brace_free t \<Longrightarrow> scan_path (t @ CHR ''}'' # r) (p, ns) = scan_path r (butlast p, tl ns)"
  by (simp add: scan_path_def split_brace[where b = CloseToken] brace_of_def)

lemma name_brace_free: "name_ok n \<Longrightarrow> brace_free n"
  by (auto simp: name_ok_def brace_free_def list_all_iff word_plain)

lemma brace_free_simps [simp]: "brace_free []" "brace_free (s @ t) \<longleftrightarrow> brace_free s \<and> brace_free t" "brace_free (CHR '' '' # t) \<longleftrightarrow> brace_free t"
  by (auto simp: brace_free_def brace_of_def)

lemma takeWhile_word: "list_all is_word n \<Longrightarrow> takeWhile is_word (rev n @ CHR '' '' # r) = rev n"
  by (subst takeWhile_append2) (use not_word in \<open>auto simp: list_all_iff\<close>)

lemma last_word_name: "name_ok n \<Longrightarrow> last_word (t @ '' '' @ n @ '' '') = n"
proof -
  assume n: "name_ok n"
  then obtain c m where "rev n = c # m" "is_word c" by (cases "rev n") (auto simp: name_ok_def list_all_iff)
  then have "dropWhile is_ws (CHR '' '' # rev n @ CHR '' '' # rev t) = rev n @ CHR '' '' # rev t"
    by (simp add: word_plain) (simp add: is_ws_def)
  then show ?thesis using n by (simp add: last_word_def trim_end_def name_ok_def takeWhile_word)
qed

lemma last_word_first: "kw = [] \<or> name_ok kw \<Longrightarrow> last_word (kw @ '' '') = kw"
proof -
  assume k: "kw = [] \<or> name_ok kw"
  have e: "takeWhile is_word (rev kw) = rev kw" using k by (auto simp: name_ok_def list_all_iff)
  have "dropWhile is_ws (rev kw) = rev kw" using k by (cases "rev kw") (auto simp: name_ok_def list_all_iff word_plain)
  then show ?thesis by (simp add: last_word_def trim_end_def is_ws_def e)
qed

text \<open>Complete selections leave the path; what remains is text without braces.\<close>

definition settles :: "string \<Rightarrow> bool" where
  "settles u \<longleftrightarrow> (\<forall>t p x ns. brace_free t \<longrightarrow>
     (\<exists>t' y. brace_free t' \<and> (\<forall>r. scan_path (t @ u @ r) (p, x # ns) = scan_path (t' @ r) (p, y # ns))))"

lemma settlesI: "(\<And>t p x ns. brace_free t \<Longrightarrow> \<exists>t' y. brace_free t' \<and> (\<forall>r. scan_path (t @ u @ r) (p, x # ns) = scan_path (t' @ r) (p, y # ns))) \<Longrightarrow> settles u"
  by (simp add: settles_def)

lemma settlesD: "settles u \<Longrightarrow> brace_free t \<Longrightarrow>
    \<exists>t' y. brace_free t' \<and> (\<forall>r. scan_path (t @ u @ r) (p, x # ns) = scan_path (t' @ r) (p, y # ns))"
  by (simp add: settles_def)

lemma settles_list: "(\<And>u. u \<in> set us \<Longrightarrow> settles u) \<Longrightarrow> settles (concat us)"
proof (induction us)
  case Nil
  show ?case by (rule settlesI) auto
next
  case (Cons u us)
  show ?case
  proof (rule settlesI)
    fix t p x and ns :: "string list"
    assume t: "brace_free t"
    have u: "settles u" and us: "settles (concat us)" using Cons by simp_all
    obtain t1 y where 1: "brace_free t1" "\<And>r. scan_path (t @ u @ r) (p, x # ns) = scan_path (t1 @ r) (p, y # ns)"
      using settlesD[OF u t, of p x ns] by blast
    obtain t2 z where 2: "brace_free t2" "\<And>r. scan_path (t1 @ concat us @ r) (p, y # ns) = scan_path (t2 @ r) (p, z # ns)"
      using settlesD[OF us 1(1), of p y ns] by blast
    show "\<exists>t' y. brace_free t' \<and> (\<forall>r. scan_path (t @ concat (u # us) @ r) (p, x # ns) = scan_path (t' @ r) (p, y # ns))"
      using 1(2) 2 by (intro exI[of _ t2] exI[of _ z]) simp
  qed
qed

lemma settles_selection: "sel_ok s \<Longrightarrow> settles (sel_text s)"
proof (induction s)
  case (Leaf n)
  then show ?case using name_brace_free[of n]
    by (intro settlesI) (metis append.assoc brace_free_simps(2,3) sel_text.simps(1) sel_ok.simps(1) append_Cons append_Nil)
next
  case (Sub n ss)
  then have n: "brace_free n" using name_brace_free[of n] by simp
  have inner: "settles (concat (map sel_text ss))" by (rule settles_list) (use Sub in \<open>auto simp: list_all_iff\<close>)
  show ?case
  proof (rule settlesI)
    fix t p x and ns :: "string list"
    assume t: "brace_free t"
    let ?u = "t @ '' '' @ n @ '' ''"
    have u: "brace_free ?u" using t n by simp
    obtain t1 y where 1: "brace_free t1" "\<And>r. scan_path ([] @ concat (map sel_text ss) @ r) (p @ [last_word ?u], [] # ?u # ns)
        = scan_path (t1 @ r) (p @ [last_word ?u], y # ?u # ns)"
      using settlesD[OF inner brace_free_simps(1)] by blast
    have "scan_path (t @ sel_text (Sub n ss) @ r) (p, x # ns) = scan_path r (p, ?u # ns)" for r
      using scan_open[OF u, of "concat (map sel_text ss) @ '' }'' @ r" p "x # ns"] 1(2)[of "'' }'' @ r"]
        scan_close[of "t1 @ '' ''" r "p @ [last_word ?u]" "y # ?u # ns"] 1(1) by simp
    then show "\<exists>t' y. brace_free t' \<and> (\<forall>r. scan_path (t @ sel_text (Sub n ss) @ r) (p, x # ns) = scan_path (t' @ r) (p, y # ns))"
      by (intro exI[of _ "[]"] exI[of _ ?u]) simp
  qed
qed

lemma settles_selections: "list_all sel_ok ss \<Longrightarrow> settles (concat (map sel_text ss))"
  by (rule settles_list) (auto simp: list_all_iff settles_selection)

lemma scan_written:
  "list_all (\<lambda>c. list_all sel_ok (fst c) \<and> name_ok (snd c)) ctx \<Longrightarrow> list_all sel_ok done \<Longrightarrow> brace_free t \<Longrightarrow>
   fst (scan_path (t @ open_text ctx @ concat (map sel_text done) @ '' '') (p, x # ns)) = p @ map snd ctx"
proof (induction ctx arbitrary: t p x ns rule: open_text.induct)
  case 1
  obtain t' y where "brace_free t'" "\<And>r. scan_path (t @ concat (map sel_text done) @ r) (p, x # ns) = scan_path (t' @ r) (p, y # ns)"
    using settlesD[OF settles_selections[OF 1(2)] 1(3), of p x ns] by blast
  then show ?case by (simp add: scan_text)
next
  case (2 ss n ctx)
  from 2(2) have n: "name_ok n" and ss: "list_all sel_ok ss" and ctx: "list_all (\<lambda>c. list_all sel_ok (fst c) \<and> name_ok (snd c)) ctx" by simp_all
  obtain t' y where t': "brace_free t'" and s: "\<And>r. scan_path (t @ concat (map sel_text ss) @ r) (p, x # ns) = scan_path (t' @ r) (p, y # ns)"
    using settlesD[OF settles_selections[OF ss] 2(4), of p x ns] by blast
  have u: "brace_free (t' @ '' '' @ n @ '' '')" using t' name_brace_free[OF n] by simp
  have "scan_path (t @ open_text ((ss, n) # ctx) @ concat (map sel_text done) @ '' '') (p, x # ns)
      = scan_path ([] @ open_text ctx @ concat (map sel_text done) @ '' '') (p @ [n], [] # (t' @ '' '' @ n @ '' '') # ns)"
    using s[of "'' '' @ n @ '' {'' @ open_text ctx @ concat (map sel_text done) @ '' ''"] scan_open[OF u] last_word_name[OF n, of t'] by simp
  then show ?case using 2(1)[OF ctx 2(3), of "[]" "p @ [n]" "[]" "(t' @ '' '' @ n @ '' '') # ns"] by simp
qed

lemma written_path:
  assumes "kw = [] \<or> name_ok kw" and "list_all (\<lambda>c. list_all sel_ok (fst c) \<and> name_ok (snd c)) ctx" and "list_all sel_ok done"
  shows "detectFieldPath (written kw ctx done) = kw # map snd ctx"
proof -
  have free: "brace_free (kw @ '' '')" using assms(1) name_brace_free by auto
  have plain: "list_all plain_char (written kw ctx done)" by (rule written_plain[OF assms])
  have "detectFieldPath (written kw ctx done) = fst (scan_path (written kw ctx done) ([], []))"
    by (simp add: detectFieldPath_def scan_path_def stripped_plain[OF plain])
  also have "\<dots> = fst (scan_path ([] @ open_text ctx @ concat (map sel_text done) @ '' '') ([kw], [] # [kw @ '' '']))"
    using scan_open[OF free, of "open_text ctx @ concat (map sel_text done) @ '' ''" "[]" "[]"] last_word_first[OF assms(1)]
    by (simp add: written_def)
  also have "\<dots> = kw # map snd ctx" by (subst scan_written[OF assms(2,3)]) simp_all
  finally show ?thesis .
qed

lemma written_context:
  assumes "kw = [] \<or> name_ok kw" and "list_all (\<lambda>c. list_all sel_ok (fst c) \<and> name_ok (snd c)) ctx" and "list_all sel_ok done"
  shows "detectContext (written kw ctx done) = FieldContext (kw # map snd ctx)"
proof -
  have plain: "list_all plain_char (written kw ctx done)" by (rule written_plain[OF assms])
  show ?thesis
    using no_directive[OF plain] no_argument[OF plain] written_path[OF assms] by (simp add: detectContext_def detectArgumentContext_def)
qed


section \<open>Properties\<close>

lemma walk_resolve: "resolve_from typeMap (Some t) path = Some u \<Longrightarrow> list_all name_ok path \<Longrightarrow> walk_path typeMap t path = Some u"
  by (induction path arbitrary: t) (auto simp: name_ok_def field_named_def split: option.splits)

text \<open>\<^bold>\<open>C39\<close>. 
  In text that is written as an operation keyword with nested selections of names, where selections may be
  complete before the cursor at every level, the completion offers exactly the fields of the type that
  the schema store finds by following the names of the open selections from the root type of the
  operation, and \<open>__typename\<close>.
\<close>

theorem completion_offers_fields:
  assumes "kw = [] \<or> name_ok kw" and "list_all (\<lambda>c. list_all sel_ok (fst c) \<and> name_ok (snd c)) ctx" and "list_all sel_ok done"
    and "operation_root kw (ir_schema schema) = Some root" and "root \<noteq> []"
    and "resolveFieldPath (buildTypeMap schema) root (map snd ctx) = Some t" and "gt_fields t = Some fs"
  shows "provideCompletionItems (Some schema) (written kw ctx done) = buildFieldSuggestions fs (buildTypeMap schema) @ [typename_suggestion]"
proof -
  let ?tm = "buildTypeMap schema"
  have names: "list_all name_ok (map snd ctx)" using assms(2) by (auto simp: list_all_iff)
  obtain r where r: "map_of ?tm root = Some r" "resolve_from ?tm (Some r) (map snd ctx) = Some t"
  proof (cases "map_of ?tm root")
    case None
    then show ?thesis using assms(6) by (cases "map snd ctx") (simp_all add: resolveFieldPath_def)
  next
    case (Some r)
    then show ?thesis using that assms(6) by (simp add: resolveFieldPath_def)
  qed
  have "resolveParentType ?tm schema (kw # map snd ctx) = Some t"
    using assms(4,5) r(1) walk_resolve[OF r(2) names] by (simp add: resolveParentType_def)
  then show ?thesis
    using assms(7) by (simp add: provideCompletionItems_def written_context[OF assms(1-3)] context_suggestions_def Let_def)
qed

text \<open>
  With a named mutation the fields of the query type are offered: the word before the brace, which is
  looked up as the keyword, is the name of the operation.
\<close>

theorem named_mutation_offers_queries:
  assumes "name_ok name" and "js_toLowerCase name \<notin> {''mutation'', ''subscription''}"
    and "gs_queryType (ir_schema schema) = Some root" and "root \<noteq> []" and "map_of (buildTypeMap schema) root = Some t" and "gt_fields t = Some fs"
  shows "provideCompletionItems (Some schema) (''mutation '' @ name @ '' { '') = buildFieldSuggestions fs (buildTypeMap schema) @ [typename_suggestion]"
proof -
  let ?u = "''mutation '' @ name @ '' ''" and ?t = "''mutation '' @ name @ '' { ''"
  have free: "brace_free ?u" using name_brace_free[OF assms(1)] by (simp add: brace_free_def brace_of_def)
  have plain: "list_all plain_char ?t" using name_plain[OF assms(1)] by (simp add: plain_char_def)
  have scan: "scan_path ?t ([], []) = scan_path '' '' ([name], [[], ?u])"
    using scan_open[OF free, of "'' ''" "[]" "[]"] last_word_name[OF assms(1), of "''mutation''"] by simp
  have "detectFieldPath ?t = [name]"
    unfolding detectFieldPath_def stripped_plain[OF plain] scan_path_def[symmetric] scan by (simp add: scan_text)
  then have "detectContext ?t = FieldContext [name]"
    using no_directive[OF plain] no_argument[OF plain] by (simp add: detectContext_def detectArgumentContext_def)
  then show ?thesis
    using assms(2-6) by (simp add: provideCompletionItems_def context_suggestions_def Let_def resolveParentType_def operation_root_def)
qed

definition example_type :: "string \<Rightarrow> (string \<times> string) list \<Rightarrow> GqlType" where
  "example_type n fs = \<lparr> gt_kind = ''OBJECT'', gt_name = Some n, gt_description = None,
     gt_fields = Some (map (\<lambda>(f, t). \<lparr> gf_name = f, gf_description = None, gf_args = [], gf_type = GqlTypeRef ''NON_NULL'' None (Some (GqlTypeRef ''OBJECT'' (Some t) None)),
       gf_isDeprecated = False, gf_deprecationReason = None \<rparr>) fs),
     gt_inputFields = None, gt_interfaces = None, gt_enumValues = None, gt_possibleTypes = None \<rparr>"

definition example_schema :: IntrospectionResult where
  "example_schema = \<lparr> ir_schema = \<lparr> gs_queryType = Some ''Query'', gs_mutationType = Some ''Mut'', gs_subscriptionType = None,
       gs_types = [example_type ''Query'' [(''user'', ''User''), (''me'', ''User'')], example_type ''User'' [(''id'', ''ID''), (''name'', ''String'')],
         example_type ''Mut'' [(''add'', ''User'')]],
       gs_directives = [] \<rparr>, ir_fetchedAt = 0, ir_url = ''u'' \<rparr>"

text \<open>\<open>query { me { id } user { id\<close>\<close>

theorem completion_offers_fields_witness:
  "map sg_label (provideCompletionItems (Some example_schema) (written ''query'' [([Sub ''me'' [Leaf ''id'']], ''user'')] [Leaf ''id'']))
     = [''id'', ''name'', ''__typename'']"
proof -
  have t: "resolveFieldPath (buildTypeMap example_schema) ''Query'' (map snd [([Sub ''me'' [Leaf ''id'']], ''user'')])
      = Some (example_type ''User'' [(''id'', ''ID''), (''name'', ''String'')])" by code_simp
  have ok: "list_all (\<lambda>c. list_all sel_ok (fst c) \<and> name_ok (snd c)) [([Sub ''me'' [Leaf ''id'']], ''user'')]" "list_all sel_ok [Leaf ''id'']"
    "name_ok ''query''" by code_simp+
  have root: "operation_root ''query'' (ir_schema example_schema) = Some ''Query''" by code_simp
  have "provideCompletionItems (Some example_schema) (written ''query'' [([Sub ''me'' [Leaf ''id'']], ''user'')] [Leaf ''id''])
      = buildFieldSuggestions (the (gt_fields (example_type ''User'' [(''id'', ''ID''), (''name'', ''String'')]))) (buildTypeMap example_schema) @ [typename_suggestion]"
    by (rule completion_offers_fields[OF disjI2[OF ok(3)] ok(1,2) root _ t]) (simp_all add: example_type_def)
  then show ?thesis by (simp add: buildFieldSuggestions_def field_suggestion_def example_type_def typename_suggestion_def plain_suggestion_def)
qed

theorem named_mutation_offers_queries_witness:
  "map sg_label (provideCompletionItems (Some example_schema) (''mutation '' @ ''AddUser'' @ '' { '')) = [''user'', ''me'', ''__typename'']"
proof -
  have ok: "name_ok ''AddUser''" "js_toLowerCase ''AddUser'' \<notin> {''mutation'', ''subscription''}" by code_simp+
  have t: "map_of (buildTypeMap example_schema) ''Query'' = Some (example_type ''Query'' [(''user'', ''User''), (''me'', ''User'')])" by code_simp
  have "provideCompletionItems (Some example_schema) (''mutation '' @ ''AddUser'' @ '' { '')
      = buildFieldSuggestions (the (gt_fields (example_type ''Query'' [(''user'', ''User''), (''me'', ''User'')]))) (buildTypeMap example_schema) @ [typename_suggestion]"
    by (rule named_mutation_offers_queries[OF ok _ _ t]) (simp_all add: example_schema_def example_type_def)
  then show ?thesis by (simp add: buildFieldSuggestions_def field_suggestion_def example_type_def typename_suggestion_def plain_suggestion_def)
qed

end
