(* ===== verification/CaptureExport.thy ===== *)
theory CaptureExport
  imports CaptureStore CurlProps
begin

text \<open>
  What the capture panel does with an entry (\<open>src/src/components/capture/CaptureWorkspace.tsx\<close>): the message
  text for the protocol parser, the cURL command, a request in the HTTP workspace, and the list of
  entries it shows. The path and query of a parsed URL are an argument.
\<close>

section \<open>An entry as text\<close>

fun replace_first :: "string \<Rightarrow> string \<Rightarrow> string \<Rightarrow> string" where
  "replace_first pat rep [] = []"
| "replace_first pat rep (c # cs) = (if take (length pat) (c # cs) = pat then rep @ drop (length pat) (c # cs) else c # replace_first pat rep cs)"

definition http_version :: "CapturedEntry \<Rightarrow> string" where
  "http_version entry = (case ce_httpVersion entry of
     Some v \<Rightarrow> (let t = replace_first ''_'' ''.'' (replace_first ''HTTP_'' ''HTTP/'' v) in if truthy t then t else ''HTTP/1.1'')
   | None \<Rightarrow> ''HTTP/1.1'')"

definition path_and_query :: "(string \<Rightarrow> string option) \<Rightarrow> CapturedEntry \<Rightarrow> string" where
  "path_and_query path_of entry = (case path_of (ce_url entry) of Some p \<Rightarrow> p
     | None \<Rightarrow> if take 1 (ce_path entry) = ''/'' then ce_path entry else CHR ''/'' # ce_path entry)"

definition header_line :: "string \<times> string \<Rightarrow> string" where
  "header_line p = fst p @ '': '' @ snd p"

definition text_line :: "string option \<Rightarrow> string list" where
  "text_line t = (if truthy_opt t then [the t] else [])"

definition end_trimmed :: "string \<Rightarrow> string" where
  "end_trimmed t = rev (dropWhile is_ws (rev t))"

definition buildRawEntryText :: "(string \<Rightarrow> string option) \<Rightarrow> CapturedEntry \<Rightarrow> string" where
  "buildRawEntryText path_of entry = js_join [line_feed]
     ([ce_method entry @ '' '' @ path_and_query path_of entry @ '' '' @ http_version entry]
      @ map header_line (ce_requestHeaders entry) @ [[]] @ text_line (ce_requestBody entry) @ [[]]
      @ [end_trimmed (http_version entry @ '' '' @ (case ce_status entry of Some n \<Rightarrow> int_to_string n | None \<Rightarrow> ''?'') @ '' ''
           @ nullish (ce_statusText entry) [])]
      @ map header_line (ce_responseHeaders entry) @ [[]] @ text_line (ce_responseBody entry))"

definition shell_quote :: "string \<Rightarrow> string" where
  "shell_quote s = [quote1] @ js_replaceAll quote1 [quote1, backslash, quote1, quote1] s @ [quote1]"

definition entry_method :: "CapturedEntry \<Rightarrow> string" where
  "entry_method entry = js_toUpperCase (if truthy (ce_method entry) then ce_method entry else ''GET'')"

definition pseudo_header :: "string \<times> string \<Rightarrow> bool" where
  "pseudo_header p \<longleftrightarrow> take 1 (fst p) = '':''"

definition curl_entry_parts :: "CapturedEntry \<Rightarrow> string list" where
  "curl_entry_parts entry = [''curl''] @ (if entry_method entry \<noteq> ''GET'' then [''-X '' @ entry_method entry] else [])
     @ map (\<lambda>p. ''-H '' @ shell_quote (header_line p)) (filter (\<lambda>p. \<not> pseudo_header (js_toLowerCase (fst p), snd p)) (ce_requestHeaders entry))
     @ (if truthy_opt (ce_requestBody entry) then [''--data-raw '' @ shell_quote (the (ce_requestBody entry))] else [])
     @ [shell_quote (ce_url entry)]"

definition buildCurlFromEntry :: "CapturedEntry \<Rightarrow> string" where
  "buildCurlFromEntry entry = js_join ('' '' @ [backslash, line_feed] @ ''  '') (curl_entry_parts entry)"


section \<open>An entry as a request\<close>

record http_prefill =
  hp_method :: HttpMethod
  hp_url :: string
  hp_headers :: "KeyValue list"
  hp_bodyType :: BodyType
  hp_rawBody :: string

definition captured_row :: "string \<Rightarrow> string \<Rightarrow> KeyValue" where
  "captured_row k v = \<lparr> kv_key = k, kv_value = v, kv_description = None, kv_enabled = True, kv_isAuto = None \<rparr>"

definition method_of_name :: "string \<Rightarrow> HttpMethod option" where
  "method_of_name n = find (\<lambda>m. method_name m = n) [GET, POST, PUT, DELETE, PATCH, HEAD, OPTIONS]"

definition entryToHttpPrefill :: "CapturedEntry \<Rightarrow> http_prefill" where
  "entryToHttpPrefill entry = (let rawBody = nullish (ce_requestBody entry) [] in
     \<lparr> hp_method = nullish (method_of_name (entry_method entry)) GET, hp_url = ce_url entry,
       hp_headers = map (\<lambda>p. captured_row (fst p) (snd p)) (filter (\<lambda>p. \<not> pseudo_header p) (ce_requestHeaders entry)) @ [captured_row [] []],
       hp_bodyType = (if truthy rawBody then BodyRaw else BodyNone), hp_rawBody = rawBody \<rparr>)"

definition edit_in_http :: "string \<Rightarrow> string \<Rightarrow> string \<Rightarrow> CapturedEntry \<Rightarrow> app_state \<Rightarrow> app_state" where
  "edit_in_http tabId epoch reqId entry s = (let prefill = entryToHttpPrefill entry; (i, s') = addTab tabId epoch reqId Http s in
     updateHttpConfig i (\<lambda>c. (c\<lparr>rq_method := hp_method prefill, rq_url := hp_url prefill, rq_headers := hp_headers prefill,
         rq_bodyType := hp_bodyType prefill, rq_rawBody := hp_rawBody prefill,
         rq_rawContentType := (if hp_bodyType prefill = BodyRaw
            then (if truthy_opt (ce_requestContentType entry) then the (ce_requestContentType entry) else ''text/plain'') else rq_rawContentType c)\<rparr>)) s')"


section \<open>The entries shown\<close>

definition MAX_VISIBLE_CAPTURE_ENTRIES :: nat where "MAX_VISIBLE_CAPTURE_ENTRIES = 500"

definition text_includes :: "string \<Rightarrow> string \<Rightarrow> bool" where
  "text_includes s q = list_ex (\<lambda>k. take (length q) (drop k s) = q) [0..<Suc (length s)]"

definition filteredEntries :: "string \<Rightarrow> CapturedEntry list \<Rightarrow> CapturedEntry list" where
  "filteredEntries query entries = (if \<not> truthy query then entries else filter (\<lambda>e.
       text_includes (js_toLowerCase (ce_url e)) (js_toLowerCase query) \<or> text_includes (js_toLowerCase (ce_method e)) (js_toLowerCase query)
     \<or> (case ce_status e of Some n \<Rightarrow> n \<noteq> 0 \<and> text_includes (int_to_string n) query | None \<Rightarrow> False)
     \<or> text_includes (js_toLowerCase (ce_host e)) (js_toLowerCase query)) entries)"

definition visibleEntries :: "string option \<Rightarrow> CapturedEntry list \<Rightarrow> CapturedEntry list" where
  "visibleEntries selectedEntryId filtered = (let latest = take MAX_VISIBLE_CAPTURE_ENTRIES (rev filtered) in
     if \<not> truthy_opt selectedEntryId \<or> list_ex (\<lambda>e. Some (ce_id e) = selectedEntryId) latest then latest
     else (case find (\<lambda>e. Some (ce_id e) = selectedEntryId) filtered of Some e \<Rightarrow> latest @ [e] | None \<Rightarrow> latest))"


section \<open>Properties\<close>

lemma shell_part: "opt @ '' '' @ shell_quote t = render_part (CurlEscaped opt t)" if "opt \<noteq> []"
  using that by (simp add: shell_quote_def with_option_def escape_quotes_def)

lemma shell_part_url: "shell_quote t = render_part (CurlEscaped [] t)"
  by (simp add: shell_quote_def with_option_def escape_quotes_def)

definition entry_parts :: "CapturedEntry \<Rightarrow> curl_part list" where
  "entry_parts entry = [CurlPlain ''curl''] @ (if entry_method entry \<noteq> ''GET'' then [CurlPlain (''-X '' @ entry_method entry)] else [])
     @ map (\<lambda>p. CurlEscaped ''-H'' (header_line p)) (filter (\<lambda>p. \<not> pseudo_header p) (ce_requestHeaders entry))
     @ (if truthy_opt (ce_requestBody entry) then [CurlEscaped ''--data-raw'' (the (ce_requestBody entry))] else [])
     @ [CurlEscaped [] (ce_url entry)]"

lemma lower_pseudo: "pseudo_header (js_toLowerCase k, v) = pseudo_header (k, v)"
proof (cases k)
  case (Cons c cs)
  have "lower_char c = CHR '':'' \<longleftrightarrow> c = CHR '':''"
    by (cases c) (auto simp: lower_char_def is_upper_def char_between_def)
  then show ?thesis by (simp add: Cons pseudo_header_def js_toLowerCase_def)
qed (simp add: pseudo_header_def js_toLowerCase_def)

lemma render_entry: "map render_part (entry_parts entry) = curl_entry_parts entry"
  using shell_part[of "''-H''"] shell_part[of "''--data-raw''"] shell_part_url
  by (simp add: entry_parts_def curl_entry_parts_def lower_pseudo)



text \<open>The list that is shown: newest first, no entry twice, bounded, and the selected entry never missing.\<close>

theorem visible_entries_complete:
  assumes "distinct (map ce_id filtered)"
  shows "distinct (map ce_id (visibleEntries selected filtered)) \<and> length (visibleEntries selected filtered) \<le> 501
    \<and> take 500 (rev filtered) = take 500 (visibleEntries selected filtered)
    \<and> (\<forall>e \<in> set filtered. selected = Some (ce_id e) \<and> ce_id e \<noteq> [] \<longrightarrow> e \<in> set (visibleEntries selected filtered))"
proof -
  let ?latest = "take MAX_VISIBLE_CAPTURE_ENTRIES (rev filtered)"
  have latest: "distinct (map ce_id ?latest)" "set ?latest \<subseteq> set filtered"
    using assms by (simp_all add: take_map[symmetric] rev_map[symmetric] distinct_take) (auto dest: in_set_takeD)
  have same: "e = e'" if "e \<in> set filtered" "e' \<in> set filtered" "ce_id e = ce_id e'" for e e'
    using assms that by (auto simp: distinct_map inj_on_def)
  show ?thesis
  proof (cases "\<not> truthy_opt selected \<or> list_ex (\<lambda>e. Some (ce_id e) = selected) ?latest")
    case True
    then have v: "visibleEntries selected filtered = ?latest" by (auto simp: visibleEntries_def Let_def)
    have "e \<in> set ?latest" if e: "e \<in> set filtered" "selected = Some (ce_id e)" "ce_id e \<noteq> []" for e
    proof -
      have "list_ex (\<lambda>e. Some (ce_id e) = selected) ?latest" using True e by simp
      then obtain x where "x \<in> set ?latest" "ce_id x = ce_id e" using e(2) by (auto simp: list_ex_iff)
      then show ?thesis using latest(2) same[of e x] e(1) by auto
    qed
    then show ?thesis using latest(1) unfolding v by (simp add: MAX_VISIBLE_CAPTURE_ENTRIES_def)
  next
    case False
    show ?thesis
    proof (cases "find (\<lambda>e. Some (ce_id e) = selected) filtered")
      case None
      then have v: "visibleEntries selected filtered = ?latest" using False by (auto simp: visibleEntries_def Let_def)
      then show ?thesis using None latest(1) by (auto simp: find_None_iff MAX_VISIBLE_CAPTURE_ENTRIES_def)
    next
      case (Some x)
      then have x: "x \<in> set filtered" "Some (ce_id x) = selected" by (auto simp: find_Some_iff)
      have v: "visibleEntries selected filtered = ?latest @ [x]" using False Some by (auto simp: visibleEntries_def Let_def)
      have fresh: "ce_id x \<notin> ce_id ` set ?latest" using False x(2) by (auto simp: list_ex_iff)
      have long: "length ?latest = 500 \<or> set ?latest = set filtered" by (auto simp: MAX_VISIBLE_CAPTURE_ENTRIES_def min_def)
      then have full: "length ?latest = 500" using fresh x(1) by auto
      show ?thesis using latest(1) fresh x same full unfolding v by (auto simp: MAX_VISIBLE_CAPTURE_ENTRIES_def)
    qed
  qed
qed

end
