(* ===== verification/Spec2Isabelle.thy ===== *)
theory Spec2Isabelle
  imports AppStoreProps VariableProps HttpProps MockServer CaptureProps DbClientProps DbStructure WorkflowProps ByteProps
    UpdateStore Connections HistoryStore PluginStore CurlProps SqlFormatter SerialProps LoadTestProps CrossTools GraphqlProps CaptureExport
begin

text \<open>
  \<^bold>\<open>ProtoForge: a verification library for the TypeScript front end.\<close>

  ProtoForge is a desktop API workbench. Its user interface (TypeScript, under \<^verbatim>\<open>src/src\<close>) keeps
  its state in stores (\<^verbatim>\<open>stores/*.ts\<close>), whose actions call services (\<^verbatim>\<open>services/*.ts\<close>); a service
  invokes a command of the Rust backend and gets its reply, or its failure, later. Backend events
  (a mock server was hit, a request was captured, a breakpoint stopped a request) reach the stores
  through listeners. This library models the stores and services that carry the program's own
  logic and proves what makes each of them correct.

  \<^bold>\<open>How the code is read.\<close>
  \<^item> A TypeScript interface is a \<^verbatim>\<open>record\<close>, a union of literals or of tagged shapes a
    \<^verbatim>\<open>datatype\<close>. An optional or nullable field is an \<^verbatim>\<open>option\<close>. A plain object is an association
    list in insertion order (own properties only; a numeric key is not moved to the front).
  \<^item> A string is its UTF-8 bytes. Case mapping, trimming and the classes of regular expressions
    act on the ASCII range. Counters and sizes, which the code keeps far below \<open>2 ^ 53\<close>, are
    unbounded.
  \<^item> A synchronous action is a function on the store's record. An asynchronous action is cut at
    every \<^verbatim>\<open>await\<close> that matters: the part before the call (\<^verbatim>\<open>_begin\<close>, which hands out the ticket
    or generation the code compares later) and one part for each way the call ends (\<^verbatim>\<open>_done\<close>,
    \<^verbatim>\<open>_ok\<close>, \<^verbatim>\<open>_fails\<close>, \<^verbatim>\<open>_reconcile\<close>), so that any interleaving of actions is a sequence of steps.
    Where a handler awaits several calls in a row, what other handlers do in the meantime is a
    function argument of the model.
  \<^item> What is not part of the sources is a parameter: backend commands are functions to an option
    or to a sum (a failure is a value), \<^verbatim>\<open>new URL\<close> and \<^verbatim>\<open>Date.parse\<close> are the arguments \<^verbatim>\<open>url\<close> and
    \<^verbatim>\<open>date\<close>, fresh identifiers and the clock are arguments, and scripts and plugin hooks are
    functions from what they are given to what they return.

  \<^bold>\<open>Theories.\<close>
  \<^item> \<^verbatim>\<open>Prelude\<close>: the JavaScript library on strings, arrays and objects, with its lemmas.
    \<^verbatim>\<open>Interfaces\<close>: the locales that components promise to each other (dictionaries, keyed upserts,
    guarded upserts, stores driven by actions, logs bounded by count and size), each interpreted
    on the definitions of the components that provide it.
  \<^item> \<^verbatim>\<open>Json\<close>: \<^verbatim>\<open>JSON.parse\<close> and \<^verbatim>\<open>JSON.stringify\<close> as the stores use them, and their round trip. The
    parser takes fuel \<open>2 * length s + 2\<close>: every recursive call consumes a character or follows a
    call that did, so the fuel is never what stops it (shown with the round trip).
  \<^item> \<^verbatim>\<open>HttpTypes\<close>, \<^verbatim>\<open>CollectionTypes\<close>: \<^verbatim>\<open>types/http.ts\<close> and \<^verbatim>\<open>types/collections.ts\<close>.
  \<^item> \<^verbatim>\<open>Templates\<close>, \<^verbatim>\<open>RequestVariables\<close>, \<^verbatim>\<open>VariableProps\<close>: \<^verbatim>\<open>lib/requestVariables.ts\<close>. The reference
    scanner is exact for the pattern of the source; the preview of a template and the text that is
    sent agree when no name is ambiguous, and differ as proved when one is; every resolution ends;
    what a script changes is what a later request sees.
  \<^item> \<^verbatim>\<open>EnvStore\<close>, \<^verbatim>\<open>CollectionStore\<close>: \<^verbatim>\<open>stores/envStore.ts\<close>, \<^verbatim>\<open>stores/collectionStore.ts\<close>. One active
    environment at most, moves keep the item tree a forest, reordering puts an item where it was
    dropped and rolls back on failure, copying an item migrates its variables.
  \<^item> \<^verbatim>\<open>AppStore\<close>, \<^verbatim>\<open>AppInvariant\<close>, \<^verbatim>\<open>AppStoreProps\<close>: \<^verbatim>\<open>stores/appStore.ts\<close> and \<^verbatim>\<open>types/toolSession.ts\<close>.
    The reachable states, the unified tab strip, and that closing or switching a tab releases the
    resources of that tab and never a connection still in use.
  \<^item> \<^verbatim>\<open>CookieJar\<close>, \<^verbatim>\<open>SettingsStore\<close>, \<^verbatim>\<open>ActivityLog\<close>: the stores of these names. Cookies stay within
    their domain and come back to the host that set them, rehydrated settings are well typed, the
    log keeps the newest entries.
  \<^item> \<^verbatim>\<open>HttpService\<close>, \<^verbatim>\<open>HttpProps\<close>: \<^verbatim>\<open>services/httpService.ts\<close>: the token refresh as a state machine,
    the payload, script patches, plugin hooks, the cookie jar, and the order of calls of a send.
  \<^item> \<^verbatim>\<open>MockServer\<close>: \<^verbatim>\<open>stores/mockServerStore.ts\<close>, \<^verbatim>\<open>types/mockserver.ts\<close>: byte accounting of the log,
    agreement of the live log with a reload, round trip of the saved configuration.
  \<^item> \<^verbatim>\<open>CaptureStore\<close>, \<^verbatim>\<open>CaptureProps\<close>: \<^verbatim>\<open>stores/captureStore.ts\<close>, \<^verbatim>\<open>types/capture.ts\<close>: byte
    accounting, cleared entries and resumed requests never come back, the last start or stop wins.
  \<^item> \<^verbatim>\<open>DbTypes\<close>, \<^verbatim>\<open>SqlDialect\<close>, \<^verbatim>\<open>SqlProps\<close>, \<^verbatim>\<open>DbClientStore\<close>, \<^verbatim>\<open>DbClientProps\<close>, \<^verbatim>\<open>DbStructure\<close>:
    \<^verbatim>\<open>types/dbclient.ts\<close>, \<^verbatim>\<open>lib/sqlDialect.ts\<close>, \<^verbatim>\<open>stores/dbClientStore.ts\<close>. Quoted names are read back
    whatever they contain, tabs stay consistent over every order of actions and replies and keep the
    work in them, and the statements of a structure edit turn the table into the one that was drawn.
  \<^item> \<^verbatim>\<open>SqlFormatter\<close>: \<^verbatim>\<open>lib/sqlFormatter.ts\<close>: formatting changes white space and letter case only, and
    the inputs with literals and comments where it does not.
  \<^item> \<^verbatim>\<open>Workflow\<close>, \<^verbatim>\<open>WorkflowEditor\<close>, \<^verbatim>\<open>WorkflowGraph\<close>, \<^verbatim>\<open>WorkflowProps\<close>: \<^verbatim>\<open>types/workflow.ts\<close>,
    \<^verbatim>\<open>stores/workflowStore.ts\<close> and the editing logic of \<^verbatim>\<open>components/workflow/WorkflowWorkspace.tsx\<close>: every
    graph the editor holds is well formed and acyclic, the check of a new connection is exact, undo
    and redo are exact.
  \<^item> \<^verbatim>\<open>Checksums\<close>, \<^verbatim>\<open>ByteCodecs\<close>, \<^verbatim>\<open>ByteProps\<close>: the checks and byte tools of
    \<^verbatim>\<open>components/plugins/ToolboxPanel.tsx\<close>, the payload formats of \<^verbatim>\<open>services/tcpService.ts\<close> and the
    register decoding of \<^verbatim>\<open>components/tcp/ModbusPanel.tsx\<close>, on words of their width. The detection of
    burst errors is proved once in the locale \<^verbatim>\<open>shift_register\<close> and interpreted on each check.
  \<^item> \<^verbatim>\<open>Connections\<close>: \<^verbatim>\<open>lib/connectionRegistry.ts\<close> and \<^verbatim>\<open>services/tcpSessionLifecycle.ts\<close>: the nested
    registry refines one map from session and connection to label.
  \<^item> \<^verbatim>\<open>SerialEvents\<close>, \<^verbatim>\<open>SerialProps\<close>: the event buffer of \<^verbatim>\<open>services/serialService.ts\<close>: its limits and
    byte counters, one activity record for an event, and delivery in order and at most once to a
    panel that comes and goes.
  \<^item> \<^verbatim>\<open>UpdateStore\<close>, \<^verbatim>\<open>HistoryStore\<close>: the stores of these names: the order of versions, progress of an
    installation, and the pages of the history.
  \<^item> \<^verbatim>\<open>IconRegistry\<close>, \<^verbatim>\<open>PluginStore\<close>: \<^verbatim>\<open>stores/iconRegistry.ts\<close>, \<^verbatim>\<open>stores/pluginStore.ts\<close>: whatever
    plugins are installed, updated and removed, an icon that is shown passed the sanitizer.
  \<^item> \<^verbatim>\<open>JsonFields\<close>: the readers of JSON fields that several stores share. \<^verbatim>\<open>SavedRequests\<close>,
    \<^verbatim>\<open>SavedRequestProps\<close>: \<^verbatim>\<open>lib/collectionRequest.ts\<close>, opening an item in
    \<^verbatim>\<open>components/layout/Sidebar.tsx\<close>, saving in \<^verbatim>\<open>components/http/HttpWorkspace.tsx\<close> and
    \<^verbatim>\<open>SaveRequestDialog.tsx\<close>: what is stored comes back, what is not stored is named, and the mark for
    unsaved changes follows the edits.
  \<^item> \<^verbatim>\<open>UrlQuerySync\<close>: \<^verbatim>\<open>lib/urlQuerySync.ts\<close> and the handlers that keep the address and the parameter
    table equal. \<^verbatim>\<open>CurlGenerator\<close>, \<^verbatim>\<open>CurlProps\<close>: \<^verbatim>\<open>lib/curlGenerator.ts\<close>, with the word splitting of a
    POSIX shell as the reader of the generated command.
  \<^item> \<^verbatim>\<open>ToolWindows\<close>: \<^verbatim>\<open>lib/windowManager.ts\<close>, \<^verbatim>\<open>lib/toolDocking.ts\<close> and the docking handlers of
    \<^verbatim>\<open>App.tsx\<close>: a session that is popped out into a window and docked again is where it was.
  \<^item> \<^verbatim>\<open>LoadTest\<close>, \<^verbatim>\<open>LoadTestProps\<close>: \<^verbatim>\<open>lib/loadTestBridge.ts\<close> and the panel of
    \<^verbatim>\<open>components/loadtest/LoadTestWorkspace.tsx\<close>: what is started is the request that was handed over,
    but for what the panel drops or keeps from before.
  \<^item> \<^verbatim>\<open>CrossTools\<close>: \<^verbatim>\<open>lib/crossTool.ts\<close> and its callers: a mock route and a workflow from a request.
  \<^item> \<^verbatim>\<open>GraphqlSchema\<close>, \<^verbatim>\<open>GraphqlComplete\<close>, \<^verbatim>\<open>GraphqlProps\<close>: \<^verbatim>\<open>types/graphql.ts\<close>,
    \<^verbatim>\<open>stores/graphqlSchemaStore.ts\<close>, \<^verbatim>\<open>lib/graphqlMonaco.ts\<close>: the cache of schemas, and that the
    completion finds the type the cursor is in.
  \<^item> \<^verbatim>\<open>CaptureExport\<close>: the actions of \<^verbatim>\<open>components/capture/CaptureWorkspace.tsx\<close> on an entry (message
    text, cURL command, request in the HTTP workspace) and the entries it shows: the command is read
    by the shell as what was captured, and the selected entry is always among those shown.

  \<^bold>\<open>Interaction.\<close> A send (\<^verbatim>\<open>HttpService\<close>) resolves the request with the scopes of the environment
  and collection stores (\<^verbatim>\<open>RequestVariables\<close>), runs the scripts, persists what they changed through
  the same stores, takes cookies from the jar and puts the response's cookies back, and reads the
  settings. The tabs (\<^verbatim>\<open>AppStore\<close>) own the request configurations that are sent and the sessions of
  the mock server, capture, database and workflow tools, whose stores live as long as the session.
  Saving a tab writes an item of the collection store and binds the tab to it; opening the item in
  the side bar creates a tab through \<^verbatim>\<open>addTab\<close>, \<^verbatim>\<open>updateHttpConfig\<close> and \<^verbatim>\<open>updateTab\<close>
  (\<^verbatim>\<open>SavedRequests\<close>). A request is handed to the mock server, the workflow editor and the load test
  by actions that write into the stores of these tools and bring their tab to the front
  (\<^verbatim>\<open>CrossTools\<close>, \<^verbatim>\<open>LoadTest\<close>), or to the window a tool was moved to (\<^verbatim>\<open>ToolWindows\<close>). Installing
  a plugin feeds its icons to the icon registry (\<^verbatim>\<open>PluginStore\<close>).

  \<^bold>\<open>Bounds.\<close> Loops are structural recursions or functions with a measure: the eviction of serial
  events by the number of buffered events, the search of the workflow graph by the nodes not yet
  visited, resolution of variables by the names not yet on the path. Only the JSON parser has fuel.

  \<^bold>\<open>Not modelled.\<close> React components and hooks beyond the handlers named above (rendering, menus,
  focus, drag images), command wrappers with a single \<^verbatim>\<open>invoke\<close>, native windows, dialogs and the
  clipboard, the TCP, serial, WebSocket, gRPC, MQTT and video panels, the
  GraphQL explorer, the theme store, localisation, the
  Rust backend and vendored code. Code that depends on floating point, on UTF-16 units or on the
  layout of the page is left out, since the model has no faithful counterpart for it. Names that
  plain objects inherit from \<^verbatim>\<open>Object.prototype\<close> are outside the model of dictionaries.
\<close>

end
